(* ===== verification/Prelude.thy ===== *)
theory Prelude
  imports Main "HOL-Library.List_Lexorder"
begin

section \<open>Prelude: Python values, text and the generic lemmas\<close>

text \<open>
  This theory holds what every component shares:
  \<^item> \<open>str\<close>, a Python \<open>str\<close> as its list of Unicode code points (so that \<open>length\<close>, slices
    and substring tests count what Python counts); \<open>lit\<close> turns an ASCII literal into it;
  \<^item> \<open>json\<close> and \<open>dict\<close>, the values a \<open>dict[str, Any]\<close> of the program holds, with
    Python's \<open>get\<close>, item assignment, truth value and \<open>json.dumps\<close>;
  \<^item> the string methods the program uses (\<open>strip\<close>, \<open>split\<close>, \<open>join\<close>, \<open>in\<close>,
    \<open>startswith\<close>, \<open>lower\<close>);
  \<^item> lemmas on lists and dictionaries, and the collections of facts the component proofs use.
  A float is kept as the text \<open>repr\<close> prints, which is what \<open>json.dumps\<close> writes.
\<close>

named_theorems frame "fields that an operation leaves as they are"
named_theorems dict_simps "lookups in dictionaries after updates"

subsection \<open>Text\<close>

type_synonym str = "int list"

definition lit :: "string \<Rightarrow> str" where
  "lit s = map of_char s"

lemma lit_eq_iff [simp]: "lit s = lit t \<longleftrightarrow> s = t"
  unfolding lit_def by (rule inj_map_eq_map) (simp add: inj_def)

lemma lit_eq_Nil [simp]: "lit s = [] \<longleftrightarrow> s = []" "[] = lit s \<longleftrightarrow> s = []"
  by (auto simp: lit_def)

lemma lit_Nil [simp]: "lit [] = []"
  by (simp add: lit_def)

lemma length_lit [simp]: "length (lit s) = length s"
  by (simp add: lit_def)

lemma lit_append: "lit (s @ t) = lit s @ lit t"
  by (simp add: lit_def)

lemma take_lit: "take n (lit s) = lit (take n s)"
  by (simp add: lit_def take_map)

lemma drop_lit: "drop n (lit s) = lit (drop n s)"
  by (simp add: lit_def drop_map)

lemma lit_append_eq [simp]:
  "lit p @ s = lit x \<longleftrightarrow> take (length p) x = p \<and> s = lit (drop (length p) x)"
proof -
  have "lit p @ s = lit x \<longleftrightarrow> lit p = take (length p) (lit x) \<and> s = drop (length p) (lit x)"
    using append_eq_conv_conj [of "lit p" s "lit x"] by auto
  then show ?thesis by (auto simp: take_lit drop_lit)
qed

text \<open>\<open>str.isspace\<close>, the set of characters that \<open>strip\<close>, \<open>split\<close> and the class
  \<open>\s\<close> of \<open>re\<close> share.\<close>

definition is_space :: "int \<Rightarrow> bool" where
  "is_space c \<longleftrightarrow> (9 \<le> c \<and> c \<le> 13) \<or> (28 \<le> c \<and> c \<le> 32) \<or> c = 133 \<or> c = 160 \<or> c = 5760
     \<or> (8192 \<le> c \<and> c \<le> 8202) \<or> c = 8232 \<or> c = 8233 \<or> c = 8239 \<or> c = 8287 \<or> c = 12288"

definition strip :: "str \<Rightarrow> str" where
  "strip s = rev (dropWhile is_space (rev (dropWhile is_space s)))"

lemma dropWhile_stripped: "dropWhile P (rev (dropWhile P (rev (dropWhile P s)))) = rev (dropWhile P (rev (dropWhile P s)))"
proof -
  define t where "t = dropWhile P s"
  have t: "t = [] \<or> \<not> P (hd t)" unfolding t_def using hd_dropWhile by blast
  show ?thesis
  proof (cases "dropWhile P (rev t) = []")
    case False
    then obtain u where u: "t = rev (dropWhile P (rev t)) @ u"
      by (metis rev_append rev_rev_ident takeWhile_dropWhile_id)
    have "hd t = hd (rev (dropWhile P (rev t)))" using False by (metis u hd_append2 rev_is_Nil_conv)
    moreover have "t \<noteq> []" using False by auto
    ultimately have "\<not> P (hd (rev (dropWhile P (rev t))))" using t by simp
    then show ?thesis using False unfolding t_def [symmetric] by (cases "rev (dropWhile P (rev t))") auto
  next
    case True
    then show ?thesis unfolding t_def [symmetric] True by simp
  qed
qed

lemma strip_strip [simp]: "strip (strip s) = strip s"
proof -
  have "strip (strip s) = rev (dropWhile is_space (rev (rev (dropWhile is_space (rev (dropWhile is_space s))))))"
    unfolding strip_def dropWhile_stripped ..
  then show ?thesis by (simp add: strip_def)
qed

lemma strip_length: "length (strip s) \<le> length s"
  unfolding strip_def using length_dropWhile_le [of is_space] by (metis (no_types, lifting) length_rev order_trans)

function split_ws :: "str \<Rightarrow> str list" where
  "split_ws [] = []"
| "split_ws (c # cs) =
     (if is_space c then split_ws cs
      else (c # takeWhile (\<lambda>x. \<not> is_space x) cs) # split_ws (dropWhile (\<lambda>x. \<not> is_space x) cs))"
  by pat_completeness auto
termination
  by (relation "measure length") (auto simp: le_imp_less_Suc length_dropWhile_le)

fun join :: "str \<Rightarrow> str list \<Rightarrow> str" where
  "join sep [] = []"
| "join sep [x] = x"
| "join sep (x # y # ys) = x @ sep @ join sep (y # ys)"

text \<open>\<open>" ".join(s.split())\<close>\<close>

definition normalize_ws :: "str \<Rightarrow> str" where
  "normalize_ws s = join (lit '' '') (split_ws s)"

definition remove_ws :: "str \<Rightarrow> str" where
  "remove_ws s = filter (\<lambda>c. \<not> is_space c) s"

text \<open>\<open>s.split(sep)\<close> on one character\<close>

fun split_on :: "int \<Rightarrow> str \<Rightarrow> str list" where
  "split_on sep [] = [[]]"
| "split_on sep (c # cs) =
     (if c = sep then [] # split_on sep cs
      else case split_on sep cs of [] \<Rightarrow> [[c]] | w # ws \<Rightarrow> (c # w) # ws)"

text \<open>\<open>needle in hay\<close> on strings\<close>

fun contains :: "str \<Rightarrow> str \<Rightarrow> bool" where
  "contains needle [] = (needle = [])"
| "contains needle (c # cs) =
     (take (length needle) (c # cs) = needle \<or> contains needle cs)"

lemma contains_iff: "contains needle hay \<longleftrightarrow> (\<exists>pre post. hay = pre @ needle @ post)"
proof (induction hay)
  case Nil
  then show ?case by auto
next
  case (Cons c cs)
  have "take (length needle) (c # cs) = needle \<longleftrightarrow> (\<exists>post. c # cs = needle @ post)"
    by (metis append_eq_conv_conj append_take_drop_id)
  moreover have "(\<exists>pre post. c # cs = pre @ needle @ post) \<longleftrightarrow>
      (\<exists>post. c # cs = needle @ post) \<or> (\<exists>pre post. cs = pre @ needle @ post)"
    by (metis append_Cons append_Nil list.exhaust_sel list.sel(3) tl_append2)
  ultimately show ?case using Cons.IH by simp
qed

definition starts_with :: "str \<Rightarrow> str \<Rightarrow> bool" where
  "starts_with s p \<longleftrightarrow> take (length p) s = p"

lemma starts_with_append [simp]: "starts_with (p @ s) p"
  by (simp add: starts_with_def)

lemma starts_with_lit [simp]: "starts_with (lit s) (lit p) \<longleftrightarrow> take (length p) s = p"
  by (simp add: starts_with_def take_lit)

definition ends_with :: "str \<Rightarrow> str \<Rightarrow> bool" where
  "ends_with s p \<longleftrightarrow> length p \<le> length s \<and> drop (length s - length p) s = p"

definition remove_prefix :: "str \<Rightarrow> str \<Rightarrow> str" where
  "remove_prefix s p = (if starts_with s p then drop (length p) s else s)"

lemma remove_prefix_append [simp]: "remove_prefix (p @ s) p = s"
  by (simp add: remove_prefix_def)

text \<open>
  \<open>str.lower\<close> on the ASCII letters. The program lowers a text only to look for markers that are
  Chinese, or ASCII words. No other character lowers to a single ASCII letter except U+212A
  (to \<open>k\<close>) and U+0130 (to \<open>i\<close> with a combining dot), which no marker can tell apart.
\<close>

definition lower :: "str \<Rightarrow> str" where
  "lower s = map (\<lambda>c. if 65 \<le> c \<and> c \<le> 90 then c + 32 else c) s"

subsection \<open>Decimal numbers\<close>

fun nat_digits :: "nat \<Rightarrow> str" where
  "nat_digits n = (if n < 10 then [48 + int n] else nat_digits (n div 10) @ [48 + int (n mod 10)])"

declare nat_digits.simps [simp del]

definition str_of_int :: "int \<Rightarrow> str" where
  "str_of_int i = (if i < 0 then 45 # nat_digits (nat (- i)) else nat_digits (nat i))"

definition is_digit_text :: "str \<Rightarrow> bool" where
  "is_digit_text s \<longleftrightarrow> s \<noteq> [] \<and> (\<forall>c \<in> set s. 48 \<le> c \<and> c \<le> 57)"

definition int_of_text :: "str \<Rightarrow> int" where
  "int_of_text s = foldl (\<lambda>a c. 10 * a + (c - 48)) 0 s"

lemma nat_digits_range: "\<forall>c \<in> set (nat_digits n). 48 \<le> c \<and> c \<le> 57"
proof (induction n rule: nat_digits.induct)
  case (1 n)
  show ?case
  proof (cases "n < 10")
    case True
    then show ?thesis by (subst nat_digits.simps) simp
  next
    case False
    with "1.IH" show ?thesis by (subst nat_digits.simps) auto
  qed
qed

lemma nat_digits_not_Nil [simp]: "nat_digits n \<noteq> []"
  by (subst nat_digits.simps) simp

lemma is_digit_text_nat_digits [simp]: "is_digit_text (nat_digits n)"
  using nat_digits_range by (simp add: is_digit_text_def)

lemma int_of_nat_digits [simp]: "int_of_text (nat_digits n) = int n"
proof (induction n rule: nat_digits.induct)
  case (1 n)
  show ?case
  proof (cases "n < 10")
    case True
    then show ?thesis by (subst nat_digits.simps) (simp add: int_of_text_def)
  next
    case False
    with "1.IH" have "int_of_text (nat_digits (n div 10)) = int (n div 10)" by simp
    with False show ?thesis
      by (subst nat_digits.simps) (simp add: int_of_text_def zdiv_int zmod_int)
  qed
qed

lemma nat_digits_inject [simp]: "nat_digits m = nat_digits n \<longleftrightarrow> m = n"
  by (metis int_of_nat_digits of_nat_eq_iff)

lemma str_of_int_inject [simp]:
  "0 \<le> i \<Longrightarrow> 0 \<le> j \<Longrightarrow> str_of_int i = str_of_int j \<longleftrightarrow> i = j"
  by (simp add: str_of_int_def eq_nat_nat_iff)

subsection \<open>JSON values and dictionaries\<close>

datatype json =
    JNull
  | JBool bool
  | JInt int
  | JFloat str
  | JStr str
  | JArr "json list"
  | JObj "(str \<times> json) list"

type_synonym dict = "(str \<times> json) list"

text \<open>\<open>d.get(k)\<close>: a missing key and a stored \<open>None\<close> both read as \<open>None\<close>.\<close>

definition dget :: "dict \<Rightarrow> str \<Rightarrow> json" where
  "dget d k = (case map_of d k of None \<Rightarrow> JNull | Some v \<Rightarrow> v)"

definition dhas :: "dict \<Rightarrow> str \<Rightarrow> bool" where
  "dhas d k \<longleftrightarrow> map_of d k \<noteq> None"

text \<open>\<open>d[k] = v\<close>: an existing key keeps its place, a new one goes to the end.\<close>

fun dput :: "str \<Rightarrow> json \<Rightarrow> dict \<Rightarrow> dict" where
  "dput k v [] = [(k, v)]"
| "dput k v ((k', v') # d) = (if k = k' then (k, v) # d else (k', v') # dput k v d)"

lemma map_of_dput [dict_simps, simp]: "map_of (dput k v d) = (map_of d)(k \<mapsto> v)"
  by (induction d) auto

lemma dget_dput [dict_simps, simp]: "dget (dput k v d) k' = (if k = k' then v else dget d k')"
  by (simp add: dget_def)

lemma dhas_dput [dict_simps, simp]: "dhas (dput k v d) k' \<longleftrightarrow> k = k' \<or> dhas d k'"
  by (auto simp: dhas_def)

lemma dget_Nil [simp]: "dget [] k = JNull"
  by (simp add: dget_def)

lemma dget_Cons [simp]: "dget ((k, v) # d) k' = (if k = k' then v else dget d k')"
  by (simp add: dget_def)

text \<open>\<open>{**d, **e}\<close>\<close>

definition dmerge :: "dict \<Rightarrow> dict \<Rightarrow> dict" where
  "dmerge d e = fold (\<lambda>(k, v). dput k v) e d"

text \<open>\<open>{key: d[key] for key in keys if key in d}\<close>\<close>

definition dpick :: "str list \<Rightarrow> dict \<Rightarrow> dict" where
  "dpick keys d = map (\<lambda>k. (k, dget d k)) (filter (dhas d) keys)"

fun truthy :: "json \<Rightarrow> bool" where
  "truthy JNull = False"
| "truthy (JBool b) = b"
| "truthy (JInt i) = (i \<noteq> 0)"
| "truthy (JFloat r) = (r \<noteq> lit ''0.0'' \<and> r \<noteq> lit ''-0.0'')"
| "truthy (JStr s) = (s \<noteq> [])"
| "truthy (JArr xs) = (xs \<noteq> [])"
| "truthy (JObj d) = (d \<noteq> [])"

fun is_str :: "json \<Rightarrow> bool" where
  "is_str (JStr s) = True"
| "is_str _ = False"

text \<open>\<open>isinstance(v, str) and bool(v)\<close>\<close>

fun nonempty_str :: "json \<Rightarrow> bool" where
  "nonempty_str (JStr s) = (s \<noteq> [])"
| "nonempty_str _ = False"

fun the_str :: "json \<Rightarrow> str" where
  "the_str (JStr s) = s"
| "the_str _ = []"

fun is_dict :: "json \<Rightarrow> bool" where
  "is_dict (JObj d) = True"
| "is_dict _ = False"

fun the_dict :: "json \<Rightarrow> dict" where
  "the_dict (JObj d) = d"
| "the_dict _ = []"

text \<open>\<open>isinstance(v, int)\<close>: in Python \<open>bool\<close> is a subclass of \<open>int\<close>.\<close>

fun is_int :: "json \<Rightarrow> bool" where
  "is_int (JInt i) = True"
| "is_int (JBool b) = True"
| "is_int _ = False"

fun the_int :: "json \<Rightarrow> int" where
  "the_int (JInt i) = i"
| "the_int (JBool b) = (if b then 1 else 0)"
| "the_int _ = 0"

text \<open>The dictionaries among the elements of a list: \<open>[x for x in xs if isinstance(x, dict)]\<close>.\<close>

fun dicts_of :: "json list \<Rightarrow> dict list" where
  "dicts_of [] = []"
| "dicts_of (JObj d # xs) = d # dicts_of xs"
| "dicts_of (_ # xs) = dicts_of xs"

lemma dicts_of_append [simp]: "dicts_of (xs @ ys) = dicts_of xs @ dicts_of ys"
  by (induction xs rule: dicts_of.induct) auto

lemma set_dicts_of: "set (dicts_of xs) = {d. JObj d \<in> set xs}"
  by (induction xs rule: dicts_of.induct) auto

lemma dicts_of_map_JObj [simp]: "dicts_of (map JObj ds) = ds"
  by (induction ds) auto

subsection \<open>\<open>json.dumps(..., ensure_ascii=False)\<close>\<close>

definition hex_digit :: "int \<Rightarrow> int" where
  "hex_digit n = (if n < 10 then 48 + n else 87 + n)"

definition escape_char :: "int \<Rightarrow> str" where
  "escape_char c =
     (if c = 34 then [92, 34] else if c = 92 then [92, 92]
      else if c = 10 then [92, 110] else if c = 13 then [92, 114]
      else if c = 9 then [92, 116] else if c = 12 then [92, 102] else if c = 8 then [92, 98]
      else if c < 32 then [92, 117, 48, 48, hex_digit (c div 16), hex_digit (c mod 16)]
      else [c])"

definition quote :: "str \<Rightarrow> str" where
  "quote s = 34 # concat (map escape_char s) @ [34]"

fun dumps :: "str \<Rightarrow> str \<Rightarrow> json \<Rightarrow> str" where
  "dumps isep ksep JNull = lit ''null''"
| "dumps isep ksep (JBool b) = lit (if b then ''true'' else ''false'')"
| "dumps isep ksep (JInt i) = str_of_int i"
| "dumps isep ksep (JFloat r) = r"
| "dumps isep ksep (JStr s) = quote s"
| "dumps isep ksep (JArr xs) = 91 # join isep (map (dumps isep ksep) xs) @ [93]"
| "dumps isep ksep (JObj kvs) =
     123 # join isep (map (\<lambda>(k, v). quote k @ ksep @ dumps isep ksep v) kvs) @ [125]"

definition dumps_compact :: "json \<Rightarrow> str" where
  "dumps_compact = dumps (lit '','') (lit '':'')"

definition dumps_default :: "json \<Rightarrow> str" where
  "dumps_default = dumps (lit '', '') (lit '': '')"

text \<open>\<open>sort_keys=True\<close>\<close>

fun sort_json :: "json \<Rightarrow> json" where
  "sort_json (JArr xs) = JArr (map sort_json xs)"
| "sort_json (JObj kvs) = JObj (sort_key fst (map (\<lambda>(k, v). (k, sort_json v)) kvs))"
| "sort_json j = j"

definition utf8_len :: "str \<Rightarrow> int" where
  "utf8_len s = sum_list (map (\<lambda>c. if c < 128 then 1 else if c < 2048 then 2
     else if c < 65536 then 3 else 4) s)"

subsection \<open>Options and lists\<close>

definition opt_text :: "str option \<Rightarrow> json" where
  "opt_text x = (case x of None \<Rightarrow> JNull | Some s \<Rightarrow> JStr s)"

text \<open>The truth value of an optional string: \<open>None\<close> and \<open>""\<close> are both false.\<close>

definition present :: "str option \<Rightarrow> bool" where
  "present x \<longleftrightarrow> x \<noteq> None \<and> x \<noteq> Some []"

lemma present_None [simp]: "\<not> present None"
  by (simp add: present_def)

lemma present_Some [simp]: "present (Some s) \<longleftrightarrow> s \<noteq> []"
  by (simp add: present_def)

text \<open>\<open>next((x for x in xs if p(x)), None)\<close> is \<open>find p xs\<close>.\<close>

lemma find_SomeD: "find p xs = Some x \<Longrightarrow> p x \<and> x \<in> set xs"
  by (induction xs) (auto split: if_splits)

lemma find_None_iff_ex: "find p xs = None \<longleftrightarrow> \<not> (\<exists>x \<in> set xs. p x)"
  by (auto simp: find_None_iff)

lemma find_append: "find p (xs @ ys) = (case find p xs of None \<Rightarrow> find p ys | Some x \<Rightarrow> Some x)"
  by (induction xs) auto

text \<open>\<open>ys\<close> is \<open>xs\<close> with elements added at the end, all of them such that \<open>P\<close>.\<close>

definition appended :: "('a \<Rightarrow> bool) \<Rightarrow> 'a list \<Rightarrow> 'a list \<Rightarrow> bool" where
  "appended P xs ys \<longleftrightarrow> (\<exists>zs. ys = xs @ zs \<and> (\<forall>z \<in> set zs. P z))"

lemma appended_refl [simp, intro]: "appended P xs xs"
  by (simp add: appended_def)

lemma appended_trans [trans]: "appended P xs ys \<Longrightarrow> appended P ys zs \<Longrightarrow> appended P xs zs"
  by (force simp: appended_def)

lemma appended_snoc [simp, intro]: "P z \<Longrightarrow> appended P xs (xs @ [z])"
  by (simp add: appended_def)

lemma appended_subset: "appended P xs ys \<Longrightarrow> set xs \<subseteq> set ys"
  by (auto simp: appended_def)

text \<open>\<open>dict.fromkeys(xs)\<close>: the elements in the order of their first occurrence.\<close>

fun dedup :: "'a list \<Rightarrow> 'a list" where
  "dedup [] = []"
| "dedup (x # xs) = x # dedup (filter (\<lambda>y. y \<noteq> x) xs)"

lemma set_dedup [simp]: "set (dedup xs) = set xs"
  by (induction xs rule: length_induct) (case_tac xs, auto simp: le_imp_less_Suc)

text \<open>The maximum of consecutive numbers, as \<open>max(column)\<close> of a numbered table.\<close>

lemma fold_max_upto: "fold max [i..j] (k::int) = (if i \<le> j then max k j else k)"
proof (induction "nat (j - i + 1)" arbitrary: i k)
  case 0
  then show ?case by simp
next
  case (Suc n)
  then have ij: "i \<le> j" and n: "n = nat (j - (i + 1) + 1)" by linarith+
  show ?case using Suc(1) [OF n, of "max i k"] ij by (subst upto_rec1) auto
qed

end
