(* ===== verification/Lifecycle.thy ===== *)
theory Lifecycle
  imports Prelude
begin

section \<open>The lifecycle of a run\<close>

text \<open>
  \<open>backend/app/domain/agent_runtime.py\<close>: the roles, the statuses of a run and of a step, the
  decisions of the completion gate, and the table of permitted status changes with its guard
  \<open>require_valid_run_transition\<close>. The relation \<open>run_moves\<close> is one permitted change; its
  reflexive transitive closure is what a run may do in its life.
\<close>

datatype agent_role = Planner | Executor | Verifier

datatype complexity_level = L1 | L2 | L3 | L4

datatype run_status = Queued | Running | WaitingUser | Succeeded | Failed | Cancelled

datatype step_status = StepPlanned | StepRunning | StepSucceeded | StepFailed | StepSkipped

datatype verification_decision = PASS | RETRY_EXECUTOR | REPLAN | NEED_USER | FAIL

text \<open>The complexity levels are ordered as their names are, from a one-step plan to a deep loop.\<close>

definition level_rank :: "complexity_level \<Rightarrow> nat" where
  "level_rank c = (case c of L1 \<Rightarrow> 1 | L2 \<Rightarrow> 2 | L3 \<Rightarrow> 3 | L4 \<Rightarrow> 4)"

lemma level_rank_inject [simp]: "level_rank c = level_rank d \<longleftrightarrow> c = d"
  by (cases c; cases d) (simp_all add: level_rank_def)

instantiation complexity_level :: linorder
begin

definition less_eq_complexity_level :: "complexity_level \<Rightarrow> complexity_level \<Rightarrow> bool" where
  "less_eq_complexity_level c d \<longleftrightarrow> level_rank c \<le> level_rank d"

definition less_complexity_level :: "complexity_level \<Rightarrow> complexity_level \<Rightarrow> bool" where
  "less_complexity_level c d \<longleftrightarrow> level_rank c < level_rank d"

instance
  by standard (auto simp: less_eq_complexity_level_def less_complexity_level_def
      simp flip: level_rank_inject)

end

lemma UNIV_run_status: "UNIV = {Queued, Running, WaitingUser, Succeeded, Failed, Cancelled}"
  by (auto intro: run_status.exhaust)

instantiation run_status :: enum
begin

definition enum_run_status :: "run_status list" where
  "enum_run_status = [Queued, Running, WaitingUser, Succeeded, Failed, Cancelled]"

definition enum_all_run_status :: "(run_status \<Rightarrow> bool) \<Rightarrow> bool" where
  "enum_all_run_status P \<longleftrightarrow> list_all P [Queued, Running, WaitingUser, Succeeded, Failed, Cancelled]"

definition enum_ex_run_status :: "(run_status \<Rightarrow> bool) \<Rightarrow> bool" where
  "enum_ex_run_status P \<longleftrightarrow> list_ex P [Queued, Running, WaitingUser, Succeeded, Failed, Cancelled]"

instance
  by standard (simp_all add: enum_run_status_def enum_all_run_status_def enum_ex_run_status_def
      UNIV_run_status)

end

subsection \<open>The values of the enumerations\<close>

definition role_value :: "agent_role \<Rightarrow> str" where
  "role_value r = lit (case r of Planner \<Rightarrow> ''planner'' | Executor \<Rightarrow> ''executor''
     | Verifier \<Rightarrow> ''verifier'')"

definition level_value :: "complexity_level \<Rightarrow> str" where
  "level_value c = lit (case c of L1 \<Rightarrow> ''L1'' | L2 \<Rightarrow> ''L2'' | L3 \<Rightarrow> ''L3'' | L4 \<Rightarrow> ''L4'')"

definition status_value :: "run_status \<Rightarrow> str" where
  "status_value s = lit (case s of Queued \<Rightarrow> ''queued'' | Running \<Rightarrow> ''running''
     | WaitingUser \<Rightarrow> ''waiting_user'' | Succeeded \<Rightarrow> ''succeeded'' | Failed \<Rightarrow> ''failed''
     | Cancelled \<Rightarrow> ''cancelled'')"

subsection \<open>Permitted transitions\<close>

definition terminal_run_statuses :: "run_status set" where
  "terminal_run_statuses = {Succeeded, Failed, Cancelled}"

fun allowed_run_transitions :: "run_status \<Rightarrow> run_status set" where
  "allowed_run_transitions Queued = {Running, Cancelled}"
| "allowed_run_transitions Running = {WaitingUser, Succeeded, Failed, Cancelled}"
| "allowed_run_transitions WaitingUser = {Running, Failed, Cancelled}"
| "allowed_run_transitions Succeeded = {}"
| "allowed_run_transitions Failed = {}"
| "allowed_run_transitions Cancelled = {}"

definition is_terminal_run :: "run_status \<Rightarrow> bool" where
  "is_terminal_run status \<longleftrightarrow> status \<in> terminal_run_statuses"

definition can_transition_run :: "run_status \<Rightarrow> run_status \<Rightarrow> bool" where
  "can_transition_run current target \<longleftrightarrow> target \<in> allowed_run_transitions current"

text \<open>The two \<open>ValueError\<close>s of the guard, with the values their messages carry.\<close>

datatype lifecycle_error = TerminalRun run_status | InvalidTransition run_status run_status

definition require_valid_run_transition :: "run_status \<Rightarrow> run_status \<Rightarrow> lifecycle_error + unit" where
  "require_valid_run_transition current target =
     (if is_terminal_run current then Inl (TerminalRun current)
      else if \<not> can_transition_run current target then Inl (InvalidTransition current target)
      else Inr ())"

subsection \<open>The life of a run\<close>

inductive run_moves :: "run_status \<Rightarrow> run_status \<Rightarrow> bool" where
  move: "require_valid_run_transition a b = Inr () \<Longrightarrow> run_moves a b"

code_pred run_moves .

inductive_simps run_moves_iff: "run_moves a b"
inductive_cases from_terminal: "run_moves a b"

lemma run_moves_can: "run_moves a b \<longleftrightarrow> can_transition_run a b"
  by (cases a) (auto simp: run_moves_iff require_valid_run_transition_def is_terminal_run_def
      terminal_run_statuses_def can_transition_run_def)

lemma terminal_iff_stuck: "is_terminal_run a \<longleftrightarrow> (\<forall>b. \<not> run_moves a b)"
  by (cases a) (auto simp: run_moves_can can_transition_run_def is_terminal_run_def
      terminal_run_statuses_def)

lemma moves_from_terminal: "run_moves\<^sup>*\<^sup>* a b \<Longrightarrow> is_terminal_run a \<Longrightarrow> b = a"
  by (induction rule: converse_rtranclp_induct) (auto simp: terminal_iff_stuck)

lemma into_succeeded: "run_moves a Succeeded \<Longrightarrow> a = Running"
  by (cases a) (auto simp: run_moves_can can_transition_run_def)

lemma not_into_queued: "\<not> run_moves a Queued"
  by (cases a) (auto simp: run_moves_can can_transition_run_def)

lemma never_back_to_queued: "run_moves\<^sup>*\<^sup>* a Queued \<Longrightarrow> a = Queued"
  by (erule rtranclp.cases) (auto simp: not_into_queued)

lemma succeeded_through_running:
  assumes "run_moves\<^sup>*\<^sup>* a Succeeded" and "a \<noteq> Succeeded"
  shows "run_moves\<^sup>*\<^sup>* a Running \<and> run_moves Running Succeeded"
  using assms(1)
proof (cases rule: rtranclp.cases)
  case rtrancl_refl
  with assms(2) show ?thesis by simp
next
  case (rtrancl_into_rtrancl b)
  then show ?thesis using into_succeeded by auto
qed

subsection \<open>Properties\<close>

text \<open>The terminal statuses are exactly those a run never leaves: whatever sequence of permitted
  transitions is taken from a status, the run stays there precisely when the status is terminal.\<close>

theorem terminal_iff_absorbing: "{b. run_moves\<^sup>*\<^sup>* a b} = {a} \<longleftrightarrow> is_terminal_run a"
proof
  assume only: "{b. run_moves\<^sup>*\<^sup>* a b} = {a}"
  show "is_terminal_run a"
  proof (rule ccontr)
    assume "\<not> is_terminal_run a"
    then obtain b where "run_moves a b" using terminal_iff_stuck by blast
    moreover have "b = a" using only \<open>run_moves a b\<close> by blast
    ultimately have "can_transition_run a a" using run_moves_can by blast
    then show False by (cases a) (simp_all add: can_transition_run_def)
  qed
qed (use moves_from_terminal in blast)

text \<open>A run that started in another status succeeds only by a last step out of \<open>running\<close>, and
  no sequence of transitions leads back to \<open>queued\<close>.\<close>

theorem success_out_of_running:
  "{a. run_moves a Succeeded} = {Running} \<and> {a. run_moves\<^sup>*\<^sup>* a Queued} = {Queued}"
  using into_succeeded never_back_to_queued by (auto simp: run_moves_can can_transition_run_def)

end
