(* ===== verification/Schemas.thy ===== *)
theory Schemas
  imports Lifecycle
begin

section \<open>The validated values the roles exchange\<close>

text \<open>
  \<open>backend/app/services/agent_runtime/schemas.py\<close>. A pydantic model is a record; its field
  constraints and validators are a function that returns the normalised value or fails.
  \<open>validate_plan_authority\<close> is the check that gives a plan its authority, with its errors in
  the order the code raises them; \<open>plan_ok\<close> is what a plan that passes it promises.
  A \<open>model_copy\<close> does not validate, so it is a record update.
\<close>

subsection \<open>Replan state\<close>

datatype replan_reason = VerifierReplan | ToolScopeConflict | RetryContractExhausted
  | NeedUserContract | DependencyUnavailable

definition reason_value :: "replan_reason \<Rightarrow> str" where
  "reason_value r = lit (case r of VerifierReplan \<Rightarrow> ''verifier_replan''
     | ToolScopeConflict \<Rightarrow> ''tool_scope_conflict''
     | RetryContractExhausted \<Rightarrow> ''retry_contract_exhausted''
     | NeedUserContract \<Rightarrow> ''need_user_contract''
     | DependencyUnavailable \<Rightarrow> ''dependency_unavailable'')"

record replan_state =
  rs_count :: int
  rs_source_revision :: "int option"
  rs_last_reason :: "replan_reason option"
  rs_last_feedback :: "str option"
  rs_conversions :: "replan_reason list"

definition initial_replan_state :: replan_state where
  "initial_replan_state = \<lparr>rs_count = 0, rs_source_revision = None, rs_last_reason = None,
     rs_last_feedback = None, rs_conversions = []\<rparr>"

definition conversion_used :: "replan_state \<Rightarrow> replan_reason \<Rightarrow> bool" where
  "conversion_used s reason \<longleftrightarrow> reason \<in> set (rs_conversions s)"

definition requested ::
  "replan_state \<Rightarrow> replan_reason \<Rightarrow> str option \<Rightarrow> int option \<Rightarrow> int option \<Rightarrow> replan_state" where
  "requested s reason feedback source_revision count =
     (let conversions = rs_conversions s;
          conversions' =
            (if reason \<in> {RetryContractExhausted, NeedUserContract} \<and> reason \<notin> set conversions
             then conversions @ [reason] else conversions)
      in s\<lparr>rs_count := (case count of None \<Rightarrow> rs_count s + 1 | Some c \<Rightarrow> c),
           rs_source_revision := source_revision, rs_last_reason := Some reason,
           rs_last_feedback := feedback, rs_conversions := conversions'\<rparr>)"

definition reasons :: "replan_reason list" where
  "reasons = [VerifierReplan, ToolScopeConflict, RetryContractExhausted, NeedUserContract,
     DependencyUnavailable]"

definition parse_reason :: "json \<Rightarrow> replan_reason option" where
  "parse_reason v = (case v of JStr s \<Rightarrow> find (\<lambda>r. reason_value r = s) reasons | _ \<Rightarrow> None)"

lemma parse_reason_value [simp]: "parse_reason (JStr (reason_value r)) = Some r"
  by (cases r) (simp_all add: parse_reason_def reasons_def reason_value_def)

text \<open>An optional field: missing and \<open>None\<close> give \<open>Some None\<close>, a wrong value gives \<open>None\<close>.\<close>

definition parse_optional :: "(json \<Rightarrow> 'a option) \<Rightarrow> json \<Rightarrow> 'a option option" where
  "parse_optional p v = (if v = JNull then Some None else map_option Some (p v))"

fun parse_all :: "(json \<Rightarrow> 'a option) \<Rightarrow> json list \<Rightarrow> 'a list option" where
  "parse_all p [] = Some []"
| "parse_all p (v # vs) =
     (case p v of None \<Rightarrow> None | Some x \<Rightarrow> map_option ((#) x) (parse_all p vs))"

definition parse_int_in :: "int \<Rightarrow> json \<Rightarrow> int option" where
  "parse_int_in low v = (if is_int v \<and> low \<le> the_int v then Some (the_int v) else None)"

definition parse_feedback :: "json \<Rightarrow> str option" where
  "parse_feedback v = (if is_str v \<and> length (the_str v) \<le> 2000 then Some (the_str v) else None)"

definition parse_count :: "dict \<Rightarrow> int option" where
  "parse_count d =
     (if \<not> dhas d (lit ''count'') then Some 0
      else case parse_int_in 0 (dget d (lit ''count'')) of
          None \<Rightarrow> None | Some n \<Rightarrow> if n \<le> 10 then Some n else None)"

definition parse_conversions :: "dict \<Rightarrow> replan_reason list option" where
  "parse_conversions d =
     (if \<not> dhas d (lit ''conversion_reasons'') then Some []
      else case dget d (lit ''conversion_reasons'') of
          JArr vs \<Rightarrow> if length vs \<le> 10 then parse_all parse_reason vs else None
        | _ \<Rightarrow> None)"

text \<open>\<open>ReplanState.model_validate\<close>; a number given as text or as a float, which pydantic would
  convert and no dump contains, is refused here.\<close>

definition parse_replan_state :: "json \<Rightarrow> replan_state option" where
  "parse_replan_state v =
     (case v of
        JObj d \<Rightarrow>
          if \<not> fst ` set d \<subseteq> lit ` {''count'', ''source_revision'', ''last_reason'', ''last_feedback'',
              ''conversion_reasons''} then None
          else (case (parse_count d, parse_optional (parse_int_in 1) (dget d (lit ''source_revision'')),
                  parse_optional parse_reason (dget d (lit ''last_reason'')),
                  parse_optional parse_feedback (dget d (lit ''last_feedback'')), parse_conversions d) of
              (Some n, Some src, Some why, Some fb, Some conv) \<Rightarrow>
                Some \<lparr>rs_count = n, rs_source_revision = src, rs_last_reason = why, rs_last_feedback = fb,
                  rs_conversions = conv\<rparr>
            | _ \<Rightarrow> None)
      | _ \<Rightarrow> None)"

text \<open>The field constraints of \<open>ReplanState\<close>.\<close>

definition replan_state_ok :: "replan_state \<Rightarrow> bool" where
  "replan_state_ok s \<longleftrightarrow> 0 \<le> rs_count s \<and> rs_count s \<le> 10
     \<and> (\<forall>n \<in> set_option (rs_source_revision s). 1 \<le> n)
     \<and> (\<forall>f \<in> set_option (rs_last_feedback s). length f \<le> 2000)
     \<and> length (rs_conversions s) \<le> 10"

lemma requested_conversion_used:
  "reason \<in> {RetryContractExhausted, NeedUserContract} \<Longrightarrow>
   conversion_used (requested s reason f r c) reason"
  by (auto simp: requested_def conversion_used_def Let_def)

lemma requested_keeps_conversions:
  "conversion_used s q \<Longrightarrow> conversion_used (requested s reason f r c) q"
  by (auto simp: requested_def conversion_used_def Let_def)

lemma requested_distinct:
  "distinct (rs_conversions s) \<Longrightarrow> distinct (rs_conversions (requested s reason f r c))"
  by (auto simp: requested_def Let_def)

subsection \<open>Budget and task\<close>

record agent_budget =
  ab_turns :: int
  ab_tools :: int
  ab_replans :: int
  ab_wall :: int
  ab_recoveries :: int
  ab_requests :: int
  ab_input :: int
  ab_output :: int

definition budget_ok :: "agent_budget \<Rightarrow> bool" where
  "budget_ok b \<longleftrightarrow> 1 \<le> ab_turns b \<and> ab_turns b \<le> 100 \<and> 1 \<le> ab_tools b \<and> ab_tools b \<le> 200
     \<and> 0 \<le> ab_replans b \<and> ab_replans b \<le> 10 \<and> 10 \<le> ab_wall b \<and> ab_wall b \<le> 3600
     \<and> 0 \<le> ab_recoveries b \<and> ab_recoveries b \<le> 5 \<and> 1 \<le> ab_requests b \<and> ab_requests b \<le> 500
     \<and> 1000 \<le> ab_input b \<and> ab_input b \<le> 2000000
     \<and> 1000 \<le> ab_output b \<and> ab_output b \<le> 500000"

definition default_budget :: agent_budget where
  "default_budget = \<lparr>ab_turns = 12, ab_tools = 24, ab_replans = 2, ab_wall = 300,
     ab_recoveries = 1, ab_requests = 128, ab_input = 1000000, ab_output = 200000\<rparr>"

record task =
  tk_goal :: str
  tk_skills :: "str list"
  tk_context :: dict
  tk_private :: dict
  tk_exec_state :: dict
  tk_replan :: replan_state
  tk_budget :: agent_budget

text \<open>\<open>_SKILL_NAME.fullmatch\<close>: a lower-case letter and up to 63 letters, digits or hyphens.\<close>

definition skill_name_ok :: "str \<Rightarrow> bool" where
  "skill_name_ok s \<longleftrightarrow> s \<noteq> [] \<and> length s \<le> 64 \<and> 97 \<le> hd s \<and> hd s \<le> 122
     \<and> (\<forall>c \<in> set (tl s). (97 \<le> c \<and> c \<le> 122) \<or> (48 \<le> c \<and> c \<le> 57) \<or> c = 45)"

text \<open>\<open>load_typed_replan_state\<close>: the control state in the context, when there is one, replaces the
  typed one. The validator runs again whenever a task becomes a field of another model.\<close>

definition load_typed_replan_state :: "task \<Rightarrow> task option" where
  "load_typed_replan_state t =
     (let raw = dget (tk_context t) (lit ''replan_state'') in
      if raw = JNull then Some t
      else map_option (\<lambda>s. t\<lparr>tk_replan := s\<rparr>) (parse_replan_state raw))"

text \<open>The validators return \<open>None\<close> where the code raises \<open>ValueError\<close>.\<close>

definition normalize_goal :: "str \<Rightarrow> str option" where
  "normalize_goal value =
     (if length value < 1 \<or> 8000 < length value then None
      else let cleaned = strip value in if cleaned = [] then None else Some cleaned)"

definition validate_allowed_skills :: "str list \<Rightarrow> str list option" where
  "validate_allowed_skills values =
     (if length values < 1 \<or> 16 < length values then None
      else let cleaned = map strip values in
        if cleaned = [] \<or> [] \<in> set cleaned then None
        else if \<exists>v \<in> set cleaned. \<not> skill_name_ok v then None
        else if \<not> distinct cleaned then None else Some cleaned)"

text \<open>\<open>AgentTaskRequest(goal=..., allowed_skills=..., context=..., budget=...)\<close>\<close>

definition make_task :: "str \<Rightarrow> str list \<Rightarrow> dict \<Rightarrow> agent_budget \<Rightarrow> task option" where
  "make_task goal skills ctx budget =
     (case (normalize_goal goal, validate_allowed_skills skills) of
        (Some g, Some ks) \<Rightarrow> load_typed_replan_state
          \<lparr>tk_goal = g, tk_skills = ks, tk_context = ctx, tk_private = [], tk_exec_state = [],
           tk_replan = initial_replan_state, tk_budget = budget\<rparr>
      | _ \<Rightarrow> None)"

lemma validate_allowed_skills_Some:
  assumes "validate_allowed_skills vs = Some cs"
  shows "distinct cs" and "\<forall>v \<in> set cs. skill_name_ok v" and "cs \<noteq> []" and "length cs \<le> 16"
  using assms by (auto simp: validate_allowed_skills_def Let_def split: if_splits)

subsection \<open>Plan steps\<close>

datatype input_kind = ContextInput | ArtifactInput

record step_input_ref =
  si_kind :: input_kind
  si_name :: str
  si_from :: "str option"
  si_type :: "str option"

definition validate_source :: "step_input_ref \<Rightarrow> step_input_ref option" where
  "validate_source r =
     (if si_kind r = ArtifactInput \<and> \<not> present (si_from r) then None
      else if si_kind r = ContextInput \<and> si_from r \<noteq> None then None
      else if si_kind r = ContextInput \<and> si_type r \<noteq> None then None else Some r)"

record step_output_ref =
  so_name :: str
  so_type :: "str option"

record plan_step =
  ps_id :: str
  ps_objective :: str
  ps_skills :: "str list"
  ps_criteria :: "str list"
  ps_verify :: bool
  ps_depends :: "str list"
  ps_inputs :: "step_input_ref list"
  ps_outputs :: "step_output_ref list"

definition normalize_required_text :: "str \<Rightarrow> str option" where
  "normalize_required_text value = (let cleaned = strip value in if cleaned = [] then None else Some cleaned)"

definition validate_step_skills :: "str list \<Rightarrow> str list option" where
  "validate_step_skills values =
     (let cleaned = map strip values in
      if cleaned = [] \<or> (\<exists>v \<in> set cleaned. \<not> skill_name_ok v) then None
      else if \<not> distinct cleaned then None else Some cleaned)"

definition normalize_success_criteria :: "str list \<Rightarrow> str list option" where
  "normalize_success_criteria values =
     (let cleaned = filter (\<lambda>v. v \<noteq> []) (map strip values) in
      if length cleaned \<noteq> length values then None else Some cleaned)"

definition validate_dependencies :: "str list \<Rightarrow> str list option" where
  "validate_dependencies values =
     (let cleaned = map strip values in
      if [] \<in> set cleaned then None else if \<not> distinct cleaned then None else Some cleaned)"

text \<open>The field constraints of \<open>StepInputRef\<close> and \<open>StepOutputRef\<close>.\<close>

definition input_fields_ok :: "step_input_ref \<Rightarrow> bool" where
  "input_fields_ok r \<longleftrightarrow> 1 \<le> length (si_name r) \<and> length (si_name r) \<le> 100
     \<and> (\<forall>f \<in> set_option (si_from r). length f \<le> 80) \<and> (\<forall>t \<in> set_option (si_type r). length t \<le> 100)"

definition output_fields_ok :: "step_output_ref \<Rightarrow> bool" where
  "output_fields_ok r \<longleftrightarrow> 1 \<le> length (so_name r) \<and> length (so_name r) \<le> 100
     \<and> (\<forall>t \<in> set_option (so_type r). length t \<le> 100)"

text \<open>The constructor \<open>PlanStep(...)\<close>: lengths first, then the validators.\<close>

definition make_plan_step :: "plan_step \<Rightarrow> plan_step option" where
  "make_plan_step s =
     (if length (ps_id s) < 1 \<or> 80 < length (ps_id s) \<or> length (ps_objective s) < 1
         \<or> 2000 < length (ps_objective s) \<or> length (ps_skills s) < 1 \<or> 8 < length (ps_skills s)
         \<or> 12 < length (ps_criteria s) \<or> 20 < length (ps_depends s) \<or> 20 < length (ps_inputs s)
         \<or> 20 < length (ps_outputs s) then None
      else case (normalize_required_text (ps_id s), normalize_required_text (ps_objective s),
             validate_step_skills (ps_skills s), normalize_success_criteria (ps_criteria s),
             validate_dependencies (ps_depends s)) of
        (Some i, Some obj, Some sk, Some cr, Some dep) \<Rightarrow>
          if \<exists>r \<in> set (ps_inputs s). validate_source r = None \<or> \<not> input_fields_ok r then None
          else if \<exists>r \<in> set (ps_outputs s). \<not> output_fields_ok r then None
          else Some (s\<lparr>ps_id := i, ps_objective := obj, ps_skills := sk, ps_criteria := cr,
                      ps_depends := dep\<rparr>)
      | _ \<Rightarrow> None)"

subsection \<open>Execution plans\<close>

record execution_plan =
  ep_task :: task
  ep_created_by :: agent_role
  ep_complexity :: complexity_level
  ep_criteria :: "str list"
  ep_steps :: "plan_step list"

datatype plan_error =
    NotByPlanner
  | DuplicateStepIds
  | SelfDependency
  | UnknownDependencies "str list"
  | LaterDependency
  | UnknownInputStep str
  | InputNotInDependsOn
  | SkillNotAllowed "str list"
  | NeedsDeliverableStep
  | BadPlanFields
  | BadTask

text \<open>
  The five markers of \<open>_ALREADY_COLLECTED_MARKERS\<close> (``already collected'', ``recently
  collected'', ``candidate positions'', ``these positions'', ``collected positions'').
\<close>

definition already_collected_markers :: "str list" where
  "already_collected_markers =
     [[24050, 25910, 38598], [26368, 36817, 25910, 38598], [20505, 36873, 23703, 20301],
      [36825, 20123, 23703, 20301], [25910, 38598, 30340, 23703, 20301]]"

definition has_candidate_urls :: "task \<Rightarrow> bool" where
  "has_candidate_urls t =
     (case dget (tk_context t) (lit ''candidate_urls'') of
        JArr xs \<Rightarrow> (\<exists>x \<in> set xs. is_str x \<and> strip (the_str x) \<noteq> [])
      | _ \<Rightarrow> False)"

definition validate_collected_goal :: "execution_plan \<Rightarrow> plan_error option" where
  "validate_collected_goal p =
     (if \<not> has_candidate_urls (ep_task p) then None
      else if \<not> (\<exists>m \<in> set already_collected_markers. contains m (tk_goal (ep_task p))) then None
      else if \<exists>s \<in> set (ep_steps p). lit ''job-discovery'' \<notin> set (ps_skills s) then None
      else Some NeedsDeliverableStep)"

definition position :: "str list \<Rightarrow> str \<Rightarrow> nat" where
  "position ids x = length (takeWhile (\<lambda>y. y \<noteq> x) ids)"

fun check_inputs :: "str list \<Rightarrow> plan_step \<Rightarrow> step_input_ref list \<Rightarrow> plan_error option" where
  "check_inputs ids s [] = None"
| "check_inputs ids s (r # rs) =
     (if present (si_from r) \<and> the (si_from r) \<notin> set ids then Some (UnknownInputStep (the (si_from r)))
      else if present (si_from r) \<and> the (si_from r) \<notin> set (ps_depends s) then Some InputNotInDependsOn
      else check_inputs ids s rs)"

definition check_step :: "str list \<Rightarrow> nat \<Rightarrow> plan_step \<Rightarrow> plan_error option" where
  "check_step ids index s =
     (if ps_id s \<in> set (ps_depends s) then Some SelfDependency
      else if \<exists>d \<in> set (ps_depends s). d \<notin> set ids
        then Some (UnknownDependencies (sort (dedup (filter (\<lambda>d. d \<notin> set ids) (ps_depends s)))))
      else if \<exists>d \<in> set (ps_depends s). index \<le> position ids d then Some LaterDependency
      else check_inputs ids s (ps_inputs s))"

fun check_steps :: "str list \<Rightarrow> nat \<Rightarrow> plan_step list \<Rightarrow> plan_error option" where
  "check_steps ids index [] = None"
| "check_steps ids index (s # ss) =
     (case check_step ids index s of Some e \<Rightarrow> Some e | None \<Rightarrow> check_steps ids (Suc index) ss)"

fun check_skills :: "str list \<Rightarrow> plan_step list \<Rightarrow> plan_error option" where
  "check_skills permitted [] = None"
| "check_skills permitted (s # ss) =
     (if \<exists>k \<in> set (ps_skills s). k \<notin> set permitted
      then Some (SkillNotAllowed (sort (dedup (filter (\<lambda>k. k \<notin> set permitted) (ps_skills s)))))
      else check_skills permitted ss)"

definition validate_plan_authority :: "execution_plan \<Rightarrow> plan_error option" where
  "validate_plan_authority p =
     (if ep_created_by p \<noteq> Planner then Some NotByPlanner
      else let ids = map ps_id (ep_steps p) in
        if \<not> distinct ids then Some DuplicateStepIds
        else case check_steps ids 0 (ep_steps p) of
            Some e \<Rightarrow> Some e
          | None \<Rightarrow>
              (case check_skills (tk_skills (ep_task p)) (ep_steps p) of
                 Some e \<Rightarrow> Some e
               | None \<Rightarrow> validate_collected_goal p))"

text \<open>The constructor \<open>ExecutionPlan(...)\<close> over steps that are plan steps already.\<close>

definition make_execution_plan ::
  "task \<Rightarrow> agent_role \<Rightarrow> complexity_level \<Rightarrow> str list \<Rightarrow> plan_step list \<Rightarrow> plan_error + execution_plan" where
  "make_execution_plan t role level criteria steps =
     (if length criteria < 1 \<or> 20 < length criteria \<or> length steps < 1 \<or> 20 < length steps
         \<or> [] \<in> set (map strip criteria) then Inl BadPlanFields
      else case load_typed_replan_state t of
          None \<Rightarrow> Inl BadTask
        | Some t' \<Rightarrow>
            let p = \<lparr>ep_task = t', ep_created_by = role, ep_complexity = level,
                     ep_criteria = map strip criteria, ep_steps = steps\<rparr>
            in case validate_plan_authority p of Some e \<Rightarrow> Inl e | None \<Rightarrow> Inr p)"

subsection \<open>What a valid plan promises\<close>

text \<open>The promise for the step at position \<open>i\<close>: it depends only on earlier steps, reads
  artifacts only from steps it depends on, and uses only skills of the task.\<close>

definition step_ok :: "execution_plan \<Rightarrow> nat \<Rightarrow> bool" where
  "step_ok p i \<longleftrightarrow> (let s = ep_steps p ! i in
     set (ps_depends s) \<subseteq> set (take i (map ps_id (ep_steps p)))
     \<and> (\<forall>r \<in> set (ps_inputs s). present (si_from r) \<longrightarrow> the (si_from r) \<in> set (ps_depends s))
     \<and> set (ps_skills s) \<subseteq> set (tk_skills (ep_task p)))"

definition plan_ok :: "execution_plan \<Rightarrow> bool" where
  "plan_ok p \<longleftrightarrow> ep_created_by p = Planner \<and> distinct (map ps_id (ep_steps p))
     \<and> (\<forall>i < length (ep_steps p). step_ok p i) \<and> validate_collected_goal p = None"

lemma position_less_iff:
  assumes "x \<in> set ids"
  shows "position ids x < i \<longleftrightarrow> x \<in> set (take i ids)"
  using assms
proof (induction ids arbitrary: i)
  case Nil
  then show ?case by simp
next
  case (Cons y ids)
  then show ?case by (cases i) (auto simp: position_def)
qed

lemma check_inputs_None:
  "check_inputs ids s rs = None \<longleftrightarrow>
    (\<forall>r \<in> set rs. present (si_from r) \<longrightarrow>
       the (si_from r) \<in> set ids \<and> the (si_from r) \<in> set (ps_depends s))"
  by (induction rs) auto

lemma check_skills_None:
  "check_skills permitted ss = None \<longleftrightarrow> (\<forall>s \<in> set ss. set (ps_skills s) \<subseteq> set permitted)"
  by (induction ss) auto

lemma check_step_None:
  assumes "distinct ids" and "i < length ids" and "ps_id s = ids ! i"
  shows "check_step ids i s = None \<longleftrightarrow>
    set (ps_depends s) \<subseteq> set (take i ids)
    \<and> (\<forall>r \<in> set (ps_inputs s). present (si_from r) \<longrightarrow> the (si_from r) \<in> set (ps_depends s))"
    (is "?L \<longleftrightarrow> ?R")
proof -
  have sub: "set (take i ids) \<subseteq> set ids"
    by (rule set_take_subset)
  have notin: "ids ! i \<notin> set (take i ids)"
    using assms(1,2) by (auto simp: in_set_conv_nth nth_eq_iff_index_eq)
  have self: "set (ps_depends s) \<subseteq> set (take i ids) \<Longrightarrow> ps_id s \<notin> set (ps_depends s)"
    using notin assms(3) by auto
  have early: "(\<forall>d \<in> set (ps_depends s). d \<in> set ids) \<and>
      \<not> (\<exists>d \<in> set (ps_depends s). i \<le> position ids d) \<longleftrightarrow>
      set (ps_depends s) \<subseteq> set (take i ids)"
    using sub position_less_iff by (auto simp: not_le subset_iff)
  show ?thesis
    using self early sub by (auto simp: check_step_def check_inputs_None)
qed

lemma check_steps_None:
  assumes "distinct ids" and "map ps_id ss = drop i ids"
  shows "check_steps ids i ss = None \<longleftrightarrow>
    (\<forall>k < length ss. check_step ids (i + k) (ss ! k) = None)"
  using assms
proof (induction ss arbitrary: i)
  case Nil
  then show ?case by simp
next
  case (Cons s ss)
  have "map ps_id ss = drop (Suc i) ids"
    using Cons.prems(2) by (metis drop_Suc list.map_sel(2) list.sel(3) list.simps(3) tl_drop)
  then have IH: "check_steps ids (Suc i) ss = None \<longleftrightarrow>
      (\<forall>k < length ss. check_step ids (Suc i + k) (ss ! k) = None)"
    by (rule Cons.IH [OF Cons.prems(1)])
  show ?case
    by (auto simp: IH All_less_Suc2 split: option.splits)
qed

lemma validate_plan_authority_iff: "validate_plan_authority p = None \<longleftrightarrow> plan_ok p"
proof -
  define ids where "ids = map ps_id (ep_steps p)"
  have steps: "check_steps ids 0 (ep_steps p) = None \<longleftrightarrow>
      (\<forall>i < length (ep_steps p). check_step ids i (ep_steps p ! i) = None)" if "distinct ids"
    using check_steps_None [OF that, of "ep_steps p" 0] by (simp add: ids_def)
  have each: "check_step ids i (ep_steps p ! i) = None \<longleftrightarrow>
      set (ps_depends (ep_steps p ! i)) \<subseteq> set (take i ids)
      \<and> (\<forall>r \<in> set (ps_inputs (ep_steps p ! i)). present (si_from r) \<longrightarrow>
            the (si_from r) \<in> set (ps_depends (ep_steps p ! i)))"
    if "distinct ids" "i < length (ep_steps p)" for i
    using check_step_None [OF that(1), of i "ep_steps p ! i"] that(2) by (simp add: ids_def)
  have skills: "check_skills (tk_skills (ep_task p)) (ep_steps p) = None \<longleftrightarrow>
      (\<forall>i < length (ep_steps p). set (ps_skills (ep_steps p ! i)) \<subseteq> set (tk_skills (ep_task p)))"
    by (simp add: check_skills_None all_set_conv_all_nth)
  have both: "check_steps ids 0 (ep_steps p) = None
      \<and> check_skills (tk_skills (ep_task p)) (ep_steps p) = None
      \<longleftrightarrow> (\<forall>i < length (ep_steps p). step_ok p i)" if "distinct ids"
    using steps [OF that] each [OF that] skills by (auto simp: step_ok_def Let_def ids_def)
  have "validate_plan_authority p = None \<longleftrightarrow> ep_created_by p = Planner \<and> distinct ids
      \<and> (check_steps ids 0 (ep_steps p) = None
          \<and> check_skills (tk_skills (ep_task p)) (ep_steps p) = None)
      \<and> validate_collected_goal p = None"
    by (auto simp: validate_plan_authority_def Let_def ids_def split: option.splits)
  then show ?thesis
    unfolding plan_ok_def using both by (auto simp: ids_def)
qed

lemma make_execution_plan_ok:
  assumes "make_execution_plan t r l cs ss = Inr p"
  shows "plan_ok p" and "load_typed_replan_state t = Some (ep_task p)" and "ep_steps p = ss" and "ss \<noteq> []"
    and "ep_complexity p = l" and "ep_criteria p = map strip cs"
  using assms validate_plan_authority_iff [of p]
  by (auto simp: make_execution_plan_def Let_def split: if_splits option.splits)

subsection \<open>Observations and results\<close>

datatype obs_status = ObsSucceeded | ObsFailed

record observation =
  ob_tool :: str
  ob_status :: obs_status
  ob_output :: "dict option"
  ob_error :: "str option"
  ob_message :: "str option"

definition validate_outcome :: "observation \<Rightarrow> bool" where
  "validate_outcome o1 \<longleftrightarrow>
     (ob_status o1 = ObsSucceeded \<longrightarrow> ob_output o1 \<noteq> None) \<and>
     (ob_status o1 = ObsFailed \<longrightarrow> present (ob_error o1))"

text \<open>The constructor \<open>ToolObservation(...)\<close>: its field constraints and its validator.\<close>

definition make_observation :: "observation \<Rightarrow> observation option" where
  "make_observation o1 =
     (if 1 \<le> length (ob_tool o1) \<and> length (ob_tool o1) \<le> 64
         \<and> (\<forall>m \<in> set_option (ob_message o1). length m \<le> 500) \<and> validate_outcome o1
      then Some o1 else None)"

lemma make_observation_Some: "make_observation o1 = Some o2 \<longleftrightarrow>
    o2 = o1 \<and> 1 \<le> length (ob_tool o1) \<and> length (ob_tool o1) \<le> 64
    \<and> (\<forall>m \<in> set_option (ob_message o1). length m \<le> 500) \<and> validate_outcome o1"
  by (auto simp: make_observation_def)

text \<open>\<open>observation.output or {}\<close>\<close>

definition output_of :: "observation \<Rightarrow> dict" where
  "output_of o1 = (case ob_output o1 of None \<Rightarrow> [] | Some d \<Rightarrow> d)"

datatype exec_status = ExecSucceeded | ExecNeedsUser | ExecFailed

record executor_result =
  ex_status :: exec_status
  ex_summary :: "str option"
  ex_refs :: "dict list"
  ex_obs :: "observation list"
  ex_question :: "str option"
  ex_error :: "str option"
  ex_state :: dict

definition executor_result_ok :: "executor_result \<Rightarrow> bool" where
  "executor_result_ok r \<longleftrightarrow>
     (ex_status r = ExecSucceeded \<longrightarrow> present (ex_summary r)) \<and>
     (ex_status r = ExecNeedsUser \<longrightarrow> present (ex_question r))"

datatype planner_status = PlanMade | PlanNeedsUser | PlanFailed

record planner_result =
  pr_status :: planner_status
  pr_plan :: "execution_plan option"
  pr_obs :: "observation list"
  pr_question :: "str option"
  pr_error :: "str option"

text \<open>
  \<open>PlannerResult(...)\<close>: besides its own shape it runs the plan's \<open>after\<close> validator again
  on the instance it is given; the plan's field constraints are not checked again.
\<close>

definition make_planner_result :: "planner_result \<Rightarrow> planner_result option" where
  "make_planner_result r =
     (if pr_status r = PlanMade \<and> pr_plan r = None then None
      else if pr_status r = PlanNeedsUser \<and> \<not> present (pr_question r) then None
      else case pr_plan r of
          None \<Rightarrow> Some r
        | Some p \<Rightarrow> if validate_plan_authority p = None then Some r else None)"

datatype decision =
    CallTool str dict
  | PlanDecision complexity_level "str list" "plan_step list"
  | NeedUserDecision str

subsection \<open>JSON forms (\<open>model_dump(mode="json")\<close>)\<close>

definition strs :: "str list \<Rightarrow> json" where
  "strs xs = JArr (map JStr xs)"

definition input_ref_json :: "step_input_ref \<Rightarrow> json" where
  "input_ref_json r = JObj
     [(lit ''kind'', JStr (lit (case si_kind r of ContextInput \<Rightarrow> ''context'' | ArtifactInput \<Rightarrow> ''artifact''))),
      (lit ''name'', JStr (si_name r)), (lit ''from_step'', opt_text (si_from r)),
      (lit ''artifact_type'', opt_text (si_type r))]"

definition output_ref_json :: "step_output_ref \<Rightarrow> json" where
  "output_ref_json r = JObj [(lit ''name'', JStr (so_name r)), (lit ''artifact_type'', opt_text (so_type r))]"

definition plan_step_json :: "plan_step \<Rightarrow> json" where
  "plan_step_json s = JObj
     [(lit ''step_id'', JStr (ps_id s)), (lit ''objective'', JStr (ps_objective s)),
      (lit ''allowed_skills'', strs (ps_skills s)), (lit ''success_criteria'', strs (ps_criteria s)),
      (lit ''requires_verification'', JBool (ps_verify s)), (lit ''depends_on'', strs (ps_depends s)),
      (lit ''inputs'', JArr (map input_ref_json (ps_inputs s))),
      (lit ''outputs'', JArr (map output_ref_json (ps_outputs s)))]"

definition budget_json :: "agent_budget \<Rightarrow> json" where
  "budget_json b = JObj
     [(lit ''max_agent_turns'', JInt (ab_turns b)), (lit ''max_tool_calls'', JInt (ab_tools b)),
      (lit ''max_replans'', JInt (ab_replans b)), (lit ''max_wall_clock_seconds'', JInt (ab_wall b)),
      (lit ''max_auto_recoveries'', JInt (ab_recoveries b)),
      (lit ''max_model_requests'', JInt (ab_requests b)),
      (lit ''max_input_tokens'', JInt (ab_input b)), (lit ''max_output_tokens'', JInt (ab_output b))]"

text \<open>The private context, the execution state and the replan state are excluded from a dump.\<close>

definition task_json :: "task \<Rightarrow> json" where
  "task_json t = JObj
     [(lit ''goal'', JStr (tk_goal t)), (lit ''allowed_skills'', strs (tk_skills t)),
      (lit ''context'', JObj (tk_context t)), (lit ''budget'', budget_json (tk_budget t))]"

definition plan_json :: "execution_plan \<Rightarrow> json" where
  "plan_json p = JObj
     [(lit ''task'', task_json (ep_task p)), (lit ''created_by'', JStr (role_value (ep_created_by p))),
      (lit ''complexity'', JStr (level_value (ep_complexity p))),
      (lit ''success_criteria'', strs (ep_criteria p)),
      (lit ''steps'', JArr (map plan_step_json (ep_steps p)))]"

definition replan_state_json :: "replan_state \<Rightarrow> json" where
  "replan_state_json s = JObj
     [(lit ''count'', JInt (rs_count s)),
      (lit ''source_revision'', (case rs_source_revision s of None \<Rightarrow> JNull | Some r \<Rightarrow> JInt r)),
      (lit ''last_reason'', (case rs_last_reason s of None \<Rightarrow> JNull | Some r \<Rightarrow> JStr (reason_value r))),
      (lit ''last_feedback'', opt_text (rs_last_feedback s)),
      (lit ''conversion_reasons'', strs (map reason_value (rs_conversions s)))]"

lemma parse_all_map: "(\<And>x. p (f x) = Some x) \<Longrightarrow> parse_all p (map f xs) = Some xs"
  by (induction xs) auto

lemma parse_replan_state_json: "replan_state_ok s \<Longrightarrow> parse_replan_state (replan_state_json s) = Some s"
  by (cases s; cases "rs_source_revision s"; cases "rs_last_reason s"; cases "rs_last_feedback s")
    (simp_all add: parse_replan_state_def replan_state_json_def replan_state_ok_def parse_count_def
      parse_optional_def parse_int_in_def parse_feedback_def parse_conversions_def dhas_def strs_def
      opt_text_def parse_all_map [of parse_reason "\<lambda>r. JStr (reason_value r)", simplified comp_def] comp_def)

subsection \<open>Properties\<close>

text \<open>C38: The plan validator accepts exactly the plans the documentation describes: distinct step
  ids, dependencies on earlier steps only, artifact inputs from declared dependencies, and no skill
  beyond those the task allows.\<close>

theorem plan_authority_exact: "validate_plan_authority p = None \<longleftrightarrow> plan_ok p"
  by (rule validate_plan_authority_iff)

text \<open>A replan request remembers the conversions that may happen only once in a run: it adds its
  reason when it is one of the two, and forgets none.\<close>

theorem conversions_remembered:
  "conversion_used (requested s reason f r c) q \<longleftrightarrow>
     conversion_used s q \<or> q = reason \<and> reason \<in> {RetryContractExhausted, NeedUserContract}"
  by (auto simp: requested_def conversion_used_def Let_def)

end
