(* ===== verification/ErrorPolicy.thy ===== *)
theory ErrorPolicy
  imports Schemas
begin

section \<open>Error classification and terminal contracts\<close>

text \<open>
  \<open>backend/app/services/agent_runtime/error_policy.py\<close>: the terminal contract that explains
  why a run waits or ended, and the policy that classifies an error code as retryable or not.
  A \<open>frozenset\<close> is a set, a tuple a list. \<open>isdigit\<close> is taken on ASCII digits.
\<close>

subsection \<open>\<open>str(value)\<close> of a JSON value\<close>

text \<open>Characters beyond ASCII are taken as printable.\<close>

definition repr_char :: "int \<Rightarrow> int \<Rightarrow> str" where
  "repr_char q c = (if c = 92 then [92, 92] else if c = q then [92, c] else if c = 10 then [92, 110]
     else if c = 13 then [92, 114] else if c = 9 then [92, 116]
     else if c < 32 \<or> c = 127 then [92, 120, hex_digit (c div 16), hex_digit (c mod 16)] else [c])"

definition repr_str :: "str \<Rightarrow> str" where
  "repr_str s = (let q = (if 39 \<in> set s \<and> 34 \<notin> set s then 34 else 39)
                 in q # concat (map (repr_char q) s) @ [q])"

fun py_repr :: "json \<Rightarrow> str" where
  "py_repr JNull = lit ''None''"
| "py_repr (JBool b) = lit (if b then ''True'' else ''False'')"
| "py_repr (JInt i) = str_of_int i"
| "py_repr (JFloat r) = r"
| "py_repr (JStr s) = repr_str s"
| "py_repr (JArr xs) = 91 # join (lit '', '') (map py_repr xs) @ [93]"
| "py_repr (JObj d) =
     123 # join (lit '', '') (map (\<lambda>(k, v). repr_str k @ lit '': '' @ py_repr v) d) @ [125]"

definition py_str :: "json \<Rightarrow> str" where
  "py_str v = (case v of JStr s \<Rightarrow> s | _ \<Rightarrow> py_repr v)"

subsection \<open>Terminal contracts\<close>

datatype failure_class = ExternalBlocked | UpstreamToolFailure | ContractViolation | NoProgress
  | ModelOutputInvalid | ModelDecision | BudgetExhausted

definition failure_value :: "failure_class \<Rightarrow> str" where
  "failure_value c = lit (case c of ExternalBlocked \<Rightarrow> ''external_blocked''
     | UpstreamToolFailure \<Rightarrow> ''upstream_tool_failure''
     | ContractViolation \<Rightarrow> ''contract_or_policy_error''
     | NoProgress \<Rightarrow> ''no_progress_duplicate''
     | ModelOutputInvalid \<Rightarrow> ''model_output_invalid''
     | ModelDecision \<Rightarrow> ''model_or_verifier_decision''
     | BudgetExhausted \<Rightarrow> ''budget_exhausted'')"

record terminal_contract =
  tc_class :: failure_class
  tc_reason :: str
  tc_role :: str
  tc_phase :: str
  tc_resumable :: bool
  tc_retry :: bool
  tc_replan :: bool
  tc_action :: str
  tc_met :: bool
  tc_blocked :: bool
  tc_count :: int
  tc_diag :: "dict option"

definition as_payload :: "terminal_contract \<Rightarrow> dict" where
  "as_payload c =
     [(lit ''contract_version'', JStr (lit ''terminal.v1'')),
      (lit ''failure_class'', JStr (failure_value (tc_class c))),
      (lit ''reason_code'', JStr (tc_reason c)),
      (lit ''source_role'', JStr (tc_role c)),
      (lit ''phase'', JStr (tc_phase c)),
      (lit ''resumable'', JBool (tc_resumable c)),
      (lit ''retry_allowed'', JBool (tc_retry c)),
      (lit ''replan_allowed'', JBool (tc_replan c)),
      (lit ''user_action'', JStr (tc_action c)),
      (lit ''evidence'', JObj [(lit ''contract_met'', JBool (tc_met c)),
         (lit ''blocked'', JBool (tc_blocked c)), (lit ''artifact_count'', JInt (tc_count c))])]
     @ (case tc_diag c of None \<Rightarrow> [] | Some d \<Rightarrow> [(lit ''evidence_diagnostics'', JObj d)])"

text \<open>The error codes one observation carries: its own, those of its failed parts, and the
  reason of a blocked output.\<close>

definition json_in :: "json \<Rightarrow> string list \<Rightarrow> bool" where
  "json_in v names \<longleftrightarrow> v \<in> set (map (\<lambda>n. JStr (lit n)) names)"

lemma json_in_JNull [simp]: "\<not> json_in JNull names"
  by (auto simp: json_in_def)

definition failure_codes :: "dict \<Rightarrow> str list" where
  "failure_codes output =
     (case dget output (lit ''failures'') of
        JArr fs \<Rightarrow> map the_str (filter is_str (map (\<lambda>f. dget f (lit ''error_code'')) (dicts_of fs)))
      | _ \<Rightarrow> [])"

definition observation_codes :: "observation \<Rightarrow> str list" where
  "observation_codes o1 =
     (if present (ob_error o1) then [the (ob_error o1)] else [])
     @ (case ob_output o1 of
          None \<Rightarrow> []
        | Some output \<Rightarrow> failure_codes output
            @ (if json_in (dget output (lit ''status'')) [''blocked'', ''needs_manual_review'']
               then [let reason = dget output (lit ''reason'')
                     in py_str (if truthy reason then reason else dget output (lit ''status''))]
               else []))"

definition nested_error_codes :: "observation list \<Rightarrow> str list" where
  "nested_error_codes obs = concat (map observation_codes obs)"

definition http_prefix :: str where
  "http_prefix = lit ''adapter:http_error:''"

definition external_codes :: "str set" where
  "external_codes = lit ` {''anti_bot'', ''anti_bot_challenge'', ''captcha'', ''login_required'',
     ''access_denied'', ''domain_temporarily_blocked'', ''needs_manual_review'', ''ocr_disabled''}"

definition external_adapter_codes :: "str set" where
  "external_adapter_codes = lit ` {''adapter:url_not_allowlisted'', ''adapter:empty_result'',
     ''adapter:malformed_payload'', ''adapter:adapter_error'', ''adapter:adapter_unknown'',
     ''adapter:adapter_invalid'', ''adapter:allowlist_missing''}"

definition is_external_terminal_code :: "str \<Rightarrow> bool" where
  "is_external_terminal_code code =
     (if code \<in> external_codes then True
      else if code \<in> external_adapter_codes then True
      else if starts_with code http_prefix then
        (let status = remove_prefix code http_prefix
         in is_digit_text status \<and> 400 \<le> int_of_text status \<and> int_of_text status < 500
            \<and> status \<notin> lit ` {''408'', ''429''})
      else False)"

definition contract_codes :: "str set" where
  "contract_codes = lit ` {''invalid_tool_input'', ''tool_skill_forbidden'', ''unknown_tool'',
     ''tool_role_forbidden'', ''verification_failed'', ''success_contract_not_satisfied'',
     ''observed_evidence_not_found'', ''public_page_content_insufficient''}"

definition no_progress_codes :: "str set" where
  "no_progress_codes = lit ` {''duplicate_tool_call'', ''candidate_urls_already_supplied'',
     ''route_already_consumed'', ''repeated_plan_fingerprint'', ''no_progress_duplicate''}"

definition upstream_codes :: "str set" where
  "upstream_codes = lit ` {''sheet_rate_limited'', ''sheet_call_failed'', ''sheet_bridge_unavailable'',
     ''source_unavailable'', ''public_search_failed'', ''public_fetch_failed'', ''search_empty''}"

text \<open>The code a contract reports: an external block anywhere in the list wins over the first one.\<close>

definition terminal_code :: "str option \<Rightarrow> observation list \<Rightarrow> str" where
  "terminal_code error_code obs =
     (let codes = (if present error_code then [the error_code] else []) @ nested_error_codes obs;
          code = (case find (\<lambda>c. c \<noteq> []) codes of None \<Rightarrow> lit ''need_user'' | Some c \<Rightarrow> c)
      in case find is_external_terminal_code codes of None \<Rightarrow> code | Some c \<Rightarrow> c)"

definition classify_terminal :: "str \<Rightarrow> failure_class \<times> string" where
  "classify_terminal code =
     (if is_external_terminal_code code
        then (ExternalBlocked, ''provide_public_job_url_or_jd_text'')
      else if code \<in> contract_codes then (ContractViolation, ''provide_missing_tool_input'')
      else if code \<in> no_progress_codes then (NoProgress, ''provide_alternate_public_source'')
      else if code = lit ''invalid_model_response''
        then (ModelOutputInvalid, ''retry_model_or_provide_information'')
      else if code \<in> upstream_codes then (UpstreamToolFailure, ''provide_alternate_public_source'')
      else if ends_with code (lit ''budget_exhausted'') \<or> code = lit ''wall_clock_budget_exhausted''
        then (BudgetExhausted, ''retry_within_a_new_budget_window'')
      else (ModelDecision, ''provide_missing_information''))"

text \<open>The argument \<open>contract_met\<close> is accepted and, as in the source, not used.\<close>

definition build_terminal_contract ::
  "str option \<Rightarrow> observation list \<Rightarrow> string \<Rightarrow> string \<Rightarrow> bool \<Rightarrow> int \<Rightarrow> dict option
    \<Rightarrow> terminal_contract" where
  "build_terminal_contract error_code obs role phase contract_met count diag =
     (let code = terminal_code error_code obs; (cls, action) = classify_terminal code
      in \<lparr>tc_class = cls, tc_reason = code, tc_role = lit role, tc_phase = lit phase,
          tc_resumable = True, tc_retry = False, tc_replan = False, tc_action = lit action,
          tc_met = False, tc_blocked = (cls = ExternalBlocked), tc_count = count,
          tc_diag = diag\<rparr>)"

subsection \<open>Error policy\<close>

datatype error_disposition = Retryable | Blocked | Permanent | InvalidAction | HumanRequired

record error_policy =
  po_blocked :: "str set"
  po_human :: "str set"
  po_permanent :: "str set"
  po_invalid :: "str set"
  po_transient :: "str set"
  po_prefixes :: "str list"
  po_http :: "str set"

definition classify_text :: "error_policy \<Rightarrow> str \<Rightarrow> error_disposition" where
  "classify_text po code =
     (if code = [] then Retryable
      else if code \<in> po_human po then HumanRequired
      else if code \<in> po_invalid po then InvalidAction
      else if code \<in> po_permanent po then Permanent
      else if starts_with code http_prefix then
        (if remove_prefix code http_prefix \<in> po_http po then Blocked else Retryable)
      else if code \<in> po_transient po then Retryable
      else if code \<in> po_blocked po then Blocked
      else if \<exists>p \<in> set (po_prefixes po). starts_with code p then Blocked
      else Retryable)"

definition classify_error :: "error_policy \<Rightarrow> str option \<Rightarrow> error_disposition" where
  "classify_error po code = (case code of None \<Rightarrow> Retryable | Some c \<Rightarrow> classify_text po c)"

definition policy_blocked :: "error_policy \<Rightarrow> str option \<Rightarrow> bool" where
  "policy_blocked po code \<longleftrightarrow> classify_error po code \<in> {Blocked, HumanRequired, Permanent}"

definition empty_policy :: error_policy where
  "empty_policy = \<lparr>po_blocked = {}, po_human = {}, po_permanent = {}, po_invalid = {},
     po_transient = {}, po_prefixes = [], po_http = {}\<rparr>"

definition default_error_policy :: error_policy where
  "default_error_policy = empty_policy\<lparr>
     po_human := lit ` {''login_required'', ''captcha'', ''anti_bot'', ''anti_bot_challenge''},
     po_blocked := lit ` {''access_denied'', ''unsafe_public_url''},
     po_invalid := lit ` {''unknown_tool'', ''tool_role_forbidden'', ''tool_skill_forbidden'',
       ''invalid_tool_input''},
     po_transient := lit ` {''public_fetch_failed'', ''public_search_failed'',
       ''public_host_unresolvable''}\<rparr>"

definition merge_error_policies :: "error_policy list \<Rightarrow> error_policy" where
  "merge_error_policies ps =
     \<lparr>po_blocked = \<Union> (set (map po_blocked ps)), po_human = \<Union> (set (map po_human ps)),
      po_permanent = \<Union> (set (map po_permanent ps)), po_invalid = \<Union> (set (map po_invalid ps)),
      po_transient = \<Union> (set (map po_transient ps)),
      po_prefixes = dedup (concat (map po_prefixes ps)), po_http = \<Union> (set (map po_http ps))\<rparr>"

subsection \<open>Lemmas\<close>

lemma tc_met_never [simp]: "tc_met (build_terminal_contract e obs r p m n d) = False"
  by (simp add: build_terminal_contract_def Let_def split_beta)

lemma tc_simps [simp]:
  "tc_reason (build_terminal_contract e obs r p m n d) = terminal_code e obs"
  "tc_resumable (build_terminal_contract e obs r p m n d) = True"
  "tc_blocked (build_terminal_contract e obs r p m n d)
     \<longleftrightarrow> is_external_terminal_code (terminal_code e obs)"
  by (simp_all add: build_terminal_contract_def classify_terminal_def Let_def split_beta)

lemma terminal_code_external:
  "is_external_terminal_code (terminal_code e obs) \<longleftrightarrow>
   present e \<and> is_external_terminal_code (the e)
   \<or> (\<exists>c \<in> set (nested_error_codes obs). is_external_terminal_code c)"
proof -
  define codes where "codes = (if present e then [the e] else []) @ nested_error_codes obs"
  have need: "\<not> is_external_terminal_code (lit ''need_user'')"
    by (simp add: is_external_terminal_code_def external_codes_def external_adapter_codes_def
        http_prefix_def starts_with_def lit_def)
  have tc: "terminal_code e obs =
      (case find is_external_terminal_code codes of
         None \<Rightarrow> (case find (\<lambda>c. c \<noteq> []) codes of None \<Rightarrow> lit ''need_user'' | Some c \<Rightarrow> c)
       | Some c \<Rightarrow> c)"
    unfolding terminal_code_def codes_def Let_def by (rule refl)
  have "is_external_terminal_code (terminal_code e obs) \<longleftrightarrow>
      (\<exists>c \<in> set codes. is_external_terminal_code c)"
  proof (cases "find is_external_terminal_code codes")
    case (Some c)
    then show ?thesis using find_SomeD [OF Some] by (auto simp: tc)
  next
    case None
    then have "\<forall>c \<in> set codes. \<not> is_external_terminal_code c"
      by (simp add: find_None_iff_ex)
    moreover have "terminal_code e obs \<in> set codes \<or> terminal_code e obs = lit ''need_user''"
      using None by (auto simp: tc split: option.splits dest: find_SomeD)
    ultimately show ?thesis using need by auto
  qed
  then show ?thesis by (auto simp: codes_def)
qed

lemma terminal_code_None_Nil [simp]: "terminal_code None [] = lit ''need_user''"
  by (simp add: terminal_code_def nested_error_codes_def)

lemma terminal_code_Some_Nil [simp]: "c \<noteq> [] \<Longrightarrow> terminal_code (Some c) [] = c"
  by (simp add: terminal_code_def nested_error_codes_def Let_def)

lemma as_payload_get [simp]:
  "dget (as_payload c) (lit ''contract_version'') = JStr (lit ''terminal.v1'')"
  "dget (as_payload c) (lit ''reason_code'') = JStr (tc_reason c)"
  "dget (as_payload c) (lit ''resumable'') = JBool (tc_resumable c)"
  "dget (as_payload c) (lit ''evidence'') = JObj [(lit ''contract_met'', JBool (tc_met c)),
     (lit ''blocked'', JBool (tc_blocked c)), (lit ''artifact_count'', JInt (tc_count c))]"
  by (simp_all add: as_payload_def)

text \<open>A merge keeps every code of its parts in its class, and human-required codes win.\<close>

lemma merge_human:
  "c \<noteq> [] \<Longrightarrow> p \<in> set ps \<Longrightarrow> c \<in> po_human p \<Longrightarrow>
   classify_text (merge_error_policies ps) c = HumanRequired"
  by (auto simp: classify_text_def merge_error_policies_def)

lemma policy_blocked_None [simp]: "\<not> policy_blocked po None" "\<not> policy_blocked po (Some [])"
  by (simp_all add: policy_blocked_def classify_error_def classify_text_def)

subsection \<open>Properties\<close>

text \<open>The reason of a terminal contract is external, and the contract marked as blocked, exactly
  when the error code is external or one of the codes nested in the observations is.\<close>

theorem contract_blocked_exact:
  "tc_blocked (build_terminal_contract e obs role phase met n d) \<longleftrightarrow>
     present e \<and> is_external_terminal_code (the e)
     \<or> (\<exists>c \<in> set (nested_error_codes obs). is_external_terminal_code c)"
  by (simp add: terminal_code_external)

end
