(* ===== verification/Messages.thy ===== *)
theory Messages
  imports Prelude
begin

section \<open>The texts the program shows\<close>

text \<open>
  The Chinese messages and marker words of the source, as code points. Each is the literal of
  the program; the comment above it says in English what it tells.
\<close>

text \<open>``deterministic delivery contract satisfied''\<close>

definition gate_pass_msg :: str where
"gate_pass_msg = [30830, 23450, 24615, 20132, 20184, 22865, 32422, 24050, 28385, 36275, 12290]"

text \<open>``step evidence is blocked by access restrictions; please confirm''\<close>

definition gate_blocked_msg :: str where
"gate_blocked_msg = [27493, 39588, 35777, 25454, 34987, 35775, 38382, 38480, 21046, 38459,
     26029, 65288, 30331, 24405, 47, 39564, 35777, 30721, 47, 21453, 29228, 31561, 65289, 65292,
     35831, 20154, 24037, 30830, 35748, 12290]"

text \<open>``deliverable meets the contract but the terminal summary is missing''\<close>

definition gate_summary_msg :: str where
"gate_summary_msg = [20132, 20184, 29289, 28385, 36275, 22865, 32422, 20294, 32456, 31471,
     24635, 32467, 32570, 22833, 65292, 35831, 20154, 24037, 30830, 35748, 20135, 20986, 12290]"

text \<open>``deliverable does not meet the contract; retry with more tool output''\<close>

definition gate_retry_msg :: str where
"gate_retry_msg = [20132, 20184, 29289, 26410, 28385, 36275, 30830, 23450, 24615, 20132, 20184,
     22865, 32422, 65292, 35831, 34917, 20805, 24037, 20855, 20135, 20986, 21518, 37325, 35797,
     12290]"

text \<open>``the planner repeated an executed plan''\<close>

definition duplicate_plan_msg :: str where
"duplicate_plan_msg = [80, 108, 97, 110, 110, 101, 114, 32, 37325, 22797, 29983, 25104, 20102,
     24050, 32463, 25191, 34892, 36807, 30340, 35745, 21010, 65292, 32487, 32493, 25191, 34892,
     19981, 20250, 20135, 29983, 26032, 35777, 25454, 12290, 35831, 34917, 20805, 20449, 24687,
     25110, 25552, 20379, 20854, 20182, 20844, 24320, 23703, 20301, 26469, 28304, 12290]"

text \<open>``automatic replans are used up''\<close>

definition replans_exhausted_msg :: str where
"replans_exhausted_msg = [33258, 21160, 37325, 35268, 21010, 27425, 25968, 24050, 29992, 23613,
     65292, 24403, 21069, 32467, 26524, 20173, 32570, 23569, 21487, 26680, 39564, 35777, 25454,
     12290, 35831, 34917, 20805, 26032, 30340, 20844, 24320, 23703, 20301, 26469, 28304, 25110,
     32570, 22833, 26465, 20214, 21518, 37325, 35797, 12290]"

text \<open>``model output malformed, the step cannot go on''\<close>

definition exec_invalid_msg :: str where
"exec_invalid_msg = [27169, 22411, 36755, 20986, 26684, 24335, 24322, 24120, 65292, 26080,
     27861, 32487, 32493, 25191, 34892, 35813, 27493, 39588, 12290, 35831, 34917, 20805, 20449,
     24687, 25110, 37325, 35797, 12290]"

text \<open>``completed by deterministic tool recovery''\<close>

definition recovered_summary_msg :: str where
"recovered_summary_msg = [24050, 30001, 30830, 23450, 24615, 24037, 20855, 24674, 22797, 24182,
     23436, 25104, 27493, 39588, 20132, 20184, 12290]"

text \<open>``the skill scope cannot run the tool the model chose''\<close>

definition scope_feedback_msg :: str where
"scope_feedback_msg = [24403, 21069, 27493, 39588, 30340, 32, 83, 107, 105, 108, 108, 32, 33539,
     22260, 26080, 27861, 25191, 34892, 27169, 22411, 36873, 25321, 30340, 24037, 20855, 65307,
     35831, 23558, 35745, 21010, 25286, 20998, 20026, 27599, 27493, 19968, 20010, 32, 83, 107,
     105, 108, 108, 32, 21518, 37325, 35797, 12290]"

text \<open>``skill scope conflict, replan requested''\<close>

definition scope_summary_msg :: str where
"scope_summary_msg = [27493, 39588, 32, 83, 107, 105, 108, 108, 32, 33539, 22260, 20914, 31361,
     65292, 24050, 20572, 27490, 37325, 22797, 24037, 20855, 35843, 29992, 24182, 35831, 27714,
     37325, 35268, 21010, 12290]"

text \<open>``target JD does not match the requested role''\<close>

definition role_feedback_msg :: str where
"role_feedback_msg = [30446, 26631, 32, 74, 68, 32, 19982, 29992, 25143, 35831, 27714, 30340,
     23703, 20301, 35282, 33394, 19981, 21305, 37197, 65307, 35831, 20808, 36890, 36807, 24050,
     22788, 29702, 20505, 36873, 32, 85, 82, 76, 32, 25110, 20844, 24320, 25628, 32034, 21457,
     29616, 35282, 33394, 21305, 37197, 30340, 32, 74, 68, 65292, 20877, 25191, 34892, 21518,
     32493, 32844, 19994, 20132, 20184, 12290]"

text \<open>``role mismatch, rediscovery requested''\<close>

definition role_summary_msg :: str where
"role_summary_msg = [30446, 26631, 23703, 20301, 35282, 33394, 19981, 21305, 37197, 65292,
     24050, 35831, 27714, 37325, 26032, 21457, 29616, 21305, 37197, 35777, 25454, 12290]"

text \<open>``executor gave no parseable terminal and the contract is unmet''\<close>

definition unparsed_feedback_msg :: str where
"unparsed_feedback_msg = [25191, 34892, 22120, 26410, 36755, 20986, 21487, 35299, 26512, 30340,
     23436, 25104, 32456, 24577, 19988, 20132, 20184, 22865, 32422, 26410, 28385, 36275, 65307,
     35831, 37325, 32452, 35813, 27493, 39588, 12289, 32553, 23567, 33539, 22260, 25110, 26356,
     25442, 20132, 20184, 36335, 32447, 12290]"

text \<open>``executor terminal not parseable''\<close>

definition unparsed_summary_msg :: str where
"unparsed_summary_msg = [25191, 34892, 22120, 32456, 24577, 19981, 21487, 35299, 26512, 32]"

text \<open>``run time exhausted, step not finished''\<close>

definition exec_wall_msg :: str where
"exec_wall_msg = [36816, 34892, 26102, 38388, 39044, 31639, 32791, 23613, 65288, 27169, 22411,
     21709, 24212, 20559, 24930, 65289, 65292, 35813, 27493, 39588, 23578, 26410, 23436, 25104,
     12290, 24674, 22797, 36816, 34892, 23558, 33719, 24471, 26032, 30340, 26102, 38388, 31383,
     21475, 32487, 32493, 12290]"

text \<open>``deliverable rejected by the completion gate''\<close>

definition rejected_feedback_msg :: str where
"rejected_feedback_msg = [20132, 20184, 29289, 26410, 36890, 36807, 23436, 25104, 38376, 31105,
     65306, 24037, 20855, 26410, 20135, 29983, 21487, 26680, 39564, 30340, 20132, 20184, 29289,
     65292, 35831, 37325, 32452, 35813, 27493, 39588, 20197, 20135, 29983, 28385, 36275, 22865,
     32422, 30340, 20027, 32, 97, 114, 116, 105, 102, 97, 99, 116, 12290]"

text \<open>``deliverable rejected by the completion gate''\<close>

definition rejected_summary_msg :: str where
"rejected_summary_msg = [20132, 20184, 29289, 26410, 36890, 36807, 23436, 25104, 38376, 31105,
     32]"

text \<open>``tools produced no verifiable deliverable''\<close>

definition unverifiable_msg :: str where
"unverifiable_msg = [24037, 20855, 26410, 20135, 29983, 21487, 26680, 39564, 30340, 20132,
     20184, 29289, 65292, 24403, 21069, 24635, 32467, 19981, 33021, 35270, 20026, 23436, 25104,
     12290, 35831, 25552, 20379, 21487, 20844, 24320, 35775, 38382, 30340, 23703, 20301, 39029,
     38754, 25110, 34917, 20805, 24517, 35201, 20449, 24687, 21518, 37325, 35797, 12290]"

text \<open>``run time exhausted, output not verified''\<close>

definition verify_wall_msg :: str where
"verify_wall_msg = [36816, 34892, 26102, 38388, 39044, 31639, 32791, 23613, 65288, 27169, 22411,
     21709, 24212, 20559, 24930, 65289, 65292, 27493, 39588, 20135, 20986, 24453, 26680, 39564,
     12290, 24674, 22797, 36816, 34892, 23558, 33719, 24471, 26032, 30340, 26102, 38388, 31383,
     21475, 23436, 25104, 26680, 39564, 12290]"

text \<open>``PASS rejected by the deterministic contract''\<close>

definition pass_rejected_msg :: str where
"pass_rejected_msg = [86, 101, 114, 105, 102, 105, 101, 114, 32, 30340, 32, 80, 65, 83, 83, 32,
     26410, 36890, 36807, 32, 83, 107, 105, 108, 108, 32, 30340, 30830, 23450, 24615, 20132,
     20184, 22865, 32422, 65292, 19981, 33021, 23558, 35813, 27493, 39588, 26631, 35760, 20026,
     23436, 25104, 12290, 35831, 34917, 20805, 24037, 20855, 20135, 20986, 25110, 20154, 24037,
     30830, 35748, 21518, 37325, 35797, 12290]"

text \<open>``retry produced no new evidence''\<close>

definition no_progress_head_msg :: str where
"no_progress_head_msg = [86, 101, 114, 105, 102, 105, 101, 114, 32, 37325, 35797, 27809, 26377,
     20135, 29983, 26032, 30340, 24037, 20855, 35777, 25454, 65292, 32487, 32493, 35843, 29992,
     23558, 37325, 22797, 24403, 21069, 22833, 36133, 36335, 24452, 12290]"

text \<open>``current feedback:''\<close>

definition feedback_open_msg :: str where
"feedback_open_msg = [24403, 21069, 21453, 39304, 65306]"

text \<open>``full stop''\<close>

definition full_stop_msg :: str where
"full_stop_msg = [12290]"

text \<open>``give a new source or the missing fields''\<close>

definition no_progress_tail_msg :: str where
"no_progress_tail_msg = [35831, 25552, 20379, 26032, 30340, 23703, 20301, 26469, 28304, 25110,
     34917, 20805, 32570, 22833, 23383, 27573, 21518, 37325, 35797, 12290]"

text \<open>``evidence blocked, retry cannot get new evidence''\<close>

definition downgrade_head_msg :: str where
"downgrade_head_msg = [27493, 39588, 35777, 25454, 34987, 35775, 38382, 38480, 21046, 38459,
     26029, 65288, 30331, 24405, 47, 39564, 35777, 30721, 47, 21453, 29228, 47, 79, 67, 82, 32,
     26410, 21551, 29992, 31561, 65289, 65292, 33258, 21160, 37325, 35797, 26080, 27861, 21462,
     24471, 26032, 35777, 25454, 65306]"

text \<open>``confirm by hand or give a public page''\<close>

definition downgrade_tail_msg :: str where
"downgrade_tail_msg = [12290, 35831, 20154, 24037, 30830, 35748, 35813, 26469, 28304, 30340,
     23703, 20301, 20449, 24687, 65292, 25110, 25552, 20379, 21487, 20844, 24320, 35775, 38382,
     30340, 39029, 38754, 21518, 37325, 35797, 12290]"

text \<open>``still not verified after retries''\<close>

definition retries_head_msg :: str where
"retries_head_msg = [22810, 27425, 37325, 35797, 21518, 20173, 26410, 36890, 36807, 26680,
     39564, 65306]"

text \<open>``confirm by hand or add the missing information''\<close>

definition retries_tail_msg :: str where
"retries_tail_msg = [12290, 35831, 20154, 24037, 30830, 35748, 20135, 20986, 65292, 25110,
     34917, 20805, 32570, 22833, 20449, 24687, 21518, 37325, 35797, 12290]"

text \<open>``verifier judged the output insufficient''\<close>

definition fail_head_msg :: str where
"fail_head_msg = [86, 101, 114, 105, 102, 105, 101, 114, 32, 21028, 23450, 24403, 21069, 20135,
     20986, 19981, 28385, 36275, 20219, 21153, 35201, 27714, 65306]"

text \<open>``add job evidence and retry''\<close>

definition fail_default_msg :: str where
"fail_default_msg = [35831, 34917, 20805, 23703, 20301, 35777, 25454, 21518, 37325, 35797,
     12290]"

text \<open>``run time exhausted, no plan''\<close>

definition planner_wall_msg :: str where
"planner_wall_msg = [36816, 34892, 26102, 38388, 39044, 31639, 32791, 23613, 65288, 27169,
     22411, 21709, 24212, 20559, 24930, 65289, 65292, 26080, 27861, 29983, 25104, 25191, 34892,
     35745, 21010, 12290, 24674, 22797, 36816, 34892, 23558, 33719, 24471, 26032, 30340, 26102,
     38388, 31383, 21475, 37325, 35797, 12290]"

text \<open>``model output malformed, no plan''\<close>

definition planner_invalid_msg :: str where
"planner_invalid_msg = [27169, 22411, 36755, 20986, 26684, 24335, 24322, 24120, 65292, 26080,
     27861, 29983, 25104, 25191, 34892, 35745, 21010, 12290, 35831, 37325, 35797, 65292, 25110,
     34917, 20805, 23703, 20301, 47, 26465, 20214, 20449, 24687, 21518, 37325, 26032, 21457,
     36215, 12290]"

text \<open>``completed''\<close>

definition scan_head_msg :: str where
"scan_head_msg = [24050, 23436, 25104]"

text \<open>``complete paged check of the official public search''\<close>

definition scan_mid_msg :: str where
"scan_mid_msg = [23448, 26041, 20844, 24320, 25628, 32034, 30340, 23436, 25972, 20998, 39029,
     26680, 39564, 65307, 26410, 25214, 21040, 28385, 36275, 29992, 25143, 30828, 32422, 26463,
     30340, 25307, 32856, 24086, 12290, 20219, 21153, 21407, 22987, 33539, 22260, 65306]"

text \<open>``recent''\<close>

definition recent_open_msg :: str where
"recent_open_msg = [26368, 36817]"

text \<open>``days''\<close>

definition recent_close_msg :: str where
"recent_close_msg = [22825]"

text \<open>``the given window''\<close>

definition given_window_msg :: str where
"given_window_msg = [25351, 23450, 26102, 38388, 31383]"

text \<open>``Juejin''\<close>

definition juejin_msg :: str where
"juejin_msg = [31232, 22303, 25496, 37329]"

text \<open>``the given public source''\<close>

definition given_source_msg :: str where
"given_source_msg = [25351, 23450, 20844, 24320, 26469, 28304]"

text \<open>``generated plan violates the constraints''\<close>

definition plan_invalid_question_msg :: str where
"plan_invalid_question_msg = [27169, 22411, 29983, 25104, 30340, 25191, 34892, 35745, 21010,
     19981, 31526, 21512, 36816, 34892, 32422, 26463, 65292, 35831, 37325, 35797, 25110, 34917,
     20805, 24517, 35201, 20449, 24687, 12290]"

text \<open>``generated plan has incompatible artifact types''\<close>

definition plan_ports_question_msg :: str where
"plan_ports_question_msg = [27169, 22411, 29983, 25104, 30340, 25191, 34892, 35745, 21010,
     21253, 21547, 19981, 20860, 23481, 30340, 32, 97, 114, 116, 105, 102, 97, 99, 116, 32,
     31867, 22411, 65292, 35831, 37325, 35797, 12290]"

text \<open>``no plan for the goal within the available skills''\<close>

definition plan_skills_question_msg :: str where
"plan_skills_question_msg = [24403, 21069, 21487, 29992, 25216, 33021, 33539, 22260, 20869,
     26080, 27861, 20026, 35813, 30446, 26631, 29983, 25104, 28385, 36275, 36816, 34892, 32422,
     26463, 30340, 25191, 34892, 35745, 21010, 65288, 24050, 25910, 38598, 23703, 20301, 30446,
     26631, 38656, 35201, 21305, 37197, 47, 31616, 21382, 23450, 21046, 31561, 20132, 20184,
     27493, 39588, 65289, 65292, 35831, 34917, 20805, 35828, 26126, 25110, 25913, 29992, 21487,
     29992, 25216, 33021, 12290]"

text \<open>``fetch and normalise traceable JD evidence from candidate URLs''\<close>

definition discover_objective_msg :: str where
"discover_objective_msg = [20174, 20505, 36873, 20844, 24320, 32, 85, 82, 76, 32, 25235, 21462,
     24182, 35268, 33539, 21270, 21487, 36861, 28335, 32, 74, 68, 32, 35777, 25454, 12290]"

text \<open>``at least one valid structured JD artifact''\<close>

definition discover_criterion_msg :: str where
"discover_criterion_msg = [33267, 23569, 20135, 20986, 19968, 20010, 26377, 25928, 32467, 26500,
     21270, 32, 74, 68, 32, 97, 114, 116, 105, 102, 97, 99, 116]"

text \<open>``transparent ranking of valid JDs by confirmed facts''\<close>

definition match_objective_msg :: str where
"match_objective_msg = [22522, 20110, 24050, 30830, 35748, 31616, 21382, 20107, 23454, 23545,
     26377, 25928, 32, 74, 68, 32, 20570, 36879, 26126, 21305, 37197, 25490, 24207, 12290]"

text \<open>``a matching report with evidence references''\<close>

definition match_criterion_msg :: str where
"match_criterion_msg = [20135, 20986, 24102, 35777, 25454, 24341, 29992, 30340, 23703, 20301,
     21305, 37197, 25253, 21578]"

text \<open>``resume suggestions for the best match from confirmed facts''\<close>

definition tailor_objective_msg :: str where
"tailor_objective_msg = [38024, 23545, 26368, 21305, 37197, 23703, 20301, 29983, 25104, 22522,
     20110, 24050, 30830, 35748, 20107, 23454, 30340, 31616, 21382, 20462, 25913, 24314, 35758,
     12290]"

text \<open>``a reviewable tailoring brief''\<close>

definition tailor_criterion_msg :: str where
"tailor_criterion_msg = [20135, 20986, 21487, 23457, 38405, 30340, 31616, 21382, 23450, 21046,
     32, 98, 114, 105, 101, 102]"

text \<open>``resume suggestions for verified positions from confirmed facts''\<close>

definition tailor_verified_msg :: str where
"tailor_verified_msg = [38024, 23545, 24050, 26680, 39564, 23703, 20301, 29983, 25104, 22522,
     20110, 24050, 30830, 35748, 20107, 23454, 30340, 31616, 21382, 20462, 25913, 24314, 35758,
     12290]"

text \<open>``Tencent''\<close>

definition zh_tencent :: str where
"zh_tencent = [33150, 35759]"

text \<open>``large model''\<close>

definition zh_llm :: str where
"zh_llm = [22823, 27169, 22411]"

text \<open>``product manager''\<close>

definition zh_pm :: str where
"zh_pm = [20135, 21697, 32463, 29702]"

text \<open>``algorithm''\<close>

definition zh_algorithm :: str where
"zh_algorithm = [31639, 27861]"

text \<open>``AI product manager''\<close>

definition zh_ai_pm :: str where
"zh_ai_pm = [65, 73, 32, 20135, 21697, 32463, 29702]"

text \<open>``AI algorithm''\<close>

definition zh_ai_algorithm :: str where
"zh_ai_algorithm = [65, 73, 32, 31639, 27861]"

text \<open>``Liepin''\<close>

definition zh_liepin :: str where
"zh_liepin = [29454, 32856]"

text \<open>``AI product manager, unspaced''\<close>

definition zh_aipm :: str where
"zh_aipm = [65, 73, 20135, 21697, 32463, 29702]"

text \<open>``intern''\<close>

definition zh_intern_suffix :: str where
"zh_intern_suffix = [23454, 20064, 29983]"

text \<open>``internship''\<close>

definition zh_intern :: str where
"zh_intern = [23454, 20064]"

text \<open>``Beijing''\<close>

definition zh_beijing :: str where
"zh_beijing = [21271, 20140]"

text \<open>``front-end development''\<close>

definition zh_frontend_dev :: str where
"zh_frontend_dev = [21069, 31471, 24320, 21457]"

text \<open>``front end''\<close>

definition zh_frontend :: str where
"zh_frontend = [21069, 31471]"

text \<open>``Web front end''\<close>

definition zh_web_frontend :: str where
"zh_web_frontend = [87, 101, 98, 32, 21069, 31471]"

text \<open>``AI application''\<close>

definition zh_ai_application :: str where
"zh_ai_application = [65, 73, 32, 24212, 29992]"

text \<open>``large model application development''\<close>

definition zh_llm_application :: str where
"zh_llm_application = [22823, 27169, 22411, 24212, 29992, 24320, 21457]"

text \<open>``Java back end''\<close>

definition zh_java_backend :: str where
"zh_java_backend = [74, 97, 118, 97, 32, 21518, 31471]"

text \<open>``recruitment positions''\<close>

definition zh_positions :: str where
"zh_positions = [25307, 32856, 23703, 20301]"

text \<open>``graduates, campus recruitment''\<close>

definition zh_graduates :: str where
"zh_graduates = [24212, 23626, 29983, 32, 26657, 25307]"

text \<open>``years of experience''\<close>

definition zh_years_experience :: str where
"zh_years_experience = [24180, 32463, 39564]"

text \<open>``position details, official recruitment''\<close>

definition zh_details_official :: str where
"zh_details_official = [23703, 20301, 35814, 24773, 32, 23448, 26041, 25307, 32856]"

text \<open>``recruitment, duties''\<close>

definition zh_duties :: str where
"zh_duties = [25307, 32856, 32, 23703, 20301, 32844, 36131]"

text \<open>``position details''\<close>

definition zh_details :: str where
"zh_details = [23703, 20301, 35814, 24773]"

text \<open>``official recruitment''\<close>

definition zh_official :: str where
"zh_official = [23448, 26041, 25307, 32856]"

text \<open>``deterministic extraction of captured JD pages done''\<close>

definition extract_summary_msg :: str where
"extract_summary_msg = [24050, 23545, 24050, 25235, 21462, 30340, 20844, 24320, 32, 74, 68, 32,
     39029, 38754, 25191, 34892, 30830, 23450, 24615, 32467, 26500, 21270, 25552, 21462, 12290]"

text \<open>``deterministic check of returned job links done''\<close>

definition fetch_summary_msg :: str where
"fetch_summary_msg = [24050, 23545, 24037, 20855, 36820, 22238, 30340, 20844, 24320, 23703,
     20301, 38142, 25509, 25191, 34892, 30830, 23450, 24615, 39029, 38754, 26680, 39564, 12290]"

text \<open>``job sources checked through the public search fallback''\<close>

definition search_summary_msg :: str where
"search_summary_msg = [24050, 20351, 29992, 20844, 24320, 25628, 32034, 22238, 36864, 26680,
     39564, 23703, 20301, 26469, 28304, 12290]"

text \<open>``plan validation failed, fix only these problems''\<close>

definition plan_invalid_feedback_msg :: str where
"plan_invalid_feedback_msg = [69, 120, 101, 99, 117, 116, 105, 111, 110, 80, 108, 97, 110, 32,
     26657, 39564, 22833, 36133, 65292, 35831, 21482, 20462, 27491, 20197, 19979, 32467, 26500,
     38382, 39064, 21518, 37325, 26032, 36755, 20986, 35745, 21010, 65306]"

text \<open>``port validation failed, use the canonical artifact types of the policy''\<close>

definition plan_ports_feedback_msg :: str where
"plan_ports_feedback_msg = [69, 120, 101, 99, 117, 116, 105, 111, 110, 80, 108, 97, 110, 32,
     31471, 21475, 26657, 39564, 22833, 36133, 65292, 35831, 20351, 29992, 32, 83, 107, 105,
     108, 108, 32, 112, 111, 108, 105, 99, 121, 32, 20013, 30340, 35268, 33539, 32, 97, 114,
     116, 105, 102, 97, 99, 116, 32, 31867, 22411, 65306]"

text \<open>``complete the requested career deliverable''\<close>

definition fallback_criterion_msg :: str where
"fallback_criterion_msg = [23436, 25104, 35831, 27714, 30340, 32844, 19994, 36741, 21161, 20132,
     20184, 29289]"

text \<open>\<open>_DISCOVERY_EXISTENCE_QUERY_MARKERS\<close>: whether, is there\<close>

definition existence_query_markers :: "str list" where
"existence_query_markers = [[21527], [26159, 21542], [26377, 27809, 26377], [26377, 26080]]"

text \<open>\<open>_VERIFIED_ZERO_MATCH_MARKERS\<close>: nothing found, none qualifies\<close>

definition zero_match_markers :: "str list" where
"zero_match_markers = [[26410, 21457, 29616], [27809, 26377, 31526, 21512], [27809, 26377,
     28385, 36275], [26080, 31526, 21512], [26080, 19968], [19981, 23384, 22312, 31526, 21512],
     [22343, 20026, 31038, 25307], [38646, 21305, 37197], [48, 20010], [48, 32, 20010]]"

text \<open>\<open>DELIVERABLE_GOAL_MARKERS[job-matching]\<close>: match, rank, filter, fits best\<close>

definition matching_goal_markers :: "str list" where
"matching_goal_markers = [[21305, 37197], [21305, 37197, 24230], [25490, 24207], [25490, 21517],
     [31579, 36873], [26368, 36866, 21512], [26368, 21305, 37197]]"

text \<open>\<open>DERIVED_ROLE_KEYWORDS\<close>: job roles\<close>

definition derived_role_keywords :: "str list" where
"derived_role_keywords = [[22823, 27169, 22411, 24212, 29992, 24320, 21457, 24037, 31243,
     24072], [22823, 27169, 22411, 24212, 29992, 24320, 21457], [65, 73, 71, 67, 32, 20135,
     21697, 32463, 29702], [65, 73, 32, 20135, 21697, 32463, 29702], [21069, 31471, 24320,
     21457, 24037, 31243, 24072], [21069, 31471, 24320, 21457], [74, 97, 118, 97, 32, 21518,
     31471, 24320, 21457, 24037, 31243, 24072], [74, 97, 118, 97, 32, 21518, 31471], [21518,
     31471, 24320, 21457, 24037, 31243, 24072], [31639, 27861, 24037, 31243, 24072], [20135,
     21697, 32463, 29702], [24212, 29992, 24320, 21457], [24320, 21457, 24037, 31243, 24072],
     [74, 97, 118, 97], [80, 121, 116, 104, 111, 110]]"

text \<open>\<open>DERIVED_COMPANY_KEYWORDS\<close>: companies\<close>

definition derived_company_keywords :: "str list" where
"derived_company_keywords = [[20013, 22269, 31227, 21160], [20013, 22269, 32852, 36890], [20013,
     22269, 30005, 20449], [23383, 33410, 36339, 21160], [33150, 35759], [38463, 37324, 24052,
     24052], [30334, 24230], [21326, 20026], [23567, 31859], [20140, 19996], [32654, 22242],
     [24555, 25163], [23567, 32418, 20070], [32593, 26131], [29992, 21451]]"

text \<open>\<open>DERIVED_LOCATION_KEYWORDS\<close>: cities\<close>

definition derived_location_keywords :: "str list" where
"derived_location_keywords = [[21271, 20140], [19978, 28023], [24191, 24030], [28145, 22323],
     [26477, 24030], [21335, 20140], [33487, 24030], [25104, 37117], [27494, 27721], [35199,
     23433], [37325, 24198], [22825, 27941], [38271, 27801], [37073, 24030], [27982, 21335],
     [38738, 23707], [21512, 32933], [21414, 38376], [22823, 36830], [19996, 33694], [20315,
     23665]]"

text \<open>\<open>public_source_mirror_seed_urls\<close>: graduate, campus recruitment, internship\<close>

definition campus_markers :: "str list" where
"campus_markers = [[24212, 23626], [26657, 25307], [23454, 20064]]"

text \<open>\<open>requested_role_seed_urls\<close>: public, based on, as\<close>

definition public_jd_markers :: "str list" where
"public_jd_markers = [[20844, 24320], [20381, 25454], [20316, 20026]]"

text \<open>\<open>requested_role_seed_urls\<close>: AI application development\<close>

definition ai_application_dev_markers :: "str list" where
"ai_application_dev_markers = [[97, 105, 32, 24212, 29992, 24320, 21457], [97, 105, 24212,
     29992, 24320, 21457]]"

text \<open>\<open>requested_role_seed_urls\<close>: Java back-end development\<close>

definition java_backend_dev_markers :: "str list" where
"java_backend_dev_markers = [[106, 97, 118, 97, 32, 21518, 31471, 24320, 21457], [106, 97, 118,
     97, 21518, 31471, 24320, 21457]]"

text \<open>\<open>discovery_search_hints\<close>: AI algorithm\<close>

definition ai_algorithm_markers :: "str list" where
"ai_algorithm_markers = [[97, 105, 32, 31639, 27861], [97, 105, 31639, 27861]]"

text \<open>\<open>discovery_search_hints\<close>: AI application\<close>

definition ai_application_markers :: "str list" where
"ai_application_markers = [[97, 105, 32, 24212, 29992], [97, 105, 24212, 29992]]"

text \<open>\<open>discovery_search_hints\<close>: Java back end\<close>

definition java_backend_markers :: "str list" where
"java_backend_markers = [[106, 97, 118, 97, 32, 21518, 31471], [106, 97, 118, 97, 21518,
     31471]]"

text \<open>\<open>relevance_weights\<close>: AI, large model, aigc, ai, internet, algorithm, robot, development, fintech\<close>

definition relevance_markers :: "str list" where
"relevance_markers = [[20154, 24037, 26234, 33021], [22823, 27169, 22411], [97, 105, 103, 99],
     [97, 105], [20114, 32852, 32593], [31639, 27861], [26426, 22120, 20154], [24320, 21457],
     [37329, 34701, 31185, 25216]]"

text \<open>\<open>discovery_search_hints\<close>: graduate, campus recruitment\<close>

definition graduate_markers :: "str list" where
"graduate_markers = [[24212, 23626], [26657, 25307], [26657, 22253, 25307, 32856]]"

text \<open>\<open>discovery_search_hints\<close>: years of experience, years of work experience\<close>

definition experience_words :: "str list" where
"experience_words = [[24180, 32463, 39564], [24180, 24037, 20316, 32463, 39564]]"

text \<open>\<open>discovery_search_hints\<close>: Liepin, Guopin, Juejin\<close>

definition source_scope_markers :: "str list" where
"source_scope_markers = [[29454, 32856], [22269, 32856], [31232, 22303, 25496, 37329]]"

text \<open>\<open>OFFICIAL_COMPANY_DISCOVERY_SEEDS\<close>: Meituan, Xiaohongshu\<close>

definition official_company_markers :: "str list" where
"official_company_markers = [[32654, 22242], [23567, 32418, 20070]]"

text \<open>\<open>OBSERVED_COMPANY_DISCOVERY_SEEDS\<close>: Baiont\<close>

definition observed_company_markers :: "str list" where
"observed_company_markers = [[20493, 28478]]"

text \<open>\<open>DELIVERABLE_GOAL_MARKERS[resume-tailoring]\<close>: resume, tailor, suggestions\<close>

definition tailoring_goal_markers :: "str list" where
"tailoring_goal_markers = [[31616, 21382], [23450, 21046], [20462, 25913, 24314, 35758], [114,
     101, 115, 117, 109, 101], [116, 97, 105, 108, 111, 114]]"

end
