(* ===== verification/SkillContracts.thy ===== *)
theory SkillContracts
  imports ErrorPolicy Messages
begin

section \<open>Skills, their ports and their completion contracts\<close>

text \<open>
  \<open>backend/app/services/agent_runtime/skill_definition.py\<close>: what a skill declares, the
  registry that holds the skills, and the questions the runtime asks it. The answer that decides
  everything is \<open>completion_evidence_diagnostics\<close>; its law is the locale
  \<open>evidence_contract\<close> that the gate and the step loop rely on.
\<close>

datatype verification_policy = PolicyRequired | PolicyOptional | PolicyNever

definition policy_value :: "verification_policy \<Rightarrow> str" where
  "policy_value p = lit (case p of PolicyRequired \<Rightarrow> ''required'' | PolicyOptional \<Rightarrow> ''optional''
     | PolicyNever \<Rightarrow> ''never'')"

record artifact_port =
  ap_name :: str
  ap_types :: "str set"

record completion_contract =
  cc_tools :: "str set"
  cc_observation_check :: "(observation \<Rightarrow> bool) option"
  cc_semantic_check :: "(observation \<Rightarrow> bool) option"

definition contract_accepts :: "completion_contract \<Rightarrow> observation \<Rightarrow> bool" where
  "contract_accepts c ob =
     (if ob_status ob \<noteq> ObsSucceeded then False
      else if ob_tool ob \<notin> cc_tools c then False
      else case cc_observation_check c of None \<Rightarrow> True | Some chk \<Rightarrow> chk ob)"

definition evidence_accepts :: "completion_contract \<Rightarrow> observation \<Rightarrow> bool" where
  "evidence_accepts c ob =
     (if \<not> contract_accepts c ob then False
      else case cc_semantic_check c of None \<Rightarrow> True | Some chk \<Rightarrow> chk ob)"

record skill_definition =
  sd_name :: str
  sd_description :: str
  sd_contract :: "completion_contract option"
  sd_policy :: verification_policy
  sd_context_keys :: "str set"
  sd_execution_policy :: str
  sd_instructions :: str
  sd_inputs :: "artifact_port list"
  sd_outputs :: "artifact_port list"

record skill_registry =
  sr_defs :: "skill_definition list"
  sr_policy :: error_policy

subsection \<open>Registration and lookup\<close>

datatype register_error = EmptyName | AlreadyRegistered str

definition register_skill :: "skill_definition \<Rightarrow> skill_registry \<Rightarrow> register_error + skill_registry" where
  "register_skill d sr =
     (if strip (sd_name d) = [] then Inl EmptyName
      else if sd_name d \<in> set (map sd_name (sr_defs sr)) then Inl (AlreadyRegistered (sd_name d))
      else Inr (sr\<lparr>sr_defs := sr_defs sr @ [d]\<rparr>))"

fun register_all :: "skill_definition list \<Rightarrow> skill_registry \<Rightarrow> register_error + skill_registry" where
  "register_all [] sr = Inr sr"
| "register_all (d # ds) sr =
     (case register_skill d sr of Inl e \<Rightarrow> Inl e | Inr sr' \<Rightarrow> register_all ds sr')"

definition make_skill_registry ::
  "skill_definition list \<Rightarrow> error_policy option \<Rightarrow> register_error + skill_registry" where
  "make_skill_registry ds po = register_all ds
     \<lparr>sr_defs = [], sr_policy = (case po of None \<Rightarrow> default_error_policy | Some p \<Rightarrow> p)\<rparr>"

definition get_skill :: "skill_registry \<Rightarrow> str \<Rightarrow> skill_definition option" where
  "get_skill sr name = find (\<lambda>d. sd_name d = name) (sr_defs sr)"

definition skill_names :: "skill_registry \<Rightarrow> str set" where
  "skill_names sr = set (map sd_name (sr_defs sr))"

text \<open>The contract a name stands for, if the skill exists and declares one.\<close>

definition contract_of :: "skill_registry \<Rightarrow> str \<Rightarrow> completion_contract option" where
  "contract_of sr name = (case get_skill sr name of None \<Rightarrow> None | Some d \<Rightarrow> sd_contract d)"

subsection \<open>Context projection and prompt policy\<close>

definition project_private_context :: "skill_registry \<Rightarrow> str list \<Rightarrow> dict \<Rightarrow> dict" where
  "project_private_context sr names private =
     (let allowed = \<Union> (set (map sd_context_keys (List.map_filter (get_skill sr) names)))
      in filter (\<lambda>(k, v). k \<in> allowed) private)"

definition line_break :: "int \<Rightarrow> bool" where
  "line_break c \<longleftrightarrow> (10 \<le> c \<and> c \<le> 13) \<or> (28 \<le> c \<and> c \<le> 30) \<or> c = 133 \<or> c = 8232 \<or> c = 8233"

fun split_lines :: "str \<Rightarrow> str list" where
  "split_lines [] = [[]]"
| "split_lines (c # cs) =
     (if line_break c then [] # split_lines cs
      else case split_lines cs of [] \<Rightarrow> [[c]] | l # ls \<Rightarrow> (c # l) # ls)"

definition instruction_excerpt :: "str \<Rightarrow> nat \<Rightarrow> str" where
  "instruction_excerpt instructions max_chars =
     (let cleaned = join (lit '' '') (filter (\<lambda>l. l \<noteq> []) (map strip (split_lines instructions)))
      in if length cleaned \<le> max_chars then cleaned
         else let head_chars = max_chars div 2; tail_chars = max_chars - head_chars
           in take head_chars cleaned @ lit '' ... [canonical Skill middle omitted] ... ''
              @ drop (length cleaned - tail_chars) cleaned)"

definition port_types :: "artifact_port list \<Rightarrow> str" where
  "port_types ports =
     (let values = sorted_list_of_set (\<Union> (set (map ap_types ports)))
      in if values \<noteq> [] then join (lit '', '') values else lit ''none'')"

definition skill_section :: "nat \<Rightarrow> skill_definition \<Rightarrow> str" where
  "skill_section per_skill d =
     lit ''Skill: '' @ sd_name d @ 10 # lit ''Description: '' @ sd_description d
     @ 10 # lit ''Deliverables: ''
     @ (case sd_contract d of None \<Rightarrow> lit ''none''
        | Some c \<Rightarrow> join (lit '', '') (sorted_list_of_set (cc_tools c)))
     @ 10 # lit ''Accepted artifact inputs: '' @ port_types (sd_inputs d)
     @ 10 # lit ''Produced artifact outputs: '' @ port_types (sd_outputs d)
     @ 10 # lit ''Verification: '' @ policy_value (sd_policy d)
     @ (if sd_execution_policy d \<noteq> [] then 10 # lit ''Policy: '' @ sd_execution_policy d else [])
     @ (if sd_instructions d \<noteq> [] then 10 # lit ''Canonical Skill instructions:'' @ 10 #
          instruction_excerpt (sd_instructions d) (max 500 (per_skill - 350)) else [])"

definition prompt_policy :: "skill_registry \<Rightarrow> str list \<Rightarrow> int \<Rightarrow> str" where
  "prompt_policy sr names max_chars =
     (let ds = List.map_filter (get_skill sr) names
      in if ds = [] \<or> max_chars \<le> 0 then []
         else let per_skill = max 700 (nat max_chars div length ds);
                  rendered = join [10, 10] (map (skill_section per_skill) ds)
           in if int (length rendered) \<le> max_chars then rendered else take (nat max_chars) rendered)"

subsection \<open>Ports\<close>

definition accepted_types :: "(skill_definition \<Rightarrow> artifact_port list) \<Rightarrow> skill_registry \<Rightarrow> plan_step \<Rightarrow> str set" where
  "accepted_types ports sr s =
     \<Union> (set (map ap_types (concat (map ports (List.map_filter (get_skill sr) (ps_skills s))))))"

definition sorted_repr :: "str set \<Rightarrow> str" where
  "sorted_repr types = py_repr (strs (sorted_list_of_set types))"

fun input_port_error :: "skill_registry \<Rightarrow> plan_step \<Rightarrow> step_input_ref list \<Rightarrow> str option" where
  "input_port_error sr s [] = None"
| "input_port_error sr s (r # rs) =
     (if si_kind r \<noteq> ArtifactInput \<or> \<not> present (si_type r) then input_port_error sr s rs
      else let accepted = accepted_types sd_inputs sr s; t = the (si_type r)
        in if accepted \<noteq> {} \<and> t \<notin> accepted then
             Some (lit ''step '' @ ps_id s @ lit '' artifact input '' @ [39] @ si_name r @ [39]
               @ lit '' has type '' @ [39] @ t @ [39] @ lit '', but allowed Skills accept only ''
               @ sorted_repr accepted)
           else input_port_error sr s rs)"

fun output_port_error :: "skill_registry \<Rightarrow> plan_step \<Rightarrow> step_output_ref list \<Rightarrow> str option" where
  "output_port_error sr s [] = None"
| "output_port_error sr s (out # outs) =
     (if \<not> present (so_type out) then output_port_error sr s outs
      else let accepted = accepted_types sd_outputs sr s; t = the (so_type out)
        in if accepted \<noteq> {} \<and> t \<notin> accepted then
             Some (lit ''step '' @ ps_id s @ lit '' output '' @ [39] @ so_name out @ [39]
               @ lit '' has type '' @ [39] @ t @ [39] @ lit '', but allowed Skills produce only ''
               @ sorted_repr accepted)
           else output_port_error sr s outs)"

definition validate_step_ports :: "skill_registry \<Rightarrow> plan_step \<Rightarrow> str option" where
  "validate_step_ports sr s =
     (case input_port_error sr s (ps_inputs s) of
        Some e \<Rightarrow> Some e
      | None \<Rightarrow> output_port_error sr s (ps_outputs s))"

definition canonical_type :: "str option \<Rightarrow> str option" where
  "canonical_type t =
     (if t = Some (lit ''match_result'') then Some (lit ''job_matching_report'') else t)"

definition normalize_step_ports :: "plan_step \<Rightarrow> plan_step" where
  "normalize_step_ports s =
     s\<lparr>ps_inputs := map (\<lambda>r. r\<lparr>si_type := canonical_type (si_type r)\<rparr>) (ps_inputs s),
       ps_outputs := map (\<lambda>out. out\<lparr>so_type := canonical_type (so_type out)\<rparr>) (ps_outputs s)\<rparr>"

subsection \<open>Completion contracts of a step\<close>

definition has_completion_contract :: "skill_registry \<Rightarrow> plan_step \<Rightarrow> bool" where
  "has_completion_contract sr s \<longleftrightarrow>
     ps_skills s \<noteq> [] \<and> (\<forall>k \<in> set (ps_skills s). contract_of sr k \<noteq> None)"

definition every_contract ::
  "(completion_contract \<Rightarrow> bool) \<Rightarrow> skill_registry \<Rightarrow> plan_step \<Rightarrow> bool" where
  "every_contract ok sr s \<longleftrightarrow> (\<forall>c \<in> set (List.map_filter (contract_of sr) (ps_skills s)). ok c)"

definition step_contract_met :: "skill_registry \<Rightarrow> plan_step \<Rightarrow> observation list \<Rightarrow> bool" where
  "step_contract_met sr s obs =
     (if \<not> has_completion_contract sr s then False
      else every_contract (\<lambda>c. \<exists>ob \<in> set obs. contract_accepts c ob) sr s)"

definition ref_key_ok :: "dict \<Rightarrow> string \<Rightarrow> bool" where
  "ref_key_ok ref key \<longleftrightarrow> nonempty_str (dget ref (lit key))"

definition trusted_ref_usable :: "dict \<Rightarrow> bool" where
  "trusted_ref_usable ref =
     (if \<not> list_all (ref_key_ok ref)
          [''artifact_id'', ''artifact_type'', ''tool'', ''source_url'', ''content_hash'']
      then False
      else let t = dget ref (lit ''artifact_type'') in
        if t = JStr (lit ''public_job_page'')
          then dget ref (lit ''quality'') = JStr (lit ''jd_complete'')
        else if t = JStr (lit ''structured_job_details'')
          then dget ref (lit ''source_quality'') \<in> {JNull, JStr (lit ''jd_complete'')}
        else if t = JStr (lit ''job_search_results'')
          then dget ref (lit ''completion_valid'') = JStr (lit ''true'')
        else if t \<in> {JStr (lit ''job_matching_report''), JStr (lit ''resume_tailoring_brief'')}
          then dget ref (lit ''semantic_valid'') = JStr (lit ''true'')
        else True)"

definition ref_tool_in :: "str set \<Rightarrow> dict \<Rightarrow> bool" where
  "ref_tool_in tools ref \<longleftrightarrow>
     (case dget ref (lit ''tool'') of JStr t \<Rightarrow> t \<in> tools | _ \<Rightarrow> False)"

definition declared_checkable :: "plan_step \<Rightarrow> str set" where
  "declared_checkable s =
     {t \<in> set (List.map_filter so_type (ps_outputs s)). t \<noteq> []}
     \<inter> {lit ''public_job_page'', lit ''structured_job_details''}"

definition produced_types :: "dict list \<Rightarrow> str set" where
  "produced_types refs =
     set (map (\<lambda>r. py_str (dget r (lit ''artifact_type''))) (filter trusted_ref_usable refs))"

definition trusted_artifact_contract_met :: "skill_registry \<Rightarrow> plan_step \<Rightarrow> dict list \<Rightarrow> bool" where
  "trusted_artifact_contract_met sr s refs =
     (if \<not> has_completion_contract sr s then False
      else if \<not> every_contract (\<lambda>c. \<exists>r \<in> set refs. ref_tool_in (cc_tools c) r \<and> trusted_ref_usable r) sr s
        then False
      else declared_checkable s = {} \<or> declared_checkable s \<subseteq> produced_types refs)"

definition output_blocked :: "dict \<Rightarrow> bool" where
  "output_blocked output \<longleftrightarrow>
     json_in (dget output (lit ''status'')) [''needs_manual_review'', ''blocked'']
     \<or> json_in (dget output (lit ''reason''))
         [''ocr_disabled'', ''login_required'', ''captcha'', ''anti_bot'']"

definition failure_error_code :: "dict \<Rightarrow> str" where
  "failure_error_code f =
     (let c = dget f (lit ''error_code'') in if truthy c then py_str c else [])"

definition observation_blocked :: "error_policy \<Rightarrow> observation \<Rightarrow> bool" where
  "observation_blocked po ob \<longleftrightarrow>
     policy_blocked po (ob_error ob)
     \<or> (case dget (output_of ob) (lit ''failures'') of
          JArr fs \<Rightarrow> \<exists>f \<in> set (dicts_of fs). policy_blocked po (Some (failure_error_code f))
        | _ \<Rightarrow> False)
     \<or> output_blocked (output_of ob)"

definition has_blocked_evidence :: "skill_registry \<Rightarrow> observation list \<Rightarrow> bool" where
  "has_blocked_evidence sr obs \<longleftrightarrow> (\<exists>ob \<in> set obs. observation_blocked (sr_policy sr) ob)"

record diagnostics =
  dg_summary :: bool
  dg_declared :: bool
  dg_observation_met :: bool
  dg_semantic_met :: bool
  dg_trusted_met :: bool
  dg_met :: bool
  dg_blocked :: bool
  dg_passed :: bool
  dg_reasons :: "str list"
  dg_observations :: int
  dg_artifacts :: int
  dg_tools :: "str list"

definition completion_evidence_diagnostics ::
  "skill_registry \<Rightarrow> plan_step \<Rightarrow> observation list \<Rightarrow> str option \<Rightarrow> dict list \<Rightarrow> diagnostics" where
  "completion_evidence_diagnostics sr s obs summary refs =
     (let summary_present = (summary \<noteq> None \<and> strip (the summary) \<noteq> []);
          declared = has_completion_contract sr s;
          semantic = (declared \<and> every_contract (\<lambda>c. \<exists>ob \<in> set obs. evidence_accepts c ob) sr s);
          trusted = trusted_artifact_contract_met sr s refs;
          met = (semantic \<or> trusted);
          blocked = (has_blocked_evidence sr obs \<and> \<not> met)
      in \<lparr>dg_summary = summary_present, dg_declared = declared,
          dg_observation_met = step_contract_met sr s obs, dg_semantic_met = semantic,
          dg_trusted_met = trusted, dg_met = met, dg_blocked = blocked,
          dg_passed = (summary_present \<and> (\<not> declared \<or> met) \<and> \<not> blocked),
          dg_reasons = (if \<not> summary_present then [lit ''missing_summary''] else [])
            @ (if declared \<and> \<not> met then [lit ''missing_deliverable''] else [])
            @ (if blocked then [lit ''blocked_evidence''] else [])
            @ (if \<not> declared then [lit ''no_explicit_contract''] else []),
          dg_observations = int (length obs), dg_artifacts = int (length refs),
          dg_tools = sort (dedup (map ob_tool obs))\<rparr>)"

definition completion_evidence_gate ::
  "skill_registry \<Rightarrow> plan_step \<Rightarrow> observation list \<Rightarrow> str option \<Rightarrow> dict list \<Rightarrow> bool" where
  "completion_evidence_gate sr s obs summary refs =
     dg_passed (completion_evidence_diagnostics sr s obs summary refs)"

definition diagnostics_json :: "diagnostics \<Rightarrow> dict" where
  "diagnostics_json d =
     [(lit ''summary_present'', JBool (dg_summary d)), (lit ''contract_declared'', JBool (dg_declared d)),
      (lit ''observation_contract_met'', JBool (dg_observation_met d)),
      (lit ''semantic_observation_contract_met'', JBool (dg_semantic_met d)),
      (lit ''trusted_artifact_contract_met'', JBool (dg_trusted_met d)),
      (lit ''contract_met'', JBool (dg_met d)), (lit ''blocked'', JBool (dg_blocked d)),
      (lit ''gate_passed'', JBool (dg_passed d)), (lit ''reason_codes'', strs (dg_reasons d)),
      (lit ''observation_count'', JInt (dg_observations d)),
      (lit ''trusted_artifact_count'', JInt (dg_artifacts d)),
      (lit ''observation_tools'', strs (dg_tools d))]"

definition requires_verification :: "skill_registry \<Rightarrow> plan_step \<Rightarrow> complexity_level \<Rightarrow> bool" where
  "requires_verification sr s level =
     (let policies = map sd_policy (List.map_filter (get_skill sr) (ps_skills s))
      in if PolicyRequired \<in> set policies then True
         else if PolicyNever \<in> set policies then False
         else level \<in> {L3, L4} \<or> ps_verify s)"

text \<open>\<open>_goal_markers\<close> reads the marker table of the career manifest.\<close>

definition goal_markers :: "str \<Rightarrow> str list" where
  "goal_markers skill =
     (if skill = lit ''job-matching'' then matching_goal_markers
      else if skill = lit ''resume-tailoring'' then tailoring_goal_markers else [])"

definition goal_requests_deliverable :: "skill_registry \<Rightarrow> str \<Rightarrow> str \<Rightarrow> bool" where
  "goal_requests_deliverable sr skill goal =
     (if get_skill sr skill = None then False
      else \<exists>m \<in> set (goal_markers skill). contains m (lower goal))"

end
