(* ===== verification/CompletionGate.thy ===== *)
theory CompletionGate
  imports SkillContracts
begin

section \<open>The deterministic completion gate\<close>

text \<open>
  \<open>backend/app/services/agent_runtime/completion_gate.py\<close> and the four gate helpers of
  \<open>runtime.py\<close> (\<open>_step_contract_met\<close>, \<open>_step_has_blocked_evidence\<close>,
  \<open>_completion_gate_rejected\<close>, \<open>_requires_verification\<close>). The laws that the
  diagnostics of a step obey are the locale \<open>evidence_contract\<close>; its interpretation on the
  registry's own diagnostics discharges them.
\<close>

subsection \<open>The interface: an evidence contract\<close>

definition summary_ok :: "str option \<Rightarrow> bool" where
  "summary_ok m \<longleftrightarrow> m \<noteq> None \<and> strip (the m) \<noteq> []"

locale evidence_contract =
  fixes declared :: "'s \<Rightarrow> bool"
    and met :: "'s \<Rightarrow> 'o list \<Rightarrow> 'r list \<Rightarrow> bool"
    and blocked :: "'s \<Rightarrow> 'o list \<Rightarrow> 'r list \<Rightarrow> bool"
    and passed :: "'s \<Rightarrow> 'o list \<Rightarrow> str option \<Rightarrow> 'r list \<Rightarrow> bool"
  assumes met_declared: "met s os rs \<Longrightarrow> declared s"
    and met_unblocked: "met s os rs \<Longrightarrow> \<not> blocked s os rs"
    and met_mono: "met s os rs \<Longrightarrow> set os \<subseteq> set os' \<Longrightarrow> set rs \<subseteq> set rs' \<Longrightarrow> met s os' rs'"
    and passed_char: "passed s os m rs \<longleftrightarrow>
      summary_ok m \<and> (declared s \<longrightarrow> met s os rs) \<and> \<not> blocked s os rs"
begin

lemma met_passed: "summary_ok m \<Longrightarrow> met s os rs \<Longrightarrow> passed s os m rs"
  using met_unblocked by (simp add: passed_char)

lemma passed_met_iff: "declared s \<Longrightarrow> passed s os m rs \<longleftrightarrow> summary_ok m \<and> met s os rs"
  using met_unblocked by (auto simp: passed_char)

lemma blocked_not_passed: "blocked s os rs \<Longrightarrow> \<not> passed s os m rs"
  by (simp add: passed_char)

lemma passed_mono:
  assumes "declared s" "passed s os m rs" "summary_ok m'"
    and "set os \<subseteq> set os'" "set rs \<subseteq> set rs'"
  shows "passed s os' m' rs'"
  using assms met_mono [of s os rs os' rs'] by (simp add: passed_met_iff)

lemma not_passed_cases:
  "\<not> passed s os m rs \<Longrightarrow> \<not> summary_ok m \<or> (declared s \<and> \<not> met s os rs) \<or> blocked s os rs"
  by (auto simp: passed_char)

end

subsection \<open>The gate helpers of the runtime\<close>

definition runtime_contract_met :: "skill_registry \<Rightarrow> plan_step \<Rightarrow> observation list \<Rightarrow> dict list \<Rightarrow> bool" where
  "runtime_contract_met sr s obs refs =
     dg_met (completion_evidence_diagnostics sr s obs (Some (lit ''contract-check'')) refs)"

definition runtime_blocked :: "skill_registry \<Rightarrow> plan_step \<Rightarrow> observation list \<Rightarrow> dict list \<Rightarrow> bool" where
  "runtime_blocked sr s obs refs =
     dg_blocked (completion_evidence_diagnostics sr s obs (Some (lit ''contract-check'')) refs)"

definition completion_gate_rejected ::
  "skill_registry \<Rightarrow> plan_step \<Rightarrow> observation list \<Rightarrow> str option \<Rightarrow> dict list \<Rightarrow> bool" where
  "completion_gate_rejected sr s obs summary refs \<longleftrightarrow>
     has_completion_contract sr s \<and> \<not> completion_evidence_gate sr s obs summary refs"

lemma every_contract_mono:
  assumes "every_contract P sr s" and "\<And>c. P c \<Longrightarrow> Q c"
  shows "every_contract Q sr s"
  using assms by (auto simp: every_contract_def)

lemma every_contract_bex_mono:
  assumes "every_contract (\<lambda>c. \<exists>x \<in> A. P c x) sr s" and "A \<subseteq> B"
  shows "every_contract (\<lambda>c. \<exists>x \<in> B. P c x) sr s"
  by (rule every_contract_mono [OF assms(1)]) (use assms(2) in blast)

lemma produced_types_mono: "set refs \<subseteq> set refs' \<Longrightarrow> produced_types refs \<subseteq> produced_types refs'"
  by (auto simp: produced_types_def)

lemma trusted_met_iff:
  "trusted_artifact_contract_met sr s refs \<longleftrightarrow>
   has_completion_contract sr s
   \<and> every_contract (\<lambda>c. \<exists>r \<in> set refs. ref_tool_in (cc_tools c) r \<and> trusted_ref_usable r) sr s
   \<and> declared_checkable s \<subseteq> produced_types refs"
  by (auto simp: trusted_artifact_contract_met_def)

lemma trusted_met_mono:
  assumes "trusted_artifact_contract_met sr s refs" and sub: "set refs \<subseteq> set refs'"
  shows "trusted_artifact_contract_met sr s refs'"
proof -
  have d: "has_completion_contract sr s"
    and e: "every_contract (\<lambda>c. \<exists>r \<in> set refs. ref_tool_in (cc_tools c) r \<and> trusted_ref_usable r) sr s"
    and t: "declared_checkable s \<subseteq> produced_types refs"
    using assms(1) by (simp_all only: trusted_met_iff)
  show ?thesis
    unfolding trusted_met_iff
    using d every_contract_bex_mono [OF e sub] subset_trans [OF t produced_types_mono [OF sub]]
    by (intro conjI)
qed

lemma diagnostics_met:
  "dg_met (completion_evidence_diagnostics sr s obs m refs) \<longleftrightarrow>
   has_completion_contract sr s \<and> every_contract (\<lambda>c. \<exists>ob \<in> set obs. evidence_accepts c ob) sr s
   \<or> trusted_artifact_contract_met sr s refs"
  by (simp add: completion_evidence_diagnostics_def Let_def)

lemma diagnostics_frame [frame]:
  "dg_met (completion_evidence_diagnostics sr s obs m refs) = runtime_contract_met sr s obs refs"
  "dg_blocked (completion_evidence_diagnostics sr s obs m refs) = runtime_blocked sr s obs refs"
  "dg_summary (completion_evidence_diagnostics sr s obs m refs) = summary_ok m"
  "dg_declared (completion_evidence_diagnostics sr s obs m refs) = has_completion_contract sr s"
  by (simp_all add: runtime_contract_met_def runtime_blocked_def completion_evidence_diagnostics_def
      summary_ok_def Let_def)

lemma runtime_blocked_iff:
  "runtime_blocked sr s obs refs \<longleftrightarrow>
   has_blocked_evidence sr obs \<and> \<not> runtime_contract_met sr s obs refs"
  by (simp add: runtime_blocked_def runtime_contract_met_def completion_evidence_diagnostics_def Let_def)

interpretation gate: evidence_contract "has_completion_contract sr" "runtime_contract_met sr"
  "runtime_blocked sr" "completion_evidence_gate sr" for sr
proof
  fix s obs refs
  assume m: "runtime_contract_met sr s obs refs"
  show "has_completion_contract sr s"
    using m by (auto simp: runtime_contract_met_def diagnostics_met trusted_artifact_contract_met_def
        split: if_splits)
  show "\<not> runtime_blocked sr s obs refs"
    using m by (simp add: runtime_blocked_iff)
  fix obs' refs'
  assume obs: "set obs \<subseteq> set obs'" and refs: "set refs \<subseteq> set refs'"
  show "runtime_contract_met sr s obs' refs'"
    using m unfolding runtime_contract_met_def diagnostics_met
  proof (elim disjE conjE)
    assume "has_completion_contract sr s"
      and "every_contract (\<lambda>c. \<exists>ob \<in> set obs. evidence_accepts c ob) sr s"
    then show "has_completion_contract sr s
        \<and> every_contract (\<lambda>c. \<exists>ob \<in> set obs'. evidence_accepts c ob) sr s
        \<or> trusted_artifact_contract_met sr s refs'"
      using every_contract_bex_mono [OF _ obs, of evidence_accepts] by simp
  next
    assume "trusted_artifact_contract_met sr s refs"
    then show "has_completion_contract sr s
        \<and> every_contract (\<lambda>c. \<exists>ob \<in> set obs'. evidence_accepts c ob) sr s
        \<or> trusted_artifact_contract_met sr s refs'"
      using trusted_met_mono [OF _ refs] by simp
  qed
next
  fix s obs m refs
  show "completion_evidence_gate sr s obs m refs \<longleftrightarrow>
      summary_ok m \<and> (has_completion_contract sr s \<longrightarrow> runtime_contract_met sr s obs refs)
      \<and> \<not> runtime_blocked sr s obs refs"
    by (auto simp: completion_evidence_gate_def completion_evidence_diagnostics_def
        runtime_contract_met_def runtime_blocked_def summary_ok_def Let_def)
qed

subsection \<open>The verdict\<close>

record gate_verdict =
  gv_decision :: verification_decision
  gv_feedback :: str
  gv_error :: "str option"

definition evaluate_completion_gate ::
  "skill_registry \<Rightarrow> plan_step \<Rightarrow> observation list \<Rightarrow> dict list \<Rightarrow> str option \<Rightarrow> int option \<Rightarrow> int
    \<Rightarrow> gate_verdict" where
  "evaluate_completion_gate sr s obs refs summary deadline now =
     (if deadline \<noteq> None \<and> the deadline \<le> now then
        \<lparr>gv_decision = FAIL, gv_feedback = lit ''Wall-clock budget exhausted before verification.'',
         gv_error = Some (lit ''wall_clock_budget_exhausted'')\<rparr>
      else let d = completion_evidence_diagnostics sr s obs summary refs in
        if dg_passed d then \<lparr>gv_decision = PASS, gv_feedback = gate_pass_msg, gv_error = None\<rparr>
        else if has_blocked_evidence sr obs
          then \<lparr>gv_decision = NEED_USER, gv_feedback = gate_blocked_msg, gv_error = None\<rparr>
        else if dg_met d \<and> \<not> dg_summary d
          then \<lparr>gv_decision = NEED_USER, gv_feedback = gate_summary_msg, gv_error = None\<rparr>
        else \<lparr>gv_decision = RETRY_EXECUTOR, gv_feedback = gate_retry_msg, gv_error = None\<rparr>)"

definition expired :: "int option \<Rightarrow> int \<Rightarrow> bool" where
  "expired deadline now \<longleftrightarrow> deadline \<noteq> None \<and> the deadline \<le> now"

text \<open>The verdict, case by case.\<close>

lemma verdict_decision:
  "gv_decision (evaluate_completion_gate sr s obs refs m deadline now) =
     (if expired deadline now then FAIL
      else if completion_evidence_gate sr s obs m refs then PASS
      else if has_blocked_evidence sr obs then NEED_USER
      else if runtime_contract_met sr s obs refs then NEED_USER
      else RETRY_EXECUTOR)"
proof -
  have "runtime_contract_met sr s obs refs \<Longrightarrow> summary_ok m \<Longrightarrow> completion_evidence_gate sr s obs m refs"
    by (rule gate.met_passed)
  then show ?thesis
    by (simp add: evaluate_completion_gate_def expired_def diagnostics_frame
        flip: completion_evidence_gate_def)
qed

lemma verdict_error:
  "gv_error (evaluate_completion_gate sr s obs refs m deadline now) =
     (if expired deadline now then Some (lit ''wall_clock_budget_exhausted'') else None)"
  by (simp add: evaluate_completion_gate_def expired_def Let_def)

lemma verdict_not_replan: "gv_decision (evaluate_completion_gate sr s obs refs m d now) \<noteq> REPLAN"
  by (simp add: verdict_decision)

lemma verdict_pass:
  "gv_decision (evaluate_completion_gate sr s obs refs m d now) = PASS \<longleftrightarrow>
   \<not> expired d now \<and> completion_evidence_gate sr s obs m refs"
  by (simp add: verdict_decision)

lemma verdict_feedback_nonempty [simp]:
  "gv_feedback (evaluate_completion_gate sr s obs refs m d now) \<noteq> []"
  by (simp add: evaluate_completion_gate_def Let_def gate_pass_msg_def gate_blocked_msg_def
      gate_summary_msg_def gate_retry_msg_def)

subsection \<open>Properties\<close>


text \<open>Evidence is never lost by more evidence: a step whose gate passed still passes when it has
  further observations and artifacts, blocked ones included, and another summary.\<close>

theorem gate_monotone:
  assumes "has_completion_contract sr s" and "completion_evidence_gate sr s obs m refs"
    and "summary_ok m'" and "set obs \<subseteq> set obs'" and "set refs \<subseteq> set refs'"
  shows "completion_evidence_gate sr s obs' m' refs'"
  by (rule gate.passed_mono [OF assms])

end
