(* ===== verification/CareerManifest.thy ===== *)
theory CareerManifest
  imports CompletionGate
begin

section \<open>The career skills' contracts\<close>

text \<open>
  \<open>backend/app/services/career_skills/manifest.py\<close> and the table of artifact types in
  \<open>registry.py\<close>: the payload checks that make an observation a deliverable, the error
  policy of the job sources, the ports, and the registry the runtime is built with. The
  instructions of the three packages come from files, so they are an argument.
\<close>

definition discovery_evidence_tools :: "str set" where
  "discovery_evidence_tools = lit ` {''fetch-public-job-pages'', ''fetch-public-job-page'',
     ''fetch-wechat-article''}"

definition discovery_detail_tools :: "str set" where
  "discovery_detail_tools = lit ` {''extract-observed-job-details'',
     ''extract-observed-job-details-batch''}"

text \<open>\<open>v == 0\<close> in Python, where \<open>False\<close> and \<open>0.0\<close> equal \<open>0\<close>.\<close>

definition equals_zero :: "json \<Rightarrow> bool" where
  "equals_zero v \<longleftrightarrow> v \<in> {JInt 0, JBool False, JFloat (lit ''0.0''), JFloat (lit ''-0.0'')}"

definition official_scan_empty :: "dict \<Rightarrow> bool" where
  "official_scan_empty out \<longleftrightarrow>
     dget out (lit ''provider'') = JStr (lit ''juejin_official_search'')
     \<and> dget out (lit ''source_scope'') = JStr (lit ''juejin.cn'')
     \<and> dget out (lit ''coverage_complete'') = JBool True
     \<and> is_int (dget out (lit ''time_window_days'')) \<and> 0 < the_int (dget out (lit ''time_window_days''))
     \<and> is_int (dget out (lit ''scanned_result_count''))
     \<and> 0 \<le> the_int (dget out (lit ''scanned_result_count''))
     \<and> equals_zero (dget out (lit ''matched_result_count''))
     \<and> dget out (lit ''terminal_reason'') = JStr (lit ''search_empty'')
     \<and> dget out (lit ''results'') = JArr []
     \<and> is_str (dget out (lit ''source_url''))
     \<and> starts_with (the_str (dget out (lit ''source_url'')))
          (lit ''https://api.juejin.cn/search_api/v1/search'')
     \<and> nonempty_str (dget out (lit ''content_hash''))"

definition detail_complete :: "dict \<Rightarrow> bool" where
  "detail_complete out \<longleftrightarrow>
     nonempty_str (dget out (lit ''source_url'')) \<and> nonempty_str (dget out (lit ''content_hash''))
     \<and> (case dget out (lit ''candidates'') of JArr xs \<Rightarrow> dicts_of xs \<noteq> [] | _ \<Rightarrow> False)
     \<and> dget out (lit ''source_quality'') \<in> {JNull, JStr (lit ''jd_complete'')}"

definition page_complete :: "dict \<Rightarrow> bool" where
  "page_complete page \<longleftrightarrow>
     nonempty_str (dget page (lit ''source_url'')) \<and> nonempty_str (dget page (lit ''content_hash''))
     \<and> nonempty_str (dget page (lit ''visible_text''))
     \<and> dget page (lit ''quality'') \<in> {JNull, JStr (lit ''jd_complete'')}"

text \<open>The pages of an output: its \<open>pages\<close> list, or the output itself as one page.\<close>

definition pages_of :: "dict \<Rightarrow> dict list" where
  "pages_of out = (case dget out (lit ''pages'') of JArr xs \<Rightarrow> dicts_of xs | _ \<Rightarrow> [out])"

definition discovery_observation_is_valid :: "observation \<Rightarrow> bool" where
  "discovery_observation_is_valid ob =
     (if ob_tool ob = lit ''search-public-job-pages'' then official_scan_empty (output_of ob)
      else if ob_tool ob = lit ''query-career-sheet-records'' then False
      else if ob_tool ob \<in> discovery_detail_tools then detail_complete (output_of ob)
      else if ob_tool ob \<notin> discovery_evidence_tools then False
      else \<exists>page \<in> set (pages_of (output_of ob)). page_complete page)"

definition match_usable :: "dict \<Rightarrow> bool" where
  "match_usable m \<longleftrightarrow> nonempty_str (dget m (lit ''source_url''))
     \<and> is_str (dget m (lit ''evidence_excerpt''))
     \<and> strip (the_str (dget m (lit ''evidence_excerpt''))) \<noteq> []"

definition matching_observation_is_meaningful :: "observation \<Rightarrow> bool" where
  "matching_observation_is_meaningful ob =
     (let out = output_of ob in
      case dget out (lit ''matches'') of
        JArr [] \<Rightarrow>
          is_int (dget out (lit ''evaluated_candidate_count''))
          \<and> 0 < the_int (dget out (lit ''evaluated_candidate_count''))
          \<and> (case dget out (lit ''evaluated_source_urls'') of
               JArr us \<Rightarrow> \<exists>x \<in> set us. nonempty_str x | _ \<Rightarrow> False)
          \<and> dget out (lit ''no_match_reason'') = JStr (lit ''no_candidate_satisfied_constraints'')
      | JArr ms \<Rightarrow> \<exists>m \<in> set (dicts_of ms). match_usable m
      | _ \<Rightarrow> False)"

definition stripped_str :: "json \<Rightarrow> bool" where
  "stripped_str v \<longleftrightarrow> is_str v \<and> strip (the_str v) \<noteq> []"

definition tailoring_observation_is_meaningful :: "observation \<Rightarrow> bool" where
  "tailoring_observation_is_meaningful ob =
     (let out = output_of ob in
      stripped_str (dget out (lit ''target_artifact_id'')) \<and> stripped_str (dget out (lit ''source_url''))
      \<and> (case dget out (lit ''safe_actions'') of JArr xs \<Rightarrow> xs \<noteq> [] | _ \<Rightarrow> False))"

definition skill_observation_is_semantically_valid :: "str \<Rightarrow> dict \<Rightarrow> bool" where
  "skill_observation_is_semantically_valid tool out =
     (let ob = \<lparr>ob_tool = tool, ob_status = ObsSucceeded, ob_output = Some out, ob_error = None,
                ob_message = None\<rparr>
      in if tool = lit ''search-public-job-pages'' then discovery_observation_is_valid ob
         else if tool = lit ''match-observed-jobs'' then matching_observation_is_meaningful ob
         else if tool = lit ''build-resume-tailoring-brief'' then tailoring_observation_is_meaningful ob
         else True)"

subsection \<open>The error policy of the job sources\<close>

definition client_error_statuses :: "str set" where
  "client_error_statuses = set (map str_of_int (filter (\<lambda>c. c \<notin> {408, 429}) [400..499]))"

definition career_source_policy :: error_policy where
  "career_source_policy = empty_policy\<lparr>
     po_blocked := lit ` {''domain_temporarily_blocked'', ''needs_manual_review'',
       ''wechat_ocr_disabled'', ''wechat_ocr_failed'', ''adapter:url_not_allowlisted'',
       ''adapter:empty_result'', ''adapter:malformed_payload'', ''adapter:adapter_error'',
       ''adapter:adapter_unknown'', ''adapter:adapter_invalid'', ''adapter:allowlist_missing''},
     po_prefixes := [lit ''adapter:''],
     po_http := client_error_statuses,
     po_transient := lit ` {''adapter:timeout'', ''adapter:dns_error'', ''adapter:transport_error''}\<rparr>"

definition career_error_policy :: error_policy where
  "career_error_policy = merge_error_policies [default_error_policy, career_source_policy]"

subsection \<open>The registry\<close>

definition tool_artifact_type :: "str \<Rightarrow> str option" where
  "tool_artifact_type tool =
     (if tool \<in> discovery_evidence_tools then Some (lit ''public_job_page'')
      else if tool \<in> lit ` {''search-public-job-pages'', ''query-career-sheet-records''}
        then Some (lit ''job_search_results'')
      else if tool \<in> discovery_detail_tools then Some (lit ''structured_job_details'')
      else if tool = lit ''match-observed-jobs'' then Some (lit ''job_matching_report'')
      else if tool = lit ''build-resume-tailoring-brief'' then Some (lit ''resume_tailoring_brief'')
      else None)"

definition skill_input_ports :: "str \<Rightarrow> artifact_port list" where
  "skill_input_ports name =
     (if name = lit ''job-matching'' then
        [\<lparr>ap_name = lit ''job-evidence'',
          ap_types = lit ` {''public_job_page'', ''structured_job_details''}\<rparr>]
      else if name = lit ''resume-tailoring'' then
        [\<lparr>ap_name = lit ''job-evidence'',
          ap_types = lit ` {''public_job_page'', ''structured_job_details'', ''job_matching_report''}\<rparr>]
      else [])"

definition skill_output_ports :: "str \<Rightarrow> artifact_port list" where
  "skill_output_ports name =
     (if name = lit ''job-discovery'' then
        [\<lparr>ap_name = lit ''discovery-evidence'',
          ap_types = lit ` {''public_job_page'', ''job_search_results'', ''structured_job_details''}\<rparr>]
      else if name = lit ''job-matching'' then
        [\<lparr>ap_name = lit ''match-report'', ap_types = {lit ''job_matching_report''}\<rparr>]
      else if name = lit ''resume-tailoring'' then
        [\<lparr>ap_name = lit ''tailoring-brief'', ap_types = {lit ''resume_tailoring_brief''}\<rparr>]
      else [])"

definition career_contract :: "str \<Rightarrow> completion_contract" where
  "career_contract name =
     (if name = lit ''job-discovery'' then
        \<lparr>cc_tools = discovery_evidence_tools \<union> discovery_detail_tools
           \<union> {lit ''search-public-job-pages''},
         cc_observation_check = Some discovery_observation_is_valid,
         cc_semantic_check = Some discovery_observation_is_valid\<rparr>
      else if name = lit ''job-matching'' then
        \<lparr>cc_tools = {lit ''match-observed-jobs''}, cc_observation_check = None,
         cc_semantic_check = Some matching_observation_is_meaningful\<rparr>
      else
        \<lparr>cc_tools = {lit ''build-resume-tailoring-brief''}, cc_observation_check = None,
         cc_semantic_check = Some tailoring_observation_is_meaningful\<rparr>)"

definition career_descriptions :: "(str \<times> str) list" where
  "career_descriptions =
     [(lit ''job-discovery'',
       lit ''Collect and normalize evidence-backed public job descriptions.''),
      (lit ''job-matching'',
       lit ''Rank jobs against confirmed profile facts and stated preferences.''),
      (lit ''resume-tailoring'',
       lit ''Produce fact-grounded resume diff operations for one job.'')]"

definition career_definition :: "(str \<Rightarrow> str) \<Rightarrow> str \<times> str \<Rightarrow> skill_definition" where
  "career_definition instructions nd =
     (let name = fst nd in
      \<lparr>sd_name = name, sd_description = snd nd, sd_contract = Some (career_contract name),
       sd_policy = (if name \<in> {lit ''job-matching'', lit ''resume-tailoring''} then PolicyRequired
                    else PolicyOptional),
       sd_context_keys = (if name = lit ''job-discovery'' then {}
                          else lit ` {''confirmed_profile_facts'', ''preferences''}),
       sd_execution_policy = [], sd_instructions = instructions name,
       sd_inputs = skill_input_ports name, sd_outputs = skill_output_ports name\<rparr>)"

definition build_career_skill_registry :: "(str \<Rightarrow> str) \<Rightarrow> register_error + skill_registry" where
  "build_career_skill_registry instructions =
     make_skill_registry (map (career_definition instructions) career_descriptions)
       (Some career_error_policy)"

definition career_registry :: "(str \<Rightarrow> str) \<Rightarrow> skill_registry" where
  "career_registry instructions =
     \<lparr>sr_defs = map (career_definition instructions) career_descriptions,
      sr_policy = career_error_policy\<rparr>"

lemma strip_simple: "s \<noteq> [] \<Longrightarrow> \<not> is_space (hd s) \<Longrightarrow> strip s \<noteq> []"
proof -
  assume s: "s \<noteq> []" and h: "\<not> is_space (hd s)"
  then have "dropWhile is_space s = s" by (cases s) auto
  moreover have "dropWhile is_space (rev s) \<noteq> []"
    using s h by (auto simp: dropWhile_eq_Nil_conv)
  ultimately show ?thesis by (simp add: strip_def)
qed

lemma career_registry_builds: "build_career_skill_registry f = Inr (career_registry f)"
proof -
  have s: "strip (lit ''job-discovery'') \<noteq> []" "strip (lit ''job-matching'') \<noteq> []"
      "strip (lit ''resume-tailoring'') \<noteq> []"
    by (rule strip_simple; simp add: lit_def is_space_def)+
  show ?thesis
    using s by (simp add: build_career_skill_registry_def make_skill_registry_def career_registry_def
        register_skill_def career_descriptions_def career_definition_def Let_def)
qed

subsection \<open>Every external block is blocked by the policy\<close>

lemma career_policy_fields:
  "po_blocked career_error_policy = po_blocked default_error_policy \<union> po_blocked career_source_policy"
  "po_human career_error_policy = po_human default_error_policy"
  "po_permanent career_error_policy = {}"
  "po_invalid career_error_policy = po_invalid default_error_policy"
  "po_transient career_error_policy = po_transient default_error_policy \<union> po_transient career_source_policy"
  "po_prefixes career_error_policy = [lit ''adapter:'']"
  "po_http career_error_policy = client_error_statuses"
  by (auto simp: career_error_policy_def merge_error_policies_def default_error_policy_def
      career_source_policy_def empty_policy_def)

lemma http_code_career:
  "classify_text career_error_policy (http_prefix @ s) = (if s \<in> client_error_statuses then Blocked else Retryable)"
  by (simp add: classify_text_def career_policy_fields default_error_policy_def
      career_source_policy_def empty_policy_def) (simp add: http_prefix_def)

lemma client_error_status_iff:
  "0 \<le> n \<Longrightarrow> str_of_int n \<in> client_error_statuses \<longleftrightarrow> 400 \<le> n \<and> n < 500 \<and> n \<noteq> 408 \<and> n \<noteq> 429"
  unfolding client_error_statuses_def set_map set_filter set_upto
  by (auto simp: image_iff)

lemma policy_sets:
  "po_human career_error_policy = lit ` {''login_required'', ''captcha'', ''anti_bot'',
     ''anti_bot_challenge''}"
  "po_invalid career_error_policy = lit ` {''unknown_tool'', ''tool_role_forbidden'',
       ''tool_skill_forbidden'',
       ''invalid_tool_input''}"
  "po_transient career_error_policy = lit ` {''public_fetch_failed'', ''public_search_failed'',
       ''public_host_unresolvable'', ''adapter:timeout'', ''adapter:dns_error'', ''adapter:transport_error''}"
  "po_blocked career_error_policy = lit ` {''access_denied'', ''unsafe_public_url'', 
       ''domain_temporarily_blocked'', ''needs_manual_review'',
       ''wechat_ocr_disabled'', ''wechat_ocr_failed'', ''adapter:url_not_allowlisted'',
       ''adapter:empty_result'', ''adapter:malformed_payload'', ''adapter:adapter_error'',
       ''adapter:adapter_unknown'', ''adapter:adapter_invalid'', ''adapter:allowlist_missing''}"
  unfolding career_policy_fields
  by (simp_all add: default_error_policy_def career_source_policy_def empty_policy_def
      Un_commute insert_commute flip: image_Un)

lemma lit_in_image: "lit s \<in> lit ` A \<longleftrightarrow> s \<in> A" by auto

definition blocked_names :: "string set" where
  "blocked_names = {''access_denied'', ''domain_temporarily_blocked'', ''needs_manual_review'',
     ''adapter:url_not_allowlisted'', ''adapter:empty_result'', ''adapter:malformed_payload'',
     ''adapter:adapter_error'', ''adapter:adapter_unknown'', ''adapter:adapter_invalid'',
     ''adapter:allowlist_missing''}"

lemma external_codes_split:
  "external_codes \<union> external_adapter_codes =
   insert (lit ''ocr_disabled'') (po_human career_error_policy \<union> lit ` blocked_names)"
  unfolding external_codes_def external_adapter_codes_def policy_sets blocked_names_def
    image_insert image_empty Un_insert_left Un_insert_right Un_empty_left Un_empty_right
  by (simp only: insert_commute insert_absorb2)

lemma listed_code_blocked:
  "\<forall>s \<in> blocked_names. classify_text career_error_policy (lit s) = Blocked"
  unfolding classify_text_def policy_sets lit_in_image lit_eq_Nil career_policy_fields blocked_names_def
  by (simp add: http_prefix_def)

lemma human_code: "c \<in> po_human career_error_policy \<Longrightarrow>
  classify_text career_error_policy c = HumanRequired"
  by (auto simp: classify_text_def policy_sets)

lemma external_code_blocked:
  assumes "is_external_terminal_code code" and "code \<noteq> lit ''ocr_disabled''"
    and "starts_with code http_prefix \<Longrightarrow> \<exists>n \<ge> 0. remove_prefix code http_prefix = str_of_int n"
  shows "policy_blocked career_error_policy (Some code)"
proof (cases "code \<in> external_codes \<union> external_adapter_codes")
  case True
  then show ?thesis
    using assms(2) listed_code_blocked human_code
    by (auto simp: external_codes_split policy_blocked_def classify_error_def)
next
  case False
  with assms(1) have st: "starts_with code http_prefix"
    and n: "is_digit_text (remove_prefix code http_prefix)"
      "400 \<le> int_of_text (remove_prefix code http_prefix)"
      "int_of_text (remove_prefix code http_prefix) < 500"
      "remove_prefix code http_prefix \<notin> lit ` {''408'', ''429''}"
    by (auto simp: is_external_terminal_code_def Let_def split: if_splits)
  define s where "s = remove_prefix code http_prefix"
  have code: "code = http_prefix @ s"
    using st by (metis append_take_drop_id remove_prefix_def s_def starts_with_def)
  obtain k where k: "0 \<le> k" "s = str_of_int k" using assms(3) [OF st] s_def by auto
  then have v: "int_of_text s = k" by (simp add: str_of_int_def)
  have "str_of_int 408 = lit ''408''" "str_of_int 429 = lit ''429''"
    by (simp_all add: str_of_int_def nat_digits.simps lit_def)
  then have "k \<noteq> 408" "k \<noteq> 429" using n(4) k unfolding s_def [symmetric] by auto
  then have "s \<in> client_error_statuses"
    using n(2,3) v k client_error_status_iff [of k] unfolding s_def [symmetric] by simp
  then show ?thesis
    by (simp add: code policy_blocked_def classify_error_def http_code_career)
qed

subsection \<open>Properties\<close>

text \<open>Under the policy of the job sources an HTTP error of an adapter is blocked exactly for the
  client errors that a retry cannot repair: 400 to 499 without 408 and 429; any other status is
  retried.\<close>

theorem http_error_disposition:
  assumes "0 \<le> n"
  shows "classify_text career_error_policy (http_prefix @ str_of_int n) =
    (if 400 \<le> n \<and> n < 500 \<and> n \<noteq> 408 \<and> n \<noteq> 429 then Blocked else Retryable)"
  by (simp add: http_code_career client_error_status_iff [OF assms])

theorem http_error_disposition_witness:
  "classify_text career_error_policy (http_prefix @ str_of_int 404) = Blocked
   \<and> classify_text career_error_policy (http_prefix @ str_of_int 429) = Retryable"
  using http_error_disposition [of 404] http_error_disposition [of 429] by simp

text \<open>The two classifications of failures agree: a code the terminal contract reports as external
  is one the policy of the registry blocks, except for \<open>ocr_disabled\<close> and for an HTTP status that is
  not written as a plain number.\<close>

theorem external_codes_blocked:
  assumes "is_external_terminal_code code" and "code \<noteq> lit ''ocr_disabled''"
    and "starts_with code http_prefix \<Longrightarrow> \<exists>n \<ge> 0. remove_prefix code http_prefix = str_of_int n"
  shows "policy_blocked career_error_policy (Some code)"
  by (rule external_code_blocked) (fact assms)+

theorem external_codes_blocked_witness: "policy_blocked career_error_policy (Some (lit ''captcha''))"
  by (rule external_codes_blocked)
     (simp_all add: is_external_terminal_code_def external_codes_def http_prefix_def)

end
