(* ===== verification/StepInputs.thy ===== *)
theory StepInputs
  imports CareerManifest
begin

section \<open>What a step reads and what it hands on\<close>

text \<open>
  The pure part of the data flow in \<open>runtime.py\<close>: the context a task is compiled to
  (\<open>_compile_task_context\<close>), the typed inputs of a step (\<open>_task_input_value\<close>,
  \<open>_prepare_step_inputs\<close>), the names its artifacts get (\<open>_tag_step_outputs\<close>), the
  routing steps, and the answer to an existence question. A \<open>StepDependencyError\<close> is an
  \<open>Inl\<close> with its message.
\<close>

subsection \<open>Tool context\<close>

record tool_context =
  tx_user :: str
  tx_run :: str
  tx_meta :: dict

subsection \<open>Context paths and task inputs\<close>

fun context_path :: "json \<Rightarrow> str list \<Rightarrow> json" where
  "context_path v [] = v"
| "context_path v (s # ss) =
     (case v of JObj d \<Rightarrow> if dhas d s then context_path (dget d s) ss else JNull | _ \<Rightarrow> JNull)"

definition context_value :: "dict \<Rightarrow> str \<Rightarrow> json" where
  "context_value context name = context_path (JObj context) (split_on 46 name)"

definition profile_facts_key :: str where
  "profile_facts_key = lit ''confirmed_profile_facts''"

definition private_prefix :: str where
  "private_prefix = lit ''private_context.''"

definition task_input_value :: "task \<Rightarrow> str \<Rightarrow> json" where
  "task_input_value t name =
     (if name = lit ''goal'' then JStr (tk_goal t)
      else if name = lit ''allowed_skills'' then strs (tk_skills t)
      else if name = lit ''confirmed_profile_fact_fields'' then
        (case dget (tk_private t) profile_facts_key of
           JObj facts \<Rightarrow> strs (sort (map fst facts)) | _ \<Rightarrow> JNull)
      else if name = profile_facts_key then dget (tk_private t) profile_facts_key
      else if starts_with name private_prefix then
        context_value (tk_private t) (remove_prefix name private_prefix)
      else context_value (tk_context t) (remove_prefix name (lit ''context.'')))"

definition is_private_task_input :: "str \<Rightarrow> bool" where
  "is_private_task_input name \<longleftrightarrow> name = profile_facts_key \<or> starts_with name private_prefix"

subsection \<open>The compiled context\<close>

text \<open>
  \<open>\d\<close> of \<open>re\<close> and \<open>int(...)\<close> take the decimal digits of every script: the code points
  of general category \<open>Nd\<close>, ten in a row from each of these zeros. The interpreter's limit of
  4300 digits for \<open>int\<close> is left out.
\<close>

definition decimal_zeros :: "int list" where
  "decimal_zeros =
     [48, 1632, 1776, 1984, 2406, 2534, 2662, 2790, 2918, 3046, 3174, 3302, 3430, 3558, 3664, 3792,
      3872, 4160, 4240, 6112, 6160, 6470, 6608, 6784, 6800, 6992, 7088, 7232, 7248, 42528, 43216,
      43264, 43472, 43504, 43600, 44016, 65296, 66720, 68912, 69734, 69872, 69942, 70096, 70384,
      70736, 70864, 71248, 71360, 71472, 71904, 72016, 72784, 73040, 73120, 92768, 92864, 93008,
      120782, 120792, 120802, 120812, 120822, 123200, 123632, 125264, 130032]"

definition digit_value :: "int \<Rightarrow> int option" where
  "digit_value c = map_option (\<lambda>z. c - z) (find (\<lambda>z. z \<le> c \<and> c < z + 10) decimal_zeros)"

definition is_decimal :: "int \<Rightarrow> bool" where
  "is_decimal c \<longleftrightarrow> digit_value c \<noteq> None"

definition decimal_value :: "str \<Rightarrow> int" where
  "decimal_value s = foldl (\<lambda>a c. 10 * a + the (digit_value c)) 0 s"

text \<open>Texts read as integers: an optional sign and decimal digits that single underscores may separate; the
  integer part of a float as \<open>repr\<close> writes it.\<close>

definition unsigned_text :: "str \<Rightarrow> int option" where
  "unsigned_text s =
     (let parts = split_on 95 s
      in if \<forall>p \<in> set parts. p \<noteq> [] \<and> (\<forall>c \<in> set p. is_decimal c)
         then Some (decimal_value (concat parts)) else None)"

definition signed_text :: "str \<Rightarrow> int option" where
  "signed_text s =
     (if s = [] then None
      else if hd s = 45 then map_option uminus (unsigned_text (tl s))
      else if hd s = 43 then unsigned_text (tl s) else unsigned_text s)"

definition float_int :: "str \<Rightarrow> int" where
  "float_int s =
     (case split_on 101 s of
        [m] \<Rightarrow> (case signed_text (hd (split_on 46 m)) of Some n \<Rightarrow> n | None \<Rightarrow> 0)
      | m # e # _ \<Rightarrow> if starts_with e (lit ''-'') then 0
          else if starts_with m (lit ''-'') then - (10 ^ 16) else 10 ^ 16
      | [] \<Rightarrow> 0)"

text \<open>The four words the window phrase may start with (``recent'', ``near'', ``past'', ``the
  past''), then blanks, digits, blanks and one of the two words for day. No part of the
  expression can give back a character another part could take, so matching needs no backtracking.\<close>

definition window_words :: "str list" where
  "window_words = [[26368, 36817], [36817], [36807, 21435], [36807, 21435, 30340]]"

definition window_after :: "str \<Rightarrow> int option" where
  "window_after s =
     (let s1 = dropWhile is_space s; ds = takeWhile is_decimal s1;
          s2 = dropWhile is_space (dropWhile is_decimal s1)
      in if ds \<noteq> [] \<and> s2 \<noteq> [] \<and> hd s2 \<in> {22825, 26085} then Some (decimal_value ds) else None)"

fun first_some :: "('a \<Rightarrow> 'b option) \<Rightarrow> 'a list \<Rightarrow> 'b option" where
  "first_some f [] = None"
| "first_some f (x # xs) = (case f x of None \<Rightarrow> first_some f xs | Some y \<Rightarrow> Some y)"

definition window_here :: "str \<Rightarrow> int option" where
  "window_here s =
     first_some (\<lambda>w. if starts_with s w then window_after (drop (length w) s) else None) window_words"

fun window_days :: "str \<Rightarrow> int option" where
  "window_days [] = None"
| "window_days (c # cs) =
     (case window_here (c # cs) of Some n \<Rightarrow> Some n | None \<Rightarrow> window_days cs)"

definition derive_terms :: "string \<Rightarrow> str list \<Rightarrow> dict \<Rightarrow> dict" where
  "derive_terms key found context =
     (if dhas context (lit key) \<or> found = [] then context
      else dput (lit key) (strs (take 5 (dedup found))) context)"

definition window_text :: "str \<Rightarrow> dict \<Rightarrow> str" where
  "window_text goal context =
     join (lit '' '') (map py_str (filter (\<lambda>v. v \<noteq> JNull)
       [JStr goal, dget context (lit ''time_window_text''), dget context (lit ''time_window'')]))"

definition derive_window :: "str \<Rightarrow> dict \<Rightarrow> dict" where
  "derive_window goal context =
     (if dhas context (lit ''recent_days'') then context
      else case window_days (window_text goal context) of
          None \<Rightarrow> context
        | Some n \<Rightarrow> dput (lit ''recent_days'') (JInt n) context)"

definition named_terms :: "str list \<Rightarrow> str \<Rightarrow> str list" where
  "named_terms table goal = filter (\<lambda>k. contains (lower k) (lower goal)) table"

definition compile_task_context :: "task \<Rightarrow> task" where
  "compile_task_context t =
     (let goal = tk_goal t;
          roles = named_terms derived_role_keywords goal;
          companies = named_terms derived_company_keywords goal;
          locations = filter (\<lambda>k. contains k goal) derived_location_keywords
      in t\<lparr>tk_context := derive_window goal (derive_terms ''location_keywords'' locations
             (derive_terms ''company_keywords'' companies
               (derive_terms ''role_keywords'' roles (tk_context t))))\<rparr>)"

subsection \<open>Routing steps\<close>

fun step_index :: "str \<Rightarrow> plan_step list \<Rightarrow> nat option" where
  "step_index i [] = None"
| "step_index i (s # ss) = (if ps_id s = i then Some 0 else map_option Suc (step_index i ss))"

definition output_types :: "plan_step \<Rightarrow> str set" where
  "output_types s = {t \<in> set (List.map_filter so_type (ps_outputs s)). t \<noteq> []}"

definition is_intermediate_routing_step :: "execution_plan \<Rightarrow> plan_step \<Rightarrow> bool" where
  "is_intermediate_routing_step p s =
     (case step_index (ps_id s) (ep_steps p) of
        None \<Rightarrow> False
      | Some i \<Rightarrow> i < length (ep_steps p) - 1 \<and> ps_outputs s \<noteq> []
                  \<and> output_types s = {lit ''job_search_results''})"

definition routing_ref :: "dict \<Rightarrow> bool" where
  "routing_ref ref \<longleftrightarrow>
     dget ref (lit ''artifact_type'') = JStr (lit ''job_search_results'')
     \<and> json_in (dget ref (lit ''tool'')) [''query-career-sheet-records'', ''search-public-job-pages'']
     \<and> dget ref (lit ''semantic_valid'') = JStr (lit ''true'')"

definition intermediate_routing_contract_met :: "execution_plan \<Rightarrow> plan_step \<Rightarrow> dict list \<Rightarrow> bool" where
  "intermediate_routing_contract_met p s refs =
     (if \<not> is_intermediate_routing_step p s then False else \<exists>ref \<in> set refs. routing_ref ref)"

subsection \<open>The inputs of a step\<close>

type_synonym step_outputs = "(str \<times> dict list) list"

record resolved =
  rv_context :: dict
  rv_artifacts :: dict
  rv_private :: "str list"

definition ref_named :: "step_input_ref \<Rightarrow> dict \<Rightarrow> bool" where
  "ref_named r item \<longleftrightarrow>
     JStr (si_name r) \<in> {dget item (lit ''output_name''), dget item (lit ''artifact_type''),
       dget item (lit ''tool''), dget item (lit ''artifact_id'')}
     \<and> (case si_type r of None \<Rightarrow> True | Some t \<Rightarrow> dget item (lit ''artifact_type'') = JStr t)"

definition discovery_evidence_ref :: "dict \<Rightarrow> bool" where
  "discovery_evidence_ref item \<longleftrightarrow>
     json_in (dget item (lit ''artifact_type'')) [''public_job_page'', ''structured_job_details'']"

definition artifact_matches :: "plan_step \<Rightarrow> step_input_ref \<Rightarrow> dict list \<Rightarrow> dict list" where
  "artifact_matches s r source =
     (let m0 = filter (ref_named r) source;
          m1 = (if m0 = [] \<and> length source = 1 \<and> si_type r = None then source else m0);
          compatible = filter discovery_evidence_ref source
      in if si_type r = Some (lit ''job_search_results'')
            \<and> lit ''job-discovery'' \<in> set (ps_skills s) \<and> compatible \<noteq> []
         then m1 @ compatible else m1)"

definition needs_text :: "plan_step \<Rightarrow> string \<Rightarrow> str \<Rightarrow> str" where
  "needs_text s verb name = lit ''step '' @ ps_id s @ lit '' '' @ lit verb @ [39] @ name @ [39]"

definition source_of :: "step_outputs \<Rightarrow> step_input_ref \<Rightarrow> dict list" where
  "source_of outs r =
     (case map_of outs (if present (si_from r) then the (si_from r) else []) of
        None \<Rightarrow> [] | Some refs \<Rightarrow> refs)"

definition from_text :: "step_input_ref \<Rightarrow> str" where
  "from_text r = lit '' from step '' @ [39] @ py_str (opt_text (si_from r)) @ [39]"

definition resolve_context :: "task \<Rightarrow> plan_step \<Rightarrow> step_input_ref \<Rightarrow> resolved \<Rightarrow> str + resolved" where
  "resolve_context t s r acc =
     (let value = task_input_value t (si_name r) in
      if value = JNull then Inl (needs_text s ''requires context input '' (si_name r))
      else if is_private_task_input (si_name r) then
        Inr (acc\<lparr>rv_private := si_name r # rv_private acc\<rparr>)
      else Inr (acc\<lparr>rv_context := dput (si_name r) value (rv_context acc)\<rparr>))"

definition resolve_artifact ::
  "plan_step \<Rightarrow> step_outputs \<Rightarrow> step_input_ref \<Rightarrow> resolved \<Rightarrow> str + resolved" where
  "resolve_artifact s outs r acc =
     (let source = source_of outs r; matches = artifact_matches s r source in
      if source = [] then Inl (needs_text s ''requires artifact '' (si_name r) @ from_text r)
      else if matches = [] then
        Inl (needs_text s ''cannot resolve artifact '' (si_name r) @ from_text r)
      else Inr (acc\<lparr>rv_artifacts := dput (si_name r) (JArr (map JObj matches)) (rv_artifacts acc)\<rparr>))"

fun resolve_inputs ::
  "task \<Rightarrow> plan_step \<Rightarrow> step_outputs \<Rightarrow> step_input_ref list \<Rightarrow> resolved \<Rightarrow> str + resolved" where
  "resolve_inputs t s outs [] acc = Inr acc"
| "resolve_inputs t s outs (r # rs) acc =
     (case (if si_kind r = ContextInput then resolve_context t s r acc
            else resolve_artifact s outs r acc) of
        Inl e \<Rightarrow> Inl e
      | Inr acc' \<Rightarrow> resolve_inputs t s outs rs acc')"

definition input_payload :: "resolved \<Rightarrow> json" where
  "input_payload rv = JObj [(lit ''context'', JObj (rv_context rv)),
     (lit ''artifacts'', JObj (rv_artifacts rv)),
     (lit ''private_inputs'', strs (sort (dedup (rv_private rv))))]"

text \<open>The flag tells whether the tool context is a new object: when nothing was resolved the step
  works on the very context of the run.\<close>

definition prepare_step_inputs ::
  "task \<Rightarrow> tool_context \<Rightarrow> plan_step \<Rightarrow> step_outputs \<Rightarrow> str + (task \<times> tool_context \<times> bool)" where
  "prepare_step_inputs t c s outs =
     (case resolve_inputs t s outs (ps_inputs s) \<lparr>rv_context = [], rv_artifacts = [], rv_private = []\<rparr> of
        Inl e \<Rightarrow> Inl e
      | Inr rv \<Rightarrow>
          if rv_context rv = [] \<and> rv_artifacts rv = [] then Inr (t, c, False)
          else Inr (t\<lparr>tk_context := dput (lit ''resolved_step_inputs'') (input_payload rv) (tk_context t)\<rparr>,
                    c\<lparr>tx_meta := dput (lit ''resolved_step_inputs'') (input_payload rv) (tx_meta c)\<rparr>,
                    True))"

subsection \<open>The outputs of a step\<close>

definition str_item :: "dict \<Rightarrow> dict" where
  "str_item ref = map (\<lambda>(k, v). (k, JStr (py_str v))) (filter (\<lambda>(k, v). v \<noteq> JNull) ref)"

definition select_output :: "plan_step \<Rightarrow> nat \<Rightarrow> dict \<Rightarrow> step_output_ref" where
  "select_output s index item =
     (case find (\<lambda>out. present (so_type out)
                    \<and> JStr (the (so_type out)) = dget item (lit ''artifact_type'')) (ps_outputs s) of
        Some out \<Rightarrow> out
      | None \<Rightarrow> if length (ps_outputs s) = 1 then ps_outputs s ! 0
                else ps_outputs s ! (index mod length (ps_outputs s)))"

definition tag_item :: "plan_step \<Rightarrow> nat \<Rightarrow> dict \<Rightarrow> dict" where
  "tag_item s index ref =
     (let item = str_item ref; out = select_output s index item;
          named = dput (lit ''output_name'') (JStr (so_name out)) item
      in if present (so_type out) \<and> \<not> dhas named (lit ''artifact_type'')
         then dput (lit ''artifact_type'') (JStr (the (so_type out))) named else named)"

definition tag_step_outputs :: "plan_step \<Rightarrow> dict list \<Rightarrow> dict list" where
  "tag_step_outputs s refs =
     (if ps_outputs s = [] then refs else map2 (tag_item s) [0..<length refs] refs)"

subsection \<open>Lemmas\<close>

text \<open>The compiled context adds the derived keys and leaves every key of the caller.\<close>

lemma derive_terms_keeps: "dhas c k \<Longrightarrow> dhas (derive_terms key found c) k \<and> dget (derive_terms key found c) k = dget c k"
  by (auto simp: derive_terms_def)

lemma derive_window_keeps: "dhas c k \<Longrightarrow> dhas (derive_window g c) k \<and> dget (derive_window g c) k = dget c k"
  by (auto simp: derive_window_def split: option.splits)

lemma compile_keeps:
  "dhas (tk_context t) k \<Longrightarrow> dget (tk_context (compile_task_context t)) k = dget (tk_context t) k"
  by (simp add: compile_task_context_def Let_def derive_terms_keeps derive_window_keeps)

lemma compile_frame [simp]:
  "tk_goal (compile_task_context t) = tk_goal t"
  "tk_skills (compile_task_context t) = tk_skills t"
  "tk_private (compile_task_context t) = tk_private t"
  "tk_exec_state (compile_task_context t) = tk_exec_state t"
  "tk_replan (compile_task_context t) = tk_replan t"
  "tk_budget (compile_task_context t) = tk_budget t"
  by (simp_all add: compile_task_context_def Let_def)

lemma derive_terms_done: "dhas (derive_terms key found c) (lit key) \<or> found = []"
  by (auto simp: derive_terms_def)

lemma derive_terms_fix: "dhas c (lit key) \<or> found = [] \<Longrightarrow> derive_terms key found c = c"
  by (auto simp: derive_terms_def)

lemma derive_window_fix: "derive_window g (derive_window g c) = derive_window g c"
  by (auto simp: derive_window_def split: option.splits)

lemma derive_terms_window:
  "dhas c (lit key) \<or> found = [] \<Longrightarrow> derive_terms key found (derive_window g c) = derive_window g c"
  by (rule derive_terms_fix) (use derive_window_keeps in blast)

lemma compile_idem: "compile_task_context (compile_task_context t) = compile_task_context t"
proof -
  define g where "g = tk_goal t"
  define roles where "roles = named_terms derived_role_keywords g"
  define companies where "companies = named_terms derived_company_keywords g"
  define locations where "locations = filter (\<lambda>k. contains k g) derived_location_keywords"
  define c1 where "c1 = derive_terms ''role_keywords'' roles (tk_context t)"
  define c2 where "c2 = derive_terms ''company_keywords'' companies c1"
  define c3 where "c3 = derive_terms ''location_keywords'' locations c2"
  have step: "compile_task_context (t\<lparr>tk_context := c\<rparr>) = t\<lparr>tk_context := derive_window g
      (derive_terms ''location_keywords'' locations (derive_terms ''company_keywords'' companies
        (derive_terms ''role_keywords'' roles c)))\<rparr>" for c
    by (simp add: compile_task_context_def Let_def g_def roles_def companies_def locations_def)
  have once: "compile_task_context t = t\<lparr>tk_context := derive_window g c3\<rparr>"
    using step [of "tk_context t"] by (simp add: c1_def c2_def c3_def)
  have "dhas c3 (lit ''role_keywords'') \<or> roles = []"
    unfolding c3_def c2_def c1_def using derive_terms_done derive_terms_keeps by blast
  moreover have "dhas c3 (lit ''company_keywords'') \<or> companies = []"
    unfolding c3_def c2_def using derive_terms_done derive_terms_keeps by blast
  moreover have "dhas c3 (lit ''location_keywords'') \<or> locations = []"
    unfolding c3_def using derive_terms_done by blast
  ultimately show ?thesis
    unfolding once step
    by (simp add: derive_terms_window derive_window_fix)
qed

text \<open>A private input is checked for presence and never copied.\<close>

definition resolved_public :: "resolved \<Rightarrow> bool" where
  "resolved_public rv \<longleftrightarrow> (\<forall>k. dhas (rv_context rv) k \<longrightarrow> \<not> is_private_task_input k)"

lemma resolve_context_cases:
  assumes "resolve_context t s r acc = Inr rv"
  obtains "is_private_task_input (si_name r)" "rv = acc\<lparr>rv_private := si_name r # rv_private acc\<rparr>"
  | "\<not> is_private_task_input (si_name r)"
    "rv = acc\<lparr>rv_context := dput (si_name r) (task_input_value t (si_name r)) (rv_context acc)\<rparr>"
  using assms unfolding resolve_context_def Let_def
  by (cases "task_input_value t (si_name r) = JNull"; cases "is_private_task_input (si_name r)") simp_all

lemma resolve_context_public:
  assumes "resolve_context t s r acc = Inr rv" and "resolved_public acc"
  shows "resolved_public rv"
  using assms(1) by (rule resolve_context_cases) (use assms(2) in \<open>auto simp: resolved_public_def\<close>)

lemma resolve_artifact_context:
  "resolve_artifact s outs r acc = Inr rv \<Longrightarrow> rv_context rv = rv_context acc"
  by (auto simp: resolve_artifact_def Let_def split: if_splits)

lemma resolve_inputs_public:
  "resolve_inputs t s outs rs acc = Inr rv \<Longrightarrow> resolved_public acc \<Longrightarrow> resolved_public rv"
proof (induction rs arbitrary: acc)
  case Nil
  then show ?case by simp
next
  case (Cons r rs)
  obtain acc' where step: "(if si_kind r = ContextInput then resolve_context t s r acc
      else resolve_artifact s outs r acc) = Inr acc'" and rest: "resolve_inputs t s outs rs acc' = Inr rv"
    using Cons.prems(1) by (auto split: sum.splits)
  have "resolved_public acc'"
    using step Cons.prems(2) resolve_context_public resolve_artifact_context
    by (metis resolved_public_def)
  with rest show ?case by (rule Cons.IH)
qed

text \<open>Every artifact a step gets is one of the outputs of the step the input names.\<close>

definition resolved_from :: "step_outputs \<Rightarrow> resolved \<Rightarrow> bool" where
  "resolved_from outs rv \<longleftrightarrow> (\<forall>k v. map_of (rv_artifacts rv) k = Some v \<longrightarrow>
     (\<exists>ms refs. v = JArr (map JObj ms) \<and> ms \<noteq> [] \<and> set ms \<subseteq> set refs \<and> refs \<in> snd ` set outs))"

lemma artifact_matches_subset: "set (artifact_matches s r source) \<subseteq> set source"
  by (auto simp: artifact_matches_def Let_def)

lemma resolve_artifact_from:
  assumes "resolve_artifact s outs r acc = Inr rv" and "resolved_from outs acc"
  shows "resolved_from outs rv"
proof -
  define source where "source = source_of outs r"
  have s: "source \<noteq> []" and m: "artifact_matches s r source \<noteq> []"
    and rv: "rv = acc\<lparr>rv_artifacts := dput (si_name r)
      (JArr (map JObj (artifact_matches s r source))) (rv_artifacts acc)\<rparr>"
    using assms(1) by (auto simp: resolve_artifact_def Let_def source_def split: if_splits)
  have src: "source \<in> snd ` set outs"
  proof -
    have "map_of outs (if present (si_from r) then the (si_from r) else []) = Some source"
      (is "?m = _")
      using s unfolding source_def source_of_def by (cases ?m) simp_all
    from map_of_SomeD [OF this] show ?thesis by (rule rev_image_eqI) simp
  qed
  show ?thesis
    unfolding resolved_from_def
  proof (intro allI impI)
    fix k v
    assume v: "map_of (rv_artifacts rv) k = Some v"
    show "\<exists>ms refs. v = JArr (map JObj ms) \<and> ms \<noteq> [] \<and> set ms \<subseteq> set refs \<and> refs \<in> snd ` set outs"
    proof (cases "k = si_name r")
      case True
      then have "v = JArr (map JObj (artifact_matches s r source))" using v by (simp add: rv)
      then show ?thesis using m src artifact_matches_subset by blast
    next
      case False
      then have "map_of (rv_artifacts acc) k = Some v" using v by (simp add: rv)
      then show ?thesis using assms(2) unfolding resolved_from_def by blast
    qed
  qed
qed

lemma resolve_context_from:
  assumes "resolve_context t s r acc = Inr rv" and "resolved_from outs acc"
  shows "resolved_from outs rv"
  using assms(1) by (rule resolve_context_cases) (use assms(2) in \<open>auto simp: resolved_from_def\<close>)

lemma resolve_inputs_from:
  "resolve_inputs t s outs rs acc = Inr rv \<Longrightarrow> resolved_from outs acc \<Longrightarrow> resolved_from outs rv"
proof (induction rs arbitrary: acc)
  case Nil
  then show ?case by simp
next
  case (Cons r rs)
  obtain acc' where step: "(if si_kind r = ContextInput then resolve_context t s r acc
      else resolve_artifact s outs r acc) = Inr acc'" and rest: "resolve_inputs t s outs rs acc' = Inr rv"
    using Cons.prems(1) by (auto split: sum.splits)
  have "resolved_from outs acc'"
    using step Cons.prems(2) resolve_context_from resolve_artifact_from by (metis (full_types))
  with rest show ?case by (rule Cons.IH)
qed

lemma length_tag_step_outputs [simp]: "length (tag_step_outputs s refs) = length refs"
  by (simp add: tag_step_outputs_def)

lemma select_output_in: "ps_outputs s \<noteq> [] \<Longrightarrow> select_output s i item \<in> set (ps_outputs s)"
  by (auto simp: select_output_def split: option.splits dest: find_SomeD)

lemma tag_step_outputs_nth:
  "ps_outputs s \<noteq> [] \<Longrightarrow> i < length refs \<Longrightarrow> tag_step_outputs s refs ! i = tag_item s i (refs ! i)"
  by (simp add: tag_step_outputs_def)

lemma dget_str_item: "dget (str_item ref) k = (if dget ref k = JNull then JNull else JStr (py_str (dget ref k)))"
  if "distinct (map fst ref)"
proof -
  have "map_of (str_item ref) k = (case map_of ref k of None \<Rightarrow> None | Some JNull \<Rightarrow> None
      | Some v \<Rightarrow> Some (JStr (py_str v)))"
    using that
  proof (induction ref)
    case Nil
    then show ?case by (simp add: str_item_def)
  next
    case (Cons kv ref)
    obtain k' v where kv: "kv = (k', v)" by (cases kv)
    have none: "k' = k \<Longrightarrow> map_of ref k = None"
      using Cons.prems by (auto simp: kv map_of_eq_None_iff)
    show ?case using Cons none by (cases v) (auto simp: kv str_item_def)
  qed
  then show ?thesis by (auto simp: dget_def split: option.splits json.splits)
qed

lemma tag_item_name: "dget (tag_item s i ref) (lit ''output_name'') =
    JStr (so_name (select_output s i (str_item ref)))"
  by (simp add: tag_item_def Let_def)

lemma tag_item_other:
  "k \<noteq> lit ''output_name'' \<Longrightarrow> k \<noteq> lit ''artifact_type'' \<Longrightarrow>
   dget (tag_item s i ref) k = dget (str_item ref) k"
  by (simp add: tag_item_def Let_def)

subsection \<open>Properties\<close>

text \<open>Deriving the query fields from the goal is idempotent, so a resumed run, whose context
  holds the derived fields, is given the same context.\<close>

theorem compile_context_idempotent: "compile_task_context (compile_task_context t) = compile_task_context t"
  by (rule compile_idem)

text \<open>A key of the caller's context is never changed by the derivation.\<close>

theorem compile_context_keeps:
  assumes "dhas (tk_context t) k"
  shows "dget (tk_context (compile_task_context t)) k = dget (tk_context t) k"
  by (rule compile_keeps [OF assms])

text \<open>What a step is given is what its plan declares: no private input is copied into the public
  context, and every artifact it gets is one that the step named by the input left behind.\<close>

theorem step_inputs_confined:
  assumes "resolve_inputs t s outs (ps_inputs s) \<lparr>rv_context = [], rv_artifacts = [], rv_private = []\<rparr> = Inr rv"
  shows "resolved_public rv \<and> resolved_from outs rv"
  using resolve_inputs_public [OF assms] resolve_inputs_from [OF assms]
  by (simp add: resolved_public_def resolved_from_def dhas_def)

text \<open>Tagging the outputs of a step keeps their number and order, names each by a port the step
  declares, and leaves the identity of the artifact alone.\<close>

theorem tagged_outputs:
  assumes "ps_outputs s \<noteq> []" and "i < length refs"
  shows "length (tag_step_outputs s refs) = length refs
    \<and> (\<exists>out \<in> set (ps_outputs s). dget (tag_step_outputs s refs ! i) (lit ''output_name'') = JStr (so_name out))
    \<and> dget (tag_step_outputs s refs ! i) (lit ''artifact_id'') = dget (str_item (refs ! i)) (lit ''artifact_id'')"
  using assms select_output_in [OF assms(1)]
  by (auto simp: tag_step_outputs_nth tag_item_name tag_item_other)

end
