(* ===== verification/Sha256.thy ===== *)
theory Sha256
  imports Prelude "HOL-Library.Word"
begin

section \<open>\<open>hashlib.sha256(text.encode()).hexdigest()\<close>\<close>

text \<open>
  The hash of the standard library, which gives plans, artifacts and progress their identity. It
  is written out over 32-bit words as FIPS 180-4 has it, so that the model stays executable. The
  program only relies on equal texts having equal hashes, and so does every lemma. Surrogate code
  points, which \<open>encode\<close> refuses, are encoded like the others.
\<close>

unbundle bit_operations_syntax

type_synonym word32 = "32 word"

definition utf8_char :: "int \<Rightarrow> int list" where
  "utf8_char c =
     (if c < 128 then [c]
      else if c < 2048 then [192 + c div 64, 128 + c mod 64]
      else if c < 65536 then [224 + c div 4096, 128 + c div 64 mod 64, 128 + c mod 64]
      else [240 + c div 262144, 128 + c div 4096 mod 64, 128 + c div 64 mod 64, 128 + c mod 64])"

definition utf8 :: "str \<Rightarrow> int list" where
  "utf8 s = concat (map utf8_char s)"

definition sha_constants :: "word32 list" where
  "sha_constants =
     [1116352408, 1899447441, 3049323471, 3921009573, 961987163, 1508970993, 2453635748, 2870763221,
      3624381080, 310598401, 607225278, 1426881987, 1925078388, 2162078206, 2614888103, 3248222580,
      3835390401, 4022224774, 264347078, 604807628, 770255983, 1249150122, 1555081692, 1996064986,
      2554220882, 2821834349, 2952996808, 3210313671, 3336571891, 3584528711, 113926993, 338241895,
      666307205, 773529912, 1294757372, 1396182291, 1695183700, 1986661051, 2177026350, 2456956037,
      2730485921, 2820302411, 3259730800, 3345764771, 3516065817, 3600352804, 4094571909, 275423344,
      430227734, 506948616, 659060556, 883997877, 958139571, 1322822218, 1537002063, 1747873779,
      1955562222, 2024104815, 2227730452, 2361852424, 2428436474, 2756734187, 3204031479, 3329325298]"

definition sha_start :: "word32 list" where
  "sha_start = [1779033703, 3144134277, 1013904242, 2773480762,
                1359893119, 2600822924, 528734635, 1541459225]"

definition sha_pad :: "int list \<Rightarrow> int list" where
  "sha_pad bs =
     (let n = length bs; bits = 8 * int n
      in bs @ 128 # replicate (nat ((55 - int n) mod 64)) 0
         @ map (\<lambda>i. bits div 256 ^ i mod 256) [7, 6, 5, 4, 3, 2, 1, 0])"

function chunks :: "nat \<Rightarrow> 'a list \<Rightarrow> 'a list list" where
  "chunks n xs = (if xs = [] \<or> n = 0 then [] else take n xs # chunks n (drop n xs))"
  by pat_completeness auto
termination
  by (relation "measure (\<lambda>(n, xs). length xs)") auto

declare chunks.simps [simp del]

definition be_word :: "int list \<Rightarrow> word32" where
  "be_word bs = of_int (foldl (\<lambda>a b. 256 * a + b) 0 bs)"

definition schedule_step :: "word32 list \<Rightarrow> word32 list" where
  "schedule_step ws =
     (let t = length ws; w2 = ws ! (t - 2); w15 = ws ! (t - 15);
          s0 = word_rotr 7 w15 XOR word_rotr 18 w15 XOR drop_bit 3 w15;
          s1 = word_rotr 17 w2 XOR word_rotr 19 w2 XOR drop_bit 10 w2
      in ws @ [ws ! (t - 16) + s0 + ws ! (t - 7) + s1])"

definition schedule :: "int list \<Rightarrow> word32 list" where
  "schedule block = (schedule_step ^^ 48) (map be_word (chunks 4 block))"

fun sha_round :: "word32 list \<Rightarrow> word32 \<times> word32 \<Rightarrow> word32 list" where
  "sha_round [a, b, c, d, e, f, g, h] (k, w) =
     (let s1 = word_rotr 6 e XOR word_rotr 11 e XOR word_rotr 25 e;
          ch = (e AND f) XOR (NOT e AND g);
          t1 = h + s1 + ch + k + w;
          s0 = word_rotr 2 a XOR word_rotr 13 a XOR word_rotr 22 a;
          maj = (a AND b) XOR (a AND c) XOR (b AND c)
      in [t1 + (s0 + maj), a, b, c, d + t1, e, f, g])"
| "sha_round st _ = st"

definition sha_block :: "word32 list \<Rightarrow> int list \<Rightarrow> word32 list" where
  "sha_block st block = map2 (+) st (foldl sha_round st (zip sha_constants (schedule block)))"

definition hex_word :: "word32 \<Rightarrow> str" where
  "hex_word w = map (\<lambda>i. hex_digit (uint w div 16 ^ i mod 16)) [7, 6, 5, 4, 3, 2, 1, 0]"

definition sha256_bytes :: "int list \<Rightarrow> str" where
  "sha256_bytes bytes = concat (map hex_word (foldl sha_block sha_start (chunks 64 (sha_pad bytes))))"

definition sha256_hex :: "str \<Rightarrow> str" where
  "sha256_hex text = sha256_bytes (utf8 text)"

lemma sha_round_length: "length st = 8 \<Longrightarrow> length (sha_round st kw) = 8"
  by (induction st kw rule: sha_round.induct) (simp_all add: Let_def)

lemma sha_rounds_length: "length st = 8 \<Longrightarrow> length (foldl sha_round st kws) = 8"
  by (induction kws arbitrary: st) (simp_all add: sha_round_length)

lemma sha_block_length: "length st = 8 \<Longrightarrow> length (sha_block st b) = 8"
  by (simp add: sha_block_def sha_rounds_length)

lemma length_sha256_hex: "length (sha256_hex text) = 64"
proof -
  have "length (foldl sha_block st bs) = 8" if "length st = 8" for st bs
    using that by (induction bs arbitrary: st) (simp_all add: sha_block_length)
  then have "length (foldl sha_block sha_start bs) = 8" for bs
    by (simp add: sha_start_def)
  moreover have "length (concat (map hex_word ws)) = 8 * length ws" for ws
    by (induction ws) (simp_all add: hex_word_def)
  ultimately show ?thesis by (simp add: sha256_hex_def sha256_bytes_def)
qed

end
