(* ===== verification/PlanIdentity.thy ===== *)
theory PlanIdentity
  imports StepInputs Sha256
begin

section \<open>When two plans, or two attempts, are the same\<close>

text \<open>
  The comparisons that stop a run from repeating itself, all in \<open>runtime.py\<close>:
  \<open>_plans_isomorphic\<close> and \<open>_normalize_plan_steps\<close> (the oscillation guard),
  \<open>_plan_fingerprint\<close> and \<open>_plan_fingerprint_json\<close> (the duplicate guard, over plans in
  memory and over plans read back from the store), \<open>_execution_progress_fingerprint\<close> (whether a
  retry produced anything new), and the two rules that close a discovery with a verified ``no''.
\<close>

subsection \<open>Plans\<close>

definition normalize_plan_steps :: "execution_plan \<Rightarrow> (str list \<times> str) list" where
  "normalize_plan_steps p =
     map (\<lambda>s. (sort (ps_skills s), normalize_ws (ps_objective s))) (ep_steps p)"

definition plans_isomorphic :: "execution_plan \<Rightarrow> execution_plan \<Rightarrow> bool" where
  "plans_isomorphic p q \<longleftrightarrow> normalize_plan_steps p = normalize_plan_steps q"

definition hash_json :: "json \<Rightarrow> str" where
  "hash_json j = sha256_hex (dumps_compact (sort_json j))"

definition step_payload :: "str \<Rightarrow> str list \<Rightarrow> bool \<Rightarrow> str list \<Rightarrow> json \<Rightarrow> json \<Rightarrow> json" where
  "step_payload objective skills verify depends inputs outputs = JObj
     [(lit ''objective'', JStr (normalize_ws objective)), (lit ''allowed_skills'', strs (sort skills)),
      (lit ''requires_verification'', JBool verify), (lit ''depends_on'', strs (sort depends)),
      (lit ''inputs'', inputs), (lit ''outputs'', outputs)]"

definition payload_json :: "json \<Rightarrow> str list \<Rightarrow> json list \<Rightarrow> json" where
  "payload_json complexity criteria steps = JObj
     [(lit ''complexity'', complexity),
      (lit ''success_criteria'', strs (sort (map normalize_ws criteria))),
      (lit ''steps'', JArr steps)]"

definition plan_payload :: "execution_plan \<Rightarrow> json" where
  "plan_payload p = payload_json (JStr (level_value (ep_complexity p))) (ep_criteria p)
     (map (\<lambda>s. step_payload (ps_objective s) (ps_skills s) (ps_verify s) (ps_depends s)
             (JArr (map input_ref_json (ps_inputs s))) (JArr (map output_ref_json (ps_outputs s))))
       (ep_steps p))"

definition plan_fingerprint :: "execution_plan \<Rightarrow> str" where
  "plan_fingerprint p = hash_json (plan_payload p)"

text \<open>\<open>d.get(k, default)\<close>\<close>

definition dget_or :: "dict \<Rightarrow> str \<Rightarrow> json \<Rightarrow> json" where
  "dget_or d k v = (if dhas d k then dget d k else v)"

text \<open>The strings of a list value. \<open>sorted\<close> gets the list itself in the source; a stored plan is
  the dump of a plan, so its name lists hold strings only.\<close>

definition texts_of :: "json \<Rightarrow> str list" where
  "texts_of v = (case v of JArr xs \<Rightarrow> map the_str (filter is_str xs) | _ \<Rightarrow> [])"

definition stored_step_payload :: "dict \<Rightarrow> json" where
  "stored_step_payload d =
     step_payload (py_str (dget_or d (lit ''objective'') (JStr [])))
       (texts_of (dget d (lit ''allowed_skills'')))
       (truthy (dget d (lit ''requires_verification''))) (texts_of (dget d (lit ''depends_on'')))
       (dget_or d (lit ''inputs'') (JArr [])) (dget_or d (lit ''outputs'') (JArr []))"

definition plan_fingerprint_json :: "json \<Rightarrow> str" where
  "plan_fingerprint_json j =
     (case j of
        JObj d \<Rightarrow> hash_json (payload_json (dget d (lit ''complexity''))
          (texts_of (dget d (lit ''success_criteria'')))
          (case dget d (lit ''steps'') of
             JArr xs \<Rightarrow> map stored_step_payload (dicts_of xs)
           | _ \<Rightarrow> []))
      | _ \<Rightarrow> sha256_hex (lit ''invalid-plan-json''))"

subsection \<open>Progress of an execution\<close>

definition pick_json :: "string list \<Rightarrow> dict \<Rightarrow> json" where
  "pick_json keys d = JObj (map (\<lambda>k. (lit k, dget d (lit k))) keys)"

definition list_items :: "json \<Rightarrow> dict list" where
  "list_items v = (case v of JArr xs \<Rightarrow> dicts_of xs | _ \<Rightarrow> [])"

definition status_text :: "obs_status \<Rightarrow> str" where
  "status_text s = lit (case s of ObsSucceeded \<Rightarrow> ''succeeded'' | ObsFailed \<Rightarrow> ''failed'')"

definition observation_progress :: "observation \<Rightarrow> json" where
  "observation_progress ob =
     (let out = output_of ob in JObj
       [(lit ''tool'', JStr (ob_tool ob)), (lit ''status'', JStr (status_text (ob_status ob))),
        (lit ''error_code'', opt_text (ob_error ob)), (lit ''source_url'', dget out (lit ''source_url'')),
        (lit ''content_hash'', dget out (lit ''content_hash'')),
        (lit ''terminal_reason'', dget out (lit ''terminal_reason'')),
        (lit ''pages'', JArr (map (pick_json [''source_url'', ''content_hash'', ''quality''])
           (list_items (dget out (lit ''pages''))))),
        (lit ''candidates'', JArr (map (pick_json [''candidate_id'', ''source_artifact_id'',
             ''source_url'', ''content_hash'']) (list_items (dget out (lit ''candidates'')))))])"

definition execution_progress_fingerprint :: "executor_result \<Rightarrow> str" where
  "execution_progress_fingerprint e =
     hash_json (JObj [(lit ''observations'', JArr (map observation_progress (ex_obs e)))])"

subsection \<open>A verified ``no''\<close>

definition only_discovery :: "plan_step \<Rightarrow> bool" where
  "only_discovery s \<longleftrightarrow> set (ps_skills s) = {lit ''job-discovery''}"

definition asks_existence :: "task \<Rightarrow> bool" where
  "asks_existence t \<longleftrightarrow>
     (\<exists>m \<in> set existence_query_markers. contains m (lower (remove_ws (tk_goal t))))"

definition opt_str :: "str option \<Rightarrow> str" where
  "opt_str x = (case x of None \<Rightarrow> [] | Some s \<Rightarrow> s)"

definition is_verified_zero_match_discovery :: "task \<Rightarrow> plan_step \<Rightarrow> executor_result \<Rightarrow> bool" where
  "is_verified_zero_match_discovery t s e =
     (if \<not> only_discovery s then False
      else if \<not> asks_existence t then False
      else if \<not> (\<exists>m \<in> set zero_match_markers. contains m (lower (remove_ws (opt_str (ex_summary e)))))
        then False
      else \<exists>r \<in> set (ex_refs e). discovery_evidence_ref r)"

definition official_scan_observation :: "observation \<Rightarrow> bool" where
  "official_scan_observation ob \<longleftrightarrow>
     ob_tool ob = lit ''search-public-job-pages'' \<and> ob_status ob = ObsSucceeded
     \<and> skill_observation_is_semantically_valid (ob_tool ob) (output_of ob)"

definition is_complete_official_negative_discovery ::
  "task \<Rightarrow> execution_plan \<Rightarrow> plan_step \<Rightarrow> executor_result \<Rightarrow> bool" where
  "is_complete_official_negative_discovery t p s e =
     (if \<not> only_discovery s then False
      else if ep_steps p = [] \<or> (\<exists>c \<in> set (ep_steps p). \<not> only_discovery c) then False
      else if \<not> asks_existence t then False
      else \<exists>ob \<in> set (ex_obs e). official_scan_observation ob)"

definition official_negative_discovery_summary :: "task \<Rightarrow> executor_result \<Rightarrow> str" where
  "official_negative_discovery_summary t e =
     (let out = (case find official_scan_observation (ex_obs e) of
                   None \<Rightarrow> [] | Some ob \<Rightarrow> output_of ob);
          days = dget out (lit ''time_window_days'');
          window = (if is_int days then recent_open_msg @ py_str days @ recent_close_msg
                    else given_window_msg);
          source = (if dget out (lit ''source_scope'') = JStr (lit ''juejin.cn'') then juejin_msg
                    else given_source_msg)
      in scan_head_msg @ source @ window @ scan_mid_msg @ tk_goal t)"

subsection \<open>Lemmas\<close>

lemma texts_of_strs [simp]: "texts_of (strs xs) = xs"
  by (induction xs) (auto simp: texts_of_def strs_def)

lemma stored_step [simp]:
  "stored_step_payload (the_dict (plan_step_json s)) =
    step_payload (ps_objective s) (ps_skills s) (ps_verify s) (ps_depends s)
      (JArr (map input_ref_json (ps_inputs s))) (JArr (map output_ref_json (ps_outputs s)))"
  by (simp add: stored_step_payload_def plan_step_json_def dget_or_def dhas_def py_str_def)

lemma dicts_of_steps: "dicts_of (map plan_step_json ss) = map (the_dict \<circ> plan_step_json) ss"
  by (induction ss) (simp_all add: plan_step_json_def)

lemma stored_fingerprint: "plan_fingerprint_json (plan_json p) = plan_fingerprint p"
  by (simp add: plan_fingerprint_json_def plan_json_def plan_fingerprint_def plan_payload_def
      dicts_of_steps comp_def)

text \<open>Equal payloads describe plans the oscillation guard cannot tell apart either.\<close>

lemma strs_inject [simp]: "strs xs = strs ys \<longleftrightarrow> xs = ys"
  by (metis texts_of_strs)

lemma map_eq_imp:
  "map f xs = map f ys \<Longrightarrow> (\<And>x y. f x = f y \<Longrightarrow> g x = g y) \<Longrightarrow> map g xs = map g ys"
proof (induction xs arbitrary: ys)
  case Nil
  from Nil.prems(1) show ?case by simp
next
  case (Cons x xs)
  from Cons.prems(1) obtain y zs where ys: "ys = y # zs" and xy: "f x = f y" "map f xs = map f zs"
    by (cases ys) simp_all
  show ?case
    using Cons.prems(2) [OF xy(1)] Cons.IH [OF xy(2) Cons.prems(2)] by (simp add: ys)
qed

lemma payload_isomorphic:
  assumes "plan_payload p = plan_payload q"
  shows "plans_isomorphic p q"
proof -
  have "map (\<lambda>s. step_payload (ps_objective s) (ps_skills s) (ps_verify s) (ps_depends s)
             (JArr (map input_ref_json (ps_inputs s))) (JArr (map output_ref_json (ps_outputs s))))
          (ep_steps p) =
        map (\<lambda>s. step_payload (ps_objective s) (ps_skills s) (ps_verify s) (ps_depends s)
             (JArr (map input_ref_json (ps_inputs s))) (JArr (map output_ref_json (ps_outputs s))))
          (ep_steps q)"
    using assms by (simp add: plan_payload_def payload_json_def)
  then show ?thesis
    unfolding plans_isomorphic_def normalize_plan_steps_def
    by (rule map_eq_imp) (simp add: step_payload_def)
qed

subsection \<open>Properties\<close>

text \<open>C39: The fingerprint of a plan read back from its stored JSON is the fingerprint of the plan, so
  the duplicate guard recognises plans of earlier passes.\<close>

theorem fingerprint_roundtrip: "plan_fingerprint_json (plan_json p) = plan_fingerprint p"
  by (rule stored_fingerprint)

text \<open>Two plans with the same fingerprinted payload are isomorphic: the duplicate guard is the
  finer of the two.\<close>

theorem same_payload_isomorphic:
  assumes "plan_payload p = plan_payload q"
  shows "plans_isomorphic p q"
  by (rule payload_isomorphic [OF assms])

end
