(* ===== verification/DiscoveryPolicy.thy ===== *)
theory DiscoveryPolicy
  imports StepInputs Sha256
begin

section \<open>The discovery policy\<close>

text \<open>
  \<open>skill/job_discovery/runtime/discovery_policy.py\<close>: which public pages a job search may start
  from, which search queries it may pose, and which URLs it may take from a search result. A
  value read with \<open>getattr\<close> from an observation is a field of the model's observation, whose
  output is a dictionary or \<open>None\<close>.
\<close>

subsection \<open>\<open>urlencode\<close>\<close>

definition safe_char :: "int \<Rightarrow> bool" where
  "safe_char c \<longleftrightarrow> (48 \<le> c \<and> c \<le> 57) \<or> (65 \<le> c \<and> c \<le> 90) \<or> (97 \<le> c \<and> c \<le> 122)
     \<or> c = 45 \<or> c = 46 \<or> c = 95 \<or> c = 126"

definition upper_hex :: "int \<Rightarrow> int" where
  "upper_hex n = (if n < 10 then 48 + n else 55 + n)"

definition quote_plus :: "str \<Rightarrow> str" where
  "quote_plus s = concat (map (\<lambda>c. if safe_char c then [c] else if c = 32 then [43]
     else concat (map (\<lambda>b. [37, upper_hex (b div 16), upper_hex (b mod 16)]) (utf8_char c))) s)"

definition urlencode :: "(string \<times> str) list \<Rightarrow> str" where
  "urlencode ps = join (lit ''&'') (map (\<lambda>(k, v). quote_plus (lit k) @ lit ''='' @ quote_plus v) ps)"

subsection \<open>Seed pages\<close>

definition official_company_seeds :: "(str \<times> str) list" where
  "official_company_seeds = zip official_company_markers
     [lit ''https://campus.meituan.com/'', lit ''https://job.xiaohongshu.com/campus'']"

definition observed_company_seeds :: "(str \<times> str) list" where
  "observed_company_seeds = zip observed_company_markers
     [lit ''https://www.baiontcapital.com/careers.html'']"

definition requested_role_seeds :: "(string \<times> str) list" where
  "requested_role_seeds =
     [(''ai_application_intern'',
       lit ''https://24365.smartedu.cn/student/jobs/SvSaumv8prNxWdGTQbF9mh/detail.html''),
      (''java_backend_engineer'',
       lit ''https://app.mokahr.com/campus-recruitment/tal/146599?recommendCode=DSXc7DBC#/jobs''),
      (''frontend_engineer'',
       lit ''https://www.iguopin.com/job/list?keyword=%E5%89%8D%E7%AB%AF%E5%BC%80%E5%8F%91%E5%B7%A5%E7%A8%8B%E5%B8%88'')]"

definition tencent_keyword :: "str \<Rightarrow> str" where
  "tencent_keyword goal =
     (if contains (lit ''aigc'') (lower goal) then lit ''AIGC''
      else if contains zh_llm goal then zh_llm
      else if contains zh_pm goal then zh_ai_pm
      else if contains zh_algorithm goal then zh_ai_algorithm
      else lit ''AI'')"

definition official_company_seed_urls :: "str \<Rightarrow> str list" where
  "official_company_seed_urls goal =
     map snd (filter (\<lambda>(company, url). contains company goal) official_company_seeds)
     @ (if contains zh_tencent goal then
          [lit ''https://careers.tencent.com/tencentcareer/api/post/Query?''
           @ urlencode [(''keyword'', tencent_keyword goal), (''pageIndex'', lit ''1''),
               (''pageSize'', lit ''10''), (''language'', lit ''zh-cn''), (''area'', lit ''cn'')]]
        else [])"

definition mirror_keyword :: "str \<Rightarrow> str option" where
  "mirror_keyword goal =
     (let lowered = lower goal in
      if contains zh_pm goal \<and> (contains (lit ''aigc'') lowered \<or> contains (lit ''ai'') lowered
           \<or> contains zh_llm goal) then Some zh_aipm
      else if contains zh_pm goal then Some zh_pm
      else None)"

definition public_source_mirror_seed_urls :: "str \<Rightarrow> str list" where
  "public_source_mirror_seed_urls goal =
     (if \<not> contains zh_liepin goal then []
      else case mirror_keyword goal of
          None \<Rightarrow> []
        | Some k \<Rightarrow>
            let keyword = (if \<exists>m \<in> set campus_markers. contains m goal then k @ zh_intern_suffix else k);
                beijing = contains zh_beijing goal
            in [lit ''https://www.linkedin.com/jobs-guest/jobs/api/seeMoreJobPostings/search?''
                @ urlencode ([(''keywords'', keyword),
                     (''location'', lit (if beijing then ''Beijing, China'' else ''China''))]
                   @ (if beijing then [(''geoId'', lit ''103873152'')] else [])
                   @ [(''start'', lit ''0'')])])"

definition requested_role_key :: "str \<Rightarrow> string option" where
  "requested_role_key goal =
     (let lowered = lower goal in
      if (\<exists>m \<in> set ai_application_dev_markers. contains m lowered) \<and> contains zh_intern goal
        then Some ''ai_application_intern''
      else if \<exists>m \<in> set java_backend_dev_markers. contains m lowered then Some ''java_backend_engineer''
      else if contains zh_frontend_dev goal then Some ''frontend_engineer''
      else None)"

definition requested_role_seed_urls :: "str \<Rightarrow> str list" where
  "requested_role_seed_urls goal =
     (if \<not> (contains (lit ''jd'') (lower goal) \<and> (\<exists>m \<in> set public_jd_markers. contains m goal)) then []
      else case requested_role_key goal of
          None \<Rightarrow> []
        | Some key \<Rightarrow> map snd (filter (\<lambda>(k, url). k = key) requested_role_seeds))"

definition sheet_companies :: "observation \<Rightarrow> str list" where
  "sheet_companies ob =
     (if ob_tool ob \<noteq> lit ''query-career-sheet-records'' then []
      else case dget (output_of ob) (lit ''records'') of
          JArr rs \<Rightarrow> map (strip \<circ> the_str)
            (filter stripped_str (map (\<lambda>r. dget r (lit ''company_name'')) (dicts_of rs)))
        | _ \<Rightarrow> [])"

definition observed_company_seed_urls :: "observation list \<Rightarrow> str list" where
  "observed_company_seed_urls obs =
     (let companies = concat (map sheet_companies obs)
      in dedup (map snd (filter (\<lambda>(m, url). \<exists>c \<in> set companies. contains m c) observed_company_seeds)))"

definition trusted_discovery_seed_urls :: "str \<Rightarrow> observation list \<Rightarrow> str list" where
  "trusted_discovery_seed_urls goal obs =
     dedup (official_company_seed_urls goal @ public_source_mirror_seed_urls goal
       @ requested_role_seed_urls goal @ observed_company_seed_urls obs)"

subsection \<open>Search hints\<close>

definition role_terms :: "str \<Rightarrow> str list" where
  "role_terms goal =
     (let lowered = lower goal;
          has = (\<lambda>ms. \<exists>m \<in> set ms. contains m lowered);
          named = (if has ai_algorithm_markers then [zh_ai_algorithm] else [])
            @ (if has ai_application_markers then [zh_ai_application] else [])
            @ (if contains zh_llm_application lowered then [zh_llm_application] else [])
            @ (if contains (lit ''aigc'') lowered then [lit ''AIGC''] else [])
            @ (if contains zh_pm lowered then [zh_pm] else [])
            @ (if has java_backend_markers then [zh_java_backend] else [])
            @ (if contains zh_frontend lowered then [zh_web_frontend] else []);
          terms = take 3 (dedup named)
      in if terms = [] then take 2 (named_terms derived_role_keywords goal) else terms)"

definition relevance_weights :: "(str \<times> int) list" where
  "relevance_weights = zip relevance_markers [10, 9, 9, 7, 6, 6, 5, 4, 4]"

definition record_text :: "dict \<Rightarrow> string \<Rightarrow> str" where
  "record_text r key = (let v = dget r (lit key) in if truthy v then py_str v else [])"

definition record_score :: "str list \<Rightarrow> dict \<Rightarrow> int" where
  "record_score terms r =
     (let searchable = lower (join (lit '' '')
            (map (record_text r) [''company_name'', ''industry'', ''raw_summary'', ''recruitment_type'']))
      in sum_list (map snd (filter (\<lambda>(m, w). contains m searchable) relevance_weights))
         + 5 * int (length (filter (\<lambda>t. contains (lower t) searchable) terms)))"

definition named_records :: "observation \<Rightarrow> dict list" where
  "named_records ob =
     (case dget (output_of ob) (lit ''records'') of
        JArr rs \<Rightarrow> filter (\<lambda>r. stripped_str (dget r (lit ''company_name''))) (dicts_of rs)
      | _ \<Rightarrow> [])"

definition ranked_companies :: "str list \<Rightarrow> observation list \<Rightarrow> str list" where
  "ranked_companies terms obs =
     (let records = concat (map named_records obs);
          scored = filter (\<lambda>(score, r). 0 < score) (map (\<lambda>r. (record_score terms r, r)) records)
      in take 3 (dedup (map (\<lambda>(score, r). strip (the_str (dget r (lit ''company_name''))))
           (sort_key (\<lambda>(score, r). - score) scored))))"

text \<open>\<open>(\d+)\s*\<close> and one of the two phrases for years of experience; the digits as they stand.\<close>

definition experience_here :: "str \<Rightarrow> str option" where
  "experience_here s =
     (let ds = takeWhile is_decimal s; rest = dropWhile is_space (dropWhile is_decimal s)
      in if ds \<noteq> [] \<and> (\<exists>w \<in> set experience_words. starts_with rest w) then Some ds else None)"

fun experience_years :: "str \<Rightarrow> str option" where
  "experience_years [] = None"
| "experience_years (c # cs) =
     (case experience_here (c # cs) of Some ds \<Rightarrow> Some ds | None \<Rightarrow> experience_years cs)"

definition source_scopes :: "str \<Rightarrow> str list" where
  "source_scopes goal =
     map snd (filter (\<lambda>(m, scope). contains m goal) (zip source_scope_markers
       [lit ''site:liepin.com'', lit ''site:iguopin.com'', lit ''site:juejin.cn/pin'']))"

definition nonempty_join :: "str list \<Rightarrow> str" where
  "nonempty_join parts = join (lit '' '') (filter (\<lambda>p. p \<noteq> []) parts)"

definition hint_suffix :: "str \<Rightarrow> str" where
  "hint_suffix goal =
     nonempty_join
       [join (lit '' '') (filter (\<lambda>l. contains l goal) derived_location_keywords),
        (if \<exists>m \<in> set graduate_markers. contains m (lower goal) then zh_graduates else []),
        (case experience_years goal of None \<Rightarrow> [] | Some ds \<Rightarrow> ds @ zh_years_experience),
        zh_details_official]"

definition discovery_search_hints :: "str \<Rightarrow> observation list \<Rightarrow> str list" where
  "discovery_search_hints goal obs =
     (let terms = role_terms goal;
          named = named_terms derived_company_keywords goal;
          companies = (if named = [] then ranked_companies terms obs else named);
          role_text = (let t = join (lit '' '') terms in if t = [] then zh_positions else t);
          suffix = hint_suffix goal; scopes = source_scopes goal
      in if scopes \<noteq> [] then
           take 5 (concat (map (\<lambda>source. map (\<lambda>company.
               take 380 (nonempty_join [source, company, role_text, suffix]))
             (take 3 (if companies = [] then [[]] else companies))) scopes))
         else if companies \<noteq> [] then
           map (\<lambda>company. take 380 (company @ lit '' '' @ role_text @ lit '' '' @ zh_duties))
             (take 5 companies)
         else [take 380 (role_text @ lit '' '' @ suffix)])"

subsection \<open>URLs of search results\<close>

text \<open>\<open>re.findall(r"https?://[^\s]+", value)\<close>: the length of the scheme at a position, if any.\<close>

definition scheme_here :: "str \<Rightarrow> nat option" where
  "scheme_here s =
     (let n = (if starts_with s (lit ''https://'') then 8
               else if starts_with s (lit ''http://'') then 7 else 0)
      in if n \<noteq> 0 \<and> drop n s \<noteq> [] \<and> \<not> is_space (hd (drop n s)) then Some n else None)"

function find_urls :: "str \<Rightarrow> str list" where
  "find_urls [] = []"
| "find_urls (c # cs) =
     (if scheme_here (c # cs) = None then find_urls cs
      else takeWhile (\<lambda>x. \<not> is_space x) (c # cs) # find_urls (dropWhile (\<lambda>x. \<not> is_space x) cs))"
  by pat_completeness auto
termination
  by (relation "measure length") (auto simp: le_imp_less_Suc length_dropWhile_le)

text \<open>The characters \<open>rstrip\<close> removes: \<open>. , ; ) ] } "\<close> and their Chinese forms.\<close>

definition url_tail :: "int set" where
  "url_tail = {46, 44, 59, 65292, 12290, 65307, 41, 93, 125, 34}"

definition rstrip_url :: "str \<Rightarrow> str" where
  "rstrip_url s = rev (dropWhile (\<lambda>c. c \<in> url_tail) (rev s))"

definition item_url_values :: "dict \<Rightarrow> json list" where
  "item_url_values item =
     map (\<lambda>k. dget item (lit k)) [''url'', ''source_url'', ''apply_url'', ''link'']
     @ (case dget item (lit ''prior_metadata'') of
          JObj prior \<Rightarrow> [dget prior (lit ''apply_url'')] | _ \<Rightarrow> [])"

definition public_urls_from_search_item :: "dict \<Rightarrow> str list" where
  "public_urls_from_search_item item =
     dedup (filter (\<lambda>u. u \<noteq> []) (concat (map (\<lambda>v. map rstrip_url (find_urls (the_str v)))
       (filter is_str (item_url_values item)))))"

definition job_search_results_are_routable :: "json \<Rightarrow> bool" where
  "job_search_results_are_routable results =
     (case results of
        JArr xs \<Rightarrow> \<exists>item \<in> set (dicts_of xs). public_urls_from_search_item item \<noteq> []
      | _ \<Rightarrow> False)"

text \<open>Adding the new URLs of one item, and stopping once ten are known.\<close>

definition add_new :: "str list \<Rightarrow> str list \<Rightarrow> str list" where
  "add_new urls new = fold (\<lambda>u acc. if u \<in> set acc then acc else acc @ [u]) new urls"

fun collect_urls :: "dict list \<Rightarrow> str list \<Rightarrow> str list" where
  "collect_urls [] urls = urls"
| "collect_urls (item # items) urls =
     (let urls' = add_new urls (public_urls_from_search_item item)
      in if 10 \<le> length urls' then urls' else collect_urls items urls')"

definition collections_of :: "observation \<Rightarrow> dict list" where
  "collections_of ob =
     concat (map (\<lambda>name. case dget (output_of ob) (lit name) of JArr xs \<Rightarrow> dicts_of xs | _ \<Rightarrow> [])
       [''results'', ''records''])"

definition search_result_urls :: "observation list \<Rightarrow> str list" where
  "search_result_urls obs = collect_urls (concat (map collections_of obs)) []"

definition access_block_names :: "string list" where
  "access_block_names = [''anti_bot'', ''anti_bot_challenge'', ''captcha'', ''login_required'',
     ''access_denied'', ''domain_temporarily_blocked'']"

definition contains_access_block :: "observation list \<Rightarrow> bool" where
  "contains_access_block obs \<longleftrightarrow> (\<exists>ob \<in> set obs.
     json_in (opt_text (ob_error ob)) access_block_names
     \<or> (case dget (output_of ob) (lit ''failures'') of
          JArr fs \<Rightarrow> \<exists>f \<in> set (dicts_of fs). json_in (dget f (lit ''error_code'')) access_block_names
        | _ \<Rightarrow> False))"

subsection \<open>What leaves a search result\<close>

definition http_url :: "str \<Rightarrow> bool" where
  "http_url u \<longleftrightarrow> (starts_with u (lit ''http://'') \<or> starts_with u (lit ''https://''))
     \<and> (\<forall>c \<in> set u. \<not> is_space c)"

lemma starts_with_iff: "starts_with s p \<longleftrightarrow> (\<exists>t. s = p @ t)"
  by (metis append_take_drop_id starts_with_append starts_with_def)

lemma scheme_here_Some:
  "scheme_here s \<noteq> None \<Longrightarrow> starts_with s (lit ''http://'') \<or> starts_with s (lit ''https://'')"
  by (auto simp: scheme_here_def Let_def split: if_splits)

lemma takeWhile_prefix:
  assumes "starts_with s p" and "\<forall>c \<in> set p. P c"
  shows "starts_with (takeWhile P s) p"
  using assms by (auto simp: starts_with_iff takeWhile_append)

lemma scheme_no_space: "\<forall>c \<in> set (lit ''http://''). \<not> is_space c"
    "\<forall>c \<in> set (lit ''https://''). \<not> is_space c"
  by (simp_all add: lit_def is_space_def)

lemma find_urls_http: "u \<in> set (find_urls s) \<Longrightarrow> http_url u"
proof (induction s rule: find_urls.induct)
  case 1
  then show ?case by simp
next
  case (2 c cs)
  show ?case
  proof (cases "scheme_here (c # cs) = None")
    case True
    then show ?thesis using 2 by simp
  next
    case False
    consider "u = takeWhile (\<lambda>x. \<not> is_space x) (c # cs)"
      | "u \<in> set (find_urls (dropWhile (\<lambda>x. \<not> is_space x) cs))"
      using 2(3) False by auto
    then show ?thesis
    proof cases
      case 1
      have "starts_with u (lit ''http://'') \<or> starts_with u (lit ''https://'')"
        using scheme_here_Some [OF False] takeWhile_prefix scheme_no_space unfolding 1 by blast
      moreover have "\<forall>c \<in> set u. \<not> is_space c"
        unfolding 1 using set_takeWhileD by fast
      ultimately show ?thesis by (simp add: http_url_def)
    next
      case 2
      then show ?thesis using "2.IH"(2) [OF False] by simp
    qed
  qed
qed

lemma rstrip_prefix:
  assumes "starts_with s p" and "p \<noteq> []" and "last p \<notin> url_tail"
  shows "starts_with (rstrip_url s) p"
proof -
  obtain t where s: "s = p @ t" using assms(1) by (auto simp: starts_with_iff)
  have "rstrip_url s = p @ rev (dropWhile (\<lambda>c. c \<in> url_tail) (rev t))"
  proof (cases "\<forall>c \<in> set t. c \<in> url_tail")
    case True
    have "dropWhile (\<lambda>c. c \<in> url_tail) (rev p) = rev p"
      using assms(2,3) by (cases p rule: rev_cases) auto
    moreover have "dropWhile (\<lambda>c. c \<in> url_tail) (rev t @ rev p) = dropWhile (\<lambda>c. c \<in> url_tail) (rev p)"
      by (rule dropWhile_append2) (use True in simp)
    moreover have "dropWhile (\<lambda>c. c \<in> url_tail) (rev t) = []" using True by simp
    ultimately show ?thesis by (simp add: s rstrip_url_def)
  next
    case False
    then show ?thesis by (auto simp: s rstrip_url_def dropWhile_append1)
  qed
  then show ?thesis by simp
qed

lemma set_rstrip_url: "set (rstrip_url s) \<subseteq> set s"
  using set_dropWhileD by (fastforce simp: rstrip_url_def)

lemma rstrip_http: "http_url u \<Longrightarrow> http_url (rstrip_url u)"
proof -
  assume u: "http_url u"
  have "last (lit ''http://'') \<notin> url_tail" "last (lit ''https://'') \<notin> url_tail"
    by (simp_all add: lit_def url_tail_def)
  then have "starts_with (rstrip_url u) (lit ''http://'') \<or> starts_with (rstrip_url u) (lit ''https://'')"
    using u rstrip_prefix unfolding http_url_def by (metis lit_eq_Nil(1) list.distinct(1))
  then show ?thesis using u set_rstrip_url unfolding http_url_def by blast
qed

lemma item_urls_http: "u \<in> set (public_urls_from_search_item item) \<Longrightarrow> http_url u"
  by (auto simp: public_urls_from_search_item_def intro: rstrip_http find_urls_http)

lemma distinct_dedup [simp]: "distinct (dedup xs)"
  by (induction xs rule: dedup.induct) auto

lemma add_new_inv:
  "distinct urls \<Longrightarrow> distinct (add_new urls new) \<and> set (add_new urls new) = set urls \<union> set new"
  unfolding add_new_def by (induction new arbitrary: urls) (auto simp: insert_absorb)

lemma collect_urls_inv:
  assumes "distinct urls" and "\<forall>u \<in> set urls. http_url u"
  shows "distinct (collect_urls items urls) \<and> (\<forall>u \<in> set (collect_urls items urls). http_url u)"
  using assms
proof (induction items arbitrary: urls)
  case Nil
  then show ?case by simp
next
  case (Cons item items)
  have "distinct (add_new urls (public_urls_from_search_item item))"
      "\<forall>u \<in> set (add_new urls (public_urls_from_search_item item)). http_url u"
    using add_new_inv [OF Cons.prems(1), of "public_urls_from_search_item item"] Cons.prems(2)
      item_urls_http by auto
  then show ?case using Cons.IH by (simp add: Let_def)
qed

lemma search_urls_http:
  "distinct (search_result_urls obs)" "u \<in> set (search_result_urls obs) \<Longrightarrow> http_url u"
  using collect_urls_inv [of "[]" "concat (map collections_of obs)"] by (simp_all add: search_result_urls_def)

text \<open>A search hint is a bounded text, and there are one to five of them.\<close>

lemma hints_count: "length (discovery_search_hints goal obs) \<le> 5"
  by (simp add: discovery_search_hints_def Let_def)

lemma hints_bounded:
  assumes "h \<in> set (discovery_search_hints goal obs)"
  shows "length h \<le> 380"
proof -
  have "\<exists>x. h = take 380 x"
    using assms unfolding discovery_search_hints_def Let_def
    by (auto split: if_split_asm dest!: in_set_takeD simp del: length_take take_append)
  then show ?thesis by auto
qed

lemma hints_nonempty: "discovery_search_hints goal obs \<noteq> []"
proof -
  have "concat (map (\<lambda>source. map (f source) (take 3 cs)) scopes) \<noteq> []"
    if "scopes \<noteq> []" "cs \<noteq> []" for f :: "str \<Rightarrow> str \<Rightarrow> str" and scopes cs :: "str list"
    using that by (cases scopes; cases cs) simp_all
  then show ?thesis
    unfolding discovery_search_hints_def Let_def
    by (simp del: concat_eq_Nil_conv concat.simps map_eq_conv)
qed

subsection \<open>Properties\<close>

text \<open>Every URL taken from search results is an \<open>http\<close> or \<open>https\<close> URL, and none is taken twice.\<close>

theorem search_urls_safe:
  "distinct (search_result_urls obs) \<and> Collect http_url \<supseteq> set (search_result_urls obs)"
  using search_urls_http by auto

text \<open>The search hints are bounded: between one and five queries of at most 380 characters.\<close>

theorem search_hints_bounded:
  "length (discovery_search_hints goal obs) \<in> {1..5}
   \<and> length ` set (discovery_search_hints goal obs) \<subseteq> {..380}"
  using hints_count [of goal obs] hints_nonempty [of goal obs] hints_bounded [of _ goal obs]
  by (auto simp: Suc_le_eq)

end
