(* ===== verification/RunStore.thy ===== *)
theory RunStore
  imports Schemas "HOL-Library.Product_Lexorder"
begin

section \<open>The durable store of the runs\<close>

text \<open>
  \<open>backend/app/repositories/agent_runtime.py\<close> over the tables of \<open>backend/app/db/models.py\<close>.
  The store is the session's view of the six tables; a flush or a commit changes nothing it shows,
  so they leave no trace in the model. A primary key (\<open>uuid4\<close> in the source) is a number
  that was not used before, \<open>st_now\<close> is what \<open>utc_now()\<close> returns and \<open>st_limit\<close> the
  byte ceiling that \<open>set_event_payload_limit\<close> sets. The row locks serialise concurrent
  callers; the branch of \<open>create_artifact\<close> that a race of two inserts can reach is left out.
\<close>

record run_row =
  rr_id :: str
  rr_user :: str
  rr_goal :: str
  rr_skills :: "str list"
  rr_context :: dict
  rr_budget :: agent_budget
  rr_agent_version :: str
  rr_complexity :: "complexity_level option"
  rr_status :: run_status
  rr_summary :: "str option"
  rr_error :: "str option"
  rr_started :: "int option"
  rr_finished :: "int option"
  rr_version :: int
  rr_created :: int

record plan_row =
  pl_id :: str
  pl_run :: str
  pl_revision :: int
  pl_complexity :: complexity_level
  pl_json :: json
  pl_by :: agent_role

record step_row =
  st_id :: str
  st_run :: str
  st_plan :: str
  st_sequence :: int
  st_objective :: str
  st_skills :: "str list"
  st_status :: step_status
  st_refs :: "dict list option"
  st_error :: "str option"

record artifact_row =
  ar_id :: str
  ar_run :: str
  ar_step :: str
  ar_type :: str
  ar_url :: str
  ar_hash :: str
  ar_content :: dict
  ar_by :: agent_role
  ar_created :: int

record turn_row =
  tr_run :: str
  tr_role :: agent_role
  tr_index :: int
  tr_decision :: dict
  tr_model :: "str option"
  tr_input :: "int option"
  tr_output :: "int option"
  tr_manifest :: json

record event_row =
  ev_run :: str
  ev_seq :: int
  ev_type :: str
  ev_payload :: dict
  ev_created :: int

record store =
  so_runs :: "run_row list"
  so_plans :: "plan_row list"
  so_steps :: "step_row list"
  so_artifacts :: "artifact_row list"
  so_turns :: "turn_row list"
  so_events :: "event_row list"
  so_next :: nat
  so_now :: int
  so_limit :: "int option"

definition fresh_id :: "store \<Rightarrow> str" where
  "fresh_id db = nat_digits (so_next db)"

subsection \<open>Events\<close>

definition bounded_payload :: "int option \<Rightarrow> dict \<Rightarrow> dict" where
  "bounded_payload limit payload =
     (case limit of
        None \<Rightarrow> payload
      | Some n \<Rightarrow>
          let bytes = utf8_len (dumps_default (JObj payload)) in
          if bytes \<le> n then payload
          else [(lit ''_payload_truncated'', JBool True), (lit ''original_bytes'', JInt bytes)])"

definition events_of :: "store \<Rightarrow> str \<Rightarrow> event_row list" where
  "events_of db run = filter (\<lambda>e. ev_run e = run) (so_events db)"

definition latest_sequence :: "store \<Rightarrow> str \<Rightarrow> int" where
  "latest_sequence db run = fold max (map ev_seq (events_of db run)) 0"

definition append_event :: "str \<Rightarrow> string \<Rightarrow> dict \<Rightarrow> store \<Rightarrow> store" where
  "append_event run event_type payload db =
     db\<lparr>so_events := so_events db @
       [\<lparr>ev_run = run, ev_seq = latest_sequence db run + 1, ev_type = lit event_type,
         ev_payload = bounded_payload (so_limit db) payload, ev_created = so_now db\<rparr>]\<rparr>"

definition list_events :: "store \<Rightarrow> str \<Rightarrow> int \<Rightarrow> event_row list" where
  "list_events db run after =
     sort_key ev_seq (filter (\<lambda>e. after < ev_seq e) (events_of db run))"

subsection \<open>Runs\<close>

definition find_run :: "store \<Rightarrow> str \<Rightarrow> run_row option" where
  "find_run db run = find (\<lambda>r. rr_id r = run) (so_runs db)"

definition update_run :: "str \<Rightarrow> (run_row \<Rightarrow> run_row) \<Rightarrow> store \<Rightarrow> store" where
  "update_run run f db =
     db\<lparr>so_runs := map (\<lambda>r. if rr_id r = run then f r else r) (so_runs db)\<rparr>"

definition create_run ::
  "str \<Rightarrow> str \<Rightarrow> str list \<Rightarrow> dict \<Rightarrow> agent_budget \<Rightarrow> str \<Rightarrow> store \<Rightarrow> run_row \<times> store" where
  "create_run user goal skills context_summary budget agent_version db =
     (let r = \<lparr>rr_id = fresh_id db, rr_user = user, rr_goal = goal, rr_skills = skills,
          rr_context = context_summary, rr_budget = budget, rr_agent_version = agent_version,
          rr_complexity = None, rr_status = Queued, rr_summary = None, rr_error = None,
          rr_started = None, rr_finished = None, rr_version = 0, rr_created = so_now db\<rparr>
      in (r, db\<lparr>so_runs := so_runs db @ [r], so_next := Suc (so_next db)\<rparr>))"

definition get_run_for_owner :: "store \<Rightarrow> str \<Rightarrow> str \<Rightarrow> run_row option" where
  "get_run_for_owner db run user = find (\<lambda>r. rr_id r = run \<and> rr_user r = user) (so_runs db)"

definition list_runs_for_owner :: "store \<Rightarrow> str \<Rightarrow> nat \<Rightarrow> run_row list" where
  "list_runs_for_owner db user limit =
     take limit (rev (sort_key (\<lambda>r. (rr_created r, rr_id r))
       (filter (\<lambda>r. rr_user r = user) (so_runs db))))"

definition start_run :: "str \<Rightarrow> store \<Rightarrow> store" where
  "start_run run db = update_run run (\<lambda>r. r\<lparr>rr_status := Running, rr_started := Some (so_now db),
     rr_version := rr_version r + 1\<rparr>) db"

definition append_user_response :: "run_row \<Rightarrow> str \<Rightarrow> store \<Rightarrow> dict \<times> store" where
  "append_user_response r user_response db =
     (let context = rr_context r;
          responses = (case dget context (lit ''user_responses'') of JArr xs \<Rightarrow> xs | _ \<Rightarrow> []);
          safe = responses @ [JStr user_response];
          context' = dput (lit ''user_responses'') (JArr (drop (length safe - 10) safe)) context
      in (context', update_run (rr_id r)
            (\<lambda>q. q\<lparr>rr_context := context', rr_version := rr_version q + 1\<rparr>) db))"

definition set_run_complexity :: "str \<Rightarrow> complexity_level \<Rightarrow> store \<Rightarrow> store" where
  "set_run_complexity run level db = update_run run (\<lambda>r. r\<lparr>rr_complexity := Some level\<rparr>) db"

definition finish_run :: "str \<Rightarrow> run_status \<Rightarrow> str option \<Rightarrow> str option \<Rightarrow> store \<Rightarrow> store" where
  "finish_run run status summary error db =
     update_run run (\<lambda>r. r\<lparr>rr_status := status, rr_summary := summary, rr_error := error,
       rr_finished := (if status \<in> {Succeeded, Failed, Cancelled} then Some (so_now db)
                       else rr_finished r),
       rr_version := rr_version r + 1\<rparr>) db"

subsection \<open>Plans and steps\<close>

definition create_plan :: "str \<Rightarrow> int \<Rightarrow> complexity_level \<Rightarrow> json \<Rightarrow> store \<Rightarrow> plan_row \<times> store" where
  "create_plan run revision level j db =
     (let p = \<lparr>pl_id = fresh_id db, pl_run = run, pl_revision = revision, pl_complexity = level,
               pl_json = j, pl_by = Planner\<rparr>
      in (p, db\<lparr>so_plans := so_plans db @ [p], so_next := Suc (so_next db)\<rparr>))"

definition create_step :: "str \<Rightarrow> str \<Rightarrow> int \<Rightarrow> str \<Rightarrow> str list \<Rightarrow> store \<Rightarrow> step_row \<times> store" where
  "create_step run plan sequence objective skills db =
     (let s = \<lparr>st_id = fresh_id db, st_run = run, st_plan = plan, st_sequence = sequence,
               st_objective = objective, st_skills = skills, st_status = StepPlanned,
               st_refs = None, st_error = None\<rparr>
      in (s, db\<lparr>so_steps := so_steps db @ [s], so_next := Suc (so_next db)\<rparr>))"

definition update_step :: "str \<Rightarrow> (step_row \<Rightarrow> step_row) \<Rightarrow> store \<Rightarrow> store" where
  "update_step step f db =
     db\<lparr>so_steps := map (\<lambda>s. if st_id s = step then f s else s) (so_steps db)\<rparr>"

definition find_step :: "store \<Rightarrow> str \<Rightarrow> step_row option" where
  "find_step db step = find (\<lambda>s. st_id s = step) (so_steps db)"

definition finish_step ::
  "str \<Rightarrow> step_status \<Rightarrow> dict list option \<Rightarrow> str option \<Rightarrow> store \<Rightarrow> store" where
  "finish_step step status refs error db =
     update_step step (\<lambda>s. s\<lparr>st_status := status, st_refs := refs, st_error := error\<rparr>) db"

definition count_plans :: "store \<Rightarrow> str \<Rightarrow> int" where
  "count_plans db run = int (length (filter (\<lambda>p. pl_run p = run) (so_plans db)))"

definition list_plans :: "store \<Rightarrow> str \<Rightarrow> plan_row list" where
  "list_plans db run = sort_key (\<lambda>p. (pl_revision p, pl_id p)) (filter (\<lambda>p. pl_run p = run) (so_plans db))"

subsection \<open>Artifacts\<close>

definition find_artifact :: "store \<Rightarrow> str \<Rightarrow> str \<Rightarrow> str \<Rightarrow> artifact_row option" where
  "find_artifact db step artifact_type h =
     find (\<lambda>a. ar_step a = step \<and> ar_type a = artifact_type \<and> ar_hash a = h) (so_artifacts db)"

definition create_artifact ::
  "str \<Rightarrow> str \<Rightarrow> str \<Rightarrow> str \<Rightarrow> str \<Rightarrow> dict \<Rightarrow> store \<Rightarrow> artifact_row \<times> store" where
  "create_artifact run step artifact_type url h content db =
     (case find_artifact db step artifact_type h of
        Some a \<Rightarrow> (a, db)
      | None \<Rightarrow>
          let a = \<lparr>ar_id = fresh_id db, ar_run = run, ar_step = step, ar_type = artifact_type,
                   ar_url = url, ar_hash = h, ar_content = content, ar_by = Executor,
                   ar_created = so_now db\<rparr>
          in (a, db\<lparr>so_artifacts := so_artifacts db @ [a], so_next := Suc (so_next db)\<rparr>))"

definition create_evidence_artifact ::
  "str \<Rightarrow> str \<Rightarrow> str \<Rightarrow> str \<Rightarrow> dict \<Rightarrow> store \<Rightarrow> artifact_row \<times> store" where
  "create_evidence_artifact run step url h content db =
     create_artifact run step (lit ''public_job_page'') url h content db"

definition list_evidence_artifacts :: "store \<Rightarrow> str \<Rightarrow> artifact_row list" where
  "list_evidence_artifacts db run =
     sort_key (\<lambda>a. (ar_created a, ar_id a)) (filter (\<lambda>a. ar_run a = run) (so_artifacts db))"

subsection \<open>Turns\<close>

definition create_turn :: "turn_row \<Rightarrow> store \<Rightarrow> store" where
  "create_turn t db = db\<lparr>so_turns := so_turns db @ [t]\<rparr>"

definition turns_of :: "store \<Rightarrow> str \<Rightarrow> turn_row list" where
  "turns_of db run = filter (\<lambda>t. tr_run t = run) (so_turns db)"

definition count_turns :: "store \<Rightarrow> str \<Rightarrow> int" where
  "count_turns db run = int (length (turns_of db run))"

definition or_zero :: "int option \<Rightarrow> int" where
  "or_zero x = (case x of None \<Rightarrow> 0 | Some n \<Rightarrow> n)"

definition model_usage_totals :: "store \<Rightarrow> str \<Rightarrow> int \<times> int \<times> int" where
  "model_usage_totals db run =
     (let rows = turns_of db run
      in (int (length rows), sum_list (map (\<lambda>t. or_zero (tr_input t)) rows),
          sum_list (map (\<lambda>t. or_zero (tr_output t)) rows)))"

definition count_tool_decisions :: "store \<Rightarrow> str \<Rightarrow> int" where
  "count_tool_decisions db run =
     int (length (filter (\<lambda>t. dget (tr_decision t) (lit ''action'') = JStr (lit ''call_tool''))
       (turns_of db run)))"

definition turn_indices_by_role :: "store \<Rightarrow> str \<Rightarrow> agent_role \<Rightarrow> int" where
  "turn_indices_by_role db run role =
     fold max (map tr_index (filter (\<lambda>t. tr_role t = role) (turns_of db run))) 0"

subsection \<open>Frame facts\<close>

lemma append_event_frame [frame, simp]:
  "so_runs (append_event r t p db) = so_runs db"
  "so_plans (append_event r t p db) = so_plans db"
  "so_steps (append_event r t p db) = so_steps db"
  "so_artifacts (append_event r t p db) = so_artifacts db"
  "so_turns (append_event r t p db) = so_turns db"
  "so_next (append_event r t p db) = so_next db"
  "so_now (append_event r t p db) = so_now db"
  "so_limit (append_event r t p db) = so_limit db"
  by (simp_all add: append_event_def)

lemma update_run_frame [frame, simp]:
  "so_plans (update_run r f db) = so_plans db"
  "so_steps (update_run r f db) = so_steps db"
  "so_artifacts (update_run r f db) = so_artifacts db"
  "so_turns (update_run r f db) = so_turns db"
  "so_events (update_run r f db) = so_events db"
  "so_next (update_run r f db) = so_next db"
  "so_now (update_run r f db) = so_now db"
  "so_limit (update_run r f db) = so_limit db"
  by (simp_all add: update_run_def)

lemma update_step_frame [frame, simp]:
  "so_runs (update_step s f db) = so_runs db"
  "so_plans (update_step s f db) = so_plans db"
  "so_artifacts (update_step s f db) = so_artifacts db"
  "so_turns (update_step s f db) = so_turns db"
  "so_events (update_step s f db) = so_events db"
  "so_next (update_step s f db) = so_next db"
  "so_now (update_step s f db) = so_now db"
  by (simp_all add: update_step_def)

lemma create_artifact_frame [frame, simp]:
  "so_runs (snd (create_artifact r s t u1 h c db)) = so_runs db"
  "so_plans (snd (create_artifact r s t u1 h c db)) = so_plans db"
  "so_steps (snd (create_artifact r s t u1 h c db)) = so_steps db"
  "so_turns (snd (create_artifact r s t u1 h c db)) = so_turns db"
  "so_events (snd (create_artifact r s t u1 h c db)) = so_events db"
  by (simp_all add: create_artifact_def Let_def split: option.splits)

lemma create_turn_frame [frame, simp]:
  "so_runs (create_turn t db) = so_runs db"
  "so_plans (create_turn t db) = so_plans db"
  "so_steps (create_turn t db) = so_steps db"
  "so_artifacts (create_turn t db) = so_artifacts db"
  "so_events (create_turn t db) = so_events db"
  by (simp_all add: create_turn_def)

lemma find_map_update:
  assumes "\<And>r. key (f r) = key r"
  shows "find (\<lambda>r. key r = k') (map (\<lambda>r. if key r = k then f r else r) rs) =
    (if k' = k then map_option f (find (\<lambda>r. key r = k) rs) else find (\<lambda>r. key r = k') rs)"
  using assms by (induction rs) auto

lemma find_update_run:
  "(\<And>r. rr_id (f r) = rr_id r) \<Longrightarrow> find_run (update_run run f db) k =
    (if k = run then map_option f (find_run db run) else find_run db k)"
  by (simp add: find_run_def update_run_def find_map_update)

lemma find_update_step:
  "(\<And>s. st_id (f s) = st_id s) \<Longrightarrow> find_step (update_step step f db) k =
    (if k = step then map_option f (find_step db step) else find_step db k)"
  by (simp add: find_step_def update_step_def find_map_update)

lemma find_run_append_event [simp]: "find_run (append_event r t p db) k = find_run db k"
  by (simp add: find_run_def)

lemma find_step_append_event [simp]: "find_step (append_event r t p db) k = find_step db k"
  by (simp add: find_step_def)

lemma find_run_update_step [simp]: "find_run (update_step s f db) k = find_run db k"
  by (simp add: find_run_def)

lemma find_step_update_run [simp]: "find_step (update_run s f db) k = find_step db k"
  by (simp add: find_step_def)

lemma find_run_id: "find_run db k = Some r \<Longrightarrow> rr_id r = k"
  by (auto simp: find_run_def dest: find_SomeD)

subsection \<open>The event log\<close>

text \<open>The log of a run is well formed when its sequence numbers are \<open>1\<close> to \<open>n\<close> in order.\<close>

definition log_ok :: "store \<Rightarrow> str \<Rightarrow> bool" where
  "log_ok db run \<longleftrightarrow> map ev_seq (events_of db run) = [1..int (length (events_of db run))]"

lemma events_of_append:
  "events_of (append_event r t p db) run =
    events_of db run @ (if r = run then [\<lparr>ev_run = r, ev_seq = latest_sequence db r + 1,
      ev_type = lit t, ev_payload = bounded_payload (so_limit db) p, ev_created = so_now db\<rparr>] else [])"
  by (simp add: events_of_def append_event_def)

lemma latest_sequence_ok: "log_ok db run \<Longrightarrow> latest_sequence db run = int (length (events_of db run))"
  by (auto simp: latest_sequence_def log_ok_def fold_max_upto not_less_eq_eq)

lemma log_ok_append [intro]: "log_ok db run \<Longrightarrow> log_ok (append_event r t p db) run"
  using latest_sequence_ok [of db run] upto_rec2 [of 1 "int (length (events_of db run)) + 1"]
  by (auto simp: log_ok_def events_of_append)

lemma log_ok_frame: "so_events db' = so_events db \<Longrightarrow> log_ok db' run \<longleftrightarrow> log_ok db run"
  by (simp add: log_ok_def events_of_def)

lemma log_sorted: "log_ok db run \<Longrightarrow> sorted (map ev_seq (events_of db run))"
  by (simp add: log_ok_def)

lemma list_events_ok:
  "log_ok db run \<Longrightarrow> list_events db run after = filter (\<lambda>e. after < ev_seq e) (events_of db run)"
  unfolding list_events_def by (rule sort_key_id_if_sorted) (simp add: log_sorted sorted_filter)

lemma list_events_drop:
  assumes "log_ok db run" and "0 \<le> after"
  shows "list_events db run after = drop (nat after) (events_of db run)"
proof -
  have gen: "filter (\<lambda>e. after < ev_seq e) es = drop (nat (after - a)) es"
    if "map ev_seq es = [a + 1..a + int (length es)]" and "a \<le> after" for es and a :: int
    using that
  proof (induction es arbitrary: a)
    case Nil
    then show ?case by simp
  next
    case (Cons e es)
    have up: "[a + 1..a + int (length (e # es))] = (a + 1) # [a + 1 + 1..a + 1 + int (length es)]"
      by (subst upto_rec1) (simp_all add: algebra_simps)
    with Cons.prems(1) have e: "ev_seq e = a + 1"
      and es: "map ev_seq es = [a + 1 + 1..a + 1 + int (length es)]" by simp_all
    show ?case
    proof (cases "after = a")
      case True
      have "\<forall>x \<in> set es. after < ev_seq x"
        using es True by (metis (no_types, lifting) add_strict_increasing atLeastAtMost_iff
            image_eqI less_add_one list.set_map not_less order.strict_trans2 set_upto zero_less_one
            add.commute linorder_not_le nless_le order_le_less_trans)
      then show ?thesis using True e by (simp add: filter_id_conv)
    next
      case False
      with Cons.prems(2) have "a + 1 \<le> after" by simp
      moreover have "nat (after - a) = Suc (nat (after - (a + 1)))"
        using False Cons.prems(2) by simp
      ultimately show ?thesis using Cons.IH [OF es] e by simp
    qed
  qed
  have "filter (\<lambda>e. after < ev_seq e) (events_of db run) = drop (nat (after - 0)) (events_of db run)"
    by (rule gen) (use assms in \<open>simp_all add: log_ok_def\<close>)
  with assms(1) show ?thesis by (simp add: list_events_ok)
qed

subsection \<open>Artifacts are stored once\<close>

definition artifact_key :: "artifact_row \<Rightarrow> str \<times> str \<times> str" where
  "artifact_key a = (ar_step a, ar_type a, ar_hash a)"

definition artifacts_ok :: "store \<Rightarrow> bool" where
  "artifacts_ok db \<longleftrightarrow> distinct (map artifact_key (so_artifacts db))"

lemma find_artifact_None:
  "find_artifact db s t h = None \<longleftrightarrow> (s, t, h) \<notin> artifact_key ` set (so_artifacts db)"
  by (auto simp: find_artifact_def find_None_iff artifact_key_def)

lemma find_artifact_Some:
  "find_artifact db s t h = Some a \<Longrightarrow> a \<in> set (so_artifacts db) \<and> artifact_key a = (s, t, h)"
  by (auto simp: find_artifact_def artifact_key_def dest: find_SomeD)

lemma create_artifact_ok: "artifacts_ok db \<Longrightarrow> artifacts_ok (snd (create_artifact r s t u1 h c db))"
  using find_artifact_None [of db s t h]
  by (auto simp: create_artifact_def artifacts_ok_def artifact_key_def Let_def split: option.splits)

lemma create_artifact_key:
  "artifact_key (fst (create_artifact r s t u1 h c db)) = (s, t, h)"
  by (auto simp: create_artifact_def artifact_key_def Let_def split: option.splits
      dest: find_artifact_Some)

lemma create_artifact_stored:
  "fst (create_artifact r s t u1 h c db) \<in> set (so_artifacts (snd (create_artifact r s t u1 h c db)))"
  by (auto simp: create_artifact_def Let_def split: option.splits dest: find_artifact_Some)

lemma create_artifact_keeps:
  "set (so_artifacts db) \<subseteq> set (so_artifacts (snd (create_artifact r s t u1 h c db)))"
  by (auto simp: create_artifact_def Let_def split: option.splits)

lemma create_artifact_idem:
  "create_artifact r' s t u2 h c' (snd (create_artifact r s t u1 h c db)) =
    (fst (create_artifact r s t u1 h c db), snd (create_artifact r s t u1 h c db))"
proof (cases "find_artifact db s t h")
  case None
  then have "find (\<lambda>a. ar_step a = s \<and> ar_type a = t \<and> ar_hash a = h) (so_artifacts db @ [a]) = Some a"
    if "artifact_key a = (s, t, h)" for a
    using that by (auto simp: find_artifact_def artifact_key_def find_append)
  with None show ?thesis
    by (simp add: create_artifact_def Let_def find_artifact_def artifact_key_def)
qed (simp add: create_artifact_def)

subsection \<open>Identifiers are fresh\<close>

definition all_ids :: "store \<Rightarrow> str set" where
  "all_ids db = set (map rr_id (so_runs db)) \<union> set (map pl_id (so_plans db))
     \<union> set (map st_id (so_steps db)) \<union> set (map ar_id (so_artifacts db))"

definition ids_ok :: "store \<Rightarrow> bool" where
  "ids_ok db \<longleftrightarrow> distinct (map rr_id (so_runs db)) \<and> distinct (map st_id (so_steps db))
     \<and> distinct (map ar_id (so_artifacts db)) \<and> (\<forall>i \<in> all_ids db. \<exists>n < so_next db. i = nat_digits n)"

lemma ids_ok_cong:
  assumes "map rr_id (so_runs d) = map rr_id (so_runs db)" "map pl_id (so_plans d) = map pl_id (so_plans db)"
    "map st_id (so_steps d) = map st_id (so_steps db)" "so_artifacts d = so_artifacts db"
    "so_next d = so_next db"
  shows "ids_ok d \<longleftrightarrow> ids_ok db"
  using assms by (simp add: ids_ok_def all_ids_def del: set_map)

lemma fresh_id_new: "ids_ok db \<Longrightarrow> fresh_id db \<notin> all_ids db"
  by (auto simp: ids_ok_def fresh_id_def)

lemma ids_ok_grow:
  assumes "ids_ok db" and "all_ids d = insert (fresh_id db) (all_ids db)" and "so_next d = Suc (so_next db)"
    and "distinct (map rr_id (so_runs d))" "distinct (map st_id (so_steps d))"
    "distinct (map ar_id (so_artifacts d))"
  shows "ids_ok d"
  using assms less_SucI unfolding ids_ok_def fresh_id_def by fastforce

lemma create_artifact_ids:
  assumes "ids_ok db"
  shows "ids_ok (snd (create_artifact r s t u1 h c db))"
proof (cases "find_artifact db s t h")
  case None
  show ?thesis
    by (rule ids_ok_grow [OF assms])
       (use assms fresh_id_new [OF assms] None in
         \<open>auto simp: create_artifact_def Let_def all_ids_def ids_ok_def\<close>)
qed (use assms in \<open>simp add: create_artifact_def\<close>)

lemma create_run_ids: "ids_ok db \<Longrightarrow> ids_ok (snd (create_run u1 g sk c b v db))"
  by (rule ids_ok_grow) (use fresh_id_new [of db] in
      \<open>auto simp: create_run_def Let_def all_ids_def ids_ok_def\<close>)

lemma create_plan_ids: "ids_ok db \<Longrightarrow> ids_ok (snd (create_plan r n l j db))"
  by (rule ids_ok_grow) (use fresh_id_new [of db] in
      \<open>auto simp: create_plan_def Let_def all_ids_def ids_ok_def\<close>)

lemma create_step_ids: "ids_ok db \<Longrightarrow> ids_ok (snd (create_step r p n ob sk db))"
  by (rule ids_ok_grow) (use fresh_id_new [of db] in
      \<open>auto simp: create_step_def Let_def all_ids_def ids_ok_def\<close>)

lemma ids_ok_append_event [simp]: "ids_ok (append_event r t p db) = ids_ok db"
  by (rule ids_ok_cong) simp_all

lemma create_step_find:
  assumes "ids_ok db"
  shows "find_step (snd (create_step r p n ob sk db)) (st_id (fst (create_step r p n ob sk db))) =
    Some (fst (create_step r p n ob sk db))"
proof -
  have "find (\<lambda>s. st_id s = fresh_id db) (so_steps db) = None"
    using fresh_id_new [OF assms] by (force simp: find_None_iff all_ids_def)
  then show ?thesis by (simp add: create_step_def Let_def find_step_def find_append)
qed

lemma create_step_find_other:
  "k \<noteq> st_id (fst (create_step r p n ob sk db)) \<Longrightarrow>
   find_step (snd (create_step r p n ob sk db)) k = find_step db k"
  by (simp add: create_step_def Let_def find_step_def find_append split: option.splits)

subsection \<open>Properties\<close>

text \<open>A reader that polls the log of a run from the last number it has seen gets exactly the
  events it has not seen, in order: the log without its first \<open>after\<close> events.\<close>

theorem events_after:
  assumes "log_ok db run" and "0 \<le> after"
  shows "list_events db run after = drop (nat after) (events_of db run)"
  by (rule list_events_drop [OF assms])

text \<open>The log of a run stays numbered \<open>1, 2, 3, ...\<close>: an event appended for any run keeps the
  numbering of every log, and grows only the log of its own run.\<close>

theorem append_keeps_numbering:
  assumes "log_ok db q"
  shows "log_ok (append_event run t p db) q
    \<and> length (events_of (append_event run t p db) q) = length (events_of db q) + (if q = run then 1 else 0)"
  using assms by (simp add: log_ok_append events_of_append)

text \<open>Storing the same artifact of a step again, with any other URL or content, returns the row
  that is there and changes nothing.\<close>

theorem artifact_stored_once:
  "create_artifact run' step kind url' h content' (snd (create_artifact run step kind url h content db)) =
     (fst (create_artifact run step kind url h content db), snd (create_artifact run step kind url h content db))"
  by (simp add: create_artifact_idem)

end
