(* ===== verification/Evidence.thy ===== *)
theory Evidence
  imports PlanIdentity DiscoveryPolicy RunStore
begin

section \<open>Evidence: what the tools observed and what the run keeps of it\<close>

text \<open>
  The evidence helpers of \<open>runtime.py\<close>. Only tool observations become artifacts
  (\<open>_persist_observed_evidence\<close>); their pointers are the refs a step carries; the next
  decisions see pointers (\<open>_with_observed_public_evidence\<close>) and the tools see the text
  (\<open>_tool_context\<close>). The refs of a seeded or an upstream artifact are read back by
  \<open>_step_seeded_artifact_refs\<close> and \<open>_resolved_step_artifact_refs\<close>.
\<close>

definition full_text_chars :: nat where
  "full_text_chars = 32000"

definition section_chars :: nat where
  "section_chars = 600"

subsection \<open>Candidate texts\<close>

definition string_list :: "json \<Rightarrow> str list" where
  "string_list v = (case v of JArr xs \<Rightarrow> map the_str (filter nonempty_str xs) | _ \<Rightarrow> [])"

definition bounded_section :: "json \<Rightarrow> str" where
  "bounded_section v = (if is_str v then take section_chars (the_str v) else [])"

definition text_or_empty :: "json \<Rightarrow> str" where
  "text_or_empty v = (if is_str v then the_str v else [])"

definition full_candidate_text :: "dict \<Rightarrow> str" where
  "full_candidate_text c =
     take full_text_chars (join [10] (filter (\<lambda>p. p \<noteq> [])
       [text_or_empty (dget c (lit ''title'')), text_or_empty (dget c (lit ''company_name'')),
        join (lit '' '') (string_list (dget c (lit ''locations''))),
        text_or_empty (dget c (lit ''responsibilities'')), text_or_empty (dget c (lit ''requirements''))]))"

definition evidence_artifact_id :: "dict \<Rightarrow> json" where
  "evidence_artifact_id c =
     (case find (\<lambda>r. nonempty_str (dget r (lit ''artifact_id''))) (list_items (dget c (lit ''evidence_refs''))) of
        None \<Rightarrow> JNull | Some r \<Rightarrow> dget r (lit ''artifact_id''))"

definition structured_artifact_visible_text :: "dict \<Rightarrow> str" where
  "structured_artifact_visible_text content =
     take full_text_chars (join [10, 10] (filter (\<lambda>t. t \<noteq> [])
       (map full_candidate_text (list_items (dget content (lit ''candidates''))))))"

subsection \<open>Pointers for the models, text for the tools\<close>

definition is_list :: "json \<Rightarrow> bool" where
  "is_list v \<longleftrightarrow> (case v of JArr xs \<Rightarrow> True | _ \<Rightarrow> False)"

text \<open>The text an artifact shows; \<open>JNull\<close> where the loop goes on to the next artifact.\<close>

definition pointer_text :: "artifact_row \<Rightarrow> json" where
  "pointer_text a =
     (if ar_type a = lit ''structured_job_details'' then
        (if \<exists>c \<in> set (list_items (dget (ar_content a) (lit ''candidates''))).
               \<not> is_list (dget c (lit ''evidence_refs''))
         then JStr (structured_artifact_visible_text (ar_content a)) else JNull)
      else dget (ar_content a) (lit ''visible_text''))"

definition keep_if :: "(json \<Rightarrow> bool) \<Rightarrow> dict \<Rightarrow> string \<Rightarrow> dict" where
  "keep_if ok content key = (let v = dget content (lit key) in if ok v then [(lit key, v)] else [])"

definition evidence_identity :: "artifact_row \<Rightarrow> dict" where
  "evidence_identity a = [(lit ''artifact_id'', JStr (ar_id a)), (lit ''source_url'', JStr (ar_url a)),
     (lit ''content_hash'', JStr (ar_hash a))]"

definition evidence_pointer :: "artifact_row \<Rightarrow> dict" where
  "evidence_pointer a =
     (let content = ar_content a in
      evidence_identity a @ keep_if is_str content ''effective_url''
      @ keep_if (\<lambda>v. is_list v \<and> truthy v) content ''redirect_chain''
      @ keep_if is_int content ''http_status'' @ keep_if is_str content ''title''
      @ keep_if is_str content ''quality'' @ keep_if is_str content ''quality_signal'')"

definition observed_public_evidence :: "store \<Rightarrow> str \<Rightarrow> dict list" where
  "observed_public_evidence db run =
     map evidence_pointer (filter (\<lambda>a. nonempty_str (pointer_text a)) (list_evidence_artifacts db run))"

definition with_observed_public_evidence :: "store \<Rightarrow> task \<Rightarrow> str \<Rightarrow> task" where
  "with_observed_public_evidence db t run =
     t\<lparr>tk_context := dput (lit ''observed_public_evidence'')
         (JArr (map JObj (observed_public_evidence db run))) (tk_context t)\<rparr>"

definition not_empty_value :: "json \<Rightarrow> bool" where
  "not_empty_value v \<longleftrightarrow> v \<notin> {JNull, JStr [], JArr [], JObj []}"

definition full_evidence_item :: "artifact_row \<Rightarrow> dict" where
  "full_evidence_item a =
     evidence_identity a @ [(lit ''visible_text'', dget (ar_content a) (lit ''visible_text''))]
     @ concat (map (keep_if not_empty_value (ar_content a))
         [''title'', ''effective_url'', ''redirect_chain'', ''http_status'', ''quality'', ''quality_signal''])"

definition full_observed_public_evidence :: "store \<Rightarrow> str \<Rightarrow> dict list" where
  "full_observed_public_evidence db run =
     map full_evidence_item (filter (\<lambda>a. nonempty_str (dget (ar_content a) (lit ''visible_text'')))
       (list_evidence_artifacts db run))"

subsection \<open>Structured candidates\<close>

definition metadata_keys :: "string list" where
  "metadata_keys = [''updated_at'', ''published_at'', ''posted_at'', ''publish_time'', ''update_time'']"

definition dated :: "dict \<Rightarrow> dict" where
  "dated d = concat (map (keep_if (\<lambda>v. v \<notin> {JNull, JStr []}) d) metadata_keys)"

definition result_metadata :: "dict \<Rightarrow> dict" where
  "result_metadata r =
     (case dget r (lit ''prior_metadata'') of
        JObj prior \<Rightarrow> dmerge (dated r) (dated prior) | _ \<Rightarrow> dated r)"

text \<open>Each search result maps its URLs to its dates; a later result replaces an earlier one.\<close>

definition search_metadata :: "artifact_row list \<Rightarrow> (str \<times> dict) list" where
  "search_metadata artifacts =
     rev (concat (map (\<lambda>a. if ar_type a \<noteq> lit ''job_search_results'' then []
       else concat (map (\<lambda>r. if result_metadata r = [] then []
              else map (\<lambda>v. (the_str v, result_metadata r)) (filter nonempty_str (item_url_values r)))
            (list_items (dget (ar_content a) (lit ''results''))))) artifacts))"

definition page_qualities :: "artifact_row list \<Rightarrow> (str \<times> json) list" where
  "page_qualities artifacts =
     rev (map (\<lambda>a. (ar_url a, dget (ar_content a) (lit ''quality'')))
       (filter (\<lambda>a. ar_type a = lit ''public_job_page'' \<and> is_str (dget (ar_content a) (lit ''quality'')))
         artifacts))"

definition lookup_json :: "(str \<times> json) list \<Rightarrow> str \<Rightarrow> json" where
  "lookup_json m k = (case map_of m k of None \<Rightarrow> JNull | Some v \<Rightarrow> v)"

definition lookup_dict :: "(str \<times> dict) list \<Rightarrow> str \<Rightarrow> dict" where
  "lookup_dict m k = (case map_of m k of None \<Rightarrow> [] | Some v \<Rightarrow> v)"

definition str_or_null :: "json \<Rightarrow> json" where
  "str_or_null v = (if is_str v then v else JNull)"

definition candidate_source :: "artifact_row \<Rightarrow> dict \<Rightarrow> str" where
  "candidate_source a c =
     (let u = dget c (lit ''apply_url'') in if nonempty_str u then the_str u else ar_url a)"

definition structured_candidate ::
  "artifact_row list \<Rightarrow> artifact_row \<Rightarrow> nat \<Rightarrow> dict \<Rightarrow> dict" where
  "structured_candidate artifacts a index c =
     (let content = ar_content a; source = candidate_source a c;
          page_quality = lookup_json (page_qualities artifacts) (ar_url a);
          visible = dget content (lit ''visible_text'');
          head = [(lit ''artifact_id'', JStr (ar_id a)),
            (lit ''candidate_id'', JStr (ar_id a @ lit '':candidate:'' @ str_of_int (int index))),
            (lit ''source_artifact_id'', evidence_artifact_id c), (lit ''source_url'', JStr source),
            (lit ''page_source_url'', JStr (ar_url a)),
            (lit ''page_title'', str_or_null (dget content (lit ''title''))),
            (lit ''page_text_prefix'', JStr (if is_str visible then take 2000 (the_str visible) else [])),
            (lit ''apply_url'', str_or_null (dget c (lit ''apply_url''))),
            (lit ''content_hash'', JStr (ar_hash a)),
            (lit ''source_quality'', if truthy page_quality then page_quality
               else lookup_json (page_qualities artifacts) source)];
          tail = [(lit ''title'', str_or_null (dget c (lit ''title''))),
            (lit ''locations'', strs (string_list (dget c (lit ''locations'')))),
            (lit ''recruitment_types'', strs (string_list (dget c (lit ''recruitment_types'')))),
            (lit ''deadline_text'', str_or_null (dget c (lit ''deadline_text''))),
            (lit ''published_at'', str_or_null (dget c (lit ''published_at''))),
            (lit ''skills'', strs (string_list (dget c (lit ''skills'')))),
            (lit ''company_name'', JStr (bounded_section (dget c (lit ''company_name'')))),
            (lit ''responsibilities'', JStr (bounded_section (dget c (lit ''responsibilities'')))),
            (lit ''requirements'', JStr (bounded_section (dget c (lit ''requirements'')))),
            (lit ''strength'', dget c (lit ''strength'')),
            (lit ''full_text'', JStr (full_candidate_text c))];
          dates = search_metadata artifacts
      in dmerge (dmerge (dmerge head (lookup_dict dates (ar_url a))) (lookup_dict dates source)) tail)"

definition indexed_dicts :: "json \<Rightarrow> (nat \<times> dict) list" where
  "indexed_dicts v =
     (case v of
        JArr xs \<Rightarrow> map (\<lambda>(i, x). (i, the_dict x)) (filter (\<lambda>(i, x). is_dict x) (zip [0..<length xs] xs))
      | _ \<Rightarrow> [])"

definition structured_job_candidates :: "store \<Rightarrow> str \<Rightarrow> dict list" where
  "structured_job_candidates db run =
     (let artifacts = list_evidence_artifacts db run
      in concat (map (\<lambda>a. map (\<lambda>(i, c). structured_candidate artifacts a i c)
           (indexed_dicts (dget (ar_content a) (lit ''candidates'')))) artifacts))"

subsection \<open>The tool context\<close>

definition merged_strings :: "task \<Rightarrow> string \<Rightarrow> json" where
  "merged_strings t key =
     (let own = dget_or (tk_context t) (lit key) (JArr []);
          own' = (case own of JArr xs \<Rightarrow> xs | _ \<Rightarrow> [])
      in case dget_or (tk_exec_state t) (lit key) (JArr []) of
           JArr state \<Rightarrow> strs (sort (dedup (map the_str (filter is_str (own' @ state)))))
         | _ \<Rightarrow> JArr own')"

definition run_tool_context :: "str \<Rightarrow> str \<Rightarrow> task \<Rightarrow> store \<Rightarrow> tool_context" where
  "run_tool_context user run t db =
     (let full = full_observed_public_evidence db run;
          evidence = (if full = [] then dget_or (tk_context t) (lit ''observed_public_evidence'') (JArr [])
                      else JArr (map JObj full));
          facts = dget (tk_private t) profile_facts_key
      in \<lparr>tx_user = user, tx_run = run, tx_meta =
           [(lit ''observed_public_evidence'', if is_list evidence then evidence else JArr []),
            (lit ''structured_job_candidates'', JArr (map JObj (structured_job_candidates db run))),
            (profile_facts_key, if is_dict facts then facts else JObj []),
            (lit ''task_goal'', JStr (tk_goal t)),
            (lit ''resolved_step_inputs'', dget_or (tk_context t) (lit ''resolved_step_inputs'')
               (JObj [(lit ''context'', JObj []), (lit ''artifacts'', JObj [])])),
            (lit ''blocked_public_domains'', merged_strings t ''blocked_public_domains''),
            (lit ''public_search_query_hashes'', merged_strings t ''public_search_query_hashes'')]\<rparr>)"

subsection \<open>Persisting what the tools observed\<close>

type_synonym persisted = "dict list \<times> store"

definition make_ref :: "str \<Rightarrow> string \<Rightarrow> str \<Rightarrow> str \<Rightarrow> str \<Rightarrow> dict" where
  "make_ref artifact_id artifact_type tool url h =
     [(lit ''artifact_id'', JStr artifact_id), (lit ''artifact_type'', JStr (lit artifact_type)),
      (lit ''tool'', JStr tool), (lit ''source_url'', JStr url), (lit ''content_hash'', JStr h)]"

definition observation_event :: "step_row \<Rightarrow> str \<Rightarrow> str \<Rightarrow> str \<Rightarrow> str \<Rightarrow> dict" where
  "observation_event step tool artifact_id url h =
     [(lit ''sequence'', JInt (st_sequence step)), (lit ''tool'', JStr tool),
      (lit ''artifact_id'', JStr artifact_id), (lit ''source_url'', JStr url),
      (lit ''content_hash'', JStr h)]"

definition page_content :: "dict \<Rightarrow> dict" where
  "page_content page =
     [(lit ''title'', dget page (lit ''title'')),
      (lit ''visible_text'', JStr (take full_text_chars (the_str (dget page (lit ''visible_text''))))),
      (lit ''effective_url'', dget page (lit ''effective_url'')),
      (lit ''redirect_chain'', dget_or page (lit ''redirect_chain'') (JArr [])),
      (lit ''http_status'', dget page (lit ''http_status'')),
      (lit ''quality'', dget page (lit ''quality'')),
      (lit ''quality_signal'', dget page (lit ''quality_signal''))]"

definition persist_page :: "str \<Rightarrow> step_row \<Rightarrow> str \<Rightarrow> dict \<Rightarrow> persisted \<Rightarrow> persisted" where
  "persist_page run step tool page acc =
     (let url = dget page (lit ''source_url''); h = dget page (lit ''content_hash'');
          text = dget page (lit ''visible_text''); (refs, db) = acc
      in if \<not> (is_str url \<and> is_str h \<and> is_str text) then acc
         else let (a, db1) = create_evidence_artifact run (st_id step) (the_str url) (the_str h)
                    (page_content page) db;
                  ref = make_ref (ar_id a) ''public_job_page'' tool (the_str url) (the_str h)
                    @ keep_if (\<lambda>v. v \<noteq> JNull) page ''quality''
              in (refs @ [ref], append_event run ''executor_tool_observation''
                    (observation_event step tool (ar_id a) (the_str url) (the_str h)) db1))"

text \<open>\<open>raw if isinstance(raw, list) else [output]\<close>, then the dictionaries of the list.\<close>

definition parts_of :: "string \<Rightarrow> dict \<Rightarrow> dict list" where
  "parts_of key out = (case dget out (lit key) of JArr xs \<Rightarrow> dicts_of xs | _ \<Rightarrow> [out])"

definition persist_pages :: "str \<Rightarrow> step_row \<Rightarrow> observation \<Rightarrow> persisted \<Rightarrow> persisted" where
  "persist_pages run step ob acc =
     fold (persist_page run step (ob_tool ob)) (parts_of ''pages'' (output_of ob)) acc"

definition search_content :: "dict \<Rightarrow> json \<Rightarrow> dict" where
  "search_content out raw =
     [(lit ''query'', dget out (lit ''query'')), (lit ''results'', raw)]
     @ (if dget out (lit ''provider'') = JStr (lit ''juejin_official_search'') then
          map (\<lambda>k. (lit k, dget out (lit k)))
            [''terminal_reason'', ''provider'', ''source_scope'', ''time_window_days'',
             ''coverage_complete'', ''scanned_result_count'', ''matched_result_count'']
          @ [(lit ''scan_queries'', dget_or out (lit ''scan_queries'') (JArr [])),
             (lit ''scan_evidence'', dget_or out (lit ''scan_evidence'') (JArr []))]
        else [])"

definition flag_text :: "bool \<Rightarrow> json" where
  "flag_text b = JStr (lit (if b then ''true'' else ''false''))"

definition search_rows :: "dict \<Rightarrow> json" where
  "search_rows out =
     (let r = dget out (lit ''results'') in if r = JNull then dget out (lit ''records'') else r)"

definition persist_search :: "str \<Rightarrow> step_row \<Rightarrow> observation \<Rightarrow> persisted \<Rightarrow> persisted" where
  "persist_search run step ob acc =
     (let out = output_of ob; url = dget out (lit ''source_url''); h = dget out (lit ''content_hash'');
          (refs, db) = acc
      in case search_rows out of
           JArr xs \<Rightarrow>
             if \<not> (is_str url \<and> is_str h) then acc
             else let (a, db1) = create_artifact run (st_id step) (lit ''job_search_results'') (the_str url)
                        (the_str h) (search_content out (JArr xs)) db;
                      valid = (ob_tool ob = lit ''search-public-job-pages''
                        \<and> skill_observation_is_semantically_valid (ob_tool ob) out);
                      ref = make_ref (ar_id a) ''job_search_results'' (ob_tool ob) (the_str url) (the_str h)
                        @ [(lit ''semantic_valid'',
                              flag_text (job_search_results_are_routable (JArr xs) \<or> valid)),
                           (lit ''completion_valid'', flag_text valid),
                           (lit ''result_count'', JStr (str_of_int (int (length xs))))]
                  in (refs @ [ref], append_event run ''executor_search_artifact''
                        (observation_event step (ob_tool ob) (ar_id a) (the_str url) (the_str h)) db1)
         | _ \<Rightarrow> acc)"

definition persist_detail :: "str \<Rightarrow> step_row \<Rightarrow> str \<Rightarrow> dict \<Rightarrow> persisted \<Rightarrow> persisted" where
  "persist_detail run step tool detail acc =
     (let url = dget detail (lit ''source_url''); h = dget detail (lit ''content_hash'');
          candidates = dget detail (lit ''candidates''); (refs, db) = acc
      in if \<not> (is_str url \<and> is_str h \<and> is_list candidates) then acc
         else let (a, db1) = create_artifact run (st_id step) (lit ''structured_job_details'') (the_str url)
                    (the_str h) [(lit ''candidates'', candidates)] db;
                  ref = make_ref (ar_id a) ''structured_job_details'' tool (the_str url) (the_str h)
                    @ keep_if (\<lambda>v. v \<noteq> JNull) detail ''source_quality''
              in (refs @ [ref], append_event run ''executor_structured_artifact''
                    (observation_event step tool (ar_id a) (the_str url) (the_str h)) db1))"

definition persist_details :: "str \<Rightarrow> step_row \<Rightarrow> observation \<Rightarrow> persisted \<Rightarrow> persisted" where
  "persist_details run step ob acc =
     fold (persist_detail run step (ob_tool ob)) (parts_of ''details'' (output_of ob)) acc"

definition skill_artifact_source_url :: "str option \<Rightarrow> dict \<Rightarrow> str option" where
  "skill_artifact_source_url artifact_type out =
     (let direct = dget out (lit ''source_url'') in
      if nonempty_str direct then Some (the_str direct)
      else if artifact_type \<noteq> Some (lit ''job_matching_report'') then None
      else case dget out (lit ''matches'') of
          JArr ms \<Rightarrow>
            (case find (\<lambda>m. nonempty_str (dget m (lit ''source_url''))) (dicts_of ms) of
               Some m \<Rightarrow> Some (the_str (dget m (lit ''source_url'')))
             | None \<Rightarrow>
                 (case dget out (lit ''evaluated_source_urls'') of
                    JArr us \<Rightarrow> map_option the_str (find nonempty_str us)
                  | _ \<Rightarrow> None))
        | _ \<Rightarrow> None)"

definition persisted_elsewhere :: "str option \<Rightarrow> bool" where
  "persisted_elsewhere t \<longleftrightarrow>
     t \<in> (Some \<circ> lit) ` {''public_job_page'', ''job_search_results'', ''structured_job_details''}"

definition persist_report :: "str \<Rightarrow> step_row \<Rightarrow> observation \<Rightarrow> persisted \<Rightarrow> persisted" where
  "persist_report run step ob acc =
     (let t = tool_artifact_type (ob_tool ob); out = output_of ob; (refs, db) = acc in
      if persisted_elsewhere t then acc
      else case (t, skill_artifact_source_url t out) of
          (Some kind, Some url) \<Rightarrow>
            let h = hash_json (JObj out);
                (a, db1) = create_artifact run (st_id step) kind url h out db;
                ref = [(lit ''artifact_id'', JStr (ar_id a)), (lit ''artifact_type'', JStr kind),
                  (lit ''tool'', JStr (ob_tool ob)), (lit ''source_url'', JStr url),
                  (lit ''content_hash'', JStr h),
                  (lit ''semantic_valid'', flag_text (skill_observation_is_semantically_valid (ob_tool ob) out))]
            in (refs @ [ref], append_event run ''executor_skill_artifact''
                  [(lit ''sequence'', JInt (st_sequence step)), (lit ''tool'', JStr (ob_tool ob)),
                   (lit ''artifact_id'', JStr (ar_id a)), (lit ''artifact_type'', JStr kind)] db1)
        | _ \<Rightarrow> acc)"

definition persist_observed_evidence ::
  "str \<Rightarrow> step_row \<Rightarrow> observation list \<Rightarrow> store \<Rightarrow> dict list \<times> store" where
  "persist_observed_evidence run step obs db =
     fold (persist_report run step) obs
       (fold (persist_details run step) obs
         (fold (persist_search run step) obs
           (fold (persist_pages run step) obs ([], db))))"

subsection \<open>Seeded and upstream evidence\<close>

definition seedable :: "dict \<Rightarrow> bool" where
  "seedable item \<longleftrightarrow>
     dget item (lit ''artifact_type'') \<in> {JNull, JStr (lit ''public_job_page'')}
     \<and> list_all (\<lambda>k. nonempty_str (dget item (lit k))) [''source_url'', ''content_hash'', ''visible_text'']"

definition seed_page :: "str \<Rightarrow> step_row \<Rightarrow> dict \<Rightarrow> store \<Rightarrow> store" where
  "seed_page run step item db =
     snd (create_evidence_artifact run (st_id step) (the_str (dget item (lit ''source_url'')))
       (the_str (dget item (lit ''content_hash'')))
       (dpick (map lit [''title'', ''visible_text'', ''effective_url'', ''redirect_chain'', ''http_status'',
          ''quality'', ''quality_signal'']) item) db)"

definition persist_seeded_public_evidence :: "str \<Rightarrow> step_row \<Rightarrow> task \<Rightarrow> store \<Rightarrow> store" where
  "persist_seeded_public_evidence run step t db =
     (let items = filter seedable (list_items (dget (tk_context t) (lit ''observed_public_evidence'')));
          db1 = fold (seed_page run step) items db
      in if items = [] then db1
         else append_event run ''inherited_public_evidence_hydrated''
           [(lit ''sequence'', JInt (st_sequence step)),
            (lit ''artifact_count'', JInt (int (length items)))] db1)"

definition seeded_ref :: "artifact_row \<Rightarrow> dict" where
  "seeded_ref a =
     [(lit ''artifact_id'', JStr (ar_id a)), (lit ''artifact_type'', JStr (ar_type a)),
      (lit ''tool'', JStr (lit ''fetch-public-job-pages'')), (lit ''source_url'', JStr (ar_url a)),
      (lit ''content_hash'', JStr (ar_hash a))] @ keep_if is_str (ar_content a) ''quality''"

definition step_seeded_artifact_refs :: "store \<Rightarrow> str \<Rightarrow> str \<Rightarrow> dict list" where
  "step_seeded_artifact_refs db run step_id =
     map seeded_ref (filter (\<lambda>a. ar_step a = step_id \<and> ar_type a = lit ''public_job_page'')
       (list_evidence_artifacts db run))"

definition upstream_keys :: "string list" where
  "upstream_keys = [''artifact_id'', ''artifact_type'', ''source_url'', ''content_hash'']"

definition upstream_ref :: "dict \<Rightarrow> dict" where
  "upstream_ref item =
     map (\<lambda>k. (lit k, dget item (lit k))) upstream_keys
     @ concat (map (keep_if nonempty_str item)
         [''tool'', ''quality'', ''source_quality'', ''output_name'', ''semantic_valid'', ''completion_valid''])"

definition ref_identity :: "dict \<Rightarrow> json \<times> json" where
  "ref_identity r = (dget r (lit ''artifact_id''), dget r (lit ''content_hash''))"

text \<open>The first item of every identity is kept.\<close>

fun distinct_refs :: "(json \<times> json) list \<Rightarrow> dict list \<Rightarrow> dict list" where
  "distinct_refs seen [] = []"
| "distinct_refs seen (r # rs) =
     (if ref_identity r \<in> set seen then distinct_refs seen rs
      else r # distinct_refs (ref_identity r # seen) rs)"

definition resolved_step_artifact_refs :: "dict \<Rightarrow> dict list" where
  "resolved_step_artifact_refs meta =
     (case dget meta (lit ''resolved_step_inputs'') of
        JObj resolved \<Rightarrow>
          (case dget resolved (lit ''artifacts'') of
             JObj artifacts \<Rightarrow>
               map upstream_ref (distinct_refs []
                 (filter (\<lambda>item. list_all (\<lambda>k. nonempty_str (dget item (lit k))) upstream_keys)
                   (concat (map (list_items \<circ> snd) artifacts))))
           | _ \<Rightarrow> [])
      | _ \<Rightarrow> [])"

subsection \<open>Search results read back from the store\<close>

definition search_tools :: "string list" where
  "search_tools = [''query-career-sheet-records'', ''search-public-job-pages'']"

definition stored_search_tool :: "dict \<Rightarrow> json \<Rightarrow> str" where
  "stored_search_tool ref query =
     (if json_in (dget ref (lit ''tool'')) search_tools then the_str (dget ref (lit ''tool''))
      else if is_dict query then lit ''query-career-sheet-records''
      else lit ''search-public-job-pages'')"

definition stored_search_observation :: "dict \<Rightarrow> artifact_row \<Rightarrow> json list \<Rightarrow> observation" where
  "stored_search_observation ref a results =
     (let query = dget (ar_content a) (lit ''query''); tool = stored_search_tool ref query in
      \<lparr>ob_tool = tool, ob_status = ObsSucceeded,
       ob_output = Some [(if tool = lit ''query-career-sheet-records'' then lit ''records''
                          else lit ''results'', JArr results),
         (lit ''query'', query), (lit ''source_url'', JStr (ar_url a)),
         (lit ''content_hash'', JStr (ar_hash a))],
       ob_error = None, ob_message = None\<rparr>)"

definition persisted_job_search_observations :: "store \<Rightarrow> str \<Rightarrow> dict list \<Rightarrow> observation list" where
  "persisted_job_search_observations db run refs =
     (let search_refs = filter (\<lambda>r. dget r (lit ''artifact_type'') = JStr (lit ''job_search_results'')
                           \<and> is_str (dget r (lit ''artifact_id''))) refs;
          by_id = rev (map (\<lambda>r. (the_str (dget r (lit ''artifact_id'')), r)) search_refs)
      in List.map_filter (\<lambda>a. case map_of by_id (ar_id a) of
            None \<Rightarrow> None
          | Some ref \<Rightarrow>
              if ar_type a \<noteq> lit ''job_search_results'' then None
              else (case dget (ar_content a) (lit ''results'') of
                      JArr results \<Rightarrow> Some (stored_search_observation ref a results)
                    | _ \<Rightarrow> None))
          (list_evidence_artifacts db run))"

subsection \<open>What an evidence operation may change\<close>

text \<open>It adds artifacts and events of its run, and nothing else changes.\<close>

definition extends :: "str \<Rightarrow> store \<Rightarrow> store \<Rightarrow> bool" where
  "extends run db db' \<longleftrightarrow>
     so_runs db' = so_runs db \<and> so_plans db' = so_plans db \<and> so_steps db' = so_steps db
     \<and> so_turns db' = so_turns db
     \<and> appended (\<lambda>a. ar_run a = run) (so_artifacts db) (so_artifacts db')
     \<and> appended (\<lambda>e. ev_run e = run) (so_events db) (so_events db')
     \<and> (\<forall>r. log_ok db r \<longrightarrow> log_ok db' r) \<and> (artifacts_ok db \<longrightarrow> artifacts_ok db')
     \<and> (ids_ok db \<longrightarrow> ids_ok db')"

lemma extends_refl [simp, intro]: "extends run db db"
  by (simp add: extends_def)

lemma extends_trans [trans]: "extends run a b \<Longrightarrow> extends run b c \<Longrightarrow> extends run a c"
  unfolding extends_def by (elim conjE, intro conjI) (simp_all, (erule (1) appended_trans)+)

lemma append_event_events: "appended (\<lambda>e. ev_run e = run) (so_events db) (so_events (append_event run t p db))"
  by (simp add: append_event_def)

lemma extends_append_event [intro]: "extends run db (append_event run t p db)"
  by (simp add: extends_def append_event_events log_ok_append artifacts_ok_def)

lemma create_artifact_artifacts:
  "appended (\<lambda>a. ar_run a = run) (so_artifacts db) (so_artifacts (snd (create_artifact run s t u1 h c db)))"
  by (simp add: create_artifact_def Let_def split: option.splits)

lemma extends_create_artifact [intro]: "extends run db (snd (create_artifact run s t u1 h c db))"
proof -
  have "log_ok (snd (create_artifact run s t u1 h c db)) r = log_ok db r" for r
    by (rule log_ok_frame) simp
  then show ?thesis
    by (simp add: extends_def create_artifact_artifacts create_artifact_ok create_artifact_ids)
qed

lemma extends_frame:
  assumes "extends run db db'"
  shows "find_run db' k = find_run db k" and "find_step db' k = find_step db k"
    and "log_ok db r \<Longrightarrow> log_ok db' r" and "artifacts_ok db \<Longrightarrow> artifacts_ok db'"
    and "set (so_artifacts db) \<subseteq> set (so_artifacts db')"
proof -
  show "find_run db' k = find_run db k" "find_step db' k = find_step db k"
    using assms by (simp_all add: extends_def find_run_def find_step_def)
  show "log_ok db r \<Longrightarrow> log_ok db' r" "artifacts_ok db \<Longrightarrow> artifacts_ok db'"
    using assms by (simp_all add: extends_def)
  show "set (so_artifacts db) \<subseteq> set (so_artifacts db')"
    using assms appended_subset unfolding extends_def by blast
qed

text \<open>A ref is backed when it names a stored artifact of the step, with its type and hash, and a
  tool that was really called.\<close>

definition backed :: "str \<Rightarrow> str set \<Rightarrow> store \<Rightarrow> dict \<Rightarrow> bool" where
  "backed step_id tools db ref \<longleftrightarrow>
     (\<exists>a \<in> set (so_artifacts db). ar_step a = step_id
        \<and> dget ref (lit ''artifact_id'') = JStr (ar_id a)
        \<and> dget ref (lit ''artifact_type'') = JStr (ar_type a)
        \<and> dget ref (lit ''content_hash'') = JStr (ar_hash a))
     \<and> (\<exists>t \<in> tools. dget ref (lit ''tool'') = JStr t)"

lemma backed_mono: "backed s T db ref \<Longrightarrow> set (so_artifacts db) \<subseteq> set (so_artifacts db') \<Longrightarrow> backed s T db' ref"
  unfolding backed_def by blast

definition evidence_inv :: "str \<Rightarrow> str \<Rightarrow> str set \<Rightarrow> store \<Rightarrow> persisted \<Rightarrow> bool" where
  "evidence_inv run step_id tools db0 acc \<longleftrightarrow>
     extends run db0 (snd acc) \<and> (\<forall>ref \<in> set (fst acc). backed step_id tools (snd acc) ref)"

lemma evidence_inv_store:
  assumes "evidence_inv run sid T db0 (refs, db)" and "tool \<in> T"
    and ref: "dget ref (lit ''artifact_id'') = JStr (ar_id (fst (create_artifact run sid t u1 h c db)))"
      "dget ref (lit ''artifact_type'') = JStr t" "dget ref (lit ''content_hash'') = JStr h"
      "dget ref (lit ''tool'') = JStr tool"
  shows "evidence_inv run sid T db0
    (refs @ [ref], append_event run ty p (snd (create_artifact run sid t u1 h c db)))"
proof -
  define a db1 where "a = fst (create_artifact run sid t u1 h c db)"
    and "db1 = snd (create_artifact run sid t u1 h c db)"
  have a: "a \<in> set (so_artifacts db1)" "artifact_key a = (sid, t, h)"
    unfolding a_def db1_def by (rule create_artifact_stored) (rule create_artifact_key)
  have ext: "extends run db db1" unfolding db1_def by (rule extends_create_artifact)
  have "extends run db0 db" using assms(1) by (simp add: evidence_inv_def)
  then have "extends run db0 (append_event run ty p db1)"
    using ext by (meson extends_append_event extends_trans)
  moreover have "backed sid T (append_event run ty p db1) r" if "r \<in> set refs" for r
    using that assms(1) backed_mono extends_frame(5) [OF ext] by (auto simp: evidence_inv_def)
  moreover have "backed sid T (append_event run ty p db1) ref"
    using a ref assms(2) unfolding backed_def a_def [symmetric] artifact_key_def by auto
  ultimately show ?thesis unfolding evidence_inv_def db1_def [symmetric] by auto
qed

lemma keep_if_dget: "k \<noteq> lit key \<Longrightarrow> dget (d @ keep_if ok c key) k = dget d k"
  by (auto simp: keep_if_def dget_def Let_def split: option.splits)

lemma make_ref_dget [simp]:
  "dget (make_ref i t tool u1 h @ d) (lit ''artifact_id'') = JStr i"
  "dget (make_ref i t tool u1 h @ d) (lit ''artifact_type'') = JStr (lit t)"
  "dget (make_ref i t tool u1 h @ d) (lit ''content_hash'') = JStr h"
  "dget (make_ref i t tool u1 h @ d) (lit ''tool'') = JStr tool"
  by (simp_all add: make_ref_def)

lemma persist_page_inv:
  "evidence_inv run (st_id step) T db0 acc \<Longrightarrow> tool \<in> T \<Longrightarrow>
   evidence_inv run (st_id step) T db0 (persist_page run step tool page acc)"
  by (cases acc) (auto simp: persist_page_def create_evidence_artifact_def Let_def split_beta
      intro!: evidence_inv_store)

lemma persist_detail_inv:
  "evidence_inv run (st_id step) T db0 acc \<Longrightarrow> tool \<in> T \<Longrightarrow>
   evidence_inv run (st_id step) T db0 (persist_detail run step tool detail acc)"
  by (cases acc) (auto simp: persist_detail_def Let_def split_beta intro!: evidence_inv_store)

lemma persist_search_inv:
  assumes "evidence_inv run (st_id step) T db0 acc" and "ob_tool ob \<in> T"
  shows "evidence_inv run (st_id step) T db0 (persist_search run step ob acc)"
proof (cases acc)
  case (Pair refs db)
  then show ?thesis
    using assms by (cases "search_rows (output_of ob)")
      (auto simp: persist_search_def Let_def split_beta intro!: evidence_inv_store)
qed

lemma persist_report_inv:
  assumes "evidence_inv run (st_id step) T db0 acc" and "ob_tool ob \<in> T"
  shows "evidence_inv run (st_id step) T db0 (persist_report run step ob acc)"
proof (cases acc)
  case (Pair refs db)
  show ?thesis
  proof (cases "tool_artifact_type (ob_tool ob)")
    case None
    then show ?thesis using assms by (simp add: persist_report_def Let_def Pair)
  next
    case (Some kind)
    then show ?thesis
      using assms by (cases "skill_artifact_source_url (tool_artifact_type (ob_tool ob)) (output_of ob)")
        (auto simp: persist_report_def Let_def split_beta Pair intro!: evidence_inv_store)
  qed
qed

lemma fold_inv: "(\<And>x acc. x \<in> set xs \<Longrightarrow> P acc \<Longrightarrow> P (f x acc)) \<Longrightarrow> P acc \<Longrightarrow> P (fold f xs acc)"
  by (induction xs arbitrary: acc) auto

lemma persist_pages_inv:
  "evidence_inv run (st_id step) T db0 acc \<Longrightarrow> ob_tool ob \<in> T \<Longrightarrow>
   evidence_inv run (st_id step) T db0 (persist_pages run step ob acc)"
  unfolding persist_pages_def by (rule fold_inv) (rule persist_page_inv)

lemma persist_details_inv:
  "evidence_inv run (st_id step) T db0 acc \<Longrightarrow> ob_tool ob \<in> T \<Longrightarrow>
   evidence_inv run (st_id step) T db0 (persist_details run step ob acc)"
  unfolding persist_details_def by (rule fold_inv) (rule persist_detail_inv)

lemma persist_observed_inv:
  "evidence_inv run (st_id step) (ob_tool ` set obs) db (persist_observed_evidence run step obs db)"
proof -
  let ?P = "evidence_inv run (st_id step) (ob_tool ` set obs) db"
  have 0: "?P ([], db)" by (simp add: evidence_inv_def)
  have 1: "?P (fold (persist_pages run step) obs ([], db))"
    by (rule fold_inv [where P = ?P]) (auto intro: persist_pages_inv 0)
  have 2: "?P (fold (persist_search run step) obs (fold (persist_pages run step) obs ([], db)))"
    by (rule fold_inv [where P = ?P]) (auto intro: persist_search_inv 1)
  have 3: "?P (fold (persist_details run step) obs (fold (persist_search run step) obs
      (fold (persist_pages run step) obs ([], db))))"
    by (rule fold_inv [where P = ?P]) (auto intro: persist_details_inv 2)
  show ?thesis
    unfolding persist_observed_evidence_def 
    by (rule fold_inv [where P = ?P]) (auto intro: persist_report_inv 3)
qed

lemma persist_observed_extends: "extends run db (snd (persist_observed_evidence run step obs db))"
  using persist_observed_inv [of run step obs db] by (simp add: evidence_inv_def)

lemma persist_observed_backed:
  "ref \<in> set (fst (persist_observed_evidence run step obs db)) \<Longrightarrow>
   backed (st_id step) (ob_tool ` set obs) (snd (persist_observed_evidence run step obs db)) ref"
  using persist_observed_inv [of run step obs db] by (simp add: evidence_inv_def)

lemma persist_seeded_extends: "extends run db (persist_seeded_public_evidence run step t db)"
proof -
  have "extends run db (fold (seed_page run step) items db)" for items
  proof (rule fold_inv [where P = "extends run db"])
    fix x acc assume "extends run db acc"
    then show "extends run db (seed_page run step x acc)"
      using extends_create_artifact extends_trans
      unfolding seed_page_def create_evidence_artifact_def by blast
  qed simp
  then have "extends run db (append_event run ty p (fold (seed_page run step) items db))" for ty p items
    using extends_append_event extends_trans by blast
  with \<open>\<And>items. extends run db (fold (seed_page run step) items db)\<close> show ?thesis
    unfolding persist_seeded_public_evidence_def Let_def by simp
qed

lemma distinct_refs_distinct:
  "distinct (map ref_identity (distinct_refs seen rs))
   \<and> set (map ref_identity (distinct_refs seen rs)) \<inter> set seen = {}"
  by (induction seen rs rule: distinct_refs.induct) auto

subsection \<open>Properties\<close>


end
