(* ===== verification/Budgets.thy ===== *)
theory Budgets
  imports Prelude
begin

section \<open>The budgets of a run\<close>

text \<open>
  The three hard ceilings one run shares among its roles, in
  \<open>backend/app/services/agent_runtime/\<close>: \<open>turn_budget.py\<close> (model decisions),
  \<open>tool_budget.py\<close> (tool calls; its lock makes a call atomic, as a step of the model is) and
  \<open>model_budget.py\<close> (provider requests and tokens). The interface the rest of the runtime
  relies on is the locale \<open>call_meter\<close>: a granted call is counted and never passes the limit.
\<close>

subsection \<open>The interface: a meter of calls\<close>

text \<open>Making a list of calls, counting the granted ones.\<close>

primrec grants :: "('a \<Rightarrow> 'b \<Rightarrow> bool \<times> 'b) \<Rightarrow> 'a list \<Rightarrow> 'b \<Rightarrow> nat \<times> 'b" where
  "grants consume [] b = (0, b)"
| "grants consume (a # as) b =
     (let (ok, b1) = consume a b; (n, b2) = grants consume as b1
      in (if ok then Suc n else n, b2))"

lemma grants_append:
  "grants consume (as @ bs) b =
     (fst (grants consume as b) + fst (grants consume bs (snd (grants consume as b))),
      snd (grants consume bs (snd (grants consume as b))))"
  by (induction as arbitrary: b) (simp_all add: split_beta Let_def)

locale call_meter =
  fixes consume :: "'a \<Rightarrow> 'b \<Rightarrow> bool \<times> 'b"
    and used :: "'b \<Rightarrow> int"
    and limit :: "'b \<Rightarrow> int"
  assumes granted_room: "fst (consume a b) \<Longrightarrow> used b < limit b"
    and granted_used: "fst (consume a b) \<Longrightarrow> used (snd (consume a b)) = used b + 1"
    and refused_used: "\<not> fst (consume a b) \<Longrightarrow> used (snd (consume a b)) = used b"
    and limit_same: "limit (snd (consume a b)) = limit b"
begin

lemma grants_limit: "limit (snd (grants consume as b)) = limit b"
  by (induction as arbitrary: b) (simp_all add: split_beta limit_same)

lemma grants_used: "used (snd (grants consume as b)) = used b + int (fst (grants consume as b))"
proof (induction as arbitrary: b)
  case Nil
  then show ?case by simp
next
  case (Cons a as)
  then show ?case
    using granted_used [of a b] refused_used [of a b] by (simp add: split_beta)
qed

lemma grants_within: "used b \<le> limit b \<Longrightarrow> used (snd (grants consume as b)) \<le> limit b"
proof (induction as arbitrary: b)
  case Nil
  then show ?case by simp
next
  case (Cons a as)
  have "used (snd (consume a b)) \<le> limit (snd (consume a b))"
    using Cons.prems granted_room [of a b] granted_used [of a b] refused_used [of a b]
    by (cases "fst (consume a b)") (auto simp: limit_same)
  then show ?case using Cons.IH [of "snd (consume a b)"] by (simp add: split_beta limit_same)
qed

lemma grants_bounded:
  assumes "used b \<le> limit b"
  shows "int (fst (grants consume as b)) \<le> limit b - used b"
  using grants_used [of as b] grants_within [OF assms, of as] by simp

lemma grants_none: "limit b \<le> used b \<Longrightarrow> fst (grants consume as b) = 0"
proof (induction as arbitrary: b)
  case Nil
  then show ?case by simp
next
  case (Cons a as)
  then have "\<not> fst (consume a b)" using granted_room [of a b] by auto
  then show ?case using Cons by (simp add: split_beta refused_used limit_same)
qed

end

locale exact_meter = call_meter +
  assumes refused_full: "\<not> fst (consume a b) \<Longrightarrow> limit b \<le> used b"
begin

lemma grants_exact: "fst (grants consume as b) = min (length as) (nat (limit b - used b))"
proof (induction as arbitrary: b)
  case Nil
  then show ?case by simp
next
  case (Cons a as)
  show ?case
  proof (cases "fst (consume a b)")
    case True
    then show ?thesis
      using Cons.IH [of "snd (consume a b)"] granted_room [of a b] granted_used [of a b]
      by (simp add: split_beta limit_same)
  next
    case False
    then show ?thesis
      using Cons.IH [of "snd (consume a b)"] refused_full [of a b] refused_used [of a b]
      by (simp add: split_beta limit_same)
  qed
qed

end

subsection \<open>Turn budget\<close>

record turn_budget =
  tb_maximum :: int
  tb_used :: int

definition make_turn_budget :: "int \<Rightarrow> int \<Rightarrow> turn_budget option" where
  "make_turn_budget maximum u =
     (if maximum < 1 then None else Some \<lparr>tb_maximum = maximum, tb_used = u\<rparr>)"

definition turn_remaining :: "turn_budget \<Rightarrow> int" where
  "turn_remaining b = tb_maximum b - tb_used b"

definition turn_try_consume :: "turn_budget \<Rightarrow> bool \<times> turn_budget" where
  "turn_try_consume b =
     (if tb_maximum b \<le> tb_used b then (False, b) else (True, b\<lparr>tb_used := tb_used b + 1\<rparr>))"

interpretation turns: exact_meter "\<lambda>_::unit. turn_try_consume" tb_used tb_maximum
  by unfold_locales (auto simp: turn_try_consume_def split: if_splits)

subsection \<open>Tool budget\<close>

record tool_budget =
  tl_maximum :: int
  tl_used :: int

definition make_tool_budget :: "int \<Rightarrow> int \<Rightarrow> tool_budget option" where
  "make_tool_budget maximum u =
     (if maximum < 1 then None else Some \<lparr>tl_maximum = maximum, tl_used = u\<rparr>)"

definition tool_remaining :: "tool_budget \<Rightarrow> int" where
  "tool_remaining b = tl_maximum b - tl_used b"

text \<open>\<open>None\<close> is the \<open>ValueError\<close> of a negative reserve.\<close>

definition tool_try_consume :: "int \<Rightarrow> tool_budget \<Rightarrow> (bool \<times> tool_budget) option" where
  "tool_try_consume reserve b =
     (if reserve < 0 then None
      else if tl_maximum b - reserve \<le> tl_used b then Some (False, b)
      else Some (True, b\<lparr>tl_used := tl_used b + 1\<rparr>))"

text \<open>The call with the default \<open>reserve=0\<close>, which never raises.\<close>

definition tool_consume :: "tool_budget \<Rightarrow> bool \<times> tool_budget" where
  "tool_consume b = the (tool_try_consume 0 b)"

lemma tool_consume_eq: "tool_try_consume 0 b = Some (tool_consume b)"
  by (simp add: tool_consume_def tool_try_consume_def)

interpretation tools: exact_meter "\<lambda>_::unit. tool_consume" tl_used tl_maximum
  by unfold_locales (auto simp: tool_consume_def tool_try_consume_def split: if_splits)

lemma tool_reserve_kept:
  "tool_try_consume r b = Some (True, b') \<Longrightarrow> r \<le> tool_remaining b'"
  by (auto simp: tool_try_consume_def tool_remaining_def split: if_splits)

subsection \<open>Model budget\<close>

record model_budget =
  mb_max_requests :: int
  mb_max_input :: int
  mb_max_output :: int
  mb_requests :: int
  mb_failed :: int
  mb_input :: int
  mb_output :: int
  mb_reserved :: int
  mb_active :: int

definition make_model_budget :: "int \<Rightarrow> int \<Rightarrow> int \<Rightarrow> int \<Rightarrow> int \<Rightarrow> int \<Rightarrow> model_budget option" where
  "make_model_budget max_requests max_input max_output requests input_used output_used =
     (if min max_requests (min max_input max_output) < 1 then None
      else Some \<lparr>mb_max_requests = max_requests, mb_max_input = max_input,
        mb_max_output = max_output, mb_requests = requests, mb_failed = 0,
        mb_input = input_used, mb_output = output_used, mb_reserved = 0, mb_active = 0\<rparr>)"

definition remaining_requests :: "model_budget \<Rightarrow> int" where
  "remaining_requests b = mb_max_requests b - mb_requests b"

definition remaining_input_tokens :: "model_budget \<Rightarrow> int" where
  "remaining_input_tokens b = mb_max_input b - mb_input b - mb_reserved b"

definition remaining_output_tokens :: "model_budget \<Rightarrow> int" where
  "remaining_output_tokens b = mb_max_output b - mb_output b"

definition within_limits :: "model_budget \<Rightarrow> bool" where
  "within_limits b \<longleftrightarrow> mb_requests b \<le> mb_max_requests b \<and> mb_input b \<le> mb_max_input b
     \<and> mb_output b \<le> mb_max_output b"

definition try_reserve :: "int \<Rightarrow> model_budget \<Rightarrow> bool \<times> model_budget" where
  "try_reserve estimated b =
     (let estimate = max 1 estimated in
      if mb_max_requests b \<le> mb_requests b then (False, b)
      else if mb_max_input b < mb_input b + mb_reserved b + estimate then (False, b)
      else (True, b\<lparr>mb_requests := mb_requests b + 1, mb_reserved := mb_reserved b + estimate,
              mb_active := estimate\<rparr>))"

text \<open>\<open>usage\<close> is \<open>None\<close> or the provider's metadata, whose two counts may be of any type.\<close>

definition measured :: "dict option \<Rightarrow> string \<Rightarrow> json" where
  "measured usage key = (case usage of None \<Rightarrow> JNull | Some d \<Rightarrow> dget d (lit key))"

definition model_record :: "dict option \<Rightarrow> model_budget \<Rightarrow> bool \<times> model_budget" where
  "model_record usage b =
     (let estimate = mb_active b;
          mi = measured usage ''input_tokens''; mo = measured usage ''output_tokens'';
          input_tokens = (if is_int mi \<and> 0 \<le> the_int mi then the_int mi else estimate);
          output_tokens = (if is_int mo \<and> 0 \<le> the_int mo then the_int mo else 0);
          b' = b\<lparr>mb_reserved := max 0 (mb_reserved b - estimate), mb_active := 0,
                 mb_input := mb_input b + max input_tokens estimate,
                 mb_output := mb_output b + output_tokens\<rparr>
      in (within_limits b', b'))"

definition model_cancel :: "model_budget \<Rightarrow> model_budget" where
  "model_cancel b =
     (let estimate = mb_active b in
      b\<lparr>mb_reserved := max 0 (mb_reserved b - estimate), mb_active := 0,
        mb_failed := (if estimate \<noteq> 0 then mb_failed b + 1 else mb_failed b)\<rparr>)"

text \<open>\<open>estimate_input_tokens\<close>: four characters of the compact JSON text per token.\<close>

definition estimate_input_tokens :: "str \<Rightarrow> dict \<Rightarrow> int" where
  "estimate_input_tokens instruction state =
     (let encoded = dumps_compact (JObj [(lit ''instruction'', JStr instruction),
                      (lit ''state'', JObj state)])
      in max 1 ((int (length encoded) + 3) div 4))"

text \<open>
  One provider call: reserve, then either record the usage or, when the provider raised, cancel.
  Every user of the budget makes its calls in this shape.
\<close>

datatype provider_outcome = Answered "dict option" | Raised

definition settle :: "provider_outcome \<Rightarrow> model_budget \<Rightarrow> model_budget" where
  "settle out b = (case out of Answered usage \<Rightarrow> snd (model_record usage b) | Raised \<Rightarrow> model_cancel b)"

definition provider_call :: "int \<times> provider_outcome \<Rightarrow> model_budget \<Rightarrow> bool \<times> model_budget" where
  "provider_call call b =
     (let (ok, b1) = try_reserve (fst call) b
      in if ok then (True, settle (snd call) b1) else (False, b1))"

lemma settle_frame [frame]:
  "mb_requests (settle out b) = mb_requests b"
  "mb_max_requests (settle out b) = mb_max_requests b"
  "mb_max_input (settle out b) = mb_max_input b"
  "mb_max_output (settle out b) = mb_max_output b"
  by (cases out; simp add: settle_def model_record_def model_cancel_def Let_def)+

interpretation requests: call_meter provider_call mb_requests mb_max_requests
  by unfold_locales
     (auto simp: provider_call_def try_reserve_def Let_def settle_frame split: if_splits)

text \<open>Between two provider calls nothing is reserved, so no reservation leaks.\<close>

definition settled :: "model_budget \<Rightarrow> bool" where
  "settled b \<longleftrightarrow> mb_reserved b = 0 \<and> mb_active b = 0"

lemma settled_make: "make_model_budget r i p a c d = Some b \<Longrightarrow> settled b"
  by (auto simp: make_model_budget_def settled_def split: if_splits)

lemma settled_provider_call: "settled b \<Longrightarrow> settled (snd (provider_call c b))"
  by (cases "snd c")
     (auto simp: provider_call_def try_reserve_def settle_def model_record_def model_cancel_def
        settled_def Let_def split: if_splits)

lemma provider_call_input:
  assumes "settled b" and "fst (provider_call (e, out) b)"
  shows "mb_input b + max 1 e \<le> mb_max_input b"
    and "out = Raised \<Longrightarrow> mb_input (snd (provider_call (e, out) b)) = mb_input b"
    and "out = Answered u \<Longrightarrow>
      mb_input b + max 1 e \<le> mb_input (snd (provider_call (e, out) b))"
  using assms
  by (auto simp: provider_call_def try_reserve_def settle_def model_record_def model_cancel_def
      settled_def Let_def split: if_splits)

subsection \<open>Properties\<close>

text \<open>However many turns and tool calls are asked for, the two budgets grant exactly as many as
  are left, in order, and refuse the rest.\<close>

theorem turn_and_tool_grants:
  "fst (grants (\<lambda>_. turn_try_consume) (turns :: unit list) b) = min (length turns) (nat (tb_maximum b - tb_used b))
   \<and> fst (grants (\<lambda>_. tool_consume) (calls :: unit list) c) = min (length calls) (nat (tl_maximum c - tl_used c))"
  by (simp add: turns.grants_exact tools.grants_exact)

text \<open>Every provider call that was let through counts as a request, also when the provider
  raised, and the count never passes the limit of the task.\<close>

theorem provider_requests_counted:
  "mb_requests (snd (grants provider_call calls b)) = mb_requests b + int (fst (grants provider_call calls b))
   \<and> mb_requests (snd (grants provider_call calls b)) \<le> max (mb_requests b) (mb_max_requests b)"
proof (cases "mb_requests b \<le> mb_max_requests b")
  case True
  then show ?thesis using requests.grants_used [of calls b] requests.grants_within [of b calls] by simp
next
  case False
  then show ?thesis using requests.grants_used [of calls b] requests.grants_none [of b calls] by simp
qed



end
