(* ===== verification/RecoveryPrograms.thy ===== *)
theory RecoveryPrograms
  imports Evidence Budgets
begin

section \<open>The runtime's state and the capabilities of a recovery\<close>

text \<open>
  \<open>rt\<close> is the state one pass of \<open>runtime.py\<close> threads through its calls: the store, the three
  budgets, the decision trace's turn counters, the clock, and how many answers of the outside
  world were used up. What is outside the repository (models and tools) answers as a function of
  that position, so any behaviour over time can be expressed.

  \<open>_AgentRecoveryContext\<close> gives the skill recoveries a handful of capabilities and nothing else.
  A recovery is therefore a tree of capability uses, \<open>run_recovery\<close> is the context that carries
  them out, and every bound on a recovery holds for whatever tree a skill supplies.
\<close>

record rt =
  rt_db :: store
  rt_tools :: tool_budget
  rt_turns :: turn_budget
  rt_model :: model_budget
  rt_indices :: "agent_role \<Rightarrow> int"
  rt_clock :: int
  rt_pos :: nat

text \<open>An answer of the outside world takes time.\<close>

definition world_step :: "nat \<Rightarrow> rt \<Rightarrow> rt" where
  "world_step elapsed r =
     r\<lparr>rt_pos := Suc (rt_pos r), rt_clock := rt_clock r + int elapsed,
       rt_db := (rt_db r)\<lparr>so_now := so_now (rt_db r) + int elapsed\<rparr>\<rparr>"

definition on_db :: "(store \<Rightarrow> store) \<Rightarrow> rt \<Rightarrow> rt" where
  "on_db f r = r\<lparr>rt_db := f (rt_db r)\<rparr>"

subsection \<open>The decision trace\<close>

record trace_entry =
  te_role :: agent_role
  te_decision :: dict
  te_meta :: "dict option"

definition text_option :: "json \<Rightarrow> str option" where
  "text_option v = (if is_str v then Some (the_str v) else None)"

definition int_option :: "json \<Rightarrow> int option" where
  "int_option v = (if is_int v then Some (the_int v) else None)"

definition trace_key :: "dict \<Rightarrow> string \<Rightarrow> dict \<Rightarrow> dict" where
  "trace_key meta key d = (if dhas meta (lit key) then dput (lit key) (dget meta (lit key)) d else d)"

definition trace_turn :: "str \<Rightarrow> trace_entry \<Rightarrow> rt \<Rightarrow> rt" where
  "trace_turn run e r =
     (let role = te_role e; index = rt_indices r role + 1;
          meta = (case te_meta e of None \<Rightarrow> [] | Some m \<Rightarrow> m);
          decision = trace_key meta ''internal_model_calls'' (trace_key meta ''deep_executor'' (te_decision e))
      in r\<lparr>rt_indices := (rt_indices r)(role := index),
           rt_db := create_turn \<lparr>tr_run = run, tr_role = role, tr_index = index, tr_decision = decision,
             tr_model = text_option (dget meta (lit ''model_name'')),
             tr_input = int_option (dget meta (lit ''input_tokens'')),
             tr_output = int_option (dget meta (lit ''output_tokens'')),
             tr_manifest = dget meta (lit ''context_manifest'')\<rparr> (rt_db r)\<rparr>)"

subsection \<open>What an agent does during one call\<close>

text \<open>
  The result or the code of an \<open>AgentModelGatewayError\<close>, the turns it traced, the calls it charged
  to each budget, the metadata of its tool context afterwards, and the time it took.
\<close>

record 'r agent_answer =
  aa_result :: "str + 'r"
  aa_trace :: "trace_entry list"
  aa_turn_calls :: nat
  aa_tool_calls :: nat
  aa_model_calls :: "(int \<times> provider_outcome) list"
  aa_meta :: dict
  aa_elapsed :: nat

definition charge :: "'r agent_answer \<Rightarrow> rt \<Rightarrow> rt" where
  "charge a r =
     r\<lparr>rt_turns := snd (grants (\<lambda>_. turn_try_consume) (replicate (aa_turn_calls a) ()) (rt_turns r)),
       rt_tools := snd (grants (\<lambda>_. tool_consume) (replicate (aa_tool_calls a) ()) (rt_tools r)),
       rt_model := snd (grants provider_call (aa_model_calls a) (rt_model r))\<rparr>"

definition agent_call :: "str \<Rightarrow> 'r agent_answer \<Rightarrow> rt \<Rightarrow> rt" where
  "agent_call run a r = world_step (aa_elapsed a) (charge a (fold (trace_turn run) (aa_trace a) r))"

subsection \<open>Recoveries\<close>

record tool_answer =
  ta_obs :: observation
  ta_meta :: dict
  ta_elapsed :: nat

type_synonym tool_world = "str \<Rightarrow> tool_context \<Rightarrow> dict \<Rightarrow> nat \<Rightarrow> tool_answer"

text \<open>\<open>Invoke\<close> without metadata runs the tool in a context built anew from the store;
  \<open>ReadStore\<close> stands for the read-only queries of the context.\<close>

datatype recovery =
    Done "observation list" "dict list"
  | Consume "bool \<Rightarrow> recovery"
  | Invoke str dict "dict option" "observation \<Rightarrow> recovery"
  | Persist "observation list" "string option" "dict list \<Rightarrow> recovery"
  | Emit string dict recovery
  | ReadStore "store \<Rightarrow> recovery"

record scope =
  sc_run :: str
  sc_user :: str
  sc_task :: task
  sc_row :: step_row

definition mark_refs :: "string option \<Rightarrow> dict list \<Rightarrow> dict list" where
  "mark_refs mark refs =
     (case mark of None \<Rightarrow> refs | Some m \<Rightarrow> map (dput (lit m) (JStr (lit ''true''))) refs)"

text \<open>
  The metadata a recovery passes to a tool is a shallow copy of its own, so the list of search
  hashes is one object: what a search tool appends to it shows in the original.
\<close>

definition share_hashes :: "dict \<Rightarrow> dict \<Rightarrow> dict" where
  "share_hashes inner outer =
     (if is_list (dget outer (lit ''public_search_query_hashes''))
      then dput (lit ''public_search_query_hashes'') (dget inner (lit ''public_search_query_hashes'')) outer
      else outer)"

definition recovery_tool_context :: "scope \<Rightarrow> dict option \<Rightarrow> store \<Rightarrow> tool_context" where
  "recovery_tool_context sc m db =
     (case m of
        None \<Rightarrow> run_tool_context (sc_user sc) (sc_run sc) (sc_task sc) db
      | Some meta \<Rightarrow> \<lparr>tx_user = sc_user sc, tx_run = sc_run sc, tx_meta = meta\<rparr>)"

primrec run_recovery ::
  "tool_world \<Rightarrow> scope \<Rightarrow> recovery \<Rightarrow> dict \<Rightarrow> rt \<Rightarrow> (observation list \<times> dict list) \<times> dict \<times> rt" where
  "run_recovery tool sc (Done obs refs) meta r = ((obs, refs), meta, r)"
| "run_recovery tool sc (Consume k) meta r =
     (let (ok, b) = tool_consume (rt_tools r) in run_recovery tool sc (k ok) meta (r\<lparr>rt_tools := b\<rparr>))"
| "run_recovery tool sc (Invoke name payload m k) meta r =
     (let a = tool name (recovery_tool_context sc m (rt_db r)) payload (rt_pos r);
          meta' = (case m of None \<Rightarrow> meta | Some _ \<Rightarrow> share_hashes (ta_meta a) meta)
      in run_recovery tool sc (k (ta_obs a)) meta' (world_step (ta_elapsed a) r))"
| "run_recovery tool sc (Persist obs mark k) meta r =
     (let (refs, db) = persist_observed_evidence (sc_run sc) (sc_row sc) obs (rt_db r)
      in run_recovery tool sc (k (mark_refs mark refs)) meta (r\<lparr>rt_db := db\<rparr>))"
| "run_recovery tool sc (Emit event_type payload rest) meta r =
     run_recovery tool sc rest meta (on_db (append_event (sc_run sc) event_type payload) r)"
| "run_recovery tool sc (ReadStore k) meta r = run_recovery tool sc (k (rt_db r)) meta r"

subsection \<open>What a call or a recovery may change\<close>

text \<open>The ceilings stay, and what was within them stays within them.\<close>

definition budgets_kept :: "rt \<Rightarrow> rt \<Rightarrow> bool" where
  "budgets_kept r r' \<longleftrightarrow>
     tl_maximum (rt_tools r') = tl_maximum (rt_tools r)
     \<and> (tl_used (rt_tools r) \<le> tl_maximum (rt_tools r) \<longrightarrow> tl_used (rt_tools r') \<le> tl_maximum (rt_tools r'))
     \<and> tb_maximum (rt_turns r') = tb_maximum (rt_turns r)
     \<and> (tb_used (rt_turns r) \<le> tb_maximum (rt_turns r) \<longrightarrow> tb_used (rt_turns r') \<le> tb_maximum (rt_turns r'))
     \<and> mb_max_requests (rt_model r') = mb_max_requests (rt_model r)
     \<and> (mb_requests (rt_model r) \<le> mb_max_requests (rt_model r) \<longrightarrow>
          mb_requests (rt_model r') \<le> mb_max_requests (rt_model r'))"

lemma budgets_kept_refl [simp, intro]: "budgets_kept r r"
  by (simp add: budgets_kept_def)

lemma budgets_kept_trans [trans]: "budgets_kept a b \<Longrightarrow> budgets_kept b c \<Longrightarrow> budgets_kept a c"
  unfolding budgets_kept_def by (elim conjE, intro conjI) auto

lemma budgets_kept_same:
  "rt_tools r' = rt_tools r \<Longrightarrow> rt_turns r' = rt_turns r \<Longrightarrow> rt_model r' = rt_model r \<Longrightarrow> budgets_kept r r'"
  by (simp add: budgets_kept_def)

text \<open>As \<open>extends\<close>, but an agent's call may also record turns of the run.\<close>

definition grows :: "str \<Rightarrow> rt \<Rightarrow> rt \<Rightarrow> bool" where
  "grows run r r' \<longleftrightarrow>
     so_runs (rt_db r') = so_runs (rt_db r) \<and> so_plans (rt_db r') = so_plans (rt_db r)
     \<and> so_steps (rt_db r') = so_steps (rt_db r)
     \<and> appended (\<lambda>e. ev_run e = run) (so_events (rt_db r)) (so_events (rt_db r'))
     \<and> appended (\<lambda>a. ar_run a = run) (so_artifacts (rt_db r)) (so_artifacts (rt_db r'))
     \<and> appended (\<lambda>t. tr_run t = run) (so_turns (rt_db r)) (so_turns (rt_db r'))
     \<and> (\<forall>q. log_ok (rt_db r) q \<longrightarrow> log_ok (rt_db r') q)
     \<and> (artifacts_ok (rt_db r) \<longrightarrow> artifacts_ok (rt_db r'))
     \<and> (ids_ok (rt_db r) \<longrightarrow> ids_ok (rt_db r'))
     \<and> budgets_kept r r'
     \<and> rt_clock r \<le> rt_clock r'"

lemma grows_refl [simp, intro]: "grows run r r"
  by (simp add: grows_def)

lemma grows_trans [trans]: "grows run a b \<Longrightarrow> grows run b c \<Longrightarrow> grows run a c"
  unfolding grows_def
  by (elim conjE, intro conjI) (simp_all, ((erule (1) appended_trans) | (erule (1) budgets_kept_trans))+)

lemma log_ok_now [simp]: "log_ok (db\<lparr>so_now := t\<rparr>) q = log_ok db q"
  by (rule log_ok_frame) simp

lemma ids_ok_now [simp]: "ids_ok (db\<lparr>so_now := t\<rparr>) = ids_ok db"
  by (rule ids_ok_cong) simp_all

lemma ids_ok_create_turn [simp]: "ids_ok (create_turn t db) = ids_ok db"
  by (rule ids_ok_cong) (simp_all add: create_turn_def)

lemma grows_world_step [intro]: "grows run r (world_step n r)"
  by (simp add: grows_def world_step_def artifacts_ok_def budgets_kept_same)

lemma grows_extends:
  assumes "extends run (rt_db r) db" shows "grows run r (r\<lparr>rt_db := db\<rparr>)"
  using assms by (simp add: grows_def extends_def budgets_kept_same)

lemma grows_append_event [intro]: "grows run r (on_db (append_event run t p) r)"
  unfolding on_db_def by (rule grows_extends) (rule extends_append_event)

lemma grows_tool_consume [intro]: "grows run r (r\<lparr>rt_tools := snd (tool_consume (rt_tools r))\<rparr>)"
  by (auto simp: grows_def budgets_kept_def tool_consume_def tool_try_consume_def)

lemma grows_trace_turn [intro]: "grows run r (trace_turn run e r)"
proof -
  have "log_ok (create_turn t (rt_db r)) q = log_ok (rt_db r) q" for t q
    by (rule log_ok_frame) simp
  then show ?thesis
    by (simp add: grows_def trace_turn_def Let_def artifacts_ok_def budgets_kept_same) (simp add: create_turn_def)
qed

lemma grows_fold: "(\<And>x a. grows run a (f x a)) \<Longrightarrow> grows run r (fold f xs r)"
  by (induction xs arbitrary: r) (auto intro: grows_trans)

lemma grows_charge [intro]: "grows run r (charge a r)"
  using turns.grants_within turns.grants_limit tools.grants_within tools.grants_limit
    requests.grants_within requests.grants_limit
  by (simp add: grows_def charge_def budgets_kept_def)

lemma grows_agent_call [intro]: "grows run r (agent_call run a r)"
proof -
  have "grows run r (fold (trace_turn run) (aa_trace a) r)" by (rule grows_fold) (rule grows_trace_turn)
  also have "grows run \<dots> (charge a \<dots>)" by (rule grows_charge)
  also have "grows run \<dots> (world_step (aa_elapsed a) \<dots>)" by (rule grows_world_step)
  finally show ?thesis by (simp add: agent_call_def)
qed

theorem grows_recovery: "grows (sc_run sc) r (snd (snd (run_recovery tool sc p meta r)))"
proof (induction p arbitrary: meta r)
  case (Consume k)
  then show ?case
    using grows_tool_consume [of "sc_run sc" r] by (auto simp: split_beta intro: grows_trans)
next
  case (Invoke name payload m k)
  have "grows (sc_run sc) (world_step n r) (snd (snd (run_recovery tool sc (k ob) m' (world_step n r))))" for n ob m'
    by (rule Invoke.IH) simp
  then show ?case
    using grows_world_step [of "sc_run sc" r] grows_trans by (simp add: Let_def) blast
next
  case (Persist obs mark k)
  then show ?case
    using grows_extends [OF persist_observed_extends, of "sc_run sc" r "sc_row sc" obs]
    by (auto simp: split_beta intro: grows_trans)
next
  case (Emit t p rest)
  then show ?case
    using grows_append_event [of "sc_run sc" r t p] by (auto intro: grows_trans)
qed simp_all

end
