(* ===== verification/RunStep.thy ===== *)
theory RunStep
  imports RecoveryPrograms
begin

section \<open>One planned step: execute, recover, verify\<close>

text \<open>
  \<open>_run_step\<close> of \<open>runtime.py\<close> and the helpers that close a step. One turn of its loop is
  \<open>attempt\<close>: the Executor answers, what it observed is stored, the skill recoveries may add to it
  (\<open>gather\<close>), and then the code decides. The decision reads the store and never writes it, so it
  is a function to a \<open>step_action\<close> (\<open>executor_phase\<close> up to the verification, \<open>verifier_phase\<close>
  after it), and \<open>perform\<close> carries the action out with the events the branch logs first. A
  missing run row (\<open>RuntimeError\<close> in \<open>_wait_for_user\<close> and \<open>_fail_run\<close>, which the foreign
  key excludes) is not modelled: updating it changes nothing here.
\<close>

subsection \<open>The environment\<close>

text \<open>
  The registry, the skills' recoveries and what lies outside: the Executor (whose package is not
  in the repository; \<open>en_max_stalls\<close> is a constant of it), the tools, and the Planner, as the
  runtime calls it.
\<close>

record env =
  en_skills :: skill_registry
  en_version :: str
  en_planner :: "task \<Rightarrow> tool_context \<Rightarrow> nat \<Rightarrow> planner_result agent_answer"
  en_fallback :: "task \<Rightarrow> execution_plan option"
  en_executor :: "task \<Rightarrow> execution_plan \<Rightarrow> plan_step \<Rightarrow> tool_context \<Rightarrow> observation list \<Rightarrow> nat
    \<Rightarrow> executor_result agent_answer"
  en_tool :: tool_world
  en_recover :: "task \<Rightarrow> plan_step \<Rightarrow> dict \<Rightarrow> observation list \<Rightarrow> dict list \<Rightarrow> recovery"
  en_extract :: "plan_step \<Rightarrow> dict list \<Rightarrow> recovery"
  en_matching :: "task \<Rightarrow> dict list \<Rightarrow> recovery"
  en_tailoring :: "task \<Rightarrow> dict list \<Rightarrow> recovery"
  en_max_stalls :: int

record run_result =
  re_run :: str
  re_status :: run_status
  re_summary :: "str option"
  re_error :: "str option"
  re_reason :: "replan_reason option"

record step_scope = scope +
  sc_plan :: execution_plan
  sc_step :: plan_step
  sc_deadline :: int
  sc_replans :: int
  sc_seeded :: "dict list"

text \<open>The local variables of the loop.\<close>

record loop_state =
  lp_task :: task
  lp_context :: tool_context
  lp_retries :: int
  lp_prior_obs :: "observation list"
  lp_prior_refs :: "dict list"
  lp_last :: "str option"
  lp_extracted :: bool
  lp_discovered :: bool

definition terminal_negative_code :: str where
  "terminal_negative_code = lit ''terminal_negative_discovery_complete''"

definition replan_required :: str where
  "replan_required = lit ''replan_required''"

definition wall_clock_code :: str where
  "wall_clock_code = lit ''wall_clock_budget_exhausted''"

subsection \<open>Closing a step or the run\<close>

definition record_failed_executor_observations :: "str \<Rightarrow> step_row \<Rightarrow> observation list \<Rightarrow> store \<Rightarrow> store" where
  "record_failed_executor_observations run row obs db =
     fold (\<lambda>ob. append_event run ''executor_tool_failed''
         [(lit ''sequence'', JInt (st_sequence row)), (lit ''tool'', JStr (ob_tool ob)),
          (lit ''error_code'', opt_text (ob_error ob))])
       (filter (\<lambda>ob. ob_status ob = ObsFailed \<and> present (ob_error ob)) obs) db"

definition sequence_payload :: "step_row \<Rightarrow> dict" where
  "sequence_payload row = [(lit ''sequence'', JInt (st_sequence row))]"

definition rescue_step_succeeded ::
  "str \<Rightarrow> step_row \<Rightarrow> str option \<Rightarrow> dict list \<Rightarrow> string \<Rightarrow> string \<Rightarrow> store \<Rightarrow> run_result \<times> store" where
  "rescue_step_succeeded run row summary refs event_type reason db =
     (\<lparr>re_run = run, re_status = Running, re_summary = summary, re_error = None, re_reason = None\<rparr>,
      append_event run event_type (sequence_payload row @ [(lit ''reason'', JStr (lit reason))])
        (append_event run ''step_succeeded'' (sequence_payload row)
          (finish_step (st_id row) StepSucceeded (Some refs) None db)))"

definition request_replan ::
  "str \<Rightarrow> step_row \<Rightarrow> str option \<Rightarrow> str \<Rightarrow> dict list \<Rightarrow> replan_reason \<Rightarrow> store \<Rightarrow> run_result \<times> store" where
  "request_replan run row feedback summary refs reason db =
     (\<lparr>re_run = run, re_status = Running, re_summary = Some summary,
       re_error = Some replan_required, re_reason = Some reason\<rparr>,
      append_event run ''verification_replan''
        (sequence_payload row @ [(lit ''feedback'', opt_text feedback),
           (lit ''reason'', JStr (reason_value reason))])
        (finish_step (st_id row) StepSkipped (Some refs) (Some replan_required) db))"

text \<open>\<open>{"question": question, **payload}\<close>\<close>

definition pause_payload :: "str option \<Rightarrow> terminal_contract \<Rightarrow> dict" where
  "pause_payload question c = dmerge [(lit ''question'', opt_text question)] (as_payload c)"

definition wait_for_user ::
  "str \<Rightarrow> step_row \<Rightarrow> str option \<Rightarrow> dict list option \<Rightarrow> str option \<Rightarrow> terminal_contract option \<Rightarrow> store
    \<Rightarrow> run_result \<times> store" where
  "wait_for_user run row question refs error contract db =
     (let code = (if present error then the error else lit ''need_user'');
          count = (case refs of None \<Rightarrow> 0 | Some rs \<Rightarrow> int (length rs));
          c = (case contract of Some c \<Rightarrow> c
               | None \<Rightarrow> build_terminal_contract error [] ''executor'' ''execution'' False count None);
          db1 = finish_step (st_id row) StepFailed refs (Some code) db;
          db2 = finish_run run WaitingUser question error db1
      in (\<lparr>re_run = run, re_status = WaitingUser, re_summary = question, re_error = error,
           re_reason = None\<rparr>,
          append_event run ''run_needs_user'' (pause_payload question c) db2))"

definition fail_run :: "str \<Rightarrow> str \<Rightarrow> store \<Rightarrow> run_result \<times> store" where
  "fail_run run code db =
     (\<lparr>re_run = run, re_status = Failed, re_summary = None, re_error = Some code, re_reason = None\<rparr>,
      append_event run ''run_failed''
        (dmerge [(lit ''error_code'', JStr code)]
          (as_payload (build_terminal_contract (Some code) [] ''runtime'' ''execution'' False 0 None)))
        (finish_run run Failed None (Some code) db))"

definition fail_step :: "str \<Rightarrow> step_row \<Rightarrow> str \<Rightarrow> dict list option \<Rightarrow> store \<Rightarrow> run_result \<times> store" where
  "fail_step run row code refs db =
     fail_run run code (finish_step (st_id row) StepFailed refs (Some code) db)"

subsection \<open>Gathering the evidence of one attempt\<close>

definition discovery_step :: "plan_step \<Rightarrow> bool" where
  "discovery_step s \<longleftrightarrow> lit ''job-discovery'' \<in> set (ps_skills s)"

definition auto_recover_discovery_evidence ::
  "env \<Rightarrow> step_scope \<Rightarrow> observation list \<Rightarrow> dict list \<Rightarrow> dict \<Rightarrow> rt
    \<Rightarrow> (observation list \<times> dict list) \<times> dict \<times> rt" where
  "auto_recover_discovery_evidence env sc obs refs meta r =
     (if \<not> discovery_step (sc_step sc) then (([], []), meta, r)
      else run_recovery (en_tool env) (scope.truncate sc)
        (en_recover env (sc_task sc) (sc_step sc) meta obs refs) meta r)"

definition auto_extract_jd_details ::
  "env \<Rightarrow> step_scope \<Rightarrow> dict list \<Rightarrow> dict \<Rightarrow> rt \<Rightarrow> (observation list \<times> dict list) \<times> dict \<times> rt" where
  "auto_extract_jd_details env sc refs meta r =
     (if \<not> discovery_step (sc_step sc) then (([], []), meta, r)
      else run_recovery (en_tool env) (scope.truncate sc) (en_extract env (sc_step sc) refs) meta r)"

definition auto_build_role_deliverable ::
  "env \<Rightarrow> step_scope \<Rightarrow> dict list \<Rightarrow> dict \<Rightarrow> rt \<Rightarrow> (observation list \<times> dict list) \<times> dict \<times> rt" where
  "auto_build_role_deliverable env sc refs meta r =
     (if lit ''job-matching'' \<in> set (ps_skills (sc_step sc)) then
        run_recovery (en_tool env) (scope.truncate sc) (en_matching env (sc_task sc) refs) meta r
      else if lit ''resume-tailoring'' \<in> set (ps_skills (sc_step sc)) then
        run_recovery (en_tool env) (scope.truncate sc) (en_tailoring env (sc_task sc) refs) meta r
      else (([], []), meta, r))"

record gathered =
  ga_execution :: executor_result
  ga_observed :: "dict list"
  ga_auto :: "dict list"
  ga_state :: loop_state

definition gather ::
  "env \<Rightarrow> step_scope \<Rightarrow> loop_state \<Rightarrow> executor_result \<Rightarrow> dict \<Rightarrow> rt \<Rightarrow> gathered \<times> dict \<times> rt" where
  "gather env sc lp e meta r =
     (let db1 = record_failed_executor_observations (sc_run sc) (sc_row sc) (ex_obs e) (rt_db r);
          (stored, db2) = persist_observed_evidence (sc_run sc) (sc_row sc) (ex_obs e) db1;
          observed = sc_seeded sc @ stored;
          ((disc_obs, disc_refs), meta1, r1) =
            (if lp_discovered lp then (([], []), meta, r\<lparr>rt_db := db2\<rparr>)
             else auto_recover_discovery_evidence env sc (ex_obs e) observed meta (r\<lparr>rt_db := db2\<rparr>));
          discovered = (lp_discovered lp \<or> disc_obs \<noteq> [] \<or> disc_refs \<noteq> []);
          ((ext_obs, ext_refs), meta2, r2) =
            (if lp_extracted lp then (([], []), meta1, r1)
             else auto_extract_jd_details env sc (lp_prior_refs lp @ observed @ disc_refs) meta1 r1);
          extracted = (lp_extracted lp \<or> ext_obs \<noteq> [] \<or> ext_refs \<noteq> []);
          ((del_obs, del_refs), meta3, r3) = auto_build_role_deliverable env sc
             (lp_prior_refs lp @ observed @ disc_refs @ ext_refs) meta2 r2;
          auto_obs = disc_obs @ ext_obs @ del_obs; auto_refs = disc_refs @ ext_refs @ del_refs;
          all_observed = observed @ auto_refs;
          e' = e\<lparr>ex_obs := lp_prior_obs lp @ ex_obs e @ auto_obs,
                 ex_refs := lp_prior_refs lp @ all_observed\<rparr>
      in (\<lparr>ga_execution = e', ga_observed = all_observed, ga_auto = auto_refs,
           ga_state = lp\<lparr>lp_discovered := discovered, lp_extracted := extracted\<rparr>\<rparr>, meta3, r3))"

subsection \<open>Actions\<close>

datatype step_action =
    Rescue string string "dict list" "str option"
  | NegativeDone str "dict list"
  | Replan "str option" str "dict list" replan_reason
  | Wait "str option" "dict list option" "str option" "terminal_contract option"
  | FailStep str "dict list option"
  | Complete bool "dict list" "str option"
  | Retry

type_synonym logged_events = "(string \<times> dict) list"

definition contract_met :: "env \<Rightarrow> step_scope \<Rightarrow> executor_result \<Rightarrow> bool" where
  "contract_met env sc e = runtime_contract_met (en_skills env) (sc_step sc) (ex_obs e) (ex_refs e)"

definition evidence_blocked :: "env \<Rightarrow> step_scope \<Rightarrow> executor_result \<Rightarrow> bool" where
  "evidence_blocked env sc e = runtime_blocked (en_skills env) (sc_step sc) (ex_obs e) (ex_refs e)"

definition deliverable_ready :: "env \<Rightarrow> step_scope \<Rightarrow> executor_result \<Rightarrow> bool" where
  "deliverable_ready env sc e \<longleftrightarrow> contract_met env sc e \<and> \<not> evidence_blocked env sc e"

definition routing_done :: "step_scope \<Rightarrow> executor_result \<Rightarrow> bool" where
  "routing_done sc e = intermediate_routing_contract_met (sc_plan sc) (sc_step sc) (ex_refs e)"

definition sc_max_replans :: "step_scope \<Rightarrow> int" where
  "sc_max_replans sc = ab_replans (tk_budget (sc_task sc))"

definition may_convert :: "step_scope \<Rightarrow> replan_reason \<Rightarrow> bool" where
  "may_convert sc reason \<longleftrightarrow>
     sc_replans sc < sc_max_replans sc \<and> \<not> conversion_used (tk_replan (sc_task sc)) reason"

definition retry_marker :: str where
  "retry_marker = lit ''<retry_replan>''"

definition needs_user_marker :: str where
  "needs_user_marker = lit ''<needs_user_replan>''"

text \<open>A recovery may have finished what a failed execution did not.\<close>

definition recovered_execution :: "env \<Rightarrow> step_scope \<Rightarrow> gathered \<Rightarrow> executor_result" where
  "recovered_execution env sc g =
     (let e = ga_execution g in
      if ex_status e = ExecFailed \<and> ga_auto g \<noteq> [] \<and> deliverable_ready env sc e
      then e\<lparr>ex_status := ExecSucceeded, ex_error := None,
             ex_summary := Some (if present (ex_summary e) then the (ex_summary e) else recovered_summary_msg)\<rparr>
      else e)"

definition failed_with :: "string list \<Rightarrow> executor_result \<Rightarrow> bool" where
  "failed_with codes e \<longleftrightarrow>
     (\<exists>ob \<in> set (ex_obs e). ob_status ob = ObsFailed \<and> json_in (opt_text (ob_error ob)) codes)"

text \<open>The branch \<open>execution.status == "needs_user"\<close>.\<close>

definition needs_user_action :: "env \<Rightarrow> step_scope \<Rightarrow> gathered \<Rightarrow> executor_result \<Rightarrow> step_action" where
  "needs_user_action env sc g e =
     (if routing_done sc e then
        Rescue ''executor_rescue_succeeded'' ''intermediate_routing_contract_met'' (ex_refs e) (ex_summary e)
      else if (\<exists>ob \<in> set (ex_obs e). ob_error ob = Some (lit ''target_role_mismatch''))
              \<and> sc_replans sc < sc_max_replans sc then
        Replan (Some role_feedback_msg) role_summary_msg (ex_refs e) DependencyUnavailable
      else if deliverable_ready env sc e then
        Rescue ''executor_rescue_succeeded'' ''needs_user_deliverable_persisted'' (ex_refs e) (ex_summary e)
      else if ex_error e = Some (lit ''deep_executor_invalid_response'') \<and> \<not> evidence_blocked env sc e
              \<and> may_convert sc RetryContractExhausted then
        Replan (Some unparsed_feedback_msg) (unparsed_summary_msg @ retry_marker) (ex_refs e)
          RetryContractExhausted
      else Wait (ex_question e) (Some (ga_observed g)) None
        (Some (build_terminal_contract None (ex_obs e) ''executor'' ''execution'' False
          (int (length (ga_observed g))) None)))"

text \<open>The branch of a step that needs no verification.\<close>

definition unverified_action :: "env \<Rightarrow> step_scope \<Rightarrow> gathered \<Rightarrow> executor_result \<Rightarrow> step_action" where
  "unverified_action env sc g e =
     (if completion_gate_rejected (en_skills env) (sc_step sc) (ex_obs e) (ex_summary e) (ex_refs e) then
        (if \<not> evidence_blocked env sc e \<and> may_convert sc RetryContractExhausted then
           Replan (Some rejected_feedback_msg) (rejected_summary_msg @ retry_marker) (ex_refs e)
             RetryContractExhausted
         else Wait (Some unverifiable_msg) (Some (ga_observed g)) None None)
      else Complete False (ex_refs e) (ex_summary e))"

text \<open>Everything before the verification; \<open>None\<close> when the step goes on to it.\<close>

definition executor_phase :: "env \<Rightarrow> step_scope \<Rightarrow> gathered \<Rightarrow> step_action option" where
  "executor_phase env sc g =
     (let e0 = ga_execution g; e = recovered_execution env sc g in
      if is_complete_official_negative_discovery (sc_task sc) (sc_plan sc) (sc_step sc) e0
         \<and> \<not> evidence_blocked env sc e0 then
        Some (NegativeDone (official_negative_discovery_summary (sc_task sc) e0) (ex_refs e0))
      else if failed_with [''tool_skill_forbidden''] e then
        Some (Replan (Some scope_feedback_msg) scope_summary_msg (ex_refs e) ToolScopeConflict)
      else if ex_status e = ExecNeedsUser then Some (needs_user_action env sc g e)
      else if ex_error e = Some wall_clock_code then
        (if routing_done sc e then
           Some (Rescue ''executor_rescue_succeeded'' ''wall_clock_intermediate_routing_contract_met''
             (ga_observed g) (ex_summary e))
         else Some (Wait (Some exec_wall_msg) (Some (ga_observed g)) (Some wall_clock_code) None))
      else if ex_status e = ExecFailed \<and> ex_error e = Some (lit ''deep_executor_invalid_response'')
              \<and> deliverable_ready env sc e then
        Some (Rescue ''executor_rescue_succeeded'' ''invalid_terminal_deliverable_persisted''
          (ga_observed g) (ex_summary e))
      else if ex_status e = ExecSucceeded \<and> routing_done sc e then
        Some (Rescue ''executor_rescue_succeeded'' ''intermediate_routing_contract_met''
          (ga_observed g) (ex_summary e))
      else if ex_status e \<noteq> ExecSucceeded then
        Some (FailStep (if present (ex_error e) then the (ex_error e) else lit ''executor_failed'')
          (Some (ga_observed g)))
      else if \<not> requires_verification (en_skills env) (sc_step sc) (ep_complexity (sc_plan sc)) then
        Some (unverified_action env sc g e)
      else None)"

subsection \<open>Verification\<close>

text \<open>\<open>{(artifact_id, content_hash): ref}.values()\<close>: a later ref replaces an earlier one in place.\<close>

fun put_ref :: "dict \<Rightarrow> dict list \<Rightarrow> dict list" where
  "put_ref r [] = [r]"
| "put_ref r (q # qs) = (if ref_identity q = ref_identity r then r # qs else q # put_ref r qs)"

definition merge_refs :: "dict list \<Rightarrow> dict list" where
  "merge_refs refs = fold put_ref refs []"

definition external_runtime_names :: "string list" where
  "external_runtime_names = [''anti_bot'', ''anti_bot_challenge'', ''captcha'', ''login_required'',
     ''access_denied'', ''domain_temporarily_blocked'', ''adapter:empty_result'',
     ''adapter:adapter_invalid'', ''adapter:adapter_error'']"

definition is_external_runtime_code :: "json \<Rightarrow> bool" where
  "is_external_runtime_code v \<longleftrightarrow>
     is_str v \<and> (json_in v external_runtime_names \<or> starts_with (the_str v) http_prefix)"

definition run_has_external_fetch_block :: "store \<Rightarrow> str \<Rightarrow> bool" where
  "run_has_external_fetch_block db run \<longleftrightarrow>
     (\<exists>e \<in> set (events_of db run). is_external_runtime_code (dget (ev_payload e) (lit ''error_code'')))"

definition pass_action ::
  "env \<Rightarrow> step_scope \<Rightarrow> executor_result \<Rightarrow> store \<Rightarrow> logged_events \<times> step_action" where
  "pass_action env sc e db =
     (let d = completion_evidence_diagnostics (en_skills env) (sc_step sc) (ex_obs e) (ex_summary e)
                (ex_refs e);
          durable = step_seeded_artifact_refs db (sc_run sc) (st_id (sc_row sc));
          merged = merge_refs (ex_refs e @ durable)
      in if dg_passed d then ([], Complete True (ex_refs e) (ex_summary e))
         else if durable \<noteq> [] \<and> completion_evidence_gate (en_skills env) (sc_step sc) (ex_obs e)
                   (ex_summary e) merged then
           ([], Rescue ''runtime_durable_contract_rescue'' ''persisted_evidence_contract_met'' merged
              (ex_summary e))
         else ([(''verification_pass_rejected_by_contract'',
                 sequence_payload (sc_row sc) @
                 [(lit ''reason'', JStr (lit ''deterministic_contract_not_satisfied'')),
                  (lit ''evidence_diagnostics'', JObj (diagnostics_json d))])],
               Wait (Some pass_rejected_msg) (Some (ex_refs e)) None
                 (Some (build_terminal_contract
                    (Some (if run_has_external_fetch_block db (sc_run sc)
                           then lit ''domain_temporarily_blocked'' else lit ''verification_failed''))
                    (ex_obs e) ''runtime'' ''verification'' (dg_met d) (int (length (ex_refs e)))
                    (Some (diagnostics_json d))))))"

definition verifier_contract :: "str option \<Rightarrow> observation list \<Rightarrow> executor_result \<Rightarrow> terminal_contract option" where
  "verifier_contract code obs e =
     Some (build_terminal_contract code obs ''verifier'' ''verification'' False
       (int (length (ex_refs e))) None)"

definition retry_action ::
  "env \<Rightarrow> step_scope \<Rightarrow> loop_state \<Rightarrow> executor_result \<Rightarrow> str \<Rightarrow> logged_events \<times> step_action" where
  "retry_action env sc lp e feedback =
     (let feedback_payload = sequence_payload (sc_row sc) @ [(lit ''feedback'', JStr feedback)];
          logged = [(''verification_retry_executor'', feedback_payload)];
          refs = Some (ex_refs e)
      in if lp_last lp = Some (execution_progress_fingerprint e) then
           ([], Wait (Some (no_progress_head_msg
                @ (if feedback \<noteq> [] then feedback_open_msg @ feedback @ full_stop_msg else [])
                @ no_progress_tail_msg)) refs (Some (lit ''no_progress_duplicate''))
              (verifier_contract (Some (lit ''no_progress_duplicate'')) [] e))
         else if evidence_blocked env sc e \<and> \<not> contract_met env sc e then
           (logged @ [(''verification_retry_downgraded'', sequence_payload (sc_row sc)
               @ [(lit ''reason'', JStr (lit ''blocked_evidence'')), (lit ''feedback'', JStr feedback)])],
            Wait (Some (downgrade_head_msg @ feedback @ downgrade_tail_msg)) refs None
              (verifier_contract None (ex_obs e) e))
         else if failed_with [''tool_skill_forbidden'', ''unknown_tool''] e then
           (logged, Replan (Some feedback) feedback (ex_refs e) ToolScopeConflict)
         else if lp_retries lp + 1 \<le> sc_max_replans sc then (logged, Retry)
         else if deliverable_ready env sc e \<and> may_convert sc RetryContractExhausted then
           (logged, Replan (Some feedback) (feedback @ lit '' '' @ retry_marker) (ex_refs e)
              RetryContractExhausted)
         else (logged, Wait (Some (retries_head_msg @ feedback @ retries_tail_msg)) refs None None))"

definition verified_need_user_action ::
  "env \<Rightarrow> step_scope \<Rightarrow> executor_result \<Rightarrow> str \<Rightarrow> step_action" where
  "verified_need_user_action env sc e feedback =
     (if routing_done sc e then
        Rescue ''verifier_rescue_succeeded'' ''intermediate_routing_contract_met'' (ex_refs e) (ex_summary e)
      else if deliverable_ready env sc e \<and> may_convert sc NeedUserContract then
        Replan (Some feedback) (feedback @ lit '' '' @ needs_user_marker) (ex_refs e) NeedUserContract
      else if deliverable_ready env sc e
              \<and> is_verified_zero_match_discovery (sc_task sc) (sc_step sc) e then
        Rescue ''verifier_rescue_succeeded'' ''verified_negative_discovery_contract_met'' (ex_refs e)
          (ex_summary e)
      else Wait (Some feedback) (Some (ex_refs e)) None (verifier_contract None (ex_obs e) e))"

definition verify :: "env \<Rightarrow> step_scope \<Rightarrow> executor_result \<Rightarrow> rt \<Rightarrow> gate_verdict" where
  "verify env sc e r =
     evaluate_completion_gate (en_skills env) (sc_step sc) (ex_obs e)
       (merge_refs (ex_refs e @ step_seeded_artifact_refs (rt_db r) (sc_run sc) (st_id (sc_row sc))))
       (ex_summary e) (Some (sc_deadline sc)) (rt_clock r)"

definition verifier_phase ::
  "env \<Rightarrow> step_scope \<Rightarrow> loop_state \<Rightarrow> executor_result \<Rightarrow> rt \<Rightarrow> logged_events \<times> step_action" where
  "verifier_phase env sc lp e r =
     (let v = verify env sc e r; feedback = gv_feedback v in
      if gv_error v = Some wall_clock_code then
        (if deliverable_ready env sc e then
           ([], Rescue ''verifier_rescue_succeeded'' ''wall_clock_budget_contract_met'' (ex_refs e)
              (ex_summary e))
         else ([], Wait (Some verify_wall_msg) (Some (ex_refs e)) (Some wall_clock_code) None))
      else if present (gv_error v) then ([], FailStep (the (gv_error v)) (Some (ex_refs e)))
      else case gv_decision v of
          PASS \<Rightarrow> pass_action env sc e (rt_db r)
        | RETRY_EXECUTOR \<Rightarrow> retry_action env sc lp e feedback
        | NEED_USER \<Rightarrow> ([], verified_need_user_action env sc e feedback)
        | FAIL \<Rightarrow>
            ([], Wait (Some (fail_head_msg @ (if feedback \<noteq> [] then feedback else fail_default_msg)))
               (Some (ex_refs e)) (Some (lit ''verification_failed''))
               (verifier_contract (Some (lit ''verification_failed'')) [] e))
        | REPLAN \<Rightarrow> ([], Replan (Some feedback) feedback (ex_refs e) VerifierReplan))"

definition decide ::
  "env \<Rightarrow> step_scope \<Rightarrow> loop_state \<Rightarrow> gathered \<Rightarrow> rt \<Rightarrow> logged_events \<times> step_action" where
  "decide env sc lp g r =
     (case executor_phase env sc g of
        Some a \<Rightarrow> ([], a)
      | None \<Rightarrow> verifier_phase env sc lp (recovered_execution env sc g) r)"

subsection \<open>Carrying an action out\<close>

definition log_all :: "str \<Rightarrow> logged_events \<Rightarrow> store \<Rightarrow> store" where
  "log_all run evs db = fold (\<lambda>(t, p). append_event run t p) evs db"

definition perform :: "step_scope \<Rightarrow> step_action \<Rightarrow> store \<Rightarrow> run_result \<times> store" where
  "perform sc a db =
     (let run = sc_run sc; row = sc_row sc in
      case a of
        Rescue event reason refs summary \<Rightarrow> rescue_step_succeeded run row summary refs event reason db
      | NegativeDone summary refs \<Rightarrow>
          (\<lparr>re_run = run, re_status = Running, re_summary = Some summary,
            re_error = Some terminal_negative_code, re_reason = None\<rparr>,
           snd (rescue_step_succeeded run row (Some summary) refs
             ''terminal_negative_discovery_succeeded'' ''complete_official_source_scan_zero_match'' db))
      | Replan feedback summary refs reason \<Rightarrow> request_replan run row feedback summary refs reason db
      | Wait question refs error contract \<Rightarrow> wait_for_user run row question refs error contract db
      | FailStep code refs \<Rightarrow> fail_step run row code refs db
      | Complete verified refs summary \<Rightarrow>
          (let db1 = append_event run ''step_succeeded'' (sequence_payload row)
                 (finish_step (st_id row) StepSucceeded (Some refs) None db)
           in (\<lparr>re_run = run, re_status = Running, re_summary = summary, re_error = None,
                re_reason = None\<rparr>,
               if verified then append_event run ''verification_passed'' (sequence_payload row) db1
               else db1))
      | Retry \<Rightarrow> (\<lparr>re_run = run, re_status = Running, re_summary = None, re_error = None,
           re_reason = None\<rparr>, db))"

text \<open>\<open>list(value)\<close>, where it does not raise: a string gives its characters, a dictionary its keys.\<close>

definition py_list :: "json \<Rightarrow> json list" where
  "py_list v = (case v of JArr xs \<Rightarrow> xs | JStr s \<Rightarrow> map (\<lambda>c. JStr [c]) s
     | JObj d \<Rightarrow> map (JStr \<circ> fst) d | _ \<Rightarrow> [])"

definition add_feedback :: "str \<Rightarrow> dict \<Rightarrow> dict" where
  "add_feedback feedback context =
     dput (lit ''verifier_feedback'')
       (JArr (py_list (dget_or context (lit ''verifier_feedback'') (JArr [])) @ [JStr feedback])) context"

definition next_attempt :: "step_scope \<Rightarrow> loop_state \<Rightarrow> executor_result \<Rightarrow> str \<Rightarrow> store \<Rightarrow> loop_state" where
  "next_attempt sc lp e feedback db =
     (let t = (lp_task lp)\<lparr>tk_context := add_feedback feedback (tk_context (lp_task lp)),
                tk_exec_state := ex_state e\<rparr>;
          t' = with_observed_public_evidence db t (sc_run sc)
      in lp\<lparr>lp_task := t', lp_context := run_tool_context (tx_user (lp_context lp)) (sc_run sc) t' db,
            lp_retries := lp_retries lp + 1, lp_prior_obs := ex_obs e, lp_prior_refs := ex_refs e,
            lp_last := Some (execution_progress_fingerprint e)\<rparr>)"

subsection \<open>The loop\<close>

datatype attempt_result = Finished run_result | Again loop_state

definition attempt :: "env \<Rightarrow> step_scope \<Rightarrow> loop_state \<Rightarrow> rt \<Rightarrow> attempt_result \<times> dict \<times> rt" where
  "attempt env sc lp r =
     (let a = en_executor env (lp_task lp) (sc_plan sc) (sc_step sc) (lp_context lp) (lp_prior_obs lp)
                (rt_pos r);
          r0 = agent_call (sc_run sc) a r
      in case aa_result a of
           Inl code \<Rightarrow>
             (let (out, db) = (if code = lit ''invalid_model_response''
                 then wait_for_user (sc_run sc) (sc_row sc) (Some exec_invalid_msg) None None None (rt_db r0)
                 else fail_step (sc_run sc) (sc_row sc) code None (rt_db r0))
              in (Finished out, aa_meta a, r0\<lparr>rt_db := db\<rparr>))
         | Inr e \<Rightarrow>
             (let (g, meta, r1) = gather env sc lp e (aa_meta a) r0;
                  (evs, act) = decide env sc (ga_state g) g r1;
                  db1 = log_all (sc_run sc) evs (rt_db r1)
              in if act = Retry then
                   (Again (next_attempt sc (ga_state g) (recovered_execution env sc g)
                      (gv_feedback (verify env sc (recovered_execution env sc g) r1)) db1),
                    meta, r1\<lparr>rt_db := db1\<rparr>)
                 else (let (out, db2) = perform sc act db1 in (Finished out, meta, r1\<lparr>rt_db := db2\<rparr>))))"

text \<open>Only the verifier's retry branch starts another attempt, and it counts it.\<close>

lemma executor_phase_not_retry: "executor_phase env sc g \<noteq> Some Retry"
  by (simp add: executor_phase_def needs_user_action_def unverified_action_def Let_def)

lemma verifier_phase_retry:
  assumes "snd (verifier_phase env sc lp e r) = Retry"
  shows "lp_retries lp + 1 \<le> sc_max_replans sc"
  using assms
  by (simp add: verifier_phase_def pass_action_def retry_action_def verified_need_user_action_def Let_def
      split: if_splits verification_decision.splits)

lemma decide_retry:
  assumes "snd (decide env sc lp g r) = Retry"
  shows "executor_phase env sc g = None" and "lp_retries lp + 1 \<le> sc_max_replans sc"
  using assms executor_phase_not_retry [of env sc g]
    verifier_phase_retry [of env sc lp "recovered_execution env sc g" r]
  by (auto simp: decide_def split: option.splits)

lemma gather_retries [simp]: "lp_retries (ga_state (fst (gather env sc lp e meta r))) = lp_retries lp"
  by (simp add: gather_def Let_def split_beta)

lemma attempt_again:
  assumes "attempt env sc lp r = (Again lp', meta, r')"
  shows "lp_retries lp' = lp_retries lp + 1" and "lp_retries lp' \<le> sc_max_replans sc"
proof -
  define a where "a = en_executor env (lp_task lp) (sc_plan sc) (sc_step sc) (lp_context lp)
    (lp_prior_obs lp) (rt_pos r)"
  define r0 where "r0 = agent_call (sc_run sc) a r"
  obtain e where e: "aa_result a = Inr e"
    using assms by (cases "aa_result a") (simp_all add: attempt_def Let_def split_beta flip: a_def)
  define g where "g = gather env sc lp e (aa_meta a) r0"
  define d where "d = decide env sc (ga_state (fst g)) (fst g) (snd (snd g))"
  have retry: "snd d = Retry"
    and lp': "lp' = next_attempt sc (ga_state (fst g)) (recovered_execution env sc (fst g))
      (gv_feedback (verify env sc (recovered_execution env sc (fst g)) (snd (snd g))))
      (log_all (sc_run sc) (fst d) (rt_db (snd (snd g))))"
    using assms
    by (simp_all add: attempt_def Let_def split_beta e flip: a_def r0_def g_def d_def split: if_splits)
  have same: "lp_retries (ga_state (fst g)) = lp_retries lp" by (simp add: g_def)
  show "lp_retries lp' = lp_retries lp + 1" by (simp add: lp' next_attempt_def Let_def same)
  then show "lp_retries lp' \<le> sc_max_replans sc"
    using decide_retry(2) [of env sc "ga_state (fst g)" "fst g" "snd (snd g)"] retry same
    by (simp add: d_def)
qed

text \<open>Attempts are counted down to the replan budget; every function over them ends for that reason.\<close>

definition attempt_order :: "((env \<times> step_scope \<times> loop_state \<times> rt) \<times> (env \<times> step_scope \<times> loop_state \<times> rt)) set" where
  "attempt_order = measure (\<lambda>(env, sc, lp, r). nat (sc_max_replans sc - lp_retries lp))"

lemma wf_attempt_order [simp]: "wf attempt_order"
  by (simp add: attempt_order_def)

lemma attempt_order_again:
  "(x, y) = attempt env sc lp r \<Longrightarrow> x = Again lp' \<Longrightarrow> ((env, sc, lp', r'), env, sc, lp, r) \<in> attempt_order"
  using attempt_again [of env sc lp r lp' "fst y" "snd y"] by (simp add: attempt_order_def)

function step_loop :: "env \<Rightarrow> step_scope \<Rightarrow> loop_state \<Rightarrow> rt \<Rightarrow> run_result \<times> rt" where
  "step_loop env sc lp r =
     (case attempt env sc lp r of
        (Finished out, _, r') \<Rightarrow> (out, r')
      | (Again lp', _, r') \<Rightarrow> step_loop env sc lp' r')"
  by pat_completeness auto
termination
  by (relation attempt_order) (simp, rule attempt_order_again)

declare step_loop.simps [simp del]

text \<open>
  The tool context is an object the run goes on to use when the step had no resolved inputs, so
  the metadata after the first attempt is part of the result; later attempts work on new contexts.
\<close>

definition run_step :: "env \<Rightarrow> step_scope \<Rightarrow> task \<Rightarrow> tool_context \<Rightarrow> rt \<Rightarrow> run_result \<times> dict \<times> rt" where
  "run_step env sc t c r =
     (let seeded = step_seeded_artifact_refs (rt_db r) (sc_run sc) (st_id (sc_row sc))
            @ resolved_step_artifact_refs (tx_meta c);
          sc' = sc\<lparr>sc_seeded := seeded\<rparr>;
          lp = \<lparr>lp_task = t, lp_context = c, lp_retries = 0, lp_prior_obs = [], lp_prior_refs = [],
                lp_last = None, lp_extracted = False, lp_discovered = False\<rparr>
      in case attempt env sc' lp r of
           (Finished out, meta, r') \<Rightarrow> (out, meta, r')
         | (Again lp', meta, r') \<Rightarrow> (let (out, r'') = step_loop env sc' lp' r' in (out, meta, r'')))"

end
