(* ===== verification/StepSafety.thy ===== *)
theory StepSafety
  imports RunStep
begin

section \<open>What a step guarantees\<close>

text \<open>
  Lemmas over \<open>run_step\<close>: which actions may close a step as succeeded and on what evidence, what
  an attempt may change in the store, how often the Executor is called, and the state of the
  step's row and of the run afterwards.
\<close>

subsection \<open>The evidence behind a success\<close>

text \<open>What the code accepts as the reason to close a step: its contract is met by tool evidence
  that is not blocked, or it is a routing step and has its list, or an official scan found nothing.\<close>

definition contract_evidence :: "env \<Rightarrow> step_scope \<Rightarrow> executor_result \<Rightarrow> dict list \<Rightarrow> bool" where
  "contract_evidence env sc e refs \<longleftrightarrow>
     runtime_contract_met (en_skills env) (sc_step sc) (ex_obs e) refs
     \<and> \<not> runtime_blocked (en_skills env) (sc_step sc) (ex_obs e) refs"

definition accepted_evidence :: "env \<Rightarrow> step_scope \<Rightarrow> executor_result \<Rightarrow> bool" where
  "accepted_evidence env sc e \<longleftrightarrow>
     (\<exists>refs. contract_evidence env sc e refs)
     \<or> routing_done sc e
     \<or> (is_complete_official_negative_discovery (sc_task sc) (sc_plan sc) (sc_step sc) e
        \<and> \<not> evidence_blocked env sc e)"

fun closes_step :: "step_action \<Rightarrow> bool" where
  "closes_step (Rescue _ _ _ _) = True"
| "closes_step (NegativeDone _ _) = True"
| "closes_step (Complete _ _ _) = True"
| "closes_step _ = False"

lemma ready_accepted: "deliverable_ready env sc e \<Longrightarrow> accepted_evidence env sc e"
  by (auto simp: accepted_evidence_def contract_evidence_def deliverable_ready_def contract_met_def
      evidence_blocked_def)

lemma routing_accepted: "routing_done sc e \<Longrightarrow> accepted_evidence env sc e"
  by (simp add: accepted_evidence_def)

lemma gate_accepted:
  "has_completion_contract (en_skills env) (sc_step sc) \<Longrightarrow>
   completion_evidence_gate (en_skills env) (sc_step sc) (ex_obs e) m refs \<Longrightarrow> accepted_evidence env sc e"
  using gate.passed_met_iff gate.met_unblocked unfolding accepted_evidence_def contract_evidence_def by blast

lemma executor_phase_accepted:
  assumes "executor_phase env sc g = Some act" and "closes_step act"
    and "has_completion_contract (en_skills env) (sc_step sc)"
  shows "accepted_evidence env sc (ga_execution g) \<or> accepted_evidence env sc (recovered_execution env sc g)"
proof (cases "is_complete_official_negative_discovery (sc_task sc) (sc_plan sc) (sc_step sc) (ga_execution g)
    \<and> \<not> evidence_blocked env sc (ga_execution g)")
  case True
  then show ?thesis by (simp add: accepted_evidence_def)
next
  case False
  then have "accepted_evidence env sc (recovered_execution env sc g)"
    using assms ready_accepted [of env sc "recovered_execution env sc g"]
      routing_accepted [of sc "recovered_execution env sc g" env]
      gate_accepted [of env sc "recovered_execution env sc g"]
    by (auto simp: executor_phase_def needs_user_action_def unverified_action_def
        completion_gate_rejected_def Let_def split: if_splits)
  then show ?thesis ..
qed

lemma verifier_phase_accepted:
  assumes "closes_step (snd (verifier_phase env sc lp e r))"
    and "has_completion_contract (en_skills env) (sc_step sc)"
  shows "accepted_evidence env sc e"
  using assms ready_accepted [of env sc e] routing_accepted [of sc e env] gate_accepted [of env sc e]
  by (auto simp: verifier_phase_def pass_action_def retry_action_def verified_need_user_action_def
      Let_def completion_evidence_gate_def split: if_splits verification_decision.splits)

lemma decide_accepted:
  assumes "closes_step (snd (decide env sc lp g r))"
    and "has_completion_contract (en_skills env) (sc_step sc)"
  shows "accepted_evidence env sc (ga_execution g) \<or> accepted_evidence env sc (recovered_execution env sc g)"
  using assms executor_phase_accepted [of env sc g] verifier_phase_accepted [of env sc lp _ r]
  by (auto simp: decide_def split: option.splits)

subsection \<open>What an attempt may change\<close>

text \<open>As \<open>grows\<close>, but the row of the step (not what it was planned as) and the row of the run
  may change.\<close>

definition step_key :: "step_row \<Rightarrow> str \<times> str \<times> str \<times> int \<times> str" where
  "step_key s = (st_id s, st_run s, st_plan s, st_sequence s, st_objective s)"

lemma step_key_ids: "map step_key xs = map step_key ys \<Longrightarrow> map st_id xs = map st_id ys"
  by (drule arg_cong [of _ _ "map fst"]) (simp add: step_key_def comp_def)

definition step_moves :: "str \<Rightarrow> str \<Rightarrow> rt \<Rightarrow> rt \<Rightarrow> bool" where
  "step_moves run step r r' \<longleftrightarrow>
     (\<forall>k. k \<noteq> run \<longrightarrow> find_run (rt_db r') k = find_run (rt_db r) k)
     \<and> (\<forall>k. k \<noteq> step \<longrightarrow> find_step (rt_db r') k = find_step (rt_db r) k)
     \<and> map rr_id (so_runs (rt_db r')) = map rr_id (so_runs (rt_db r))
     \<and> map rr_user (so_runs (rt_db r')) = map rr_user (so_runs (rt_db r))
     \<and> map step_key (so_steps (rt_db r')) = map step_key (so_steps (rt_db r))
     \<and> so_plans (rt_db r') = so_plans (rt_db r)
     \<and> appended (\<lambda>e. ev_run e = run) (so_events (rt_db r)) (so_events (rt_db r'))
     \<and> appended (\<lambda>a. ar_run a = run) (so_artifacts (rt_db r)) (so_artifacts (rt_db r'))
     \<and> appended (\<lambda>t. tr_run t = run) (so_turns (rt_db r)) (so_turns (rt_db r'))
     \<and> (\<forall>q. log_ok (rt_db r) q \<longrightarrow> log_ok (rt_db r') q)
     \<and> (artifacts_ok (rt_db r) \<longrightarrow> artifacts_ok (rt_db r'))
     \<and> (ids_ok (rt_db r) \<longrightarrow> ids_ok (rt_db r'))
     \<and> budgets_kept r r'"

lemma step_moves_refl [simp, intro]: "step_moves run step r r"
  by (simp add: step_moves_def)

lemma step_moves_trans [trans]:
  "step_moves run step a b \<Longrightarrow> step_moves run step b c \<Longrightarrow> step_moves run step a c"
  unfolding step_moves_def
  by (elim conjE, intro conjI) (simp_all, ((erule (1) appended_trans) | (erule (1) budgets_kept_trans))+)

lemma grows_moves: "grows run r r' \<Longrightarrow> step_moves run step r r'"
  by (simp add: grows_def step_moves_def find_run_def find_step_def)

text \<open>The updates of the store that closing a step is made of.\<close>

definition db_moves :: "str \<Rightarrow> str \<Rightarrow> store \<Rightarrow> store \<Rightarrow> bool" where
  "db_moves run step db db' \<longleftrightarrow> (\<forall>r. step_moves run step (r\<lparr>rt_db := db\<rparr>) (r\<lparr>rt_db := db'\<rparr>))"

lemma db_moves_refl [simp, intro]: "db_moves run step db db"
  by (simp add: db_moves_def)

lemma db_moves_trans [trans]: "db_moves run step a b \<Longrightarrow> db_moves run step b c \<Longrightarrow> db_moves run step a c"
  unfolding db_moves_def by (blast intro: step_moves_trans)

lemma db_moves_step: "db_moves run step (rt_db r) db' \<Longrightarrow> step_moves run step r (r\<lparr>rt_db := db'\<rparr>)"
proof -
  assume "db_moves run step (rt_db r) db'"
  then have "step_moves run step (r\<lparr>rt_db := rt_db r\<rparr>) (r\<lparr>rt_db := db'\<rparr>)"
    unfolding db_moves_def by blast
  then show ?thesis by simp
qed

lemma db_moves_append_event [intro]: "db_moves run step db (append_event run t p db)"
proof -
  have "grows run (r\<lparr>rt_db := db\<rparr>) (on_db (append_event run t p) (r\<lparr>rt_db := db\<rparr>))" for r
    by (rule grows_append_event)
  then show ?thesis unfolding db_moves_def on_db_def by (auto intro: grows_moves)
qed

lemma map_update_ids: "(\<And>x. key (f x) = key x) \<Longrightarrow> map key (map (\<lambda>x. if P x then f x else x) xs) = map key xs"
  by simp

lemma db_moves_update_step:
  assumes key: "\<And>s. step_key (f s) = step_key s"
  shows "db_moves run step db (update_step step f db)"
proof -
  have assms: "\<And>s. st_id (f s) = st_id s" using key by (simp add: step_key_def)
  have "log_ok (update_step step f db) q = log_ok db q" for q by (rule log_ok_frame) simp
  moreover have "ids_ok (update_step step f db) = ids_ok db"
    by (rule ids_ok_cong) (simp_all add: update_step_def assms)
  ultimately show ?thesis
    using assms key map_update_ids [of step_key f "\<lambda>s. st_id s = step" "so_steps db"]
    by (simp add: db_moves_def step_moves_def find_update_step artifacts_ok_def budgets_kept_same)
       (simp add: update_step_def)
qed

lemma db_moves_finish_step [intro]: "db_moves run step db (finish_step step s refs e db)"
  unfolding finish_step_def by (rule db_moves_update_step) (simp add: step_key_def)

lemma db_moves_update_run:
  assumes "\<And>r. rr_id (f r) = rr_id r" and "\<And>r. rr_user (f r) = rr_user r"
  shows "db_moves run step db (update_run run f db)"
proof -
  have "log_ok (update_run run f db) q = log_ok db q" for q by (rule log_ok_frame) simp
  moreover have "ids_ok (update_run run f db) = ids_ok db"
    by (rule ids_ok_cong) (simp_all add: update_run_def assms)
  ultimately show ?thesis
    using assms map_update_ids [of rr_id f "\<lambda>r. rr_id r = run" "so_runs db"]
      map_update_ids [of rr_user f "\<lambda>r. rr_id r = run" "so_runs db"]
    by (simp add: db_moves_def step_moves_def find_update_run artifacts_ok_def budgets_kept_same)
       (simp add: update_run_def)
qed

lemma db_moves_finish_run [intro]: "db_moves run step db (finish_run run s m e db)"
  unfolding finish_run_def by (rule db_moves_update_run) simp_all

lemma db_moves_fold: "(\<And>x d. db_moves run step d (f x d)) \<Longrightarrow> db_moves run step db (fold f xs db)"
  by (induction xs arbitrary: db) (auto intro: db_moves_trans)

lemma db_moves_log_all [intro]: "db_moves run step db (log_all run evs db)"
  unfolding log_all_def by (rule db_moves_fold) auto

lemma db_moves_rescue: "db_moves run (st_id row) db (snd (rescue_step_succeeded run row m refs t reason db))"
  by (auto simp: rescue_step_succeeded_def intro!: db_moves_trans [OF _ db_moves_append_event])

lemma db_moves_replan: "db_moves run (st_id row) db (snd (request_replan run row f m refs reason db))"
  by (auto simp: request_replan_def intro!: db_moves_trans [OF _ db_moves_append_event])

lemma db_moves_wait: "db_moves run (st_id row) db (snd (wait_for_user run row q refs e c db))"
  by (auto simp: wait_for_user_def Let_def
      intro!: db_moves_trans [OF _ db_moves_append_event] db_moves_trans [OF _ db_moves_finish_run])

lemma db_moves_fail: "db_moves run (st_id row) db (snd (fail_step run row code refs db))"
  by (auto simp: fail_step_def fail_run_def
      intro!: db_moves_trans [OF _ db_moves_append_event] db_moves_trans [OF _ db_moves_finish_run])

lemma db_moves_complete:
  "db_moves run (st_id row) db (append_event run t p (finish_step (st_id row) s refs e db))"
  by (rule db_moves_trans [OF db_moves_finish_step db_moves_append_event])

lemma db_moves_perform: "db_moves (sc_run sc) (st_id (sc_row sc)) db (snd (perform sc a db))"
  by (cases a) (auto simp: perform_def Let_def db_moves_rescue db_moves_replan db_moves_wait db_moves_fail
      intro: db_moves_complete db_moves_trans [OF db_moves_complete db_moves_append_event])

lemma scope_truncate [simp]: "sc_run (scope.truncate sc) = sc_run sc"
  by (simp add: scope.truncate_def)

lemma grows_record_failed: "grows run r (r\<lparr>rt_db := record_failed_executor_observations run row obs (rt_db r)\<rparr>)"
proof -
  have "extends run db (record_failed_executor_observations run row obs db)" for db
    unfolding record_failed_executor_observations_def
    by (rule fold_inv [where P = "extends run db"]) (auto intro: extends_trans)
  then show ?thesis by (rule grows_extends)
qed

lemma grows_persist:
  "grows run r (r\<lparr>rt_db := snd (persist_observed_evidence run row obs (rt_db r))\<rparr>)"
  by (rule grows_extends) (rule persist_observed_extends)

lemma grows_recover:
  "grows (sc_run sc) r (snd (snd (auto_recover_discovery_evidence env sc obs refs meta r)))"
  using grows_recovery [of "scope.truncate sc" r] by (simp add: auto_recover_discovery_evidence_def)

lemma grows_extract: "grows (sc_run sc) r (snd (snd (auto_extract_jd_details env sc refs meta r)))"
  using grows_recovery [of "scope.truncate sc" r] by (simp add: auto_extract_jd_details_def)

lemma grows_deliver: "grows (sc_run sc) r (snd (snd (auto_build_role_deliverable env sc refs meta r)))"
  using grows_recovery [of "scope.truncate sc" r] by (simp add: auto_build_role_deliverable_def)

lemma grows_gather: "grows (sc_run sc) r (snd (snd (gather env sc lp e meta r)))"
proof -
  let ?run = "sc_run sc"
  define db1 where "db1 = record_failed_executor_observations ?run (sc_row sc) (ex_obs e) (rt_db r)"
  define p where "p = persist_observed_evidence ?run (sc_row sc) (ex_obs e) db1"
  define r0 where "r0 = r\<lparr>rt_db := snd p\<rparr>"
  define x where "x = (if lp_discovered lp then (([], []), meta, r0)
    else auto_recover_discovery_evidence env sc (ex_obs e) (sc_seeded sc @ fst p) meta r0)"
  define y where "y = (if lp_extracted lp then (([], []), fst (snd x), snd (snd x))
    else auto_extract_jd_details env sc (lp_prior_refs lp @ (sc_seeded sc @ fst p) @ snd (fst x))
      (fst (snd x)) (snd (snd x)))"
  have "grows ?run r (r\<lparr>rt_db := db1\<rparr>)" unfolding db1_def by (rule grows_record_failed)
  moreover have "grows ?run (r\<lparr>rt_db := db1\<rparr>) r0"
    using grows_persist [of ?run "r\<lparr>rt_db := db1\<rparr>" "sc_row sc" "ex_obs e"] by (simp add: r0_def p_def)
  moreover have "grows ?run r0 (snd (snd x))" using grows_recover by (simp add: x_def)
  moreover have "grows ?run (snd (snd x)) (snd (snd y))" using grows_extract by (simp add: y_def)
  moreover have "grows ?run (snd (snd y)) (snd (snd (gather env sc lp e meta r)))"
    using grows_deliver
    by (simp add: gather_def Let_def split_beta flip: db1_def p_def r0_def x_def y_def)
      (simp add: x_def y_def split_beta)
  ultimately show ?thesis by (meson grows_trans)
qed

subsection \<open>One attempt, taken apart\<close>

text \<open>Every fact about an attempt follows from these three cases.\<close>

definition after_call :: "env \<Rightarrow> step_scope \<Rightarrow> loop_state \<Rightarrow> rt \<Rightarrow> rt" where
  "after_call env sc lp r = agent_call (sc_run sc) (en_executor env (lp_task lp) (sc_plan sc) (sc_step sc)
     (lp_context lp) (lp_prior_obs lp) (rt_pos r)) r"

lemma grows_after_call: "grows (sc_run sc) r (after_call env sc lp r)"
  unfolding after_call_def by (rule grows_agent_call)

lemma attempt_cases:
  obtains (broken) out db meta
    where "attempt env sc lp r = (Finished out, meta, (after_call env sc lp r)\<lparr>rt_db := db\<rparr>)"
      "(out, db) = wait_for_user (sc_run sc) (sc_row sc) (Some exec_invalid_msg) None None None
          (rt_db (after_call env sc lp r))
       \<or> (\<exists>code. (out, db) = fail_step (sc_run sc) (sc_row sc) code None (rt_db (after_call env sc lp r)))"
  | (closed) g meta r1 evs act
    where "grows (sc_run sc) (after_call env sc lp r) r1" "decide env sc (ga_state g) g r1 = (evs, act)"
      "act \<noteq> Retry"
      "attempt env sc lp r = (Finished (fst (perform sc act (log_all (sc_run sc) evs (rt_db r1)))), meta,
         r1\<lparr>rt_db := snd (perform sc act (log_all (sc_run sc) evs (rt_db r1)))\<rparr>)"
  | (again) lp' meta r1 evs
    where "grows (sc_run sc) (after_call env sc lp r) r1"
      "attempt env sc lp r = (Again lp', meta, r1\<lparr>rt_db := log_all (sc_run sc) evs (rt_db r1)\<rparr>)"
proof -
  define a where "a = en_executor env (lp_task lp) (sc_plan sc) (sc_step sc) (lp_context lp)
    (lp_prior_obs lp) (rt_pos r)"
  have r0: "after_call env sc lp r = agent_call (sc_run sc) a r" by (simp add: after_call_def a_def)
  show ?thesis
  proof (cases "aa_result a")
    case (Inl code)
    define od where "od = (if code = lit ''invalid_model_response''
      then wait_for_user (sc_run sc) (sc_row sc) (Some exec_invalid_msg) None None None
        (rt_db (after_call env sc lp r))
      else fail_step (sc_run sc) (sc_row sc) code None (rt_db (after_call env sc lp r)))"
    have "attempt env sc lp r = (Finished (fst od), aa_meta a, (after_call env sc lp r)\<lparr>rt_db := snd od\<rparr>)"
      by (simp add: attempt_def Inl split_beta Let_def od_def r0 flip: a_def)
    then show ?thesis by (rule broken) (auto simp: od_def)
  next
    case (Inr e)
    define g where "g = gather env sc lp e (aa_meta a) (after_call env sc lp r)"
    obtain evs act where d: "decide env sc (ga_state (fst g)) (fst g) (snd (snd g)) = (evs, act)"
      by fastforce
    have gr: "grows (sc_run sc) (after_call env sc lp r) (snd (snd g))"
      unfolding g_def by (rule grows_gather)
    show ?thesis
    proof (cases "act = Retry")
      case True
      then show ?thesis
        using again [OF gr] d by (simp add: attempt_def Inr split_beta Let_def r0 g_def flip: a_def)
    next
      case False
      then show ?thesis
        using closed [OF gr d False] d
        by (simp add: attempt_def Inr split_beta Let_def r0 g_def flip: a_def)
    qed
  qed
qed

lemma attempt_moves: "step_moves (sc_run sc) (st_id (sc_row sc)) r (snd (snd (attempt env sc lp r)))"
proof (cases rule: attempt_cases [of env sc lp r])
  case (broken out db meta)
  have "db_moves (sc_run sc) (st_id (sc_row sc)) (rt_db (after_call env sc lp r)) db"
    using broken(2) db_moves_wait db_moves_fail by (metis snd_conv)
  then show ?thesis
    using broken(1) grows_moves [OF grows_after_call] db_moves_step step_moves_trans by simp blast
next
  case (closed g meta r1 evs act)
  have "db_moves (sc_run sc) (st_id (sc_row sc)) (rt_db r1)
      (snd (perform sc act (log_all (sc_run sc) evs (rt_db r1))))"
    by (rule db_moves_trans [OF db_moves_log_all db_moves_perform])
  then show ?thesis
    using closed(4) grows_moves [OF grows_trans [OF grows_after_call closed(1)]] db_moves_step
      step_moves_trans by simp blast
next
  case (again lp' meta r1 evs)
  then show ?thesis
    using grows_moves [OF grows_trans [OF grows_after_call again(1)]] db_moves_step [OF db_moves_log_all]
      step_moves_trans by simp blast
qed

lemma step_loop_moves: "step_moves (sc_run sc) (st_id (sc_row sc)) r (snd (step_loop env sc lp r))"
proof (induction env sc lp r rule: step_loop.induct)
  case (1 env sc lp r)
  show ?case
    using attempt_moves [of sc r env lp] "1.IH"
    by (subst step_loop.simps)
       (auto split: prod.splits attempt_result.splits intro: step_moves_trans)
qed

lemma run_step_moves: "step_moves (sc_run sc) (st_id (sc_row sc)) r (snd (snd (run_step env sc t c r)))"
proof -
  define sc' where "sc' = sc\<lparr>sc_seeded := step_seeded_artifact_refs (rt_db r) (sc_run sc) (st_id (sc_row sc))
      @ resolved_step_artifact_refs (tx_meta c)\<rparr>"
  have same: "sc_run sc' = sc_run sc" "sc_row sc' = sc_row sc" by (simp_all add: sc'_def)
  show ?thesis
    using attempt_moves [of sc' r env] step_loop_moves [of sc' _ env]
    by (auto simp: run_step_def Let_def same split_beta simp flip: sc'_def
        split: prod.splits attempt_result.splits intro: step_moves_trans)
qed

subsection \<open>How often the Executor is called\<close>

function attempt_count :: "env \<Rightarrow> step_scope \<Rightarrow> loop_state \<Rightarrow> rt \<Rightarrow> nat" where
  "attempt_count env sc lp r =
     (case attempt env sc lp r of
        (Finished out, _, r') \<Rightarrow> 1
      | (Again lp', _, r') \<Rightarrow> Suc (attempt_count env sc lp' r'))"
  by pat_completeness auto
termination
  by (relation attempt_order) (simp, rule attempt_order_again)

declare attempt_count.simps [simp del]

lemma attempt_count_bound: "int (attempt_count env sc lp r) \<le> max 0 (sc_max_replans sc - lp_retries lp) + 1"
proof (induction env sc lp r rule: attempt_count.induct)
  case (1 env sc lp r)
  show ?case
  proof (cases "fst (attempt env sc lp r)")
    case (Finished out)
    then obtain meta r' where a: "attempt env sc lp r = (Finished out, meta, r')"
      by (metis prod.collapse)
    then show ?thesis by (subst attempt_count.simps) (simp add: a)
  next
    case (Again lp')
    obtain meta r' where a: "attempt env sc lp r = (Again lp', meta, r')"
      using Again by (metis prod.collapse)
    have "int (attempt_count env sc lp' r') \<le> max 0 (sc_max_replans sc - lp_retries lp') + 1"
      using "1.IH" a by simp
    then show ?thesis
      using attempt_again [OF a] by (subst attempt_count.simps) (simp add: a)
  qed
qed

subsection \<open>The rows a finished step leaves\<close>

definition closing_status :: "run_result \<Rightarrow> step_status" where
  "closing_status out =
     (if re_status out \<noteq> Running then StepFailed
      else if re_error out = Some replan_required then StepSkipped else StepSucceeded)"

definition closed_rows :: "step_scope \<Rightarrow> run_result \<Rightarrow> store \<Rightarrow> store \<Rightarrow> bool" where
  "closed_rows sc out db db' \<longleftrightarrow>
     re_run out = sc_run sc \<and> re_status out \<in> {Running, WaitingUser, Failed}
     \<and> map_option st_status (find_step db' (st_id (sc_row sc))) =
         map_option (\<lambda>_. closing_status out) (find_step db (st_id (sc_row sc)))
     \<and> map_option rr_status (find_run db' (sc_run sc)) =
         map_option (\<lambda>q. if re_status out = Running then rr_status q else re_status out)
           (find_run db (sc_run sc))"

lemma find_finish_step:
  "find_step (finish_step step s refs e db) k =
    (if k = step then map_option (\<lambda>x. x\<lparr>st_status := s, st_refs := refs, st_error := e\<rparr>) (find_step db step)
     else find_step db k)"
  unfolding finish_step_def by (rule find_update_step) simp

lemma find_finish_run:
  "find_run (finish_run run s m e db) k =
    (if k = run then map_option (\<lambda>x. x\<lparr>rr_status := s, rr_summary := m, rr_error := e,
        rr_finished := (if s \<in> {Succeeded, Failed, Cancelled} then Some (so_now db) else rr_finished x),
        rr_version := rr_version x + 1\<rparr>) (find_run db run)
     else find_run db k)"
  unfolding finish_run_def by (rule find_update_run) simp

lemma find_run_finish_step [simp]: "find_run (finish_step step s refs e db) k = find_run db k"
  by (simp add: finish_step_def)

lemma find_step_finish_run [simp]: "find_step (finish_run run s m e db) k = find_step db k"
  by (simp add: finish_run_def)

lemma codes_differ: "terminal_negative_code \<noteq> replan_required"
  by (simp add: terminal_negative_code_def replan_required_def)

lemma closed_wait: "closed_rows sc (fst (wait_for_user (sc_run sc) (sc_row sc) q refs e c db)) db
    (snd (wait_for_user (sc_run sc) (sc_row sc) q refs e c db))"
  by (simp add: closed_rows_def wait_for_user_def Let_def closing_status_def find_finish_step
      find_finish_run option.map_comp comp_def)

lemma closed_fail: "closed_rows sc (fst (fail_step (sc_run sc) (sc_row sc) code refs db)) db
    (snd (fail_step (sc_run sc) (sc_row sc) code refs db))"
  by (simp add: closed_rows_def fail_step_def fail_run_def closing_status_def find_finish_step
      find_finish_run option.map_comp comp_def)

lemma closed_perform:
  assumes "a \<noteq> Retry"
  shows "closed_rows sc (fst (perform sc a db)) db (snd (perform sc a db))"
proof (cases a)
  case (Wait q refs e c)
  then show ?thesis using closed_wait by (simp add: perform_def Let_def)
next
  case (FailStep code refs)
  then show ?thesis using closed_fail by (simp add: perform_def Let_def)
qed (use assms codes_differ in \<open>simp_all add: perform_def Let_def closed_rows_def closing_status_def
       rescue_step_succeeded_def request_replan_def find_finish_step option.map_comp comp_def
       map_option.id option.map_ident\<close>)

lemma log_all_finds [simp]:
  "find_run (log_all run evs db) k = find_run db k" "find_step (log_all run evs db) k = find_step db k"
  by (induction evs arbitrary: db) (auto simp: log_all_def)

lemma grows_finds:
  "grows run r r' \<Longrightarrow> find_run (rt_db r') k = find_run (rt_db r) k"
  "grows run r r' \<Longrightarrow> find_step (rt_db r') k = find_step (rt_db r) k"
  by (simp_all add: grows_def find_run_def find_step_def)

lemma closed_rows_cong:
  "closed_rows sc out db db' \<Longrightarrow> (\<And>k. find_run d k = find_run db k) \<Longrightarrow>
   (\<And>k. find_step d k = find_step db k) \<Longrightarrow> closed_rows sc out d db'"
  by (simp add: closed_rows_def)

lemma attempt_closed:
  assumes "attempt env sc lp r = (Finished out, meta, r')"
  shows "closed_rows sc out (rt_db r) (rt_db r')"
proof (cases rule: attempt_cases [of env sc lp r])
  case (broken out1 db meta1)
  have "closed_rows sc out1 (rt_db (after_call env sc lp r)) db"
    using broken(2) closed_wait closed_fail by (metis fst_conv snd_conv)
  then have "closed_rows sc out1 (rt_db r) db"
    by (rule closed_rows_cong) (simp_all add: grows_finds [OF grows_after_call])
  then show ?thesis using broken(1) assms by simp
next
  case (closed g meta1 r1 evs act)
  let ?p = "perform sc act (log_all (sc_run sc) evs (rt_db r1))"
  have "closed_rows sc (fst ?p) (log_all (sc_run sc) evs (rt_db r1)) (snd ?p)"
    by (rule closed_perform) (rule closed(3))
  then have "closed_rows sc (fst ?p) (rt_db r) (snd ?p)"
    by (rule closed_rows_cong)
       (simp_all add: grows_finds [OF grows_trans [OF grows_after_call closed(1)]])
  then show ?thesis using closed(4) assms by auto
next
  case (again lp' meta1 r1 evs)
  then show ?thesis using assms by simp
qed

lemma attempt_again_finds:
  assumes "attempt env sc lp r = (Again lp', meta, r')"
  shows "find_run (rt_db r') k = find_run (rt_db r) k" and "find_step (rt_db r') k = find_step (rt_db r) k"
proof -
  have "find_run (rt_db r') k = find_run (rt_db r) k \<and> find_step (rt_db r') k = find_step (rt_db r) k"
  proof (cases rule: attempt_cases [of env sc lp r])
    case (again lp1 meta1 r1 evs)
    then show ?thesis
      using assms grows_finds [OF grows_trans [OF grows_after_call again(1)]] by auto
  qed (use assms in simp_all)
  then show "find_run (rt_db r') k = find_run (rt_db r) k" "find_step (rt_db r') k = find_step (rt_db r) k"
    by simp_all
qed

lemma step_loop_closed: "closed_rows sc (fst (step_loop env sc lp r)) (rt_db r) (rt_db (snd (step_loop env sc lp r)))"
proof (induction env sc lp r rule: step_loop.induct)
  case (1 env sc lp r)
  show ?case
  proof (cases "fst (attempt env sc lp r)")
    case (Finished out)
    obtain meta r' where a: "attempt env sc lp r = (Finished out, meta, r')"
      using Finished by (metis prod.collapse)
    then show ?thesis using attempt_closed [OF a] by (subst (1 2) step_loop.simps) (simp add: a)
  next
    case (Again lp')
    obtain meta r' where a: "attempt env sc lp r = (Again lp', meta, r')"
      using Again by (metis prod.collapse)
    have "closed_rows sc (fst (step_loop env sc lp' r')) (rt_db r') (rt_db (snd (step_loop env sc lp' r')))"
      using "1.IH" a by simp
    then have "closed_rows sc (fst (step_loop env sc lp' r')) (rt_db r) (rt_db (snd (step_loop env sc lp' r')))"
      by (rule closed_rows_cong) (simp_all add: attempt_again_finds [OF a])
    then show ?thesis by (subst (1 2) step_loop.simps) (simp add: a)
  qed
qed

lemma attempt_split:
  obtains (finished) out meta r' where "attempt env sc lp r = (Finished out, meta, r')"
  | (again) lp' meta r' where "attempt env sc lp r = (Again lp', meta, r')"
  by (metis attempt_result.exhaust prod.collapse)

subsection \<open>The last attempt\<close>

text \<open>The loop variables and the state the last attempt of a step starts from.\<close>

function last_attempt :: "env \<Rightarrow> step_scope \<Rightarrow> loop_state \<Rightarrow> rt \<Rightarrow> loop_state \<times> rt" where
  "last_attempt env sc lp r =
     (case attempt env sc lp r of
        (Finished out, _, r') \<Rightarrow> (lp, r)
      | (Again lp', _, r') \<Rightarrow> last_attempt env sc lp' r')"
  by pat_completeness auto
termination
  by (relation attempt_order) (simp, rule attempt_order_again)

declare last_attempt.simps [simp del]

text \<open>What an attempt gathered, when the Executor answered.\<close>

definition gathered_in :: "env \<Rightarrow> step_scope \<Rightarrow> loop_state \<times> rt \<Rightarrow> gathered option" where
  "gathered_in env sc lpr =
     (let (lp, r) = lpr;
          a = en_executor env (lp_task lp) (sc_plan sc) (sc_step sc) (lp_context lp) (lp_prior_obs lp)
                (rt_pos r)
      in case aa_result a of
           Inl _ \<Rightarrow> None
         | Inr e \<Rightarrow> Some (fst (gather env sc lp e (aa_meta a) (agent_call (sc_run sc) a r))))"

definition step_succeeded :: "run_result \<Rightarrow> bool" where
  "step_succeeded out \<longleftrightarrow> re_status out = Running \<and> re_error out \<noteq> Some replan_required"

lemma perform_succeeded:
  "a \<noteq> Retry \<Longrightarrow> step_succeeded (fst (perform sc a db)) \<Longrightarrow> closes_step a"
  by (cases a) (simp_all add: perform_def Let_def step_succeeded_def request_replan_def wait_for_user_def
      fail_step_def fail_run_def)

lemma attempt_accepted:
  assumes a: "attempt env sc lp r = (Finished out, meta, r')" and ok: "step_succeeded out"
    and c: "has_completion_contract (en_skills env) (sc_step sc)"
  shows "\<exists>g. gathered_in env sc (lp, r) = Some g
    \<and> (accepted_evidence env sc (ga_execution g) \<or> accepted_evidence env sc (recovered_execution env sc g))"
proof -
  define x where "x = en_executor env (lp_task lp) (sc_plan sc) (sc_step sc) (lp_context lp)
    (lp_prior_obs lp) (rt_pos r)"
  define r0 where "r0 = agent_call (sc_run sc) x r"
  show ?thesis
  proof (cases "aa_result x")
    case (Inl code)
    then have "out = fst (if code = lit ''invalid_model_response''
        then wait_for_user (sc_run sc) (sc_row sc) (Some exec_invalid_msg) None None None (rt_db r0)
        else fail_step (sc_run sc) (sc_row sc) code None (rt_db r0))"
      using a by (auto simp: attempt_def split_beta Let_def r0_def simp flip: x_def)
    then show ?thesis
      using ok by (simp add: step_succeeded_def wait_for_user_def fail_step_def fail_run_def Let_def
          split: if_splits)
  next
    case (Inr e)
    define g where "g = gather env sc lp e (aa_meta x) r0"
    obtain evs act where d: "decide env sc (ga_state (fst g)) (fst g) (snd (snd g)) = (evs, act)"
      by fastforce
    have act: "act \<noteq> Retry" and out: "out = fst (perform sc act (log_all (sc_run sc) evs (rt_db (snd (snd g)))))"
      using a d by (auto simp: attempt_def split_beta Let_def Inr g_def r0_def simp flip: x_def split: if_splits)
    have "closes_step act" using perform_succeeded [OF act] ok out by simp
    then have "accepted_evidence env sc (ga_execution (fst g))
        \<or> accepted_evidence env sc (recovered_execution env sc (fst g))"
      using decide_accepted [OF _ c, of "ga_state (fst g)" "fst g" "snd (snd g)"] d by simp
    moreover have "gathered_in env sc (lp, r) = Some (fst g)"
      by (simp add: gathered_in_def Let_def Inr g_def r0_def flip: x_def)
    ultimately show ?thesis by blast
  qed
qed

lemma step_loop_accepted:
  assumes "step_succeeded (fst (step_loop env sc lp r))"
    and "has_completion_contract (en_skills env) (sc_step sc)"
  shows "\<exists>g. gathered_in env sc (last_attempt env sc lp r) = Some g
    \<and> (accepted_evidence env sc (ga_execution g) \<or> accepted_evidence env sc (recovered_execution env sc g))"
  using assms
proof (induction env sc lp r rule: step_loop.induct)
  case (1 env sc lp r)
  show ?case
  proof (cases rule: attempt_split [of env sc lp r])
    case (finished out meta r')
    then have "step_succeeded out" using "1.prems"(1) by (simp add: step_loop.simps [of env sc lp r])
    then show ?thesis
      using attempt_accepted [OF finished _ "1.prems"(2)] finished
      by (simp add: last_attempt.simps [of env sc lp r])
  next
    case (again lp' meta r')
    then have "step_succeeded (fst (step_loop env sc lp' r'))"
      using "1.prems"(1) by (simp add: step_loop.simps [of env sc lp r])
    then show ?thesis
      using "1.IH" again "1.prems"(2) by (simp add: last_attempt.simps [of env sc lp r])
  qed
qed

subsection \<open>The whole step\<close>

text \<open>The scope and the loop variables \<open>run_step\<close> starts with.\<close>

definition start_scope :: "step_scope \<Rightarrow> tool_context \<Rightarrow> rt \<Rightarrow> step_scope" where
  "start_scope sc c r = sc\<lparr>sc_seeded := step_seeded_artifact_refs (rt_db r) (sc_run sc) (st_id (sc_row sc))
     @ resolved_step_artifact_refs (tx_meta c)\<rparr>"

definition start_loop :: "task \<Rightarrow> tool_context \<Rightarrow> loop_state" where
  "start_loop t c = \<lparr>lp_task = t, lp_context = c, lp_retries = 0, lp_prior_obs = [], lp_prior_refs = [],
     lp_last = None, lp_extracted = False, lp_discovered = False\<rparr>"

lemma run_step_loop:
  "fst (run_step env sc t c r) = fst (step_loop env (start_scope sc c r) (start_loop t c) r)"
  "snd (snd (run_step env sc t c r)) = snd (step_loop env (start_scope sc c r) (start_loop t c) r)"
  by (simp_all add: run_step_def Let_def start_scope_def start_loop_def split_beta
      step_loop.simps [of env _ "\<lparr>lp_task = t, lp_context = c, lp_retries = 0, lp_prior_obs = [],
        lp_prior_refs = [], lp_last = None, lp_extracted = False, lp_discovered = False\<rparr>"]
      split: attempt_result.splits prod.splits)

lemma start_scope_simps [simp]:
  "sc_run (start_scope sc c r) = sc_run sc" "sc_row (start_scope sc c r) = sc_row sc"
  "sc_step (start_scope sc c r) = sc_step sc" "sc_task (start_scope sc c r) = sc_task sc"
  "sc_plan (start_scope sc c r) = sc_plan sc" "sc_max_replans (start_scope sc c r) = sc_max_replans sc"
  by (simp_all add: start_scope_def sc_max_replans_def)

lemma run_step_closed:
  "closed_rows sc (fst (run_step env sc t c r)) (rt_db r) (rt_db (snd (snd (run_step env sc t c r))))"
  using step_loop_closed [of "start_scope sc c r" env "start_loop t c" r]
  by (simp add: run_step_loop closed_rows_def)

end
