(* ===== verification/RunLoop.thy ===== *)
theory RunLoop
  imports StepSafety
begin

section \<open>The run: plan, execute the steps, replan, recover\<close>

text \<open>
  \<open>AgentRuntime.run\<close>, \<open>_run_once\<close>, \<open>_auto_recover\<close>, \<open>create_queued_run\<close>, \<open>resume\<close> and
  \<open>recover\<close> of \<open>runtime.py\<close>. One turn of the planning loop is \<open>round\<close>: the Planner answers
  (\<open>planned\<close>), the two guards look at the plan (\<open>guard_plan\<close>), the plan is stored and its steps
  run in order (\<open>do_steps\<close>), and a replan request either starts another round or ends the run.
  The rounds are counted against the replan budget and the recoveries against theirs, which is why
  both loops end. A task's budget was validated, so the budgets' constructors do not raise.
\<close>

subsection \<open>Scope and loop variables\<close>

record run_scope =
  ro_run :: str
  ro_user :: str
  ro_task :: task
  ro_deadline :: int

text \<open>\<open>pa_prints\<close> holds a fingerprint once for every time a plan with it was accepted.\<close>

record pass_state =
  pa_task :: task
  pa_context :: tool_context
  pa_revision :: int
  pa_replans :: int
  pa_prints :: "str list"
  pa_source :: "(execution_plan \<times> str) option"

definition ro_max_replans :: "run_scope \<Rightarrow> int" where
  "ro_max_replans ro = ab_replans (tk_budget (ro_task ro))"

definition result_of :: "str \<Rightarrow> run_status \<Rightarrow> str option \<Rightarrow> str option \<Rightarrow> run_result" where
  "result_of run status summary error =
     \<lparr>re_run = run, re_status = status, re_summary = summary, re_error = error, re_reason = None\<rparr>"

subsection \<open>Planning\<close>

definition planner_contract :: "str option \<Rightarrow> terminal_contract" where
  "planner_contract code = build_terminal_contract code [] ''planner'' ''planning'' False 0 None"

definition finish_planner_waiting ::
  "str \<Rightarrow> str option \<Rightarrow> string \<Rightarrow> str option \<Rightarrow> terminal_contract option \<Rightarrow> store \<Rightarrow> run_result \<times> store" where
  "finish_planner_waiting run question event_type error contract db =
     (result_of run WaitingUser question error,
      append_event run event_type
        (pause_payload question (case contract of Some c \<Rightarrow> c | None \<Rightarrow> planner_contract error))
        (finish_run run WaitingUser question error db))"

definition finish_planner_invalid_model :: "str \<Rightarrow> store \<Rightarrow> run_result \<times> store" where
  "finish_planner_invalid_model run db =
     finish_planner_waiting run (Some planner_invalid_msg) ''planner_needs_user'' None None db"

definition finish_planner_non_plan :: "str \<Rightarrow> planner_result \<Rightarrow> store \<Rightarrow> run_result \<times> store" where
  "finish_planner_non_plan run p db =
     (if pr_status p = PlanNeedsUser then
        finish_planner_waiting run (pr_question p) ''planner_needs_user'' (pr_error p)
          (Some (planner_contract (Some (if present (pr_error p) then the (pr_error p) else lit ''need_user'')))) db
      else if pr_error p = Some wall_clock_code then
        finish_planner_waiting run (Some planner_wall_msg) ''planner_budget_exhausted''
          (Some wall_clock_code) None db
      else let code = (if present (pr_error p) then the (pr_error p) else lit ''planner_failed'')
        in (result_of run Failed None (Some code),
            append_event run ''run_failed''
              (dmerge [(lit ''error_code'', JStr code)] (as_payload (planner_contract (Some code))))
              (finish_run run Failed None (Some code) db)))"

definition seeded_fallback_payload :: "execution_plan \<Rightarrow> dict" where
  "seeded_fallback_payload p =
     [(lit ''reason'', JStr (lit ''invalid_model_response'')),
      (lit ''step_count'', JInt (int (length (ep_steps p))))]"

text \<open>The plan the Planner gives, or the end of the run.\<close>

definition planned ::
  "env \<Rightarrow> run_scope \<Rightarrow> pass_state \<Rightarrow> rt \<Rightarrow> (run_result + execution_plan) \<times> tool_context \<times> rt" where
  "planned env ro pa r =
     (let a = en_planner env (pa_task pa) (pa_context pa) (rt_pos r);
          r0 = agent_call (ro_run ro) a r; c = (pa_context pa)\<lparr>tx_meta := aa_meta a\<rparr>;
          over = (\<lambda>(out, db). (Inl out, c, r0\<lparr>rt_db := db\<rparr>))
      in case aa_result a of
           Inl code \<Rightarrow>
             if code = lit ''invalid_model_response'' then
               (case en_fallback env (pa_task pa) of
                  Some p \<Rightarrow> (Inr p, c, on_db (append_event (ro_run ro) ''planner_seeded_fallback''
                              (seeded_fallback_payload p)) r0)
                | None \<Rightarrow> over (finish_planner_invalid_model (ro_run ro) (rt_db r0)))
             else over (fail_run (ro_run ro) code (rt_db r0))
         | Inr p \<Rightarrow>
             (case (pr_status p, pr_plan p) of
                (PlanMade, Some plan) \<Rightarrow> (Inr plan, c, r0)
              | _ \<Rightarrow> over (finish_planner_non_plan (ro_run ro) p (rt_db r0))))"

text \<open>\<open>re.sub(r"<[a-z_]+>", "", text)\<close>\<close>

definition marker_char :: "int \<Rightarrow> bool" where
  "marker_char c \<longleftrightarrow> (97 \<le> c \<and> c \<le> 122) \<or> c = 95"

function strip_markers :: "str \<Rightarrow> str" where
  "strip_markers [] = []"
| "strip_markers (c # cs) =
     (let name = takeWhile marker_char cs; rest = dropWhile marker_char cs in
      if c = 60 \<and> name \<noteq> [] \<and> rest \<noteq> [] \<and> hd rest = 62 then strip_markers (tl rest)
      else c # strip_markers cs)"
  by pat_completeness auto
termination
proof (relation "measure length", goal_cases)
  case (2 c cs x y)
  have "length (tl (dropWhile marker_char cs)) \<le> length cs"
    using length_dropWhile_le [of marker_char cs] by simp
  then show ?case using 2 by simp
qed auto

definition guard_contract :: dict where
  "guard_contract = as_payload (planner_contract (Some (lit ''repeated_plan_fingerprint'')))"

definition oscillates :: "run_scope \<Rightarrow> pass_state \<Rightarrow> execution_plan \<Rightarrow> str option" where
  "oscillates ro pa plan =
     (case pa_source pa of
        Some (source, feedback) \<Rightarrow>
          if 2 \<le> ro_max_replans ro \<and> ro_max_replans ro \<le> pa_replans pa \<and> plans_isomorphic source plan
          then Some feedback else None
      | None \<Rightarrow> None)"

definition duplicates :: "pass_state \<Rightarrow> execution_plan \<Rightarrow> bool" where
  "duplicates pa plan \<longleftrightarrow> 2 \<le> length (filter (\<lambda>f. f = plan_fingerprint plan) (pa_prints pa))"

definition guard_plan :: "run_scope \<Rightarrow> pass_state \<Rightarrow> execution_plan \<Rightarrow> store \<Rightarrow> (run_result \<times> store) option" where
  "guard_plan ro pa plan db =
     (let run = ro_run ro in
      case oscillates ro pa plan of
        Some feedback \<Rightarrow>
          (let question = strip (strip_markers feedback) in
           Some (result_of run WaitingUser (Some question) None,
             append_event run ''replan_isomorphic_guard''
               (dmerge [(lit ''feedback'', JStr feedback)] guard_contract)
               (finish_run run WaitingUser (Some question) None db)))
      | None \<Rightarrow>
          if duplicates pa plan then
            Some (result_of run WaitingUser (Some duplicate_plan_msg) None,
              append_event run ''replan_duplicate_guard''
                (dmerge [(lit ''reason_code'', JStr (lit ''repeated_plan_fingerprint''))] guard_contract)
                (finish_run run WaitingUser (Some duplicate_plan_msg) None db))
          else None)"

definition store_plan :: "run_scope \<Rightarrow> int \<Rightarrow> execution_plan \<Rightarrow> store \<Rightarrow> str \<times> store" where
  "store_plan ro revision plan db =
     (let db1 = set_run_complexity (ro_run ro) (ep_complexity plan) db;
          (row, db2) = create_plan (ro_run ro) revision (ep_complexity plan) (plan_json plan) db1
      in (pl_id row, append_event (ro_run ro) ''plan_created''
            [(lit ''revision'', JInt revision), (lit ''complexity'', JStr (level_value (ep_complexity plan))),
             (lit ''step_count'', JInt (int (length (ep_steps plan))))] db2))"

subsection \<open>The steps of a plan\<close>

record steps_state =
  sv_task :: task
  sv_context :: tool_context
  sv_outputs :: step_outputs
  sv_summary :: "str option"
  sv_rt :: rt

datatype step_end =
    NextStep steps_state
  | NeedReplan str replan_reason tool_context rt
  | RunOver run_result rt

definition step_refs :: "store \<Rightarrow> str \<Rightarrow> dict list" where
  "step_refs db step = (case find_step db step of
     Some s \<Rightarrow> (case st_refs s of Some refs \<Rightarrow> refs | None \<Rightarrow> []) | None \<Rightarrow> [])"

definition tag_row :: "plan_step \<Rightarrow> str \<Rightarrow> store \<Rightarrow> dict list \<times> store" where
  "tag_row s step db =
     (let tagged = tag_step_outputs s (step_refs db step)
      in (tagged, update_step step (\<lambda>q. q\<lparr>st_refs := Some tagged\<rparr>) db))"

definition dependency_payload :: "int \<Rightarrow> plan_step \<Rightarrow> str \<Rightarrow> dict" where
  "dependency_payload sequence s error =
     [(lit ''sequence'', JInt sequence), (lit ''step_id'', JStr (ps_id s)),
      (lit ''depends_on'', strs (ps_depends s)), (lit ''inputs'', JArr (map input_ref_json (ps_inputs s))),
      (lit ''error'', JStr error)]"

text \<open>The checks before the Executor is called; \<open>Inl\<close> is the \<open>StepDependencyError\<close>.\<close>

definition checked_inputs :: "env \<Rightarrow> steps_state \<Rightarrow> plan_step \<Rightarrow> str + (task \<times> tool_context \<times> bool)" where
  "checked_inputs env sv s =
     (case validate_step_ports (en_skills env) s of
        Some e \<Rightarrow> if e \<noteq> [] then Inl e else prepare_step_inputs (sv_task sv) (sv_context sv) s (sv_outputs sv)
      | None \<Rightarrow> prepare_step_inputs (sv_task sv) (sv_context sv) s (sv_outputs sv))"

text \<open>The context of the run after the step worked on it, or on a copy that shares its hash list.\<close>

definition context_after :: "tool_context \<Rightarrow> bool \<Rightarrow> dict \<Rightarrow> tool_context" where
  "context_after c copied meta =
     c\<lparr>tx_meta := (if copied then share_hashes meta (tx_meta c) else meta)\<rparr>"

definition execute_step ::
  "env \<Rightarrow> run_scope \<Rightarrow> execution_plan \<Rightarrow> int \<Rightarrow> steps_state \<Rightarrow> plan_step \<Rightarrow> step_row \<Rightarrow> rt
    \<Rightarrow> run_result \<times> tool_context \<times> rt" where
  "execute_step env ro plan replans sv s row r =
     (case checked_inputs env sv s of
        Inl error \<Rightarrow>
          (let db1 = append_event (ro_run ro) ''step_dependency_gate_failed''
                 (dependency_payload (st_sequence row) s error) (rt_db r);
               (out, db2) = request_replan (ro_run ro) row (Some error) error [] DependencyUnavailable db1
           in (out, sv_context sv, r\<lparr>rt_db := db2\<rparr>))
      | Inr (t, c, copied) \<Rightarrow>
          (let sc = \<lparr>sc_run = ro_run ro, sc_user = tx_user c, sc_task = t, sc_row = row, sc_plan = plan,
                     sc_step = s, sc_deadline = ro_deadline ro, sc_replans = replans, sc_seeded = []\<rparr>;
               (out, meta, r1) = run_step env sc t c r
           in (out, context_after (sv_context sv) copied meta, r1)))"

definition kept_strings :: "json \<Rightarrow> json" where
  "kept_strings v = strs (sort (texts_of v))"

definition carried_context :: "dict \<Rightarrow> dict \<Rightarrow> dict" where
  "carried_context meta context =
     (let blocked = dget_or meta (lit ''blocked_public_domains'') (JArr []);
          hashes = dget_or meta (lit ''public_search_query_hashes'') (JArr []);
          c1 = (if is_list blocked \<and> truthy blocked
                then dput (lit ''blocked_public_domains'') (kept_strings blocked) context else context)
      in if is_list hashes \<and> truthy hashes
         then dput (lit ''public_search_query_hashes'') (kept_strings hashes) c1 else c1)"

definition after_success ::
  "run_scope \<Rightarrow> steps_state \<Rightarrow> plan_step \<Rightarrow> str \<Rightarrow> run_result \<Rightarrow> tool_context \<Rightarrow> rt \<Rightarrow> steps_state" where
  "after_success ro sv s step out c r =
     (let (tagged, db) = tag_row s step (rt_db r);
          t = (sv_task sv)\<lparr>tk_context := carried_context (tx_meta c) (tk_context (sv_task sv))\<rparr>;
          t' = with_observed_public_evidence db t (ro_run ro)
      in \<lparr>sv_task = t', sv_context = run_tool_context (ro_user ro) (ro_run ro) t' db,
          sv_outputs = (ps_id s, tagged) # sv_outputs sv,
          sv_summary = (if present (re_summary out) then re_summary out else sv_summary sv),
          sv_rt = r\<lparr>rt_db := db\<rparr>\<rparr>)"

definition negative_success :: "run_scope \<Rightarrow> plan_step \<Rightarrow> str \<Rightarrow> run_result \<Rightarrow> rt \<Rightarrow> run_result \<times> rt" where
  "negative_success ro s step out r =
     (let db1 = snd (tag_row s step (rt_db r));
          db2 = finish_run (ro_run ro) Succeeded (re_summary out) None db1
      in (result_of (ro_run ro) Succeeded (re_summary out) None,
          r\<lparr>rt_db := append_event (ro_run ro) ''run_succeeded''
             [(lit ''summary'', opt_text (re_summary out)),
              (lit ''reason'', JStr (lit ''terminal_negative_discovery_succeeded''))] db2\<rparr>))"

definition do_step ::
  "env \<Rightarrow> run_scope \<Rightarrow> execution_plan \<Rightarrow> str \<Rightarrow> int \<Rightarrow> int \<Rightarrow> int \<Rightarrow> plan_step \<Rightarrow> steps_state \<Rightarrow> step_end" where
  "do_step env ro plan plan_id revision replans sequence s sv =
     (let r = sv_rt sv;
          (row, db1) = create_step (ro_run ro) plan_id sequence (ps_objective s) (ps_skills s) (rt_db r);
          db2 = (if sequence = 1 \<and> revision = 1
                 then persist_seeded_public_evidence (ro_run ro) row (sv_task sv) db1 else db1);
          (out, c, r1) = execute_step env ro plan replans sv s row (r\<lparr>rt_db := db2\<rparr>)
      in if re_error out = Some terminal_negative_code then
           (let (res, r2) = negative_success ro s (st_id row) out r1 in RunOver res r2)
         else if re_error out = Some replan_required then
           NeedReplan (opt_str (re_summary out))
             (case re_reason out of Some q \<Rightarrow> q | None \<Rightarrow> VerifierReplan) c r1
         else if re_status out \<noteq> Running then RunOver out r1
         else NextStep (after_success ro sv s (st_id row) out c r1))"

fun do_steps ::
  "env \<Rightarrow> run_scope \<Rightarrow> execution_plan \<Rightarrow> str \<Rightarrow> int \<Rightarrow> int \<Rightarrow> int \<Rightarrow> plan_step list \<Rightarrow> steps_state
    \<Rightarrow> step_end \<times> steps_state" where
  "do_steps env ro plan plan_id revision replans sequence [] sv = (NextStep sv, sv)"
| "do_steps env ro plan plan_id revision replans sequence (s # ss) sv =
     (case do_step env ro plan plan_id revision replans sequence s sv of
        NextStep sv' \<Rightarrow> do_steps env ro plan plan_id revision replans (sequence + 1) ss sv'
      | e \<Rightarrow> (e, sv))"

subsection \<open>Replanning\<close>

definition replans_exhausted :: "run_scope \<Rightarrow> str \<Rightarrow> store \<Rightarrow> run_result \<times> store" where
  "replans_exhausted ro feedback db =
     (let question = (if feedback \<noteq> [] then feedback else replans_exhausted_msg);
          code = lit ''replan_budget_exhausted'';
          c = build_terminal_contract (Some code) [] ''runtime'' ''planning'' False 0 None
      in (result_of (ro_run ro) WaitingUser (Some question) (Some code),
          append_event (ro_run ro) ''run_needs_user'' (pause_payload (Some question) c)
            (finish_run (ro_run ro) WaitingUser (Some question) (Some code) db)))"

definition replanned_task :: "run_scope \<Rightarrow> task \<Rightarrow> str \<Rightarrow> replan_reason \<Rightarrow> int \<Rightarrow> int \<Rightarrow> task" where
  "replanned_task ro t feedback reason revision replans =
     (let state = requested (tk_replan t) reason (Some feedback) (Some revision) (Some replans)
      in (ro_task ro)\<lparr>tk_context := dput (lit ''replan_state'') (replan_state_json state)
            (add_feedback feedback (tk_context t)), tk_replan := state\<rparr>)"

datatype round_end = Over run_result rt | Again2 pass_state rt

definition succeed_run :: "run_scope \<Rightarrow> str option \<Rightarrow> store \<Rightarrow> run_result \<times> store" where
  "succeed_run ro summary db =
     (result_of (ro_run ro) Succeeded summary None,
      append_event (ro_run ro) ''run_succeeded'' [(lit ''summary'', opt_text summary)]
        (finish_run (ro_run ro) Succeeded summary None db))"

text \<open>What follows the steps of a plan.\<close>

definition after_steps ::
  "run_scope \<Rightarrow> pass_state \<Rightarrow> execution_plan \<Rightarrow> step_end \<times> steps_state \<Rightarrow> round_end" where
  "after_steps ro pa plan ends =
     (case ends of
        (RunOver out r, _) \<Rightarrow> Over out r
      | (NextStep sv, _) \<Rightarrow>
          (let (out, db) = succeed_run ro (sv_summary sv) (rt_db (sv_rt sv))
           in Over out ((sv_rt sv)\<lparr>rt_db := db\<rparr>))
      | (NeedReplan feedback reason c r, sv) \<Rightarrow>
          (let replans = pa_replans pa + 1 in
           if ro_max_replans ro < replans then
             (let (out, db) = replans_exhausted ro feedback (rt_db r) in Over out (r\<lparr>rt_db := db\<rparr>))
           else Again2 (pa\<lparr>pa_task := replanned_task ro (sv_task sv) feedback reason (pa_revision pa) replans,
                   pa_context := c, pa_replans := replans, pa_source := Some (plan, feedback)\<rparr>) r))"

definition round :: "env \<Rightarrow> run_scope \<Rightarrow> pass_state \<Rightarrow> rt \<Rightarrow> round_end" where
  "round env ro pa r =
     (case planned env ro pa r of
        (Inl out, _, r1) \<Rightarrow> Over out r1
      | (Inr plan, c, r1) \<Rightarrow>
          (case guard_plan ro pa plan (rt_db r1) of
             Some (out, db) \<Rightarrow> Over out (r1\<lparr>rt_db := db\<rparr>)
           | None \<Rightarrow>
               (let revision = pa_revision pa + 1;
                    (plan_id, db) = store_plan ro revision plan (rt_db r1);
                    pa1 = pa\<lparr>pa_context := c, pa_revision := revision, pa_source := None,
                             pa_prints := plan_fingerprint plan # pa_prints pa\<rparr>;
                    sv = \<lparr>sv_task = pa_task pa, sv_context = c, sv_outputs = [], sv_summary = None,
                          sv_rt = r1\<lparr>rt_db := db\<rparr>\<rparr>
                in after_steps ro pa1 plan
                     (do_steps env ro plan plan_id revision (pa_replans pa) 1 (ep_steps plan) sv))))"

lemma after_steps_again:
  "after_steps ro pa plan ends = Again2 pa' r' \<Longrightarrow>
   pa_replans pa' = pa_replans pa + 1 \<and> pa_replans pa' \<le> ro_max_replans ro"
  by (auto simp: after_steps_def Let_def split_beta split: step_end.splits prod.splits if_splits)

lemma round_again:
  assumes "round env ro pa r = Again2 pa' r'"
  shows "pa_replans pa' = pa_replans pa + 1" and "pa_replans pa' \<le> ro_max_replans ro"
  using assms
  by (auto simp: round_def Let_def split_beta split: sum.splits prod.splits option.splits
      dest!: after_steps_again)

definition round_order :: "((env \<times> run_scope \<times> pass_state \<times> rt) \<times> (env \<times> run_scope \<times> pass_state \<times> rt)) set" where
  "round_order = measure (\<lambda>(env, ro, pa, r). nat (ro_max_replans ro - pa_replans pa))"

lemma wf_round_order [simp]: "wf round_order"
  by (simp add: round_order_def)

lemma round_order_again:
  "round env ro pa r = Again2 pa' r' \<Longrightarrow> ((env, ro, pa', r'), env, ro, pa, r) \<in> round_order"
  using round_again [of env ro pa r pa' r'] by (simp add: round_order_def)

function plan_loop :: "env \<Rightarrow> run_scope \<Rightarrow> pass_state \<Rightarrow> rt \<Rightarrow> run_result \<times> rt" where
  "plan_loop env ro pa r =
     (case round env ro pa r of
        Over out r' \<Rightarrow> (out, r')
      | Again2 pa' r' \<Rightarrow> plan_loop env ro pa' r')"
  by pat_completeness auto
termination
  by (relation round_order) (simp, rule round_order_again)

declare plan_loop.simps [simp del]

subsection \<open>One pass over a run\<close>

definition pass_budgets :: "agent_budget \<Rightarrow> store \<Rightarrow> str \<Rightarrow> bool \<Rightarrow> rt \<Rightarrow> rt" where
  "pass_budgets b db run fresh r =
     (let (requests, input_used, output_used) = model_usage_totals db run
      in r\<lparr>rt_tools := the (make_tool_budget (ab_tools b) (if fresh then 0 else count_tool_decisions db run)),
           rt_turns := the (make_turn_budget (ab_turns b) (if fresh then 0 else count_turns db run)),
           rt_model := the (make_model_budget (ab_requests b) (ab_input b) (ab_output b) requests
              input_used output_used),
           rt_indices := turn_indices_by_role db run\<rparr>)"

definition started :: "env \<Rightarrow> str \<Rightarrow> store \<Rightarrow> store" where
  "started env run db =
     append_event run ''run_started'' [(lit ''agent_version'', JStr (en_version env))] (start_run run db)"

definition run_row_of ::
  "env \<Rightarrow> str \<Rightarrow> task \<Rightarrow> str option \<Rightarrow> store \<Rightarrow> str \<times> store" where
  "run_row_of env user t existing db =
     (case existing of
        Some run \<Rightarrow> (run, db)
      | None \<Rightarrow> (let (row, db1) = create_run user (tk_goal t) (tk_skills t) (tk_context t) (tk_budget t)
                      (en_version env) db
                 in (rr_id row, db1)))"

definition is_queued :: "store \<Rightarrow> str \<Rightarrow> bool" where
  "is_queued db run = (case find_run db run of Some q \<Rightarrow> rr_status q = Queued | None \<Rightarrow> False)"

definition run_once ::
  "env \<Rightarrow> str \<Rightarrow> task \<Rightarrow> str option \<Rightarrow> rt \<Rightarrow> run_result \<times> rt" where
  "run_once env user t0 existing r =
     (let t1 = compile_task_context t0;
          (run, db0) = run_row_of env user t1 existing (rt_db r);
          fresh = is_queued db0 run;
          db1 = (if fresh then started env run db0 else db0);
          revision = (if fresh then 0 else count_plans db1 run);
          t = (if fresh then t1 else with_observed_public_evidence db1 t1 run);
          ro = \<lparr>ro_run = run, ro_user = user, ro_task = t,
                ro_deadline = rt_clock r + ab_wall (tk_budget t)\<rparr>;
          pa = \<lparr>pa_task = t, pa_context = run_tool_context user run t db1, pa_revision = revision,
                pa_replans = max 0 (max (revision - 1) (rs_count (tk_replan t))),
                pa_prints = map (\<lambda>p. plan_fingerprint_json (pl_json p)) (list_plans db1 run),
                pa_source = None\<rparr>
      in plan_loop env ro pa (pass_budgets (tk_budget t) db1 run fresh (r\<lparr>rt_db := db1\<rparr>)))"

subsection \<open>Auto-recovery\<close>

definition auto_recovery_pause_types :: "str set" where
  "auto_recovery_pause_types = lit ` {''run_needs_user'', ''planner_needs_user'', ''planner_budget_exhausted''}"

definition auto_recovery_eligible_reasons :: "string list" where
  "auto_recovery_eligible_reasons =
     [''need_user'', ''verification_failed'', ''no_progress_duplicate'', ''invalid_model_response'',
      ''wall_clock_budget_exhausted'', ''route_already_consumed'', ''candidate_urls_already_supplied'',
      ''target_evidence_not_found'', ''target_role_mismatch'', ''target_source_mismatch'']"

definition last_needs_user_contract :: "store \<Rightarrow> str \<Rightarrow> dict option" where
  "last_needs_user_contract db run =
     (case find (\<lambda>e. ev_type e \<in> auto_recovery_pause_types) (rev (sort_key ev_seq (events_of db run))) of
        None \<Rightarrow> None
      | Some e \<Rightarrow> if dget (ev_payload e) (lit ''contract_version'') = JStr (lit ''terminal.v1'')
                  then Some (ev_payload e) else None)"

definition auto_recovery_eligible :: "dict \<Rightarrow> bool" where
  "auto_recovery_eligible c =
     (if dget c (lit ''resumable'') = JBool False then False
      else if (case dget c (lit ''evidence'') of
                 JObj ev \<Rightarrow> dget ev (lit ''blocked'') = JBool True | _ \<Rightarrow> False) then False
      else json_in (dget c (lit ''reason_code'')) auto_recovery_eligible_reasons)"

text \<open>\<open>min(cap, max(1, int(value * (1 + 0.5 * (attempts + 1)))))\<close>; the product is exact in floats.\<close>

definition scale_budget :: "int \<Rightarrow> int \<Rightarrow> int \<Rightarrow> int" where
  "scale_budget attempts value cap = min cap (max 1 (value * (attempts + 3) div 2))"

definition upgraded_budget :: "agent_budget \<Rightarrow> int \<Rightarrow> agent_budget" where
  "upgraded_budget b k =
     \<lparr>ab_turns = scale_budget k (ab_turns b) 100, ab_tools = scale_budget k (ab_tools b) 200,
      ab_replans = scale_budget k (ab_replans b) 10, ab_wall = scale_budget k (ab_wall b) 3600,
      ab_recoveries = ab_recoveries b, ab_requests = scale_budget k (ab_requests b) 500,
      ab_input = scale_budget k (ab_input b) 2000000, ab_output = scale_budget k (ab_output b) 500000\<rparr>"

text \<open>
  \<open>int(raw)\<close>, with 0 where it raises \<open>TypeError\<close> or \<open>ValueError\<close>: a text is an optional sign and
  decimal digits that single underscores may separate; a float drops its fraction. (A float that
  \<open>repr\<close> writes with an exponent is at least \<open>10^16\<close>, which stands for it here, or below \<open>1\<close>.)
\<close>

definition int_or_zero :: "json \<Rightarrow> int" where
  "int_or_zero v =
     (case v of
        JInt i \<Rightarrow> i
      | JBool b \<Rightarrow> (if b then 1 else 0)
      | JStr s \<Rightarrow> (case signed_text (strip s) of Some n \<Rightarrow> n | None \<Rightarrow> 0)
      | JFloat s \<Rightarrow> float_int s
      | _ \<Rightarrow> 0)"

definition attempts_used :: "task \<Rightarrow> int" where
  "attempts_used t = max 0 (int_or_zero (dget (tk_context t) (lit ''auto_recovery_attempts'')))"

definition recovery_feedback :: "run_row \<Rightarrow> str" where
  "recovery_feedback q = take 2000 (strip (opt_str (rr_summary q)))"

definition upgraded_task :: "env \<Rightarrow> task \<Rightarrow> str \<Rightarrow> task" where
  "upgraded_task env t feedback =
     (let k = attempts_used t;
          c1 = dput (lit ''auto_recovery_attempts'') (JInt (k + 1)) (tk_context t);
          c2 = (if feedback \<noteq> [] then dput (lit ''auto_recovery_feedback'') (JStr feedback) c1 else c1);
          c3 = dput (lit ''max_consecutive_stalls'') (JInt (en_max_stalls env + k + 1)) c2
      in t\<lparr>tk_context := c3, tk_budget := upgraded_budget (tk_budget t) k\<rparr>)"

text \<open>The task and the store of the next pass, when the pause is one the harness may resume.\<close>

definition auto_recover_step :: "env \<Rightarrow> task \<Rightarrow> run_result \<Rightarrow> store \<Rightarrow> (task \<times> store) option" where
  "auto_recover_step env t out db =
     (if re_status out \<noteq> WaitingUser then None
      else if ab_recoveries (tk_budget t) \<le> attempts_used t then None
      else case find_run db (re_run out) of
          None \<Rightarrow> None
        | Some q \<Rightarrow>
            (case last_needs_user_contract db (rr_id q) of
               None \<Rightarrow> None
             | Some c \<Rightarrow>
                 if \<not> auto_recovery_eligible c then None
                 else let feedback = recovery_feedback q in
                   Some (upgraded_task env t feedback,
                     append_event (rr_id q) ''run_auto_recovered''
                       [(lit ''attempt'', JInt (attempts_used t + 1)),
                        (lit ''reason_code'', dget c (lit ''reason_code'')),
                        (lit ''feedback'', JStr (take 1000 feedback))]
                       (start_run (rr_id q) db))))"

lemma int_or_zero_JInt [simp]: "int_or_zero (JInt i) = i"
  by (simp add: int_or_zero_def)

lemma attempts_upgraded: "attempts_used (upgraded_task env t feedback) = attempts_used t + 1"
  by (simp add: upgraded_task_def attempts_used_def Let_def)

lemma recoveries_upgraded [simp]:
  "ab_recoveries (tk_budget (upgraded_task env t feedback)) = ab_recoveries (tk_budget t)"
  by (simp add: upgraded_task_def upgraded_budget_def Let_def)

lemma auto_recover_step_Some:
  assumes "auto_recover_step env t out db = Some (t', db')"
  shows "attempts_used t < ab_recoveries (tk_budget t)" and "attempts_used t' = attempts_used t + 1"
    and "ab_recoveries (tk_budget t') = ab_recoveries (tk_budget t)" and "re_status out = WaitingUser"
  using assms
  by (auto simp: auto_recover_step_def Let_def attempts_upgraded split: if_splits option.splits)

definition recovery_order :: "((env \<times> str \<times> task \<times> str option \<times> rt) \<times> (env \<times> str \<times> task \<times> str option \<times> rt)) set" where
  "recovery_order = measure (\<lambda>(env, user, t, e, r). nat (ab_recoveries (tk_budget t) - attempts_used t))"

lemma wf_recovery_order [simp]: "wf recovery_order"
  by (simp add: recovery_order_def)

lemma recovery_order_again:
  "auto_recover_step env t out db = Some (t', db') \<Longrightarrow>
   ((env, user, t', e', r'), env, user, t, e, r) \<in> recovery_order"
  using auto_recover_step_Some [of env t out db t' db'] by (simp add: recovery_order_def)

function run_agent :: "env \<Rightarrow> str \<Rightarrow> task \<Rightarrow> str option \<Rightarrow> rt \<Rightarrow> run_result \<times> rt" where
  "run_agent env user t existing r =
     (let (out, r1) = run_once env user t existing r in
      case auto_recover_step env t out (rt_db r1) of
        None \<Rightarrow> (out, r1)
      | Some (t', db) \<Rightarrow> run_agent env user t' (Some (re_run out)) (r1\<lparr>rt_db := db\<rparr>))"
  by pat_completeness auto
termination
  by (relation recovery_order) (auto intro: recovery_order_again)

declare run_agent.simps [simp del]

subsection \<open>Queueing, resuming and recovering a run\<close>

datatype runtime_error = RunNotFound | NotWaitingUser | NotRunning | NotQueued

definition create_queued_run :: "env \<Rightarrow> str \<Rightarrow> task \<Rightarrow> store \<Rightarrow> run_row \<times> store" where
  "create_queued_run env user t db =
     create_run user (tk_goal t) (tk_skills t) (tk_context t) (tk_budget t) (en_version env) db"

definition resume :: "env \<Rightarrow> str \<Rightarrow> str \<Rightarrow> task \<Rightarrow> rt \<Rightarrow> (runtime_error + run_result) \<times> rt" where
  "resume env user run_id t r =
     (case get_run_for_owner (rt_db r) run_id user of
        None \<Rightarrow> (Inl RunNotFound, r)
      | Some q \<Rightarrow>
          if rr_status q \<noteq> WaitingUser then (Inl NotWaitingUser, r)
          else let db = append_event (rr_id q) ''run_resumed''
                     [(lit ''user_response_received'', JBool True)] (start_run (rr_id q) (rt_db r));
                   (out, r') = run_agent env user t (Some (rr_id q)) (r\<lparr>rt_db := db\<rparr>)
               in (Inr out, r'))"

definition recover :: "env \<Rightarrow> str \<Rightarrow> str \<Rightarrow> task \<Rightarrow> rt \<Rightarrow> (runtime_error + run_result) \<times> rt" where
  "recover env user run_id t r =
     (case get_run_for_owner (rt_db r) run_id user of
        None \<Rightarrow> (Inl RunNotFound, r)
      | Some q \<Rightarrow>
          if rr_status q \<noteq> Running then (Inl NotRunning, r)
          else let db = append_event (rr_id q) ''run_recovery_started''
                     [(lit ''strategy'', JStr (lit ''replan_from_durable_evidence''))] (rt_db r);
                   (out, r') = run_agent env user t (Some (rr_id q)) (r\<lparr>rt_db := db\<rparr>)
               in (Inr out, r'))"

end
