(* ===== verification/RunSafety.thy ===== *)
theory RunSafety
  imports RunLoop
begin

section \<open>What a run guarantees\<close>

text \<open>
  Lemmas over the planning loop and the run: what a pass may change in the store, the status it
  leaves, how many plans it stores, and that a run only succeeds through steps that succeeded.
\<close>

subsection \<open>What a pass may change\<close>

definition store_frame :: "str \<Rightarrow> store \<Rightarrow> store \<Rightarrow> bool" where
  "store_frame run db db' \<longleftrightarrow>
     (\<forall>k. k \<noteq> run \<longrightarrow> find_run db' k = find_run db k)
     \<and> map rr_id (so_runs db') = map rr_id (so_runs db)
     \<and> map rr_user (so_runs db') = map rr_user (so_runs db)
     \<and> appended (\<lambda>p. pl_run p = run) (so_plans db) (so_plans db')
     \<and> appended (\<lambda>e. ev_run e = run) (so_events db) (so_events db')
     \<and> appended (\<lambda>a. ar_run a = run) (so_artifacts db) (so_artifacts db')
     \<and> appended (\<lambda>t. tr_run t = run) (so_turns db) (so_turns db')
     \<and> (\<forall>q. log_ok db q \<longrightarrow> log_ok db' q)
     \<and> (artifacts_ok db \<longrightarrow> artifacts_ok db')
     \<and> (ids_ok db \<longrightarrow> ids_ok db')"

definition run_frame :: "str \<Rightarrow> rt \<Rightarrow> rt \<Rightarrow> bool" where
  "run_frame run r r' \<longleftrightarrow> store_frame run (rt_db r) (rt_db r') \<and> budgets_kept r r'"

definition pass_moves :: "str \<Rightarrow> rt \<Rightarrow> rt \<Rightarrow> bool" where
  "pass_moves run r r' \<longleftrightarrow> run_frame run r r' \<and>
     (ids_ok (rt_db r) \<longrightarrow> (\<forall>k s. find_step (rt_db r) k = Some s \<longrightarrow> find_step (rt_db r') k = Some s))"

lemma store_frame_refl [simp, intro]: "store_frame run db db"
  by (simp add: store_frame_def)

lemma store_frame_trans [trans]: "store_frame run a b \<Longrightarrow> store_frame run b c \<Longrightarrow> store_frame run a c"
  unfolding store_frame_def by (elim conjE, intro conjI) (simp_all, (erule (1) appended_trans)+)

lemma store_frame_ids: "store_frame run a b \<Longrightarrow> ids_ok a \<Longrightarrow> ids_ok b"
  by (simp add: store_frame_def)

lemma run_frame_refl [simp, intro]: "run_frame run r r"
  by (simp add: run_frame_def)

lemma run_frame_trans: "run_frame run a b \<Longrightarrow> run_frame run b c \<Longrightarrow> run_frame run a c"
  unfolding run_frame_def by (blast intro: store_frame_trans budgets_kept_trans)

lemma run_frame_ids: "run_frame run a b \<Longrightarrow> ids_ok (rt_db a) \<Longrightarrow> ids_ok (rt_db b)"
  using store_frame_ids unfolding run_frame_def by blast

lemma run_frame_step: "step_moves run sid a b \<Longrightarrow> run_frame run a b"
  unfolding step_moves_def run_frame_def store_frame_def by (elim conjE, intro conjI) simp_all

lemma pass_moves_refl [simp, intro]: "pass_moves run r r"
  by (simp add: pass_moves_def)

lemma pass_moves_trans [trans]: "pass_moves run a b \<Longrightarrow> pass_moves run b c \<Longrightarrow> pass_moves run a c"
  unfolding pass_moves_def using run_frame_trans run_frame_ids by blast

lemma pass_of_moves:
  assumes "step_moves run s r r'" and "find_step (rt_db r') s = find_step (rt_db r) s"
  shows "pass_moves run r r'"
proof -
  have "find_step (rt_db r') k = find_step (rt_db r) k" for k
    using assms by (cases "k = s") (simp_all add: step_moves_def)
  then show ?thesis using run_frame_step [OF assms(1)] by (simp add: pass_moves_def)
qed

lemma pass_of_grows: "grows run r r' \<Longrightarrow> pass_moves run r r'"
  by (rule pass_of_moves [where s = "[]"]) (simp_all add: grows_moves grows_finds)

lemma pass_of_db:
  assumes "\<And>s. db_moves run s (rt_db r) db" and "\<And>k. find_step db k = find_step (rt_db r) k"
  shows "pass_moves run r (r\<lparr>rt_db := db\<rparr>)"
  by (rule pass_of_moves [where s = "[]"]) (simp_all add: db_moves_step [OF assms(1)] assms(2))

lemma pass_close_run:
  "pass_moves run r (r\<lparr>rt_db := append_event run t p (finish_run run st m e (rt_db r))\<rparr>)"
proof (rule pass_of_db)
  show "db_moves run s (rt_db r) (append_event run t p (finish_run run st m e (rt_db r)))" for s
    by (rule db_moves_trans [OF db_moves_finish_run db_moves_append_event])
qed simp

lemma grows_on_event: "grows run r (r\<lparr>rt_db := append_event run t p (rt_db r)\<rparr>)"
  using grows_append_event [of run r t p] by (simp add: on_db_def)

lemma pass_event: "pass_moves run r (r\<lparr>rt_db := append_event run t p (rt_db r)\<rparr>)"
  by (rule pass_of_grows [OF grows_on_event])

lemma pass_via: "pass_moves run r (r\<lparr>rt_db := d1\<rparr>) \<Longrightarrow> pass_moves run (r\<lparr>rt_db := d1\<rparr>) (r\<lparr>rt_db := d2\<rparr>) \<Longrightarrow>
  pass_moves run r (r\<lparr>rt_db := d2\<rparr>)"
  by (rule pass_moves_trans)

subsection \<open>Planning\<close>

lemma non_plan_moves:
  "pass_moves run r (r\<lparr>rt_db := snd (finish_planner_non_plan run p (rt_db r))\<rparr>)"
  by (simp add: finish_planner_non_plan_def finish_planner_waiting_def Let_def pass_close_run)

lemma planned_moves: "pass_moves (ro_run ro) r (snd (snd (planned env ro pa r)))"
proof -
  define a where "a = en_planner env (pa_task pa) (pa_context pa) (rt_pos r)"
  define r0 where "r0 = agent_call (ro_run ro) a r"
  have r0: "pass_moves (ro_run ro) r r0" unfolding r0_def by (rule pass_of_grows) (rule grows_agent_call)
  have "pass_moves (ro_run ro) r0 (snd (snd (planned env ro pa r)))"
  proof (cases "aa_result a")
    case (Inl code)
    then show ?thesis
      using pass_close_run [of "ro_run ro" r0] pass_event [of "ro_run ro" r0]
      by (simp add: planned_def Let_def split_beta on_db_def finish_planner_invalid_model_def
          finish_planner_waiting_def fail_run_def flip: a_def r0_def split: option.splits)
  next
    case (Inr p)
    then show ?thesis
      using non_plan_moves [of "ro_run ro" r0 p]
      by (simp add: planned_def Let_def split_beta flip: a_def r0_def
          split: planner_status.splits option.splits)
  qed
  with r0 show ?thesis by (rule pass_moves_trans)
qed

lemma guard_moves:
  "guard_plan ro pa plan (rt_db r) = Some (out, db) \<Longrightarrow> pass_moves (ro_run ro) r (r\<lparr>rt_db := db\<rparr>)"
  using pass_close_run [of "ro_run ro" r]
  by (auto simp: guard_plan_def Let_def split: option.splits if_splits)

lemma db_moves_complexity: "db_moves run s db (set_run_complexity run level db)"
  unfolding set_run_complexity_def by (rule db_moves_update_run) simp_all

lemma pass_create_plan: "pass_moves run r (r\<lparr>rt_db := snd (create_plan run n l j (rt_db r))\<rparr>)"
proof -
  have "log_ok (snd (create_plan run n l j db)) q = log_ok db q" for db q
    by (rule log_ok_frame) (simp add: create_plan_def Let_def)
  then show ?thesis
    using create_plan_ids [of "rt_db r" run n l j]
    by (simp add: pass_moves_def run_frame_def store_frame_def budgets_kept_same)
       (simp add: create_plan_def Let_def find_run_def find_step_def artifacts_ok_def)
qed

lemma store_plan_moves: "pass_moves (ro_run ro) r (r\<lparr>rt_db := snd (store_plan ro n plan (rt_db r))\<rparr>)"
proof -
  define db1 where "db1 = set_run_complexity (ro_run ro) (ep_complexity plan) (rt_db r)"
  define db2 where "db2 = snd (create_plan (ro_run ro) n (ep_complexity plan) (plan_json plan) db1)"
  have "pass_moves (ro_run ro) r (r\<lparr>rt_db := db1\<rparr>)"
    unfolding db1_def by (rule pass_of_db [OF db_moves_complexity]) (simp add: set_run_complexity_def)
  also have "pass_moves (ro_run ro) (r\<lparr>rt_db := db1\<rparr>) (r\<lparr>rt_db := db2\<rparr>)"
    using pass_create_plan [of "ro_run ro" "r\<lparr>rt_db := db1\<rparr>"] by (simp add: db2_def)
  also have "pass_moves (ro_run ro) \<dots> (r\<lparr>rt_db := snd (store_plan ro n plan (rt_db r))\<rparr>)"
    using pass_event [of "ro_run ro" "r\<lparr>rt_db := db2\<rparr>"]
    by (simp add: store_plan_def Let_def split_beta db2_def db1_def)
  finally show ?thesis .
qed

subsection \<open>One step of a plan\<close>

text \<open>What is done to the new row of a step, and to the run, while the step runs.\<close>

lemma execute_step_moves:
  assumes "sc_row_id = st_id row"
  shows "step_moves (ro_run ro) sc_row_id r (snd (snd (execute_step env ro plan replans sv s row r)))"
proof (cases "checked_inputs env sv s")
  case (Inl e)
  let ?db1 = "append_event (ro_run ro) ''step_dependency_gate_failed''
    (dependency_payload (st_sequence row) s e) (rt_db r)"
  have "db_moves (ro_run ro) (st_id row) (rt_db r)
      (snd (request_replan (ro_run ro) row (Some e) e [] DependencyUnavailable ?db1))"
    by (rule db_moves_trans [OF db_moves_append_event db_moves_replan])
  then show ?thesis using Inl assms by (simp add: execute_step_def split_beta Let_def db_moves_step)
next
  case (Inr x)
  obtain t c copied where x: "x = (t, c, copied)" by (cases x)
  define sc where "sc = \<lparr>sc_run = ro_run ro, sc_user = tx_user c, sc_task = t, sc_row = row, sc_plan = plan,
    sc_step = s, sc_deadline = ro_deadline ro, sc_replans = replans, sc_seeded = []\<rparr>"
  have "step_moves (sc_run sc) (st_id (sc_row sc)) r (snd (snd (run_step env sc t c r)))"
    by (rule run_step_moves)
  then show ?thesis
    using Inr x assms by (simp add: execute_step_def split_beta Let_def) (simp add: sc_def)
qed

definition with_new_step :: "run_scope \<Rightarrow> str \<Rightarrow> int \<Rightarrow> int \<Rightarrow> plan_step \<Rightarrow> steps_state \<Rightarrow> step_row \<times> rt" where
  "with_new_step ro plan_id revision sequence s sv =
     (let r = sv_rt sv;
          (row, db1) = create_step (ro_run ro) plan_id sequence (ps_objective s) (ps_skills s) (rt_db r);
          db2 = (if sequence = 1 \<and> revision = 1
                 then persist_seeded_public_evidence (ro_run ro) row (sv_task sv) db1 else db1)
      in (row, r\<lparr>rt_db := db2\<rparr>))"

lemma create_step_moves:
  "pass_moves run r (r\<lparr>rt_db := snd (create_step run p n ob sk (rt_db r))\<rparr>)"
proof -
  have "log_ok (snd (create_step run p n ob sk db)) q = log_ok db q" for db q
    by (rule log_ok_frame) (simp add: create_step_def Let_def)
  moreover have "find_step (snd (create_step run p n ob sk db)) k = Some s"
    if "find_step db k = Some s" for db k s
    using that by (simp add: create_step_def Let_def find_step_def find_append)
  ultimately show ?thesis
    using create_step_ids [of "rt_db r" run p n ob sk]
    by (simp add: pass_moves_def run_frame_def store_frame_def budgets_kept_same)
       (simp add: create_step_def Let_def find_run_def artifacts_ok_def)
qed

lemma new_step_moves:
  "pass_moves (ro_run ro) (sv_rt sv) (snd (with_new_step ro plan_id revision sequence s sv))"
proof -
  define r1 where "r1 = (sv_rt sv)\<lparr>rt_db := snd (create_step (ro_run ro) plan_id sequence (ps_objective s)
    (ps_skills s) (rt_db (sv_rt sv)))\<rparr>"
  have "pass_moves (ro_run ro) (sv_rt sv) r1" unfolding r1_def by (rule create_step_moves)
  moreover have "grows (ro_run ro) r1 (r1\<lparr>rt_db := persist_seeded_public_evidence (ro_run ro) row t (rt_db r1)\<rparr>)"
    for row t by (rule grows_extends [OF persist_seeded_extends])
  ultimately show ?thesis
    using pass_of_grows pass_moves_trans
    by (simp add: with_new_step_def Let_def split_beta r1_def) blast
qed

lemma new_step_row:
  fixes ro plan_id revision sequence s sv
  assumes "ids_ok (rt_db (sv_rt sv))"
  defines "x \<equiv> with_new_step ro plan_id revision sequence s sv"
  shows "find_step (rt_db (snd x)) (st_id (fst x)) = Some (fst x)"
    and "find_step (rt_db (sv_rt sv)) (st_id (fst x)) = None"
    and "map step_key (so_steps (rt_db (snd x))) = map step_key (so_steps (rt_db (sv_rt sv))) @ [step_key (fst x)]"
    and "st_plan (fst x) = plan_id" and "st_objective (fst x) = ps_objective s"
proof -
  define y where "y = create_step (ro_run ro) plan_id sequence (ps_objective s) (ps_skills s) (rt_db (sv_rt sv))"
  have fst_x: "fst x = fst y" by (simp add: x_def y_def with_new_step_def Let_def split_beta)
  have steps: "so_steps (rt_db (snd x)) = so_steps (snd y)"
  proof -
    have "so_steps (persist_seeded_public_evidence (ro_run ro) (fst y) (sv_task sv) (snd y)) = so_steps (snd y)"
      using persist_seeded_extends [of "ro_run ro" "snd y" "fst y" "sv_task sv"] unfolding extends_def
      by (elim conjE)
    moreover have "snd x = (sv_rt sv)\<lparr>rt_db := if sequence = 1 \<and> revision = 1
        then persist_seeded_public_evidence (ro_run ro) (fst y) (sv_task sv) (snd y) else snd y\<rparr>"
      by (simp only: x_def y_def with_new_step_def Let_def split_beta snd_conv)
    ultimately show ?thesis by simp
  qed
  have "find_step (snd y) (st_id (fst y)) = Some (fst y)"
    unfolding y_def by (rule create_step_find [OF assms(1)])
  then show "find_step (rt_db (snd x)) (st_id (fst x)) = Some (fst x)"
    by (simp add: find_step_def steps fst_x)
  have "st_id (fst y) = fresh_id (rt_db (sv_rt sv))" by (simp add: y_def create_step_def Let_def)
  then show "find_step (rt_db (sv_rt sv)) (st_id (fst x)) = None"
    using fresh_id_new [OF assms(1)] by (force simp: find_step_def find_None_iff all_ids_def fst_x)
  show "map step_key (so_steps (rt_db (snd x))) = map step_key (so_steps (rt_db (sv_rt sv))) @ [step_key (fst x)]"
    by (simp add: steps fst_x) (simp add: y_def create_step_def Let_def)
  show "st_plan (fst x) = plan_id" "st_objective (fst x) = ps_objective s"
    by (simp_all add: fst_x y_def create_step_def Let_def)
qed

lemma pass_of_new_step:
  assumes "step_moves run sid r1 r2" and "pass_moves run r r1"
    and "ids_ok (rt_db r) \<Longrightarrow> find_step (rt_db r) sid = None"
  shows "pass_moves run r r2"
proof -
  have "find_step (rt_db r2) k = Some s" if "ids_ok (rt_db r)" "find_step (rt_db r) k = Some s" for k s
  proof -
    have "k \<noteq> sid" using that assms(3) by auto
    moreover have "find_step (rt_db r1) k = Some s" using assms(2) that by (simp add: pass_moves_def)
    ultimately show ?thesis using assms(1) by (simp add: step_moves_def)
  qed
  then show ?thesis
    using run_frame_trans [OF _ run_frame_step [OF assms(1)]] assms(2) by (simp add: pass_moves_def)
qed

lemma tag_row_moves: "db_moves run step db (snd (tag_row s step db))"
  unfolding tag_row_def Let_def snd_conv by (rule db_moves_update_step) (simp add: step_key_def)

definition executed :: "env \<Rightarrow> run_scope \<Rightarrow> execution_plan \<Rightarrow> str \<Rightarrow> int \<Rightarrow> int \<Rightarrow> int \<Rightarrow> plan_step \<Rightarrow> steps_state
    \<Rightarrow> run_result \<times> tool_context \<times> rt" where
  "executed env ro plan plan_id revision replans sequence s sv =
     (let (row, r1) = with_new_step ro plan_id revision sequence s sv
      in execute_step env ro plan replans sv s row r1)"

text \<open>The state after one step, whatever its end is.\<close>

definition end_rt :: "step_end \<Rightarrow> rt" where
  "end_rt e = (case e of NextStep sv \<Rightarrow> sv_rt sv | NeedReplan _ _ _ r \<Rightarrow> r | RunOver _ r \<Rightarrow> r)"

lemma do_step_eq:
  "do_step env ro plan plan_id revision replans sequence s sv =
    (let (out, c, r1) = executed env ro plan plan_id revision replans sequence s sv;
         sid = st_id (fst (with_new_step ro plan_id revision sequence s sv))
     in if re_error out = Some terminal_negative_code then
          (let (res, r2) = negative_success ro s sid out r1 in RunOver res r2)
        else if re_error out = Some replan_required then
          NeedReplan (opt_str (re_summary out))
            (case re_reason out of Some q \<Rightarrow> q | None \<Rightarrow> VerifierReplan) c r1
        else if re_status out \<noteq> Running then RunOver out r1
        else NextStep (after_success ro sv s sid out c r1))"
  by (simp add: do_step_def executed_def with_new_step_def Let_def split_beta)

lemma executed_moves:
  "step_moves (ro_run ro) (st_id (fst (with_new_step ro plan_id revision sequence s sv)))
     (snd (with_new_step ro plan_id revision sequence s sv))
     (snd (snd (executed env ro plan plan_id revision replans sequence s sv)))"
  using execute_step_moves [of "st_id (fst (with_new_step ro plan_id revision sequence s sv))"
      "fst (with_new_step ro plan_id revision sequence s sv)" ro
      "snd (with_new_step ro plan_id revision sequence s sv)" env plan replans sv s]
  by (simp add: executed_def split_beta)

lemma negative_success_moves: "step_moves (ro_run ro) sid r (snd (negative_success ro s sid out r))"
proof -
  have "db_moves (ro_run ro) sid (rt_db r) (append_event (ro_run ro) t p
      (finish_run (ro_run ro) Succeeded m e (snd (tag_row s sid (rt_db r)))))" for t p m e
    using tag_row_moves db_moves_finish_run db_moves_append_event db_moves_trans by meson
  then show ?thesis by (simp add: negative_success_def Let_def db_moves_step)
qed

lemma after_success_moves: "step_moves (ro_run ro) sid r (sv_rt (after_success ro sv s sid out c r))"
  by (simp add: after_success_def Let_def split_beta db_moves_step tag_row_moves)

lemma do_step_end_moves:
  "step_moves (ro_run ro) (st_id (fst (with_new_step ro plan_id revision sequence s sv)))
     (snd (with_new_step ro plan_id revision sequence s sv))
     (end_rt (do_step env ro plan plan_id revision replans sequence s sv))"
proof -
  define x where "x = executed env ro plan plan_id revision replans sequence s sv"
  define sid where "sid = st_id (fst (with_new_step ro plan_id revision sequence s sv))"
  define r0 where "r0 = snd (with_new_step ro plan_id revision sequence s sv)"
  have x: "step_moves (ro_run ro) sid r0 (snd (snd x))"
    unfolding x_def sid_def r0_def by (rule executed_moves)
  have "step_moves (ro_run ro) sid (snd (snd x))
      (end_rt (do_step env ro plan plan_id revision replans sequence s sv))"
    unfolding do_step_eq Let_def split_beta end_rt_def x_def [symmetric] sid_def [symmetric]
    by (simp add: negative_success_moves after_success_moves)
  with x show ?thesis unfolding sid_def r0_def by (rule step_moves_trans)
qed

lemma do_step_moves:
  "pass_moves (ro_run ro) (sv_rt sv) (end_rt (do_step env ro plan plan_id revision replans sequence s sv))"
  by (rule pass_of_new_step [OF do_step_end_moves new_step_moves]) (rule new_step_row(2))

lemma do_steps_moves:
  "pass_moves (ro_run ro) (sv_rt sv) (end_rt (fst (do_steps env ro plan plan_id revision replans sequence ss sv)))"
proof (induction ss arbitrary: sequence sv)
  case Nil
  then show ?case by (simp add: end_rt_def)
next
  case (Cons s ss)
  define e where "e = do_step env ro plan plan_id revision replans sequence s sv"
  have e: "pass_moves (ro_run ro) (sv_rt sv) (end_rt e)" unfolding e_def by (rule do_step_moves)
  show ?case
  proof (cases e)
    case (NextStep sv')
    then have "pass_moves (ro_run ro) (sv_rt sv) (sv_rt sv')" using e by (simp add: end_rt_def)
    also have "pass_moves (ro_run ro) (sv_rt sv')
        (end_rt (fst (do_steps env ro plan plan_id revision replans (sequence + 1) ss sv')))"
      by (rule Cons.IH)
    finally show ?thesis using NextStep by (simp add: flip: e_def)
  qed (use e in \<open>simp_all flip: e_def\<close>)
qed

end
