(* ===== verification/RunOutcome.thy ===== *)
theory RunOutcome
  imports RunSafety
begin

section \<open>How a run ends\<close>

text \<open>
  Lemmas over whole rounds, passes and runs: the frame of a run, the revisions of its plans, the
  status it returns and stores, the rows of a plan that was carried out, and the passes that
  auto-recovery adds.
\<close>

subsection \<open>The frame of a round, a pass and a run\<close>

definition round_rt :: "round_end \<Rightarrow> rt" where
  "round_rt e = (case e of Over _ r \<Rightarrow> r | Again2 _ r \<Rightarrow> r)"

lemma round_rt_simps [simp]: "round_rt (Over out r) = r" "round_rt (Again2 pa r) = r"
  by (simp_all add: round_rt_def)

lemma succeed_run_moves: "pass_moves (ro_run ro) r (r\<lparr>rt_db := snd (succeed_run ro m (rt_db r))\<rparr>)"
  by (simp add: succeed_run_def pass_close_run)

lemma exhausted_moves: "pass_moves (ro_run ro) r (r\<lparr>rt_db := snd (replans_exhausted ro f (rt_db r))\<rparr>)"
  by (simp add: replans_exhausted_def Let_def pass_close_run)

lemma after_steps_moves: "pass_moves (ro_run ro) (end_rt (fst ends)) (round_rt (after_steps ro pa plan ends))"
  by (cases ends; cases "fst ends")
     (simp_all add: after_steps_def end_rt_def Let_def split_beta succeed_run_moves exhausted_moves)

text \<open>What a round does once the Planner's plan passed the guards.\<close>

definition accepted_plan :: "env \<Rightarrow> run_scope \<Rightarrow> pass_state \<Rightarrow> rt \<Rightarrow> (execution_plan \<times> tool_context \<times> rt) option" where
  "accepted_plan env ro pa r =
     (case planned env ro pa r of
        (Inr plan, c, r1) \<Rightarrow> if guard_plan ro pa plan (rt_db r1) = None then Some (plan, c, r1) else None
      | _ \<Rightarrow> None)"

definition plan_steps ::
  "env \<Rightarrow> run_scope \<Rightarrow> pass_state \<Rightarrow> execution_plan \<Rightarrow> tool_context \<Rightarrow> rt \<Rightarrow> step_end \<times> steps_state" where
  "plan_steps env ro pa plan c r =
     (let (plan_id, db) = store_plan ro (pa_revision pa + 1) plan (rt_db r)
      in do_steps env ro plan plan_id (pa_revision pa + 1) (pa_replans pa) 1 (ep_steps plan)
           \<lparr>sv_task = pa_task pa, sv_context = c, sv_outputs = [], sv_summary = None, sv_rt = r\<lparr>rt_db := db\<rparr>\<rparr>)"

definition plan_accepted :: "pass_state \<Rightarrow> execution_plan \<Rightarrow> tool_context \<Rightarrow> pass_state" where
  "plan_accepted pa plan c = pa\<lparr>pa_context := c, pa_revision := pa_revision pa + 1, pa_source := None,
     pa_prints := plan_fingerprint plan # pa_prints pa\<rparr>"

lemma round_cases:
  obtains (stopped) out r' where "round env ro pa r = Over out r'" and "accepted_plan env ro pa r = None"
      and "(\<exists>c. planned env ro pa r = (Inl out, c, r')) \<or>
        (\<exists>plan c r1 db. planned env ro pa r = (Inr plan, c, r1)
          \<and> guard_plan ro pa plan (rt_db r1) = Some (out, db) \<and> r' = r1\<lparr>rt_db := db\<rparr>)"
  | (accepted) plan c r1 where "accepted_plan env ro pa r = Some (plan, c, r1)"
      and "planned env ro pa r = (Inr plan, c, r1)"
      and "round env ro pa r = after_steps ro (plan_accepted pa plan c) plan (plan_steps env ro pa plan c r1)"
proof -
  obtain p c r1 where p: "planned env ro pa r = (p, c, r1)" by (cases "planned env ro pa r")
  show thesis
  proof (cases p)
    case (Inl out)
    then show ?thesis using p by (intro stopped) (auto simp: round_def accepted_plan_def)
  next
    case (Inr plan)
    show ?thesis
    proof (cases "guard_plan ro pa plan (rt_db r1)")
      case None
      then show ?thesis using p Inr
        by (intro accepted) (simp_all add: round_def accepted_plan_def plan_steps_def plan_accepted_def
            Let_def split_beta)
    next
      case (Some x)
      then show ?thesis using p Inr
        by (cases x) (auto intro!: stopped simp: round_def accepted_plan_def)
    qed
  qed
qed

lemma plan_steps_moves:
  "pass_moves (ro_run ro) r (end_rt (fst (plan_steps env ro pa plan c r)))"
proof -
  define x where "x = store_plan ro (pa_revision pa + 1) plan (rt_db r)"
  have "pass_moves (ro_run ro) r (r\<lparr>rt_db := snd x\<rparr>)" unfolding x_def by (rule store_plan_moves)
  also have "pass_moves (ro_run ro) (r\<lparr>rt_db := snd x\<rparr>) (end_rt (fst (plan_steps env ro pa plan c r)))"
    using do_steps_moves [of ro "\<lparr>sv_task = pa_task pa, sv_context = c, sv_outputs = [], sv_summary = None,
        sv_rt = r\<lparr>rt_db := snd x\<rparr>\<rparr>"]
    by (simp add: plan_steps_def split_beta flip: x_def)
  finally show ?thesis .
qed

lemma round_moves: "pass_moves (ro_run ro) r (round_rt (round env ro pa r))"
proof (cases rule: round_cases [of env ro pa r])
  case (stopped out r')
  then show ?thesis
    using planned_moves [of ro r env pa] guard_moves pass_moves_trans by fastforce
next
  case (accepted plan c r1)
  have "pass_moves (ro_run ro) r r1" using planned_moves [of ro r env pa] accepted(2) by simp
  also have "pass_moves (ro_run ro) r1 (end_rt (fst (plan_steps env ro pa plan c r1)))" by (rule plan_steps_moves)
  also have "pass_moves (ro_run ro) \<dots> (round_rt (round env ro pa r))"
    unfolding accepted(3) by (rule after_steps_moves)
  finally show ?thesis .
qed

lemma plan_loop_over: "round env ro pa r = Over out r' \<Longrightarrow> plan_loop env ro pa r = (out, r')"
  by (simp add: plan_loop.simps [of env ro pa r])

lemma plan_loop_again: "round env ro pa r = Again2 pa' r' \<Longrightarrow> plan_loop env ro pa r = plan_loop env ro pa' r'"
  by (simp add: plan_loop.simps [of env ro pa r])

lemma plan_loop_moves: "pass_moves (ro_run ro) r (snd (plan_loop env ro pa r))"
proof (induction env ro pa r rule: plan_loop.induct)
  case (1 env ro pa r)
  show ?case
  proof (cases "round env ro pa r")
    case (Over out r')
    then show ?thesis using round_moves [of ro r env pa] by (simp add: plan_loop_over)
  next
    case (Again2 pa' r')
    have "pass_moves (ro_run ro) r r'" using round_moves [of ro r env pa] Again2 by simp
    also have "pass_moves (ro_run ro) r' (snd (plan_loop env ro pa' r'))" by (rule "1.IH" [OF Again2])
    finally show ?thesis by (simp add: plan_loop_again [OF Again2])
  qed
qed

subsection \<open>The plans a pass stores\<close>

lemma so_plans_store [simp]:
  "so_plans (finish_run run st m e db) = so_plans db" "so_plans (finish_step k s refs e db) = so_plans db"
  "so_plans (set_run_complexity run level db) = so_plans db" "so_plans (start_run run db) = so_plans db"
  by (simp_all add: finish_run_def finish_step_def set_run_complexity_def start_run_def update_run_def
      update_step_def)

lemma grows_plans: "grows run r r' \<Longrightarrow> so_plans (rt_db r') = so_plans (rt_db r)"
  by (simp add: grows_def)

lemma agent_call_plans [simp]: "so_plans (rt_db (agent_call run a r)) = so_plans (rt_db r)"
  by (rule grows_plans [OF grows_agent_call])

lemma planned_plans: "so_plans (rt_db (snd (snd (planned env ro pa r)))) = so_plans (rt_db r)"
  by (simp add: planned_def Let_def split_beta on_db_def finish_planner_invalid_model_def
      finish_planner_waiting_def finish_planner_non_plan_def fail_run_def
      split: sum.splits option.splits planner_status.splits)

lemma guard_plans: "guard_plan ro pa plan db = Some (out, db') \<Longrightarrow> so_plans db' = so_plans db"
  by (auto simp: guard_plan_def Let_def split: option.splits if_splits)

lemma new_step_plans:
  "so_plans (rt_db (snd (with_new_step ro plan_id revision sequence s sv))) = so_plans (rt_db (sv_rt sv))"
proof -
  define y where "y = create_step (ro_run ro) plan_id sequence (ps_objective s) (ps_skills s) (rt_db (sv_rt sv))"
  have y: "so_plans (snd y) = so_plans (rt_db (sv_rt sv))" by (simp add: y_def create_step_def Let_def)
  have "so_plans (persist_seeded_public_evidence (ro_run ro) (fst y) (sv_task sv) (snd y)) = so_plans (snd y)"
    using persist_seeded_extends [of "ro_run ro" "snd y" "fst y" "sv_task sv"] unfolding extends_def
    by (elim conjE)
  moreover have "snd (with_new_step ro plan_id revision sequence s sv) =
      (sv_rt sv)\<lparr>rt_db := if sequence = 1 \<and> revision = 1
        then persist_seeded_public_evidence (ro_run ro) (fst y) (sv_task sv) (snd y) else snd y\<rparr>"
    by (simp only: y_def with_new_step_def Let_def split_beta snd_conv)
  ultimately show ?thesis using y by simp
qed

lemma do_step_plans:
  "so_plans (rt_db (end_rt (do_step env ro plan plan_id revision replans sequence s sv))) =
   so_plans (rt_db (sv_rt sv))"
proof -
  have "so_plans (rt_db (end_rt (do_step env ro plan plan_id revision replans sequence s sv))) =
      so_plans (rt_db (snd (with_new_step ro plan_id revision sequence s sv)))"
    using do_step_end_moves [of ro plan_id revision sequence s sv env plan replans]
    unfolding step_moves_def by (elim conjE)
  then show ?thesis by (simp add: new_step_plans)
qed

lemma do_steps_plans:
  "so_plans (rt_db (end_rt (fst (do_steps env ro plan plan_id revision replans sequence ss sv)))) =
   so_plans (rt_db (sv_rt sv))"
proof (induction ss arbitrary: sequence sv)
  case Nil
  then show ?case by (simp add: end_rt_def)
next
  case (Cons s ss)
  define e where "e = do_step env ro plan plan_id revision replans sequence s sv"
  have e: "so_plans (rt_db (end_rt e)) = so_plans (rt_db (sv_rt sv))" unfolding e_def by (rule do_step_plans)
  show ?case using e Cons.IH by (cases e) (simp_all add: end_rt_def flip: e_def)
qed

lemma after_steps_plans:
  "so_plans (rt_db (round_rt (after_steps ro pa plan ends))) = so_plans (rt_db (end_rt (fst ends)))"
  by (cases ends; cases "fst ends")
     (simp_all add: after_steps_def end_rt_def Let_def split_beta succeed_run_def replans_exhausted_def)

lemma plan_steps_plans:
  "\<exists>row. so_plans (rt_db (end_rt (fst (plan_steps env ro pa plan c r)))) = so_plans (rt_db r) @ [row]
     \<and> pl_run row = ro_run ro \<and> pl_revision row = pa_revision pa + 1 \<and> pl_json row = plan_json plan"
proof -
  define row where "row = fst (create_plan (ro_run ro) (pa_revision pa + 1) (ep_complexity plan) (plan_json plan)
    (set_run_complexity (ro_run ro) (ep_complexity plan) (rt_db r)))"
  have "so_plans (snd (store_plan ro (pa_revision pa + 1) plan (rt_db r))) = so_plans (rt_db r) @ [row]"
    by (simp add: store_plan_def Let_def split_beta row_def) (simp add: create_plan_def Let_def)
  then have "so_plans (rt_db (end_rt (fst (plan_steps env ro pa plan c r)))) = so_plans (rt_db r) @ [row]"
    by (simp add: plan_steps_def split_beta do_steps_plans)
  moreover have "pl_run row = ro_run ro \<and> pl_revision row = pa_revision pa + 1 \<and> pl_json row = plan_json plan"
    by (simp add: row_def create_plan_def Let_def)
  ultimately show ?thesis by blast
qed

text \<open>What one round adds to the plan rows: nothing when it stopped before, else its own plan.\<close>

lemma round_plans:
  "(accepted_plan env ro pa r = None \<and> so_plans (rt_db (round_rt (round env ro pa r))) = so_plans (rt_db r))
   \<or> (\<exists>plan c r1 row. accepted_plan env ro pa r = Some (plan, c, r1)
       \<and> so_plans (rt_db (round_rt (round env ro pa r))) = so_plans (rt_db r) @ [row]
       \<and> pl_run row = ro_run ro \<and> pl_revision row = pa_revision pa + 1 \<and> pl_json row = plan_json plan)"
proof (cases rule: round_cases [of env ro pa r])
  case (stopped out r')
  have "so_plans (rt_db r') = so_plans (rt_db r)"
    using stopped(3) planned_plans [of env ro pa r] guard_plans by fastforce
  then show ?thesis using stopped by simp
next
  case (accepted plan c r1)
  have "so_plans (rt_db r1) = so_plans (rt_db r)" using planned_plans [of env ro pa r] accepted(2) by simp
  then show ?thesis
    using plan_steps_plans [of env ro pa plan c r1] accepted by (simp add: after_steps_plans)
qed

lemma round_again_state:
  assumes "round env ro pa r = Again2 pa' r'"
  shows "pa_revision pa' = pa_revision pa + 1" and "accepted_plan env ro pa r \<noteq> None"
proof -
  have "pa_revision pa' = pa_revision pa + 1 \<and> accepted_plan env ro pa r \<noteq> None"
  proof (cases rule: round_cases [of env ro pa r])
    case (accepted plan c r1)
    then show ?thesis
      using assms by (auto simp: after_steps_def plan_accepted_def Let_def split_beta
          split: step_end.splits prod.splits if_splits)
  qed (use assms in simp)
  then show "pa_revision pa' = pa_revision pa + 1" "accepted_plan env ro pa r \<noteq> None" by simp_all
qed

text \<open>The plans of a run carry the revisions 1, 2, 3, ...\<close>

definition plans_of :: "store \<Rightarrow> str \<Rightarrow> plan_row list" where
  "plans_of db run = filter (\<lambda>p. pl_run p = run) (so_plans db)"

definition revisions_ok :: "store \<Rightarrow> str \<Rightarrow> bool" where
  "revisions_ok db run \<longleftrightarrow>
     map pl_revision (plans_of db run) = map (\<lambda>k. int k + 1) [0 ..< length (plans_of db run)]"

lemma count_plans_of: "count_plans db run = int (length (plans_of db run))"
  by (simp add: count_plans_def plans_of_def)

lemma plans_of_cong: "so_plans db' = so_plans db \<Longrightarrow> plans_of db' run = plans_of db run"
  by (simp add: plans_of_def)

lemma revisions_add:
  assumes "so_plans db' = so_plans db @ [row]" and "pl_run row = run"
    and "pl_revision row = count_plans db run + 1" and "revisions_ok db run"
  shows "revisions_ok db' run \<and> count_plans db' run = count_plans db run + 1"
proof -
  have "plans_of db' run = plans_of db run @ [row]" using assms(1,2) by (simp add: plans_of_def)
  then show ?thesis using assms(3,4) by (simp add: revisions_ok_def count_plans_of)
qed

lemma round_revisions:
  fixes env ro pa r
  assumes "revisions_ok (rt_db r) (ro_run ro)" and "pa_revision pa = count_plans (rt_db r) (ro_run ro)"
  defines "db \<equiv> rt_db (round_rt (round env ro pa r))"
  shows "revisions_ok db (ro_run ro)
    \<and> count_plans db (ro_run ro) = count_plans (rt_db r) (ro_run ro)
        + (if accepted_plan env ro pa r = None then 0 else 1)"
proof (cases "accepted_plan env ro pa r")
  case None
  then have "so_plans db = so_plans (rt_db r)" using round_plans [of env ro pa r] by (simp add: db_def)
  then have "plans_of db (ro_run ro) = plans_of (rt_db r) (ro_run ro)" by (rule plans_of_cong)
  then show ?thesis using assms(1) None by (simp add: revisions_ok_def count_plans_of)
next
  case (Some x)
  then obtain row where "so_plans db = so_plans (rt_db r) @ [row]" "pl_run row = ro_run ro"
    "pl_revision row = pa_revision pa + 1"
    using round_plans [of env ro pa r] unfolding db_def by fastforce
  then show ?thesis using revisions_add [of db "rt_db r" row "ro_run ro"] assms(1,2) Some by simp
qed

lemma plan_loop_revisions:
  assumes "revisions_ok (rt_db r) (ro_run ro)" and "pa_revision pa = count_plans (rt_db r) (ro_run ro)"
  shows "revisions_ok (rt_db (snd (plan_loop env ro pa r))) (ro_run ro)
    \<and> count_plans (rt_db (snd (plan_loop env ro pa r))) (ro_run ro)
        \<le> count_plans (rt_db r) (ro_run ro) + max 0 (ro_max_replans ro - pa_replans pa) + 1"
  using assms
proof (induction env ro pa r rule: plan_loop.induct)
  case (1 env ro pa r)
  note step = round_revisions [OF "1.prems", where env = env]
  show ?case
  proof (cases "round env ro pa r")
    case (Over out r')
    then show ?thesis using step by (simp add: plan_loop_over split: if_splits)
  next
    case (Again2 pa' r')
    have now: "revisions_ok (rt_db r') (ro_run ro)"
      "count_plans (rt_db r') (ro_run ro) = count_plans (rt_db r) (ro_run ro) + 1"
      using step round_again_state(2) [OF Again2] Again2 by simp_all
    have "revisions_ok (rt_db (snd (plan_loop env ro pa' r'))) (ro_run ro)
      \<and> count_plans (rt_db (snd (plan_loop env ro pa' r'))) (ro_run ro)
        \<le> count_plans (rt_db r') (ro_run ro) + max 0 (ro_max_replans ro - pa_replans pa') + 1"
      by (rule "1.IH" [OF Again2 now(1)]) (simp add: now(2) round_again_state(1) [OF Again2] "1.prems"(2))
    then show ?thesis
      using now(2) round_again [OF Again2] by (simp add: plan_loop_again [OF Again2])
  qed
qed

subsection \<open>The status a run is left with\<close>

definition ended :: "str \<Rightarrow> run_result \<Rightarrow> store \<Rightarrow> bool" where
  "ended run out db \<longleftrightarrow> re_run out = run \<and> re_status out \<in> {WaitingUser, Succeeded, Failed}
     \<and> (\<forall>q. find_run db run = Some q \<longrightarrow> rr_status q = re_status out)"

lemma finished_status [dest]: "find_run (finish_run run s m e db) run = Some q \<Longrightarrow> rr_status q = s"
  by (cases "find_run db run") (simp_all add: find_finish_run, elim subst, simp)

lemma ended_close:
  "s \<in> {WaitingUser, Succeeded, Failed} \<Longrightarrow>
   ended run (result_of run s m e) (append_event run t p (finish_run run s m' e' db))"
  by (auto simp add: ended_def result_of_def)

lemmas ended_closes =
  ended_close [of WaitingUser, simplified] ended_close [of Succeeded, simplified]
  ended_close [of Failed, simplified]

lemma ended_planner_waiting: "ended run (fst (finish_planner_waiting run q t e c db)) (snd (finish_planner_waiting run q t e c db))"
  by (simp add: finish_planner_waiting_def ended_closes)

lemma ended_non_plan: "ended run (fst (finish_planner_non_plan run p db)) (snd (finish_planner_non_plan run p db))"
  by (simp add: finish_planner_non_plan_def Let_def ended_planner_waiting ended_closes)

lemma ended_fail_run: "ended run (fst (fail_run run code db)) (snd (fail_run run code db))"
  by (auto simp add: fail_run_def ended_def)

lemma planned_ended:
  assumes "planned env ro pa r = (Inl out, c, r')"
  shows "ended (ro_run ro) out (rt_db r')"
proof -
  have "fst (planned env ro pa r) = Inl o' \<longrightarrow> ended (ro_run ro) o' (rt_db (snd (snd (planned env ro pa r))))" for o'
    using ended_non_plan [of "ro_run ro"] ended_fail_run [of "ro_run ro"] ended_planner_waiting [of "ro_run ro"]
    by (simp add: planned_def Let_def split_beta finish_planner_invalid_model_def
        split: sum.split option.split planner_status.split) auto?
  then show ?thesis using assms by simp
qed

lemma guard_ended: "guard_plan ro pa plan db = Some (out, db') \<Longrightarrow> ended (ro_run ro) out db'"
  by (auto simp: guard_plan_def Let_def ended_closes split: option.splits if_splits)

lemma succeed_ended: "ended (ro_run ro) (fst (succeed_run ro m db)) (snd (succeed_run ro m db))"
  by (simp add: succeed_run_def ended_closes)

lemma exhausted_ended: "ended (ro_run ro) (fst (replans_exhausted ro f db)) (snd (replans_exhausted ro f db))"
  by (simp add: replans_exhausted_def Let_def ended_closes)

lemma negative_ended: "ended (ro_run ro) (fst (negative_success ro s k out r)) (rt_db (snd (negative_success ro s k out r)))"
  by (simp add: negative_success_def Let_def ended_closes)

text \<open>A run that goes on, or one that the step ended with the status the step returned.\<close>

lemma execute_step_ended:
  assumes "re_status (fst (execute_step env ro plan replans sv s row r)) \<noteq> Running"
  shows "ended (ro_run ro) (fst (execute_step env ro plan replans sv s row r))
    (rt_db (snd (snd (execute_step env ro plan replans sv s row r))))"
proof (cases "checked_inputs env sv s")
  case (Inl e)
  then show ?thesis using assms by (simp add: execute_step_def Let_def split_beta request_replan_def)
next
  case (Inr x)
  obtain t c copied where x: "x = (t, c, copied)" by (cases x)
  define sc where "sc = \<lparr>sc_run = ro_run ro, sc_user = tx_user c, sc_task = t, sc_row = row, sc_plan = plan,
    sc_step = s, sc_deadline = ro_deadline ro, sc_replans = replans, sc_seeded = []\<rparr>"
  define y where "y = run_step env sc t c r"
  have y: "fst (execute_step env ro plan replans sv s row r) = fst y"
    "snd (snd (execute_step env ro plan replans sv s row r)) = snd (snd y)"
    using Inr x by (simp_all add: execute_step_def Let_def split_beta y_def sc_def)
  have "closed_rows sc (fst y) (rt_db r) (rt_db (snd (snd y)))" unfolding y_def by (rule run_step_closed)
  then have "re_run (fst y) = ro_run ro" "re_status (fst y) \<in> {Running, WaitingUser, Failed}"
    "map_option rr_status (find_run (rt_db (snd (snd y))) (ro_run ro)) =
       map_option (\<lambda>q. re_status (fst y)) (find_run (rt_db r) (ro_run ro))"
    using assms y unfolding closed_rows_def by (simp_all add: sc_def)
  then have row: "rr_status q = re_status (fst y)"
    if "find_run (rt_db (snd (snd y))) (ro_run ro) = Some q" for q
    using that by (cases "find_run (rt_db r) (ro_run ro)") simp_all
  then show ?thesis using assms y \<open>re_run (fst y) = ro_run ro\<close>
      \<open>re_status (fst y) \<in> {Running, WaitingUser, Failed}\<close> by (auto simp: ended_def)
qed

lemma do_step_ended:
  assumes "do_step env ro plan plan_id revision replans sequence s sv = RunOver out r'"
  shows "ended (ro_run ro) out (rt_db r')"
proof -
  define x where "x = executed env ro plan plan_id revision replans sequence s sv"
  have "ended (ro_run ro) (fst x) (rt_db (snd (snd x)))" if "re_status (fst x) \<noteq> Running"
    using execute_step_ended that by (simp add: x_def executed_def split_beta)
  then show ?thesis
    using assms negative_ended [of ro s _ "fst x" "snd (snd x)"]
    by (auto simp: do_step_eq Let_def split_beta simp flip: x_def split: if_splits)
qed

lemma do_steps_ended:
  "do_steps env ro plan plan_id revision replans sequence ss sv = (RunOver out r', sv') \<Longrightarrow>
   ended (ro_run ro) out (rt_db r')"
  by (induction ss arbitrary: sequence sv) (auto split: step_end.splits dest: do_step_ended)

lemma round_ended:
  assumes "round env ro pa r = Over out r'"
  shows "ended (ro_run ro) out (rt_db r')"
proof (cases rule: round_cases [of env ro pa r])
  case (stopped out1 r1)
  then show ?thesis using assms planned_ended guard_ended by fastforce
next
  case (accepted plan c r1)
  obtain e sv where e: "plan_steps env ro pa plan c r1 = (e, sv)" by fastforce
  have over: "ended (ro_run ro) out1 (rt_db r2)" if "e = RunOver out1 r2" for out1 r2
    using e that do_steps_ended by (simp add: plan_steps_def split_beta)
  show ?thesis
    using assms accepted(3) e over succeed_ended [of ro] exhausted_ended [of ro]
    by (auto simp: after_steps_def Let_def split_beta split: step_end.splits if_splits)
qed

lemma plan_loop_ended: "ended (ro_run ro) (fst (plan_loop env ro pa r)) (rt_db (snd (plan_loop env ro pa r)))"
proof (induction env ro pa r rule: plan_loop.induct)
  case (1 env ro pa r)
  show ?case
    using "1.IH" round_ended [of env ro pa r]
    by (cases "round env ro pa r") (simp_all add: plan_loop_over plan_loop_again)
qed

subsection \<open>The rows of a plan that was carried out\<close>

lemma find_tag_row:
  "find_step (snd (tag_row s sid db)) k =
    (if k = sid then map_option (\<lambda>q. q\<lparr>st_refs := Some (fst (tag_row s sid db))\<rparr>) (find_step db sid)
     else find_step db k)"
  by (simp add: tag_row_def Let_def find_update_step)

lemma execute_step_succeeded:
  assumes "step_succeeded (fst (execute_step env ro plan replans sv s row r))"
    and "find_step (rt_db r) (st_id row) = Some q"
  shows "map_option st_status (find_step (rt_db (snd (snd (execute_step env ro plan replans sv s row r)))) (st_id row))
    = Some StepSucceeded"
proof (cases "checked_inputs env sv s")
  case (Inl e)
  then show ?thesis
    using assms(1) by (simp add: execute_step_def Let_def split_beta request_replan_def step_succeeded_def)
next
  case (Inr x)
  obtain t c copied where x: "x = (t, c, copied)" by (cases x)
  define sc where "sc = \<lparr>sc_run = ro_run ro, sc_user = tx_user c, sc_task = t, sc_row = row, sc_plan = plan,
    sc_step = s, sc_deadline = ro_deadline ro, sc_replans = replans, sc_seeded = []\<rparr>"
  define y where "y = run_step env sc t c r"
  have y: "fst (execute_step env ro plan replans sv s row r) = fst y"
    "snd (snd (execute_step env ro plan replans sv s row r)) = snd (snd y)"
    using Inr x by (simp_all add: execute_step_def Let_def split_beta y_def sc_def)
  have "closed_rows sc (fst y) (rt_db r) (rt_db (snd (snd y)))" unfolding y_def by (rule run_step_closed)
  then have "map_option st_status (find_step (rt_db (snd (snd y))) (st_id row)) = Some (closing_status (fst y))"
    using assms(2) unfolding closed_rows_def by (simp add: sc_def)
  then show ?thesis using assms(1) y by (simp add: step_succeeded_def closing_status_def)
qed

lemma do_step_next:
  assumes "do_step env ro plan plan_id revision replans sequence s sv = NextStep sv'"
    and "ids_ok (rt_db (sv_rt sv))"
  shows "\<exists>row. map step_key (so_steps (rt_db (sv_rt sv'))) =
       map step_key (so_steps (rt_db (sv_rt sv))) @ [step_key row]
     \<and> st_plan row = plan_id \<and> st_objective row = ps_objective s
     \<and> map_option st_status (find_step (rt_db (sv_rt sv')) (st_id row)) = Some StepSucceeded"
proof -
  define n where "n = with_new_step ro plan_id revision sequence s sv"
  define x where "x = executed env ro plan plan_id revision replans sequence s sv"
  note row = new_step_row [OF assms(2), of ro plan_id revision sequence s, folded n_def]
  have ok: "step_succeeded (fst x)" and sv': "sv' = after_success ro sv s (st_id (fst n)) (fst x) (fst (snd x)) (snd (snd x))"
    using assms(1) by (auto simp: do_step_eq Let_def split_beta step_succeeded_def simp flip: x_def n_def
        split: if_splits)
  have x: "x = execute_step env ro plan replans sv s (fst n) (snd n)"
    by (simp add: x_def executed_def split_beta n_def)
  have "map_option st_status (find_step (rt_db (snd (snd x))) (st_id (fst n))) = Some StepSucceeded"
    using execute_step_succeeded [OF _ row(1)] ok unfolding x by blast
  then have "map_option st_status (find_step (rt_db (sv_rt sv')) (st_id (fst n))) = Some StepSucceeded"
    by (simp add: sv' after_success_def Let_def split_beta find_tag_row option.map_comp comp_def)
  moreover have "map step_key (so_steps (rt_db (sv_rt sv'))) = map step_key (so_steps (rt_db (snd n)))"
    using do_step_end_moves [of ro plan_id revision sequence s sv env plan replans] assms(1)
    unfolding step_moves_def n_def by (elim conjE) (simp add: end_rt_def)
  ultimately show ?thesis using row(3-5) by (intro exI [of _ "fst n"]) simp
qed

text \<open>Every row of the plan is there, in order, and succeeded.\<close>

lemma do_steps_succeeded:
  assumes "do_steps env ro plan plan_id revision replans sequence ss sv = (NextStep sv', sv'')"
    and "ids_ok (rt_db (sv_rt sv))"
  shows "\<exists>rows. map step_key (so_steps (rt_db (sv_rt sv'))) =
       map step_key (so_steps (rt_db (sv_rt sv))) @ map step_key rows
     \<and> map st_objective rows = map ps_objective ss \<and> (\<forall>row \<in> set rows. st_plan row = plan_id
       \<and> map_option st_status (find_step (rt_db (sv_rt sv')) (st_id row)) = Some StepSucceeded)"
  using assms
proof (induction ss arbitrary: sequence sv)
  case Nil
  then show ?case by (intro exI [of _ "[]"]) simp
next
  case (Cons s ss)
  obtain sv1 where sv1: "do_step env ro plan plan_id revision replans sequence s sv = NextStep sv1"
    and rest: "do_steps env ro plan plan_id revision replans (sequence + 1) ss sv1 = (NextStep sv', sv'')"
    using Cons.prems(1) by (auto split: step_end.splits)
  have moved: "pass_moves (ro_run ro) (sv_rt sv) (sv_rt sv1)"
    using do_step_moves [of ro sv env plan plan_id revision replans sequence s] sv1 by (simp add: end_rt_def)
  then have ids: "ids_ok (rt_db (sv_rt sv1))"
    using Cons.prems(2) run_frame_ids unfolding pass_moves_def by blast
  obtain row where row: "map step_key (so_steps (rt_db (sv_rt sv1))) =
      map step_key (so_steps (rt_db (sv_rt sv))) @ [step_key row]"
    "st_plan row = plan_id" "st_objective row = ps_objective s"
    "map_option st_status (find_step (rt_db (sv_rt sv1)) (st_id row)) = Some StepSucceeded"
    using do_step_next [OF sv1 Cons.prems(2)] by blast
  obtain rows where rows: "map step_key (so_steps (rt_db (sv_rt sv'))) =
      map step_key (so_steps (rt_db (sv_rt sv1))) @ map step_key rows"
    "map st_objective rows = map ps_objective ss" "\<forall>row \<in> set rows. st_plan row = plan_id
       \<and> map_option st_status (find_step (rt_db (sv_rt sv')) (st_id row)) = Some StepSucceeded"
    using Cons.IH [OF rest ids] by blast
  have "pass_moves (ro_run ro) (sv_rt sv1) (sv_rt sv')"
    using do_steps_moves [of ro sv1 env plan plan_id revision replans "sequence + 1" ss] rest
    by (simp add: end_rt_def)
  then have "map_option st_status (find_step (rt_db (sv_rt sv')) (st_id row)) = Some StepSucceeded"
    using row(4) ids unfolding pass_moves_def by auto
  then show ?case using row(1-3) rows by (intro exI [of _ "row # rows"]) simp
qed

subsection \<open>The whole run\<close>

lemma frame_append_event: "store_frame run db (append_event run t p db)"
  using pass_event [of run "undefined\<lparr>rt_db := db\<rparr>" t p] by (simp add: pass_moves_def run_frame_def)

lemma frame_start_run: "store_frame run db (start_run run db)"
proof -
  have "db_moves run s db (start_run run db)" for s
    unfolding start_run_def by (rule db_moves_update_run) simp_all
  then have "run_frame run (undefined\<lparr>rt_db := db\<rparr>) (undefined\<lparr>rt_db := start_run run db\<rparr>)"
    unfolding db_moves_def by (blast intro: run_frame_step)
  then show ?thesis by (simp add: run_frame_def)
qed

lemma frame_started: "store_frame run db (started env run db)"
  unfolding started_def by (rule store_frame_trans [OF frame_start_run frame_append_event])

lemma pass_budgets_db [simp]: "rt_db (pass_budgets b db run fresh r) = rt_db r"
  by (simp add: pass_budgets_def split_beta Let_def)

text \<open>The scope and the loop variables a pass over a stored run starts with.\<close>

lemma run_once_loop:
  obtains ro pa r0 where "run_once env user t (Some run) r = plan_loop env ro pa r0"
    and "ro_run ro = run" and "store_frame run (rt_db r) (rt_db r0)"
    and "so_plans (rt_db r0) = so_plans (rt_db r)"
    and "pa_revision pa = (if is_queued (rt_db r) run then 0 else count_plans (rt_db r) run)"
    and "ab_replans (tk_budget (ro_task ro)) = ab_replans (tk_budget (compile_task_context t))"
    and "0 \<le> pa_replans pa"
proof -
  define db1 where "db1 = (if is_queued (rt_db r) run then started env run (rt_db r) else rt_db r)"
  define t1 where "t1 = compile_task_context t"
  define revision where "revision = (if is_queued (rt_db r) run then 0 else count_plans db1 run)"
  define t2 where "t2 = (if is_queued (rt_db r) run then t1 else with_observed_public_evidence db1 t1 run)"
  have plans: "so_plans db1 = so_plans (rt_db r)" by (simp add: db1_def started_def)
  show thesis
  proof (rule that)
    show "run_once env user t (Some run) r = plan_loop env
        \<lparr>ro_run = run, ro_user = user, ro_task = t2, ro_deadline = rt_clock r + ab_wall (tk_budget t2)\<rparr>
        \<lparr>pa_task = t2, pa_context = run_tool_context user run t2 db1, pa_revision = revision,
         pa_replans = max 0 (max (revision - 1) (rs_count (tk_replan t2))),
         pa_prints = map (\<lambda>p. plan_fingerprint_json (pl_json p)) (list_plans db1 run), pa_source = None\<rparr>
        (pass_budgets (tk_budget t2) db1 run (is_queued (rt_db r) run) (r\<lparr>rt_db := db1\<rparr>))"
      by (simp add: run_once_def run_row_of_def Let_def db1_def t1_def t2_def revision_def)
    show "store_frame run (rt_db r) (rt_db (pass_budgets (tk_budget t2) db1 run (is_queued (rt_db r) run) (r\<lparr>rt_db := db1\<rparr>)))"
      by (simp add: db1_def frame_started)
    show "ab_replans (tk_budget (ro_task \<lparr>ro_run = run, ro_user = user, ro_task = t2,
        ro_deadline = rt_clock r + ab_wall (tk_budget t2)\<rparr>)) = ab_replans (tk_budget (compile_task_context t))"
      by (simp add: t2_def t1_def with_observed_public_evidence_def Let_def)
  qed (simp_all add: plans revision_def count_plans_def)
qed

lemma plan_loop_frame: "store_frame (ro_run ro) (rt_db r) (rt_db (snd (plan_loop env ro pa r)))"
  using plan_loop_moves [of ro r env pa] unfolding pass_moves_def run_frame_def by blast

lemma run_once_frame:
  "store_frame run (rt_db r) (rt_db (snd (run_once env user t (Some run) r)))
   \<and> ended run (fst (run_once env user t (Some run) r)) (rt_db (snd (run_once env user t (Some run) r)))"
proof -
  obtain ro pa r0 where eq: "run_once env user t (Some run) r = plan_loop env ro pa r0"
    and "ro_run ro = run" and "store_frame run (rt_db r) (rt_db r0)"
    by (rule run_once_loop)
  then show ?thesis
    using plan_loop_frame [of ro r0 env pa] plan_loop_ended [of ro env pa r0] store_frame_trans by auto
qed

lemma auto_recover_frame:
  assumes "auto_recover_step env t out db = Some (t', db')" and "re_run out = run"
  shows "store_frame run db db'"
proof -
  obtain q f p ev where q: "find_run db run = Some q"
    and db': "db' = append_event (rr_id q) ev p (start_run (rr_id q) db)"
    using assms by (auto simp: auto_recover_step_def Let_def split: if_splits option.splits)
  have "rr_id q = run" using q by (auto simp: find_run_def dest: find_SomeD)
  then show ?thesis using store_frame_trans [OF frame_start_run frame_append_event] db' by simp
qed

text \<open>However many passes auto-recovery adds: only the run moves, and it ends in the status returned.\<close>

lemma run_agent_none:
  "auto_recover_step env t (fst (run_once env user t e r)) (rt_db (snd (run_once env user t e r))) = None \<Longrightarrow>
   run_agent env user t e r = run_once env user t e r"
  by (simp add: run_agent.simps [of env user t e r] split_beta)

lemma run_agent_some:
  "auto_recover_step env t (fst (run_once env user t e r)) (rt_db (snd (run_once env user t e r))) = Some (t', db) \<Longrightarrow>
   run_agent env user t e r =
     run_agent env user t' (Some (re_run (fst (run_once env user t e r)))) ((snd (run_once env user t e r))\<lparr>rt_db := db\<rparr>)"
  by (simp add: run_agent.simps [of env user t e r] split_beta)

lemma run_agent_frame:
  "e = Some run \<Longrightarrow> store_frame run (rt_db r) (rt_db (snd (run_agent env user t e r)))
   \<and> ended run (fst (run_agent env user t e r)) (rt_db (snd (run_agent env user t e r)))"
proof (induction env user t e r rule: run_agent.induct)
  case (1 env user t e r)
  define x where "x = run_once env user t e r"
  have x: "store_frame run (rt_db r) (rt_db (snd x))" "ended run (fst x) (rt_db (snd x))"
    using run_once_frame "1.prems" unfolding x_def by blast+
  then have id: "re_run (fst x) = run" by (simp add: ended_def)
  show ?case
  proof (cases "auto_recover_step env t (fst x) (rt_db (snd x))")
    case None
    then show ?thesis using x run_agent_none unfolding x_def by simp
  next
    case (Some y)
    obtain t' db where y: "y = (t', db)" by (cases y)
    let ?again = "run_agent env user t' (Some (re_run (fst x))) ((snd x)\<lparr>rt_db := db\<rparr>)"
    have again: "run_agent env user t e r = ?again"
      using run_agent_some Some y unfolding x_def by simp
    have one: "store_frame run (rt_db (snd x)) db" using auto_recover_frame [OF _ id] Some y by simp
    have "store_frame run (rt_db ((snd x)\<lparr>rt_db := db\<rparr>)) (rt_db (snd ?again)) \<and> ended run (fst ?again) (rt_db (snd ?again))"
      by (rule "1.IH" [OF x_def prod.collapse Some y [symmetric]]) (simp add: id)
    then have two: "store_frame run db (rt_db (snd ?again))" and "ended run (fst ?again) (rt_db (snd ?again))"
      by simp_all
    then show ?thesis unfolding again using store_frame_trans [OF store_frame_trans [OF x(1) one] two] by blast
  qed
qed

text \<open>The number of passes a run makes.\<close>

function run_passes :: "env \<Rightarrow> str \<Rightarrow> task \<Rightarrow> str option \<Rightarrow> rt \<Rightarrow> nat" where
  "run_passes env user t existing r =
     (let (out, r1) = run_once env user t existing r in
      case auto_recover_step env t out (rt_db r1) of
        None \<Rightarrow> 1
      | Some (t', db) \<Rightarrow> Suc (run_passes env user t' (Some (re_run out)) (r1\<lparr>rt_db := db\<rparr>)))"
  by pat_completeness auto
termination
  by (relation recovery_order) (auto intro: recovery_order_again)

declare run_passes.simps [simp del]

lemma run_passes_bound:
  "int (run_passes env user t e r) \<le> max 0 (ab_recoveries (tk_budget t) - attempts_used t) + 1"
proof (induction env user t e r rule: run_passes.induct)
  case (1 env user t e r)
  define x where "x = run_once env user t e r"
  show ?case
  proof (cases "auto_recover_step env t (fst x) (rt_db (snd x))")
    case None
    then show ?thesis by (simp add: run_passes.simps [of env user t e r] split_beta flip: x_def)
  next
    case (Some y)
    obtain t' db where y: "y = (t', db)" by (cases y)
    have "int (run_passes env user t' (Some (re_run (fst x))) ((snd x)\<lparr>rt_db := db\<rparr>))
        \<le> max 0 (ab_recoveries (tk_budget t') - attempts_used t') + 1"
      by (rule "1.IH" [OF x_def prod.collapse Some y [symmetric]])
    then show ?thesis
      using auto_recover_step_Some [of env t "fst x" "rt_db (snd x)" t' db] Some y
      by (simp add: run_passes.simps [of env user t e r] split_beta flip: x_def)
  qed
qed

lemma find_run_exists: "find_run db k = None \<longleftrightarrow> k \<notin> set (map rr_id (so_runs db))"
  by (auto simp: find_run_def find_None_iff)

lemma ended_status:
  assumes "store_frame run db db'" and "ended run out db'"
  shows "map_option rr_status (find_run db' run) = map_option (\<lambda>_. re_status out) (find_run db run)"
proof -
  have "map rr_id (so_runs db') = map rr_id (so_runs db)" using assms(1) unfolding store_frame_def by (elim conjE)
  then have "find_run db' run = None \<longleftrightarrow> find_run db run = None" unfolding find_run_exists by simp
  then show ?thesis using assms(2) by (cases "find_run db' run"; cases "find_run db run") (auto simp: ended_def)
qed

end
