(* ===== verification/Scenario.thy ===== *)
theory Scenario
  imports RunOutcome
begin

section \<open>A small concrete run\<close>

text \<open>
  One task, a plan of one step that fetches a page, an Executor that fetches it, and the store they
  work on. The witnesses of the properties of steps and runs use them.
\<close>

definition empty_store :: store where
  "empty_store = \<lparr>so_runs = [], so_plans = [], so_steps = [], so_artifacts = [], so_turns = [],
     so_events = [], so_next = 1, so_now = 0, so_limit = None\<rparr>"

definition demo_task :: task where
  "demo_task = \<lparr>tk_goal = lit ''find open roles'', tk_skills = [lit ''job-discovery''], tk_context = [],
     tk_private = [], tk_exec_state = [], tk_replan = initial_replan_state, tk_budget = default_budget\<rparr>"

definition fetch_step :: plan_step where
  "fetch_step = \<lparr>ps_id = lit ''fetch'', ps_objective = lit ''fetch the pages'',
     ps_skills = [lit ''job-discovery''], ps_criteria = [], ps_verify = False, ps_depends = [],
     ps_inputs = [], ps_outputs = [\<lparr>so_name = lit ''pages'', so_type = Some (lit ''public_job_page'')\<rparr>]\<rparr>"

definition demo_plan :: execution_plan where
  "demo_plan = \<lparr>ep_task = demo_task, ep_created_by = Planner, ep_complexity = L1, ep_criteria = [],
     ep_steps = [fetch_step]\<rparr>"

definition job_page :: dict where
  "job_page = [(lit ''source_url'', JStr (lit ''https://a.example/1'')), (lit ''content_hash'', JStr (lit ''h1'')),
     (lit ''visible_text'', JStr (lit ''Engineer''))]"

definition page_observation :: observation where
  "page_observation = \<lparr>ob_tool = lit ''fetch-public-job-pages'', ob_status = ObsSucceeded,
     ob_output = Some job_page, ob_error = None, ob_message = None\<rparr>"

definition answer :: "'r \<Rightarrow> tool_context \<Rightarrow> 'r agent_answer" where
  "answer x c = \<lparr>aa_result = Inr x, aa_trace = [], aa_turn_calls = 1, aa_tool_calls = 1, aa_model_calls = [],
     aa_meta = tx_meta c, aa_elapsed = 1\<rparr>"

definition fetched :: executor_result where
  "fetched = \<lparr>ex_status = ExecSucceeded, ex_summary = Some (lit ''done''), ex_refs = [], ex_obs = [page_observation],
     ex_question = None, ex_error = None, ex_state = []\<rparr>"

definition demo_env :: env where
  "demo_env = \<lparr>en_skills = career_registry (\<lambda>_. []), en_version = lit ''v1'',
     en_planner = (\<lambda>t c n. answer \<lparr>pr_status = PlanMade, pr_plan = Some demo_plan, pr_obs = [], pr_question = None,
        pr_error = None\<rparr> c),
     en_fallback = (\<lambda>t. None), en_executor = (\<lambda>t p s c obs n. answer fetched c),
     en_tool = (\<lambda>name c payload n. \<lparr>ta_obs = page_observation, ta_meta = tx_meta c, ta_elapsed = 1\<rparr>),
     en_recover = (\<lambda>t s m obs refs. Done [] []), en_extract = (\<lambda>s refs. Done [] []),
     en_matching = (\<lambda>t refs. Done [] []), en_tailoring = (\<lambda>t refs. Done [] []), en_max_stalls = 3\<rparr>"

definition demo_rt :: "store \<Rightarrow> rt" where
  "demo_rt db = \<lparr>rt_db = db, rt_tools = \<lparr>tl_maximum = 5, tl_used = 0\<rparr>, rt_turns = \<lparr>tb_maximum = 5, tb_used = 0\<rparr>,
     rt_model = \<lparr>mb_max_requests = 5, mb_max_input = 5000, mb_max_output = 5000, mb_requests = 0, mb_failed = 0,
       mb_input = 0, mb_output = 0, mb_reserved = 0, mb_active = 0\<rparr>,
     rt_indices = (\<lambda>_. 0), rt_clock = 0, rt_pos = 0\<rparr>"


definition demo_row :: step_row where
  "demo_row = fst (create_step (lit ''r'') (lit ''p'') 1 (lit ''o'') [] empty_store)"

definition demo_store :: store where
  "demo_store = snd (create_step (lit ''r'') (lit ''p'') 1 (lit ''o'') [] empty_store)"

definition demo_scope :: step_scope where
  "demo_scope = \<lparr>sc_run = lit ''r'', sc_user = lit ''u'', sc_task = demo_task, sc_row = demo_row,
     sc_plan = demo_plan, sc_step = fetch_step, sc_deadline = 100, sc_replans = 0, sc_seeded = []\<rparr>"

definition demo_context :: tool_context where
  "demo_context = run_tool_context (lit ''u'') (lit ''r'') demo_task demo_store"



text \<open>The step of the scenario, taken apart.\<close>

lemma demo_declared: "has_completion_contract (en_skills demo_env) fetch_step"
  by code_simp

lemma demo_gate: "completion_evidence_gate (en_skills demo_env) fetch_step [page_observation] (Some (lit ''done'')) refs"
proof (rule gate.passed_mono)
  show "completion_evidence_gate (en_skills demo_env) fetch_step [page_observation] (Some (lit ''done'')) []"
    by code_simp
  show "has_completion_contract (en_skills demo_env) fetch_step" by (rule demo_declared)
  show "summary_ok (Some (lit ''done''))" by code_simp
qed simp_all

lemma demo_unverified: "requires_verification (en_skills demo_env) fetch_step L1 = False"
  by code_simp

lemma demo_phase:
  assumes "ex_status (ga_execution g) = ExecSucceeded" and "ex_error (ga_execution g) = None"
    and "ex_obs (ga_execution g) = [page_observation]" and "ex_summary (ga_execution g) = Some (lit ''done'')"
    and "sc_step sc = fetch_step" and "sc_plan sc = demo_plan"
  shows "executor_phase demo_env sc g = Some (Complete False (ex_refs (ga_execution g)) (Some (lit ''done'')))"
proof -
  have "recovered_execution demo_env sc g = ga_execution g" by (simp add: recovered_execution_def Let_def assms)
  moreover have "\<not> is_complete_official_negative_discovery (sc_task sc) (sc_plan sc) (sc_step sc) (ga_execution g)"
    by (simp add: is_complete_official_negative_discovery_def assms official_scan_observation_def
        page_observation_def)
  moreover have "\<not> routing_done sc (ga_execution g)"
    by (simp add: routing_done_def intermediate_routing_contract_met_def is_intermediate_routing_step_def
        demo_plan_def fetch_step_def assms)
  moreover have "\<not> completion_gate_rejected (en_skills demo_env) fetch_step [page_observation] (Some (lit ''done''))
      (ex_refs (ga_execution g))"
    by (simp add: completion_gate_rejected_def demo_gate)
  moreover have "ep_complexity demo_plan = L1" "ob_status page_observation = ObsSucceeded"
    by (simp_all add: demo_plan_def page_observation_def)
  ultimately show ?thesis
    by (simp add: executor_phase_def Let_def assms failed_with_def unverified_action_def
        demo_unverified wall_clock_code_def)
qed

lemma demo_attempt:
  assumes "sc_step sc = fetch_step" and "sc_plan sc = demo_plan" and "lp_prior_obs lp = []"
  shows "\<exists>r' meta. attempt demo_env sc lp r = (Finished \<lparr>re_run = sc_run sc, re_status = Running,
    re_summary = Some (lit ''done''), re_error = None, re_reason = None\<rparr>, meta, r')"
proof -
  define c where "c = lp_context lp"
  define g where "g = gather demo_env sc lp fetched (tx_meta c) (agent_call (sc_run sc) (answer fetched c) r)"
  have skills: "\<not> lit ''job-matching'' \<in> set (ps_skills fetch_step)" "\<not> lit ''resume-tailoring'' \<in> set (ps_skills fetch_step)"
    by (simp_all add: fetch_step_def)
  have none: "en_recover demo_env t s m obs refs = Done [] []" "en_extract demo_env s refs = Done [] []" for t s m obs refs
    by (simp_all add: demo_env_def)
  have e: "ex_obs (ga_execution (fst g)) = [page_observation]" "ex_status (ga_execution (fst g)) = ExecSucceeded"
    "ex_error (ga_execution (fst g)) = None" "ex_summary (ga_execution (fst g)) = Some (lit ''done'')"
    by (simp_all add: g_def gather_def Let_def split_beta auto_recover_discovery_evidence_def
        auto_extract_jd_details_def auto_build_role_deliverable_def none skills assms fetched_def)
  have "executor_phase demo_env sc (fst g) = Some (Complete False (ex_refs (ga_execution (fst g))) (Some (lit ''done'')))"
    by (rule demo_phase) (simp_all add: e assms)
  then have d: "decide demo_env sc (ga_state (fst g)) (fst g) (snd (snd g)) =
      ([], Complete False (ex_refs (ga_execution (fst g))) (Some (lit ''done'')))"
    by (simp add: decide_def)
  have "en_executor demo_env t p s c' obs n = answer fetched c'" for t p s c' obs n by (simp add: demo_env_def)
  moreover have "aa_result (answer fetched c) = Inr fetched" "aa_meta (answer fetched c) = tx_meta c"
    by (simp_all add: answer_def)
  ultimately show ?thesis
    using d by (simp add: attempt_def Let_def split_beta perform_def log_all_def flip: c_def g_def)
qed

lemma demo_step:
  assumes "sc_step sc = fetch_step" and "sc_plan sc = demo_plan"
  shows "fst (run_step demo_env sc t c r) = \<lparr>re_run = sc_run sc, re_status = Running,
    re_summary = Some (lit ''done''), re_error = None, re_reason = None\<rparr>"
proof -
  define sc' where "sc' = sc\<lparr>sc_seeded := step_seeded_artifact_refs (rt_db r) (sc_run sc) (st_id (sc_row sc))
            @ resolved_step_artifact_refs (tx_meta c)\<rparr>"
  define lp where "lp = \<lparr>lp_task = t, lp_context = c, lp_retries = 0, lp_prior_obs = [], lp_prior_refs = [],
                lp_last = None, lp_extracted = False, lp_discovered = False\<rparr>"
  obtain r' meta where "attempt demo_env sc' lp r = (Finished \<lparr>re_run = sc_run sc', re_status = Running,
    re_summary = Some (lit ''done''), re_error = None, re_reason = None\<rparr>, meta, r')"
    using demo_attempt [of sc' lp r] assms by (auto simp: sc'_def lp_def)
  then show ?thesis by (simp add: run_step_def Let_def flip: sc'_def lp_def) (simp add: sc'_def)
qed

lemma demo_inputs: "checked_inputs demo_env sv fetch_step = Inr (sv_task sv, sv_context sv, False)"
proof -
  have "validate_step_ports (en_skills demo_env) fetch_step = None" by code_simp
  then show ?thesis by (simp add: checked_inputs_def prepare_step_inputs_def) (simp add: fetch_step_def)
qed

lemma demo_do_step: "\<exists>sv'. do_step demo_env ro demo_plan plan_id revision replans sequence fetch_step sv = NextStep sv'"
proof -
  define x where "x = executed demo_env ro demo_plan plan_id revision replans sequence fetch_step sv"
  have "fst x = \<lparr>re_run = ro_run ro, re_status = Running, re_summary = Some (lit ''done''), re_error = None,
      re_reason = None\<rparr>"
    by (simp add: x_def executed_def execute_step_def demo_inputs split_beta Let_def demo_step)
  then show ?thesis by (simp add: do_step_eq Let_def split_beta flip: x_def)
qed

lemma demo_do_steps:
  "\<exists>sv'. do_steps demo_env ro demo_plan plan_id revision replans sequence [fetch_step] sv = (NextStep sv', sv')"
  using demo_do_step [of ro plan_id revision replans sequence sv] by auto

lemma demo_ids: "ids_ok empty_store"
  by (simp add: ids_ok_def all_ids_def empty_store_def)

definition demo_state :: steps_state where
  "demo_state = \<lparr>sv_task = demo_task, sv_context = demo_context, sv_outputs = [], sv_summary = None,
     sv_rt = demo_rt empty_store\<rparr>"

definition demo_run :: run_scope where
  "demo_run = \<lparr>ro_run = lit ''r'', ro_user = lit ''u'', ro_task = demo_task, ro_deadline = 100\<rparr>"

subsection \<open>The component properties at work\<close>

theorem gate_monotone_witness:
  "completion_evidence_gate (en_skills demo_env) fetch_step
     [page_observation, page_observation\<lparr>ob_status := ObsFailed, ob_error := Some (lit ''captcha'')\<rparr>]
     (Some (lit ''all done'')) []"
proof (rule gate_monotone)
  show "completion_evidence_gate (en_skills demo_env) fetch_step [page_observation] (Some (lit ''done'')) []"
    by (rule demo_gate)
  show "summary_ok (Some (lit ''all done''))" by code_simp
qed (simp_all add: demo_declared)

definition two_events :: store where
  "two_events = append_event (lit ''r'') ''second'' [] (append_event (lit ''r'') ''first'' [] empty_store)"

lemma demo_log: "log_ok empty_store q"
  by (simp add: log_ok_def events_of_def empty_store_def)

theorem events_after_witness:
  "list_events two_events (lit ''r'') 1 = drop 1 (events_of two_events (lit ''r''))"
  using events_after [of two_events "lit ''r''" 1] demo_log by (simp add: two_events_def log_ok_append)

theorem append_keeps_numbering_witness:
  "log_ok (append_event (lit ''r'') ''third'' [] two_events) (lit ''r'')"
  using append_keeps_numbering [of two_events "lit ''r''"] demo_log by (simp add: two_events_def log_ok_append)

theorem compile_context_keeps_witness:
  "dget (tk_context (compile_task_context (demo_task\<lparr>tk_context := [(lit ''recent_days'', JInt 3)]\<rparr>)))
     (lit ''recent_days'') = JInt 3"
  using compile_context_keeps [of "demo_task\<lparr>tk_context := [(lit ''recent_days'', JInt 3)]\<rparr>" "lit ''recent_days''"]
  by (simp add: dhas_def)

text \<open>A step that takes the goal, a private fact and a page of an earlier step.\<close>

definition demo_match_step :: plan_step where
  "demo_match_step = fetch_step\<lparr>ps_id := lit ''match'', ps_inputs :=
     [\<lparr>si_kind = ContextInput, si_name = lit ''goal'', si_from = None, si_type = None\<rparr>,
      \<lparr>si_kind = ArtifactInput, si_name = lit ''pages'', si_from = Some (lit ''fetch''), si_type = None\<rparr>]\<rparr>"

theorem step_inputs_confined_witness:
  "\<exists>rv. resolve_inputs demo_task demo_match_step [(lit ''fetch'', [[(lit ''output_name'', JStr (lit ''pages''))]])]
      (ps_inputs demo_match_step) \<lparr>rv_context = [], rv_artifacts = [], rv_private = []\<rparr> = Inr rv
    \<and> resolved_public rv"
proof -
  let ?outs = "[(lit ''fetch'', [[(lit ''output_name'', JStr (lit ''pages''))]])]"
  obtain rv where rv: "resolve_inputs demo_task demo_match_step ?outs (ps_inputs demo_match_step)
      \<lparr>rv_context = [], rv_artifacts = [], rv_private = []\<rparr> = Inr rv"
    by (simp add: demo_match_step_def resolve_context_def task_input_value_def is_private_task_input_def
        resolve_artifact_def source_of_def artifact_matches_def ref_named_def present_def Let_def
        private_prefix_def profile_facts_key_def starts_with_def take_lit)
  then show ?thesis using step_inputs_confined [OF rv] by blast
qed

theorem tagged_outputs_witness:
  "\<exists>out \<in> set (ps_outputs fetch_step).
     dget (tag_step_outputs fetch_step [[(lit ''artifact_id'', JStr (lit ''7''))]] ! 0) (lit ''output_name'') =
       JStr (so_name out)"
  using tagged_outputs [of fetch_step 0 "[[(lit ''artifact_id'', JStr (lit ''7''))]]"]
  by (simp add: fetch_step_def)

theorem same_payload_isomorphic_witness:
  "plans_isomorphic demo_plan (demo_plan\<lparr>ep_steps := [fetch_step\<lparr>ps_id := lit ''other''\<rparr>]\<rparr>)"
  by (rule same_payload_isomorphic) (simp add: plan_payload_def demo_plan_def fetch_step_def)


end
