(* ===== verification/RunProperties.thy ===== *)
theory RunProperties
  imports Scenario
begin

section \<open>Properties of steps and runs\<close>

text \<open>The properties of the runtime as a whole, each a few steps over the lemmas of the theories below.\<close>

subsection \<open>Runs\<close>



text \<open>C7: The passes of a run are bounded by the recoveries its budget has left.\<close>

theorem passes_bounded:
  "int (run_passes env user t e r) \<le> max 0 (ab_recoveries (tk_budget t) - attempts_used t) + 1"
  by (rule run_passes_bound)



text \<open>C9: Resuming or recovering a run is for its owner and for the right status only; a refused call
  changes nothing, and an accepted one touches only that run and leaves it waiting, succeeded or
  failed.\<close>

theorem resume_and_recover_guarded:
  "(case fst (resume env user run t r) of
      Inl e \<Rightarrow> snd (resume env user run t r) = r
    | Inr out \<Rightarrow>
        (\<exists>q \<in> set (so_runs (rt_db r)). rr_id q = run \<and> rr_user q = user \<and> rr_status q = WaitingUser)
        \<and> store_frame run (rt_db r) (rt_db (snd (resume env user run t r)))
        \<and> re_status out \<in> {WaitingUser, Succeeded, Failed})
   \<and> (case fst (recover env user run t r) of
      Inl e \<Rightarrow> snd (recover env user run t r) = r
    | Inr out \<Rightarrow>
        (\<exists>q \<in> set (so_runs (rt_db r)). rr_id q = run \<and> rr_user q = user \<and> rr_status q = Running)
        \<and> store_frame run (rt_db r) (rt_db (snd (recover env user run t r)))
        \<and> re_status out \<in> {WaitingUser, Succeeded, Failed})"
proof (cases "get_run_for_owner (rt_db r) run user")
  case None
  then show ?thesis by (simp add: resume_def recover_def)
next
  case (Some q)
  then have q: "q \<in> set (so_runs (rt_db r))" "rr_id q = run" "rr_user q = user"
    by (auto simp: get_run_for_owner_def dest: find_SomeD)
  have go: "store_frame run (rt_db r) (rt_db (snd (run_agent env user t (Some run) (r\<lparr>rt_db := db\<rparr>))))
      \<and> re_status (fst (run_agent env user t (Some run) (r\<lparr>rt_db := db\<rparr>))) \<in> {WaitingUser, Succeeded, Failed}"
    if "store_frame run (rt_db r) db" for db
    using run_agent_frame [of "Some run" run "r\<lparr>rt_db := db\<rparr>" env user t] store_frame_trans [OF that]
    by (simp add: ended_def)
  have "store_frame run (rt_db r) (append_event run k p (start_run run (rt_db r)))" for k p
    by (rule store_frame_trans [OF frame_start_run frame_append_event])
  note frames = this frame_append_event
  show ?thesis
    using Some q frames [THEN go]
    by (auto simp: resume_def recover_def Let_def split_beta)
qed

subsection \<open>Steps\<close>



text \<open>C5: The Executor is called for a step at most once more than the replan budget of the task.\<close>

theorem executor_calls_bounded:
  "int (attempt_count env (start_scope sc c r) (start_loop t c) r) \<le> max 0 (sc_max_replans sc) + 1"
  using attempt_count_bound [of env "start_scope sc c r" "start_loop t c" r]
  by (simp add: start_loop_def)


text \<open>C4: When all the steps of a plan were gone through, the plan has exactly one row for each of its
  steps, in their order, and every one of them is stored as succeeded.\<close>

theorem plan_carried_out:
  assumes "do_steps env ro plan plan_id revision replans sequence ss sv = (NextStep sv', sv'')"
    and "ids_ok (rt_db (sv_rt sv))"
  shows "\<exists>rows. map step_key (so_steps (rt_db (sv_rt sv'))) =
       map step_key (so_steps (rt_db (sv_rt sv))) @ map step_key rows
     \<and> map st_objective rows = map ps_objective ss \<and> (\<forall>row \<in> set rows. st_plan row = plan_id
       \<and> map_option st_status (find_step (rt_db (sv_rt sv')) (st_id row)) = Some StepSucceeded)"
  by (rule do_steps_succeeded [OF assms])

subsection \<open>Recovery\<close>

text \<open>Whatever a skill's recovery does with the capabilities it is given, it stays inside its run:
  it only appends events and artifacts of that run, keeps every log and id in order, and spends no more
  than the budgets have.\<close>

theorem recovery_confined: "grows (sc_run sc) r (snd (snd (run_recovery tool sc p meta r)))"
  by (rule grows_recovery)

text \<open>A pause for an external block is never resumed by the harness: a terminal contract whose
  reason is external is not eligible for auto-recovery.\<close>

theorem blocked_never_recovers:
  assumes "is_external_terminal_code (terminal_code e obs)"
  shows "\<not> auto_recovery_eligible (as_payload (build_terminal_contract e obs role phase met n d))"
  using assms by (simp add: auto_recovery_eligible_def)

theorem blocked_never_recovers_witness:
  "\<not> auto_recovery_eligible (as_payload (build_terminal_contract (Some (lit ''captcha'')) [] ''executor''
      ''execution'' False 0 None))"
  by (rule blocked_never_recovers) (simp add: is_external_terminal_code_def external_codes_def)

text \<open>The budget of the next pass is a valid budget again and smaller in nothing.\<close>

theorem upgraded_budget_valid:
  assumes "budget_ok b" and "0 \<le> k"
  shows "budget_ok (upgraded_budget b k) \<and> ab_turns b \<le> ab_turns (upgraded_budget b k)
    \<and> ab_tools b \<le> ab_tools (upgraded_budget b k) \<and> ab_replans b \<le> ab_replans (upgraded_budget b k)
    \<and> ab_wall b \<le> ab_wall (upgraded_budget b k) \<and> ab_requests b \<le> ab_requests (upgraded_budget b k)
    \<and> ab_input b \<le> ab_input (upgraded_budget b k) \<and> ab_output b \<le> ab_output (upgraded_budget b k)"
proof -
  have "v * 2 \<le> v * (k + 3)" if "0 \<le> v" for v :: int using that assms(2) by (intro mult_left_mono) auto
  then have grow: "v \<le> v * (k + 3) div 2" if "0 \<le> v" for v :: int
    using that by (metis nonzero_mult_div_cancel_right zdiv_mono1 zero_less_numeral zero_neq_numeral)
  then have "v \<le> scale_budget k v cap" if "0 \<le> v" "v \<le> cap" for v cap
    using that grow [OF that(1)] by (simp add: scale_budget_def le_max_iff_disj)
  moreover have "scale_budget k v cap \<le> cap" "1 \<le> cap \<Longrightarrow> 1 \<le> scale_budget k v cap" for v cap
    by (simp_all add: scale_budget_def)
  ultimately show ?thesis
    using assms(1) unfolding budget_ok_def upgraded_budget_def agent_budget.select_convs
    by (smt (verit, best))
qed

theorem upgraded_budget_valid_witness:
  "budget_ok (upgraded_budget default_budget 0)"
  using upgraded_budget_valid [of default_budget 0] by (simp add: budget_ok_def default_budget_def)

theorem plan_carried_out_witness:
  "\<exists>(sv' :: steps_state) k. map_option st_status (find_step (rt_db (sv_rt sv')) k) = Some StepSucceeded"
proof -
  obtain sv' where sv': "do_steps demo_env demo_run demo_plan (lit ''p'') 1 0 1 [fetch_step] demo_state = (NextStep sv', sv')"
    using demo_do_steps by blast
  have "ids_ok (rt_db (sv_rt demo_state))" by (simp add: demo_state_def demo_rt_def demo_ids)
  from plan_carried_out [OF sv' this] show ?thesis
  proof (elim exE conjE)
    fix rows
    assume rows: "map st_objective rows = map ps_objective [fetch_step]"
      "\<forall>row \<in> set rows. st_plan row = lit ''p''
        \<and> map_option st_status (find_step (rt_db (sv_rt sv')) (st_id row)) = Some StepSucceeded"
    then have "hd rows \<in> set rows" by (cases rows) simp_all
    then show ?thesis using rows(2) by blast
  qed
qed

end
