(* ===== verification/EventStream.thy ===== *)
theory EventStream
  imports RunStore "HOL-Library.Sublist"
begin

section \<open>The event stream\<close>

text \<open>
  \<open>stream_agent_events\<close>, \<open>_sse_event\<close> and \<open>_effective_event_cursor\<close> of
  \<open>backend/app/api/routes/agent_runtime.py\<close>, over \<open>get_run\<close> and \<open>list_events\<close> of
  \<open>service.py\<close>. The generator polls the log, so a stream is a function of the stores it sees one
  poll after the other. The time stamp's \<open>isoformat\<close> is an argument: the model's clock is a
  number. \<open>isalnum\<close> is taken on ASCII, which is all an event type consists of.
\<close>

subsection \<open>Owner-scoped reads\<close>

definition service_list_events :: "store \<Rightarrow> str \<Rightarrow> str \<Rightarrow> int \<Rightarrow> event_row list option" where
  "service_list_events db user run after =
     (case get_run_for_owner db run user of None \<Rightarrow> None | Some _ \<Rightarrow> Some (list_events db run after))"

subsection \<open>One message\<close>

definition event_name_char :: "int \<Rightarrow> bool" where
  "event_name_char c \<longleftrightarrow> (48 \<le> c \<and> c \<le> 57) \<or> (65 \<le> c \<and> c \<le> 90) \<or> (97 \<le> c \<and> c \<le> 122) \<or> c = 95 \<or> c = 45"

definition sse_name :: "str \<Rightarrow> str" where
  "sse_name t = (let cleaned = filter event_name_char t in if cleaned = [] then lit ''agent_event'' else cleaned)"

definition sse_event :: "(int \<Rightarrow> str) \<Rightarrow> event_row \<Rightarrow> str" where
  "sse_event stamp e =
     lit ''id: '' @ str_of_int (ev_seq e) @ 10 # lit ''event: '' @ sse_name (ev_type e) @ 10 #
     lit ''data: '' @ dumps_compact (JObj
       [(lit ''sequence'', JInt (ev_seq e)), (lit ''event_type'', JStr (ev_type e)),
        (lit ''payload'', JObj (ev_payload e)), (lit ''created_at'', JStr (stamp (ev_created e)))])
     @ [10, 10]"

definition keep_alive :: str where
  "keep_alive = lit '': keep-alive'' @ [10, 10]"

subsection \<open>The cursor of a reconnect\<close>

text \<open>
  \<open>int(text)\<close>: surrounding white space, a sign, and digits with single underscores between them;
  more than 4300 digits are refused. \<open>None\<close> is \<open>ValueError\<close>.
\<close>

fun int_digits :: "str \<Rightarrow> str option" where
  "int_digits [] = None"
| "int_digits [c] = (if 48 \<le> c \<and> c \<le> 57 then Some [c] else None)"
| "int_digits (c # d # cs) =
     (if \<not> (48 \<le> c \<and> c \<le> 57) then None
      else map_option ((#) c) (if d = 95 then int_digits cs else int_digits (d # cs)))"

definition max_str_digits :: nat where
  "max_str_digits = 4300"

definition py_int :: "str \<Rightarrow> int option" where
  "py_int text =
     (let s = strip text;
          body = (if s \<noteq> [] \<and> hd s \<in> {43, 45} then tl s else s)
      in case int_digits body of
           None \<Rightarrow> None
         | Some ds \<Rightarrow>
             if max_str_digits < length ds then None
             else Some (if s \<noteq> [] \<and> hd s = 45 then - int_of_text ds else int_of_text ds))"

definition effective_event_cursor :: "int \<Rightarrow> str option \<Rightarrow> int" where
  "effective_event_cursor after last_event_id =
     (case last_event_id of
        None \<Rightarrow> after
      | Some text \<Rightarrow> (case py_int text of None \<Rightarrow> after | Some n \<Rightarrow> max after n))"

subsection \<open>The generator\<close>

datatype chunk = Message event_row | KeepAlive

definition chunk_text :: "(int \<Rightarrow> str) \<Rightarrow> chunk \<Rightarrow> str" where
  "chunk_text stamp c = (case c of Message e \<Rightarrow> sse_event stamp e | KeepAlive \<Rightarrow> keep_alive)"

text \<open>\<open>for event in events: cursor = event.sequence\<close>\<close>

definition advance :: "event_row list \<Rightarrow> int \<Rightarrow> int" where
  "advance events cursor = fold (\<lambda>e _. ev_seq e) events cursor"

text \<open>The \<open>while\<close> loop from a batch of events on; the list holds the stores of the polls that follow,
  and the loop waits when it is used up.\<close>

fun event_stream :: "str \<Rightarrow> str \<Rightarrow> bool \<Rightarrow> event_row list \<Rightarrow> int \<Rightarrow> store list \<Rightarrow> chunk list" where
  "event_stream user run follow events cursor dbs =
     map Message events @
     (if \<not> follow then []
      else KeepAlive #
        (case dbs of
           [] \<Rightarrow> []
         | db # dbs' \<Rightarrow>
             let c = advance events cursor in
             (case service_list_events db user run c of
                None \<Rightarrow> []
              | Some events' \<Rightarrow> event_stream user run follow events' c dbs')))"

declare event_stream.simps [simp del]

text \<open>\<open>None\<close> is the response 404.\<close>

definition stream_agent_events ::
  "str \<Rightarrow> str \<Rightarrow> int \<Rightarrow> bool \<Rightarrow> str option \<Rightarrow> store \<Rightarrow> store list \<Rightarrow> chunk list option" where
  "stream_agent_events user run after follow last_event_id db dbs =
     (let cursor = effective_event_cursor after last_event_id in
      case service_list_events db user run cursor of
        None \<Rightarrow> None
      | Some events \<Rightarrow> Some (event_stream user run follow events cursor dbs))"

subsection \<open>What a reader of a durable log may rely on\<close>

text \<open>
  The stream relies on two laws of the store: a read after a number returns the rest of the log,
  and the entries are numbered from 1. Nothing else of the store matters to a reader.
\<close>

locale durable_log =
  fixes ok :: "'db \<Rightarrow> bool"
    and log :: "'db \<Rightarrow> 'e list"
    and read :: "'db \<Rightarrow> int \<Rightarrow> 'e list"
    and number :: "'e \<Rightarrow> int"
  assumes read_rest: "ok db \<Longrightarrow> 0 \<le> c \<Longrightarrow> read db c = drop (nat c) (log db)"
    and numbered: "ok db \<Longrightarrow> map number (log db) = [1..int (length (log db))]"
begin

lemma number_nth: "ok db \<Longrightarrow> i < length (log db) \<Longrightarrow> number (log db ! i) = int i + 1"
  using numbered [of db] by (metis (no_types, lifting) add.commute length_map nth_map nth_upto
      add_le_cancel_left int_ops(4) of_nat_Suc of_nat_le_iff Suc_leI)

lemma last_number:
  assumes "ok db" and "0 \<le> c" and "prefix got (drop (nat c) (log db))"
  shows "fold (\<lambda>e _. number e) got c = c + int (length got)"
proof (cases got rule: rev_cases)
  case (snoc es e)
  from assms(3) obtain post where d: "drop (nat c) (log db) = es @ e # post"
    by (auto simp: snoc prefix_def)
  then have i: "nat c + length es < length (log db)"
    by (metis add.commute drop_eq_Nil drop_drop append_Nil length_append length_drop
        less_diff_conv add_less_cancel_left length_Cons zero_less_Suc add_0_right)
  have "log db ! (nat c + length es) = e"
    using d i by (metis add_leD1 less_imp_le_nat nth_append_length nth_drop)
  with number_nth [OF assms(1) i] assms(2) show ?thesis by (simp add: snoc)
qed simp

lemma read_prefix:
  assumes "ok db" and "0 \<le> c" and "prefix (log db) (log final)"
  shows "prefix (read db c) (drop (nat c) (log final))"
  using assms by (auto simp: read_rest prefix_def)

lemma read_on:
  assumes "ok db" and "0 \<le> c" and "prefix (log db) (log final)" and "read db c \<noteq> []"
  shows "nat (c + int (length (read db c))) = length (log db)"
  using assms by (simp add: read_rest)

end

lemma events_numbered: "log_ok db run \<Longrightarrow> map ev_seq (events_of db run) = [1..int (length (events_of db run))]"
  by (simp add: log_ok_def)

interpretation run_log: durable_log "\<lambda>db. log_ok db run" "\<lambda>db. events_of db run" "\<lambda>db. list_events db run" ev_seq
  for run
  by unfold_locales (rule list_events_drop, assumption+, rule events_numbered)

subsection \<open>A client that reconnects\<close>

text \<open>
  A session is one request: the store it is opened on, the stores its polls see, and how many chunks
  arrive before the connection breaks. The client asks for what follows the last number it has seen,
  as the parameter \<open>after_sequence\<close> or as the header \<open>Last-Event-ID\<close>.
\<close>

record session =
  ss_open :: store
  ss_polls :: "store list"
  ss_follow :: bool
  ss_header :: bool
  ss_cut :: nat

definition received :: "chunk list \<Rightarrow> event_row list" where
  "received chunks = List.map_filter (\<lambda>c. case c of Message e \<Rightarrow> Some e | KeepAlive \<Rightarrow> None) chunks"

definition session_chunks :: "str \<Rightarrow> str \<Rightarrow> int \<Rightarrow> session \<Rightarrow> chunk list" where
  "session_chunks user run c s =
     (case stream_agent_events user run (if ss_header s then 0 else c) (ss_follow s)
             (if ss_header s then Some (str_of_int c) else None) (ss_open s) (ss_polls s) of
        None \<Rightarrow> []
      | Some chunks \<Rightarrow> take (ss_cut s) chunks)"

fun client :: "str \<Rightarrow> str \<Rightarrow> int \<Rightarrow> session list \<Rightarrow> event_row list" where
  "client user run c [] = []"
| "client user run c (s # ss) =
     (let got = received (session_chunks user run c s) in got @ client user run (advance got c) ss)"

text \<open>Every store that a session sees is well numbered and holds a prefix of the log \<open>final\<close>.\<close>

definition sees :: "str \<Rightarrow> store \<Rightarrow> session \<Rightarrow> bool" where
  "sees run final s \<longleftrightarrow> (\<forall>db \<in> set (ss_open s # ss_polls s).
     log_ok db run \<and> prefix (events_of db run) (events_of final run))"

lemma received_simps [simp]:
  "received [] = []"
  "received (Message e # cs) = e # received cs"
  "received (KeepAlive # cs) = received cs"
  "received (map Message es @ cs) = es @ received cs"
  "received (map Message es) = es"
  by (induction es) (simp_all add: received_def map_filter_simps)

lemma received_append: "received (xs @ ys) = received xs @ received ys"
  by (induction xs) (auto simp: received_def map_filter_simps split: chunk.splits option.splits)

lemma received_take: "prefix (received (take n cs)) (received cs)"
  by (metis append_take_drop_id prefixI received_append)

lemma prefix_drop_append:
  assumes "prefix got (drop k xs)" and "prefix rest (drop (k + length got) xs)"
  shows "prefix (got @ rest) (drop k xs)"
proof -
  from assms(1) obtain zs where z: "drop k xs = got @ zs" by (auto simp: prefix_def)
  then have "drop (k + length got) xs = zs" by (metis add.commute append_eq_conv_conj drop_drop)
  with assms(2) z show ?thesis by (simp add: prefix_def)
qed

text \<open>From a cursor on, one stream delivers the log in order, whatever stores its polls see.\<close>

lemma event_stream_prefix:
  assumes "0 \<le> c" and "log_ok db run" and "prefix (events_of db run) (events_of final run)"
    and "\<forall>db \<in> set dbs. log_ok db run \<and> prefix (events_of db run) (events_of final run)"
  shows "prefix (received (event_stream user run follow (list_events db run c) c dbs)) (drop (nat c) (events_of final run))"
  using assms
proof (induction dbs arbitrary: db c)
  case Nil
  then show ?case
    using run_log.read_prefix [of db run c final] by (subst event_stream.simps) simp
next
  case (Cons d dbs)
  define es where "es = list_events db run c"
  have es: "prefix es (drop (nat c) (events_of final run))"
    using run_log.read_prefix [of db run c final] Cons.prems by (simp add: es_def)
  have adv: "advance es c = c + int (length es)"
    unfolding advance_def es_def using Cons.prems
    by (intro run_log.last_number [of db run]) (simp_all add: list_events_drop)
  have "prefix (received (event_stream user run follow (list_events d run (advance es c)) (advance es c) dbs))
      (drop (nat c + length es) (events_of final run))"
    using Cons.IH [of "advance es c" d] Cons.prems by (simp add: adv nat_add_distrib)
  then show ?case
    using es unfolding es_def [symmetric]
    by (subst event_stream.simps) (auto simp: service_list_events_def Let_def split: option.splits
        intro: prefix_drop_append)
qed

subsection \<open>Reading back a cursor\<close>

lemma length_nat_digits: "n < 10 ^ k \<Longrightarrow> 0 < k \<Longrightarrow> length (nat_digits n) \<le> k"
proof (induction n arbitrary: k rule: nat_digits.induct)
  case (1 n)
  show ?case
  proof (cases "n < 10")
    case True
    with 1 show ?thesis by (subst nat_digits.simps) simp
  next
    case False
    with 1 obtain j where k: "k = Suc j" by (cases k) auto
    have "n div 10 < 10 ^ j" using "1.prems"(1) by (simp add: k less_mult_imp_div_less mult.commute)
    moreover have "0 < j" using False "1.prems"(1) by (cases j) (simp_all add: k)
    ultimately have "length (nat_digits (n div 10)) \<le> j" using "1.IH" False by blast
    with False show ?thesis by (subst nat_digits.simps) (simp add: k)
  qed
qed

lemma int_digits_text: "is_digit_text ds \<Longrightarrow> int_digits ds = Some ds"
  by (induction ds rule: int_digits.induct) (auto simp: is_digit_text_def)

lemma strip_digits: "is_digit_text ds \<Longrightarrow> strip ds = ds"
proof -
  assume ds: "is_digit_text ds"
  then have sp: "\<not> is_space c" if "c \<in> set ds" for c
    using that by (auto simp: is_digit_text_def is_space_def)
  have "dropWhile is_space xs = xs" if "set xs \<subseteq> set ds" for xs
    using that sp by (cases xs) auto
  then show ?thesis by (simp add: strip_def)
qed

lemma py_int_str_of_int:
  assumes "0 \<le> n" and "n < 10 ^ max_str_digits"
  shows "py_int (str_of_int n) = Some n"
proof -
  define ds where "ds = nat_digits (nat n)"
  have max_pos: "0 < max_str_digits" by (simp add: max_str_digits_def)
  have d: "is_digit_text ds" by (simp add: ds_def)
  have "hd ds \<notin> {43, 45}" using d by (cases ds) (auto simp: is_digit_text_def)
  moreover have "nat n < 10 ^ max_str_digits" using assms by (simp add: nat_less_iff)
  then have "\<not> max_str_digits < length ds" using length_nat_digits [of "nat n" max_str_digits] by (simp add: ds_def max_pos)
  moreover have "int_of_text ds = n" using assms(1) by (simp add: ds_def)
  ultimately show ?thesis
    using assms(1) d by (simp add: py_int_def str_of_int_def strip_digits int_digits_text flip: ds_def)
qed

subsection \<open>Nothing is lost and nothing comes twice\<close>

lemma session_prefix:
  assumes "0 \<le> c" and "c < 10 ^ max_str_digits" and "sees run final s"
  shows "prefix (received (session_chunks user run c s)) (drop (nat c) (events_of final run))"
proof -
  have cursor: "effective_event_cursor (if ss_header s then 0 else c)
      (if ss_header s then Some (str_of_int c) else None) = c"
    using assms(1,2) by (simp add: effective_event_cursor_def py_int_str_of_int)
  have "prefix (received (event_stream user run (ss_follow s) (list_events (ss_open s) run c) c (ss_polls s)))
      (drop (nat c) (events_of final run))"
    by (rule event_stream_prefix) (use assms in \<open>simp_all add: sees_def\<close>)
  then show ?thesis
    unfolding session_chunks_def stream_agent_events_def cursor Let_def
    by (auto simp: service_list_events_def split: option.splits intro: prefix_order.trans [OF received_take])
qed

lemma client_prefix:
  assumes "0 \<le> c" and "nat c \<le> length (events_of final run)"
    and "int (length (events_of final run)) < 10 ^ max_str_digits" and "log_ok final run"
    and "\<forall>s \<in> set ss. sees run final s"
  shows "prefix (client user run c ss) (drop (nat c) (events_of final run))"
  using assms
proof (induction ss arbitrary: c)
  case (Cons s ss)
  define got where "got = received (session_chunks user run c s)"
  have "c \<le> int (length (events_of final run))" using Cons.prems(1,2) by simp
  then have "c < 10 ^ max_str_digits" by (rule order.strict_trans1 [OF _ Cons.prems(3)])
  then have got: "prefix got (drop (nat c) (events_of final run))"
    unfolding got_def using Cons.prems by (intro session_prefix) auto
  have adv: "advance got c = c + int (length got)"
    unfolding advance_def using run_log.last_number [OF Cons.prems(4,1) got] .
  have "length got \<le> length (events_of final run) - nat c"
    using prefix_length_le [OF got] by simp
  then have "prefix (client user run (advance got c) ss) (drop (nat c + length got) (events_of final run))"
    using Cons.IH [of "advance got c"] Cons.prems by (simp add: adv nat_add_distrib)
  then show ?case using prefix_drop_append [OF got] by (simp add: got_def Let_def)
qed simp

lemma client_append:
  "client user run c (ss @ ts) =
     client user run c ss @ client user run (advance (client user run c ss) c) ts"
  by (induction ss arbitrary: c) (simp_all add: Let_def advance_def)

definition catch_up :: "store \<Rightarrow> bool \<Rightarrow> bool \<Rightarrow> nat \<Rightarrow> session" where
  "catch_up db follow header n =
     \<lparr>ss_open = db, ss_polls = [], ss_follow = follow, ss_header = header, ss_cut = n\<rparr>"

lemma catch_up_rest:
  assumes "get_run_for_owner db run user \<noteq> None" and "0 \<le> c" and "c < 10 ^ max_str_digits"
    and "length (list_events db run c) \<le> n"
  shows "received (session_chunks user run c (catch_up db follow header n)) = list_events db run c"
proof -
  have "effective_event_cursor (if header then 0 else c) (if header then Some (str_of_int c) else None) = c"
    using assms(2,3) by (simp add: effective_event_cursor_def py_int_str_of_int)
  then have "session_chunks user run c (catch_up db follow header n) =
      take n (map Message (list_events db run c) @ (if follow then [KeepAlive] else []))"
    using assms(1) by (auto simp: session_chunks_def catch_up_def stream_agent_events_def
        service_list_events_def event_stream.simps [of _ _ _ _ _ "[]"] split: option.splits)
  also have "\<dots> = map Message (list_events db run c) @ take (n - length (list_events db run c)) (if follow then [KeepAlive] else [])"
    using assms(4) by simp
  also have "received \<dots> = list_events db run c"
    by (cases "n - length (list_events db run c)") auto
  finally show ?thesis by simp
qed

text \<open>C29: However often the connection breaks, at whatever chunk, and whatever stage of the log the
  polls of a session see, a client that reconnects from the last number it has seen receives the events
  of the run in order, none twice and none left out; one more request of the owner brings it up to the
  end of the log.\<close>

theorem events_exactly_once:
  assumes "log_ok final run" and "int (length (events_of final run)) < 10 ^ max_str_digits"
    and "\<forall>s \<in> set ss. sees run final s"
  shows "prefix (client user run 0 ss) (events_of final run)
    \<and> (get_run_for_owner final run user \<noteq> None \<and> length (events_of final run) \<le> n \<longrightarrow>
        client user run 0 (ss @ [catch_up final follow header n]) = events_of final run)"
proof
  show pre: "prefix (client user run 0 ss) (events_of final run)"
    using client_prefix [of 0 final run ss user] assms by simp
  define got where "got = client user run 0 ss"
  have adv: "advance got 0 = int (length got)"
    unfolding advance_def using run_log.last_number [OF assms(1), of 0 got] pre by (simp add: got_def)
  have rest: "list_events final run (int (length got)) = drop (length got) (events_of final run)"
    by (simp add: list_events_drop [OF assms(1)])
  have "int (length got) \<le> int (length (events_of final run))"
    using prefix_length_le [OF pre] by (simp add: got_def)
  then have "int (length got) < 10 ^ max_str_digits" by (rule order.strict_trans1 [OF _ assms(2)])
  moreover have "got @ drop (length got) (events_of final run) = events_of final run"
    using pre by (auto simp: got_def prefix_def)
  ultimately show "get_run_for_owner final run user \<noteq> None \<and> length (events_of final run) \<le> n \<longrightarrow>
      client user run 0 (ss @ [catch_up final follow header n]) = events_of final run"
    using adv rest catch_up_rest [of final run user "int (length got)" n follow header]
    by (auto simp add: client_append simp flip: got_def)
qed

end
