(* ===== verification/PlanRepair.thy ===== *)
theory PlanRepair
  imports CareerManifest
begin

section \<open>Deterministic plans and repairs of the Planner\<close>

text \<open>
  The part of \<open>backend/app/services/agent_runtime/planner_agent.py\<close> that no model decides: the
  fallback plan (\<open>_build_seeded_career_fallback\<close>), the removal of deliverables nobody asked for
  (\<open>_trim_unrequested_trailing_steps\<close>) and the step that is added when the goal names a resume
  deliverable and the plan forgot it (\<open>_ensure_requested_deliverable_steps\<close>). The registry is
  always given, as the runtime gives it.
\<close>

definition discovery_skill :: str where "discovery_skill = lit ''job-discovery''"
definition matching_skill :: str where "matching_skill = lit ''job-matching''"
definition tailoring_skill :: str where "tailoring_skill = lit ''resume-tailoring''"

lemmas skill_literals = discovery_skill_def matching_skill_def tailoring_skill_def

text \<open>\<open>_goal_requests_deliverable(None, skill, goal)\<close>: the markers alone, without the registry.\<close>

definition goal_names :: "str \<Rightarrow> str \<Rightarrow> bool" where
  "goal_names skill goal \<longleftrightarrow> (\<exists>m \<in> set (goal_markers skill). contains m (lower goal))"

subsection \<open>The fallback plan\<close>

definition context_input :: "str \<Rightarrow> step_input_ref" where
  "context_input name = \<lparr>si_kind = ContextInput, si_name = name, si_from = None, si_type = None\<rparr>"

definition artifact_input :: "str \<Rightarrow> str \<Rightarrow> step_input_ref" where
  "artifact_input artifact step =
     \<lparr>si_kind = ArtifactInput, si_name = artifact, si_from = Some step, si_type = Some artifact\<rparr>"

definition typed_output :: "str \<Rightarrow> step_output_ref" where
  "typed_output artifact = \<lparr>so_name = artifact, so_type = Some artifact\<rparr>"

definition discover_step :: "bool \<Rightarrow> plan_step" where
  "discover_step seeded =
     \<lparr>ps_id = lit ''discover_jobs'', ps_objective = discover_objective_msg, ps_skills = [discovery_skill],
      ps_criteria = [discover_criterion_msg], ps_verify = False, ps_depends = [],
      ps_inputs = (if seeded then [context_input (lit ''candidate_urls'')] else []),
      ps_outputs = [typed_output (lit ''structured_job_details'')]\<rparr>"

definition match_step :: "str \<Rightarrow> str \<Rightarrow> plan_step" where
  "match_step step artifact =
     \<lparr>ps_id = lit ''match_jobs'', ps_objective = match_objective_msg, ps_skills = [matching_skill],
      ps_criteria = [match_criterion_msg], ps_verify = False, ps_depends = [step],
      ps_inputs = [artifact_input artifact step], ps_outputs = [typed_output (lit ''job_matching_report'')]\<rparr>"

definition tailor_step :: "str \<Rightarrow> str \<Rightarrow> str \<Rightarrow> str \<Rightarrow> plan_step" where
  "tailor_step step_id objective step artifact =
     \<lparr>ps_id = step_id, ps_objective = objective, ps_skills = [tailoring_skill],
      ps_criteria = [tailor_criterion_msg], ps_verify = False, ps_depends = [step],
      ps_inputs = [artifact_input artifact step],
      ps_outputs = [typed_output (lit ''resume_tailoring_brief'')]\<rparr>"

definition fallback_steps :: "skill_registry \<Rightarrow> task \<Rightarrow> plan_step list" where
  "fallback_steps sr t =
     (let needs_matching = (matching_skill \<in> set (tk_skills t)
            \<and> goal_requests_deliverable sr matching_skill (tk_goal t));
          needs_tailoring = (tailoring_skill \<in> set (tk_skills t)
            \<and> goal_requests_deliverable sr tailoring_skill (tk_goal t));
          source = (if needs_matching then (lit ''match_jobs'', lit ''job_matching_report'')
                    else (lit ''discover_jobs'', lit ''structured_job_details''))
      in discover_step (has_candidate_urls t)
         # (if needs_matching then [match_step (lit ''discover_jobs'') (lit ''structured_job_details'')] else [])
         @ (if needs_tailoring
            then [tailor_step (lit ''tailor_resume'') tailor_objective_msg (fst source) (snd source)] else []))"

definition build_seeded_career_fallback :: "skill_registry \<Rightarrow> task \<Rightarrow> execution_plan option" where
  "build_seeded_career_fallback sr t =
     (if discovery_skill \<notin> set (tk_skills t) then None
      else let steps = fallback_steps sr t
        in case make_execution_plan t Planner (if 3 \<le> length steps then L3 else L2)
               [fallback_criterion_msg] steps of
             Inl e \<Rightarrow> None | Inr p \<Rightarrow> Some p)"

subsection \<open>Deliverables nobody asked for\<close>

definition uses :: "str \<Rightarrow> plan_step \<Rightarrow> bool" where
  "uses skill s \<longleftrightarrow> skill \<in> set (ps_skills s)"

text \<open>The first loop: the steps up to the first matching step that follows a discovery.\<close>

fun cut_at_matching :: "bool \<Rightarrow> plan_step list \<Rightarrow> plan_step list" where
  "cut_at_matching discovered [] = []"
| "cut_at_matching discovered (s # ss) =
     (if discovered \<and> uses matching_skill s then []
      else s # cut_at_matching (discovered \<or> uses discovery_skill s) ss)"

text \<open>The second loop pops steps from the end; here the plan is reversed.\<close>

fun pop_unrequested :: "bool \<Rightarrow> bool \<Rightarrow> plan_step list \<Rightarrow> plan_step list" where
  "pop_unrequested wants_tailoring wants_matching [] = []"
| "pop_unrequested wants_tailoring wants_matching (s # ss) =
     (if uses tailoring_skill s \<and> \<not> wants_tailoring then pop_unrequested wants_tailoring wants_matching ss
      else if ss \<noteq> [] \<and> uses matching_skill s \<and> \<not> wants_matching \<and> (\<exists>p \<in> set ss. uses discovery_skill p)
        then pop_unrequested wants_tailoring wants_matching ss
      else s # ss)"

definition trim_unrequested_trailing_steps :: "task \<Rightarrow> execution_plan \<Rightarrow> execution_plan" where
  "trim_unrequested_trailing_steps t p =
     (let goal = lower (tk_goal t);
          wants_tailoring = goal_names tailoring_skill goal;
          wants_matching = goal_names matching_skill goal;
          steps = (if wants_matching then ep_steps p else cut_at_matching False (ep_steps p))
      in p\<lparr>ep_steps := rev (pop_unrequested wants_tailoring wants_matching (rev steps))\<rparr>)"

subsection \<open>A deliverable the plan forgot\<close>

definition accepted_sources :: "str list" where
  "accepted_sources = map lit [''job_matching_report'', ''structured_job_details'', ''public_job_page'']"

definition source_artifact :: "plan_step \<Rightarrow> str option" where
  "source_artifact s = find (\<lambda>a. Some a \<in> so_type ` set (ps_outputs s)) accepted_sources"

text \<open>The last step that declares a compatible artifact.\<close>

definition tailoring_source :: "plan_step list \<Rightarrow> (plan_step \<times> str) option" where
  "tailoring_source steps =
     (case find (\<lambda>s. source_artifact s \<noteq> None) (rev steps) of
        None \<Rightarrow> None | Some s \<Rightarrow> Some (s, the (source_artifact s)))"

text \<open>The \<open>while\<close> loop tries \<open>tailor_resume\<close>, \<open>tailor_resume_2\<close>, and so on; among as many names
  as there are ids, and one more, one is free.\<close>

definition tailor_names :: "nat \<Rightarrow> str list" where
  "tailor_names n = lit ''tailor_resume'' # map (\<lambda>i. lit ''tailor_resume_'' @ nat_digits i) [2..<n + 2]"

definition fresh_tailor_id :: "str list \<Rightarrow> str" where
  "fresh_tailor_id used = the (find (\<lambda>i. i \<notin> set used) (tailor_names (length used)))"

text \<open>\<open>None\<close> is a \<open>ValidationError\<close>, which this code does not catch.\<close>

definition ensure_requested_deliverable_steps :: "task \<Rightarrow> execution_plan \<Rightarrow> execution_plan option" where
  "ensure_requested_deliverable_steps t p =
     (if \<not> goal_names tailoring_skill (lower (tk_goal t)) \<or> tailoring_skill \<notin> set (tk_skills t)
         \<or> (\<exists>s \<in> set (ep_steps p). uses tailoring_skill s) then Some p
      else case tailoring_source (ep_steps p) of
          None \<Rightarrow> Some p
        | Some (s, artifact) \<Rightarrow>
            (case make_plan_step (tailor_step (fresh_tailor_id (map ps_id (ep_steps p))) tailor_verified_msg
                    (ps_id s) artifact) of
               None \<Rightarrow> None
             | Some step \<Rightarrow>
                 let steps = ep_steps p @ [step]
                 in case make_execution_plan t Planner
                      (if ep_complexity p = L3 \<or> 3 \<le> length steps then L3 else L2) (ep_criteria p) steps of
                      Inl e \<Rightarrow> None | Inr p' \<Rightarrow> Some p'))"

subsection \<open>The fallback plan is a plan\<close>

lemma fallback_steps_cases:
  "fallback_steps sr t \<in> (let d = discover_step (has_candidate_urls t);
      m = match_step (lit ''discover_jobs'') (lit ''structured_job_details'')
    in {[d], [d, m],
        [d, tailor_step (lit ''tailor_resume'') tailor_objective_msg (lit ''discover_jobs'') (lit ''structured_job_details'')],
        [d, m, tailor_step (lit ''tailor_resume'') tailor_objective_msg (lit ''match_jobs'') (lit ''job_matching_report'')]})"
  by (simp add: fallback_steps_def Let_def)

lemmas step_builders = discover_step_def match_step_def tailor_step_def context_input_def artifact_input_def
  typed_output_def

lemma fallback_order:
  "check_steps (map ps_id (fallback_steps sr t)) 0 (fallback_steps sr t) = None
   \<and> distinct (map ps_id (fallback_steps sr t))"
  using fallback_steps_cases [of sr t]
  by (auto simp: Let_def step_builders check_step_def position_def)

lemma fallback_skills:
  "discovery_skill \<in> set (tk_skills t) \<Longrightarrow> check_skills (tk_skills t) (fallback_steps sr t) = None"
  by (simp add: fallback_steps_def Let_def step_builders)

text \<open>A goal about positions that were collected before, with their URLs: then a plan that only
  discovers is refused.\<close>

definition collected_goal :: "task \<Rightarrow> bool" where
  "collected_goal t \<longleftrightarrow>
     has_candidate_urls t \<and> (\<exists>m \<in> set already_collected_markers. contains m (tk_goal t))"

lemma validate_collected_goal_None:
  "validate_collected_goal p = None \<longleftrightarrow>
     (collected_goal (ep_task p) \<longrightarrow> (\<exists>s \<in> set (ep_steps p). \<not> uses discovery_skill s))"
  by (auto simp: validate_collected_goal_def collected_goal_def uses_def skill_literals)

lemma fallback_delivers:
  "(\<exists>s \<in> set (fallback_steps sr t). \<not> uses discovery_skill s) \<longleftrightarrow> length (fallback_steps sr t) > 1"
  using fallback_steps_cases [of sr t]
  by (auto simp: Let_def step_builders uses_def skill_literals)

lemma load_task_frame:
  assumes "load_typed_replan_state t = Some t'"
  shows "tk_goal t' = tk_goal t" "tk_context t' = tk_context t" "tk_skills t' = tk_skills t"
  using assms by (auto simp: load_typed_replan_state_def Let_def split: if_splits)

lemma collected_goal_load [simp]:
  "load_typed_replan_state t = Some t' \<Longrightarrow> collected_goal t' = collected_goal t"
  by (simp add: collected_goal_def has_candidate_urls_def load_task_frame)

lemma fallback_criterion_ok [simp]: "strip fallback_criterion_msg \<noteq> []"
  by (simp add: strip_def fallback_criterion_msg_def is_space_def)

definition fallback_plan :: "skill_registry \<Rightarrow> task \<Rightarrow> task \<Rightarrow> execution_plan" where
  "fallback_plan sr t t' = \<lparr>ep_task = t', ep_created_by = Planner,
     ep_complexity = (if 3 \<le> length (fallback_steps sr t) then L3 else L2),
     ep_criteria = [strip fallback_criterion_msg], ep_steps = fallback_steps sr t\<rparr>"

lemma fallback_authority:
  assumes "discovery_skill \<in> set (tk_skills t)" and "load_typed_replan_state t = Some t'"
  shows "validate_plan_authority (fallback_plan sr t t') = validate_collected_goal (fallback_plan sr t t')"
  using assms fallback_order [of sr t] fallback_skills [of t sr]
  by (simp add: validate_plan_authority_def fallback_plan_def load_task_frame Let_def)

lemma fallback_collected:
  assumes "load_typed_replan_state t = Some t'"
  shows "validate_collected_goal (fallback_plan sr t t') = None \<longleftrightarrow>
    (collected_goal t \<longrightarrow> length (fallback_steps sr t) > 1)"
  unfolding validate_collected_goal_None fallback_delivers [symmetric]
  using assms by (simp add: fallback_plan_def)

lemma build_fallback_cases:
  assumes "discovery_skill \<in> set (tk_skills t)" and "load_typed_replan_state t = Some t'"
  shows "build_seeded_career_fallback sr t =
    (if collected_goal t \<and> length (fallback_steps sr t) \<le> 1 then None else Some (fallback_plan sr t t'))"
proof -
  have size: "fallback_steps sr t \<noteq> []" "length (fallback_steps sr t) \<le> 20"
    by (simp_all add: fallback_steps_def Let_def)
  have "make_execution_plan t Planner (if 3 \<le> length (fallback_steps sr t) then L3 else L2)
      [fallback_criterion_msg] (fallback_steps sr t) =
    (case validate_plan_authority (fallback_plan sr t t') of Some e \<Rightarrow> Inl e | None \<Rightarrow> Inr (fallback_plan sr t t'))"
    using assms(2) size fallback_criterion_ok [symmetric]
    by (simp add: make_execution_plan_def fallback_plan_def Let_def Suc_le_eq split: option.split)
  then have "build_seeded_career_fallback sr t =
      (case validate_collected_goal (fallback_plan sr t t') of Some e \<Rightarrow> None | None \<Rightarrow> Some (fallback_plan sr t t'))"
    using assms(1) unfolding fallback_authority [OF assms]
    by (simp add: build_seeded_career_fallback_def Let_def split: option.split)
  then show ?thesis
    using fallback_collected [OF assms(2), of sr]
    by (cases "validate_collected_goal (fallback_plan sr t t')") (auto simp: not_le)
qed

subsection \<open>What trimming leaves\<close>

lemma cut_prefix: "\<exists>k. cut_at_matching d ss = take k ss"
proof (induction d ss rule: cut_at_matching.induct)
  case (2 d s ss)
  then show ?case
    by (cases "d \<and> uses matching_skill s") (auto intro: exI [of _ 0] exI [of _ "Suc k" for k])
qed simp

lemma pop_suffix: "\<exists>k. pop_unrequested wt wm ss = drop k ss"
proof (induction ss)
  case (Cons s ss)
  then obtain k where k: "pop_unrequested wt wm ss = drop k ss" by blast
  have "pop_unrequested wt wm (s # ss) = pop_unrequested wt wm ss \<or> pop_unrequested wt wm (s # ss) = s # ss"
    by simp
  with k have "pop_unrequested wt wm (s # ss) = drop (Suc k) (s # ss) \<or> pop_unrequested wt wm (s # ss) = drop 0 (s # ss)"
    by auto
  then show ?case by blast
qed simp

lemma trim_prefix: "\<exists>k. ep_steps (trim_unrequested_trailing_steps t p) = take k (ep_steps p)"
proof -
  define steps where
    "steps = (if goal_names matching_skill (lower (tk_goal t)) then ep_steps p else cut_at_matching False (ep_steps p))"
  obtain j where "steps = take j (ep_steps p)"
    using cut_prefix [of False "ep_steps p"] by (cases "goal_names matching_skill (lower (tk_goal t))")
      (auto simp: steps_def intro: that [of "length (ep_steps p)"])
  moreover obtain k where "pop_unrequested (goal_names tailoring_skill (lower (tk_goal t)))
      (goal_names matching_skill (lower (tk_goal t))) (rev steps) = drop k (rev steps)"
    using pop_suffix by blast
  ultimately have "ep_steps (trim_unrequested_trailing_steps t p) = take (length steps - k) (take j (ep_steps p))"
    by (simp add: trim_unrequested_trailing_steps_def Let_def flip: steps_def) (simp add: rev_drop)
  then show ?thesis by (metis take_take)
qed

lemma trim_frame [simp]:
  "ep_task (trim_unrequested_trailing_steps t p) = ep_task p"
  "ep_created_by (trim_unrequested_trailing_steps t p) = ep_created_by p"
  "ep_criteria (trim_unrequested_trailing_steps t p) = ep_criteria p"
  "ep_complexity (trim_unrequested_trailing_steps t p) = ep_complexity p"
  by (simp_all add: trim_unrequested_trailing_steps_def Let_def)

text \<open>A plan stays a plan when it loses steps at the end, except that it may then fail the goal about
  collected positions.\<close>

lemma plan_ok_take:
  assumes "plan_ok p" and "ep_steps q = take k (ep_steps p)" and "ep_task q = ep_task p"
    and "ep_created_by q = ep_created_by p"
  shows "plan_ok q \<longleftrightarrow> validate_collected_goal q = None"
proof -
  have "step_ok q i" if "i < length (ep_steps q)" for i
  proof -
    from that assms(2) have "i < length (ep_steps p)" "i < k" by auto
    then show ?thesis
      using assms by (simp add: plan_ok_def step_ok_def Let_def take_map [symmetric] min_absorb1)
  qed
  moreover have "distinct (map ps_id (ep_steps q))"
    using assms(1,2) by (simp add: plan_ok_def flip: take_map)
  ultimately show ?thesis using assms by (simp add: plan_ok_def)
qed

lemma pop_last: "pop_unrequested False wm ss = s # rest \<Longrightarrow> \<not> uses tailoring_skill s"
  by (induction ss) (auto split: if_splits)

lemma trim_last:
  assumes "\<not> goal_names tailoring_skill (lower (tk_goal t))"
    and "ep_steps (trim_unrequested_trailing_steps t p) \<noteq> []"
  shows "\<not> uses tailoring_skill (last (ep_steps (trim_unrequested_trailing_steps t p)))"
proof -
  define rest where "rest = pop_unrequested False (goal_names matching_skill (lower (tk_goal t)))
     (rev (if goal_names matching_skill (lower (tk_goal t)) then ep_steps p else cut_at_matching False (ep_steps p)))"
  have steps: "ep_steps (trim_unrequested_trailing_steps t p) = rev rest"
    using assms(1) by (simp add: trim_unrequested_trailing_steps_def Let_def rest_def)
  then show ?thesis
    using assms(2) pop_last [of _ _ "hd rest" "tl rest"] unfolding steps rest_def
    by (metis last_rev list.collapse rev_is_Nil_conv)
qed

subsection \<open>The added step\<close>

lemma tailor_names_distinct: "distinct (tailor_names n)"
proof -
  have "inj_on (\<lambda>i. lit ''tailor_resume_'' @ nat_digits i) A" for A
    by (rule inj_onI) simp
  then show ?thesis
    by (auto simp: tailor_names_def distinct_map lit_def)
qed

lemma length_tailor_names: "length (tailor_names n) = Suc n"
  by (simp add: tailor_names_def del: upt_Suc add_2_eq_Suc')

lemma fresh_exists: "\<exists>i \<in> set (tailor_names (length used)). i \<notin> set used"
proof (rule ccontr)
    assume "\<not> (\<exists>i \<in> set (tailor_names (length used)). i \<notin> set used)"
    then have "set (tailor_names (length used)) \<subseteq> set used" by blast
    then have "card (set (tailor_names (length used))) \<le> length used"
      by (meson card_length card_mono finite_set order_trans)
    moreover have "card (set (tailor_names (length used))) = Suc (length used)"
      by (simp add: distinct_card [OF tailor_names_distinct] length_tailor_names)
    ultimately show False by simp
qed

lemma fresh_tailor_id: "fresh_tailor_id used \<notin> set used"
  using fresh_exists [of used]
  unfolding fresh_tailor_id_def find_None_iff_ex [symmetric]
  by (metis find_None_iff_ex find_SomeD option.collapse)

lemma tailoring_source_Some:
  assumes "tailoring_source ss = Some (s, a)"
  shows "s \<in> set ss" "a \<in> set accepted_sources"
proof -
  from assms have s: "find (\<lambda>s. source_artifact s \<noteq> None) (rev ss) = Some s" and a: "a = the (source_artifact s)"
    by (auto simp: tailoring_source_def split: option.splits)
  from find_SomeD [OF s] show "s \<in> set ss" by simp
  from find_SomeD [OF s] a have "source_artifact s = Some a" by auto
  then show "a \<in> set accepted_sources" unfolding source_artifact_def by (rule find_SomeD [THEN conjunct2])
qed

text \<open>A plan in order: all of \<open>plan_ok\<close> but the rule about collected positions.\<close>

definition plan_order_ok :: "execution_plan \<Rightarrow> bool" where
  "plan_order_ok p \<longleftrightarrow> ep_created_by p = Planner \<and> distinct (map ps_id (ep_steps p))
     \<and> (\<forall>i < length (ep_steps p). step_ok p i)"

lemma plan_ok_order: "plan_ok p \<longleftrightarrow> plan_order_ok p \<and> validate_collected_goal p = None"
  by (auto simp: plan_ok_def plan_order_ok_def)

lemma plan_order_append:
  assumes "plan_order_ok p" and "ps_id s \<notin> set (map ps_id (ep_steps p))"
    and "set (ps_depends s) \<subseteq> set (map ps_id (ep_steps p))"
    and "\<forall>r \<in> set (ps_inputs s). present (si_from r) \<longrightarrow> the (si_from r) \<in> set (ps_depends s)"
    and "set (ps_skills s) \<subseteq> set (tk_skills (ep_task q))"
    and "ep_steps q = ep_steps p @ [s]" and "tk_skills (ep_task q) = tk_skills (ep_task p)"
    and "ep_created_by q = Planner"
  shows "plan_order_ok q"
proof -
  have "step_ok q i" if i: "i < length (ep_steps q)" for i
  proof (cases "i < length (ep_steps p)")
    case True
    then show ?thesis
      using assms by (simp add: plan_order_ok_def step_ok_def Let_def nth_append)
  next
    case False
    with i assms(6) have "i = length (ep_steps p)" by simp
    then show ?thesis using assms by (simp add: step_ok_def Let_def)
  qed
  then show ?thesis using assms by (auto simp: plan_order_ok_def)
qed

definition needs_tailoring_step :: "task \<Rightarrow> execution_plan \<Rightarrow> bool" where
  "needs_tailoring_step t p \<longleftrightarrow> goal_names tailoring_skill (lower (tk_goal t))
     \<and> tailoring_skill \<in> set (tk_skills t) \<and> \<not> (\<exists>s \<in> set (ep_steps p). uses tailoring_skill s)
     \<and> (\<exists>s \<in> set (ep_steps p). source_artifact s \<noteq> None)"

lemma tailoring_source_None: "tailoring_source ss = None \<longleftrightarrow> \<not> (\<exists>s \<in> set ss. source_artifact s \<noteq> None)"
proof -
  have "tailoring_source ss = None \<longleftrightarrow> find (\<lambda>s. source_artifact s \<noteq> None) (rev ss) = None"
    by (simp add: tailoring_source_def split: option.split)
  then show ?thesis by (simp only: find_None_iff_ex set_rev)
qed

text \<open>The constructor accepts the added step.\<close>

lemma tailor_names_mono: "m \<le> n \<Longrightarrow> set (tailor_names m) \<subseteq> set (tailor_names n)"
  unfolding tailor_names_def list.set set_map set_upt by (intro insert_mono image_mono) auto

lemma tailor_names_ok: "\<forall>i \<in> set (tailor_names 20). i \<noteq> [] \<and> length i \<le> 80 \<and> strip i = i"
  by code_simp

lemma fresh_tailor_id_ok:
  assumes "length used \<le> 20"
  shows "fresh_tailor_id used \<noteq> []" "length (fresh_tailor_id used) \<le> 80"
    "strip (fresh_tailor_id used) = fresh_tailor_id used"
proof -
  have "fresh_tailor_id used \<in> set (tailor_names (length used))"
  proof -
    have "find (\<lambda>i. i \<notin> set used) (tailor_names (length used)) \<noteq> None"
      unfolding find_None_iff_ex using fresh_exists [of used] by blast
    then show ?thesis unfolding fresh_tailor_id_def by (metis find_SomeD option.collapse)
  qed
  moreover have "set (tailor_names (length used)) \<subseteq> set (tailor_names 20)"
    by (rule tailor_names_mono [OF assms])
  ultimately have "fresh_tailor_id used \<in> set (tailor_names 20)" by blast
  then show "fresh_tailor_id used \<noteq> []" "length (fresh_tailor_id used) \<le> 80"
    "strip (fresh_tailor_id used) = fresh_tailor_id used" using tailor_names_ok by blast+
qed

lemma tailor_texts_ok:
  "strip tailor_verified_msg = tailor_verified_msg \<and> strip tailor_criterion_msg = tailor_criterion_msg
   \<and> strip tailoring_skill = tailoring_skill \<and> skill_name_ok tailoring_skill
   \<and> tailor_verified_msg \<noteq> [] \<and> tailor_criterion_msg \<noteq> [] \<and> tailoring_skill \<noteq> []
   \<and> length tailor_verified_msg \<le> 2000"
  by code_simp

lemma accepted_sources_ok: "\<forall>a \<in> set accepted_sources. 1 \<le> length a \<and> length a \<le> 100"
  by (simp add: accepted_sources_def)

lemma make_tailor_step:
  assumes "a \<in> set accepted_sources" and "length used \<le> 20"
    and "i \<noteq> []" and "length i \<le> 80" and "strip i = i"
  shows "make_plan_step (tailor_step (fresh_tailor_id used) tailor_verified_msg i a) =
    Some (tailor_step (fresh_tailor_id used) tailor_verified_msg i a)"
  using assms fresh_tailor_id_ok [OF assms(2)] tailor_texts_ok accepted_sources_ok
  by (simp add: make_plan_step_def tailor_step_def artifact_input_def typed_output_def validate_source_def
      normalize_required_text_def validate_step_skills_def normalize_success_criteria_def
      validate_dependencies_def input_fields_ok_def output_fields_ok_def Let_def Suc_le_eq)

lemma make_added_plan:
  assumes "plan_order_ok p" and "ep_steps p \<noteq> []" and "length (ep_steps p) \<le> 19"
    and "load_typed_replan_state t = Some (ep_task p)" and "tailoring_skill \<in> set (tk_skills t)"
    and "ep_criteria p \<noteq> []" and "length (ep_criteria p) \<le> 20" and "[] \<notin> set (map strip (ep_criteria p))"
    and "s \<in> set (ep_steps p)"
  shows "\<exists>q. make_execution_plan t Planner l (ep_criteria p)
      (ep_steps p @ [tailor_step (fresh_tailor_id (map ps_id (ep_steps p))) m (ps_id s) a]) = Inr q
    \<and> plan_ok q \<and> ep_steps q = ep_steps p @ [tailor_step (fresh_tailor_id (map ps_id (ep_steps p))) m (ps_id s) a]"
proof -
  define step where "step = tailor_step (fresh_tailor_id (map ps_id (ep_steps p))) m (ps_id s) a"
  define q where "q = \<lparr>ep_task = ep_task p, ep_created_by = Planner, ep_complexity = l,
    ep_criteria = map strip (ep_criteria p), ep_steps = ep_steps p @ [step]\<rparr>"
  have skills: "tailoring_skill \<in> set (tk_skills (ep_task p))"
    using assms(4,5) by (simp add: load_task_frame)
  have "plan_order_ok q"
    by (rule plan_order_append [OF assms(1), of step])
      (use assms(9) skills fresh_tailor_id [of "map ps_id (ep_steps p)"] in
        \<open>auto simp: q_def step_def tailor_step_def artifact_input_def\<close>)
  moreover have "validate_collected_goal q = None"
    unfolding validate_collected_goal_None
    by (auto simp: q_def step_def tailor_step_def uses_def skill_literals)
  ultimately have ok: "plan_ok q" by (simp add: plan_ok_order)
  moreover have "make_execution_plan t Planner l (ep_criteria p) (ep_steps p @ [step]) = Inr q"
    using assms(3,4,6-8) ok unfolding validate_plan_authority_iff [symmetric]
    by (auto simp: make_execution_plan_def q_def Let_def Suc_le_eq)
  ultimately show ?thesis by (auto simp: q_def step_def)
qed

subsection \<open>The fallback's steps pass the validators\<close>

lemma career_ports:
  "accepted_types sd_outputs (career_registry f) (discover_step b) =
     lit ` {''public_job_page'', ''job_search_results'', ''structured_job_details''}"
  "accepted_types sd_inputs (career_registry f) (match_step i a) = lit ` {''public_job_page'', ''structured_job_details''}"
  "accepted_types sd_outputs (career_registry f) (match_step i a) = {lit ''job_matching_report''}"
  "accepted_types sd_inputs (career_registry f) (tailor_step n m i a) =
     lit ` {''public_job_page'', ''structured_job_details'', ''job_matching_report''}"
  "accepted_types sd_outputs (career_registry f) (tailor_step n m i a) = {lit ''resume_tailoring_brief''}"
  by (simp_all add: accepted_types_def step_builders skill_literals get_skill_def career_registry_def
      career_descriptions_def career_definition_def Let_def map_filter_simps skill_input_ports_def
      skill_output_ports_def)

lemma fallback_ports:
  "validate_step_ports (career_registry f) (discover_step b) = None"
  "validate_step_ports (career_registry f) (match_step (lit ''discover_jobs'') (lit ''structured_job_details'')) = None"
  "a \<in> {lit ''structured_job_details'', lit ''job_matching_report''} \<Longrightarrow>
     validate_step_ports (career_registry f) (tailor_step n m i a) = None"
proof -
  have i: "ps_inputs (discover_step b) = (if b then [context_input (lit ''candidate_urls'')] else [])"
    "ps_outputs (discover_step b) = [typed_output (lit ''structured_job_details'')]"
    "ps_inputs (match_step i a) = [artifact_input a i]"
    "ps_outputs (match_step i a) = [typed_output (lit ''job_matching_report'')]"
    "ps_inputs (tailor_step n m i a) = [artifact_input a i]"
    "ps_outputs (tailor_step n m i a) = [typed_output (lit ''resume_tailoring_brief'')]" for b i a n m
    by (simp_all add: step_builders)
  note steps = validate_step_ports_def i career_ports context_input_def artifact_input_def typed_output_def
  show "validate_step_ports (career_registry f) (discover_step b) = None"
    by (simp add: steps)
  show "validate_step_ports (career_registry f) (match_step (lit ''discover_jobs'') (lit ''structured_job_details'')) = None"
    by (simp add: steps)
  show "a \<in> {lit ''structured_job_details'', lit ''job_matching_report''} \<Longrightarrow>
      validate_step_ports (career_registry f) (tailor_step n m i a) = None"
    by (auto simp add: steps)
qed

lemma fallback_constructors:
  "make_plan_step (discover_step True) = Some (discover_step True)"
  "make_plan_step (discover_step False) = Some (discover_step False)"
  "make_plan_step (match_step (lit ''discover_jobs'') (lit ''structured_job_details'')) =
     Some (match_step (lit ''discover_jobs'') (lit ''structured_job_details''))"
  "make_plan_step (tailor_step (lit ''tailor_resume'') tailor_objective_msg (lit ''discover_jobs'') (lit ''structured_job_details'')) =
     Some (tailor_step (lit ''tailor_resume'') tailor_objective_msg (lit ''discover_jobs'') (lit ''structured_job_details''))"
  "make_plan_step (tailor_step (lit ''tailor_resume'') tailor_objective_msg (lit ''match_jobs'') (lit ''job_matching_report'')) =
     Some (tailor_step (lit ''tailor_resume'') tailor_objective_msg (lit ''match_jobs'') (lit ''job_matching_report''))"
  by code_simp+

lemma fallback_steps_valid:
  "list_all (\<lambda>s. make_plan_step s = Some s \<and> validate_step_ports (career_registry f) s = None) (fallback_steps sr t)"
proof -
  have d: "make_plan_step (discover_step b) = Some (discover_step b)" for b
    using fallback_constructors(1,2) by (cases b) simp_all
  show ?thesis
    using fallback_steps_cases [of sr t] fallback_constructors fallback_ports d
    unfolding Let_def insert_iff empty_iff by (elim disjE) simp_all
qed

subsection \<open>Properties\<close>

text \<open>There is a fallback plan exactly when discovery is permitted, the control state of the task
  is valid, and the goal is not one about collected positions without a deliverable; and it is always a
  plan the runtime accepts, whose steps and ports the validators pass.\<close>

theorem fallback_plan_exact:
  "(build_seeded_career_fallback sr t = None \<longleftrightarrow>
      discovery_skill \<notin> set (tk_skills t) \<or> load_typed_replan_state t = None
      \<or> collected_goal t \<and> length (fallback_steps sr t) \<le> 1)
   \<and> (case build_seeded_career_fallback sr t of None \<Rightarrow> True
      | Some p \<Rightarrow> plan_ok p \<and> ep_steps p = fallback_steps sr t
          \<and> list_all (\<lambda>s. make_plan_step s = Some s \<and> validate_step_ports (career_registry f) s = None) (ep_steps p))"
proof -
  note steps = fallback_steps_valid [of f sr t]
  show ?thesis
  proof (cases "discovery_skill \<in> set (tk_skills t) \<and> load_typed_replan_state t \<noteq> None")
    case True
    then obtain t' where t': "load_typed_replan_state t = Some t'" by auto
    have "plan_ok (fallback_plan sr t t')" if "\<not> (collected_goal t \<and> length (fallback_steps sr t) \<le> 1)"
      using that True fallback_authority [of t t' sr] fallback_collected [OF t', of sr] t'
      by (simp add: not_le flip: validate_plan_authority_iff)
    then show ?thesis
      using True steps build_fallback_cases [OF _ t', of sr] t' by (auto simp: fallback_plan_def)
  next
    case False
    then show ?thesis
      by (auto simp: build_seeded_career_fallback_def make_execution_plan_def Let_def split: option.splits)
  qed
qed

text \<open>The field constraints of a plan and of the names of its steps.\<close>

definition plan_fields_ok :: "execution_plan \<Rightarrow> bool" where
  "plan_fields_ok p \<longleftrightarrow> ep_criteria p \<noteq> [] \<and> length (ep_criteria p) \<le> 20
     \<and> [] \<notin> set (map strip (ep_criteria p)) \<and> length (ep_steps p) \<le> 20
     \<and> (\<forall>s \<in> set (ep_steps p). ps_id s \<noteq> [] \<and> length (ps_id s) \<le> 80 \<and> strip (ps_id s) = ps_id s)"

lemma ensure_cases:
  assumes "plan_order_ok p" and "plan_fields_ok p" and "load_typed_replan_state t = Some (ep_task p)"
  shows "if \<not> needs_tailoring_step t p then ensure_requested_deliverable_steps t p = Some p
    else if length (ep_steps p) = 20 then ensure_requested_deliverable_steps t p = None
    else \<exists>q step. ensure_requested_deliverable_steps t p = Some q \<and> plan_ok q
      \<and> ep_steps q = ep_steps p @ [step] \<and> uses tailoring_skill step"
proof (cases "needs_tailoring_step t p")
  case False
  then show ?thesis
    using tailoring_source_None [of "ep_steps p"]
    by (auto simp: ensure_requested_deliverable_steps_def needs_tailoring_step_def split: option.splits)
next
  case True
  then obtain s a where src: "tailoring_source (ep_steps p) = Some (s, a)"
    using tailoring_source_None [of "ep_steps p"]
    by (cases "tailoring_source (ep_steps p)") (auto simp: needs_tailoring_step_def)
  note sa = tailoring_source_Some [OF src]
  define used where "used = map ps_id (ep_steps p)"
  define step where "step = tailor_step (fresh_tailor_id used) tailor_verified_msg (ps_id s) a"
  define level where "level = (if ep_complexity p = L3 \<or> 3 \<le> length (ep_steps p @ [step]) then L3 else L2)"
  have ens: "ensure_requested_deliverable_steps t p =
      (case make_execution_plan t Planner level (ep_criteria p) (ep_steps p @ [step]) of Inl e \<Rightarrow> None | Inr q \<Rightarrow> Some q)"
    using True src make_tailor_step [of a used "ps_id s"] sa assms(2)
    by (auto simp: ensure_requested_deliverable_steps_def needs_tailoring_step_def step_def used_def
        level_def plan_fields_ok_def Let_def split: option.splits)
  show ?thesis
  proof (cases "length (ep_steps p) = 20")
    case True2: True
    then have "make_execution_plan t Planner level (ep_criteria p) (ep_steps p @ [step]) = Inl BadPlanFields"
      by (simp add: make_execution_plan_def)
    with True True2 show ?thesis by (simp add: ens)
  next
    case False
    then have "length (ep_steps p) \<le> 19" using assms(2) by (simp add: plan_fields_ok_def)
    moreover have "ep_steps p \<noteq> []" using sa(1) by auto
    ultimately obtain q where "make_execution_plan t Planner level (ep_criteria p) (ep_steps p @ [step]) = Inr q"
        "plan_ok q" "ep_steps q = ep_steps p @ [step]"
      using make_added_plan [OF assms(1) _ _ assms(3), of s level tailor_verified_msg a] sa True assms(2)
      by (auto simp: step_def used_def plan_fields_ok_def needs_tailoring_step_def)
    moreover have "uses tailoring_skill step" by (simp add: step_def tailor_step_def uses_def)
    ultimately show ?thesis using True False by (simp add: ens)
  qed
qed


text \<open>A plan of resume steps for a goal that names no resume is trimmed to nothing, and the empty
  plan is still accepted as the Planner's result, since the minimum of one step is a field constraint
  that is not checked again.\<close>

theorem unrequested_plan_emptied:
  assumes "plan_ok p" and "\<not> collected_goal (ep_task p)" and "\<not> goal_names tailoring_skill (lower (tk_goal t))"
    and "\<forall>s \<in> set (ep_steps p). uses tailoring_skill s"
  shows "\<exists>q. ensure_requested_deliverable_steps t (trim_unrequested_trailing_steps t p) = Some q
    \<and> ep_steps q = [] \<and> make_planner_result
        \<lparr>pr_status = PlanMade, pr_plan = Some q, pr_obs = obs, pr_question = None, pr_error = None\<rparr> \<noteq> None"
proof -
  define q where "q = trim_unrequested_trailing_steps t p"
  obtain k where k: "ep_steps q = take k (ep_steps p)" using trim_prefix [of t p] by (auto simp: q_def)
  have "ep_steps q = []"
  proof (rule ccontr)
    assume "ep_steps q \<noteq> []"
    then have "\<not> uses tailoring_skill (last (ep_steps q))"
      using trim_last [OF assms(3), of p] by (simp add: q_def)
    moreover have "last (ep_steps q) \<in> set (ep_steps p)"
      using \<open>ep_steps q \<noteq> []\<close> k by (metis in_set_takeD last_in_set)
    ultimately show False using assms(4) by blast
  qed
  moreover have "plan_ok q"
    using plan_ok_take [OF assms(1) k] assms(2) validate_collected_goal_None [of q] by (simp add: q_def)
  moreover have "ensure_requested_deliverable_steps t q = Some q"
    using assms(3) by (simp add: ensure_requested_deliverable_steps_def)
  ultimately show ?thesis
    unfolding validate_plan_authority_iff [symmetric] q_def [symmetric] by (auto simp: make_planner_result_def)
qed

end
