(* ===== verification/ToolRegistry.thy ===== *)
theory ToolRegistry
  imports StepInputs
begin

section \<open>The tool registry\<close>

text \<open>
  \<open>backend/app/services/agent_runtime/tool_registry.py\<close> and the two registry queries of
  \<open>executor_agent.py\<close>: which tools a role may see, which it may call, and what a call gives. A
  tool's handler and its two pydantic models are functions of the definition; the catalog's memo
  table is part of the state, and \<open>registry_ok\<close> says that it never holds a stale entry.
\<close>

subsection \<open>Redaction of error messages\<close>

text \<open>
  The three substitutions of \<open>_sanitize_error_message\<close> as scanners over the text. \<open>is_word\<close> is
  \<open>\w\<close>: the ASCII word characters, and above ASCII every character outside the blocks of
  punctuation, symbols and spaces. Letters are compared without case on ASCII.
\<close>

definition is_ascii_letter :: "int \<Rightarrow> bool" where
  "is_ascii_letter c \<longleftrightarrow> (65 \<le> c \<and> c \<le> 90) \<or> (97 \<le> c \<and> c \<le> 122)"

definition is_ascii_digit :: "int \<Rightarrow> bool" where
  "is_ascii_digit c \<longleftrightarrow> 48 \<le> c \<and> c \<le> 57"

definition is_word :: "int \<Rightarrow> bool" where
  "is_word c \<longleftrightarrow> is_ascii_letter c \<or> is_ascii_digit c \<or> c = 95
     \<or> (128 \<le> c \<and> \<not> is_space c \<and> \<not> (128 \<le> c \<and> c \<le> 191 \<and> c \<notin> {170, 178, 179, 181, 185, 186, 188, 189, 190})
        \<and> c \<noteq> 215 \<and> c \<noteq> 247 \<and> \<not> (8192 \<le> c \<and> c \<le> 8303) \<and> \<not> (12288 \<le> c \<and> c \<le> 12292)
        \<and> \<not> (12296 \<le> c \<and> c \<le> 12320) \<and> \<not> (65281 \<le> c \<and> c \<le> 65295) \<and> \<not> (65306 \<le> c \<and> c \<le> 65312)
        \<and> \<not> (65339 \<le> c \<and> c \<le> 65344) \<and> \<not> (65371 \<le> c \<and> c \<le> 65381))"

text \<open>Each matcher returns the replacement and the rest after a match at the head of the text.\<close>

definition userinfo_here :: "str \<Rightarrow> (str \<times> str) option" where
  "userinfo_here s =
     (if s = [] \<or> \<not> is_ascii_letter (hd s) then None
      else let inside = (\<lambda>c. is_ascii_letter c \<or> is_ascii_digit c \<or> c \<in> {43, 45, 46});
               scheme = takeWhile inside s;
               rest = dropWhile inside s
        in if \<not> starts_with rest (lit ''://'') then None
           else let tail = drop 3 rest;
                    user = takeWhile (\<lambda>c. c \<noteq> 64) tail
             in if user = [] \<or> length user = length tail then None
                else Some (scheme @ lit ''://[redacted]@'', drop (Suc (length user)) tail))"

definition bearer_char :: "int \<Rightarrow> bool" where
  "bearer_char c \<longleftrightarrow> is_ascii_letter c \<or> is_ascii_digit c \<or> c \<in> {46, 95, 126, 43, 47, 61, 45}"

definition bearer_here :: "str \<Rightarrow> (str \<times> str) option" where
  "bearer_here s =
     (if lower (take 6 s) \<noteq> lit ''bearer'' then None
      else let rest = drop 6 s;
               token = dropWhile is_space rest
        in if rest = token \<or> token = [] \<or> \<not> bearer_char (hd token) then None
           else Some (lit ''Bearer [redacted]'', dropWhile bearer_char token))"

definition secret_names :: "string list" where
  "secret_names = [''api_key'', ''api-key'', ''apikey'', ''access_token'', ''access-token'', ''accesstoken'',
     ''refresh_token'', ''refresh-token'', ''refreshtoken'', ''token'', ''password'', ''secret'', ''authorization'']"

definition pair_end :: "int \<Rightarrow> bool" where
  "pair_end c \<longleftrightarrow> is_space c \<or> c = 44 \<or> c = 59"

definition pair_here :: "str \<Rightarrow> (str \<times> str) option" where
  "pair_here s =
     (case find (\<lambda>name. lower (take (length name) s) = lit name) secret_names of
        None \<Rightarrow> None
      | Some name \<Rightarrow>
          let rest = dropWhile is_space (drop (length name) s)
          in if rest = [] \<or> hd rest \<notin> {58, 61} then None
             else let value = dropWhile is_space (tl rest)
               in if value = [] \<or> pair_end (hd value) then None
                  else Some (take (length name) s @ lit ''=[redacted]'', dropWhile (\<lambda>c. \<not> pair_end c) value))"

text \<open>\<open>re.sub\<close> from the left; \<open>prev\<close> tells whether the character before is a word character, which
  a pattern that starts with \<open>\b\<close> excludes.\<close>

fun sub_scan :: "nat \<Rightarrow> (str \<Rightarrow> (str \<times> str) option) \<Rightarrow> bool \<Rightarrow> bool \<Rightarrow> str \<Rightarrow> str" where
  "sub_scan 0 match bounded prev s = s"
| "sub_scan (Suc n) match bounded prev [] = []"
| "sub_scan (Suc n) match bounded prev (c # cs) =
     (case (if bounded \<and> prev then None else match (c # cs)) of
        Some (out, rest) \<Rightarrow> 
          out @ sub_scan n match bounded (is_word (last (c # take (length cs - length rest) cs))) rest
      | None \<Rightarrow> c # sub_scan n match bounded (is_word c) cs)"

definition re_sub :: "(str \<Rightarrow> (str \<times> str) option) \<Rightarrow> bool \<Rightarrow> str \<Rightarrow> str" where
  "re_sub match bounded s = sub_scan (length s) match bounded False s"

definition sanitize_error_message :: "str \<Rightarrow> str" where
  "sanitize_error_message text =
     take 500 (re_sub pair_here True (re_sub bearer_here True (re_sub userinfo_here False text)))"

subsection \<open>Definitions and registration\<close>

text \<open>
  What a handler does: it returns a value, raises pydantic's \<open>ValidationError\<close>, or raises any other
  exception with its attribute \<open>code\<close> and its text. The input model answers with the validated
  input or with the location and the type of each error; the output model with the dumped output.
\<close>

datatype handler_outcome = HandlerReturned json | HandlerInvalid | HandlerRaised json str

record tool_definition =
  td_name :: str
  td_skill :: "str option"
  td_description :: str
  td_roles :: "agent_role set"
  td_input :: "dict \<Rightarrow> (str list \<times> str) list + json"
  td_output :: "json \<Rightarrow> dict option"
  td_handler :: "tool_context \<Rightarrow> json \<Rightarrow> nat \<Rightarrow> handler_outcome"
  td_input_schema :: json
  td_output_schema :: json

type_synonym catalog_view = "agent_role \<times> str set option"

record tool_registry =
  tg_defs :: "tool_definition list"
  tg_cache :: "(catalog_view \<times> json list) list"

definition empty_tool_registry :: tool_registry where
  "empty_tool_registry = \<lparr>tg_defs = [], tg_cache = []\<rparr>"

datatype tool_register_error = EmptyToolName | NoToolRole | ToolRegistered str

definition register_tool :: "tool_definition \<Rightarrow> tool_registry \<Rightarrow> tool_register_error + tool_registry" where
  "register_tool d g =
     (if strip (td_name d) = [] then Inl EmptyToolName
      else if td_roles d = {} then Inl NoToolRole
      else if td_name d \<in> set (map td_name (tg_defs g)) then Inl (ToolRegistered (td_name d))
      else Inr (g\<lparr>tg_defs := tg_defs g @ [d], tg_cache := []\<rparr>))"

definition find_tool :: "tool_registry \<Rightarrow> str \<Rightarrow> tool_definition option" where
  "find_tool g name = find (\<lambda>d. td_name d = name) (tg_defs g)"

subsection \<open>The catalog\<close>

definition in_scope :: "str set option \<Rightarrow> tool_definition \<Rightarrow> bool" where
  "in_scope skills d \<longleftrightarrow>
     (case skills of None \<Rightarrow> True
      | Some allowed \<Rightarrow> (case td_skill d of None \<Rightarrow> False | Some s \<Rightarrow> s \<in> allowed))"

definition catalog_entry :: "tool_definition \<Rightarrow> json" where
  "catalog_entry d = JObj
     [(lit ''name'', JStr (td_name d)), (lit ''skill_name'', opt_text (td_skill d)),
      (lit ''description'', JStr (td_description d)), (lit ''input_schema'', td_input_schema d),
      (lit ''output_schema'', td_output_schema d)]"

text \<open>The tools of a view in the order of their names.\<close>

definition visible_tools :: "catalog_view \<Rightarrow> tool_definition list \<Rightarrow> tool_definition list" where
  "visible_tools v ds =
     filter (in_scope (snd v)) (filter (\<lambda>d. fst v \<in> td_roles d) (sort_key td_name ds))"

definition tool_catalog :: "catalog_view \<Rightarrow> tool_registry \<Rightarrow> json list \<times> tool_registry" where
  "tool_catalog v g =
     (case map_of (tg_cache g) v of
        Some cached \<Rightarrow> (cached, g)
      | None \<Rightarrow>
          let catalog = map catalog_entry (visible_tools v (tg_defs g))
          in (catalog, g\<lparr>tg_cache := (v, catalog) # tg_cache g\<rparr>))"

subsection \<open>A call\<close>

text \<open>\<open>None\<close> is a \<open>ValidationError\<close> of the observation's own constructor, which nothing catches.\<close>

definition failed_observation :: "str \<Rightarrow> str \<Rightarrow> str option \<Rightarrow> observation option" where
  "failed_observation name code message = make_observation
     \<lparr>ob_tool = name, ob_status = ObsFailed, ob_output = None, ob_error = Some code, ob_message = message\<rparr>"

definition validation_error_summary :: "(str list \<times> str) list \<Rightarrow> str" where
  "validation_error_summary errors =
     sanitize_error_message (lit ''invalid input: '' @ join (lit ''; '')
       (map (\<lambda>(loc, t). let l = join (lit ''.'') loc in if l \<noteq> [] then l @ lit '': '' @ t else t) errors))"

text \<open>The code of a refusal, before the handler is reached.\<close>

definition refusal :: "tool_registry \<Rightarrow> agent_role \<Rightarrow> str set option \<Rightarrow> str \<Rightarrow> str option" where
  "refusal g role skills name =
     (case find_tool g name of
        None \<Rightarrow> Some (lit ''unknown_tool'')
      | Some d \<Rightarrow>
          if role \<notin> td_roles d then Some (lit ''tool_role_forbidden'')
          else if \<not> in_scope skills d then Some (lit ''tool_skill_forbidden'')
          else None)"

text \<open>
  \<open>code = getattr(exc, "code", None) or "tool_execution_failed"\<close>: a truthy code that is not a
  string is refused by the observation's constructor.
\<close>

definition exception_observation :: "str \<Rightarrow> json \<Rightarrow> str \<Rightarrow> observation option" where
  "exception_observation name code message =
     (if \<not> truthy code
      then failed_observation name (lit ''tool_execution_failed'') (Some (sanitize_error_message message))
      else if is_str code then failed_observation name (the_str code) (Some (sanitize_error_message message))
      else None)"

definition call_tool :: "tool_definition \<Rightarrow> tool_context \<Rightarrow> dict \<Rightarrow> nat \<Rightarrow> observation option" where
  "call_tool d ctx payload pos =
     (case td_input d payload of
        Inl errors \<Rightarrow> failed_observation (td_name d) (lit ''invalid_tool_input'')
          (Some (validation_error_summary errors))
      | Inr input \<Rightarrow>
          (case td_handler d ctx input pos of
             HandlerRaised code message \<Rightarrow> exception_observation (td_name d) code message
           | HandlerInvalid \<Rightarrow> failed_observation (td_name d) (lit ''invalid_tool_output'') None
           | HandlerReturned result \<Rightarrow>
               (case td_output d result of
                  None \<Rightarrow> failed_observation (td_name d) (lit ''invalid_tool_output'') None
                | Some out \<Rightarrow> make_observation \<lparr>ob_tool = td_name d, ob_status = ObsSucceeded,
                    ob_output = Some out, ob_error = None, ob_message = None\<rparr>)))"

definition invoke ::
  "tool_registry \<Rightarrow> agent_role \<Rightarrow> str set option \<Rightarrow> str \<Rightarrow> tool_context \<Rightarrow> dict \<Rightarrow> nat \<Rightarrow> observation option" where
  "invoke g role skills name ctx payload pos =
     (case refusal g role skills name of
        Some code \<Rightarrow> failed_observation name code None
      | None \<Rightarrow>
          (case find_tool g name of None \<Rightarrow> None | Some d \<Rightarrow> call_tool d ctx payload pos))"

definition invoke_registered_tool ::
  "tool_registry \<Rightarrow> str \<Rightarrow> tool_context \<Rightarrow> dict \<Rightarrow> nat \<Rightarrow> observation option" where
  "invoke_registered_tool g name ctx payload pos = invoke g Executor None name ctx payload pos"

definition has_registered_tool :: "tool_registry \<Rightarrow> str \<Rightarrow> bool" where
  "has_registered_tool g name \<longleftrightarrow> (\<exists>d \<in> set (tg_defs g). td_name d = name \<and> Executor \<in> td_roles d)"

subsection \<open>The registry's invariant\<close>

text \<open>Names are unique and every memoised catalog is the one that would be computed.\<close>

definition cache_fresh :: "tool_registry \<Rightarrow> bool" where
  "cache_fresh g \<longleftrightarrow>
     (\<forall>(v, catalog) \<in> set (tg_cache g). catalog = map catalog_entry (visible_tools v (tg_defs g)))"

definition registry_ok :: "tool_registry \<Rightarrow> bool" where
  "registry_ok g \<longleftrightarrow> distinct (map td_name (tg_defs g)) \<and> cache_fresh g"

text \<open>What a registry may go through: registrations, refused or not, and catalog requests.\<close>

inductive registry_steps :: "tool_registry \<Rightarrow> tool_registry \<Rightarrow> bool" where
  same: "registry_steps g g"
| registered: "registry_steps g h \<Longrightarrow> register_tool d h = Inr h' \<Longrightarrow> registry_steps g h'"
| catalogued: "registry_steps g h \<Longrightarrow> registry_steps g (snd (tool_catalog v h))"

inductive_cases registry_stepsE: "registry_steps g h"

lemma register_tool_ok:
  assumes "register_tool d g = Inr h" and "registry_ok g" shows "registry_ok h"
  using assms by (auto simp: register_tool_def registry_ok_def cache_fresh_def split: if_splits)

lemma tool_catalog_ok:
  assumes "registry_ok g" shows "registry_ok (snd (tool_catalog v g))"
  using assms by (auto simp: tool_catalog_def registry_ok_def cache_fresh_def Let_def split: option.splits)

lemma tool_catalog_fresh:
  assumes "registry_ok g" shows "fst (tool_catalog v g) = map catalog_entry (visible_tools v (tg_defs g))"
  using assms by (auto simp: tool_catalog_def registry_ok_def cache_fresh_def Let_def
      split: option.splits dest!: map_of_SomeD)

lemma registry_steps_ok: "registry_steps g h \<Longrightarrow> registry_ok g \<Longrightarrow> registry_ok h"
  by (induction rule: registry_steps.induct) (auto intro: register_tool_ok tool_catalog_ok)

lemma find_tool_iff:
  assumes "registry_ok g"
  shows "find_tool g name = Some d \<longleftrightarrow> d \<in> set (tg_defs g) \<and> td_name d = name"
proof -
  have "find (\<lambda>d. td_name d = name) ds = Some d \<longleftrightarrow> d \<in> set ds \<and> td_name d = name"
    if "distinct (map td_name ds)" for ds
    using that by (induction ds) (auto simp: image_iff)
  then show ?thesis using assms by (simp add: find_tool_def registry_ok_def)
qed

lemma set_visible_tools: "set (visible_tools v ds) = {d \<in> set ds. fst v \<in> td_roles d \<and> in_scope (snd v) d}"
  by (auto simp: visible_tools_def)

lemma refusal_None:
  assumes "registry_ok g"
  shows "refusal g role skills name = None \<longleftrightarrow> name \<in> td_name ` set (visible_tools (role, skills) (tg_defs g))"
proof (cases "find_tool g name")
  case None
  then have "name \<notin> td_name ` set (tg_defs g)" by (auto simp: find_tool_def find_None_iff)
  with None show ?thesis by (auto simp: refusal_def set_visible_tools)
next
  case (Some d)
  then have d: "d \<in> set (tg_defs g)" "td_name d = name" using find_tool_iff [OF assms] by auto
  have only: "e \<in> set (tg_defs g) \<Longrightarrow> td_name e = name \<Longrightarrow> e = d" for e
    using find_tool_iff [OF assms, of name e] Some by simp
  have "name \<in> td_name ` set (visible_tools (role, skills) (tg_defs g)) \<longleftrightarrow> role \<in> td_roles d \<and> in_scope skills d"
  proof
    assume "name \<in> td_name ` set (visible_tools (role, skills) (tg_defs g))"
    then obtain e where "e \<in> set (tg_defs g)" "td_name e = name" "role \<in> td_roles e" "in_scope skills e"
      unfolding set_visible_tools by auto
    with only show "role \<in> td_roles d \<and> in_scope skills d" by metis
  next
    assume "role \<in> td_roles d \<and> in_scope skills d"
    with d(1) have "d \<in> set (visible_tools (role, skills) (tg_defs g))" by (simp add: set_visible_tools)
    with d(2) show "name \<in> td_name ` set (visible_tools (role, skills) (tg_defs g))" by blast
  qed
  with Some show ?thesis by (simp add: refusal_def)
qed

definition entry_name :: "json \<Rightarrow> json" where
  "entry_name entry = dget (the_dict entry) (lit ''name'')"

lemma entry_name_catalog [simp]: "entry_name (catalog_entry d) = JStr (td_name d)"
  by (simp add: entry_name_def catalog_entry_def)

lemma empty_registry_ok: "registry_ok empty_tool_registry"
  by (simp add: registry_ok_def cache_fresh_def empty_tool_registry_def)

subsection \<open>Properties\<close>

text \<open>A role is offered exactly the tools it may call, in the order of their names and each once,
  after any history of registrations and catalog requests: the memo table is never stale.\<close>

theorem catalog_offers_what_may_be_called:
  assumes "registry_steps empty_tool_registry g"
  shows "(JStr name \<in> entry_name ` set (fst (tool_catalog (role, skills) g)) \<longleftrightarrow> refusal g role skills name = None)
    \<and> fst (tool_catalog v (snd (tool_catalog w g))) = fst (tool_catalog v g)"
proof
  have ok: "registry_ok g"
    by (rule registry_steps_ok [OF assms]) (rule empty_registry_ok)
  show "JStr name \<in> entry_name ` set (fst (tool_catalog (role, skills) g)) \<longleftrightarrow> refusal g role skills name = None"
    unfolding tool_catalog_fresh [OF ok] refusal_None [OF ok] by (auto simp: image_iff)
  have "tg_defs (snd (tool_catalog w g)) = tg_defs g"
    by (simp add: tool_catalog_def Let_def split: option.splits)
  then show "fst (tool_catalog v (snd (tool_catalog w g))) = fst (tool_catalog v g)"
    by (simp add: tool_catalog_fresh [OF ok] tool_catalog_fresh [OF tool_catalog_ok [OF ok]])
qed

lemma invoke_cases:
  "(case invoke g role skills name ctx payload pos of
      Some ob \<Rightarrow> validate_outcome ob
        \<and> (refusal g role skills name \<noteq> None \<longrightarrow> ob_status ob = ObsFailed \<and> ob_error ob = refusal g role skills name)
    | None \<Rightarrow> length name \<notin> {1..64}
        \<or> (\<exists>d input code message. find_tool g name = Some d \<and> td_input d payload = Inr input
            \<and> td_handler d ctx input pos = HandlerRaised code message \<and> truthy code \<and> \<not> is_str code))"
proof (cases "refusal g role skills name")
  case (Some code)
  then have "code \<noteq> []" by (auto simp: refusal_def split: option.splits if_splits)
  with Some show ?thesis
    by (auto simp: invoke_def failed_observation_def make_observation_def validate_outcome_def)
next
  case None
  then obtain d where d: "find_tool g name = Some d" by (auto simp: refusal_def split: option.splits)
  then have name: "td_name d = name" by (auto simp: find_tool_def dest: find_SomeD)
  have str: "truthy code \<Longrightarrow> is_str code \<Longrightarrow> the_str code \<noteq> []" for code by (cases code) auto
  have failed: "failed_observation name code m = None \<Longrightarrow> code \<noteq> [] \<Longrightarrow>
      (\<forall>t \<in> set_option m. length t \<le> 500) \<Longrightarrow> length name \<notin> {1..64}"
    "failed_observation name code m = Some ob \<Longrightarrow> validate_outcome ob" for code m ob
    by (auto simp: failed_observation_def make_observation_def validate_outcome_def split: if_splits)
  have short: "length (sanitize_error_message t) \<le> 500" for t by (simp add: sanitize_error_message_def)
  show ?thesis
    using None d str failed short name
    by (fastforce simp: invoke_def call_tool_def exception_observation_def validation_error_summary_def
        make_observation_def validate_outcome_def
        split: option.splits sum.splits handler_outcome.splits if_splits)
qed

text \<open>C35: A call never reaches a handler that the role or the skill scope excludes, and what it
  returns is always a well-formed observation. The ways out are two: a tool name that is empty or
  longer than 64 characters, and a handler's exception with a truthy code that is not a string; then
  the constructor of the observation raises.\<close>

theorem invoke_outcome:
  "(case invoke g role skills name ctx payload pos of
      Some ob \<Rightarrow> validate_outcome ob
        \<and> (refusal g role skills name = None \<or> ob_status ob = ObsFailed \<and> ob_error ob = refusal g role skills name)
    | None \<Rightarrow> name = [] \<or> 64 < length name
        \<or> (\<exists>d input code message. find_tool g name = Some d \<and> td_input d payload = Inr input
            \<and> td_handler d ctx input pos = HandlerRaised code message \<and> truthy code \<and> \<not> is_str code))"
  using invoke_cases [where g = g and role = role and skills = skills and name = name and ctx = ctx
      and payload = payload and pos = pos]
  by (auto simp: Suc_le_eq split: option.split)

subsection \<open>A small registry\<close>

definition echo_tool :: tool_definition where
  "echo_tool = \<lparr>td_name = lit ''echo'', td_skill = Some (lit ''job-discovery''), td_description = [],
     td_roles = {Executor}, td_input = (\<lambda>d. Inr (JObj d)), td_output = (\<lambda>v. Some (the_dict v)),
     td_handler = (\<lambda>c v n. HandlerReturned v), td_input_schema = JNull, td_output_schema = JNull\<rparr>"

definition echo_registry :: tool_registry where
  "echo_registry = \<lparr>tg_defs = [echo_tool], tg_cache = []\<rparr>"

lemma echo_steps: "registry_steps empty_tool_registry echo_registry"
  by (rule registry_steps.registered [OF registry_steps.same, of echo_tool])
    (simp add: register_tool_def empty_tool_registry_def echo_registry_def echo_tool_def strip_def is_space_def lit_def)

theorem catalog_offers_what_may_be_called_witness:
  "JStr (lit ''echo'') \<in> entry_name ` set (fst (tool_catalog (Executor, Some {lit ''job-discovery''}) echo_registry))"
  using catalog_offers_what_may_be_called [OF echo_steps, of "lit ''echo''" Executor "Some {lit ''job-discovery''}"]
  by (simp add: refusal_def find_tool_def echo_registry_def echo_tool_def in_scope_def)

end
