(* ===== verification/ObservationProjection.thy ===== *)
theory ObservationProjection
  imports Schemas
begin

section \<open>What an agent sees of the observations\<close>

text \<open>
  \<open>backend/app/services/agent_runtime/observation_projection.py\<close>: the bounded projection of one
  observation, the list that a decision is given, where older observations collapse to a line of
  identifiers, and the tool-call summaries.
\<close>

subsection \<open>One observation\<close>

definition visible_text_excerpt :: nat where
  "visible_text_excerpt = 1200"

definition max_projected_items :: nat where
  "max_projected_items = 10"

definition status_text :: "obs_status \<Rightarrow> str" where
  "status_text st = lit (case st of ObsSucceeded \<Rightarrow> ''succeeded'' | ObsFailed \<Rightarrow> ''failed'')"

definition observation_json :: "observation \<Rightarrow> dict" where
  "observation_json ob =
     [(lit ''tool_name'', JStr (ob_tool ob)), (lit ''status'', JStr (status_text (ob_status ob))),
      (lit ''output'', (case ob_output ob of None \<Rightarrow> JNull | Some d \<Rightarrow> JObj d)),
      (lit ''error_code'', opt_text (ob_error ob)), (lit ''error_message'', opt_text (ob_message ob))]"

text \<open>\<open>if isinstance(d.get("visible_text"), str): d["visible_text"] = d["visible_text"][:1200]\<close>\<close>

definition page_for_decision :: "dict \<Rightarrow> dict" where
  "page_for_decision page =
     (case dget page (lit ''visible_text'') of
        JStr t \<Rightarrow> dput (lit ''visible_text'') (JStr (take visible_text_excerpt t)) page
      | _ \<Rightarrow> page)"

definition identifier_keys :: "string list" where
  "identifier_keys = [''artifact_id'', ''candidate_id'', ''source_artifact_id'', ''source_url'', ''content_hash'']"

text \<open>\<open>{key: d[key] for key in keys if isinstance(d.get(key), str)}\<close>\<close>

definition text_items :: "string list \<Rightarrow> dict \<Rightarrow> dict" where
  "text_items keys d = map (\<lambda>k. (lit k, dget d (lit k))) (filter (\<lambda>k. is_str (dget d (lit k))) keys)"

definition candidate_titles :: "json \<Rightarrow> json list" where
  "candidate_titles candidates =
     (case candidates of
        JArr xs \<Rightarrow> filter is_str (map (\<lambda>c. dget c (lit ''title'')) (dicts_of xs))
      | _ \<Rightarrow> [])"

definition candidate_refs :: "json \<Rightarrow> dict list" where
  "candidate_refs candidates =
     (case candidates of
        JArr xs \<Rightarrow> filter (\<lambda>r. r \<noteq> []) (map (text_items identifier_keys)
          (dicts_of (take max_projected_items xs)))
      | _ \<Rightarrow> [])"

definition detail_for_decision :: "dict \<Rightarrow> dict" where
  "detail_for_decision detail =
     (let candidates = dget detail (lit ''candidates'');
          projected = dpick (map lit identifier_keys) detail
            @ [(lit ''candidate_titles'', JArr (candidate_titles candidates))];
          refs = candidate_refs candidates
      in if refs \<noteq> [] then projected @ [(lit ''candidate_refs'', JArr (map JObj refs))] else projected)"

definition project_items :: "string \<Rightarrow> (dict \<Rightarrow> dict) \<Rightarrow> dict \<Rightarrow> dict" where
  "project_items key f d =
     (case dget d (lit key) of
        JArr xs \<Rightarrow> dput (lit key) (JArr (map (JObj \<circ> f) (dicts_of (take max_projected_items xs)))) d
      | _ \<Rightarrow> d)"

definition project_output :: "dict \<Rightarrow> dict" where
  "project_output out =
     project_items ''details'' detail_for_decision
       (project_items ''pages'' page_for_decision (page_for_decision out))"

definition observation_for_decision :: "observation \<Rightarrow> dict" where
  "observation_for_decision ob =
     (case ob_output ob of
        None \<Rightarrow> observation_json ob
      | Some out \<Rightarrow> dput (lit ''output'') (JObj (project_output out)) (observation_json ob))"

subsection \<open>The list a decision is given\<close>

definition serialized_chars :: "dict list \<Rightarrow> int" where
  "serialized_chars items = int (length (dumps_compact (JArr (map JObj items))))"

definition summarize_observation :: "dict \<Rightarrow> dict" where
  "summarize_observation ob =
     filter (\<lambda>(k, v). v \<noteq> JNull) (map (\<lambda>k. (lit k, dget ob (lit k))) [''tool_name'', ''status''])
     @ (case dget ob (lit ''output'') of JObj out \<Rightarrow> text_items identifier_keys out | _ \<Rightarrow> [])"

definition summarize_observations :: "nat \<Rightarrow> int \<Rightarrow> dict list \<Rightarrow> dict list" where
  "summarize_observations keep_recent budget obs =
     (if length obs \<le> keep_recent then obs
      else if serialized_chars obs \<le> budget then obs
      else let split = length obs - keep_recent
        in map summarize_observation (take split obs) @ drop split obs)"

definition default_keep_recent :: nat where
  "default_keep_recent = 5"

definition default_budget_chars :: int where
  "default_budget_chars = 48000"

definition decision_observations :: "observation list \<Rightarrow> dict list" where
  "decision_observations obs =
     summarize_observations default_keep_recent default_budget_chars (map observation_for_decision obs)"

subsection \<open>Tool-call summaries\<close>

definition tool_call_output_excerpt :: nat where
  "tool_call_output_excerpt = 200"

definition max_tool_call_history :: nat where
  "max_tool_call_history = 15"

definition tool_call_summary :: "observation \<Rightarrow> dict" where
  "tool_call_summary ob =
     [(lit ''tool_name'', JStr (ob_tool ob)), (lit ''status'', JStr (status_text (ob_status ob)))]
     @ (case ob_error ob of None \<Rightarrow> [] | Some e \<Rightarrow> [(lit ''error_code'', JStr e)])
     @ (case ob_output ob of None \<Rightarrow> []
        | Some out \<Rightarrow> [(lit ''output_excerpt'',
            JStr (take tool_call_output_excerpt (dumps_compact (JObj out))))])"

text \<open>\<open>observations[-max_calls:]\<close>; a slice from \<open>-0\<close> is the whole list.\<close>

definition summarize_tool_call_history :: "nat \<Rightarrow> observation list \<Rightarrow> dict list" where
  "summarize_tool_call_history max_calls obs =
     map tool_call_summary (if max_calls = 0 then obs else drop (length obs - max_calls) obs)"

subsection \<open>Bounds\<close>

text \<open>The text of a page, at the head of an output and in its pages, is an excerpt.\<close>

definition excerpt_only :: "dict \<Rightarrow> bool" where
  "excerpt_only d \<longleftrightarrow> length (the_str (dget d (lit ''visible_text''))) \<le> visible_text_excerpt"

definition bounded_output :: "dict \<Rightarrow> bool" where
  "bounded_output out \<longleftrightarrow> excerpt_only out
     \<and> (\<forall>xs. dget out (lit ''pages'') = JArr xs \<longrightarrow>
          length xs \<le> max_projected_items \<and> (\<forall>d \<in> set (dicts_of xs). excerpt_only d))
     \<and> (\<forall>xs. dget out (lit ''details'') = JArr xs \<longrightarrow>
          length xs \<le> max_projected_items
          \<and> (\<forall>d \<in> set (dicts_of xs). fst ` set d \<subseteq> set (map lit (identifier_keys @ [''candidate_titles'', ''candidate_refs'']))))"

lemma length_dicts_of: "length (dicts_of xs) \<le> length xs"
  by (induction xs rule: dicts_of.induct) auto

lemma excerpt_only_page: "excerpt_only (page_for_decision page)"
  by (auto simp: excerpt_only_def page_for_decision_def split: json.splits)

lemma page_for_decision_other:
  "k \<noteq> ''visible_text'' \<Longrightarrow> dget (page_for_decision page) (lit k) = dget page (lit k)"
  by (auto simp: page_for_decision_def split: json.splits)

lemma project_items_get:
  "dget (project_items key f d) (lit k) =
     (if k = key then (case dget d (lit key) of
          JArr xs \<Rightarrow> JArr (map (JObj \<circ> f) (dicts_of (take max_projected_items xs))) | v \<Rightarrow> v)
      else dget d (lit k))"
  by (auto simp: project_items_def split: json.splits)

lemma detail_keys:
  "fst ` set (detail_for_decision d) \<subseteq> set (map lit (identifier_keys @ [''candidate_titles'', ''candidate_refs'']))"
  by (auto simp: detail_for_decision_def dpick_def Let_def)

lemma dicts_of_projected [simp]: "dicts_of (map (JObj \<circ> f) ds) = map f ds"
  by (induction ds) auto

lemma length_projected: "length (dicts_of (take max_projected_items xs)) \<le> max_projected_items"
  using length_dicts_of [of "take max_projected_items xs"] by simp

lemma projected_items:
  assumes "dget (project_items key f d) (lit key) = JArr xs"
  obtains ys where "xs = map (JObj \<circ> f) (dicts_of (take max_projected_items ys))"
  using assms by (auto simp: project_items_get split: json.splits)

lemma projected_bounded:
  assumes "dget (project_items key f d) (lit key) = JArr xs" and "\<And>e. P (f e)"
  shows "length xs \<le> max_projected_items \<and> (\<forall>e \<in> set (dicts_of xs). P e)"
proof -
  obtain ys where "xs = map (JObj \<circ> f) (dicts_of (take max_projected_items ys))"
    using projected_items [OF assms(1)] .
  then show ?thesis using assms(2) length_projected by auto
qed

lemma project_output_bounded: "bounded_output (project_output out)"
proof -
  define mid where "mid = project_items ''pages'' page_for_decision (page_for_decision out)"
  have get: "dget (project_output out) (lit k) = dget mid (lit k)" if "k \<noteq> ''details''" for k
    using that by (simp add: project_output_def project_items_get mid_def)
  have "excerpt_only (project_output out)"
    using excerpt_only_page [of out] get [of "''visible_text''"]
    by (simp add: excerpt_only_def mid_def project_items_get)
  moreover have "length xs \<le> max_projected_items \<and> (\<forall>d \<in> set (dicts_of xs). excerpt_only d)"
    if "dget (project_output out) (lit ''pages'') = JArr xs" for xs
    using that unfolding get [of "''pages''", simplified] mid_def
    by (rule projected_bounded) (rule excerpt_only_page)
  moreover have "length xs \<le> max_projected_items
      \<and> (\<forall>d \<in> set (dicts_of xs). fst ` set d \<subseteq> set (map lit (identifier_keys @ [''candidate_titles'', ''candidate_refs''])))"
    if "dget (project_output out) (lit ''details'') = JArr xs" for xs
    using that unfolding project_output_def by (rule projected_bounded) (rule detail_keys)
  ultimately show ?thesis unfolding bounded_output_def by blast
qed

lemma summary_keys:
  "fst ` set (summarize_observation ob) \<subseteq> set (map lit (''tool_name'' # ''status'' # identifier_keys))"
  by (auto simp: summarize_observation_def text_items_def split: json.splits)

subsection \<open>Properties\<close>

text \<open>What a decision is given of the observations is bounded and in step with them: one entry for
  each, in order; texts are excerpts, pages and details at most ten and details without their bodies;
  and once the list is over its budget every entry but the last five is a line of identifiers only.\<close>

theorem decision_view_bounded:
  "length (decision_observations obs) = length obs
   \<and> (\<forall>ob \<in> set obs. case ob_output ob of None \<Rightarrow> True
        | Some out \<Rightarrow> dget (observation_for_decision ob) (lit ''output'') = JObj (project_output out)
            \<and> bounded_output (project_output out))
   \<and> (\<forall>i < length obs.
        decision_observations obs ! i = observation_for_decision (obs ! i)
        \<or> i + default_keep_recent < length obs
          \<and> default_budget_chars < serialized_chars (map observation_for_decision obs)
          \<and> fst ` set (decision_observations obs ! i)
              \<subseteq> set (map lit (''tool_name'' # ''status'' # identifier_keys)))"
proof (intro conjI ballI allI impI)
  show "length (decision_observations obs) = length obs"
    by (simp add: decision_observations_def summarize_observations_def Let_def)
next
  fix ob
  show "case ob_output ob of None \<Rightarrow> True
      | Some out \<Rightarrow> dget (observation_for_decision ob) (lit ''output'') = JObj (project_output out)
          \<and> bounded_output (project_output out)"
    by (auto simp: observation_for_decision_def project_output_bounded split: option.splits)
next
  fix i assume i: "i < length obs"
  have summary: "fst ` set (summarize_observation (observation_for_decision ob))
      \<subseteq> set (map lit (''tool_name'' # ''status'' # identifier_keys))" for ob
    by (rule summary_keys)
  show "decision_observations obs ! i = observation_for_decision (obs ! i)
        \<or> i + default_keep_recent < length obs
          \<and> default_budget_chars < serialized_chars (map observation_for_decision obs)
          \<and> fst ` set (decision_observations obs ! i)
              \<subseteq> set (map lit (''tool_name'' # ''status'' # identifier_keys))"
  proof (cases "length obs \<le> default_keep_recent
      \<or> serialized_chars (map observation_for_decision obs) \<le> default_budget_chars")
    case True
    with i show ?thesis by (auto simp: decision_observations_def summarize_observations_def)
  next
    case False
    then have view: "decision_observations obs =
        map (summarize_observation \<circ> observation_for_decision) (take (length obs - default_keep_recent) obs)
        @ map observation_for_decision (drop (length obs - default_keep_recent) obs)"
      by (auto simp: decision_observations_def summarize_observations_def Let_def take_map drop_map)
    show ?thesis
      using False i summary [of "obs ! i"] unfolding view
      by (cases "i < length obs - default_keep_recent") (simp_all add: nth_append less_diff_conv)
  qed
qed

end
