(* ===== verification/PlannerAgent.thy ===== *)
theory PlannerAgent
  imports PlanRepair ToolRegistry ObservationProjection RecoveryPrograms
begin

section \<open>The Planner\<close>

text \<open>
  \<open>PlannerAgent.run\<close> of \<open>planner_agent.py\<close>, with the audit record of a decision
  (\<open>context_manifest.py\<close>, \<open>tracing.py\<close>). One iteration of its loop is \<open>planner_turn\<close>: the two
  ceilings, the state the model sees, the model's decision, and what the code does with it. The
  model gateway is an argument: it answers as a function of the state it is given and of the
  position in time. The instruction text and pydantic's rendering of a validation error only go to
  the model, so they are arguments too. The runtime always passes the three budgets, the trace and
  the deadline; so does the model.
\<close>

subsection \<open>The audit record of a decision\<close>

definition compute_evidence_chars :: "json \<Rightarrow> int" where
  "compute_evidence_chars evidence =
     (case evidence of
        JArr xs \<Rightarrow> sum_list (map (\<lambda>d. case dget d (lit ''visible_text'') of
            JStr t \<Rightarrow> int (length t) | _ \<Rightarrow> 0) (dicts_of xs))
      | _ \<Rightarrow> 0)"

text \<open>The lines of a text, each with the number of characters it takes with its line feed.\<close>

fun line_lengths :: "str list \<Rightarrow> (str \<times> int) list" where
  "line_lengths [] = []"
| "line_lengths [l] = [(l, int (length l))]"
| "line_lengths (l # m # ls) = (l, int (length l) + 1) # line_lengths (m # ls)"

definition section_header :: "str \<Rightarrow> str option" where
  "section_header l = (if starts_with l (lit ''## '') \<and> length l > 3 then Some (drop 3 l) else None)"

definition close_section :: "str option \<Rightarrow> int \<Rightarrow> dict \<Rightarrow> dict" where
  "close_section name n stats =
     (case name of
        Some h \<Rightarrow> dput h (JInt n) stats
      | None \<Rightarrow> if 0 < n then dput (lit ''_preamble'') (JInt n) stats else stats)"

fun section_stats :: "str option \<Rightarrow> int \<Rightarrow> (str \<times> int) list \<Rightarrow> dict \<Rightarrow> dict" where
  "section_stats name n [] stats = close_section name n stats"
| "section_stats name n ((l, k) # ls) stats =
     (case section_header l of
        None \<Rightarrow> section_stats name (n + k) ls stats
      | Some h \<Rightarrow> section_stats (Some h) k ls (close_section name n stats))"

definition prompt_section_stats :: "str \<Rightarrow> dict" where
  "prompt_section_stats instruction =
     (if instruction = [] then [] else section_stats None 0 (line_lengths (split_on 10 instruction)) [])"

definition json_chars :: "json list \<Rightarrow> json" where
  "json_chars xs = JInt (int (length (dumps_compact (JArr xs))))"

definition build_context_manifest :: "str \<Rightarrow> json list \<Rightarrow> dict list \<Rightarrow> int \<Rightarrow> json \<Rightarrow> dict" where
  "build_context_manifest instruction tools obs evidence_chars model_name =
     [(lit ''system_prompt_chars'', JInt (int (length instruction))),
      (lit ''tool_catalog_count'', JInt (int (length tools))),
      (lit ''tool_catalog_chars'', json_chars tools),
      (lit ''observation_count'', JInt (int (length obs))),
      (lit ''observation_chars'', json_chars (map JObj obs)),
      (lit ''evidence_chars'', JInt evidence_chars), (lit ''model_name'', model_name),
      (lit ''prompt_sections'', JObj (prompt_section_stats instruction))]"

definition decision_summary :: "str \<Rightarrow> str option \<Rightarrow> str option \<Rightarrow> dict" where
  "decision_summary action tool verification =
     [(lit ''action'', JStr action)]
     @ (if present tool then [(lit ''tool_name'', JStr (the tool))] else [])
     @ (if present verification then [(lit ''verification_decision'', JStr (the verification))] else [])"

subsection \<open>The gateway and the loop's variables\<close>

text \<open>
  One \<open>decide\<close>: a validated decision or the code of an \<open>AgentModelGatewayError\<close>, the provider
  requests the gateway charged itself, \<open>last_usage\<close>, and the time it took.
\<close>

record gateway_reply =
  gy_result :: "str + decision"
  gy_calls :: "(int \<times> provider_outcome) list"
  gy_usage :: "dict option"
  gy_elapsed :: nat

record planner =
  pn_skills :: skill_registry
  pn_tools :: tool_registry
  pn_decide :: "dict \<Rightarrow> nat \<Rightarrow> gateway_reply"
  pn_manages :: bool
  pn_instruction :: str
  pn_explain :: "plan_error \<Rightarrow> str"
  pn_tool_time :: "nat \<Rightarrow> nat"

record planner_vars =
  pv_obs :: "observation list"
  pv_premature :: nat
  pv_invalid :: nat
  pv_feedback :: "str option"

text \<open>How \<open>run\<close> ends: it returns, the gateway's error passes through, or a \<open>ValidationError\<close> does.\<close>

datatype planner_end = Planned planner_result | GatewayError str | Escapes

datatype planner_next = Ends planner_end | Turns planner_vars

definition failed_result :: "observation list \<Rightarrow> string \<Rightarrow> planner_end" where
  "failed_result obs code = Planned \<lparr>pr_status = PlanFailed, pr_plan = None, pr_obs = obs,
     pr_question = None, pr_error = Some (lit code)\<rparr>"

definition construct :: "planner_result \<Rightarrow> planner_end" where
  "construct res = (case make_planner_result res of None \<Rightarrow> Escapes | Some x \<Rightarrow> Planned x)"

definition planned_result :: "observation list \<Rightarrow> execution_plan \<Rightarrow> planner_result" where
  "planned_result obs p = \<lparr>pr_status = PlanMade, pr_plan = Some p, pr_obs = obs, pr_question = None, pr_error = None\<rparr>"

definition question_result :: "observation list \<Rightarrow> str \<Rightarrow> str option \<Rightarrow> planner_result" where
  "question_result obs question code =
     \<lparr>pr_status = PlanNeedsUser, pr_plan = None, pr_obs = obs, pr_question = Some question, pr_error = code\<rparr>"

subsection \<open>What the model is shown\<close>

definition fact_fields :: "task \<Rightarrow> str list" where
  "fact_fields t =
     (case dget (tk_private t) profile_facts_key of JObj d \<Rightarrow> sort (map fst d) | _ \<Rightarrow> [])"

definition planner_state ::
  "planner \<Rightarrow> task \<Rightarrow> json list \<Rightarrow> json list \<Rightarrow> planner_vars \<Rightarrow> rt \<Rightarrow> dict" where
  "planner_state pn t tools executor_tools pv r =
     [(lit ''goal'', JStr (tk_goal t)), (lit ''allowed_skills'', strs (tk_skills t)),
      (lit ''skill_policy'', JStr (prompt_policy (pn_skills pn) (tk_skills t) 4000)),
      (lit ''available_tools'', JArr tools), (lit ''available_executor_tools'', JArr executor_tools),
      (lit ''context'', JObj (tk_context t)),
      (lit ''confirmed_profile_fact_fields'', strs (fact_fields t)),
      (lit ''remaining_tool_calls'', JInt (tool_remaining (rt_tools r))),
      (lit ''remaining_agent_turns'', JInt (turn_remaining (rt_turns r))),
      (lit ''observations'', JArr (map JObj (decision_observations (pv_obs pv)))),
      (lit ''replan_state'', replan_state_json (tk_replan t))]
     @ (if present (pv_feedback pv) then [(lit ''runtime_feedback'', JStr (the (pv_feedback pv)))] else [])"

subsection \<open>A plan decision\<close>

definition max_invalid_plan_retries :: nat where
  "max_invalid_plan_retries = 2"

text \<open>After an invalid plan: another turn with feedback, the fallback, or the user.\<close>

definition invalid_plan ::
  "planner \<Rightarrow> task \<Rightarrow> bool \<Rightarrow> planner_vars \<Rightarrow> str \<Rightarrow> str \<Rightarrow> planner_next" where
  "invalid_plan pn t again pv feedback question =
     (if pv_invalid pv < max_invalid_plan_retries \<and> again then
        Turns (pv\<lparr>pv_invalid := pv_invalid pv + 1, pv_feedback := Some feedback\<rparr>)
      else case build_seeded_career_fallback (pn_skills pn) t of
          Some p \<Rightarrow> Ends (construct (planned_result (pv_obs pv) p))
        | None \<Rightarrow> Ends (construct (question_result (pv_obs pv) question (Some (lit ''invalid_execution_plan'')))))"

definition find_port_error :: "skill_registry \<Rightarrow> plan_step list \<Rightarrow> str option" where
  "find_port_error sr steps =
     (case find (\<lambda>s. present (validate_step_ports sr s)) steps of
        None \<Rightarrow> None | Some s \<Rightarrow> validate_step_ports sr s)"

text \<open>The repairs and the result; the \<open>except ValidationError\<close> falls back as after an invalid plan.\<close>

definition repaired_plan :: "planner \<Rightarrow> task \<Rightarrow> planner_vars \<Rightarrow> execution_plan \<Rightarrow> planner_end" where
  "repaired_plan pn t pv p =
     (case ensure_requested_deliverable_steps t (trim_unrequested_trailing_steps t p) of
        None \<Rightarrow> Escapes
      | Some q \<Rightarrow>
          (case make_planner_result (planned_result (pv_obs pv) q) of
             Some res \<Rightarrow> Planned res
           | None \<Rightarrow>
               (case build_seeded_career_fallback (pn_skills pn) t of
                  Some f \<Rightarrow> construct (planned_result (pv_obs pv) f)
                | None \<Rightarrow> construct (question_result (pv_obs pv) plan_skills_question_msg
                    (Some (lit ''invalid_execution_plan''))))))"

definition plan_decision ::
  "planner \<Rightarrow> task \<Rightarrow> bool \<Rightarrow> planner_vars \<Rightarrow> complexity_level \<Rightarrow> str list \<Rightarrow> plan_step list \<Rightarrow> planner_next" where
  "plan_decision pn t again pv level criteria steps =
     (case make_execution_plan t Planner level criteria steps of
        Inl e \<Rightarrow> invalid_plan pn t again pv
          (plan_invalid_feedback_msg @ take 500 (pn_explain pn e)) plan_invalid_question_msg
      | Inr p \<Rightarrow>
          let p' = p\<lparr>ep_steps := map normalize_step_ports (ep_steps p)\<rparr>
          in case find_port_error (pn_skills pn) (ep_steps p') of
               Some e \<Rightarrow> invalid_plan pn t again pv (plan_ports_feedback_msg @ take 500 e) plan_ports_question_msg
             | None \<Rightarrow> Ends (repaired_plan pn t pv p'))"

subsection \<open>One turn\<close>

definition trace_decision ::
  "planner \<Rightarrow> task \<Rightarrow> tool_context \<Rightarrow> str \<Rightarrow> json list \<Rightarrow> planner_vars \<Rightarrow> decision \<Rightarrow> dict option \<Rightarrow> rt \<Rightarrow> rt" where
  "trace_decision pn t c run tools pv d usage r =
     (let (action, tool) = (case d of CallTool name _ \<Rightarrow> (''call_tool'', Some name)
            | PlanDecision _ _ _ \<Rightarrow> (''plan'', None) | NeedUserDecision _ \<Rightarrow> (''need_user'', None));
          manifest = (\<lambda>u. build_context_manifest (pn_instruction pn) tools (decision_observations (pv_obs pv))
            (compute_evidence_chars (dget (tx_meta c) (lit ''observed_public_evidence''))) (dget u (lit ''model_name'')));
          meta = map_option (\<lambda>u. dput (lit ''context_manifest'') (JObj (manifest u)) u) usage
      in trace_turn run \<lparr>te_role = Planner, te_decision = decision_summary (lit action) tool None, te_meta = meta\<rparr> r)"

text \<open>\<open>_turn < task.budget.max_agent_turns - 1\<close> is \<open>again\<close>: another iteration would follow.\<close>

definition act_on ::
  "planner \<Rightarrow> task \<Rightarrow> tool_context \<Rightarrow> bool \<Rightarrow> json list \<Rightarrow> planner_vars \<Rightarrow> decision \<Rightarrow> rt \<Rightarrow> planner_next \<times> rt" where
  "act_on pn t c again executor_tools pv d r =
     (case d of
        CallTool name payload \<Rightarrow>
          let (ok, b) = tool_consume (rt_tools r); r1 = r\<lparr>rt_tools := b\<rparr>
          in if \<not> ok then (Ends (failed_result (pv_obs pv) ''tool_budget_exhausted''), r1)
             else (case invoke (pn_tools pn) Planner None name c payload (rt_pos r1) of
                 None \<Rightarrow> (Ends Escapes, world_step (pn_tool_time pn (rt_pos r1)) r1)
               | Some ob \<Rightarrow> (Turns (pv\<lparr>pv_obs := pv_obs pv @ [ob]\<rparr>), world_step (pn_tool_time pn (rt_pos r1)) r1))
      | PlanDecision level criteria steps \<Rightarrow> (plan_decision pn t again pv level criteria steps, r)
      | NeedUserDecision question \<Rightarrow>
          if executor_tools \<noteq> [] \<and> pv_premature pv < 1 \<and> again then
            (Turns (pv\<lparr>pv_premature := pv_premature pv + 1, pv_feedback := Some (lit
               (''Policy correction: permitted tools are still available. '' @
                ''Do not ask the user yet. Re-check context and Skill policy; '' @
                ''return a plan if any permitted path can make progress.''))\<rparr>), r)
          else (Ends (construct (question_result (pv_obs pv) question None)), r))"

text \<open>
  One question to the model. A gateway that manages the budget charges its own requests; for any
  other the loop reserves before and records after. \<open>Inl\<close> ends the run.
\<close>

definition ask_model ::
  "planner \<Rightarrow> planner_vars \<Rightarrow> dict \<Rightarrow> rt \<Rightarrow> (planner_end + decision \<times> dict option) \<times> rt" where
  "ask_model pn pv state r =
     (let exhausted = Inl (failed_result (pv_obs pv) ''model_budget_exhausted'');
          (room, mb) = (if pn_manages pn then (True, rt_model r)
                        else try_reserve (estimate_input_tokens (pn_instruction pn) state) (rt_model r));
          r1 = r\<lparr>rt_model := mb\<rparr>
      in if \<not> room then (exhausted, r1)
         else let reply = pn_decide pn state (rt_pos r1);
                  r2 = world_step (gy_elapsed reply) (if pn_manages pn
                    then r1\<lparr>rt_model := snd (grants provider_call (gy_calls reply) (rt_model r1))\<rparr> else r1)
           in case gy_result reply of
                Inl code \<Rightarrow> (Inl (GatewayError code), r2)
              | Inr d \<Rightarrow>
                  let (within, mb') = (if pn_manages pn then (True, rt_model r2)
                                       else model_record (gy_usage reply) (rt_model r2));
                      r3 = r2\<lparr>rt_model := mb'\<rparr>
                  in if \<not> within then (exhausted, r3) else (Inr (d, gy_usage reply), r3))"

definition planner_turn ::
  "planner \<Rightarrow> task \<Rightarrow> tool_context \<Rightarrow> str \<Rightarrow> int \<Rightarrow> bool \<Rightarrow> json list \<Rightarrow> json list \<Rightarrow> planner_vars \<Rightarrow> rt
    \<Rightarrow> planner_next \<times> rt" where
  "planner_turn pn t c run deadline again tools executor_tools pv r =
     (if deadline \<le> rt_clock r then (Ends (failed_result (pv_obs pv) ''wall_clock_budget_exhausted''), r)
      else let (ok, tb) = turn_try_consume (rt_turns r); r1 = r\<lparr>rt_turns := tb\<rparr> in
        if \<not> ok then (Ends (failed_result (pv_obs pv) ''agent_turn_budget_exhausted''), r1)
        else case ask_model pn pv (planner_state pn t tools executor_tools pv r1) r1 of
            (Inl e, r2) \<Rightarrow> (Ends e, r2)
          | (Inr (d, usage), r2) \<Rightarrow>
              act_on pn t c again executor_tools pv d (trace_decision pn t c run tools pv d usage r2))"

subsection \<open>The loop\<close>

text \<open>\<open>for _turn in range(max_agent_turns)\<close>, counting the iterations left.\<close>

fun planner_turns ::
  "planner \<Rightarrow> task \<Rightarrow> tool_context \<Rightarrow> str \<Rightarrow> int \<Rightarrow> json list \<Rightarrow> json list \<Rightarrow> nat \<Rightarrow> planner_vars \<Rightarrow> rt
    \<Rightarrow> planner_end \<times> rt" where
  "planner_turns pn t c run deadline tools executor_tools 0 pv r =
     (Planned \<lparr>pr_status = PlanFailed, pr_plan = None, pr_obs = pv_obs pv,
        pr_question = Some (lit ''Planner turn budget exhausted before a safe plan was formed.''),
        pr_error = None\<rparr>, r)"
| "planner_turns pn t c run deadline tools executor_tools (Suc n) pv r =
     (case planner_turn pn t c run deadline (0 < n) tools executor_tools pv r of
        (Ends e, r') \<Rightarrow> (e, r')
      | (Turns pv', r') \<Rightarrow> planner_turns pn t c run deadline tools executor_tools n pv' r')"

definition planner_run ::
  "planner \<Rightarrow> task \<Rightarrow> tool_context \<Rightarrow> str \<Rightarrow> int \<Rightarrow> rt \<Rightarrow> (planner_end \<times> rt) \<times> tool_registry" where
  "planner_run pn t c run deadline r =
     (let (tools, g1) = tool_catalog (Planner, Some (set (tk_skills t))) (pn_tools pn);
          (executor_tools, g2) = tool_catalog (Executor, Some (set (tk_skills t))) g1
      in (planner_turns pn t c run deadline tools executor_tools (nat (ab_turns (tk_budget t)))
            \<lparr>pv_obs = [], pv_premature = 0, pv_invalid = 0, pv_feedback = None\<rparr> r, g2))"

subsection \<open>What the Planner may touch\<close>

lemma grows_turn_consume: "grows run r (r\<lparr>rt_turns := snd (turn_try_consume (rt_turns r))\<rparr>)"
  by (auto simp: grows_def budgets_kept_def turn_try_consume_def)

lemma grows_model:
  assumes "mb_max_requests b = mb_max_requests (rt_model r)"
    and "mb_requests (rt_model r) \<le> mb_max_requests (rt_model r) \<Longrightarrow> mb_requests b \<le> mb_max_requests b"
  shows "grows run r (r\<lparr>rt_model := b\<rparr>)"
  using assms by (auto simp: grows_def budgets_kept_def)

lemma grows_reserve: "grows run r (r\<lparr>rt_model := snd (try_reserve e (rt_model r))\<rparr>)"
  by (rule grows_model) (auto simp: try_reserve_def Let_def)

lemma grows_record: "grows run r (r\<lparr>rt_model := snd (model_record u (rt_model r))\<rparr>)"
  by (rule grows_model) (auto simp: model_record_def Let_def)

lemma grows_requests: "grows run r (r\<lparr>rt_model := snd (grants provider_call calls (rt_model r))\<rparr>)"
  using requests.grants_within requests.grants_limit by (intro grows_model) simp_all

lemma grows_trace_decision: "grows run r (trace_decision pn t c run tools pv d u r)"
  by (simp add: trace_decision_def split_beta Let_def grows_trace_turn)

lemma grows_act_on: "grows run r (snd (act_on pn t c again ex pv d r))"
proof -
  have "grows run r (world_step n (r\<lparr>rt_tools := snd (tool_consume (rt_tools r))\<rparr>))" for n
    using grows_tool_consume grows_world_step by (rule grows_trans)
  then show ?thesis
    using grows_tool_consume [of run r]
    by (auto simp: act_on_def split_beta Let_def split: decision.splits option.splits)
qed

lemma turns_frames:
  "rt_turns (world_step n r) = rt_turns r"
  "rt_turns (trace_decision pn t c run tools pv d u r) = rt_turns r"
  "rt_turns (snd (act_on pn t c again ex pv d r)) = rt_turns r"
  by (auto simp: world_step_def trace_decision_def trace_turn_def act_on_def split_beta Let_def
      split: decision.splits option.splits)

lemma grows_ask_model: "grows run r (snd (ask_model pn pv st r))"
proof -
  have world: "grows run r (world_step n r)" for n and r :: rt by (rule grows_world_step)
  have charged: "grows run r (world_step n (r\<lparr>rt_model := snd (grants provider_call calls (rt_model r))\<rparr>))" for n calls
    using grows_requests world by (rule grows_trans)
  have reserved: "grows run r (world_step n (r\<lparr>rt_model := snd (try_reserve e (rt_model r))\<rparr>))" for n e
    using grows_reserve world by (rule grows_trans)
  have recorded: "grows run r (r1\<lparr>rt_model := snd (model_record u (rt_model r1))\<rparr>)"
    if "r1 = world_step n (r\<lparr>rt_model := snd (try_reserve e (rt_model r))\<rparr>)" for r1 n e u
    unfolding that using reserved grows_record by (rule grows_trans)
  show ?thesis
    using grows_reserve [of run r] charged reserved recorded
    by (auto simp: ask_model_def split_beta Let_def split: sum.splits)
qed

lemma ask_model_turns: "rt_turns (snd (ask_model pn pv st r)) = rt_turns r"
  by (auto simp: ask_model_def split_beta Let_def turns_frames split: sum.splits)

lemma grows_planner_turn: "grows run r (snd (planner_turn pn t c run deadline again tools ex pv r))"
proof (cases "deadline \<le> rt_clock r \<or> \<not> fst (turn_try_consume (rt_turns r))")
  case True
  then show ?thesis using grows_turn_consume [of run r] by (auto simp: planner_turn_def split_beta Let_def)
next
  case False
  define r1 where "r1 = r\<lparr>rt_turns := snd (turn_try_consume (rt_turns r))\<rparr>"
  define r2 where "r2 = snd (ask_model pn pv (planner_state pn t tools ex pv r1) r1)"
  have "grows run r r2"
    unfolding r2_def r1_def using grows_turn_consume grows_ask_model by (rule grows_trans)
  moreover from this have "grows run r (snd (act_on pn t c again ex pv d (trace_decision pn t c run tools pv d u r2)))" for d u
    by (rule grows_trans) (rule grows_trans [OF grows_trace_decision grows_act_on])
  ultimately show ?thesis
    using False by (auto simp: planner_turn_def split_beta Let_def simp flip: r1_def r2_def split: sum.splits)
qed

lemma planner_turn_turns:
  "tb_used (rt_turns (snd (planner_turn pn t c run deadline again tools ex pv r))) \<le> tb_used (rt_turns r) + 1"
  by (auto simp: planner_turn_def split_beta Let_def ask_model_turns turns_frames turn_try_consume_def
      split: sum.splits)

lemma planner_turns_confined:
  "grows run r (snd (planner_turns pn t c run deadline tools ex n pv r))
   \<and> tb_used (rt_turns (snd (planner_turns pn t c run deadline tools ex n pv r))) \<le> tb_used (rt_turns r) + int n"
proof (induction n arbitrary: pv r)
  case (Suc n)
  obtain nx r' where turn: "planner_turn pn t c run deadline (0 < n) tools ex pv r = (nx, r')" by fastforce
  have g: "grows run r r'" using grows_planner_turn [of run r pn t c deadline "0 < n" tools ex pv] by (simp add: turn)
  have u: "tb_used (rt_turns r') \<le> tb_used (rt_turns r) + 1"
    using planner_turn_turns [of pn t c run deadline "0 < n" tools ex pv r] by (simp add: turn)
  show ?case
  proof (cases nx)
    case (Turns pv')
    then show ?thesis
      using Suc.IH [of r' pv'] g u by (auto simp: turn intro: grows_trans)
  qed (use g u in \<open>simp add: turn\<close>)
qed simp

lemma planner_run_turns:
  "planner_run pn t c run deadline r =
     (planner_turns pn t c run deadline (fst (tool_catalog (Planner, Some (set (tk_skills t))) (pn_tools pn)))
        (fst (tool_catalog (Executor, Some (set (tk_skills t)))
          (snd (tool_catalog (Planner, Some (set (tk_skills t))) (pn_tools pn)))))
        (nat (ab_turns (tk_budget t))) \<lparr>pv_obs = [], pv_premature = 0, pv_invalid = 0, pv_feedback = None\<rparr> r,
      snd (tool_catalog (Executor, Some (set (tk_skills t)))
        (snd (tool_catalog (Planner, Some (set (tk_skills t))) (pn_tools pn)))))"
  by (simp add: planner_run_def split_beta)

subsection \<open>The Planner as an agent of the run\<close>

text \<open>
  The run sees an agent as an \<open>agent_answer\<close>: the turns it traced, what it charged and how long it
  took. \<open>spent\<close> says that a piece of the Planner's work is such an answer's effect, whatever the
  number of answers of the world it used up.
\<close>

fun trace_rows :: "str \<Rightarrow> trace_entry list \<Rightarrow> (agent_role \<Rightarrow> int) \<Rightarrow> turn_row list \<times> (agent_role \<Rightarrow> int)" where
  "trace_rows run [] ix = ([], ix)"
| "trace_rows run (e # es) ix =
     (let meta = (case te_meta e of None \<Rightarrow> [] | Some m \<Rightarrow> m);
          (rows, ix') = trace_rows run es (ix(te_role e := ix (te_role e) + 1))
      in (\<lparr>tr_run = run, tr_role = te_role e, tr_index = ix (te_role e) + 1,
           tr_decision = trace_key meta ''internal_model_calls'' (trace_key meta ''deep_executor'' (te_decision e)),
           tr_model = text_option (dget meta (lit ''model_name'')),
           tr_input = int_option (dget meta (lit ''input_tokens'')),
           tr_output = int_option (dget meta (lit ''output_tokens'')),
           tr_manifest = dget meta (lit ''context_manifest'')\<rparr> # rows, ix'))"

lemma fold_trace_turn:
  "fold (trace_turn run) es r =
     r\<lparr>rt_indices := snd (trace_rows run es (rt_indices r)),
       rt_db := (rt_db r)\<lparr>so_turns := so_turns (rt_db r) @ fst (trace_rows run es (rt_indices r))\<rparr>\<rparr>"
  by (induction es arbitrary: r) (auto simp: trace_turn_def create_turn_def Let_def split_beta)

lemma trace_rows_append:
  "fst (trace_rows run (xs @ ys) ix) = fst (trace_rows run xs ix) @ fst (trace_rows run ys (snd (trace_rows run xs ix)))"
  "snd (trace_rows run (xs @ ys) ix) = snd (trace_rows run ys (snd (trace_rows run xs ix)))"
  by (induction xs arbitrary: ix) (simp_all add: Let_def split_beta)

definition spent :: "str \<Rightarrow> rt \<Rightarrow> rt \<Rightarrow> bool" where
  "spent run r r' \<longleftrightarrow> (\<exists>(a :: unit agent_answer) p. r' = (agent_call run a r)\<lparr>rt_pos := p\<rparr>)"

definition spent_answer :: "'r \<Rightarrow> trace_entry list \<Rightarrow> nat \<Rightarrow> nat \<Rightarrow> (int \<times> provider_outcome) list \<Rightarrow> nat \<Rightarrow> 'r agent_answer" where
  "spent_answer x es turns tools calls elapsed =
     \<lparr>aa_result = Inr x, aa_trace = es, aa_turn_calls = turns, aa_tool_calls = tools,
      aa_model_calls = calls, aa_meta = [], aa_elapsed = elapsed\<rparr>"

lemma agent_call_fields:
  "agent_call run a r =
     r\<lparr>rt_db := (rt_db r)\<lparr>so_turns := so_turns (rt_db r) @ fst (trace_rows run (aa_trace a) (rt_indices r)),
         so_now := so_now (rt_db r) + int (aa_elapsed a)\<rparr>,
       rt_tools := snd (grants (\<lambda>_. tool_consume) (replicate (aa_tool_calls a) ()) (rt_tools r)),
       rt_turns := snd (grants (\<lambda>_. turn_try_consume) (replicate (aa_turn_calls a) ()) (rt_turns r)),
       rt_model := snd (grants provider_call (aa_model_calls a) (rt_model r)),
       rt_indices := snd (trace_rows run (aa_trace a) (rt_indices r)),
       rt_clock := rt_clock r + int (aa_elapsed a), rt_pos := Suc (rt_pos r)\<rparr>"
  by (simp add: agent_call_def charge_def world_step_def fold_trace_turn)

lemma spentI:
  assumes "r' = (agent_call run a r)\<lparr>rt_pos := p\<rparr>"
  shows "spent run r r'"
  unfolding spent_def assms
  by (rule exI [of _ "spent_answer () (aa_trace a) (aa_turn_calls a) (aa_tool_calls a) (aa_model_calls a) (aa_elapsed a)"])
    (rule exI [of _ p], simp add: agent_call_fields spent_answer_def)

lemma spent_refl [simp, intro]: "spent run r r"
  by (rule spentI [where a = "spent_answer () [] 0 0 [] 0" and p = "rt_pos r"]) (simp add: agent_call_fields spent_answer_def)

lemma spent_trans [trans]:
  assumes "spent run r1 r2" and "spent run r2 r3"
  shows "spent run r1 r3"
proof -
  from assms obtain a b :: "unit agent_answer" and p q
    where a: "r2 = (agent_call run a r1)\<lparr>rt_pos := p\<rparr>" and b: "r3 = (agent_call run b r2)\<lparr>rt_pos := q\<rparr>"
    unfolding spent_def by blast
  show ?thesis
    by (rule spentI [where a = "spent_answer () (aa_trace a @ aa_trace b) (aa_turn_calls a + aa_turn_calls b)
      (aa_tool_calls a + aa_tool_calls b) (aa_model_calls a @ aa_model_calls b) (aa_elapsed a + aa_elapsed b)" and p = q])
      (simp add: a b agent_call_fields spent_answer_def replicate_add grants_append trace_rows_append)
qed

lemma spent_trace_turn: "spent run r (trace_turn run e r)"
  by (rule spentI [where a = "spent_answer () [e] 0 0 [] 0" and p = "rt_pos r"])
    (simp add: agent_call_fields spent_answer_def fold_trace_turn [of run "[e]" r, simplified])

lemma spent_world_step: "spent run r (world_step n r)"
  by (rule spentI [where a = "spent_answer () [] 0 0 [] n" and p = "Suc (rt_pos r)"])
    (simp add: agent_call_fields spent_answer_def world_step_def)

lemma spent_turn: "spent run r (r\<lparr>rt_turns := snd (turn_try_consume (rt_turns r))\<rparr>)"
  by (rule spentI [where a = "spent_answer () [] 1 0 [] 0" and p = "rt_pos r"])
    (simp add: agent_call_fields spent_answer_def split_beta Let_def)

lemma spent_tool: "spent run r (r\<lparr>rt_tools := snd (tool_consume (rt_tools r))\<rparr>)"
  by (rule spentI [where a = "spent_answer () [] 0 1 [] 0" and p = "rt_pos r"])
    (simp add: agent_call_fields spent_answer_def split_beta Let_def)

lemma spent_requests: "spent run r (r\<lparr>rt_model := snd (grants provider_call calls (rt_model r))\<rparr>)"
  by (rule spentI [where a = "spent_answer () [] 0 0 calls 0" and p = "rt_pos r"])
    (simp add: agent_call_fields spent_answer_def)

lemma spent_ask_model:
  assumes "pn_manages pn"
  shows "spent run r (snd (ask_model pn pv st r))"
proof -
  have "spent run r (world_step n (r\<lparr>rt_model := snd (grants provider_call calls (rt_model r))\<rparr>))" for n calls
    using spent_requests spent_world_step by (rule spent_trans)
  then show ?thesis
    using assms by (auto simp: ask_model_def Let_def split: sum.splits)
qed

lemma spent_act_on: "spent run r (snd (act_on pn t c again ex pv d r))"
proof -
  have "spent run r (world_step n (r\<lparr>rt_tools := snd (tool_consume (rt_tools r))\<rparr>))" for n
    using spent_tool spent_world_step by (rule spent_trans)
  then show ?thesis
    using spent_tool [of run r]
    by (auto simp: act_on_def split_beta Let_def split: decision.splits option.splits)
qed

lemma spent_planner_turn:
  assumes "pn_manages pn"
  shows "spent run r (snd (planner_turn pn t c run deadline again tools ex pv r))"
proof (cases "deadline \<le> rt_clock r \<or> \<not> fst (turn_try_consume (rt_turns r))")
  case True
  then show ?thesis using spent_turn [of run r] by (auto simp: planner_turn_def split_beta Let_def)
next
  case False
  define r1 where "r1 = r\<lparr>rt_turns := snd (turn_try_consume (rt_turns r))\<rparr>"
  define r2 where "r2 = snd (ask_model pn pv (planner_state pn t tools ex pv r1) r1)"
  have "spent run r r2"
    unfolding r2_def r1_def using spent_turn spent_ask_model [OF assms] by (rule spent_trans)
  moreover from this have "spent run r (snd (act_on pn t c again ex pv d (trace_decision pn t c run tools pv d u r2)))" for d u
    by (rule spent_trans)
      (rule spent_trans [OF _ spent_act_on], simp add: trace_decision_def split_beta Let_def spent_trace_turn)
  ultimately show ?thesis
    using False by (auto simp: planner_turn_def split_beta Let_def simp flip: r1_def r2_def split: sum.splits)
qed

lemma spent_planner_turns:
  assumes "pn_manages pn"
  shows "spent run r (snd (planner_turns pn t c run deadline tools ex n pv r))"
proof (induction n arbitrary: pv r)
  case (Suc n)
  obtain nx r' where turn: "planner_turn pn t c run deadline (0 < n) tools ex pv r = (nx, r')" by fastforce
  have "spent run r r'" using spent_planner_turn [OF assms, of run r t c deadline "0 < n" tools ex pv] by (simp add: turn)
  then show ?case using Suc.IH spent_trans by (cases nx) (auto simp: turn)
qed simp

subsection \<open>What a result of the Planner holds\<close>

definition result_sound :: "task \<Rightarrow> planner_end \<Rightarrow> bool" where
  "result_sound t e \<longleftrightarrow> (case e of
      Planned res \<Rightarrow>
        (case pr_plan res of
           None \<Rightarrow> pr_status res \<noteq> PlanMade \<and> (pr_status res = PlanNeedsUser \<longrightarrow> present (pr_question res))
         | Some p \<Rightarrow> pr_status res = PlanMade \<and> plan_ok p \<and> load_typed_replan_state t = Some (ep_task p))
    | _ \<Rightarrow> True)"

lemma sound_construct_plan:
  "load_typed_replan_state t = Some (ep_task p) \<Longrightarrow> result_sound t (construct (planned_result obs p))"
  by (simp add: result_sound_def construct_def planned_result_def make_planner_result_def validate_plan_authority_iff)

lemma fallback_task: "build_seeded_career_fallback sr t = Some p \<Longrightarrow> load_typed_replan_state t = Some (ep_task p)"
  by (auto simp: build_seeded_career_fallback_def Let_def make_execution_plan_ok(2) split: if_splits sum.splits)

lemma ensured_task:
  "ensure_requested_deliverable_steps t p = Some q \<Longrightarrow> load_typed_replan_state t = Some (ep_task p)
    \<Longrightarrow> load_typed_replan_state t = Some (ep_task q)"
  by (auto simp: ensure_requested_deliverable_steps_def Let_def make_execution_plan_ok(2)
      split: if_splits sum.splits option.splits)

lemma sound_construct_question: "result_sound t (construct (question_result obs q e))"
  by (simp add: result_sound_def construct_def question_result_def make_planner_result_def)

lemma sound_failed: "result_sound t (failed_result obs e)"
  by (simp add: result_sound_def failed_result_def)

lemma sound_invalid_plan: "invalid_plan pn t again pv fb q = Ends e \<Longrightarrow> result_sound t e"
  by (auto simp: invalid_plan_def sound_construct_plan sound_construct_question fallback_task
      split: if_splits option.splits)

lemma sound_repaired_plan:
  assumes "load_typed_replan_state t = Some (ep_task p)"
  shows "result_sound t (repaired_plan pn t pv p)"
proof (cases "ensure_requested_deliverable_steps t (trim_unrequested_trailing_steps t p)")
  case None
  then show ?thesis by (simp add: repaired_plan_def result_sound_def)
next
  case (Some q)
  have task: "load_typed_replan_state t = Some (ep_task q)" by (rule ensured_task [OF Some]) (simp add: assms)
  show ?thesis
  proof (cases "make_planner_result (planned_result (pv_obs pv) q)")
    case None
    then show ?thesis
      using Some by (auto simp: repaired_plan_def sound_construct_plan sound_construct_question fallback_task
          split: option.split)
  next
    case (Some res)
    then show ?thesis
      using \<open>ensure_requested_deliverable_steps _ _ = Some q\<close> sound_construct_plan [OF task, of "pv_obs pv"]
      by (simp add: repaired_plan_def construct_def)
  qed
qed

lemma sound_plan_decision: "plan_decision pn t again pv l cs ss = Ends e \<Longrightarrow> result_sound t e"
  by (auto simp: plan_decision_def Let_def make_execution_plan_ok(2) split: sum.splits option.splits
      intro!: sound_repaired_plan dest: sound_invalid_plan)

lemma sound_act_on: "fst (act_on pn t c again ex pv d r) = Ends e \<Longrightarrow> result_sound t e"
  using sound_failed sound_construct_question
  by (auto simp: act_on_def split_beta Let_def split: decision.splits option.splits if_splits
      dest: sound_plan_decision)
    (simp_all add: result_sound_def)

lemma sound_ask_model: "fst (ask_model pn pv st r) = Inl e \<Longrightarrow> result_sound t e"
  using sound_failed
  by (auto simp: ask_model_def split_beta Let_def split: sum.splits if_splits)
    (simp_all add: result_sound_def)

lemma sound_planner_turn: "fst (planner_turn pn t c run deadline again tools ex pv r) = Ends e \<Longrightarrow> result_sound t e"
  using sound_failed
  by (auto simp: planner_turn_def split_beta Let_def split: sum.splits if_splits prod.splits
      dest: sound_act_on sound_ask_model [of _ _ _ _ _ t])

lemma sound_planner_turns: "result_sound t (fst (planner_turns pn t c run deadline tools ex n pv r))"
proof (induction n arbitrary: pv r)
  case 0
  then show ?case by (simp add: result_sound_def)
next
  case (Suc n)
  obtain nx r' where turn: "planner_turn pn t c run deadline (0 < n) tools ex pv r = (nx, r')" by fastforce
  show ?case
  proof (cases nx)
    case (Ends e)
    then show ?thesis using sound_planner_turn [of pn t c run deadline "0 < n" tools ex pv r e] by (simp add: turn)
  qed (simp add: turn Suc.IH)
qed


subsection \<open>Properties\<close>


text \<open>C31: With a gateway that manages the model budget, the Planner's loop is one of the agents the run
  is modelled over: unless it raises, some answer has its result, and taking that answer leaves the
  store, the budgets, the counters of the trace and the clock as the loop leaves them.\<close>

theorem planner_is_an_agent:
  assumes "pn_manages pn" and "planner_run pn t c run deadline r = ((e, r'), g)" and "e \<noteq> Escapes"
  shows "\<exists>a. (case e of Planned res \<Rightarrow> aa_result a = Inr res | GatewayError code \<Rightarrow> aa_result a = Inl code | Escapes \<Rightarrow> False)
    \<and> agent_call run a r = r'\<lparr>rt_pos := Suc (rt_pos r)\<rparr>"
proof -
  have "spent run r r'"
    using assms(2) unfolding planner_run_turns by (metis fst_conv snd_conv spent_planner_turns [OF assms(1)])
  then obtain a :: "unit agent_answer" and p where a: "r' = (agent_call run a r)\<lparr>rt_pos := p\<rparr>"
    unfolding spent_def by blast
  define x where "x = (case e of Planned res \<Rightarrow> Inr res | GatewayError code \<Rightarrow> Inl code | Escapes \<Rightarrow> Inl [])"
  define b where "b = \<lparr>aa_result = x, aa_trace = aa_trace a, aa_turn_calls = aa_turn_calls a,
    aa_tool_calls = aa_tool_calls a, aa_model_calls = aa_model_calls a, aa_meta = [], aa_elapsed = aa_elapsed a\<rparr>"
  have "agent_call run b r = r'\<lparr>rt_pos := Suc (rt_pos r)\<rparr>"
    by (simp add: a b_def agent_call_fields)
  then show ?thesis
    using assms(3) by (intro exI [of _ b]) (auto simp: b_def x_def split: planner_end.splits)
qed

end
