(* ===== verification/AgentScenario.thy ===== *)
theory AgentScenario
  imports Scenario EventStream PlannerAgent
begin

section \<open>The agents and the event stream at concrete inputs\<close>

text \<open>The witnesses of the properties of the Planner, its repairs, the projection of observations and
  the event stream.\<close>

subsection \<open>A client that reconnects\<close>

definition started_store :: store where
  "started_store = append_event (lit ''1'') ''first'' []
     (snd (create_run (lit ''u'') (lit ''goal'') [] [] default_budget (lit ''v1'') empty_store))"

definition finished_store :: store where
  "finished_store = append_event (lit ''1'') ''second'' [] started_store"

definition broken_session :: session where
  "broken_session = \<lparr>ss_open = started_store, ss_polls = [started_store, finished_store], ss_follow = True,
     ss_header = True, ss_cut = 3\<rparr>"

lemma scenario_logs: "log_ok started_store q" "log_ok finished_store q"
proof -
  have "log_ok (snd (create_run u g sk c b v empty_store)) q" for u g sk c b v
    by (simp add: log_ok_def events_of_def create_run_def empty_store_def Let_def)
  then show "log_ok started_store q" "log_ok finished_store q"
    by (simp_all add: started_store_def finished_store_def log_ok_append)
qed

lemma scenario_events: "length (events_of finished_store (lit ''1'')) = 2"
  "prefix (events_of started_store (lit ''1'')) (events_of finished_store (lit ''1''))"
  "get_run_for_owner finished_store (lit ''1'') (lit ''u'') \<noteq> None"
  by code_simp+

theorem events_exactly_once_witness:
  "client (lit ''u'') (lit ''1'') 0 [broken_session, catch_up finished_store False True 2] =
     events_of finished_store (lit ''1'')"
proof -
  have "max_str_digits = Suc (max_str_digits - 1)" by (simp add: max_str_digits_def)
  then have "(10::int) ^ 1 \<le> 10 ^ max_str_digits"
    by (intro power_increasing) (simp_all add: max_str_digits_def)
  then have few: "int (length (events_of finished_store (lit ''1''))) < 10 ^ max_str_digits"
    by (simp only: scenario_events power_one_right)
  have "sees (lit ''1'') finished_store broken_session"
    using scenario_logs scenario_events(2) by (simp add: sees_def broken_session_def)
  then have "client (lit ''u'') (lit ''1'') 0 ([broken_session] @ [catch_up finished_store False True 2]) =
      events_of finished_store (lit ''1'')"
    using events_exactly_once [OF scenario_logs(2) few, of "[broken_session]" "lit ''u''" 2 False True] scenario_events
    by simp
  then show ?thesis by simp
qed

subsection \<open>The projection of observations\<close>

theorem decision_view_bounded_witness:
  "length (decision_observations [page_observation]) = 1
   \<and> (\<exists>out. bounded_output (project_output out) \<and> dget (observation_for_decision page_observation) (lit ''output'') = JObj (project_output out))"
  using decision_view_bounded [of "[page_observation]"]
  by (auto simp: page_observation_def)

subsection \<open>The repairs of a plan\<close>

definition resume_step :: plan_step where
  "resume_step = fetch_step\<lparr>ps_id := lit ''tailor'', ps_skills := [lit ''resume-tailoring'']\<rparr>"

definition resume_task :: task where
  "resume_task = demo_task\<lparr>tk_goal := lit ''open roles and a tailored resume'',
     tk_skills := [lit ''job-discovery'', lit ''resume-tailoring'']\<rparr>"

definition resume_plan :: execution_plan where
  "resume_plan = demo_plan\<lparr>ep_task := resume_task, ep_criteria := [lit ''done'']\<rparr>"

definition unasked_plan :: execution_plan where
  "unasked_plan = demo_plan\<lparr>ep_task := demo_task\<lparr>tk_skills := [lit ''resume-tailoring'']\<rparr>,
     ep_steps := [resume_step]\<rparr>"

lemma scenario_plans: "validate_plan_authority resume_plan = None" "validate_plan_authority unasked_plan = None"
  by code_simp+


theorem unrequested_plan_emptied_witness:
  "\<exists>q. ensure_requested_deliverable_steps demo_task (trim_unrequested_trailing_steps demo_task unasked_plan) = Some q
     \<and> ep_steps q = []"
proof -
  have ok: "plan_ok unasked_plan" using scenario_plans(2) by (simp only: validate_plan_authority_iff)
  have "\<not> collected_goal (ep_task unasked_plan)" "\<not> goal_names tailoring_skill (lower (tk_goal demo_task))"
    "\<forall>s \<in> set (ep_steps unasked_plan). uses tailoring_skill s"
    by code_simp+
  from unrequested_plan_emptied [OF ok this, of "[]"] show ?thesis by blast
qed

theorem fallback_plan_exact_witness:
  "\<exists>p. build_seeded_career_fallback (career_registry (\<lambda>_. [])) demo_task = Some p \<and> plan_ok p"
proof -
  have "discovery_skill \<in> set (tk_skills demo_task) \<and> load_typed_replan_state demo_task \<noteq> None \<and> \<not> collected_goal demo_task"
    by code_simp
  then obtain p where p: "build_seeded_career_fallback (career_registry (\<lambda>_. [])) demo_task = Some p"
    using fallback_plan_exact [of "career_registry (\<lambda>_. [])" demo_task "\<lambda>_. []", THEN conjunct1] by auto
  then show ?thesis
    using fallback_plan_exact [of "career_registry (\<lambda>_. [])" demo_task "\<lambda>_. []", THEN conjunct2] by simp
qed

subsection \<open>The Planner\<close>

text \<open>A gateway that asks the user; no tool is registered.\<close>

definition demo_planner :: planner where
  "demo_planner = \<lparr>pn_skills = career_registry (\<lambda>_. []), pn_tools = empty_tool_registry,
     pn_decide = (\<lambda>st n. \<lparr>gy_result = Inr (NeedUserDecision (lit ''where?'')),
        gy_calls = [(10, Answered None)], gy_usage = None, gy_elapsed = 1\<rparr>),
     pn_manages = True, pn_instruction = [], pn_explain = (\<lambda>e. []), pn_tool_time = (\<lambda>n. 1)\<rparr>"

lemma demo_planner_turn:
  "fst (planner_turn demo_planner t c run 100 again tools [] pv (demo_rt db)) =
     Ends (Planned (question_result (pv_obs pv) (lit ''where?'') None))"
  by (simp add: planner_turn_def ask_model_def demo_planner_def demo_rt_def turn_try_consume_def act_on_def
      construct_def make_planner_result_def question_result_def present_def lit_def split_beta Let_def)

lemma demo_planner_asks:
  "fst (fst (planner_run demo_planner demo_task c run 100 (demo_rt db))) =
     Planned (question_result [] (lit ''where?'') None)"
proof -
  have no_tools: "fst (tool_catalog v (snd (tool_catalog w empty_tool_registry))) = []"
    "fst (tool_catalog w empty_tool_registry) = []" for v w
    by (simp_all add: tool_catalog_def empty_tool_registry_def visible_tools_def Let_def split: option.split)
  have n: "nat (ab_turns (tk_budget demo_task)) = Suc 11"
    by (simp add: demo_task_def default_budget_def)
  have tools: "pn_tools demo_planner = empty_tool_registry" by (simp add: demo_planner_def)
  define pv where "pv = \<lparr>pv_obs = [], pv_premature = 0, pv_invalid = 0, pv_feedback = None\<rparr>"
  obtain r' where "planner_turn demo_planner demo_task c run 100 True [] [] pv (demo_rt db) =
      (Ends (Planned (question_result [] (lit ''where?'') None)), r')"
    using demo_planner_turn [of demo_task c run True "[]" pv db]
    by (cases "planner_turn demo_planner demo_task c run 100 True [] [] pv (demo_rt db)") (simp add: pv_def)
  then show ?thesis
    by (simp only: planner_run_turns n tools no_tools planner_turns.simps fst_conv zero_less_numeral
        flip: pv_def) simp
qed

theorem planner_is_an_agent_witness:
  "\<exists>a. aa_result a = Inr (question_result [] (lit ''where?'') None)
     \<and> agent_call (lit ''r'') a (demo_rt empty_store) =
         (snd (fst (planner_run demo_planner demo_task demo_context (lit ''r'') 100 (demo_rt empty_store))))\<lparr>rt_pos := 1\<rparr>"
proof -
  obtain e r' g where run: "planner_run demo_planner demo_task demo_context (lit ''r'') 100 (demo_rt empty_store) = ((e, r'), g)"
    by (metis prod.exhaust)
  then have e: "e = Planned (question_result [] (lit ''where?'') None)"
    using demo_planner_asks [of demo_context "lit ''r''" empty_store] by simp
  have "pn_manages demo_planner" by (simp add: demo_planner_def)
  from planner_is_an_agent [OF this run] e run show ?thesis by (simp add: demo_rt_def)
qed

end
