(* ===== verification/ResumeParser.thy ===== *)
theory ResumeParser
  imports Sha256 ToolRegistry
begin

section \<open>Reading a resume\<close>

text \<open>
  \<open>backend/app/services/profile_parser.py\<close> and the values of \<open>backend/app/domain/profiles.py\<close>:
  the text of an uploaded document and the candidates for profile facts found in it. PDF and DOCX are
  read by third-party libraries, so that part of the reader is an argument (\<open>None\<close> where it
  raises).
\<close>

subsection \<open>The domain\<close>

datatype asset_status = PendingUpload | AssetReady | UploadFailed

datatype import_status = ImportPending | Parsing | AwaitingConfirmation | NeedsManualEntry | ImportFailed

datatype decision_action = ConfirmFact | CorrectFact | IgnoreFact

definition action_value :: "decision_action \<Rightarrow> str" where
  "action_value a = lit (case a of ConfirmFact \<Rightarrow> ''confirm'' | CorrectFact \<Rightarrow> ''correct'' | IgnoreFact \<Rightarrow> ''ignore'')"

datatype diff_action = DiffAdd | DiffReplace | DiffUnchanged | DiffConflict

definition local_sensitive_categories :: "str list" where
  "local_sensitive_categories = map lit [''government_id'', ''family_member'', ''emergency_contact'']"

definition standard_field_paths :: "str list" where
  "standard_field_paths = map lit [''basics.name'', ''basics.email'', ''basics.phone'', ''education'',
     ''experience'', ''projects'', ''skills'', ''awards'', ''certificates'', ''languages'', ''portfolio_links'']"

text \<open>\<open>^lsr:v1:[0-9a-f]{64}$\<close> on the whole text\<close>

definition local_reference_ok :: "str \<Rightarrow> bool" where
  "local_reference_ok s \<longleftrightarrow> starts_with s (lit ''lsr:v1:'') \<and> length s = 71
     \<and> (\<forall>c \<in> set (drop 7 s). (48 \<le> c \<and> c \<le> 57) \<or> (97 \<le> c \<and> c \<le> 102))"

definition validate_local_sensitive_reference :: "str \<Rightarrow> str \<Rightarrow> bool" where
  "validate_local_sensitive_reference category reference \<longleftrightarrow>
     category \<in> set local_sensitive_categories \<and> local_reference_ok reference"

text \<open>What the parser finds is a text or a list of texts.\<close>

datatype fact_value = OneText str | Texts "str list"

definition fact_json :: "fact_value \<Rightarrow> json" where
  "fact_json v = (case v of OneText s \<Rightarrow> JStr s | Texts xs \<Rightarrow> strs xs)"

record candidate =
  cd_path :: str
  cd_value :: fact_value
  cd_excerpt :: str
  cd_confidence :: int

record parsed_document =
  pt_text :: str
  pt_manual :: bool
  pt_error :: "str option"

subsection \<open>The text of a document\<close>

text \<open>\<open>Path(filename).suffix.lower()\<close>\<close>

definition path_name :: "str \<Rightarrow> str" where
  "path_name filename =
     (case rev (filter (\<lambda>p. p \<noteq> [] \<and> p \<noteq> [46]) (split_on 47 filename)) of [] \<Rightarrow> [] | p # _ \<Rightarrow> p)"

definition file_suffix :: "str \<Rightarrow> str" where
  "file_suffix filename =
     (let name = path_name filename; tail = takeWhile (\<lambda>c. c \<noteq> 46) (rev name);
          i = length name - 1 - length tail
      in if length tail < length name \<and> 0 < i \<and> 0 < length tail then lower (drop i name) else [])"

text \<open>\<open>raw.decode("utf-8")\<close>; \<open>None\<close> is \<open>UnicodeDecodeError\<close>.\<close>

definition continues :: "int \<Rightarrow> bool" where
  "continues b \<longleftrightarrow> 128 \<le> b \<and> b \<le> 191"

fun utf8_decode :: "int list \<Rightarrow> str option" where
  "utf8_decode [] = Some []"
| "utf8_decode (a # bs) =
     (if 0 \<le> a \<and> a < 128 then map_option ((#) a) (utf8_decode bs)
      else case bs of
          [] \<Rightarrow> None
        | b # cs \<Rightarrow>
            if 194 \<le> a \<and> a \<le> 223 then
              (if continues b then map_option ((#) ((a - 192) * 64 + (b - 128))) (utf8_decode cs) else None)
            else case cs of
                [] \<Rightarrow> None
              | c # ds \<Rightarrow>
                  if 224 \<le> a \<and> a \<le> 239 then
                    (if continues b \<and> continues c \<and> (a = 224 \<longrightarrow> 160 \<le> b) \<and> (a = 237 \<longrightarrow> b \<le> 159)
                     then map_option ((#) ((a - 224) * 4096 + (b - 128) * 64 + (c - 128))) (utf8_decode ds)
                     else None)
                  else case ds of
                      [] \<Rightarrow> None
                    | d # es \<Rightarrow>
                        if 240 \<le> a \<and> a \<le> 244 \<and> continues b \<and> continues c \<and> continues d
                            \<and> (a = 240 \<longrightarrow> 144 \<le> b) \<and> (a = 244 \<longrightarrow> b \<le> 143)
                        then map_option ((#) ((a - 240) * 262144 + (b - 128) * 4096 + (c - 128) * 64 + (d - 128)))
                               (utf8_decode es)
                        else None)"

text \<open>A character that \<open>str.encode("utf-8")\<close> accepts: a code point that is no surrogate.\<close>

definition scalar :: "int \<Rightarrow> bool" where
  "scalar c \<longleftrightarrow> (0 \<le> c \<and> c < 55296) \<or> (57344 \<le> c \<and> c < 1114112)"

lemma decode_char:
  assumes "scalar c"
  shows "utf8_decode (utf8_char c @ bs) = map_option ((#) c) (utf8_decode bs)"
proof -
  consider "0 \<le> c" "c < 128" | "128 \<le> c" "c < 2048" | "2048 \<le> c" "c < 65536" "c < 55296 \<or> 57344 \<le> c"
    | "65536 \<le> c" "c < 1114112"
    using assms unfolding scalar_def by linarith
  then show ?thesis
  proof cases
    case 1
    then show ?thesis by (simp add: utf8_char_def)
  next
    case 2
    define q r where "q = c div 64" and "r = c mod 64"
    have c: "c = 64 * q + r" "0 \<le> r" "r < 64" by (simp_all add: q_def r_def)
    then have "2 \<le> q" "q < 32" using 2 by linarith+
    then show ?thesis using 2 c by (simp add: utf8_char_def continues_def mult.commute flip: q_def r_def)
  next
    case 3
    define q r s where "q = c div 4096" and "r = c div 64 mod 64" and "s = c mod 64"
    have "c div 4096 = c div 64 div 64" using zdiv_zmult2_eq [of 64 c 64] by simp
    then have "c = 4096 * q + 64 * r + s"
      using div_mult_mod_eq [of c 64] div_mult_mod_eq [of "c div 64" 64] unfolding q_def r_def s_def by linarith
    then have c: "c = 4096 * q + 64 * r + s" "0 \<le> r" "r < 64" "0 \<le> s" "s < 64"
      by (simp_all add: r_def s_def)
    have q: "0 \<le> q" "q < 16" using 3 c by linarith+
    have "q = 0 \<longrightarrow> 32 \<le> r" using 3(1) c by (intro impI) linarith
    moreover have "q = 13 \<longrightarrow> r \<le> 31" using 3(3)
    proof (elim disjE; intro impI)
      assume "c < 55296" "q = 13"
      then show "r \<le> 31" using c by linarith
    next
      assume "57344 \<le> c" "q = 13"
      then show "r \<le> 31" using c by linarith
    qed
    moreover note q
    moreover have "utf8_char c = [224 + q, 128 + r, 128 + s]"
      using 3 by (simp add: utf8_char_def q_def r_def s_def)
    moreover have "q * 4096 + r * 64 + s = c" using c(1) by simp
    ultimately show ?thesis using c(2-5) by (simp add: continues_def)
  next
    case 4
    define q r s t where "q = c div 262144" and "r = c div 4096 mod 64" and "s = c div 64 mod 64" and "t = c mod 64"
    have d: "c div 4096 = c div 64 div 64" using zdiv_zmult2_eq [of 64 c 64] by simp
    have "c div 262144 = c div 4096 div 64" using zdiv_zmult2_eq [of 64 c 4096] by simp
    define x y where "x = c div 64" and "y = x div 64"
    have "c = 64 * x + t" "x = 64 * y + s"
      by (simp_all add: x_def y_def s_def t_def)
    moreover have "y = 64 * q + r"
      unfolding q_def r_def \<open>c div 262144 = _\<close> d x_def [symmetric] y_def [symmetric] by simp
    ultimately have "c = 262144 * q + 4096 * r + 64 * s + t" by simp
    then have c: "c = 262144 * q + 4096 * r + 64 * s + t" "0 \<le> r" "r < 64" "0 \<le> s" "s < 64" "0 \<le> t" "t < 64"
      by (simp_all add: r_def s_def t_def)
    have "0 \<le> q" "q < 5" using 4 c by linarith+
    moreover have "q = 0 \<longrightarrow> 16 \<le> r" "q = 4 \<longrightarrow> r \<le> 15" using 4 c by (intro impI; linarith)+
    moreover have "utf8_char c = [240 + q, 128 + r, 128 + s, 128 + t]"
      using 4 by (simp add: utf8_char_def q_def r_def s_def t_def)
    moreover have "q * 262144 + r * 4096 + s * 64 + t = c" using c(1) by simp
    ultimately show ?thesis using c(2-7) by (simp add: continues_def)
  qed
qed

lemma utf8_roundtrip: "list_all scalar s \<Longrightarrow> utf8_decode (utf8 s) = Some s"
  by (induction s) (simp_all add: utf8_def decode_char)

text \<open>\<open>text.splitlines()\<close>\<close>

definition ends_line :: "int \<Rightarrow> bool" where
  "ends_line c \<longleftrightarrow> (10 \<le> c \<and> c \<le> 13) \<or> (28 \<le> c \<and> c \<le> 30) \<or> c = 133 \<or> c = 8232 \<or> c = 8233"

fun splitlines_from :: "str \<Rightarrow> str \<Rightarrow> str list" where
  "splitlines_from acc [] = (if acc = [] then [] else [acc])"
| "splitlines_from acc (c # cs) =
     (if c = 13 \<and> cs \<noteq> [] \<and> hd cs = 10 then acc # splitlines_from [] (tl cs)
      else if ends_line c then acc # splitlines_from [] cs
      else splitlines_from (acc @ [c]) cs)"

definition splitlines :: "str \<Rightarrow> str list" where
  "splitlines s = splitlines_from [] s"

definition normalized_lines :: "str \<Rightarrow> str list" where
  "normalized_lines text = filter (\<lambda>l. l \<noteq> []) (map strip (splitlines text))"

definition document_suffixes :: "str list" where
  "document_suffixes = map lit [''.txt'', ''.md'', ''.pdf'', ''.docx'']"

text \<open>\<open>None\<close> is \<open>UnsupportedResumeTypeError\<close>.\<close>

definition extract_resume_document ::
  "(str \<Rightarrow> int list \<Rightarrow> str option) \<Rightarrow> str \<Rightarrow> int list \<Rightarrow> parsed_document option" where
  "extract_resume_document reader filename raw =
     (let suffix = file_suffix filename in
      if suffix \<notin> set document_suffixes then None
      else Some (case (if suffix \<in> {lit ''.txt'', lit ''.md''} then utf8_decode raw else reader suffix raw) of
          None \<Rightarrow> \<lparr>pt_text = [], pt_manual = True, pt_error = Some (lit ''resume_parse_unreadable'')\<rparr>
        | Some text \<Rightarrow>
            let normalized = join [10] (normalized_lines text)
            in if normalized = [] then \<lparr>pt_text = [], pt_manual = True, pt_error = Some (lit ''resume_text_unavailable'')\<rparr>
               else \<lparr>pt_text = normalized, pt_manual = False, pt_error = None\<rparr>))"

subsection \<open>Patterns\<close>

text \<open>
  The three expressions leave no choice to a matcher: every class is followed by a character outside
  it, so that only the longest run can match. Each function looks at the head of a text.
\<close>

definition mail_here :: "str \<Rightarrow> str option" where
  "mail_here s =
     (let user = takeWhile (\<lambda>c. is_word c \<or> c \<in> {46, 43, 45}) s; s1 = drop (length user) s;
          host = takeWhile (\<lambda>c. is_word c \<or> c = 45) (tl s1); s2 = drop (length host) (tl s1);
          top = takeWhile (\<lambda>c. is_word c \<or> c = 46) (tl s2)
      in if user \<noteq> [] \<and> s1 \<noteq> [] \<and> hd s1 = 64 \<and> host \<noteq> [] \<and> s2 \<noteq> [] \<and> hd s2 = 46 \<and> top \<noteq> []
         then Some (user @ 64 # host @ 46 # top) else None)"

definition phone_here :: "str \<Rightarrow> str option" where
  "phone_here s =
     (if 11 \<le> length s \<and> s ! 0 = 49 \<and> 51 \<le> s ! 1 \<and> s ! 1 \<le> 57 \<and> (\<forall>c \<in> set (take 9 (drop 2 s)). is_decimal c)
      then Some (take 11 s) else None)"

fun search :: "(str \<Rightarrow> str option) \<Rightarrow> str \<Rightarrow> str option" where
  "search here [] = here []"
| "search here (c # cs) = (case here (c # cs) of Some m \<Rightarrow> Some m | None \<Rightarrow> search here cs)"

definition url_here :: "str \<Rightarrow> str option" where
  "url_here s =
     (let head = (if starts_with s (lit ''https://'') then 8 else if starts_with s (lit ''http://'') then 7 else 0);
          rest = takeWhile (\<lambda>c. \<not> is_space c) (drop head s)
      in if 0 < head \<and> rest \<noteq> [] then Some (take head s @ rest) else None)"

function find_links :: "str \<Rightarrow> str list" where
  "find_links [] = []"
| "find_links (c # cs) =
     (case url_here (c # cs) of
        Some m \<Rightarrow> m # find_links (drop (length m - 1) cs)
      | None \<Rightarrow> find_links cs)"
  by pat_completeness auto
termination
  by (relation "measure length") auto

subsection \<open>Candidates\<close>

text \<open>The section headings, in Chinese.\<close>

definition section_aliases :: "(str \<times> str) list" where
  "section_aliases =
     [([25945, 32946, 32463, 21382], lit ''education''), ([25945, 32946, 32972, 26223], lit ''education''),
      ([23454, 20064, 32463, 21382], lit ''experience''), ([24037, 20316, 32463, 21382], lit ''experience''),
      ([39033, 30446, 32463, 21382], lit ''projects''), ([25216, 33021], lit ''skills''),
      ([19987, 19994, 25216, 33021], lit ''skills''), ([33719, 22870], lit ''awards''),
      ([33635, 35465, 22870, 39033], lit ''awards''), ([35777, 20070], lit ''certificates''),
      ([35821, 35328, 25104, 32489], lit ''languages''), ([20316, 21697, 38142, 25509], lit ''portfolio_links'')]"

text \<open>\<open>stripped.rstrip("...")\<close> of the two colons.\<close>

definition heading_key :: "str \<Rightarrow> str" where
  "heading_key l = rev (dropWhile (\<lambda>c. c \<in> {65306, 58}) (rev l))"

record parse_state =
  ps_found :: "candidate list"
  ps_section :: "str option"
  ps_lines :: "str list"
  ps_name :: bool
  ps_mail :: bool
  ps_phone :: bool
  ps_links :: "str list"

definition add_candidate :: "str \<Rightarrow> fact_value \<Rightarrow> str \<Rightarrow> int \<Rightarrow> parse_state \<Rightarrow> parse_state" where
  "add_candidate path v excerpt confidence ps =
     ps\<lparr>ps_found := ps_found ps @
       [\<lparr>cd_path = path, cd_value = v, cd_excerpt = take 500 excerpt, cd_confidence = confidence\<rparr>]\<rparr>"

definition skill_separators :: "int list" where
  "skill_separators = [12289, 44, 65292, 59, 65307, 32]"

definition skill_items :: "str \<Rightarrow> str list" where
  "skill_items l =
     (case find (\<lambda>sep. sep \<in> set l) skill_separators of
        Some sep \<Rightarrow> filter (\<lambda>p. p \<noteq> []) (map strip (split_on sep l))
      | None \<Rightarrow> [strip l])"

definition flush_section :: "parse_state \<Rightarrow> parse_state" where
  "flush_section ps =
     (case ps_section ps of
        None \<Rightarrow> ps
      | Some section \<Rightarrow>
          if ps_lines ps = [] then ps
          else (if section = lit ''skills''
                then add_candidate (lit ''skills'') (Texts (dedup (concat (map skill_items (ps_lines ps)))))
                       (join (lit '' '') (ps_lines ps)) 85 ps
                else let cleaned = filter (\<lambda>l. l \<noteq> []) (map strip (ps_lines ps))
                     in add_candidate section (Texts cleaned) (join (lit '' '') cleaned) 80 ps)\<lparr>ps_lines := []\<rparr>)"

definition add_match :: "string \<Rightarrow> str option \<Rightarrow> parse_state \<Rightarrow> parse_state" where
  "add_match path m ps = (case m of None \<Rightarrow> ps | Some t \<Rightarrow> add_candidate (lit path) (OneText t) t 90 ps)"

definition parse_line :: "str \<Rightarrow> parse_state \<Rightarrow> parse_state" where
  "parse_line line ps =
     (let l = strip line in
      if l = [] then ps
      else case map_of section_aliases (heading_key l) of
          Some section \<Rightarrow> (flush_section ps)\<lparr>ps_section := Some section\<rparr>
        | None \<Rightarrow>
            if \<not> ps_name ps \<and> ps_section ps = None \<and> length l \<le> 120 then
              (add_candidate (lit ''basics.name'') (OneText l) l 65 ps)\<lparr>ps_name := True\<rparr>
            else
              let mail = (if ps_mail ps then None else search mail_here l);
                  phone = (if ps_phone ps then None else search phone_here l);
                  ps1 = add_match ''basics.phone'' phone (add_match ''basics.email'' mail ps);
                  ps2 = ps1\<lparr>ps_mail := ps_mail ps \<or> mail \<noteq> None, ps_phone := ps_phone ps \<or> phone \<noteq> None,
                    ps_links := fold (\<lambda>u us. if u \<in> set us then us else us @ [u]) (find_links l) (ps_links ps)\<rparr>
              in if ps_section ps = None then ps2 else ps2\<lparr>ps_lines := ps_lines ps2 @ [l]\<rparr>)"

definition extract_evidence_candidates :: "str \<Rightarrow> candidate list" where
  "extract_evidence_candidates text =
     (let ps = flush_section (fold parse_line (splitlines text)
            \<lparr>ps_found = [], ps_section = None, ps_lines = [], ps_name = False, ps_mail = False,
             ps_phone = False, ps_links = []\<rparr>)
      in ps_found (if ps_links ps = [] then ps
                   else add_candidate (lit ''portfolio_links'') (Texts (ps_links ps)) (join (lit '' '') (ps_links ps)) 80 ps))"

subsection \<open>What the candidates are\<close>

text \<open>The constraints of the table a candidate is stored in.\<close>

definition candidate_ok :: "candidate \<Rightarrow> bool" where
  "candidate_ok c \<longleftrightarrow> cd_path c \<in> set standard_field_paths \<and> length (cd_excerpt c) \<le> 500
     \<and> 0 \<le> cd_confidence c \<and> cd_confidence c \<le> 100"

definition parse_ok :: "parse_state \<Rightarrow> bool" where
  "parse_ok ps \<longleftrightarrow> list_all candidate_ok (ps_found ps)
     \<and> (case ps_section ps of None \<Rightarrow> True | Some s \<Rightarrow> s \<in> set standard_field_paths)"

lemma add_candidate_ok:
  "parse_ok ps \<Longrightarrow> path \<in> set standard_field_paths \<Longrightarrow> 0 \<le> n \<Longrightarrow> n \<le> 100 \<Longrightarrow> parse_ok (add_candidate path v e n ps)"
  by (simp add: parse_ok_def add_candidate_def candidate_ok_def)

lemma parse_ok_frame [simp]:
  "parse_ok (ps\<lparr>ps_lines := ls\<rparr>) = parse_ok ps" "parse_ok (ps\<lparr>ps_name := b\<rparr>) = parse_ok ps"
  "parse_ok (ps\<lparr>ps_mail := b\<rparr>) = parse_ok ps" "parse_ok (ps\<lparr>ps_phone := b\<rparr>) = parse_ok ps"
  "parse_ok (ps\<lparr>ps_links := us\<rparr>) = parse_ok ps"
  by (simp_all add: parse_ok_def)

lemma aliases_standard: "\<forall>s \<in> snd ` set section_aliases. s \<in> set standard_field_paths"
  by (simp add: section_aliases_def standard_field_paths_def)

lemma standard_literals:
  "lit ''skills'' \<in> set standard_field_paths" "lit ''basics.name'' \<in> set standard_field_paths"
  "lit ''basics.email'' \<in> set standard_field_paths" "lit ''basics.phone'' \<in> set standard_field_paths"
  "lit ''portfolio_links'' \<in> set standard_field_paths"
  by (simp_all add: standard_field_paths_def)

lemma flush_section_ok: "parse_ok ps \<Longrightarrow> parse_ok (flush_section ps)"
  using standard_literals(1)
  by (cases "ps_section ps") (auto simp: flush_section_def Let_def parse_ok_def add_candidate_def candidate_ok_def)

lemma parse_line_ok:
  assumes "parse_ok ps"
  shows "parse_ok (parse_line line ps)"
proof (cases "map_of section_aliases (heading_key (strip line))")
  case None
  have "parse_ok (add_match p m ps')" if "parse_ok ps'" "lit p \<in> set standard_field_paths" for p m ps'
    using that by (auto simp: add_match_def intro: add_candidate_ok split: option.split)
  then show ?thesis
    using assms None standard_literals by (simp add: parse_line_def Let_def add_candidate_ok)
next
  case (Some s)
  then have "s \<in> set standard_field_paths" using aliases_standard by (force dest: map_of_SomeD)
  then show ?thesis
    using assms Some flush_section_ok [OF assms] by (simp add: parse_line_def Let_def) (simp add: parse_ok_def)
qed

lemma candidates_ok: "list_all candidate_ok (extract_evidence_candidates text)"
proof -
  define ps0 where "ps0 = \<lparr>ps_found = [], ps_section = None, ps_lines = [], ps_name = False, ps_mail = False,
    ps_phone = False, ps_links = []\<rparr>"
  have "parse_ok (fold parse_line ls ps)" if "parse_ok ps" for ls ps
    using that by (induction ls arbitrary: ps) (simp_all add: parse_line_ok)
  then have "parse_ok (flush_section (fold parse_line (splitlines text) ps0))"
    by (intro flush_section_ok) (simp add: ps0_def parse_ok_def)
  then have "parse_ok (let ps = flush_section (fold parse_line (splitlines text) ps0)
      in if ps_links ps = [] then ps
         else add_candidate (lit ''portfolio_links'') (Texts (ps_links ps)) (join (lit '' '') (ps_links ps)) 80 ps)"
    by (simp add: Let_def add_candidate_ok standard_literals)
  then show ?thesis
    by (simp add: extract_evidence_candidates_def Let_def parse_ok_def flip: ps0_def)
qed

end
