(* ===== verification/ProfileStore.thy ===== *)
theory ProfileStore
  imports ResumeParser
begin

section \<open>The stores of profiles\<close>

text \<open>
  \<open>backend/app/repositories/profiles.py\<close> over its six tables of \<open>backend/app/db/models.py\<close>, and the
  encrypted object store of \<open>backend/app/services/storage.py\<close>. Tables are lists of rows in insertion
  order, which is also the order of a query that asks for none; ids come from a counter that stands for
  \<open>uuid4\<close>. The AEAD cipher and the bucket are third-party code: the cipher is an argument, and a
  bucket that refuses a call is the argument \<open>up\<close>.
\<close>

subsection \<open>The encrypted object store\<close>

text \<open>\<open>ci_encrypt nonce plaintext aad\<close>; \<open>None\<close> is \<open>InvalidTag\<close>.\<close>

record cipher =
  ci_encrypt :: "int list \<Rightarrow> int list \<Rightarrow> int list \<Rightarrow> int list"
  ci_decrypt :: "int list \<Rightarrow> int list \<Rightarrow> int list \<Rightarrow> int list option"

record blob =
  bl_body :: "int list"
  bl_type :: str
  bl_encryption :: str

type_synonym blobs = "str \<rightharpoonup> blob"

definition encryption_version :: str where
  "encryption_version = lit ''v1-aes-256-gcm''"

definition nonce_size :: nat where
  "nonce_size = 12"

text \<open>\<open>None\<close> is the exception of the bucket.\<close>

definition put_object ::
  "cipher \<Rightarrow> bool \<Rightarrow> int list \<Rightarrow> str \<Rightarrow> int list \<Rightarrow> str \<Rightarrow> blobs \<Rightarrow> blobs option" where
  "put_object ci up nonce key plaintext content_type blobs =
     (if up then Some (blobs(key \<mapsto> \<lparr>bl_body = nonce @ ci_encrypt ci nonce plaintext (utf8 key),
          bl_type = content_type, bl_encryption = encryption_version\<rparr>))
      else None)"

definition get_object :: "cipher \<Rightarrow> bool \<Rightarrow> str \<Rightarrow> blobs \<Rightarrow> int list option" where
  "get_object ci up key blobs =
     (case (if up then blobs key else None) of
        None \<Rightarrow> None
      | Some b \<Rightarrow>
          if length (take nonce_size (bl_body b)) \<noteq> nonce_size then None
          else ci_decrypt ci (take nonce_size (bl_body b)) (drop nonce_size (bl_body b)) (utf8 key))"

text \<open>\<open>purge_object\<close> never raises; an object that is not there counts as deleted.\<close>

definition delete_object :: "bool \<Rightarrow> str \<Rightarrow> blobs \<Rightarrow> blobs" where
  "delete_object up key blobs = (if up then blobs(key := None) else blobs)"

definition inspect_object :: "bool \<Rightarrow> str \<Rightarrow> blobs \<Rightarrow> (str \<times> str) option" where
  "inspect_object up key blobs =
     (case (if up then blobs key else None) of
        None \<Rightarrow> None
      | Some b \<Rightarrow> if bl_encryption b \<noteq> encryption_version then None else Some (bl_type b, bl_encryption b))"

subsection \<open>The tables\<close>

record profile_row =
  pf_id :: str
  pf_user :: str
  pf_version :: int
  pf_refs :: dict
  pf_active :: "str option"

record asset_row =
  as_id :: str
  as_profile :: str
  as_key :: str
  as_filename :: str
  as_type :: str
  as_size :: int
  as_sha :: str
  as_encryption :: str
  as_status :: asset_status
  as_error :: "str option"

record import_row =
  im_id :: str
  im_profile :: str
  im_asset :: str
  im_parser :: str
  im_status :: import_status
  im_error :: "str option"
  im_started :: "int option"
  im_finished :: "int option"

record evidence_row =
  pe_id :: str
  pe_profile :: str
  pe_import :: str
  pe_path :: str
  pe_value :: fact_value
  pe_excerpt :: str
  pe_confidence :: int
  pe_sequence :: int
  pe_created :: int

text \<open>\<open>JNull\<close> is \<open>None\<close>.\<close>

record decision_row =
  pd_id :: str
  pd_profile :: str
  pd_evidence :: str
  pd_actor :: str
  pd_action :: decision_action
  pd_value :: json
  pd_created :: int

record version_row =
  cv_id :: str
  cv_profile :: str
  cv_number :: int
  cv_aggregate :: int
  cv_facts :: dict
  cv_evidence :: dict
  cv_refs :: dict
  cv_created :: int

record profile_db =
  pb_profiles :: "profile_row list"
  pb_assets :: "asset_row list"
  pb_imports :: "import_row list"
  pb_evidence :: "evidence_row list"
  pb_decisions :: "decision_row list"
  pb_versions :: "version_row list"
  pb_next :: nat
  pb_now :: int

definition new_id :: "profile_db \<Rightarrow> str" where
  "new_id db = nat_digits (pb_next db)"

subsection \<open>Profiles\<close>

definition get_profile_by_user :: "profile_db \<Rightarrow> str \<Rightarrow> profile_row option" where
  "get_profile_by_user db user = find (\<lambda>p. pf_user p = user) (pb_profiles db)"

definition ensure_profile :: "str \<Rightarrow> profile_db \<Rightarrow> profile_row \<times> profile_db" where
  "ensure_profile user db =
     (case get_profile_by_user db user of
        Some p \<Rightarrow> (p, db)
      | None \<Rightarrow>
          let p = \<lparr>pf_id = new_id db, pf_user = user, pf_version = 0, pf_refs = [], pf_active = None\<rparr>
          in (p, db\<lparr>pb_profiles := pb_profiles db @ [p], pb_next := Suc (pb_next db)\<rparr>))"

text \<open>The same with a row lock.\<close>

definition get_profile_for_update :: "str \<Rightarrow> profile_db \<Rightarrow> profile_row \<times> profile_db" where
  "get_profile_for_update user db = ensure_profile user db"

definition update_profile :: "str \<Rightarrow> (profile_row \<Rightarrow> profile_row) \<Rightarrow> profile_db \<Rightarrow> profile_db" where
  "update_profile pid f db =
     db\<lparr>pb_profiles := map (\<lambda>p. if pf_id p = pid then f p else p) (pb_profiles db)\<rparr>"

definition set_active_version :: "str \<Rightarrow> str option \<Rightarrow> profile_db \<Rightarrow> profile_db" where
  "set_active_version pid version db = update_profile pid (\<lambda>p. p\<lparr>pf_active := version\<rparr>) db"

definition update_profile_version :: "str \<Rightarrow> profile_db \<Rightarrow> profile_db" where
  "update_profile_version pid db = update_profile pid (\<lambda>p. p\<lparr>pf_version := pf_version p + 1\<rparr>) db"

text \<open>The join with the owner's profile.\<close>

definition owns :: "profile_db \<Rightarrow> str \<Rightarrow> str \<Rightarrow> bool" where
  "owns db user pid \<longleftrightarrow> (\<exists>p \<in> set (pb_profiles db). pf_id p = pid \<and> pf_user p = user)"

subsection \<open>Assets and imports\<close>

definition get_owned_asset :: "profile_db \<Rightarrow> str \<Rightarrow> str \<Rightarrow> asset_row option" where
  "get_owned_asset db user asset = find (\<lambda>a. as_id a = asset \<and> owns db user (as_profile a)) (pb_assets db)"

definition get_owned_import :: "profile_db \<Rightarrow> str \<Rightarrow> str \<Rightarrow> import_row option" where
  "get_owned_import db user imp = find (\<lambda>i. im_id i = imp \<and> owns db user (im_profile i)) (pb_imports db)"

definition get_owned_version :: "profile_db \<Rightarrow> str \<Rightarrow> str \<Rightarrow> version_row option" where
  "get_owned_version db user version =
     find (\<lambda>v. cv_id v = version \<and> owns db user (cv_profile v)) (pb_versions db)"

definition update_asset :: "str \<Rightarrow> (asset_row \<Rightarrow> asset_row) \<Rightarrow> profile_db \<Rightarrow> profile_db" where
  "update_asset asset f db = db\<lparr>pb_assets := map (\<lambda>a. if as_id a = asset then f a else a) (pb_assets db)\<rparr>"

definition list_imports_for_asset :: "profile_db \<Rightarrow> str \<Rightarrow> import_row list" where
  "list_imports_for_asset db asset = filter (\<lambda>i. im_asset i = asset) (pb_imports db)"

definition delete_asset_rows :: "str \<Rightarrow> profile_db \<Rightarrow> profile_db" where
  "delete_asset_rows asset db =
     (let imports = im_id ` set (list_imports_for_asset db asset);
          evidence = pe_id ` set (filter (\<lambda>e. pe_import e \<in> imports) (pb_evidence db))
      in db\<lparr>pb_decisions := filter (\<lambda>d. pd_evidence d \<notin> evidence) (pb_decisions db),
            pb_evidence := filter (\<lambda>e. pe_import e \<notin> imports) (pb_evidence db),
            pb_imports := filter (\<lambda>i. im_asset i \<noteq> asset) (pb_imports db),
            pb_assets := filter (\<lambda>a. as_id a \<noteq> asset) (pb_assets db)\<rparr>)"

definition create_import :: "asset_row \<Rightarrow> str \<Rightarrow> profile_db \<Rightarrow> import_row \<times> profile_db" where
  "create_import a parser db =
     (let i = \<lparr>im_id = new_id db, im_profile = as_profile a, im_asset = as_id a, im_parser = parser,
               im_status = ImportPending, im_error = None, im_started = None, im_finished = None\<rparr>
      in (i, db\<lparr>pb_imports := pb_imports db @ [i], pb_next := Suc (pb_next db)\<rparr>))"

definition update_import_status :: "str \<Rightarrow> import_status \<Rightarrow> str option \<Rightarrow> profile_db \<Rightarrow> profile_db" where
  "update_import_status imp status error db =
     db\<lparr>pb_imports := map (\<lambda>i. if im_id i = imp
          then i\<lparr>im_status := status, im_error := error,
            im_started := (if status = Parsing \<and> im_started i = None then Some (pb_now db) else im_started i),
            im_finished := (if status \<in> {AwaitingConfirmation, NeedsManualEntry, ImportFailed}
                            then Some (pb_now db) else im_finished i)\<rparr>
          else i) (pb_imports db)\<rparr>"

subsection \<open>Evidence and decisions\<close>

fun append_evidence_from :: "int \<Rightarrow> str \<Rightarrow> str \<Rightarrow> candidate list \<Rightarrow> profile_db \<Rightarrow> profile_db" where
  "append_evidence_from n pid imp [] db = db"
| "append_evidence_from n pid imp (c # cs) db =
     append_evidence_from (n + 1) pid imp cs
       (db\<lparr>pb_evidence := pb_evidence db @ [\<lparr>pe_id = new_id db, pe_profile = pid, pe_import = imp,
            pe_path = cd_path c, pe_value = cd_value c, pe_excerpt = cd_excerpt c,
            pe_confidence = cd_confidence c, pe_sequence = n, pe_created = pb_now db\<rparr>],
          pb_next := Suc (pb_next db)\<rparr>)"

definition append_evidence :: "str \<Rightarrow> str \<Rightarrow> candidate list \<Rightarrow> profile_db \<Rightarrow> profile_db" where
  "append_evidence pid imp cs db = append_evidence_from 1 pid imp cs db"

definition list_import_evidence :: "profile_db \<Rightarrow> str \<Rightarrow> evidence_row list" where
  "list_import_evidence db imp = sort_key pe_sequence (filter (\<lambda>e. pe_import e = imp) (pb_evidence db))"

definition get_profile_evidence_by_id :: "profile_db \<Rightarrow> str \<Rightarrow> str \<Rightarrow> evidence_row option" where
  "get_profile_evidence_by_id db pid evidence =
     find (\<lambda>e. pe_profile e = pid \<and> pe_id e = evidence) (pb_evidence db)"

text \<open>
  The row of the newest decision of each evidence: the subquery groups the profile's decisions by
  evidence; the dictionary keeps the last of rows with the same time.
\<close>

definition latest_decision :: "profile_db \<Rightarrow> str \<Rightarrow> str \<Rightarrow> decision_row option" where
  "latest_decision db pid evidence =
     (case map pd_created (filter (\<lambda>d. pd_profile d = pid \<and> pd_evidence d = evidence) (pb_decisions db)) of
        [] \<Rightarrow> None
      | t # ts \<Rightarrow> find (\<lambda>d. pd_evidence d = evidence \<and> pd_created d = fold max ts t) (rev (pb_decisions db)))"

definition append_decision ::
  "str \<Rightarrow> str \<Rightarrow> str \<Rightarrow> decision_action \<Rightarrow> json \<Rightarrow> profile_db \<Rightarrow> profile_db" where
  "append_decision pid evidence actor action v db =
     db\<lparr>pb_decisions := pb_decisions db @ [\<lparr>pd_id = new_id db, pd_profile = pid, pd_evidence = evidence,
          pd_actor = actor, pd_action = action, pd_value = v, pd_created = pb_now db\<rparr>],
        pb_next := Suc (pb_next db)\<rparr>"

subsection \<open>Confirmed versions\<close>

definition next_confirmed_version_number :: "profile_db \<Rightarrow> str \<Rightarrow> int" where
  "next_confirmed_version_number db pid =
     (case map cv_number (filter (\<lambda>v. cv_profile v = pid) (pb_versions db)) of
        [] \<Rightarrow> 1 | n # ns \<Rightarrow> fold max ns n + 1)"

definition create_version ::
  "str \<Rightarrow> int \<Rightarrow> int \<Rightarrow> dict \<Rightarrow> dict \<Rightarrow> dict \<Rightarrow> profile_db \<Rightarrow> version_row \<times> profile_db" where
  "create_version pid number aggregate facts evidence refs db =
     (let v = \<lparr>cv_id = new_id db, cv_profile = pid, cv_number = number, cv_aggregate = aggregate,
               cv_facts = facts, cv_evidence = evidence, cv_refs = refs, cv_created = pb_now db\<rparr>
      in (v, db\<lparr>pb_versions := pb_versions db @ [v], pb_next := Suc (pb_next db)\<rparr>))"

definition list_versions :: "profile_db \<Rightarrow> str \<Rightarrow> version_row list" where
  "list_versions db user = rev (sort_key cv_created (filter (\<lambda>v. owns db user (cv_profile v)) (pb_versions db)))"

subsection \<open>Differences to the confirmed facts\<close>

text \<open>Values count as different when the hashes of their texts are; \<open>hash\<close> is an argument, since
  Python's is seeded anew in every process.\<close>

definition path_hashes :: "(str \<Rightarrow> int) \<Rightarrow> evidence_row list \<Rightarrow> str \<Rightarrow> int set" where
  "path_hashes hash rows path =
     (\<lambda>e. hash (py_str (fact_json (pe_value e)))) ` set (filter (\<lambda>e. pe_path e = path) rows)"

definition diff_of :: "(str \<Rightarrow> int) \<Rightarrow> evidence_row list \<Rightarrow> dict \<Rightarrow> evidence_row \<Rightarrow> diff_action" where
  "diff_of hash rows latest e =
     (if 1 < card (path_hashes hash rows (pe_path e)) then DiffConflict
      else if \<not> dhas latest (pe_path e) then DiffAdd
      else if fact_json (pe_value e) = dget latest (pe_path e) then DiffUnchanged
      else DiffReplace)"

fun diff_rows ::
  "(str \<Rightarrow> int) \<Rightarrow> evidence_row list \<Rightarrow> dict \<Rightarrow> evidence_row list \<Rightarrow> (str \<times> diff_action) list \<Rightarrow> (str \<times> diff_action) list" where
  "diff_rows hash rows latest [] diff = diff"
| "diff_rows hash rows latest (e # es) diff =
     diff_rows hash rows latest es
       (if pe_path e \<in> fst ` set diff then diff else diff @ [(pe_path e, diff_of hash rows latest e)])"

definition compute_evidence_diff ::
  "(str \<Rightarrow> int) \<Rightarrow> evidence_row list \<Rightarrow> dict option \<Rightarrow> (str \<times> diff_action) list" where
  "compute_evidence_diff hash rows latest =
     diff_rows hash rows (case latest of None \<Rightarrow> [] | Some d \<Rightarrow> d) rows []"

end
