(* ===== verification/ProfileService.thy ===== *)
theory ProfileService
  imports ProfileStore
begin

section \<open>The profile services and their routes\<close>

text \<open>
  \<open>ResumeAssetService\<close>, \<open>ResumeImportService\<close> and \<open>ProfileService\<close> of
  \<open>backend/app/services/profiles.py\<close>, and the handlers of \<open>backend/app/api/routes/profiles.py\<close> that
  change state. A service returns its exception or its value with the tables as it leaves them; a
  handler commits or rolls back. Request ids are not checked for their length of 36, since ids are
  numbers here.
\<close>

datatype profile_error = UnsupportedType | InvalidOperation | TooLarge | StaleVersion | ResourceNotFound
  | AssetConflict | StoreUnavailable | BadReference

type_synonym 'a service = "(profile_error + 'a) \<times> profile_db"

text \<open>The arguments: the cipher, the reader of PDF and DOCX, and \<open>isoformat\<close>.\<close>

record profile_env =
  ve_cipher :: cipher
  ve_reader :: "str \<Rightarrow> int list \<Rightarrow> str option"
  ve_stamp :: "int \<Rightarrow> str"

subsection \<open>Assets\<close>

definition max_resume_bytes :: nat where
  "max_resume_bytes = 10 * 1024 * 1024"

definition allowed_content_types :: "(str \<times> str list) list" where
  "allowed_content_types =
     [(lit ''.txt'', [lit ''text/plain'']), (lit ''.md'', [lit ''text/markdown'', lit ''text/plain'']),
      (lit ''.pdf'', [lit ''application/pdf'']),
      (lit ''.docx'', [lit ''application/vnd.openxmlformats-officedocument.wordprocessingml.document''])]"

definition object_key :: "str \<Rightarrow> str \<Rightarrow> str" where
  "object_key user asset = lit ''users/'' @ user @ lit ''/resume-assets/'' @ asset"

definition create_pending_asset :: "str \<Rightarrow> str \<Rightarrow> str \<Rightarrow> int list \<Rightarrow> profile_db \<Rightarrow> asset_row service" where
  "create_pending_asset user filename content_type raw db =
     (case map_of allowed_content_types (file_suffix filename) of
        None \<Rightarrow> (Inl UnsupportedType, db)
      | Some types \<Rightarrow>
          if content_type \<notin> set types then (Inl InvalidOperation, db)
          else if max_resume_bytes < length raw then (Inl TooLarge, db)
          else let (p, db1) = ensure_profile user db; i = new_id db1;
                   a = \<lparr>as_id = i, as_profile = pf_id p, as_key = object_key user i, as_filename = filename,
                        as_type = content_type, as_size = int (length raw), as_sha = sha256_bytes raw,
                        as_encryption = encryption_version, as_status = PendingUpload, as_error = None\<rparr>
               in (Inr a, db1\<lparr>pb_assets := pb_assets db1 @ [a], pb_next := Suc (pb_next db1)\<rparr>))"

definition mark_ready :: "str \<Rightarrow> profile_db \<Rightarrow> profile_db" where
  "mark_ready asset db = update_asset asset (\<lambda>a. a\<lparr>as_status := AssetReady, as_error := None\<rparr>) db"

definition mark_upload_failed :: "str \<Rightarrow> str \<Rightarrow> profile_db \<Rightarrow> profile_db" where
  "mark_upload_failed asset code db =
     update_asset asset (\<lambda>a. a\<lparr>as_status := UploadFailed, as_error := Some code\<rparr>) db"

definition reconcile :: "bool \<Rightarrow> blobs \<Rightarrow> str \<Rightarrow> str \<Rightarrow> profile_db \<Rightarrow> unit service" where
  "reconcile up blobs user asset db =
     (case get_owned_asset db user asset of
        None \<Rightarrow> (Inl ResourceNotFound, db)
      | Some a \<Rightarrow>
          if as_status a = AssetReady then (Inr (), db)
          else (case inspect_object up (as_key a) blobs of
              None \<Rightarrow> (Inl AssetConflict, db)
            | Some (content_type, encryption) \<Rightarrow>
                if encryption = encryption_version \<and> content_type = as_type a
                then (Inr (), mark_ready (as_id a) db) else (Inl AssetConflict, db)))"

definition delete_asset :: "str \<Rightarrow> str \<Rightarrow> profile_db \<Rightarrow> str service" where
  "delete_asset user asset db =
     (case get_owned_asset db user asset of
        None \<Rightarrow> (Inl ResourceNotFound, db)
      | Some a \<Rightarrow>
          let (p, db1) = get_profile_for_update user db
          in (Inr (as_key a), update_profile_version (pf_id p) (delete_asset_rows (as_id a) db1)))"

subsection \<open>Imports\<close>

definition parser_version :: str where
  "parser_version = lit ''profile-parser-v1''"

definition start_import :: "str \<Rightarrow> str \<Rightarrow> profile_db \<Rightarrow> import_row service" where
  "start_import user asset db =
     (case get_owned_asset db user asset of
        None \<Rightarrow> (Inl ResourceNotFound, db)
      | Some a \<Rightarrow>
          if as_status a \<noteq> AssetReady then (Inl AssetConflict, db)
          else let (i, db') = create_import a parser_version db in (Inr i, db'))"

definition process_import :: "profile_env \<Rightarrow> bool \<Rightarrow> blobs \<Rightarrow> str \<Rightarrow> str \<Rightarrow> profile_db \<Rightarrow> unit service" where
  "process_import ve up blobs user imp db =
     (case get_owned_import db user imp of
        None \<Rightarrow> (Inl ResourceNotFound, db)
      | Some i \<Rightarrow>
          let db1 = update_import_status imp Parsing None db;
              fails = (\<lambda>code. (Inr (), update_import_status imp ImportFailed (Some (lit code)) db1))
          in case find (\<lambda>a. as_id a = im_asset i) (pb_assets db1) of
               None \<Rightarrow> fails ''resume_asset_read_failed''
             | Some a \<Rightarrow>
                 (case get_object (ve_cipher ve) up (as_key a) blobs of
                    None \<Rightarrow> fails ''resume_asset_read_failed''
                  | Some raw \<Rightarrow>
                      (case extract_resume_document (ve_reader ve) (as_filename a) raw of
                         None \<Rightarrow> fails ''unsupported_resume_type''
                       | Some doc \<Rightarrow>
                           if pt_manual doc then
                             (Inr (), update_import_status imp NeedsManualEntry (pt_error doc) db1)
                           else (Inr (), update_import_status imp AwaitingConfirmation None
                             (append_evidence (im_profile i) imp (extract_evidence_candidates (pt_text doc)) db1)))))"

subsection \<open>Decisions and confirmed versions\<close>

text \<open>\<open>JNull\<close> stands for no corrected value.\<close>

record decision_input =
  di_evidence :: str
  di_action :: decision_action
  di_value :: json

fun decide_each :: "str \<Rightarrow> str \<Rightarrow> decision_input list \<Rightarrow> profile_db \<Rightarrow> unit service" where
  "decide_each user pid [] db = (Inr (), db)"
| "decide_each user pid (d # ds) db =
     (if (di_action d = CorrectFact) = (di_value d = JNull) then (Inl InvalidOperation, db)
      else case get_profile_evidence_by_id db pid (di_evidence d) of
          None \<Rightarrow> (Inl ResourceNotFound, db)
        | Some e \<Rightarrow>
            decide_each user pid ds
              (append_decision pid (di_evidence d) user (di_action d)
                 (if di_action d = CorrectFact then di_value d else JNull) db))"

definition apply_decisions :: "str \<Rightarrow> int \<Rightarrow> decision_input list \<Rightarrow> profile_db \<Rightarrow> int service" where
  "apply_decisions user expected ds db =
     (let (p, db1) = get_profile_for_update user db in
      if pf_version p \<noteq> expected then (Inl StaleVersion, db1)
      else case decide_each user (pf_id p) ds db1 of
          (Inl e, db2) \<Rightarrow> (Inl e, db2)
        | (Inr _, db2) \<Rightarrow> (Inr (pf_version p + 1), update_profile_version (pf_id p) db2))"

text \<open>The value a decision gives to the fact; \<open>None\<close> when it is ignored.\<close>

definition decided_value :: "decision_row \<Rightarrow> evidence_row \<Rightarrow> json option" where
  "decided_value d e =
     (case pd_action d of
        IgnoreFact \<Rightarrow> None
      | CorrectFact \<Rightarrow> Some (pd_value d)
      | ConfirmFact \<Rightarrow> Some (fact_json (pe_value e)))"

definition confirm_evidence :: "profile_db \<Rightarrow> str \<Rightarrow> evidence_row \<Rightarrow> dict \<times> dict \<Rightarrow> dict \<times> dict" where
  "confirm_evidence db pid e acc =
     (case latest_decision db pid (pe_id e) of
        None \<Rightarrow> acc
      | Some d \<Rightarrow>
          (case decided_value d e of
             None \<Rightarrow> acc
           | Some v \<Rightarrow> (dput (pe_path e) v (fst acc),
               dput (pe_id e) (JObj [(lit ''action'', JStr (action_value (pd_action d))),
                 (lit ''field_path'', JStr (pe_path e))]) (snd acc))))"

definition create_confirmed_version :: "str \<Rightarrow> int \<Rightarrow> str \<Rightarrow> profile_db \<Rightarrow> version_row service" where
  "create_confirmed_version user expected imp db =
     (case get_owned_import db user imp of
        None \<Rightarrow> (Inl ResourceNotFound, db)
      | Some i \<Rightarrow>
          let rows = list_import_evidence db imp; (p, db1) = get_profile_for_update user db in
          if pf_version p \<noteq> expected then (Inl StaleVersion, db1)
          else if \<exists>e \<in> set rows. latest_decision db1 (pf_id p) (pe_id e) = None then (Inl InvalidOperation, db1)
          else let (facts, refs) = fold (confirm_evidence db1 (pf_id p)) rows ([], []);
                   (v, db2) = create_version (pf_id p) (next_confirmed_version_number db1 (pf_id p))
                     (pf_version p + 1) facts refs (pf_refs p) db1
               in (Inr v, update_profile_version (pf_id p) (set_active_version (pf_id p) (Some (cv_id v)) db2)))"

definition activate_version :: "str \<Rightarrow> str \<Rightarrow> profile_db \<Rightarrow> str service" where
  "activate_version user version db =
     (case get_owned_version db user version of
        None \<Rightarrow> (Inl ResourceNotFound, db)
      | Some v \<Rightarrow>
          let (p, db1) = get_profile_for_update user db
          in (Inr version, set_active_version (pf_id p) (Some version) db1))"

definition update_local_sensitive_reference ::
  "profile_env \<Rightarrow> str \<Rightarrow> int \<Rightarrow> str \<Rightarrow> str \<Rightarrow> profile_db \<Rightarrow> int service" where
  "update_local_sensitive_reference ve user expected category reference db =
     (if \<not> validate_local_sensitive_reference category reference then (Inl BadReference, db)
      else let (p, db1) = get_profile_for_update user db in
        if pf_version p \<noteq> expected then (Inl StaleVersion, db1)
        else let entry = JObj [(lit ''reference'', JStr reference), (lit ''updated_at'', JStr (ve_stamp ve (pb_now db1)))]
          in (Inr (pf_version p + 1), update_profile_version (pf_id p)
                (update_profile (pf_id p) (\<lambda>q. q\<lparr>pf_refs := dput category entry (pf_refs q)\<rparr>) db1)))"

subsection \<open>The handlers\<close>

text \<open>\<open>_profile_http_error\<close>\<close>

definition http_code :: "profile_error \<Rightarrow> int" where
  "http_code e = (case e of ResourceNotFound \<Rightarrow> 404 | StaleVersion \<Rightarrow> 409 | AssetConflict \<Rightarrow> 409
     | StoreUnavailable \<Rightarrow> 503 | _ \<Rightarrow> 422)"

text \<open>Commit the value; roll back on an exception, which is a 500 when the handler does not catch it.\<close>

definition handled :: "profile_error set \<Rightarrow> int \<Rightarrow> profile_db \<Rightarrow> 'a service \<Rightarrow> int \<times> profile_db" where
  "handled catches code db out =
     (case out of (Inr _, db') \<Rightarrow> (code, db') | (Inl e, _) \<Rightarrow> (if e \<in> catches then http_code e else 500, db))"

record web =
  we_db :: profile_db
  we_blobs :: blobs

datatype profile_request =
    UploadAsset str str "int list" "int list"
  | ReconcileAsset str
  | DeleteAsset str
  | ImportAsset str
  | DecideEvidence int "decision_input list"
  | UpdateReference int str str
  | ConfirmVersion int str
  | ActivateVersion str

definition upload_resume_asset ::
  "profile_env \<Rightarrow> bool \<Rightarrow> str \<Rightarrow> str \<Rightarrow> str \<Rightarrow> int list \<Rightarrow> int list \<Rightarrow> web \<Rightarrow> int \<times> web" where
  "upload_resume_asset ve up user filename content_type raw nonce w =
     (if max_resume_bytes < length raw then (http_code TooLarge, w)
      else case create_pending_asset user filename content_type raw (we_db w) of
          (Inl e, _) \<Rightarrow> (http_code e, w)
        | (Inr a, db) \<Rightarrow>
            (case put_object (ve_cipher ve) up nonce (as_key a) raw (as_type a) (we_blobs w) of
               None \<Rightarrow> (503, w\<lparr>we_db := mark_upload_failed (as_id a) (lit ''object_store_unavailable'') db\<rparr>)
             | Some blobs \<Rightarrow> (201, \<lparr>we_db = mark_ready (as_id a) db, we_blobs = blobs\<rparr>)))"

definition download_resume_asset :: "profile_env \<Rightarrow> bool \<Rightarrow> str \<Rightarrow> str \<Rightarrow> web \<Rightarrow> int + int list" where
  "download_resume_asset ve up user asset w =
     (case get_owned_asset (we_db w) user asset of
        None \<Rightarrow> Inl 404
      | Some a \<Rightarrow> (case get_object (ve_cipher ve) up (as_key a) (we_blobs w) of None \<Rightarrow> Inl 503 | Some raw \<Rightarrow> Inr raw))"

definition create_resume_import :: "profile_env \<Rightarrow> bool \<Rightarrow> str \<Rightarrow> str \<Rightarrow> web \<Rightarrow> int \<times> web" where
  "create_resume_import ve up user asset w =
     (let catches = {ResourceNotFound, AssetConflict} in
      case start_import user asset (we_db w) of
        (Inl e, _) \<Rightarrow> (http_code e, w)
      | (Inr i, db) \<Rightarrow>
          (let (code, db') = handled catches 201 db (process_import ve up (we_blobs w) user (im_id i) db)
           in (code, w\<lparr>we_db := db'\<rparr>)))"

text \<open>What a handler replies, and the tables it commits.\<close>

definition replied :: "web \<Rightarrow> int \<times> profile_db \<Rightarrow> int \<times> web" where
  "replied w out = (fst out, w\<lparr>we_db := snd out\<rparr>)"

definition reconcile_resume_asset :: "bool \<Rightarrow> str \<Rightarrow> str \<Rightarrow> web \<Rightarrow> int \<times> web" where
  "reconcile_resume_asset up user asset w =
     replied w (handled {ResourceNotFound, AssetConflict} 200 (we_db w) (reconcile up (we_blobs w) user asset (we_db w)))"

definition delete_resume_asset :: "bool \<Rightarrow> str \<Rightarrow> str \<Rightarrow> web \<Rightarrow> int \<times> web" where
  "delete_resume_asset up user asset w =
     (case delete_asset user asset (we_db w) of
        (Inl e, _) \<Rightarrow> (http_code e, w)
      | (Inr key, db) \<Rightarrow> (200, \<lparr>we_db = db, we_blobs = delete_object up key (we_blobs w)\<rparr>))"

definition apply_evidence_decisions :: "str \<Rightarrow> int \<Rightarrow> decision_input list \<Rightarrow> web \<Rightarrow> int \<times> web" where
  "apply_evidence_decisions user expected ds w =
     (if expected < 0 \<or> ds = [] \<or> 200 < length ds then (422, w)
      else replied w (handled {StaleVersion, ResourceNotFound} 200 (we_db w) (apply_decisions user expected ds (we_db w))))"

definition update_local_sensitive_references :: "profile_env \<Rightarrow> str \<Rightarrow> int \<Rightarrow> str \<Rightarrow> str \<Rightarrow> web \<Rightarrow> int \<times> web" where
  "update_local_sensitive_references ve user expected category reference w =
     (if expected < 0 \<or> \<not> validate_local_sensitive_reference category reference then (422, w)
      else replied w (handled {StaleVersion, BadReference} 200 (we_db w)
        (update_local_sensitive_reference ve user expected category reference (we_db w))))"

definition create_profile_version :: "str \<Rightarrow> int \<Rightarrow> str \<Rightarrow> web \<Rightarrow> int \<times> web" where
  "create_profile_version user expected imp w =
     (if expected < 0 then (422, w)
      else replied w (handled {StaleVersion, ResourceNotFound, InvalidOperation} 201 (we_db w)
        (create_confirmed_version user expected imp (we_db w))))"

definition activate_profile_version :: "str \<Rightarrow> str \<Rightarrow> web \<Rightarrow> int \<times> web" where
  "activate_profile_version user version w =
     replied w (handled {ResourceNotFound} 200 (we_db w) (activate_version user version (we_db w)))"

fun serve :: "profile_env \<Rightarrow> bool \<Rightarrow> str \<Rightarrow> profile_request \<Rightarrow> web \<Rightarrow> int \<times> web" where
  "serve ve up user (UploadAsset filename content_type raw nonce) w =
     upload_resume_asset ve up user filename content_type raw nonce w"
| "serve ve up user (ReconcileAsset asset) w = reconcile_resume_asset up user asset w"
| "serve ve up user (DeleteAsset asset) w = delete_resume_asset up user asset w"
| "serve ve up user (ImportAsset asset) w = create_resume_import ve up user asset w"
| "serve ve up user (DecideEvidence expected ds) w = apply_evidence_decisions user expected ds w"
| "serve ve up user (UpdateReference expected category reference) w =
     update_local_sensitive_references ve user expected category reference w"
| "serve ve up user (ConfirmVersion expected imp) w = create_profile_version user expected imp w"
| "serve ve up user (ActivateVersion version) w = activate_profile_version user version w"

lemmas serve_defs = replied_def reconcile_resume_asset_def delete_resume_asset_def apply_evidence_decisions_def
  update_local_sensitive_references_def create_profile_version_def activate_profile_version_def

text \<open>Time passes between requests; a clock does not go back.\<close>

inductive served :: "profile_env \<Rightarrow> web \<Rightarrow> web \<Rightarrow> bool" for ve where
  start: "served ve w w"
| request: "served ve w w' \<Longrightarrow> w'' = snd (serve ve up user req w') \<Longrightarrow> served ve w w''"
| time: "served ve w w' \<Longrightarrow> 0 \<le> t \<Longrightarrow> served ve w (w'\<lparr>we_db := (we_db w')\<lparr>pb_now := pb_now (we_db w') + t\<rparr>\<rparr>)"

definition empty_web :: web where
  "empty_web = \<lparr>we_db = \<lparr>pb_profiles = [], pb_assets = [], pb_imports = [], pb_evidence = [], pb_decisions = [],
     pb_versions = [], pb_next = 0, pb_now = 0\<rparr>, we_blobs = (\<lambda>_. None)\<rparr>"

end
