(* ===== verification/ProfileSafety.thy ===== *)
theory ProfileSafety
  imports ProfileService
begin

section \<open>What holds of the profile stores\<close>

subsection \<open>The invariant\<close>

text \<open>
  \<open>keys_ok\<close>: ids were given out once. \<open>links_ok\<close>: a row and the row it refers to belong to the same
  profile. \<open>versions_ok\<close>: the confirmed versions of a profile are numbered from 1, none was made at
  a later version of the profile than the present one, and the active one is its own.
  \<open>sequences_ok\<close>: the evidence of an import is numbered from 1.
\<close>

definition key_ok :: "profile_db \<Rightarrow> str \<Rightarrow> bool" where
  "key_ok db i \<longleftrightarrow> (\<exists>k < pb_next db. i = nat_digits k)"

definition table_ok :: "profile_db \<Rightarrow> ('r \<Rightarrow> str) \<Rightarrow> 'r list \<Rightarrow> bool" where
  "table_ok db k rows \<longleftrightarrow> distinct (map k rows) \<and> (\<forall>r \<in> set rows. key_ok db (k r))"

definition keys_ok :: "profile_db \<Rightarrow> bool" where
  "keys_ok db \<longleftrightarrow> table_ok db pf_id (pb_profiles db) \<and> distinct (map pf_user (pb_profiles db))
     \<and> table_ok db as_id (pb_assets db) \<and> table_ok db im_id (pb_imports db)
     \<and> table_ok db pe_id (pb_evidence db) \<and> table_ok db cv_id (pb_versions db)"

definition links_ok :: "profile_db \<Rightarrow> bool" where
  "links_ok db \<longleftrightarrow>
     as_profile ` set (pb_assets db) \<subseteq> pf_id ` set (pb_profiles db)
     \<and> (\<lambda>i. (im_asset i, im_profile i)) ` set (pb_imports db) \<subseteq> (\<lambda>a. (as_id a, as_profile a)) ` set (pb_assets db)
     \<and> (\<lambda>e. (pe_import e, pe_profile e)) ` set (pb_evidence db) \<subseteq> (\<lambda>i. (im_id i, im_profile i)) ` set (pb_imports db)
     \<and> (\<lambda>d. (pd_evidence d, pd_profile d)) ` set (pb_decisions db) \<subseteq> (\<lambda>e. (pe_id e, pe_profile e)) ` set (pb_evidence db)
     \<and> cv_profile ` set (pb_versions db) \<subseteq> pf_id ` set (pb_profiles db)"

definition versions_of :: "profile_db \<Rightarrow> str \<Rightarrow> version_row list" where
  "versions_of db pid = filter (\<lambda>v. cv_profile v = pid) (pb_versions db)"

definition versions_ok :: "profile_db \<Rightarrow> bool" where
  "versions_ok db \<longleftrightarrow> (\<forall>p \<in> set (pb_profiles db).
     map cv_number (versions_of db (pf_id p)) = [1..int (length (versions_of db (pf_id p)))]
     \<and> (\<forall>v \<in> set (versions_of db (pf_id p)). cv_aggregate v \<le> pf_version p)
     \<and> (\<forall>i. pf_active p = Some i \<longrightarrow> i \<in> cv_id ` set (versions_of db (pf_id p))))"

definition evidence_of :: "profile_db \<Rightarrow> str \<Rightarrow> evidence_row list" where
  "evidence_of db imp = filter (\<lambda>e. pe_import e = imp) (pb_evidence db)"

definition sequences_ok :: "profile_db \<Rightarrow> bool" where
  "sequences_ok db \<longleftrightarrow> (\<forall>i. map pe_sequence (evidence_of db i) = [1..int (length (evidence_of db i))])"

definition profiles_ok :: "profile_db \<Rightarrow> bool" where
  "profiles_ok db \<longleftrightarrow> keys_ok db \<and> links_ok db \<and> versions_ok db \<and> sequences_ok db"

subsection \<open>Keys and frames\<close>

lemma new_id_fresh: "\<not> key_ok db (new_id db)"
  by (simp add: key_ok_def new_id_def)

lemma key_ok_mono: "key_ok db i \<Longrightarrow> pb_next db \<le> pb_next d \<Longrightarrow> key_ok d i"
  by (auto simp: key_ok_def)

lemma key_ok_new: "pb_next d = Suc (pb_next db) \<Longrightarrow> key_ok d (new_id db)"
  by (auto simp: key_ok_def new_id_def)

lemma table_ok_mono: "table_ok db k rows \<Longrightarrow> pb_next db \<le> pb_next d \<Longrightarrow> table_ok d k rows"
  by (auto simp: table_ok_def intro: key_ok_mono)

lemma table_ok_snoc:
  assumes "table_ok db k rows" and "k r = new_id db" and "pb_next d = Suc (pb_next db)"
  shows "table_ok d k (rows @ [r])"
proof -
  have "k r \<notin> k ` set rows" using assms(1,2) new_id_fresh [of db] by (force simp: table_ok_def)
  then show ?thesis
    using assms key_ok_new [OF assms(3)] table_ok_mono [OF assms(1), of d] by (auto simp: table_ok_def)
qed

lemma table_ok_filter: "table_ok db k rows \<Longrightarrow> table_ok db k (filter P rows)"
  by (auto simp: table_ok_def distinct_map_filter)

lemma table_ok_map: "table_ok db k rows \<Longrightarrow> (\<And>r. k (f r) = k r) \<Longrightarrow> table_ok db k (map f rows)"
  by (auto simp: table_ok_def comp_def)

lemma table_ok_fresh: "table_ok db k rows \<Longrightarrow> new_id db \<notin> k ` set rows"
  using new_id_fresh [of db] by (force simp: table_ok_def)

lemma table_ok_unique: "table_ok db k rows \<Longrightarrow> r \<in> set rows \<Longrightarrow> q \<in> set rows \<Longrightarrow> k r = k q \<Longrightarrow> r = q"
  by (auto simp: table_ok_def distinct_map dest: inj_onD)

lemma table_ok_same: "pb_next d = pb_next db \<Longrightarrow> table_ok d k rows \<longleftrightarrow> table_ok db k rows"
  by (simp add: table_ok_def key_ok_def)

lemma versions_ok_frame:
  assumes "pb_profiles d = pb_profiles db" and "pb_versions d = pb_versions db"
  shows "versions_ok d \<longleftrightarrow> versions_ok db"
  by (simp add: versions_ok_def versions_of_def assms)

lemma sequences_ok_frame:
  assumes "pb_evidence d = pb_evidence db"
  shows "sequences_ok d \<longleftrightarrow> sequences_ok db"
  by (simp add: sequences_ok_def evidence_of_def assms)

lemma profiles_okD:
  assumes "profiles_ok db"
  shows "table_ok db pf_id (pb_profiles db)" "distinct (map pf_user (pb_profiles db))"
    "table_ok db as_id (pb_assets db)" "table_ok db im_id (pb_imports db)"
    "table_ok db pe_id (pb_evidence db)" "table_ok db cv_id (pb_versions db)"
    "links_ok db" "versions_ok db" "sequences_ok db"
  using assms by (simp_all add: profiles_ok_def keys_ok_def)

lemma profiles_okI:
  assumes "table_ok db pf_id (pb_profiles db)" "distinct (map pf_user (pb_profiles db))"
    "table_ok db as_id (pb_assets db)" "table_ok db im_id (pb_imports db)"
    "table_ok db pe_id (pb_evidence db)" "table_ok db cv_id (pb_versions db)"
    "links_ok db" "versions_ok db" "sequences_ok db"
  shows "profiles_ok db"
  using assms by (simp add: profiles_ok_def keys_ok_def)

lemma pair_image_subset:
  "(\<lambda>x. (f x, g x)) ` A \<subseteq> (\<lambda>y. (h y, k y)) ` B \<longleftrightarrow> (\<forall>x \<in> A. \<exists>y \<in> B. h y = f x \<and> k y = g x)"
proof -
  have "(f x, g x) \<in> (\<lambda>y. (h y, k y)) ` B \<longleftrightarrow> (\<exists>y \<in> B. h y = f x \<and> k y = g x)" for x
    unfolding image_iff prod.inject by metis
  then show ?thesis by (simp add: image_subset_iff)
qed

lemma linksD:
  assumes "links_ok db"
  shows "a \<in> set (pb_assets db) \<Longrightarrow> as_profile a \<in> pf_id ` set (pb_profiles db)"
    and "i \<in> set (pb_imports db) \<Longrightarrow> \<exists>a \<in> set (pb_assets db). as_id a = im_asset i \<and> as_profile a = im_profile i"
    and "e \<in> set (pb_evidence db) \<Longrightarrow> \<exists>i \<in> set (pb_imports db). im_id i = pe_import e \<and> im_profile i = pe_profile e"
    and "d \<in> set (pb_decisions db) \<Longrightarrow> \<exists>e \<in> set (pb_evidence db). pe_id e = pd_evidence d \<and> pe_profile e = pd_profile d"
    and "v \<in> set (pb_versions db) \<Longrightarrow> cv_profile v \<in> pf_id ` set (pb_profiles db)"
  using assms unfolding links_ok_def pair_image_subset by (simp_all add: image_subset_iff)

lemma linksI:
  assumes "\<And>a. a \<in> set (pb_assets db) \<Longrightarrow> as_profile a \<in> pf_id ` set (pb_profiles db)"
    and "\<And>i. i \<in> set (pb_imports db) \<Longrightarrow> \<exists>a \<in> set (pb_assets db). as_id a = im_asset i \<and> as_profile a = im_profile i"
    and "\<And>e. e \<in> set (pb_evidence db) \<Longrightarrow> \<exists>i \<in> set (pb_imports db). im_id i = pe_import e \<and> im_profile i = pe_profile e"
    and "\<And>d. d \<in> set (pb_decisions db) \<Longrightarrow> \<exists>e \<in> set (pb_evidence db). pe_id e = pd_evidence d \<and> pe_profile e = pd_profile d"
    and "\<And>v. v \<in> set (pb_versions db) \<Longrightarrow> cv_profile v \<in> pf_id ` set (pb_profiles db)"
  shows "links_ok db"
  unfolding links_ok_def pair_image_subset by (intro conjI ballI image_subsetI assms)

lemma owner_unique:
  assumes "profiles_ok db" and "p \<in> set (pb_profiles db)" and "q \<in> set (pb_profiles db)"
  shows "pf_id p = pf_id q \<Longrightarrow> p = q" and "pf_user p = pf_user q \<Longrightarrow> p = q"
  using table_ok_unique [OF profiles_okD(1) [OF assms(1)] assms(2,3)] assms profiles_okD(2) [OF assms(1)]
  by (auto simp: distinct_map dest: inj_onD)

subsection \<open>The profile of a user\<close>

lemma get_profile_Some:
  assumes "get_profile_by_user db user = Some p"
  shows "p \<in> set (pb_profiles db)" and "pf_user p = user"
  using assms by (auto simp: get_profile_by_user_def dest: find_SomeD)

lemma ensure_profile_row:
  "fst (ensure_profile user db) \<in> set (pb_profiles (snd (ensure_profile user db)))"
  "pf_user (fst (ensure_profile user db)) = user"
  using get_profile_Some [of db user]
  by (auto simp: ensure_profile_def Let_def split: option.split)

lemma ensure_profile_frame:
  "pb_assets (snd (ensure_profile user db)) = pb_assets db"
  "pb_imports (snd (ensure_profile user db)) = pb_imports db"
  "pb_evidence (snd (ensure_profile user db)) = pb_evidence db"
  "pb_decisions (snd (ensure_profile user db)) = pb_decisions db"
  "pb_versions (snd (ensure_profile user db)) = pb_versions db"
  "pb_now (snd (ensure_profile user db)) = pb_now db"
  by (simp_all add: ensure_profile_def Let_def split: option.split)

lemma no_versions_fresh:
  assumes "profiles_ok db"
  shows "versions_of db (new_id db) = []"
proof -
  have "cv_profile v \<noteq> new_id db" if "v \<in> set (pb_versions db)" for v
    using linksD(5) [OF profiles_okD(7) [OF assms] that] table_ok_fresh [OF profiles_okD(1) [OF assms]] by metis
  then show ?thesis by (simp add: versions_of_def filter_empty_conv)
qed

lemma ensure_profile_ok:
  assumes "profiles_ok db"
  shows "profiles_ok (snd (ensure_profile user db))"
proof (cases "get_profile_by_user db user")
  case None
  then have new: "user \<notin> pf_user ` set (pb_profiles db)"
    unfolding get_profile_by_user_def find_None_iff_ex by auto
  define d where "d = snd (ensure_profile user db)"
  have d: "pb_profiles d = pb_profiles db @ [\<lparr>pf_id = new_id db, pf_user = user, pf_version = 0, pf_refs = [], pf_active = None\<rparr>]"
    "pb_next d = Suc (pb_next db)"
    using None by (simp_all add: d_def ensure_profile_def Let_def)
  have same: "pb_assets d = pb_assets db" "pb_imports d = pb_imports db" "pb_evidence d = pb_evidence db"
    "pb_decisions d = pb_decisions db" "pb_versions d = pb_versions db"
    by (simp_all add: d_def ensure_profile_frame)
  note ok = profiles_okD [OF assms]
  have "profiles_ok d"
  proof (rule profiles_okI)
    show "table_ok d pf_id (pb_profiles d)" unfolding d(1) by (rule table_ok_snoc [OF ok(1)]) (simp_all add: d(2))
    show "distinct (map pf_user (pb_profiles d))" using ok(2) new by (simp add: d(1))
    show "links_ok d" using ok(7) unfolding links_ok_def same d(1) by auto
    have "versions_of d = versions_of db" by (simp add: versions_of_def fun_eq_iff same)
    then show "versions_ok d" using ok(8) no_versions_fresh [OF assms] unfolding versions_ok_def d(1) by auto
    show "sequences_ok d" using ok(9) by (subst sequences_ok_frame [OF same(3)])
  qed (use ok(3-6) in \<open>simp_all add: same table_ok_mono d(2)\<close>)
  then show ?thesis by (simp add: d_def)
next
  case (Some p)
  then show ?thesis using assms by (simp add: ensure_profile_def)
qed

subsection \<open>Rows added and changed\<close>

lemma add_asset_ok:
  assumes "profiles_ok db" and "as_id a = new_id db" and "as_profile a \<in> pf_id ` set (pb_profiles db)"
  shows "profiles_ok (db\<lparr>pb_assets := pb_assets db @ [a], pb_next := Suc (pb_next db)\<rparr>)" (is "profiles_ok ?d")
proof (rule profiles_okI)
  note ok = profiles_okD [OF assms(1)]
  show "table_ok ?d as_id (pb_assets ?d)" using ok(3) assms(2) by (simp add: table_ok_snoc)
  show "links_ok ?d" using ok(7) assms(3) unfolding links_ok_def by auto
  show "table_ok ?d pf_id (pb_profiles ?d)" "distinct (map pf_user (pb_profiles ?d))" "table_ok ?d im_id (pb_imports ?d)"
    "table_ok ?d pe_id (pb_evidence ?d)" "table_ok ?d cv_id (pb_versions ?d)"
    using ok by (simp_all add: table_ok_mono)
  show "versions_ok ?d" using ok(8) by (subst versions_ok_frame [where db = db]) simp_all
  show "sequences_ok ?d" using ok(9) by (subst sequences_ok_frame [where db = db]) simp_all
qed

lemma map_if_rows:
  assumes "\<And>x. k (f x) = k x"
  shows "k ` set (map (\<lambda>x. if P x then f x else x) xs) = k ` set xs"
proof -
  have "map k (map (\<lambda>x. if P x then f x else x) xs) = map k xs" by (simp add: assms)
  then show ?thesis by (metis set_map)
qed

lemma update_asset_ok:
  assumes "profiles_ok db" and "\<And>a. as_id (f a) = as_id a" and "\<And>a. as_profile (f a) = as_profile a"
  shows "profiles_ok (update_asset i f db)" (is "profiles_ok ?d")
proof (rule profiles_okI)
  note ok = profiles_okD [OF assms(1)]
  have same: "pb_profiles ?d = pb_profiles db" "pb_imports ?d = pb_imports db" "pb_evidence ?d = pb_evidence db"
    "pb_decisions ?d = pb_decisions db" "pb_versions ?d = pb_versions db" "pb_next ?d = pb_next db"
    by (simp_all add: update_asset_def)
  show "table_ok ?d as_id (pb_assets ?d)"
    using ok(3) assms(2) by (simp add: table_ok_same [OF same(6)]) (simp add: update_asset_def table_ok_map)
  have "as_profile ` set (pb_assets ?d) = as_profile ` set (pb_assets db)"
    "(\<lambda>a. (as_id a, as_profile a)) ` set (pb_assets ?d) = (\<lambda>a. (as_id a, as_profile a)) ` set (pb_assets db)"
    using map_if_rows [of as_profile f] map_if_rows [of "\<lambda>a. (as_id a, as_profile a)" f] assms
    by (simp_all add: update_asset_def del: set_map)
  then show "links_ok ?d" using ok(7) unfolding links_ok_def same by simp
  show "table_ok ?d pf_id (pb_profiles ?d)" "distinct (map pf_user (pb_profiles ?d))" "table_ok ?d im_id (pb_imports ?d)"
    "table_ok ?d pe_id (pb_evidence ?d)" "table_ok ?d cv_id (pb_versions ?d)"
    using ok by (simp_all add: same table_ok_same [OF same(6)])
  show "versions_ok ?d" using ok(8) by (subst versions_ok_frame [OF same(1,5)])
  show "sequences_ok ?d" using ok(9) by (subst sequences_ok_frame [OF same(3)])
qed

lemma create_import_ok:
  assumes "profiles_ok db" and "a \<in> set (pb_assets db)"
  shows "profiles_ok (snd (create_import a v db))" (is "profiles_ok ?d")
proof (rule profiles_okI)
  note ok = profiles_okD [OF assms(1)]
  have n: "pb_next ?d = Suc (pb_next db)" by (simp add: create_import_def Let_def)
  show "table_ok ?d im_id (pb_imports ?d)"
    using ok(4) by (simp add: create_import_def Let_def table_ok_snoc)
  show "links_ok ?d" using ok(7) assms(2) unfolding links_ok_def by (auto simp: create_import_def Let_def)
  show "table_ok ?d pf_id (pb_profiles ?d)" "distinct (map pf_user (pb_profiles ?d))" "table_ok ?d as_id (pb_assets ?d)"
    "table_ok ?d pe_id (pb_evidence ?d)" "table_ok ?d cv_id (pb_versions ?d)"
    using ok by (simp_all add: create_import_def Let_def table_ok_mono)
  show "versions_ok ?d" using ok(8) by (subst versions_ok_frame [where db = db]) (simp_all add: create_import_def Let_def)
  show "sequences_ok ?d" using ok(9) by (subst sequences_ok_frame [where db = db]) (simp_all add: create_import_def Let_def)
qed

lemma update_import_links:
  assumes "\<And>i v w x y. f (i\<lparr>im_status := v, im_error := w, im_started := x, im_finished := y\<rparr>) = f i"
  shows "f ` set (pb_imports (update_import_status k st e db)) = f ` set (pb_imports db)"
  using map_if_rows [where k = f] assms by (simp add: update_import_status_def del: set_map)

lemma update_import_keeps:
  assumes "i \<in> set (pb_imports db)"
  shows "\<exists>j \<in> set (pb_imports (update_import_status k st e db)). im_id j = im_id i \<and> im_profile j = im_profile i"
proof -
  have "(\<lambda>j. (im_id j, im_profile j)) ` set (pb_imports (update_import_status k st e db))
      = (\<lambda>j. (im_id j, im_profile j)) ` set (pb_imports db)"
    by (rule update_import_links) simp
  then show ?thesis using equalityD2 [THEN pair_image_subset [THEN iffD1]] assms by blast
qed

lemma update_import_ok:
  assumes "profiles_ok db"
  shows "profiles_ok (update_import_status k st e db)" (is "profiles_ok ?d")
proof (rule profiles_okI)
  note ok = profiles_okD [OF assms(1)]
  have same: "pb_profiles ?d = pb_profiles db" "pb_assets ?d = pb_assets db" "pb_evidence ?d = pb_evidence db"
    "pb_decisions ?d = pb_decisions db" "pb_versions ?d = pb_versions db" "pb_next ?d = pb_next db"
    by (simp_all add: update_import_status_def)
  show "table_ok ?d im_id (pb_imports ?d)"
    using ok(4) by (simp add: table_ok_same [OF same(6)]) (simp add: update_import_status_def table_ok_map)
  show "links_ok ?d"
    using ok(7) unfolding links_ok_def same by (simp add: update_import_links)
  show "table_ok ?d pf_id (pb_profiles ?d)" "distinct (map pf_user (pb_profiles ?d))" "table_ok ?d as_id (pb_assets ?d)"
    "table_ok ?d pe_id (pb_evidence ?d)" "table_ok ?d cv_id (pb_versions ?d)"
    using ok by (simp_all add: same table_ok_same [OF same(6)])
  show "versions_ok ?d" using ok(8) by (subst versions_ok_frame [OF same(1,5)])
  show "sequences_ok ?d" using ok(9) by (subst sequences_ok_frame [OF same(3)])
qed

text \<open>An asset that is deleted with everything that came from it.\<close>

lemma delete_asset_evidence:
  "evidence_of (delete_asset_rows asset db) i =
     (if i \<in> im_id ` set (list_imports_for_asset db asset) then [] else evidence_of db i)"
  by (auto simp: evidence_of_def delete_asset_rows_def Let_def filter_empty_conv intro: filter_cong)

lemma delete_asset_ok:
  assumes "profiles_ok db"
  shows "profiles_ok (delete_asset_rows asset db)" (is "profiles_ok ?d")
proof (rule profiles_okI)
  note ok = profiles_okD [OF assms] and links = linksD [OF profiles_okD(7) [OF assms]]
  have same: "pb_profiles ?d = pb_profiles db" "pb_versions ?d = pb_versions db" "pb_next ?d = pb_next db"
    by (simp_all add: delete_asset_rows_def Let_def)
  show "table_ok ?d as_id (pb_assets ?d)" "table_ok ?d im_id (pb_imports ?d)" "table_ok ?d pe_id (pb_evidence ?d)"
    using ok by (simp_all add: table_ok_same [OF same(3)]) (simp_all add: delete_asset_rows_def Let_def table_ok_filter)
  show "links_ok ?d"
  proof (rule linksI)
    show "as_profile a \<in> pf_id ` set (pb_profiles ?d)" if "a \<in> set (pb_assets ?d)" for a
      using that links(1) by (simp add: delete_asset_rows_def Let_def)
    show "\<exists>a \<in> set (pb_assets ?d). as_id a = im_asset i \<and> as_profile a = im_profile i" if "i \<in> set (pb_imports ?d)" for i
      using that links(2) [of i] by (auto simp: delete_asset_rows_def Let_def)
    show "\<exists>i \<in> set (pb_imports ?d). im_id i = pe_import e \<and> im_profile i = pe_profile e" if "e \<in> set (pb_evidence ?d)" for e
      using that links(3) [of e] by (force simp: delete_asset_rows_def list_imports_for_asset_def Let_def)
    show "\<exists>e \<in> set (pb_evidence ?d). pe_id e = pd_evidence x \<and> pe_profile e = pd_profile x" if "x \<in> set (pb_decisions ?d)" for x
      using that links(4) [of x] by (force simp: delete_asset_rows_def Let_def)
    show "cv_profile v \<in> pf_id ` set (pb_profiles ?d)" if "v \<in> set (pb_versions ?d)" for v
      using that links(5) by (simp add: same)
  qed
  show "table_ok ?d pf_id (pb_profiles ?d)" "distinct (map pf_user (pb_profiles ?d))" "table_ok ?d cv_id (pb_versions ?d)"
    using ok by (simp_all add: same table_ok_same [OF same(3)])
  show "versions_ok ?d" using ok(8) by (subst versions_ok_frame [OF same(1,2)])
  show "sequences_ok ?d" using ok(9) by (simp add: sequences_ok_def delete_asset_evidence)
qed

lemma append_decision_ok:
  assumes "profiles_ok db" and "get_profile_evidence_by_id db pid ev = Some e"
  shows "profiles_ok (append_decision pid ev u a v db)" (is "profiles_ok ?d")
proof (rule profiles_okI)
  note ok = profiles_okD [OF assms(1)]
  have same: "pb_profiles ?d = pb_profiles db" "pb_assets ?d = pb_assets db" "pb_imports ?d = pb_imports db"
    "pb_evidence ?d = pb_evidence db" "pb_versions ?d = pb_versions db" "pb_next db \<le> pb_next ?d"
    by (simp_all add: append_decision_def)
  have "e \<in> set (pb_evidence db) \<and> pe_id e = ev \<and> pe_profile e = pid"
    using assms(2) by (auto simp: get_profile_evidence_by_id_def dest: find_SomeD)
  then show "links_ok ?d" using ok(7) unfolding links_ok_def same by (auto simp: append_decision_def)
  show "table_ok ?d pf_id (pb_profiles ?d)" "distinct (map pf_user (pb_profiles ?d))" "table_ok ?d as_id (pb_assets ?d)"
    "table_ok ?d im_id (pb_imports ?d)" "table_ok ?d pe_id (pb_evidence ?d)" "table_ok ?d cv_id (pb_versions ?d)"
    using ok by (simp_all add: same table_ok_mono [OF _ same(6)])
  show "versions_ok ?d" using ok(8) by (subst versions_ok_frame [OF same(1,5)])
  show "sequences_ok ?d" using ok(9) by (subst sequences_ok_frame [OF same(4)])
qed

subsection \<open>Evidence and versions are numbered\<close>

lemma add_evidence_ok:
  assumes "profiles_ok db" and "pe_id e = new_id db" and "pe_sequence e = int (length (evidence_of db (pe_import e))) + 1"
    and "\<exists>i \<in> set (pb_imports db). im_id i = pe_import e \<and> im_profile i = pe_profile e"
  shows "profiles_ok (db\<lparr>pb_evidence := pb_evidence db @ [e], pb_next := Suc (pb_next db)\<rparr>)" (is "profiles_ok ?d")
proof (rule profiles_okI)
  note ok = profiles_okD [OF assms(1)] and links = linksD [OF profiles_okD(7) [OF assms(1)]]
  show "table_ok ?d pe_id (pb_evidence ?d)" using ok(5) assms(2) by (simp add: table_ok_snoc)
  show "links_ok ?d"
    by (rule linksI) (use links assms(4) in \<open>auto\<close>)
  have "evidence_of ?d i = evidence_of db i @ (if i = pe_import e then [e] else [])" for i
    by (simp add: evidence_of_def)
  then show "sequences_ok ?d"
    using ok(9) assms(3) by (simp add: sequences_ok_def upto_rec2 add.commute)
  show "table_ok ?d pf_id (pb_profiles ?d)" "distinct (map pf_user (pb_profiles ?d))" "table_ok ?d as_id (pb_assets ?d)"
    "table_ok ?d im_id (pb_imports ?d)" "table_ok ?d cv_id (pb_versions ?d)"
    using ok by (simp_all add: table_ok_mono)
  show "versions_ok ?d" using ok(8) by (subst versions_ok_frame [where db = db]) simp_all
qed

lemma append_evidence_from_ok:
  assumes "profiles_ok db" and "n = int (length (evidence_of db imp)) + 1"
    and "\<exists>i \<in> set (pb_imports db). im_id i = imp \<and> im_profile i = pid"
  shows "profiles_ok (append_evidence_from n pid imp cs db)"
  using assms
proof (induction cs arbitrary: n db)
  case (Cons c cs)
  define e where "e = \<lparr>pe_id = new_id db, pe_profile = pid, pe_import = imp, pe_path = cd_path c, pe_value = cd_value c,
    pe_excerpt = cd_excerpt c, pe_confidence = cd_confidence c, pe_sequence = n, pe_created = pb_now db\<rparr>"
  define d where "d = db\<lparr>pb_evidence := pb_evidence db @ [e], pb_next := Suc (pb_next db)\<rparr>"
  have "profiles_ok d"
    unfolding d_def by (rule add_evidence_ok) (use Cons.prems in \<open>auto simp: e_def\<close>)
  moreover have "n + 1 = int (length (evidence_of d imp)) + 1"
    using Cons.prems(2) by (simp add: d_def e_def evidence_of_def)
  moreover have "\<exists>i \<in> set (pb_imports d). im_id i = imp \<and> im_profile i = pid" using Cons.prems(3) by (simp add: d_def)
  ultimately have "profiles_ok (append_evidence_from (n + 1) pid imp cs d)" by (rule Cons.IH)
  then show ?case by (simp add: d_def e_def)
qed simp

lemma next_version_number:
  assumes "versions_ok db" and "p \<in> set (pb_profiles db)"
  shows "next_confirmed_version_number db (pf_id p) = int (length (versions_of db (pf_id p))) + 1"
proof -
  have "map cv_number (versions_of db (pf_id p)) = [1..int (length (versions_of db (pf_id p)))]"
    using assms by (simp add: versions_ok_def)
  then show ?thesis
    using fold_max_upto [of 2 "int (length (versions_of db (pf_id p)))" 1]
    by (cases "versions_of db (pf_id p) = []")
      (auto simp: next_confirmed_version_number_def versions_of_def [symmetric] upto_rec1 Suc_le_eq split: list.splits)
qed

lemma add_version_ok:
  assumes "profiles_ok db" and "p \<in> set (pb_profiles db)" and "cv_id v = new_id db" and "cv_profile v = pf_id p"
    and "cv_aggregate v \<le> pf_version p" and "cv_number v = int (length (versions_of db (pf_id p))) + 1"
  shows "profiles_ok (db\<lparr>pb_versions := pb_versions db @ [v], pb_next := Suc (pb_next db)\<rparr>)" (is "profiles_ok ?d")
proof (rule profiles_okI)
  note ok = profiles_okD [OF assms(1)] and links = linksD [OF profiles_okD(7) [OF assms(1)]]
  show "table_ok ?d cv_id (pb_versions ?d)" using ok(6) assms(3) by (simp add: table_ok_snoc)
  show "links_ok ?d"
    by (rule linksI) (use links assms(2,4) in \<open>auto\<close>)
  have of: "versions_of ?d i = versions_of db i @ (if i = pf_id p then [v] else [])" for i
    by (auto simp: versions_of_def assms(4))
  show "versions_ok ?d"
    unfolding versions_ok_def
  proof (intro ballI)
    fix q assume "q \<in> set (pb_profiles ?d)"
    then have q: "q \<in> set (pb_profiles db)" by simp
    have vq: "map cv_number (versions_of db (pf_id q)) = [1..int (length (versions_of db (pf_id q)))]
      \<and> (\<forall>v \<in> set (versions_of db (pf_id q)). cv_aggregate v \<le> pf_version q)
      \<and> (\<forall>i. pf_active q = Some i \<longrightarrow> i \<in> cv_id ` set (versions_of db (pf_id q)))"
      using ok(8) q by (simp add: versions_ok_def)
    show "map cv_number (versions_of ?d (pf_id q)) = [1..int (length (versions_of ?d (pf_id q)))]
      \<and> (\<forall>v \<in> set (versions_of ?d (pf_id q)). cv_aggregate v \<le> pf_version q)
      \<and> (\<forall>i. pf_active q = Some i \<longrightarrow> i \<in> cv_id ` set (versions_of ?d (pf_id q)))"
    proof (cases "pf_id q = pf_id p")
      case True
      then have "q = p" using owner_unique(1) [OF assms(1) q assms(2)] by simp
      then show ?thesis
        using vq assms(5,6) unfolding of by (auto simp add: upto_rec2 add.commute)
    qed (use vq in \<open>unfold of, simp\<close>)
  qed
  show "sequences_ok ?d" using ok(9) by (subst sequences_ok_frame [where db = db]) simp_all
  show "table_ok ?d pf_id (pb_profiles ?d)" "distinct (map pf_user (pb_profiles ?d))" "table_ok ?d as_id (pb_assets ?d)"
    "table_ok ?d im_id (pb_imports ?d)" "table_ok ?d pe_id (pb_evidence ?d)"
    using ok by (simp_all add: table_ok_mono)
qed

lemma update_profile_ok:
  assumes "profiles_ok db" and "\<And>p. pf_id (f p) = pf_id p" and "\<And>p. pf_user (f p) = pf_user p"
    and "\<And>p. pf_version p \<le> pf_version (f p)"
    and "\<And>p i. p \<in> set (pb_profiles db) \<Longrightarrow> pf_id p = pid \<Longrightarrow> pf_active (f p) = Some i \<Longrightarrow>
      i \<in> cv_id ` set (versions_of db pid)"
  shows "profiles_ok (update_profile pid f db)" (is "profiles_ok ?d")
proof (rule profiles_okI)
  note ok = profiles_okD [OF assms(1)] and links = linksD [OF profiles_okD(7) [OF assms(1)]]
  have same: "pb_assets ?d = pb_assets db" "pb_imports ?d = pb_imports db"
    "pb_evidence ?d = pb_evidence db" "pb_decisions ?d = pb_decisions db" "pb_versions ?d = pb_versions db" "pb_next ?d = pb_next db"
    by (simp_all add: update_profile_def)
  show "table_ok ?d pf_id (pb_profiles ?d)"
    using ok(1) assms(2) by (simp add: table_ok_same [OF same(6)]) (simp add: update_profile_def table_ok_map)
  have "map pf_user (pb_profiles ?d) = map pf_user (pb_profiles db)"
    by (simp add: update_profile_def assms(3))
  then show "distinct (map pf_user (pb_profiles ?d))" using ok(2) by simp
  have ids: "pf_id ` set (pb_profiles ?d) = pf_id ` set (pb_profiles db)"
    using map_if_rows [of pf_id f, OF assms(2)] by (simp add: update_profile_def del: set_map)
  show "links_ok ?d" using ok(7) unfolding links_ok_def same ids .
  have of: "versions_of ?d i = versions_of db i" for i by (simp add: versions_of_def same)
  show "versions_ok ?d"
    unfolding versions_ok_def of
  proof (intro ballI)
    fix q assume "q \<in> set (pb_profiles ?d)"
    then obtain p where p: "p \<in> set (pb_profiles db)" and q: "q = (if pf_id p = pid then f p else p)"
      by (auto simp: update_profile_def)
    have "map cv_number (versions_of db (pf_id p)) = [1..int (length (versions_of db (pf_id p)))]
      \<and> (\<forall>v \<in> set (versions_of db (pf_id p)). cv_aggregate v \<le> pf_version p)
      \<and> (\<forall>i. pf_active p = Some i \<longrightarrow> i \<in> cv_id ` set (versions_of db (pf_id p)))"
      using ok(8) p by (simp add: versions_ok_def)
    then show "map cv_number (versions_of db (pf_id q)) = [1..int (length (versions_of db (pf_id q)))]
      \<and> (\<forall>v \<in> set (versions_of db (pf_id q)). cv_aggregate v \<le> pf_version q)
      \<and> (\<forall>i. pf_active q = Some i \<longrightarrow> i \<in> cv_id ` set (versions_of db (pf_id q)))"
      using assms(2,4) assms(5) [OF p] by (auto simp: q intro: order_trans)
  qed
  show "sequences_ok ?d" using ok(9) by (subst sequences_ok_frame [OF same(3)])
  show "table_ok ?d as_id (pb_assets ?d)" "table_ok ?d im_id (pb_imports ?d)" "table_ok ?d pe_id (pb_evidence ?d)"
    "table_ok ?d cv_id (pb_versions ?d)"
    using ok by (simp_all add: same table_ok_same [OF same(6)])
qed

lemma active_own:
  assumes "profiles_ok db" and "p \<in> set (pb_profiles db)" and "pf_active p = Some i"
  shows "i \<in> cv_id ` set (versions_of db (pf_id p))"
  using profiles_okD(8) [OF assms(1)] assms(2,3) by (simp add: versions_ok_def)

lemma bump_ok: "profiles_ok db \<Longrightarrow> profiles_ok (update_profile_version pid db)"
  unfolding update_profile_version_def by (rule update_profile_ok) (auto dest: active_own)

lemma set_refs_ok: "profiles_ok db \<Longrightarrow> profiles_ok (update_profile pid (\<lambda>q. q\<lparr>pf_refs := f (pf_refs q)\<rparr>) db)"
  by (rule update_profile_ok) (auto dest: active_own)

lemma set_active_ok:
  assumes "profiles_ok db" and "\<And>i. v = Some i \<Longrightarrow> i \<in> cv_id ` set (versions_of db pid)"
  shows "profiles_ok (set_active_version pid v db)"
  unfolding set_active_version_def by (rule update_profile_ok) (use assms in auto)

subsection \<open>The requests\<close>

lemma handled_ok:
  assumes "profiles_ok db" and "profiles_ok (snd out)"
  shows "profiles_ok (snd (handled catches code db out))"
  using assms by (cases out) (auto simp: handled_def split: sum.split)

lemma create_pending_ok:
  "profiles_ok db \<Longrightarrow> profiles_ok (snd (create_pending_asset user filename content_type raw db))"
  using ensure_profile_ok [of db user] ensure_profile_row(1) [of user db]
  by (auto simp: create_pending_asset_def Let_def case_prod_beta intro!: add_asset_ok split: option.split)

lemma mark_ready_ok: "profiles_ok db \<Longrightarrow> profiles_ok (mark_ready asset db)"
  by (auto simp: mark_ready_def intro: update_asset_ok)

lemma mark_failed_ok: "profiles_ok db \<Longrightarrow> profiles_ok (mark_upload_failed asset code db)"
  by (auto simp: mark_upload_failed_def intro: update_asset_ok)

lemma upload_ok:
  assumes "profiles_ok (we_db w)"
  shows "profiles_ok (we_db (snd (upload_resume_asset ve up user filename content_type raw nonce w)))"
  using create_pending_ok [OF assms, of user filename content_type raw] assms
  by (cases "create_pending_asset user filename content_type raw (we_db w)")
    (auto simp: upload_resume_asset_def mark_ready_ok mark_failed_ok split: sum.split option.split)

lemma reconcile_ok: "profiles_ok db \<Longrightarrow> profiles_ok (snd (reconcile up blobs user asset db))"
  by (auto simp: reconcile_def mark_ready_ok split: option.split)

lemma delete_ok: "profiles_ok db \<Longrightarrow> profiles_ok (snd (delete_asset user asset db))"
  by (auto simp: delete_asset_def get_profile_for_update_def case_prod_beta bump_ok delete_asset_ok ensure_profile_ok
      split: option.split)

lemma get_owned_asset_Some:
  assumes "get_owned_asset db user asset = Some a"
  shows "a \<in> set (pb_assets db)" "as_id a = asset" "owns db user (as_profile a)"
  using assms by (auto simp: get_owned_asset_def dest: find_SomeD)

lemma get_owned_import_Some:
  assumes "get_owned_import db user imp = Some i"
  shows "i \<in> set (pb_imports db)" "im_id i = imp" "owns db user (im_profile i)"
  using assms by (auto simp: get_owned_import_def dest: find_SomeD)

lemma get_owned_version_Some:
  assumes "get_owned_version db user version = Some v"
  shows "v \<in> set (pb_versions db)" "cv_id v = version" "owns db user (cv_profile v)"
  using assms by (auto simp: get_owned_version_def dest: find_SomeD)

lemma start_import_ok:
  "profiles_ok db \<Longrightarrow> profiles_ok (snd (start_import user asset db))"
  by (auto simp: start_import_def case_prod_beta create_import_ok dest: get_owned_asset_Some split: option.split)

lemma no_evidence_fresh:
  assumes "profiles_ok db"
  shows "evidence_of db (new_id db) = []"
proof -
  have "pe_import e \<noteq> new_id db" if "e \<in> set (pb_evidence db)" for e
    using linksD(3) [OF profiles_okD(7) [OF assms] that] table_ok_fresh [OF profiles_okD(4) [OF assms]] by force
  then show ?thesis by (simp add: evidence_of_def filter_empty_conv)
qed

lemma start_import_new:
  assumes "start_import user asset db = (Inr i, d)"
  shows "im_id i = new_id db" and "pb_evidence d = pb_evidence db"
  using assms by (auto simp: start_import_def create_import_def Let_def split: option.splits if_splits)

lemma update_import_frame:
  "pb_profiles (update_import_status k st e db) = pb_profiles db"
  "pb_assets (update_import_status k st e db) = pb_assets db"
  "pb_evidence (update_import_status k st e db) = pb_evidence db"
  "pb_decisions (update_import_status k st e db) = pb_decisions db"
  "pb_versions (update_import_status k st e db) = pb_versions db"
  "pb_now (update_import_status k st e db) = pb_now db"
  by (simp_all add: update_import_status_def)

lemma append_evidence_ok:
  assumes "profiles_ok db" and "evidence_of db imp = []"
    and "\<exists>i \<in> set (pb_imports db). im_id i = imp \<and> im_profile i = pid"
  shows "profiles_ok (append_evidence pid imp cs db)"
  unfolding append_evidence_def by (rule append_evidence_from_ok) (use assms in simp_all)

lemma process_import_ok:
  assumes "profiles_ok db" and "evidence_of db imp = []"
  shows "profiles_ok (snd (process_import ve up blobs user imp db))"
proof (cases "get_owned_import db user imp")
  case None
  then show ?thesis using assms by (simp add: process_import_def)
next
  case (Some i)
  define db1 where "db1 = update_import_status imp Parsing None db"
  have ok: "profiles_ok db1" using update_import_ok [OF assms(1)] by (simp add: db1_def)
  have ev: "evidence_of db1 imp = []" using assms(2) by (simp add: db1_def evidence_of_def update_import_frame)
  have im: "\<exists>j \<in> set (pb_imports db1). im_id j = imp \<and> im_profile j = im_profile i"
    using update_import_keeps get_owned_import_Some [OF Some] unfolding db1_def by blast
  have "profiles_ok (append_evidence (im_profile i) imp cs db1)" for cs
    by (rule append_evidence_ok [OF ok ev im])
  then show ?thesis
    using ok by (simp add: process_import_def Some Let_def flip: db1_def)
      (auto intro: update_import_ok split: option.split)
qed

lemma create_import_request_ok:
  assumes "profiles_ok (we_db w)"
  shows "profiles_ok (we_db (snd (create_resume_import ve up user asset w)))"
proof (cases "start_import user asset (we_db w)")
  case (Pair out d)
  show ?thesis
  proof (cases out)
    case (Inr i)
    have "profiles_ok d" using start_import_ok [OF assms, of user asset] by (simp add: Pair)
    moreover have "evidence_of d (im_id i) = []"
      using start_import_new [OF Pair [unfolded Inr]] no_evidence_fresh [OF assms] by (simp add: evidence_of_def)
    ultimately show ?thesis
      using handled_ok [OF _ process_import_ok]
      by (simp add: create_resume_import_def Pair Inr case_prod_beta Let_def)
  qed (simp add: create_resume_import_def Pair assms)
qed

lemma decide_each_ok: "profiles_ok db \<Longrightarrow> profiles_ok (snd (decide_each user pid ds db))"
  by (induction ds arbitrary: db) (auto intro: append_decision_ok split: option.split)

lemma apply_decisions_ok:
  assumes "profiles_ok db"
  shows "profiles_ok (snd (apply_decisions user expected ds db))"
proof -
  obtain p d where e: "get_profile_for_update user db = (p, d)" by fastforce
  have ok: "profiles_ok d" using ensure_profile_ok [OF assms, of user] e by (simp add: get_profile_for_update_def)
  obtain out d2 where o: "decide_each user (pf_id p) ds d = (out, d2)" by fastforce
  have "profiles_ok d2" using decide_each_ok [OF ok, of user "pf_id p" ds] by (simp add: o)
  then show ?thesis using ok by (simp add: apply_decisions_def e o bump_ok split: sum.split)
qed

lemma update_reference_ok:
  assumes "profiles_ok db"
  shows "profiles_ok (snd (update_local_sensitive_reference ve user expected category reference db))"
  using ensure_profile_ok [OF assms, of user] assms
  by (auto simp: update_local_sensitive_reference_def get_profile_for_update_def Let_def case_prod_beta intro: bump_ok set_refs_ok)

lemma activate_ok:
  assumes "profiles_ok db"
  shows "profiles_ok (snd (activate_version user version db))"
proof (cases "get_owned_version db user version")
  case (Some v)
  obtain p d where e: "ensure_profile user db = (p, d)" by fastforce
  have ok: "profiles_ok d" using ensure_profile_ok [OF assms, of user] by (simp add: e)
  obtain q where q: "q \<in> set (pb_profiles db)" "pf_id q = cv_profile v" "pf_user q = user"
    using get_owned_version_Some(3) [OF Some] by (auto simp: owns_def)
  have "get_profile_by_user db user \<noteq> None" using q unfolding get_profile_by_user_def find_None_iff_ex by blast
  then have same: "d = db" "get_profile_by_user db user = Some p" using e by (auto simp: ensure_profile_def)
  have "p = q" using owner_unique(2) [OF assms _ q(1)] get_profile_Some [OF same(2)] q(3) by simp
  then have "version \<in> cv_id ` set (versions_of d (pf_id p))"
    using get_owned_version_Some(1,2) [OF Some] q(2) by (auto simp: versions_of_def same(1))
  then show ?thesis
    using ok by (auto simp: activate_version_def Some get_profile_for_update_def e intro: set_active_ok)
qed (simp add: activate_version_def assms)

lemma bump_commutes:
  "update_profile_version pid (set_active_version pid a (snd (create_version pid n g fs es rs db)))
     = set_active_version pid a (snd (create_version pid n g fs es rs (update_profile_version pid db)))"
  "fst (create_version pid n g fs es rs (update_profile_version pid db)) = fst (create_version pid n g fs es rs db)"
  by (simp_all add: update_profile_version_def set_active_version_def update_profile_def create_version_def new_id_def Let_def)

lemma create_version_ok:
  assumes "profiles_ok db" and "p \<in> set (pb_profiles db)" and "g \<le> pf_version p"
    and "c = create_version (pf_id p) (next_confirmed_version_number db (pf_id p)) g facts ev refs db"
  shows "profiles_ok (snd c)" and "cv_id (fst c) \<in> cv_id ` set (versions_of (snd c) (pf_id p))"
proof -
  define n where "n = next_confirmed_version_number db (pf_id p)"
  have n: "n = int (length (versions_of db (pf_id p))) + 1"
    unfolding n_def by (rule next_version_number [OF profiles_okD(8) [OF assms(1)] assms(2)])
  have v: "snd c = db\<lparr>pb_versions := pb_versions db @ [fst c], pb_next := Suc (pb_next db)\<rparr>"
    "cv_id (fst c) = new_id db" "cv_profile (fst c) = pf_id p" "cv_aggregate (fst c) = g" "cv_number (fst c) = n"
    by (simp_all add: assms(4) n_def create_version_def Let_def)
  show "profiles_ok (snd c)"
    unfolding v(1) by (rule add_version_ok [OF assms(1,2) v(2,3)]) (use assms(3) v(4,5) n in simp_all)
  show "cv_id (fst c) \<in> cv_id ` set (versions_of (snd c) (pf_id p))" by (simp add: v(1,3) versions_of_def)
qed

lemma confirm_ok:
  assumes "profiles_ok db"
  shows "profiles_ok (snd (create_confirmed_version user expected imp db))"
proof -
  obtain p d where e: "ensure_profile user db = (p, d)" by fastforce
  have ok: "profiles_ok d" and p: "p \<in> set (pb_profiles d)"
    using ensure_profile_ok [OF assms, of user] ensure_profile_row(1) [of user db] by (simp_all add: e)
  define b where "b = update_profile_version (pf_id p) d"
  define q where "q = p\<lparr>pf_version := pf_version p + 1\<rparr>"
  have b: "profiles_ok b" "q \<in> set (pb_profiles b)" "pf_id q = pf_id p" "pf_version q = pf_version p + 1"
    "next_confirmed_version_number b (pf_id p) = next_confirmed_version_number d (pf_id p)"
    using bump_ok [OF ok] p
    by (auto simp: b_def q_def update_profile_version_def update_profile_def next_confirmed_version_number_def)
  define c where "c = create_version (pf_id p) (next_confirmed_version_number d (pf_id p)) (pf_version p + 1)"
  have "profiles_ok (set_active_version (pf_id p) (Some (cv_id (fst (c fs es rs b)))) (snd (c fs es rs b)))" for fs es rs
    using create_version_ok [OF b(1,2), of "pf_version p + 1" "c fs es rs b" fs es rs]
    by (intro set_active_ok) (simp_all add: b(3-5) c_def)
  then have "profiles_ok (update_profile_version (pf_id p)
      (set_active_version (pf_id p) (Some (cv_id (fst (c fs es rs d)))) (snd (c fs es rs d))))" for fs es rs
    by (simp add: c_def bump_commutes b_def)
  then show ?thesis
    using assms ok
    by (auto simp: create_confirmed_version_def get_profile_for_update_def e Let_def case_prod_beta c_def split: option.split)
qed

lemma serve_ok:
  assumes "profiles_ok (we_db w)"
  shows "profiles_ok (we_db (snd (serve ve up user req w)))"
  using assms
proof (cases req)
  case (DeleteAsset asset)
  then show ?thesis
    using assms delete_ok [OF assms, of user asset]
    by (cases "delete_asset user asset (we_db w)") (simp add: serve_defs split: sum.split)
qed (simp_all add: serve_defs Let_def case_prod_beta upload_ok create_import_request_ok handled_ok reconcile_ok
    apply_decisions_ok update_reference_ok confirm_ok activate_ok)

lemma time_ok:
  assumes "profiles_ok db"
  shows "profiles_ok (db\<lparr>pb_now := t\<rparr>)" (is "profiles_ok ?d")
proof (rule profiles_okI)
  note ok = profiles_okD [OF assms]
  show "links_ok ?d" using ok(7) by (simp add: links_ok_def)
  show "versions_ok ?d" using ok(8) by (subst versions_ok_frame [where db = db]) simp_all
  show "sequences_ok ?d" using ok(9) by (subst sequences_ok_frame [where db = db]) simp_all
qed (use profiles_okD [OF assms] in \<open>simp_all add: table_ok_mono\<close>)

lemma empty_ok: "profiles_ok (we_db empty_web)"
  by (simp add: empty_web_def profiles_ok_def keys_ok_def links_ok_def versions_ok_def sequences_ok_def table_ok_def
      evidence_of_def)

lemma served_ok: "served ve w w' \<Longrightarrow> profiles_ok (we_db w) \<Longrightarrow> profiles_ok (we_db w')"
  by (induction rule: served.induct) (simp_all add: serve_ok time_ok)

end
