(* ===== verification/ProfileIsolation.thy ===== *)
theory ProfileIsolation
  imports ProfileSafety
begin

section \<open>The rows of one user\<close>

text \<open>
  What one user's requests do to the rows of the others. \<open>user_rows\<close> is everything the tables hold
  for a user; two states are \<open>apart\<close> for a user when they hold the same for everybody else.
\<close>

definition user_rows :: "profile_db \<Rightarrow> str \<Rightarrow> profile_row list \<times> asset_row list \<times> import_row list
    \<times> evidence_row list \<times> decision_row list \<times> version_row list" where
  "user_rows db user =
     (filter (\<lambda>p. pf_user p = user) (pb_profiles db), filter (\<lambda>a. owns db user (as_profile a)) (pb_assets db),
      filter (\<lambda>i. owns db user (im_profile i)) (pb_imports db), filter (\<lambda>e. owns db user (pe_profile e)) (pb_evidence db),
      filter (\<lambda>d. owns db user (pd_profile d)) (pb_decisions db), filter (\<lambda>v. owns db user (cv_profile v)) (pb_versions db))"

definition apart :: "str \<Rightarrow> profile_db \<Rightarrow> profile_db \<Rightarrow> bool" where
  "apart user db d \<longleftrightarrow> (\<forall>other. other \<noteq> user \<longrightarrow> user_rows d other = user_rows db other)"

lemma apart_refl [simp]: "apart user db db"
  by (simp add: apart_def)

lemma apart_trans: "apart user a b \<Longrightarrow> apart user b c \<Longrightarrow> apart user a c"
  by (simp add: apart_def)

lemma owns_unique: "profiles_ok db \<Longrightarrow> owns db u pid \<Longrightarrow> owns db v pid \<Longrightarrow> u = v"
  by (auto simp: owns_def dest: owner_unique(1))

lemma owns_ids:
  assumes "map (\<lambda>p. (pf_id p, pf_user p)) (pb_profiles d) = map (\<lambda>p. (pf_id p, pf_user p)) (pb_profiles db)"
  shows "owns d u pid \<longleftrightarrow> owns db u pid"
proof -
  have "owns x u pid \<longleftrightarrow> (pid, u) \<in> set (map (\<lambda>p. (pf_id p, pf_user p)) (pb_profiles x))" for x
    by (auto simp: owns_def)
  then show ?thesis using assms by metis
qed

text \<open>The owners stay; each table changes in rows of the user only.\<close>

lemma apartI:
  assumes "\<And>o' pid. o' \<noteq> user \<Longrightarrow> owns d o' pid \<longleftrightarrow> owns db o' pid"
    and "\<And>o'. o' \<noteq> user \<Longrightarrow> filter (\<lambda>p. pf_user p = o') (pb_profiles d) = filter (\<lambda>p. pf_user p = o') (pb_profiles db)"
    and "\<And>o'. o' \<noteq> user \<Longrightarrow> filter (\<lambda>a. owns db o' (as_profile a)) (pb_assets d) = filter (\<lambda>a. owns db o' (as_profile a)) (pb_assets db)"
    and "\<And>o'. o' \<noteq> user \<Longrightarrow> filter (\<lambda>a. owns db o' (im_profile a)) (pb_imports d) = filter (\<lambda>a. owns db o' (im_profile a)) (pb_imports db)"
    and "\<And>o'. o' \<noteq> user \<Longrightarrow> filter (\<lambda>a. owns db o' (pe_profile a)) (pb_evidence d) = filter (\<lambda>a. owns db o' (pe_profile a)) (pb_evidence db)"
    and "\<And>o'. o' \<noteq> user \<Longrightarrow> filter (\<lambda>a. owns db o' (pd_profile a)) (pb_decisions d) = filter (\<lambda>a. owns db o' (pd_profile a)) (pb_decisions db)"
    and "\<And>o'. o' \<noteq> user \<Longrightarrow> filter (\<lambda>a. owns db o' (cv_profile a)) (pb_versions d) = filter (\<lambda>a. owns db o' (cv_profile a)) (pb_versions db)"
  shows "apart user db d"
  unfolding apart_def user_rows_def using assms by simp

lemma apartI_rows:
  assumes "pb_profiles d = pb_profiles db"
    and "\<And>o'. o' \<noteq> user \<Longrightarrow> filter (\<lambda>a. owns db o' (as_profile a)) (pb_assets d) = filter (\<lambda>a. owns db o' (as_profile a)) (pb_assets db)"
    and "\<And>o'. o' \<noteq> user \<Longrightarrow> filter (\<lambda>a. owns db o' (im_profile a)) (pb_imports d) = filter (\<lambda>a. owns db o' (im_profile a)) (pb_imports db)"
    and "\<And>o'. o' \<noteq> user \<Longrightarrow> filter (\<lambda>a. owns db o' (pe_profile a)) (pb_evidence d) = filter (\<lambda>a. owns db o' (pe_profile a)) (pb_evidence db)"
    and "\<And>o'. o' \<noteq> user \<Longrightarrow> filter (\<lambda>a. owns db o' (pd_profile a)) (pb_decisions d) = filter (\<lambda>a. owns db o' (pd_profile a)) (pb_decisions db)"
    and "\<And>o'. o' \<noteq> user \<Longrightarrow> filter (\<lambda>a. owns db o' (cv_profile a)) (pb_versions d) = filter (\<lambda>a. owns db o' (cv_profile a)) (pb_versions db)"
  shows "apart user db d"
  by (rule apartI) (use assms(2-) in \<open>simp_all add: owns_def assms(1)\<close>)

lemma filter_map_if:
  assumes "\<And>x. x \<in> set xs \<Longrightarrow> P x \<Longrightarrow> \<not> Q x \<and> \<not> Q (f x)"
  shows "filter Q (map (\<lambda>x. if P x then f x else x) xs) = filter Q xs"
  using assms by (induction xs) auto

lemma filter_filter_if: "(\<And>x. x \<in> set xs \<Longrightarrow> Q x \<Longrightarrow> P x) \<Longrightarrow> filter Q (filter P xs) = filter Q xs"
  by (auto intro: filter_cong)

subsection \<open>One row\<close>

lemma ensure_apart: "apart user db (snd (ensure_profile user db))"
  by (rule apartI) (auto simp: ensure_profile_def Let_def owns_def split: option.split)

lemma other_owner: "profiles_ok db \<Longrightarrow> owns db user pid \<Longrightarrow> o' \<noteq> user \<Longrightarrow> \<not> owns db o' pid"
  using owns_unique by auto

lemma add_asset_apart:
  "profiles_ok db \<Longrightarrow> owns db user (as_profile a) \<Longrightarrow> apart user db (db\<lparr>pb_assets := pb_assets db @ [a], pb_next := Suc (pb_next db)\<rparr>)"
  by (rule apartI_rows) (auto simp: other_owner)

lemma create_import_apart: "profiles_ok db \<Longrightarrow> owns db user (as_profile a) \<Longrightarrow> apart user db (snd (create_import a v db))"
  by (rule apartI_rows) (auto simp: create_import_def Let_def other_owner)

lemma add_evidence_apart:
  "profiles_ok db \<Longrightarrow> owns db user (pe_profile e) \<Longrightarrow> apart user db (db\<lparr>pb_evidence := pb_evidence db @ [e], pb_next := Suc (pb_next db)\<rparr>)"
  by (rule apartI_rows) (auto simp: other_owner)

lemma append_decision_apart: "profiles_ok db \<Longrightarrow> owns db user pid \<Longrightarrow> apart user db (append_decision pid ev u a v db)"
  by (rule apartI_rows) (auto simp: append_decision_def other_owner)

lemma create_version_apart: "profiles_ok db \<Longrightarrow> owns db user pid \<Longrightarrow> apart user db (snd (create_version pid n g fs es rs db))"
  by (rule apartI_rows) (auto simp: create_version_def Let_def other_owner)

lemma owned_asset_id:
  assumes ok: "profiles_ok db" and "a \<in> set (pb_assets db)" and "owns db user (as_profile a)" and "b \<in> set (pb_assets db)" and "as_id b = as_id a"
  shows "owns db user (as_profile b)"
  using table_ok_unique [OF profiles_okD(3) [OF ok] assms(2,4)] assms by simp

lemma update_asset_apart:
  assumes ok: "profiles_ok db" and "a \<in> set (pb_assets db)" and "owns db user (as_profile a)" and "\<And>b. as_profile (f b) = as_profile b"
  shows "apart user db (update_asset (as_id a) f db)"
proof (rule apartI)
  show "filter (\<lambda>b. owns db o' (as_profile b)) (pb_assets (update_asset (as_id a) f db))
      = filter (\<lambda>b. owns db o' (as_profile b)) (pb_assets db)" if "o' \<noteq> user" for o'
    unfolding update_asset_def using that
    by (simp, intro filter_map_if) (use owned_asset_id [OF ok assms(2,3)] other_owner [OF ok] assms(4) in auto)
qed (simp_all add: update_asset_def owns_def)

lemma update_import_apart:
  assumes ok: "profiles_ok db" and "i \<in> set (pb_imports db)" and "owns db user (im_profile i)"
  shows "apart user db (update_import_status (im_id i) st e db)"
proof (rule apartI)
  have same: "owns db user (im_profile j)" if "j \<in> set (pb_imports db)" "im_id j = im_id i" for j
    using table_ok_unique [OF profiles_okD(4) [OF ok] that(1) assms(2) that(2)] assms(3) by simp
  show "filter (\<lambda>b. owns db o' (im_profile b)) (pb_imports (update_import_status (im_id i) st e db))
      = filter (\<lambda>b. owns db o' (im_profile b)) (pb_imports db)" if "o' \<noteq> user" for o'
    unfolding update_import_status_def using that
    by (simp, intro filter_map_if) (use same other_owner [OF ok] in auto)
qed (simp_all add: update_import_status_def owns_def)

lemma update_profile_apart:
  assumes ok: "profiles_ok db" and "owns db user pid" and "\<And>p. pf_id (f p) = pf_id p" and "\<And>p. pf_user (f p) = pf_user p"
  shows "apart user db (update_profile pid f db)"
proof (rule apartI)
  show "owns (update_profile pid f db) o' i \<longleftrightarrow> owns db o' i" for o' i
    by (rule owns_ids) (simp add: update_profile_def assms)
  have "pf_user p = user" if "p \<in> set (pb_profiles db)" "pf_id p = pid" for p
    using assms(2) that owner_unique(1) [OF ok] by (fastforce simp: owns_def)
  then show "filter (\<lambda>p. pf_user p = o') (pb_profiles (update_profile pid f db)) = filter (\<lambda>p. pf_user p = o') (pb_profiles db)"
    if "o' \<noteq> user" for o'
    unfolding update_profile_def using that by (simp, intro filter_map_if) (auto simp: assms(4))
qed (simp_all add: update_profile_def)

lemma delete_asset_apart:
  assumes ok: "profiles_ok db" and "a \<in> set (pb_assets db)" and "owns db user (as_profile a)"
  shows "apart user db (delete_asset_rows (as_id a) db)"
proof (rule apartI)
  note links = linksD [OF profiles_okD(7) [OF ok]]
  let ?d = "delete_asset_rows (as_id a) db"
  have im: "owns db user (im_profile i)" if "i \<in> set (pb_imports db)" "im_asset i = as_id a" for i
    using links(2) [OF that(1)] that(2) owned_asset_id [OF ok assms(2,3)] by metis
  have ev: "owns db user (pe_profile e)"
    if "e \<in> set (pb_evidence db)" "i \<in> set (pb_imports db)" "im_asset i = as_id a" "pe_import e = im_id i" for e i
    using links(3) [OF that(1)] im [OF that(2,3)] table_ok_unique [OF profiles_okD(4) [OF ok] _ that(2)] that(4) by metis
  have de: "owns db user (pd_profile d)"
    if "d \<in> set (pb_decisions db)" "e \<in> set (pb_evidence db)" "i \<in> set (pb_imports db)" "im_asset i = as_id a"
      "pe_import e = im_id i" "pd_evidence d = pe_id e" for d e i
    using links(4) [OF that(1)] ev [OF that(2-5)] table_ok_unique [OF profiles_okD(5) [OF ok] _ that(2)] that(6) by metis
  show "owns ?d o' pid \<longleftrightarrow> owns db o' pid" for o' pid by (simp add: delete_asset_rows_def Let_def owns_def)
  show "filter (\<lambda>b. owns db o' (as_profile b)) (pb_assets ?d) = filter (\<lambda>b. owns db o' (as_profile b)) (pb_assets db)"
    if "o' \<noteq> user" for o'
    unfolding delete_asset_rows_def Let_def using that
    by (simp del: filter_filter, intro filter_filter_if) (use owned_asset_id [OF ok assms(2,3)] other_owner [OF ok] in auto)
  show "filter (\<lambda>b. owns db o' (im_profile b)) (pb_imports ?d) = filter (\<lambda>b. owns db o' (im_profile b)) (pb_imports db)"
    if "o' \<noteq> user" for o'
    unfolding delete_asset_rows_def Let_def using that
    by (simp del: filter_filter, intro filter_filter_if) (use im other_owner [OF ok] in auto)
  show "filter (\<lambda>b. owns db o' (pe_profile b)) (pb_evidence ?d) = filter (\<lambda>b. owns db o' (pe_profile b)) (pb_evidence db)"
    if "o' \<noteq> user" for o'
    unfolding delete_asset_rows_def list_imports_for_asset_def Let_def using that
    by (simp del: filter_filter, intro filter_filter_if) (use ev other_owner [OF ok] in \<open>auto, blast\<close>)
  show "filter (\<lambda>b. owns db o' (pd_profile b)) (pb_decisions ?d) = filter (\<lambda>b. owns db o' (pd_profile b)) (pb_decisions db)"
    if "o' \<noteq> user" for o'
    unfolding delete_asset_rows_def list_imports_for_asset_def Let_def using that
    by (simp del: filter_filter, intro filter_filter_if) (use de other_owner [OF ok] in \<open>auto, blast\<close>)
qed (simp_all add: delete_asset_rows_def Let_def)

subsection \<open>Whole requests\<close>

lemma handled_apart: "apart user db (snd out) \<Longrightarrow> apart user db (snd (handled catches code db out))"
  by (cases out) (auto simp: handled_def split: sum.split)

lemma ensure_owns:
  "owns (snd (ensure_profile user db)) user (pf_id (fst (ensure_profile user db)))"
  using ensure_profile_row [of user db] by (auto simp: owns_def)

lemma bump_apart: "profiles_ok db \<Longrightarrow> owns db user pid \<Longrightarrow> apart user db (update_profile_version pid db)"
  unfolding update_profile_version_def by (rule update_profile_apart) simp_all

lemma set_active_apart: "profiles_ok db \<Longrightarrow> owns db user pid \<Longrightarrow> apart user db (set_active_version pid v db)"
  unfolding set_active_version_def by (rule update_profile_apart) simp_all

lemma create_pending_rows:
  assumes "create_pending_asset user filename content_type raw db = (Inr a, d)"
  shows "a \<in> set (pb_assets d)" and "owns d user (as_profile a)"
  using assms ensure_owns [of user db]
  by (auto simp: create_pending_asset_def Let_def case_prod_beta owns_def split: option.splits if_splits)

lemma create_pending_apart:
  assumes "profiles_ok db"
  shows "apart user db (snd (create_pending_asset user filename content_type raw db))"
  using ensure_profile_ok [OF assms, of user] ensure_owns [of user db]
  by (auto simp: create_pending_asset_def Let_def case_prod_beta split: option.split
      intro!: apart_trans [OF ensure_apart add_asset_apart])

lemma upload_apart:
  assumes "profiles_ok (we_db w)"
  shows "apart user (we_db w) (we_db (snd (upload_resume_asset ve up user filename content_type raw nonce w)))"
proof (cases "create_pending_asset user filename content_type raw (we_db w)")
  case (Pair out d)
  show ?thesis
  proof (cases out)
    case (Inr a)
    note rows = create_pending_rows [OF Pair [unfolded Inr]]
    have d: "profiles_ok d" "apart user (we_db w) d"
      using create_pending_ok [OF assms, of user filename content_type raw]
        create_pending_apart [OF assms, of user filename content_type raw] by (simp_all add: Pair)
    have "apart user (we_db w) (mark_ready (as_id a) d)" "apart user (we_db w) (mark_upload_failed (as_id a) e d)" for e
      using apart_trans [OF d(2) update_asset_apart [OF d(1) rows]] by (simp_all add: mark_ready_def mark_upload_failed_def)
    then show ?thesis by (simp add: upload_resume_asset_def Pair Inr split: option.split)
  qed (simp add: upload_resume_asset_def Pair)
qed

lemma reconcile_apart: "profiles_ok db \<Longrightarrow> apart user db (snd (reconcile up blobs user asset db))"
  by (auto simp: reconcile_def mark_ready_def dest: get_owned_asset_Some intro!: update_asset_apart split: option.split)

lemma owner_profile:
  assumes "profiles_ok db" and "owns db user pid"
  shows "\<exists>p. ensure_profile user db = (p, db) \<and> pf_id p = pid"
proof -
  obtain q where q: "q \<in> set (pb_profiles db)" "pf_id q = pid" "pf_user q = user" using assms(2) by (auto simp: owns_def)
  have "get_profile_by_user db user \<noteq> None" using q unfolding get_profile_by_user_def find_None_iff_ex by blast
  then obtain p where p: "get_profile_by_user db user = Some p" by blast
  have "p = q" using owner_unique(2) [OF assms(1) _ q(1)] get_profile_Some [OF p] q(3) by simp
  then show ?thesis using p q(2) by (simp add: ensure_profile_def)
qed

lemma delete_apart:
  assumes "profiles_ok db"
  shows "apart user db (snd (delete_asset user asset db))"
proof (cases "get_owned_asset db user asset")
  case (Some a)
  note a = get_owned_asset_Some [OF Some]
  obtain p where p: "ensure_profile user db = (p, db)" "pf_id p = as_profile a" using owner_profile [OF assms a(3)] by blast
  have "owns (delete_asset_rows (as_id a) db) user (pf_id p)"
    using a(3) by (simp add: p(2) owns_def delete_asset_rows_def Let_def)
  then show ?thesis
    using apart_trans [OF delete_asset_apart [OF assms a(1,3)] bump_apart [OF delete_asset_ok [OF assms]]]
    by (simp add: delete_asset_def Some get_profile_for_update_def p(1))
qed (simp add: delete_asset_def)

lemma append_evidence_apart:
  assumes "profiles_ok db" and "n = int (length (evidence_of db imp)) + 1" and "owns db user pid"
    and "\<exists>i \<in> set (pb_imports db). im_id i = imp \<and> im_profile i = pid"
  shows "apart user db (append_evidence_from n pid imp cs db)"
  using assms
proof (induction cs arbitrary: n db)
  case (Cons c cs)
  let ?e = "\<lparr>pe_id = new_id db, pe_profile = pid, pe_import = imp, pe_path = cd_path c, pe_value = cd_value c,
    pe_excerpt = cd_excerpt c, pe_confidence = cd_confidence c, pe_sequence = n, pe_created = pb_now db\<rparr>"
  define d where "d = db\<lparr>pb_evidence := pb_evidence db @ [?e], pb_next := Suc (pb_next db)\<rparr>"
  have "profiles_ok d"
    unfolding d_def by (rule add_evidence_ok) (use Cons.prems in auto)
  moreover have "n + 1 = int (length (evidence_of d imp)) + 1"
    using Cons.prems(2) by (simp add: d_def evidence_of_def)
  moreover have "owns d user pid" using Cons.prems(3) by (simp add: d_def owns_def)
  moreover have "\<exists>i \<in> set (pb_imports d). im_id i = imp \<and> im_profile i = pid" using Cons.prems(4) by (simp add: d_def)
  ultimately have "apart user d (append_evidence_from (n + 1) pid imp cs d)" by (rule Cons.IH)
  moreover have "apart user db d" unfolding d_def by (rule add_evidence_apart) (use Cons.prems in auto)
  ultimately show ?case by (simp add: apart_trans flip: d_def)
qed simp

lemma mark_import_apart:
  assumes "profiles_ok db" and "i \<in> set (pb_imports db)" and "owns db user (im_profile i)"
  shows "apart user db (update_import_status (im_id i) st e db)"
    and "profiles_ok (update_import_status (im_id i) st e db)"
    and "owns (update_import_status (im_id i) st e db) user (im_profile i)"
  using update_import_apart [OF assms] update_import_ok [OF assms(1)] assms(3)
  by (simp_all add: owns_def update_import_frame)

lemma process_import_apart:
  assumes "profiles_ok db" and "evidence_of db imp = []"
  shows "apart user db (snd (process_import ve up blobs user imp db))"
proof (cases "get_owned_import db user imp")
  case (Some i)
  note i = get_owned_import_Some [OF Some]
  define db1 where "db1 = update_import_status imp Parsing None db"
  note first = mark_import_apart [OF assms(1) i(1,3), of Parsing None, unfolded i(2), folded db1_def]
  have ev: "evidence_of db1 imp = []" using assms(2) by (simp add: db1_def evidence_of_def update_import_frame)
  have im: "\<exists>j \<in> set (pb_imports db1). im_id j = imp \<and> im_profile j = im_profile i"
    using update_import_keeps i(1,2) unfolding db1_def by blast
  define grown where "grown cs = append_evidence (im_profile i) imp cs db1" for cs
  have g: "profiles_ok (grown cs)" "apart user db1 (grown cs)" "pb_imports (grown cs) = pb_imports db1"
    "pb_profiles (grown cs) = pb_profiles db1" for cs
  proof -
    show "profiles_ok (grown cs)" unfolding grown_def by (rule append_evidence_ok [OF first(2) ev im])
    show "apart user db1 (grown cs)" unfolding grown_def append_evidence_def
      by (rule append_evidence_apart [OF first(2) _ first(3) im]) (simp add: ev)
    have "pb_imports (append_evidence_from n pid k cs d) = pb_imports d \<and> pb_profiles (append_evidence_from n pid k cs d) = pb_profiles d"
      for n pid k d by (induction cs arbitrary: n d) simp_all
    then show "pb_imports (grown cs) = pb_imports db1" "pb_profiles (grown cs) = pb_profiles db1"
      by (simp_all add: grown_def append_evidence_def)
  qed
  have mark: "apart user d (update_import_status imp st e d)"
    if okd: "profiles_ok d" and imd: "pb_imports d = pb_imports db1" and pfd: "pb_profiles d = pb_profiles db1" for d st e
  proof -
    obtain j where j: "j \<in> set (pb_imports d)" "im_id j = imp" "im_profile j = im_profile i" using im imd by auto
    have "owns d user (im_profile j)" using first(3) pfd j(3) by (simp add: owns_def)
    then show ?thesis using update_import_apart [OF okd j(1)] j(2) by simp
  qed
  have "apart user db (update_import_status imp st e db1)" "apart user db (update_import_status imp st e (grown cs))" for st e cs
    using apart_trans [OF first(1) mark [OF first(2) refl refl]]
      apart_trans [OF first(1) apart_trans [OF g(2) mark [OF g(1,3,4)]]] by simp_all
  then show ?thesis
    using first(1) unfolding grown_def by (simp add: process_import_def Some Let_def flip: db1_def) (auto split: option.split)
qed (simp add: process_import_def)

lemma start_import_apart: "profiles_ok db \<Longrightarrow> apart user db (snd (start_import user asset db))"
  by (auto simp: start_import_def case_prod_beta dest: get_owned_asset_Some intro: create_import_apart split: option.split)

lemma create_import_request_apart:
  assumes "profiles_ok (we_db w)"
  shows "apart user (we_db w) (we_db (snd (create_resume_import ve up user asset w)))"
proof (cases "start_import user asset (we_db w)")
  case (Pair out d)
  show ?thesis
  proof (cases out)
    case (Inr i)
    have d: "profiles_ok d" "apart user (we_db w) d"
      using start_import_ok [OF assms, of user asset] start_import_apart [OF assms, of user asset] by (simp_all add: Pair)
    have "evidence_of d (im_id i) = []"
      using start_import_new [OF Pair [unfolded Inr]] no_evidence_fresh [OF assms] by (simp add: evidence_of_def)
    then show ?thesis
      using apart_trans [OF d(2) handled_apart [OF process_import_apart [OF d(1)]]]
      by (simp add: create_resume_import_def Pair Inr case_prod_beta Let_def)
  qed (simp add: create_resume_import_def Pair)
qed

lemma decide_each_apart:
  assumes "profiles_ok db" and "owns db user pid"
  shows "apart user db (snd (decide_each u pid ds db))"
  using assms
proof (induction ds arbitrary: db)
  case (Cons d ds)
  show ?case
  proof (cases "get_profile_evidence_by_id db pid (di_evidence d)")
    case (Some e)
    let ?db = "append_decision pid (di_evidence d) u (di_action d) (if di_action d = CorrectFact then di_value d else JNull) db"
    have "profiles_ok ?db" "owns ?db user pid" "apart user db ?db"
      using append_decision_ok [OF Cons.prems(1) Some] append_decision_apart [OF Cons.prems] Cons.prems(2)
      by (simp_all add: append_decision_def owns_def)
    then have "apart user db (snd (decide_each u pid ds ?db))" using apart_trans Cons.IH by blast
    then show ?thesis by (cases "di_action d = CorrectFact") (simp_all add: Some)
  qed simp
qed simp

lemma decide_each_frame:
  "pb_profiles (snd (decide_each u pid ds db)) = pb_profiles db"
  by (induction ds arbitrary: db) (simp_all add: append_decision_def split: option.split)

lemma apply_decisions_apart:
  assumes "profiles_ok db"
  shows "apart user db (snd (apply_decisions user expected ds db))"
proof -
  obtain p d where e: "ensure_profile user db = (p, d)" by fastforce
  have d: "profiles_ok d" "owns d user (pf_id p)" "apart user db d"
    using ensure_profile_ok [OF assms, of user] ensure_owns [of user db] ensure_apart [of user db] by (simp_all add: e)
  obtain out d2 where o: "decide_each user (pf_id p) ds d = (out, d2)" by fastforce
  have d2: "profiles_ok d2" "owns d2 user (pf_id p)" "apart user d d2"
    using decide_each_ok [OF d(1), of user "pf_id p" ds] decide_each_apart [OF d(1,2), of user ds] d(2)
      decide_each_frame [of user "pf_id p" ds d] by (simp_all add: o owns_def)
  show ?thesis
    using d(3) apart_trans [OF d(3) d2(3)] apart_trans [OF apart_trans [OF d(3) d2(3)] bump_apart [OF d2(1,2)]]
    by (simp add: apply_decisions_def get_profile_for_update_def e o split: sum.split)
qed

lemma update_reference_apart:
  assumes "profiles_ok db"
  shows "apart user db (snd (update_local_sensitive_reference ve user expected category reference db))"
proof -
  obtain p d where e: "ensure_profile user db = (p, d)" by fastforce
  have d: "profiles_ok d" "owns d user (pf_id p)" "apart user db d"
    using ensure_profile_ok [OF assms, of user] ensure_owns [of user db] ensure_apart [of user db] by (simp_all add: e)
  define d2 where "d2 v = update_profile (pf_id p) (\<lambda>q. q\<lparr>pf_refs := dput category v (pf_refs q)\<rparr>) d" for v
  have "profiles_ok (d2 v)" "owns (d2 v) user (pf_id p)" "apart user d (d2 v)" for v
    unfolding d2_def using set_refs_ok [OF d(1)] update_profile_apart [OF d(1,2)] d(2)
      owns_ids [of "update_profile (pf_id p) (\<lambda>q. q\<lparr>pf_refs := dput category v (pf_refs q)\<rparr>) d" d]
    by (simp_all add: update_profile_def)
  then have "apart user db (update_profile_version (pf_id p) (d2 v))" for v
    using apart_trans [OF apart_trans [OF d(3)] bump_apart] by blast
  then show ?thesis
    using d(3) by (simp add: update_local_sensitive_reference_def get_profile_for_update_def e Let_def flip: d2_def)
qed

lemma confirm_apart:
  assumes "profiles_ok db"
  shows "apart user db (snd (create_confirmed_version user expected imp db))"
proof -
  obtain p d where e: "ensure_profile user db = (p, d)" by fastforce
  have d: "profiles_ok d" "owns d user (pf_id p)" "apart user db d"
    using ensure_profile_ok [OF assms, of user] ensure_owns [of user db] ensure_apart [of user db] by (simp_all add: e)
  have p: "p \<in> set (pb_profiles d)" using ensure_profile_row(1) [of user db] by (simp add: e)
  define b where "b = update_profile_version (pf_id p) d"
  define q where "q = p\<lparr>pf_version := pf_version p + 1\<rparr>"
  have b: "profiles_ok b" "q \<in> set (pb_profiles b)" "pf_id q = pf_id p" "pf_version q = pf_version p + 1"
    "next_confirmed_version_number b (pf_id p) = next_confirmed_version_number d (pf_id p)" "owns b user (pf_id p)"
    using bump_ok [OF d(1)] p d(2) owns_ids [of b d]
    by (auto simp: b_def q_def update_profile_version_def update_profile_def next_confirmed_version_number_def)
  have ab: "apart user db b" using apart_trans [OF d(3) bump_apart [OF d(1,2)]] by (simp add: b_def)
  define c where "c = create_version (pf_id p) (next_confirmed_version_number d (pf_id p)) (pf_version p + 1)"
  have "profiles_ok (snd (c fs es rs b))" "owns (snd (c fs es rs b)) user (pf_id p)" "apart user b (snd (c fs es rs b))" for fs es rs
    using create_version_ok(1) [OF b(1,2), of "pf_version p + 1" "c fs es rs b" fs es rs] create_version_apart [OF b(1,6)] b(6)
    by (simp_all add: b(3-5) c_def) (simp add: owns_def create_version_def Let_def)
  then have "apart user db (set_active_version (pf_id p) v (snd (c fs es rs b)))" for v fs es rs
    using apart_trans [OF apart_trans [OF ab] set_active_apart] by blast
  then have "apart user db (update_profile_version (pf_id p) (set_active_version (pf_id p) v (snd (c fs es rs d))))" for v fs es rs
    by (simp add: c_def bump_commutes b_def)
  then show ?thesis
    using d(3) by (auto simp: create_confirmed_version_def get_profile_for_update_def e Let_def case_prod_beta c_def split: option.split)
qed

lemma activate_apart:
  assumes "profiles_ok db"
  shows "apart user db (snd (activate_version user version db))"
proof (cases "get_owned_version db user version")
  case (Some v)
  note v = get_owned_version_Some [OF Some]
  obtain p where p: "ensure_profile user db = (p, db)" "pf_id p = cv_profile v" using owner_profile [OF assms v(3)] by blast
  then show ?thesis
    using set_active_apart [OF assms v(3)] by (simp add: activate_version_def Some get_profile_for_update_def)
qed (simp add: activate_version_def)

lemma serve_apart:
  assumes "profiles_ok (we_db w)"
  shows "apart user (we_db w) (we_db (snd (serve ve up user req w)))"
proof (cases req)
  case (DeleteAsset asset)
  then show ?thesis
    using delete_apart [OF assms, of user asset]
    by (cases "delete_asset user asset (we_db w)") (simp add: serve_defs split: sum.split)
qed (use assms in \<open>simp_all add: serve_defs Let_def case_prod_beta upload_apart create_import_request_apart handled_apart
    reconcile_apart apply_decisions_apart update_reference_apart confirm_apart activate_apart\<close>)

subsection \<open>The objects of one user\<close>

text \<open>The key of an asset's object ends in the asset's id, so that different assets have different keys.\<close>

definition keyed :: "profile_db \<Rightarrow> bool" where
  "keyed db \<longleftrightarrow> (\<forall>a \<in> set (pb_assets db). \<exists>u. as_key a = object_key u (as_id a))"

lemma nat_digits_no_slash: "47 \<notin> set (nat_digits n)"
  by (induction n rule: nat_digits.induct) (simp add: nat_digits.simps)

lemma object_key_id:
  assumes "object_key u i = object_key v j" and "47 \<notin> set i" and "47 \<notin> set j"
  shows "i = j"
proof -
  have "takeWhile (\<lambda>c. c \<noteq> 47) (rev (object_key u i)) = rev i" if "47 \<notin> set i" for u i
  proof -
    have "takeWhile (\<lambda>c. c \<noteq> 47) (rev i @ 47 # ys) = rev i" for ys
      using that by (subst takeWhile_append2) auto
    then show ?thesis by (simp add: object_key_def lit_def)
  qed
  then show ?thesis using assms by (metis rev_rev_ident)
qed

lemma keyed_distinct:
  assumes "profiles_ok db" and "keyed db" and "a \<in> set (pb_assets db)" and "b \<in> set (pb_assets db)" and "as_key a = as_key b"
  shows "a = b"
proof -
  have "47 \<notin> set (as_id x)" if "x \<in> set (pb_assets db)" for x
    using profiles_okD(3) [OF assms(1)] that nat_digits_no_slash by (auto simp: table_ok_def key_ok_def)
  then have "as_id a = as_id b"
    using assms(2-5) object_key_id unfolding keyed_def by metis
  then show ?thesis using table_ok_unique [OF profiles_okD(3) [OF assms(1)] assms(3,4)] by simp
qed

lemma keyed_same: "pb_assets d = pb_assets db \<Longrightarrow> keyed d \<longleftrightarrow> keyed db"
  by (simp add: keyed_def)

lemma keyed_ensure: "keyed (snd (ensure_profile user db)) \<longleftrightarrow> keyed db"
  by (rule keyed_same) (rule ensure_profile_frame)

lemma keyed_update_profile [simp]: "keyed (update_profile pid f db) \<longleftrightarrow> keyed db"
  "keyed (update_profile_version pid db) \<longleftrightarrow> keyed db" "keyed (set_active_version pid v db) \<longleftrightarrow> keyed db"
  by (simp_all add: keyed_def update_profile_version_def set_active_version_def update_profile_def)

lemma keyed_mark [simp]: "keyed db \<Longrightarrow> keyed (mark_ready i db)" "keyed db \<Longrightarrow> keyed (mark_upload_failed i c db)"
  by (auto simp: keyed_def mark_ready_def mark_upload_failed_def update_asset_def)

lemma keyed_delete: "keyed db \<Longrightarrow> keyed (delete_asset_rows i db)"
  by (auto simp: keyed_def delete_asset_rows_def Let_def)

lemma keyed_update_import [simp]: "keyed (update_import_status k st e db) \<longleftrightarrow> keyed db"
  by (rule keyed_same) (rule update_import_frame)

lemma keyed_append_evidence [simp]: "keyed (append_evidence pid k cs db) \<longleftrightarrow> keyed db"
proof -
  have "pb_assets (append_evidence_from n pid k cs db) = pb_assets db" for n
    by (induction cs arbitrary: n db) simp_all
  then show ?thesis unfolding append_evidence_def by (rule keyed_same)
qed

lemma keyed_decide_each [simp]: "keyed (snd (decide_each u pid ds db)) \<longleftrightarrow> keyed db"
proof -
  have "pb_assets (snd (decide_each u pid ds db)) = pb_assets db"
    by (induction ds arbitrary: db) (simp_all add: append_decision_def split: option.split)
  then show ?thesis by (rule keyed_same)
qed

lemma keyed_create [simp]: "keyed (snd (create_version pid n g fs es rs db)) \<longleftrightarrow> keyed db"
  "keyed (snd (create_import a v db)) \<longleftrightarrow> keyed db"
  by (simp_all add: keyed_def create_version_def create_import_def Let_def)

lemma keyed_handled: "keyed db \<Longrightarrow> keyed (snd out) \<Longrightarrow> keyed (snd (handled catches code db out))"
  by (cases out) (auto simp: handled_def split: sum.split)

lemma create_pending_keyed:
  assumes "keyed db"
  shows "keyed (snd (create_pending_asset user filename content_type raw db))"
  using keyed_ensure [of user db] assms
  by (auto simp: create_pending_asset_def Let_def case_prod_beta keyed_def split: option.split)

lemma create_pending_key:
  assumes "create_pending_asset user filename content_type raw db = (Inr a, d)"
  shows "as_key a = object_key user (as_id a)" and "as_id a = new_id (snd (ensure_profile user db))"
  using assms by (auto simp: create_pending_asset_def Let_def case_prod_beta split: option.splits if_splits)

lemma process_import_keyed: "keyed db \<Longrightarrow> keyed (snd (process_import ve up blobs user imp db))"
  by (auto simp: process_import_def Let_def split: option.split)

lemma apply_decisions_keyed:
  assumes "keyed db"
  shows "keyed (snd (apply_decisions user expected ds db))"
proof -
  obtain p d where e: "ensure_profile user db = (p, d)" by fastforce
  have "keyed d" using keyed_ensure [of user db] assms by (simp add: e)
  moreover obtain out d2 where o: "decide_each user (pf_id p) ds d = (out, d2)" by fastforce
  ultimately have "keyed d2" using keyed_decide_each [of user "pf_id p" ds d] by simp
  then show ?thesis using \<open>keyed d\<close> by (simp add: apply_decisions_def get_profile_for_update_def e o split: sum.split)
qed

lemma serve_keyed:
  assumes "keyed (we_db w)"
  shows "keyed (we_db (snd (serve ve up user req w)))"
proof (cases req)
  case (UploadAsset filename content_type raw nonce)
  have "keyed (snd (create_pending_asset user filename content_type raw (we_db w)))" by (rule create_pending_keyed [OF assms])
  then show ?thesis using assms
    by (cases "create_pending_asset user filename content_type raw (we_db w)")
      (auto simp: UploadAsset serve_defs upload_resume_asset_def split: sum.split option.split)
next
  case (DeleteAsset asset)
  have "keyed (snd (delete_asset user asset (we_db w)))"
    using assms by (auto simp: delete_asset_def get_profile_for_update_def case_prod_beta keyed_delete keyed_ensure split: option.split)
  then show ?thesis using assms
    by (cases "delete_asset user asset (we_db w)") (auto simp: DeleteAsset serve_defs split: sum.split)
next
  case (ImportAsset asset)
  have "keyed (snd (start_import user asset (we_db w)))"
    using assms by (auto simp: start_import_def case_prod_beta split: option.split)
  then show ?thesis using assms
    by (cases "start_import user asset (we_db w)")
      (auto simp: ImportAsset serve_defs create_resume_import_def case_prod_beta Let_def keyed_handled process_import_keyed split: sum.split)
qed (use assms in \<open>auto simp: serve_defs Let_def case_prod_beta apply_decisions_keyed get_profile_for_update_def keyed_ensure
    reconcile_def update_local_sensitive_reference_def create_confirmed_version_def activate_version_def
    intro!: keyed_handled split: option.split\<close>)

text \<open>The objects of the assets of the others.\<close>

lemma serve_blobs:
  assumes "profiles_ok (we_db w)" and "keyed (we_db w)"
    and "b \<in> set (pb_assets (we_db w))" and "\<not> owns (we_db w) user (as_profile b)"
  shows "we_blobs (snd (serve ve up user req w)) (as_key b) = we_blobs w (as_key b)"
proof (cases req)
  case (UploadAsset filename content_type raw nonce)
  show ?thesis
  proof (cases "create_pending_asset user filename content_type raw (we_db w)")
    case (Pair out d)
    show ?thesis
    proof (cases out)
      case (Inr a)
      note a = create_pending_key [OF Pair [unfolded Inr]]
      let ?d = "snd (ensure_profile user (we_db w))"
      have t: "table_ok ?d as_id (pb_assets ?d)" using profiles_okD(3) [OF ensure_profile_ok [OF assms(1)]] .
      then have bid: "47 \<notin> set (as_id b)"
        using assms(3) nat_digits_no_slash by (auto simp: ensure_profile_frame table_ok_def key_ok_def)
      have "as_id b \<in> as_id ` set (pb_assets ?d)" using assms(3) by (simp add: ensure_profile_frame)
      then have bia: "as_id b \<noteq> as_id a" using table_ok_fresh [OF t] a(2) by metis
      obtain u where "as_key b = object_key u (as_id b)" using assms(2,3) by (auto simp: keyed_def)
      then have "as_key b \<noteq> as_key a"
        using object_key_id bid bia a nat_digits_no_slash by (metis new_id_def)
      then show ?thesis
        by (auto simp: UploadAsset serve_defs upload_resume_asset_def Pair Inr put_object_def split: option.split if_splits)
    qed (simp add: UploadAsset serve_defs upload_resume_asset_def Pair)
  qed
next
  case (DeleteAsset asset)
  show ?thesis
  proof (cases "get_owned_asset (we_db w) user asset")
    case (Some a)
    have "as_key b \<noteq> as_key a"
      using keyed_distinct [OF assms(1,2) get_owned_asset_Some(1) [OF Some] assms(3)] get_owned_asset_Some(3) [OF Some] assms(4) by auto
    then show ?thesis
      by (simp add: DeleteAsset serve_defs delete_asset_def Some case_prod_beta delete_object_def Let_def)
  qed (simp add: DeleteAsset serve_defs delete_asset_def)
next
  case (ImportAsset asset)
  then show ?thesis
    by (auto simp: serve_defs create_resume_import_def case_prod_beta Let_def split: sum.split)
qed (simp_all add: serve_defs Let_def case_prod_beta)

lemma get_owned_asset_rows:
  "get_owned_asset db user asset = find (\<lambda>a. as_id a = asset) (fst (snd (user_rows db user)))"
proof -
  have "find (\<lambda>a. as_id a = asset \<and> P a) xs = find (\<lambda>a. as_id a = asset) (filter P xs)" for P and xs :: "asset_row list"
    by (induction xs) auto
  then show ?thesis by (simp add: get_owned_asset_def user_rows_def)
qed

lemma serve_download:
  assumes "profiles_ok (we_db w)" and "keyed (we_db w)" and "other \<noteq> user"
  shows "download_resume_asset ve up other asset (snd (serve ve up' user req w)) = download_resume_asset ve up other asset w"
proof -
  have same: "get_owned_asset (we_db (snd (serve ve up' user req w))) other asset = get_owned_asset (we_db w) other asset"
    using serve_apart [OF assms(1)] assms(3) by (simp add: get_owned_asset_rows apart_def)
  show ?thesis
  proof (cases "get_owned_asset (we_db w) other asset")
    case (Some a)
    note a = get_owned_asset_Some [OF Some]
    have "\<not> owns (we_db w) user (as_profile a)" using owns_unique [OF assms(1) a(3)] assms(3) by auto
    then show ?thesis
      using serve_blobs [OF assms(1,2) a(1)] by (simp add: download_resume_asset_def same Some get_object_def)
  qed (simp add: download_resume_asset_def same)
qed

lemma served_keyed: "served ve w w' \<Longrightarrow> keyed (we_db w) \<Longrightarrow> keyed (we_db w')"
  by (induction rule: served.induct) (simp_all add: serve_keyed, simp add: keyed_def)

end
