(* ===== verification/ProfileProperties.thy ===== *)
theory ProfileProperties
  imports ProfileIsolation
begin

section \<open>What the profile services promise\<close>

text \<open>
  The properties of the services of \<open>backend/app/services/profiles.py\<close> behind their routes: the tables
  stay consistent, users are isolated, of two writes that expect the same version one wins, a
  confirmed version holds the last decision on each field, an uploaded document comes back as it was,
  and a deleted one leaves no trace in the tables.
\<close>

subsection \<open>The version of a profile\<close>

definition current_version :: "profile_db \<Rightarrow> str \<Rightarrow> int" where
  "current_version db user = (case get_profile_by_user db user of None \<Rightarrow> 0 | Some p \<Rightarrow> pf_version p)"

definition later :: "profile_db \<Rightarrow> profile_db \<Rightarrow> bool" where
  "later db d \<longleftrightarrow> (\<forall>u. current_version db u \<le> current_version d u)"

lemma later_refl [simp]: "later db db"
  by (simp add: later_def)

lemma later_trans: "later a b \<Longrightarrow> later b c \<Longrightarrow> later a c"
  unfolding later_def using order_trans by blast

lemma current_version_same: "pb_profiles d = pb_profiles db \<Longrightarrow> current_version d u = current_version db u"
  by (simp add: current_version_def get_profile_by_user_def)

lemma later_same: "pb_profiles d = pb_profiles db \<Longrightarrow> later db d"
  using current_version_same [of d db] by (simp add: later_def)

lemma find_snoc: "find P (xs @ [x]) = (case find P xs of None \<Rightarrow> if P x then Some x else None | Some y \<Rightarrow> Some y)"
  by (induction xs) auto

lemma current_version_ensure [simp]: "current_version (snd (ensure_profile user db)) u = current_version db u"
  by (auto simp: current_version_def ensure_profile_def get_profile_by_user_def Let_def find_snoc
      split: option.split)

lemma ensure_version: "pf_version (fst (ensure_profile user db)) = current_version db user"
  by (simp add: current_version_def ensure_profile_def Let_def split: option.split)

lemma get_profile_update:
  assumes "\<And>p. pf_user (f p) = pf_user p"
  shows "get_profile_by_user (update_profile pid f db) u
    = map_option (\<lambda>p. if pf_id p = pid then f p else p) (get_profile_by_user db u)"
proof -
  have "find (\<lambda>p. pf_user p = u) (map (\<lambda>p. if pf_id p = pid then f p else p) ps)
    = map_option (\<lambda>p. if pf_id p = pid then f p else p) (find (\<lambda>p. pf_user p = u) ps)" for ps
    by (induction ps) (auto simp: assms)
  then show ?thesis by (simp add: get_profile_by_user_def update_profile_def)
qed

lemma later_update_profile:
  assumes "\<And>p. pf_user (f p) = pf_user p" and "\<And>p. pf_version p \<le> pf_version (f p)"
  shows "later db (update_profile pid f db)"
  using assms by (auto simp: later_def current_version_def get_profile_update split: option.split)

lemma later_bump [simp]: "later db (update_profile_version pid db)" "later db (set_active_version pid v db)"
  unfolding update_profile_version_def set_active_version_def by (rule later_update_profile; simp)+

lemma later_ensure [simp]: "later db (snd (ensure_profile user db))"
  by (simp add: later_def)

lemma ensure_get: "get_profile_by_user (snd (ensure_profile user db)) user = Some (fst (ensure_profile user db))"
  by (auto simp: ensure_profile_def get_profile_by_user_def Let_def find_snoc split: option.split)

text \<open>A bump of the profile of a user adds one.\<close>

lemma current_version_bump:
  assumes "pb_profiles d = pb_profiles (snd (ensure_profile user db))"
  shows "current_version (update_profile_version (pf_id (fst (ensure_profile user db))) d) user = current_version db user + 1"
proof -
  have "get_profile_by_user d user = Some (fst (ensure_profile user db))"
    using ensure_get [of user db] by (simp add: get_profile_by_user_def assms)
  then show ?thesis
    using ensure_version [of user db]
    by (simp add: current_version_def update_profile_version_def get_profile_update)
qed

lemma handled_later: "later db (snd out) \<Longrightarrow> later db (snd (handled catches code db out))"
  by (cases out) (auto simp: handled_def split: sum.split)

lemma process_import_profiles [simp]: "pb_profiles (snd (process_import ve up blobs user imp db)) = pb_profiles db"
proof -
  have "pb_profiles (append_evidence pid k cs d) = pb_profiles d" for pid k cs d
  proof -
    have "pb_profiles (append_evidence_from n pid k cs d) = pb_profiles d" for n
      by (induction cs arbitrary: n d) simp_all
    then show ?thesis by (simp add: append_evidence_def)
  qed
  then show ?thesis by (simp add: process_import_def Let_def update_import_frame split: option.split)
qed

lemma create_pending_profiles:
  "pb_profiles (snd (create_pending_asset user filename content_type raw db)) \<in>
     {pb_profiles db, pb_profiles (snd (ensure_profile user db))}"
  by (auto simp: create_pending_asset_def Let_def case_prod_beta split: option.split)

lemma later_profiles: "pb_profiles d \<in> {pb_profiles db, pb_profiles (snd (ensure_profile user db))} \<Longrightarrow> later db d"
  using current_version_same [of d db] current_version_same [of d "snd (ensure_profile user db)"] by (auto simp: later_def)

text \<open>The three writes that name the version they expect.\<close>

fun expects :: "profile_request \<Rightarrow> int option" where
  "expects (DecideEvidence n ds) = Some n"
| "expects (UpdateReference n c r) = Some n"
| "expects (ConfirmVersion n i) = Some n"
| "expects _ = None"

definition accepted :: "int \<Rightarrow> bool" where
  "accepted code \<longleftrightarrow> code = 200 \<or> code = 201"

text \<open>What such a write makes of the profile's version.\<close>

definition locked :: "int \<Rightarrow> str \<Rightarrow> profile_db \<Rightarrow> 'a service \<Rightarrow> bool" where
  "locked expected user db out \<longleftrightarrow>
     (case out of (Inl e, d) \<Rightarrow> later db d
      | (Inr v, d) \<Rightarrow> current_version db user = expected \<and> current_version d user = expected + 1 \<and> later db d)"

lemma apply_decisions_locked: "locked expected user db (apply_decisions user expected ds db)"
proof -
  define p where "p = fst (ensure_profile user db)"
  define d where "d = snd (ensure_profile user db)"
  have e: "ensure_profile user db = (p, d)" by (simp add: p_def d_def)
  have g: "later db d" by (simp add: d_def)
  obtain out d2 where o: "decide_each user (pf_id p) ds d = (out, d2)" by fastforce
  have same: "pb_profiles d2 = pb_profiles d" using decide_each_frame [of user "pf_id p" ds d] by (simp add: o)
  have "later db d2" "later db (update_profile_version (pf_id p) d2)"
    using later_trans [OF g later_same [OF same]] later_trans [OF later_trans [OF g later_same [OF same]] later_bump(1)] by simp_all
  moreover have "current_version (update_profile_version (pf_id p) d2) user = current_version db user + 1"
    unfolding p_def by (rule current_version_bump) (simp add: same d_def)
  moreover have "pf_version p = current_version db user" using ensure_version [of user db] by (simp add: p_def)
  ultimately show ?thesis
    using g by (auto simp: locked_def apply_decisions_def get_profile_for_update_def e o split: sum.split)
qed

lemma update_reference_locked:
  "locked expected user db (update_local_sensitive_reference ve user expected category reference db)"
proof -
  define p where "p = fst (ensure_profile user db)"
  define d where "d = snd (ensure_profile user db)"
  have e: "ensure_profile user db = (p, d)" by (simp add: p_def d_def)
  have g: "later db d" by (simp add: d_def)
  define d2 where "d2 v = update_profile (pf_id p) (\<lambda>q. q\<lparr>pf_refs := dput category v (pf_refs q)\<rparr>) d" for v
  have "later d (d2 v)" for v unfolding d2_def by (rule later_update_profile) simp_all
  then have all: "later db (update_profile_version (pf_id p) (d2 v))" for v
    using later_trans [OF later_trans [OF g] later_bump(1)] by blast
  have "update_profile_version (pf_id p) (d2 v)
      = update_profile (pf_id p) (\<lambda>q. q\<lparr>pf_refs := dput category v (pf_refs q)\<rparr>) (update_profile_version (pf_id p) d)" for v
    by (simp add: d2_def update_profile_version_def update_profile_def)
  moreover have "current_version (update_profile i (\<lambda>q. q\<lparr>pf_refs := h (pf_refs q)\<rparr>) x) u = current_version x u" for i h x u
    by (simp add: current_version_def get_profile_update if_distrib split: option.split)
  moreover have "current_version (update_profile_version (pf_id p) d) user = current_version db user + 1"
    unfolding p_def by (rule current_version_bump) (simp add: d_def)
  moreover have "pf_version p = current_version db user" using ensure_version [of user db] by (simp add: p_def)
  ultimately show ?thesis
    using g all by (simp add: locked_def update_local_sensitive_reference_def get_profile_for_update_def e Let_def flip: d2_def)
qed

lemma confirm_locked: "locked expected user db (create_confirmed_version user expected imp db)"
proof -
  define p where "p = fst (ensure_profile user db)"
  define d where "d = snd (ensure_profile user db)"
  have e: "ensure_profile user db = (p, d)" by (simp add: p_def d_def)
  have g: "later db d" by (simp add: d_def)
  have all: "later db (update_profile_version (pf_id p) (set_active_version (pf_id p) v x))
    \<and> current_version (update_profile_version (pf_id p) (set_active_version (pf_id p) v x)) user = current_version db user + 1"
    if "pb_profiles x = pb_profiles d" for v x
  proof -
    have "update_profile_version (pf_id p) (set_active_version (pf_id p) v x)
        = set_active_version (pf_id p) v (update_profile_version (pf_id p) x)"
      by (simp add: set_active_version_def update_profile_version_def update_profile_def)
    moreover have "current_version (set_active_version i v y) u = current_version y u" for i y u
      by (simp add: set_active_version_def current_version_def get_profile_update if_distrib split: option.split)
    moreover have "current_version (update_profile_version (pf_id p) x) user = current_version db user + 1"
      unfolding p_def by (rule current_version_bump) (simp add: that d_def)
    ultimately show ?thesis
      using later_trans [OF later_trans [OF later_trans [OF g later_same [OF that]] later_bump(1)] later_bump(2)] by simp
  qed
  have same: "pb_profiles (snd (create_version i n k fs es rs d)) = pb_profiles d" for i n k fs es rs
    by (simp add: create_version_def Let_def)
  have v: "pf_version p = current_version db user" using ensure_version [of user db] by (simp add: p_def)
  show ?thesis
    using g v all [OF same]
    by (auto simp: locked_def create_confirmed_version_def get_profile_for_update_def e Let_def case_prod_beta
        split: option.split)
qed

lemma locked_later: "locked n user db out \<Longrightarrow> later db (snd out)"
  by (cases out) (auto simp: locked_def split: sum.splits)

lemma locked_handled:
  assumes "locked n user db out" and "accepted code"
  shows "accepted (fst (handled catches code db out)) \<Longrightarrow>
      current_version db user = n \<and> current_version (snd (handled catches code db out)) user = n + 1"
    and "\<not> accepted (fst (handled catches code db out)) \<Longrightarrow> snd (handled catches code db out) = db"
  using assms by (cases out; auto simp: locked_def handled_def accepted_def http_code_def split: sum.splits if_splits profile_error.splits)+

lemma expecting_request:
  assumes "expects req = Some n"
  shows "accepted (fst (serve ve up user req w)) \<Longrightarrow>
      current_version (we_db w) user = n \<and> current_version (we_db (snd (serve ve up user req w))) user = n + 1"
    and "\<not> accepted (fst (serve ve up user req w)) \<Longrightarrow> snd (serve ve up user req w) = w"
proof -
  have a: "accepted 200" "accepted 201" "\<not> accepted 422" by (simp_all add: accepted_def)
  show "accepted (fst (serve ve up user req w)) \<Longrightarrow>
      current_version (we_db w) user = n \<and> current_version (we_db (snd (serve ve up user req w))) user = n + 1"
    using assms locked_handled(1) [OF apply_decisions_locked a(1)] locked_handled(1) [OF update_reference_locked a(1)]
      locked_handled(1) [OF confirm_locked a(2)] a(3)
    by (cases req) (auto simp: serve_defs Let_def case_prod_beta split: if_splits)
  show "\<not> accepted (fst (serve ve up user req w)) \<Longrightarrow> snd (serve ve up user req w) = w"
    using assms locked_handled(2) [OF apply_decisions_locked a(1)] locked_handled(2) [OF update_reference_locked a(1)]
      locked_handled(2) [OF confirm_locked a(2)]
    by (cases req) (auto simp: serve_defs Let_def case_prod_beta split: if_splits)
qed

lemma upload_later: "later (we_db w) (we_db (snd (upload_resume_asset ve up user filename content_type raw nonce w)))"
proof (cases "create_pending_asset user filename content_type raw (we_db w)")
  case (Pair out d)
  have "later (we_db w) d"
    using later_profiles create_pending_profiles [of user filename content_type raw "we_db w"] by (simp add: Pair)
  moreover have "pb_profiles (mark_ready i d) = pb_profiles d" "pb_profiles (mark_upload_failed i c d) = pb_profiles d" for i c
    by (simp_all add: mark_ready_def mark_upload_failed_def update_asset_def)
  ultimately have "later (we_db w) (mark_ready i d)" "later (we_db w) (mark_upload_failed i c d)" for i c
    using later_trans later_same by blast+
  then show ?thesis by (simp add: upload_resume_asset_def Pair split: sum.split option.split)
qed

lemma serve_later: "later (we_db w) (we_db (snd (serve ve up user req w)))"
proof (cases req)
  case (UploadAsset filename content_type raw nonce)
  then show ?thesis by (simp add: serve_defs upload_later)
next
  case (DeleteAsset asset)
  have "pb_profiles (delete_asset_rows i d) = pb_profiles d" for i d by (simp add: delete_asset_rows_def Let_def)
  then have "later (we_db w) (update_profile_version q (delete_asset_rows i (snd (ensure_profile user (we_db w)))))" for q i
    using later_trans [OF later_trans [OF later_ensure later_same] later_bump(1)] by blast
  then show ?thesis
    by (auto simp: DeleteAsset serve_defs delete_asset_def get_profile_for_update_def case_prod_beta Let_def split: option.split)
next
  case (ImportAsset asset)
  have "pb_profiles (snd (create_import a v d)) = pb_profiles d" for a v d by (simp add: create_import_def Let_def)
  then have c: "later d (snd (create_import a v d))" for a v d by (rule later_same)
  have h: "later db d \<Longrightarrow> later db (snd (handled k c d (process_import ve up b user i d)))" for db d k c b i
    using later_trans [OF _ handled_later [OF later_same [OF process_import_profiles]]] by blast
  show ?thesis
    using c h by (auto simp: ImportAsset serve_defs create_resume_import_def start_import_def case_prod_beta Let_def split: option.split)
next
  case (ReconcileAsset asset)
  have "pb_profiles (snd (reconcile up b user asset db)) = pb_profiles db" for b db
    by (auto simp: reconcile_def mark_ready_def update_asset_def split: option.split)
  then show ?thesis by (simp add: ReconcileAsset serve_defs Let_def case_prod_beta handled_later later_same)
next
  case (ActivateVersion version)
  have "later db (snd (activate_version user version db))" for db
    using later_trans [OF later_ensure later_bump(2)]
    by (auto simp: activate_version_def get_profile_for_update_def case_prod_beta split: option.split)
  then show ?thesis by (simp add: ActivateVersion serve_defs Let_def case_prod_beta handled_later)
qed (simp_all add: serve_defs Let_def case_prod_beta handled_later locked_later [OF apply_decisions_locked]
    locked_later [OF update_reference_locked] locked_later [OF confirm_locked])

lemma served_later: "served ve w w' \<Longrightarrow> later (we_db w) (we_db w')"
proof (induction rule: served.induct)
  case (request w w' w'' up user req)
  then show ?case using later_trans [OF _ serve_later] by simp
next
  case (time w w' t)
  have "later (we_db w') (we_db w'\<lparr>pb_now := pb_now (we_db w') + t\<rparr>)" by (rule later_same) simp
  then show ?case using later_trans [OF time.IH] by simp
qed simp

subsection \<open>The properties\<close>

text \<open>C11: 
  Whatever requests are served, with or without the object store up, the tables stay consistent: ids
  are unique and rows refer to rows of their own profile, confirmed versions are numbered without
  gaps and the active one exists, and every asset has an object key of its own.
\<close>

theorem profile_stores_consistent:
  assumes "served ve empty_web w"
  shows "profiles_ok (we_db w)
    \<and> (\<forall>a \<in> set (pb_assets (we_db w)). \<forall>b \<in> set (pb_assets (we_db w)). as_key a = as_key b \<longrightarrow> a = b)"
proof -
  have ok: "profiles_ok (we_db w)" by (rule served_ok [OF assms empty_ok])
  have "keyed (we_db w)" by (rule served_keyed [OF assms]) (simp add: empty_web_def keyed_def)
  then show ?thesis using ok keyed_distinct [OF ok] by blast
qed

text \<open>C10: 
  No request of one user changes what the tables hold of another, or what the other can download.
\<close>

theorem users_are_isolated:
  assumes "served ve empty_web w" and "other \<noteq> user"
  shows "user_rows (we_db (snd (serve ve up user req w))) other = user_rows (we_db w) other
    \<and> download_resume_asset ve up' other asset (snd (serve ve up user req w)) = download_resume_asset ve up' other asset w"
proof -
  have ok: "profiles_ok (we_db w)" by (rule served_ok [OF assms(1) empty_ok])
  have k: "keyed (we_db w)" by (rule served_keyed [OF assms(1)]) (simp add: empty_web_def keyed_def)
  show ?thesis using serve_apart [OF ok, of user ve up req] serve_download [OF ok k assms(2)] assms(2) by (simp add: apart_def)
qed

text \<open>C12: 
  Of two writes of a user that expect the same version of the profile at most one is accepted, whatever
  happens in between; the other is refused and changes nothing.
\<close>

theorem one_write_per_version:
  assumes "expects req = Some n" and "expects req' = Some n"
    and "accepted (fst (serve ve up user req w))" and "served ve (snd (serve ve up user req w)) w'"
  shows "\<not> accepted (fst (serve ve up' user req' w')) \<and> snd (serve ve up' user req' w') = w'"
proof -
  have "n + 1 \<le> current_version (we_db w') user"
    using expecting_request(1) [OF assms(1,3)] served_later [OF assms(4)] unfolding later_def by metis
  then have "\<not> accepted (fst (serve ve up' user req' w'))"
    using expecting_request(1) [OF assms(2), of ve up' user w'] by fastforce
  then show ?thesis using expecting_request(2) [OF assms(2)] by simp
qed

subsubsection \<open>What a confirmed version holds\<close>

text \<open>The rows whose last decision gives their field a value.\<close>

definition valued :: "profile_db \<Rightarrow> str \<Rightarrow> evidence_row \<Rightarrow> json option" where
  "valued db pid e = Option.bind (latest_decision db pid (pe_id e)) (\<lambda>d. decided_value d e)"

definition expected_fact :: "profile_db \<Rightarrow> str \<Rightarrow> evidence_row list \<Rightarrow> str \<Rightarrow> json option" where
  "expected_fact db pid rows path =
     (let es = filter (\<lambda>e. pe_path e = path \<and> valued db pid e \<noteq> None) rows
      in if es = [] then None else valued db pid (last es))"

lemma confirm_evidence_facts:
  "map_of (fst (confirm_evidence db pid e acc)) path =
     (if pe_path e = path \<and> valued db pid e \<noteq> None then valued db pid e else map_of (fst acc) path)"
  by (auto simp: confirm_evidence_def valued_def split: option.split)

lemma confirmed_fold:
  "map_of (fst (fold (confirm_evidence db pid) rows ([], []))) path = expected_fact db pid rows path"
proof (induction rows rule: rev_induct)
  case (snoc e rows)
  show ?case
  proof (cases "pe_path e = path \<and> valued db pid e \<noteq> None")
    case True
    then have "expected_fact db pid (rows @ [e]) path = valued db pid e" by (simp add: expected_fact_def)
    then show ?thesis using True by (simp add: confirm_evidence_facts)
  next
    case False
    then have "expected_fact db pid (rows @ [e]) path = expected_fact db pid rows path" by (auto simp: expected_fact_def Let_def)
    then show ?thesis using False snoc by (auto simp: confirm_evidence_facts)
  qed
qed (simp add: expected_fact_def)

lemma confirmed_version_facts:
  assumes "create_confirmed_version user expected imp db = (Inr v, d)" and "profiles_ok db"
  shows "(\<forall>e \<in> set (list_import_evidence db imp). latest_decision db (cv_profile v) (pe_id e) \<noteq> None)
    \<and> map_of (cv_facts v) = expected_fact db (cv_profile v) (list_import_evidence db imp)
    \<and> cv_number v = int (length (versions_of db (cv_profile v))) + 1
    \<and> (\<exists>p. get_profile_by_user d user = Some p \<and> pf_active p = Some (cv_id v) \<and> pf_id p = cv_profile v \<and> pf_version p = cv_aggregate v)
    \<and> v \<in> set (pb_versions d)"
proof -
  obtain i where i: "get_owned_import db user imp = Some i"
    using assms(1) by (auto simp: create_confirmed_version_def split: option.splits)
  obtain p where p: "ensure_profile user db = (p, db)" "pf_id p = im_profile i"
    using owner_profile [OF assms(2) get_owned_import_Some(3) [OF i]] by blast
  have row: "p \<in> set (pb_profiles db)" "get_profile_by_user db user = Some p"
    using ensure_profile_row(1) [of user db] ensure_get [of user db] by (simp_all add: p(1))
  have n: "next_confirmed_version_number db (pf_id p) = int (length (versions_of db (pf_id p))) + 1"
    by (rule next_version_number [OF profiles_okD(8) [OF assms(2)] row(1)])
  define r where "r = fold (confirm_evidence db (pf_id p)) (list_import_evidence db imp) ([], [])"
  define c where "c = create_version (pf_id p) (next_confirmed_version_number db (pf_id p)) (pf_version p + 1) (fst r) (snd r) (pf_refs p) db"
  have all: "\<forall>e \<in> set (list_import_evidence db imp). latest_decision db (pf_id p) (pe_id e) \<noteq> None"
    and vd: "v = fst c" "d = update_profile_version (pf_id p) (set_active_version (pf_id p) (Some (cv_id v)) (snd c))"
    using assms(1)
    by (auto simp: create_confirmed_version_def i get_profile_for_update_def p(1) Let_def case_prod_beta c_def r_def split: if_splits)
  have v: "cv_profile v = pf_id p" "cv_facts v = fst r" "cv_number v = int (length (versions_of db (pf_id p))) + 1"
    "cv_aggregate v = pf_version p + 1"
    by (simp_all add: vd(1) c_def n create_version_def Let_def)
  have "get_profile_by_user (snd c) user = Some p"
    using row(2) by (simp add: c_def create_version_def Let_def get_profile_by_user_def)
  then have g: "get_profile_by_user d user = Some (p\<lparr>pf_active := Some (cv_id v), pf_version := pf_version p + 1\<rparr>)"
    by (simp add: vd(2) update_profile_version_def set_active_version_def get_profile_update)
  have "v \<in> set (pb_versions d)"
    by (simp add: vd c_def create_version_def Let_def update_profile_version_def set_active_version_def update_profile_def)
  then show ?thesis
    unfolding v(1) using all g confirmed_fold [of db "pf_id p" "list_import_evidence db imp"]
    by (auto simp: v r_def fun_eq_iff)
qed


subsubsection \<open>Documents\<close>

lemma update_asset_row:
  assumes "a \<in> set (pb_assets d)" and "profiles_ok d" and "owns d user (as_profile a)" and "\<And>b. as_id (f b) = as_id b"
    and "\<And>b. as_profile (f b) = as_profile b"
  shows "get_owned_asset (update_asset (as_id a) f d) user (as_id a) = Some (f a)"
proof -
  let ?d = "update_asset (as_id a) f d"
  have ok: "profiles_ok ?d" by (rule update_asset_ok [OF assms(2) assms(4,5)])
  have "f a \<in> set (pb_assets ?d)" using assms(1) by (force simp: update_asset_def)
  moreover have "owns ?d user (as_profile (f a))" using assms(3,5) by (simp add: owns_def update_asset_def)
  ultimately have "get_owned_asset ?d user (as_id a) \<noteq> None"
    using assms(4) unfolding get_owned_asset_def find_None_iff_ex by blast
  then obtain b where b: "get_owned_asset ?d user (as_id a) = Some b" by blast
  then have "b = f a"
    using table_ok_unique [OF profiles_okD(3) [OF ok]] get_owned_asset_Some [OF b] \<open>f a \<in> set (pb_assets ?d)\<close> assms(4) by metis
  then show ?thesis using b by simp
qed


text \<open>
  A deletion that is accepted leaves no row of the asset, of its imports, of what was extracted from it
  or of the decisions on that, and no object when the store is up; confirmed versions stay.
\<close>

theorem deletion_erases:
  assumes "served ve empty_web w" and "serve ve up user (DeleteAsset asset) w = (200, w1)"
  shows "asset \<notin> as_id ` set (pb_assets (we_db w1)) \<and> asset \<notin> im_asset ` set (pb_imports (we_db w1))
    \<and> (\<forall>e \<in> set (pb_evidence (we_db w)). pe_import e \<in> im_id ` set (list_imports_for_asset (we_db w) asset) \<longrightarrow>
         pe_id e \<notin> pe_id ` set (pb_evidence (we_db w1)) \<and> pe_id e \<notin> pd_evidence ` set (pb_decisions (we_db w1)))
    \<and> (up \<longrightarrow> (\<forall>a \<in> set (pb_assets (we_db w)). as_id a = asset \<longrightarrow> we_blobs w1 (as_key a) = None))
    \<and> pb_versions (we_db w1) = pb_versions (we_db w)"
proof -
  have ok: "profiles_ok (we_db w)" by (rule served_ok [OF assms(1) empty_ok])
  obtain a where a: "get_owned_asset (we_db w) user asset = Some a"
    using assms(2) by (auto simp: serve_defs delete_asset_def http_code_def Let_def split: option.splits)
  note row = get_owned_asset_Some [OF a]
  obtain p where p: "ensure_profile user (we_db w) = (p, we_db w)" using owner_profile [OF ok row(3)] by blast
  have w1: "we_db w1 = update_profile_version (pf_id p) (delete_asset_rows asset (we_db w))"
    "we_blobs w1 = delete_object up (as_key a) (we_blobs w)"
    using assms(2) row(2) by (auto simp: serve_defs delete_asset_def a get_profile_for_update_def p Let_def)
  have only: "b = a" if "b \<in> set (pb_assets (we_db w))" "as_id b = asset" for b
    using table_ok_unique [OF profiles_okD(3) [OF ok] that(1) row(1)] that(2) row(2) by simp
  define I where "I = im_id ` set (list_imports_for_asset (we_db w) asset)"
  have rows: "pb_evidence (we_db w1) = filter (\<lambda>e. pe_import e \<notin> I) (pb_evidence (we_db w))"
    "pb_decisions (we_db w1) = filter (\<lambda>d. pd_evidence d \<notin> pe_id ` {e \<in> set (pb_evidence (we_db w)). pe_import e \<in> I}) (pb_decisions (we_db w))"
    by (simp_all add: w1 I_def update_profile_version_def update_profile_def delete_asset_rows_def Let_def)
  have same: "e = f" if "e \<in> set (pb_evidence (we_db w))" "f \<in> set (pb_evidence (we_db w))" "pe_id e = pe_id f" for e f
    using table_ok_unique [OF profiles_okD(5) [OF ok] that] .
  have gone: "pe_id e \<notin> pe_id ` set (pb_evidence (we_db w1)) \<and> pe_id e \<notin> pd_evidence ` set (pb_decisions (we_db w1))"
    if e: "e \<in> set (pb_evidence (we_db w))" "pe_import e \<in> I" for e
  proof
    show "pe_id e \<notin> pe_id ` set (pb_evidence (we_db w1))" using e same by (auto simp: rows)
    have "pe_id e \<in> pe_id ` {e \<in> set (pb_evidence (we_db w)). pe_import e \<in> I}" using e by (intro imageI) simp
    then show "pe_id e \<notin> pd_evidence ` set (pb_decisions (we_db w1))" unfolding rows by force
  qed
  have tables: "asset \<notin> as_id ` set (pb_assets (we_db w1)) \<and> asset \<notin> im_asset ` set (pb_imports (we_db w1))
    \<and> pb_versions (we_db w1) = pb_versions (we_db w)"
    by (auto simp: w1 update_profile_version_def update_profile_def delete_asset_rows_def Let_def)
  have "\<forall>a \<in> set (pb_assets (we_db w)). as_id a = asset \<longrightarrow> we_blobs w1 (as_key a) = None" if up
    using only that by (auto simp: w1 delete_object_def)
  then show ?thesis using gone tables unfolding I_def by blast
qed

text \<open>
  A decision that corrects a fact without a value, or gives a value without correcting, is a
  \<open>ProfileValidationError\<close>. The handler of the evidence decisions does not name that exception, so the reply is
  500 and nothing is written, where the handler of the confirmation answers 422.
\<close>

theorem invalid_decision_is_500:
  assumes "get_profile_by_user (we_db w) user = Some p" and "(di_action d = CorrectFact) = (di_value d = JNull)"
  shows "serve ve up user (DecideEvidence (pf_version p) [d]) w = (if pf_version p < 0 then 422 else 500, w)"
  using assms
  by (simp add: serve_defs apply_decisions_def get_profile_for_update_def ensure_profile_def handled_def)

text \<open>
  A plain-text resume is read as its own lines, trimmed and without the blank ones, or left to manual entry when
  there are none; whatever is read, every extracted candidate is for a known field, with an excerpt
  of at most 500 characters and a confidence between 0 and 100.
\<close>

theorem resume_text_read:
  assumes "list_all scalar s" and "file_suffix filename = lit ''.txt'' \<or> file_suffix filename = lit ''.md''"
  shows "\<exists>doc. extract_resume_document reader filename (utf8 s) = Some doc
    \<and> pt_text doc = join [10] (normalized_lines s) \<and> (pt_manual doc \<longleftrightarrow> pt_text doc = [])
    \<and> list_all candidate_ok (extract_evidence_candidates (pt_text doc))"
  using assms(2)
  by (auto simp: extract_resume_document_def utf8_roundtrip [OF assms(1)] document_suffixes_def candidates_ok Let_def)

end
