(* ===== verification/ProfileScenario.thy ===== *)
theory ProfileScenario
  imports ProfileProperties
begin

section \<open>Profiles at work\<close>

text \<open>
  Concrete users, documents and decisions on which the properties of the profiles are applied. The
  cipher of the scenarios appends the nonce to the text and checks it when it decrypts.
\<close>

definition demo_cipher :: cipher where
  "demo_cipher = \<lparr>ci_encrypt = (\<lambda>n p a. p @ n),
     ci_decrypt = (\<lambda>n c a. if drop (length c - length n) c = n then Some (take (length c - length n) c) else None)\<rparr>"

definition demo_env :: profile_env where
  "demo_env = \<lparr>ve_cipher = demo_cipher, ve_reader = (\<lambda>_ _. None), ve_stamp = str_of_int\<rparr>"

definition demo_nonce :: "int list" where
  "demo_nonce = [1, 2, 3, 4, 5, 6, 7, 8, 9, 10, 11, 12]"

definition demo_upload :: profile_request where
  "demo_upload = UploadAsset (lit ''cv.txt'') (lit ''text/plain'') [72, 105] demo_nonce"

definition demo_web :: web where
  "demo_web = snd (serve demo_env True (lit ''u'') demo_upload empty_web)"

lemma demo_cipher_decrypts:
  "ci_decrypt (ve_cipher demo_env) n (ci_encrypt (ve_cipher demo_env) n p a) a = Some p"
  by (simp add: demo_env_def demo_cipher_def)

lemma demo_suffix: "file_suffix (lit ''cv.txt'') = lit ''.txt''"
  by code_simp

lemma demo_accepted: "map_of allowed_content_types (lit ''.txt'') = Some [lit ''text/plain'']"
  by code_simp

lemma demo_upload_served: "serve demo_env True (lit ''u'') demo_upload empty_web = (201, demo_web)"
  by (simp add: demo_web_def demo_upload_def serve_defs upload_resume_asset_def max_resume_bytes_def create_pending_asset_def
      demo_suffix demo_accepted Let_def case_prod_beta put_object_def)

lemma demo_web_served: "served demo_env empty_web demo_web"
  unfolding demo_web_def by (rule served.request [OF served.start refl])

lemma profile_stores_consistent_witness: "profiles_ok (we_db demo_web)"
  using profile_stores_consistent [OF demo_web_served] by blast

lemma users_are_isolated_witness:
  "user_rows (we_db (snd (serve demo_env True (lit ''v'') (DeleteAsset (lit ''1'')) demo_web))) (lit ''u'')
     = user_rows (we_db demo_web) (lit ''u'')"
  using users_are_isolated [OF demo_web_served, of "lit ''u''" "lit ''v''" True "DeleteAsset (lit ''1'')"] by simp


lemma resume_text_read_witness:
  "\<exists>doc. extract_resume_document (\<lambda>_ _. None) (lit ''cv.txt'') (utf8 [72, 105, 10, 32, 10, 20320]) = Some doc
    \<and> pt_text doc = join [10] (normalized_lines [72, 105, 10, 32, 10, 20320])"
  using resume_text_read [of "[72, 105, 10, 32, 10, 20320]" "lit ''cv.txt''" "\<lambda>_ _. None"] demo_suffix
  by (auto simp: scalar_def)

definition demo_reference :: profile_request where
  "demo_reference = UpdateReference 0 (lit ''government_id'') (lit ''lsr:v1:'' @ replicate 64 97)"

lemma demo_reference_served: "fst (serve demo_env True (lit ''u'') demo_reference empty_web) = 200"
  by code_simp

lemma one_write_per_version_witness:
  "fst (serve demo_env True (lit ''u'') demo_reference (snd (serve demo_env True (lit ''u'') demo_reference empty_web))) \<noteq> 200"
  using one_write_per_version [where req = demo_reference and req' = demo_reference and n = 0 and up' = True,
      OF _ _ _ served.start, of demo_env True "lit ''u''" empty_web] demo_reference_served
  by (simp add: accepted_def demo_reference_def)

lemma demo_digits: "lit ''0'' = nat_digits 0" "lit ''1'' = nat_digits 1" "lit ''2'' = nat_digits 2" "lit ''3'' = nat_digits 3"
  "lit ''4'' = nat_digits 4"
  by (simp_all add: nat_digits.simps lit_def)

lemma demo_asset: "map as_id (pb_assets (we_db demo_web)) = [lit ''1'']" "get_profile_by_user (we_db demo_web) (lit ''u'') \<noteq> None"
  by (simp_all add: demo_web_def demo_upload_def serve_defs upload_resume_asset_def max_resume_bytes_def create_pending_asset_def
      demo_suffix demo_accepted put_object_def empty_web_def ensure_profile_def get_profile_by_user_def mark_ready_def
      update_asset_def new_id_def demo_digits Let_def case_prod_beta)

text \<open>A user with one import and two rows on the same field, one confirmed and one corrected.\<close>

definition demo_row :: "str \<Rightarrow> int \<Rightarrow> str \<Rightarrow> evidence_row" where
  "demo_row i n v = \<lparr>pe_id = i, pe_profile = lit ''0'', pe_import = lit ''2'', pe_path = lit ''skills'', pe_value = OneText v,
     pe_excerpt = v, pe_confidence = 80, pe_sequence = n, pe_created = 5\<rparr>"

definition demo_decided :: "str \<Rightarrow> str \<Rightarrow> decision_action \<Rightarrow> json \<Rightarrow> decision_row" where
  "demo_decided i e a v = \<lparr>pd_id = i, pd_profile = lit ''0'', pd_evidence = e, pd_actor = lit ''u'', pd_action = a,
     pd_value = v, pd_created = 6\<rparr>"

definition demo_profiles :: profile_db where
  "demo_profiles = \<lparr>
     pb_profiles = [\<lparr>pf_id = lit ''0'', pf_user = lit ''u'', pf_version = 1, pf_refs = [], pf_active = None\<rparr>],
     pb_assets = [\<lparr>as_id = lit ''1'', as_profile = lit ''0'', as_key = object_key (lit ''u'') (lit ''1''),
       as_filename = lit ''cv.txt'', as_type = lit ''text/plain'', as_size = 9, as_sha = [], as_encryption = encryption_version,
       as_status = AssetReady, as_error = None\<rparr>],
     pb_imports = [\<lparr>im_id = lit ''2'', im_profile = lit ''0'', im_asset = lit ''1'', im_parser = parser_version,
       im_status = AwaitingConfirmation, im_error = None, im_started = Some 3, im_finished = Some 4\<rparr>],
     pb_evidence = [demo_row (lit ''3'') 1 (lit ''HOL''), demo_row (lit ''4'') 2 (lit ''Isabele'')],
     pb_decisions = [demo_decided (lit ''5'') (lit ''3'') ConfirmFact JNull,
       demo_decided (lit ''6'') (lit ''4'') CorrectFact (JStr (lit ''Isabelle''))],
     pb_versions = [], pb_next = 7, pb_now = 8\<rparr>"

lemma demo_profiles_ok: "profiles_ok demo_profiles"
proof (rule profiles_okI)
  have k: "key_ok demo_profiles (nat_digits n)" if "n < 7" for n using that by (auto simp: key_ok_def demo_profiles_def)
  have "\<forall>i \<in> {lit ''0'', lit ''1'', lit ''2'', lit ''3'', lit ''4''}. key_ok demo_profiles i"
    unfolding demo_digits by (auto intro: k)
  then show "table_ok demo_profiles pf_id (pb_profiles demo_profiles)" "table_ok demo_profiles as_id (pb_assets demo_profiles)"
    "table_ok demo_profiles im_id (pb_imports demo_profiles)" "table_ok demo_profiles pe_id (pb_evidence demo_profiles)"
    "table_ok demo_profiles cv_id (pb_versions demo_profiles)"
    unfolding table_ok_def by (simp_all add: demo_profiles_def demo_row_def)
  show "links_ok demo_profiles" by (simp add: links_ok_def demo_profiles_def demo_row_def demo_decided_def)
  show "versions_ok demo_profiles" by (simp add: versions_ok_def versions_of_def demo_profiles_def)
  have "[1..2] = [1, 2::int]" by (simp add: upto_rec1)
  then show "sequences_ok demo_profiles" by (simp add: sequences_ok_def evidence_of_def demo_profiles_def demo_row_def)
qed (simp add: demo_profiles_def)

lemma demo_confirms:
  "\<exists>v d. create_confirmed_version (lit ''u'') 1 (lit ''2'') demo_profiles = (Inr v, d) \<and> cv_profile v = lit ''0''
     \<and> list_import_evidence demo_profiles (lit ''2'') = pb_evidence demo_profiles"
proof -
  have "case create_confirmed_version (lit ''u'') 1 (lit ''2'') demo_profiles of (Inr v, d) \<Rightarrow> cv_profile v = lit ''0'' | _ \<Rightarrow> False"
    by code_simp
  moreover have "list_import_evidence demo_profiles (lit ''2'') = pb_evidence demo_profiles"
    by (simp add: list_import_evidence_def demo_profiles_def demo_row_def)
  ultimately show ?thesis by (auto split: prod.splits sum.splits)
qed


lemma deletion_erases_witness:
  "lit ''1'' \<in> as_id ` set (pb_assets (we_db demo_web))
   \<and> lit ''1'' \<notin> as_id ` set (pb_assets (we_db (snd (serve demo_env True (lit ''u'') (DeleteAsset (lit ''1'')) demo_web))))"
proof -
  have "fst (serve demo_env True (lit ''u'') (DeleteAsset (lit ''1'')) demo_web) = 200"
    by (simp add: demo_web_def demo_upload_def serve_defs upload_resume_asset_def max_resume_bytes_def create_pending_asset_def
      demo_suffix demo_accepted put_object_def empty_web_def ensure_profile_def get_profile_by_user_def mark_ready_def
      update_asset_def new_id_def demo_digits Let_def case_prod_beta delete_asset_def get_owned_asset_def owns_def)
  then have "serve demo_env True (lit ''u'') (DeleteAsset (lit ''1'')) demo_web
      = (200, snd (serve demo_env True (lit ''u'') (DeleteAsset (lit ''1'')) demo_web))"
    by (metis prod.collapse)
  then show ?thesis using deletion_erases [OF demo_web_served] demo_asset(1) by (metis image_set list.set_intros(1))
qed

lemma invalid_decision_is_500_witness:
  "fst (serve demo_env True (lit ''u'') (DecideEvidence 1 [\<lparr>di_evidence = lit ''3'', di_action = CorrectFact, di_value = JNull\<rparr>])
     \<lparr>we_db = demo_profiles, we_blobs = (\<lambda>_. None)\<rparr>) = 500"
proof -
  have "get_profile_by_user demo_profiles (lit ''u'') =
      Some \<lparr>pf_id = lit ''0'', pf_user = lit ''u'', pf_version = 1, pf_refs = [], pf_active = None\<rparr>"
    by (simp add: demo_profiles_def get_profile_by_user_def)
  then show ?thesis
    using invalid_decision_is_500 [of "\<lparr>we_db = demo_profiles, we_blobs = (\<lambda>_. None)\<rparr>" "lit ''u''"
        "\<lparr>pf_id = lit ''0'', pf_user = lit ''u'', pf_version = 1, pf_refs = [], pf_active = None\<rparr>"
        "\<lparr>di_evidence = lit ''3'', di_action = CorrectFact, di_value = JNull\<rparr>" demo_env True] by simp
qed

end
