(* ===== verification/JsonText.thy ===== *)
theory JsonText
  imports Prelude
begin

section \<open>Reading JSON\<close>

text \<open>
  \<open>json.loads\<close> of the standard library, which the gateway, the recoveries and the scripts call on texts they
  did not write. It accepts what the C scanner does: the three extra constants, a duplicate key keeps
  the place of the first and the value of the last, an escaped pair of surrogates is one character, an
  integer of more than 4300 digits is refused. The conversion of a decimal text to a double and back
  (\<open>repr(float(text))\<close>) is the argument \<open>fl\<close>. The recursion limit of the interpreter is not modelled: the
  fuel is enough for every text.
\<close>

subsection \<open>Strings\<close>

definition hex_value :: "int \<Rightarrow> int option" where
  "hex_value c =
     (if 48 \<le> c \<and> c \<le> 57 then Some (c - 48)
      else if 97 \<le> c \<and> c \<le> 102 then Some (c - 87)
      else if 65 \<le> c \<and> c \<le> 70 then Some (c - 55) else None)"

fun hex4 :: "str \<Rightarrow> int option" where
  "hex4 (a # b # c # d # r) =
     (case (hex_value a, hex_value b, hex_value c, hex_value d) of
        (Some w, Some x, Some y, Some z) \<Rightarrow> Some (4096 * w + 256 * x + 16 * y + z) | _ \<Rightarrow> None)"
| "hex4 _ = None"

definition high_surrogate :: "int \<Rightarrow> bool" where
  "high_surrogate u \<longleftrightarrow> 55296 \<le> u \<and> u \<le> 56319"

definition low_surrogate :: "int \<Rightarrow> bool" where
  "low_surrogate u \<longleftrightarrow> 56320 \<le> u \<and> u \<le> 57343"

text \<open>The low half that follows a high one, if one does.\<close>

definition low_half :: "str \<Rightarrow> int option" where
  "low_half r = (if take 2 r = [92, 117] then (case hex4 (drop 2 r) of None \<Rightarrow> None
     | Some u \<Rightarrow> if low_surrogate u then Some u else None) else None)"

definition unescape :: "int \<Rightarrow> int option" where
  "unescape c = map_of [(34, 34), (92, 92), (47, 47), (98, 8), (102, 12), (110, 10), (114, 13), (116, 9)] c"

text \<open>What follows the opening quote: the characters up to the closing one, and the rest.\<close>

function scan_string :: "str \<Rightarrow> (str \<times> str) option" where
  "scan_string [] = None"
| "scan_string (c # cs) =
     (if c = 34 then Some ([], cs)
      else if c = 92 then
        (case cs of [] \<Rightarrow> None
         | e # r \<Rightarrow>
             if e = 117 then
               (case hex4 r of None \<Rightarrow> None
                | Some u \<Rightarrow>
                    (case (if high_surrogate u then low_half (drop 4 r) else None) of
                       Some v \<Rightarrow> map_option (apfst ((#) (65536 + 1024 * (u - 55296) + (v - 56320)))) (scan_string (drop 10 r))
                     | None \<Rightarrow> map_option (apfst ((#) u)) (scan_string (drop 4 r))))
             else (case unescape e of None \<Rightarrow> None | Some x \<Rightarrow> map_option (apfst ((#) x)) (scan_string r)))
      else if c < 32 then None
      else map_option (apfst ((#) c)) (scan_string cs))"
  by pat_completeness auto
termination by (relation "measure length") auto

subsection \<open>Numbers\<close>

definition ascii_digit :: "int \<Rightarrow> bool" where
  "ascii_digit c \<longleftrightarrow> 48 \<le> c \<and> c \<le> 57"

text \<open>The integer part, which has no leading zero.\<close>

definition int_part :: "str \<Rightarrow> str" where
  "int_part s = (case s of [] \<Rightarrow> [] | c # _ \<Rightarrow> if c = 48 then [c] else takeWhile ascii_digit s)"

definition frac_part :: "str \<Rightarrow> str" where
  "frac_part s =
     (case s of [] \<Rightarrow> [] | c # cs \<Rightarrow> if c = 46 \<and> takeWhile ascii_digit cs \<noteq> [] then c # takeWhile ascii_digit cs else [])"

definition sign_of :: "int set \<Rightarrow> str \<Rightarrow> str" where
  "sign_of signs s = (case s of [] \<Rightarrow> [] | c # _ \<Rightarrow> if c \<in> signs then [c] else [])"

definition exp_part :: "str \<Rightarrow> str" where
  "exp_part s =
     (case s of [] \<Rightarrow> []
      | c # cs \<Rightarrow>
          let sg = sign_of {43, 45} cs; ds = takeWhile ascii_digit (drop (length sg) cs)
          in if (c = 101 \<or> c = 69) \<and> ds \<noteq> [] then c # sg @ ds else [])"

definition max_int_digits :: nat where
  "max_int_digits = 4300"

definition scan_number :: "(str \<Rightarrow> str) \<Rightarrow> str \<Rightarrow> (json \<times> str) option" where
  "scan_number fl s =
     (let sg = sign_of {45} s; s1 = drop (length sg) s; i = int_part s1; s2 = drop (length i) s1;
          f = frac_part s2; s3 = drop (length f) s2; e = exp_part s3; s4 = drop (length e) s3
      in if i = [] then None
         else if f @ e \<noteq> [] then Some (JFloat (fl (sg @ i @ f @ e)), s4)
         else if max_int_digits < length i then None
         else Some (JInt (if sg = [] then int_of_text i else - int_of_text i), s4))"

subsection \<open>Values\<close>

definition json_space :: "int \<Rightarrow> bool" where
  "json_space c \<longleftrightarrow> c = 32 \<or> c = 9 \<or> c = 10 \<or> c = 13"

definition skip_space :: "str \<Rightarrow> str" where
  "skip_space s = dropWhile json_space s"

definition json_constants :: "(str \<times> json) list" where
  "json_constants = [(lit ''null'', JNull), (lit ''true'', JBool True), (lit ''false'', JBool False),
     (lit ''NaN'', JFloat (lit ''NaN'')), (lit ''Infinity'', JFloat (lit ''Infinity'')),
     (lit ''-Infinity'', JFloat (lit ''-Infinity''))]"

definition scan_constant :: "str \<Rightarrow> (json \<times> str) option" where
  "scan_constant s = map_option (\<lambda>(w, v). (v, drop (length w) s)) (find (\<lambda>(w, v). starts_with s w) json_constants)"

text \<open>After an element: a comma, or the bracket that closes.\<close>

definition after_item :: "int \<Rightarrow> str \<Rightarrow> (bool \<times> str) option" where
  "after_item close s =
     (case skip_space s of [] \<Rightarrow> None
      | c # r \<Rightarrow> if c = 44 then Some (True, skip_space r) else if c = close then Some (False, r) else None)"

text \<open>After a key: the colon.\<close>

definition after_key :: "str \<Rightarrow> str option" where
  "after_key s = (case skip_space s of [] \<Rightarrow> None | c # r \<Rightarrow> if c = 58 then Some (skip_space r) else None)"

fun scan_value :: "(str \<Rightarrow> str) \<Rightarrow> nat \<Rightarrow> str \<Rightarrow> (json \<times> str) option"
  and scan_items :: "(str \<Rightarrow> str) \<Rightarrow> nat \<Rightarrow> json list \<Rightarrow> str \<Rightarrow> (json \<times> str) option"
  and scan_pairs :: "(str \<Rightarrow> str) \<Rightarrow> nat \<Rightarrow> dict \<Rightarrow> str \<Rightarrow> (json \<times> str) option" where
  "scan_value fl 0 s = None"
| "scan_value fl (Suc n) [] = None"
| "scan_value fl (Suc n) (c # cs) =
     (if c = 34 then map_option (\<lambda>(t, r). (JStr t, r)) (scan_string cs)
      else if c = 123 then
        (if take 1 (skip_space cs) = [125] then Some (JObj [], drop 1 (skip_space cs)) else scan_pairs fl n [] (skip_space cs))
      else if c = 91 then
        (if take 1 (skip_space cs) = [93] then Some (JArr [], drop 1 (skip_space cs)) else scan_items fl n [] (skip_space cs))
      else case scan_constant (c # cs) of Some x \<Rightarrow> Some x | None \<Rightarrow> scan_number fl (c # cs))"
| "scan_items fl 0 vs s = None"
| "scan_items fl (Suc n) vs s =
     (case scan_value fl n s of None \<Rightarrow> None
      | Some (v, r) \<Rightarrow>
          (case after_item 93 r of None \<Rightarrow> None
           | Some (again, r') \<Rightarrow> if again then scan_items fl n (vs @ [v]) r' else Some (JArr (vs @ [v]), r')))"
| "scan_pairs fl 0 d s = None"
| "scan_pairs fl (Suc n) d s =
     (if take 1 s \<noteq> [34] then None
      else case scan_string (drop 1 s) of None \<Rightarrow> None
        | Some (k, r) \<Rightarrow>
            (case Option.bind (after_key r) (scan_value fl n) of None \<Rightarrow> None
             | Some (v, r1) \<Rightarrow>
                 (case after_item 125 r1 of None \<Rightarrow> None
                  | Some (again, r') \<Rightarrow> if again then scan_pairs fl n (dput k v d) r' else Some (JObj (dput k v d), r'))))"

definition loads :: "(str \<Rightarrow> str) \<Rightarrow> str \<Rightarrow> json option" where
  "loads fl s =
     (case scan_value fl (2 * length s + 1) (skip_space s) of None \<Rightarrow> None
      | Some (v, r) \<Rightarrow> if skip_space r = [] then Some v else None)"

subsection \<open>What is read is used up, and the fuel is enough\<close>

lemma scan_string_shorter: "scan_string s = Some (t, r) \<Longrightarrow> length r < length s"
proof (induction s arbitrary: t r rule: scan_string.induct)
  case (2 c cs)
  show ?case
    using "2.prems" "2.IH"
    by (auto split: if_splits list.splits option.splits simp: less_Suc_eq_le) (fastforce+)?
qed simp

lemma scan_number_shorter:
  assumes "scan_number fl s = Some (v, r)"
  shows "length r < length s"
proof -
  define s1 where "s1 = drop (length (sign_of {45} s)) s"
  define i where "i = int_part s1"
  have i: "i \<noteq> []" using assms by (auto simp: scan_number_def Let_def i_def s1_def split: if_splits)
  have "\<exists>a b. r = drop a (drop b (drop (length i) s1))"
    using assms unfolding scan_number_def Let_def by (auto simp del: drop_drop simp flip: s1_def i_def split: if_splits) (metis drop_0)+
  moreover have "s1 \<noteq> []" using i by (auto simp: i_def int_part_def)
  ultimately have "length r < length s1" using i by (auto simp: Suc_le_eq)
  then show ?thesis by (simp add: s1_def)
qed

lemma scan_constant_shorter:
  assumes "scan_constant s = Some (v, r)"
  shows "length r < length s"
proof -
  obtain w where w: "(w, v) \<in> set json_constants" "starts_with s w" "r = drop (length w) s"
    using assms by (auto simp: scan_constant_def dest!: find_SomeD)
  then have "w \<noteq> []" by (auto simp: json_constants_def)
  moreover have "s \<noteq> []" using w(2) \<open>w \<noteq> []\<close> by (auto simp: starts_with_def)
  ultimately show ?thesis using w(3) by simp
qed

lemma skip_space_le: "length (skip_space s) \<le> length s"
  by (simp add: skip_space_def length_dropWhile_le)

lemma after_item_shorter:
  assumes "after_item c s = Some (b, r)"
  shows "length r < length s"
proof -
  obtain x xs where x: "skip_space s = x # xs" using assms by (auto simp: after_item_def split: list.splits)
  then have "length r \<le> length xs"
    using assms skip_space_le [of xs] by (auto simp: after_item_def split: if_splits)
  then show ?thesis using skip_space_le [of s] x by simp
qed

lemma after_key_shorter:
  assumes "after_key s = Some r"
  shows "length r < length s"
proof -
  obtain x xs where x: "skip_space s = x # xs" using assms by (auto simp: after_key_def split: list.splits)
  then have "length r \<le> length xs"
    using assms skip_space_le [of xs] by (auto simp: after_key_def split: if_splits)
  then show ?thesis using skip_space_le [of s] x by simp
qed

lemma scan_shorter:
  "scan_value fl n s = Some (v, r) \<Longrightarrow> length r < length s"
  "scan_items fl n vs s = Some (v, r) \<Longrightarrow> length r < length s"
  "scan_pairs fl n d s = Some (v, r) \<Longrightarrow> length r < length s"
proof (induction fl n s and fl n vs s and fl n d s arbitrary: v r and v r and v r
    rule: scan_value_scan_items_scan_pairs.induct)
  case (3 fl n c cs)
  have le: "length r < length (skip_space cs) \<Longrightarrow> length r < Suc (length cs)" for r :: str
    using skip_space_le [of cs] by simp
  have d: "length (drop 1 (skip_space cs)) < Suc (length cs)" using skip_space_le [of cs] by simp
  show ?case
    using 3 le d scan_string_shorter [of cs] scan_constant_shorter [of "c # cs"] scan_number_shorter [of fl "c # cs"]
    by (auto simp: less_SucI split: if_splits option.splits)
next
  case (5 fl n vs s)
  obtain w r1 where v: "scan_value fl n s = Some (w, r1)" using "5.prems" by (auto split: option.splits)
  obtain a r2 where i: "after_item 93 r1 = Some (a, r2)" using "5.prems" v by (auto split: option.splits)
  have "length r2 < length s" using "5.IH"(1) [OF v] after_item_shorter [OF i] by simp
  then show ?case using "5.prems" "5.IH"(2) [OF v refl i refl] v i by (cases a) fastforce+
next
  case (7 fl n d s)
  obtain k r0 where k: "scan_string (drop 1 s) = Some (k, r0)" using "7.prems" by (auto split: if_splits option.splits)
  obtain r1 where y: "after_key r0 = Some r1" using "7.prems" k by (cases "after_key r0") (auto split: if_splits)
  obtain w r2 where v: "scan_value fl n r1 = Some (w, r2)" using "7.prems" k y by (auto split: if_splits option.splits)
  obtain a r3 where i: "after_item 125 r2 = Some (a, r3)" using "7.prems" k y v by (auto split: if_splits option.splits)
  have t: "take 1 s = [34]" using "7.prems" by (auto split: if_splits)
  have "length r2 < length r1" using "7.IH"(1) [OF _ k refl y v] t by simp
  then have l: "length r3 < length s"
    using scan_string_shorter [OF k] after_key_shorter [OF y] after_item_shorter [OF i] by simp
  show ?case
    using "7.prems" "7.IH"(2) l t k y v i by (cases a) (fastforce split: if_splits)+
qed simp_all

lemma scan_fuel_step:
  "(\<forall>s. 2 * length s + 1 \<le> n \<longrightarrow> scan_value fl (Suc n) s = scan_value fl n s)
   \<and> (\<forall>vs s. 2 * length s + 2 \<le> n \<longrightarrow> scan_items fl (Suc n) vs s = scan_items fl n vs s)
   \<and> (\<forall>d s. 2 * length s + 2 \<le> n \<longrightarrow> scan_pairs fl (Suc n) d s = scan_pairs fl n d s)"
proof (induction n)
  case (Suc m)
  have v: "scan_value fl (Suc m) s = scan_value fl m s" if "2 * length s + 1 \<le> m" for s :: str using Suc that by blast
  have i: "scan_items fl (Suc m) vs s = scan_items fl m vs s" if "2 * length s + 2 \<le> m" for vs and s :: str using Suc that by blast
  have p: "scan_pairs fl (Suc m) d s = scan_pairs fl m d s" if "2 * length s + 2 \<le> m" for d and s :: str using Suc that by blast
  show ?case
  proof (intro conjI allI impI)
    fix s :: str assume le: "2 * length s + 1 \<le> Suc m"
    show "scan_value fl (Suc (Suc m)) s = scan_value fl (Suc m) s"
    proof (cases s)
      case (Cons c cs)
      then have "2 * length (skip_space cs) + 2 \<le> m" using le skip_space_le [of cs] by simp
      then have "scan_items fl (Suc m) [] (skip_space cs) = scan_items fl m [] (skip_space cs)"
        "scan_pairs fl (Suc m) [] (skip_space cs) = scan_pairs fl m [] (skip_space cs)" using i p by blast+
      then show ?thesis unfolding Cons scan_value.simps(3) by (simp only:)
    qed simp
  next
    fix vs :: "json list" and s :: str assume le: "2 * length s + 2 \<le> Suc m"
    then have same: "scan_value fl (Suc m) s = scan_value fl m s" using v by simp
    have "scan_items fl (Suc m) ws r' = scan_items fl m ws r'"
      if "scan_value fl m s = Some (w, r)" "after_item 93 r = Some (True, r')" for w r r' ws
      using i scan_shorter(1) [OF that(1)] after_item_shorter [OF that(2)] le by simp
    then show "scan_items fl (Suc (Suc m)) vs s = scan_items fl (Suc m) vs s"
      unfolding scan_items.simps(2) same by (auto split: option.split)
  next
    fix d :: dict and s :: str assume le: "2 * length s + 2 \<le> Suc m"
    have val: "scan_value fl (Suc m) r1 = scan_value fl m r1"
      if "scan_string (drop 1 s) = Some (k, r)" "after_key r = Some r1" for k r r1
      using v scan_string_shorter [OF that(1)] after_key_shorter [OF that(2)] le by simp
    then have same: "Option.bind (after_key r) (scan_value fl (Suc m)) = Option.bind (after_key r) (scan_value fl m)"
      if "scan_string (drop 1 s) = Some (k, r)" for k r using that by (cases "after_key r") auto
    have "scan_pairs fl (Suc m) e r' = scan_pairs fl m e r'"
      if str: "scan_string (drop 1 s) = Some (k, r)" and val: "Option.bind (after_key r) (scan_value fl m) = Some (w, r1)"
        and item: "after_item 125 r1 = Some (True, r')" for k r w r1 r' e
    proof -
      obtain r0 where r0: "after_key r = Some r0" "scan_value fl m r0 = Some (w, r1)"
        using val by (cases "after_key r") auto
      show ?thesis
        using p scan_string_shorter [OF str] after_key_shorter [OF r0(1)] scan_shorter(1) [OF r0(2)]
          after_item_shorter [OF item] le by simp
    qed
    then show "scan_pairs fl (Suc (Suc m)) d s = scan_pairs fl (Suc m) d s"
      unfolding scan_pairs.simps(2) using same by (auto split: option.split simp del: bind_eq_Some_conv)
  qed
qed simp

lemma scan_fuel: "2 * length s + 1 \<le> n \<Longrightarrow> scan_value fl n s = scan_value fl (2 * length s + 1) s"
proof (induction n rule: dec_induct)
  case (step m)
  then show ?case using scan_fuel_step [of m fl] by simp
qed simp

subsection \<open>Printing and reading back\<close>

lemma hex_value_digit: "0 \<le> n \<Longrightarrow> n < 16 \<Longrightarrow> hex_value (hex_digit n) = Some n"
  by (auto simp: hex_value_def hex_digit_def)

lemma scan_escaped:
  assumes "0 \<le> c"
  shows "scan_string (escape_char c @ r) = map_option (apfst ((#) c)) (scan_string r)"
proof -
  consider "c = 34" | "c = 92" | "c = 10" | "c = 13" | "c = 9" | "c = 12" | "c = 8"
    | "c < 32" "c \<notin> {34, 92, 10, 13, 9, 12, 8}" | "32 \<le> c" "c \<noteq> 34" "c \<noteq> 92" by force
  then show ?thesis
  proof cases
    case 8
    have h: "hex_value (hex_digit (c div 16)) = Some (c div 16)" "hex_value (hex_digit (c mod 16)) = Some (c mod 16)"
      using 8(1) assms by (auto intro!: hex_value_digit)
    have "hex_value 48 = Some 0" by (simp add: hex_value_def)
    then have "hex4 (48 # 48 # hex_digit (c div 16) # hex_digit (c mod 16) # r) = Some c"
      using h by simp
    then show ?thesis using 8 by (simp add: escape_char_def high_surrogate_def)
  qed (simp_all add: escape_char_def unescape_def)
qed

lemma scan_quoted: "list_all (\<lambda>c. 0 \<le> c) s \<Longrightarrow> scan_string (concat (map escape_char s) @ 34 # r) = Some (s, r)"
  by (induction s) (simp_all add: scan_escaped)

text \<open>What may follow a number.\<close>

definition stops :: "str \<Rightarrow> bool" where
  "stops r \<longleftrightarrow> r = [] \<or> (\<not> ascii_digit (hd r) \<and> hd r \<notin> {46, 101, 69})"

lemma takeWhile_stops: "stops r \<Longrightarrow> takeWhile ascii_digit (xs @ r) = takeWhile ascii_digit xs"
  by (induction xs) (auto simp: stops_def takeWhile_eq_Nil_iff)

lemma int_part_append: "stops r \<Longrightarrow> int_part s \<noteq> [] \<Longrightarrow> int_part (s @ r) = int_part s"
  using takeWhile_stops [of r] by (cases s) (auto simp: int_part_def)

lemma frac_part_append: "stops r \<Longrightarrow> frac_part (s @ r) = frac_part s"
  using takeWhile_stops [of r] by (cases s; cases r) (auto simp: frac_part_def stops_def)

lemma exp_part_append:
  assumes "stops r" and "drop (length (exp_part s)) s = []"
  shows "exp_part (s @ r) = exp_part s"
proof (cases s)
  case Nil
  then show ?thesis using assms(1) by (cases r) (auto simp: exp_part_def stops_def Let_def)
next
  case (Cons c cs)
  then have ne: "exp_part s \<noteq> []" using assms(2) by auto
  then have "cs \<noteq> []" using Cons by (auto simp: exp_part_def sign_of_def Let_def split: if_splits)
  then have sg: "sign_of {43, 45} (cs @ r) = sign_of {43, 45} cs" "length (sign_of {43, 45} cs) \<le> length cs"
    by (cases cs; simp add: sign_of_def)+
  then have "takeWhile ascii_digit (drop (length (sign_of {43, 45} cs)) (cs @ r))
      = takeWhile ascii_digit (drop (length (sign_of {43, 45} cs)) cs)"
    using takeWhile_stops [OF assms(1), of "drop (length (sign_of {43, 45} cs)) cs"] by simp
  then show ?thesis using Cons sg(1) by (simp add: exp_part_def Let_def)
qed

lemma parts_length: "length (int_part s) \<le> length s" "length (frac_part s) \<le> length s" "length (exp_part s) \<le> length s"
  by (auto simp: int_part_def frac_part_def exp_part_def sign_of_def Let_def length_takeWhile_le split: list.split
      intro: le_trans [OF length_takeWhile_le])

lemma scan_number_append:
  assumes "scan_number fl s = Some (v, [])" and "stops r"
  shows "scan_number fl (s @ r) = Some (v, r)"
proof -
  define s1 where "s1 = drop (length (sign_of {45} s)) s"
  define i where "i = int_part s1"
  define s2 where "s2 = drop (length i) s1"
  define f where "f = frac_part s2"
  define s3 where "s3 = drop (length f) s2"
  define e where "e = exp_part s3"
  have n: "scan_number fl s = (if i = [] then None else if f @ e \<noteq> [] then Some (JFloat (fl (sign_of {45} s @ i @ f @ e)), drop (length e) s3)
      else if max_int_digits < length i then None
      else Some (JInt (if sign_of {45} s = [] then int_of_text i else - int_of_text i), drop (length e) s3))"
    unfolding scan_number_def Let_def s1_def i_def s2_def f_def s3_def e_def ..
  then have i: "i \<noteq> []" and e: "drop (length e) s3 = []" using assms(1) by (auto split: if_splits)
  then have "s1 \<noteq> []" by (auto simp: i_def int_part_def)
  then have sg: "sign_of {45} (s @ r) = sign_of {45} s" "length (sign_of {45} s) \<le> length s"
    by (cases s; simp add: sign_of_def s1_def)+
  have r1: "drop (length (sign_of {45} s)) (s @ r) = s1 @ r" using sg(2) by (simp add: s1_def)
  have r2: "int_part (s1 @ r) = i" using int_part_append [OF assms(2)] i by (simp add: i_def)
  have r3: "drop (length i) (s1 @ r) = s2 @ r" using parts_length(1) [of s1] by (simp add: s2_def i_def)
  have r4: "frac_part (s2 @ r) = f" using frac_part_append [OF assms(2)] by (simp add: f_def)
  have r5: "drop (length f) (s2 @ r) = s3 @ r" using parts_length(2) [of s2] by (simp add: s3_def f_def)
  have r6: "exp_part (s3 @ r) = e" using exp_part_append [OF assms(2)] e by (simp add: e_def)
  have r7: "drop (length e) (s3 @ r) = r" using e parts_length(3) [of s3] by (simp add: e_def)
  have "scan_number fl (s @ r) = (if i = [] then None else if f @ e \<noteq> [] then Some (JFloat (fl (sign_of {45} s @ i @ f @ e)), r)
      else if max_int_digits < length i then None
      else Some (JInt (if sign_of {45} s = [] then int_of_text i else - int_of_text i), r))"
    unfolding scan_number_def Let_def sg(1) r1 r2 r3 r4 r5 r6 r7 ..
  then show ?thesis using assms(1) n e by (auto split: if_splits)
qed

lemma nat_digits_lead: "nat_digits n = [48] \<or> hd (nat_digits n) \<noteq> 48"
proof (induction n rule: nat_digits.induct)
  case (1 n)
  show ?case
  proof (cases "n < 10")
    case True
    then show ?thesis by (subst (1 2) nat_digits.simps) (simp, linarith)
  next
    case False
    then have "nat_digits (n div 10) \<noteq> [48]"
      using nat_digits_inject [of "n div 10" 0] by (simp add: nat_digits.simps [of 0])
    then have "hd (nat_digits (n div 10)) \<noteq> 48" using 1 [OF False] by blast
    then show ?thesis using False by (subst (2) nat_digits.simps) simp
  qed
qed

lemma int_part_digits: "int_part (nat_digits n) = nat_digits n"
proof -
  have "takeWhile ascii_digit (nat_digits n) = nat_digits n"
    using nat_digits_range [of n] by (simp add: ascii_digit_def takeWhile_eq_all_conv)
  then show ?thesis using nat_digits_lead [of n] by (cases "nat_digits n") (auto simp: int_part_def)
qed

lemma scan_int:
  assumes "length (str_of_int i) \<le> max_int_digits"
  shows "scan_number fl (str_of_int i) = Some (JInt i, [])"
proof -
  have "nat_digits n \<noteq> 45 # xs" for n xs using nat_digits_range [of n] by (cases "nat_digits n") auto
  then have sg: "sign_of {45} (nat_digits n) = []" for n by (cases "nat_digits n") (auto simp: sign_of_def)
  show ?thesis
  proof (cases "i < 0")
    case True
    then show ?thesis using assms
      by (simp add: scan_number_def str_of_int_def sign_of_def Let_def int_part_digits frac_part_def exp_part_def)
  next
    case False
    then show ?thesis using assms
      by (simp add: scan_number_def str_of_int_def sg Let_def int_part_digits frac_part_def exp_part_def)
  qed
qed
text \<open>The values that survive: the double texts are those of \<open>repr\<close>, and a dictionary has each key once.\<close>

fun readable :: "(str \<Rightarrow> str) \<Rightarrow> json \<Rightarrow> bool" where
  "readable fl (JInt i) = (length (str_of_int i) \<le> max_int_digits)"
| "readable fl (JFloat r) =
     ((lit ''NaN'' = r \<or> lit ''Infinity'' = r \<or> lit ''-Infinity'' = r) \<or> scan_number fl r = Some (JFloat r, []))"
| "readable fl (JStr s) = list_all (\<lambda>c. 0 \<le> c) s"
| "readable fl (JArr xs) = list_all (readable fl) xs"
| "readable fl (JObj d) = (distinct (map fst d) \<and> list_all (\<lambda>(k, v). list_all (\<lambda>c. 0 \<le> c) k \<and> readable fl v) d)"
| "readable fl _ = True"

lemma number_head:
  assumes "scan_number fl s = Some (v, r)"
  shows "\<exists>c cs. s = c # cs \<and> (ascii_digit c \<or> c = 45 \<and> cs \<noteq> [] \<and> ascii_digit (hd cs))"
proof -
  have i: "int_part (drop (length (sign_of {45} s)) s) \<noteq> []"
    using assms by (auto simp: scan_number_def Let_def split: if_splits)
  have "int_part t \<noteq> [] \<Longrightarrow> t \<noteq> [] \<and> ascii_digit (hd t)" for t
    by (cases t) (auto simp: int_part_def ascii_digit_def split: if_splits)
  note this [OF i]
  then show ?thesis by (cases s) (auto simp: sign_of_def split: if_splits)
qed

lemma starts_with_Cons: "starts_with (c # cs) (x # xs) \<longleftrightarrow> c = x \<and> starts_with cs xs"
  by (auto simp: starts_with_def)

lemma constant_heads:
  assumes "(w, v) \<in> set json_constants" and "starts_with (c # s) w"
  shows "c \<in> {110, 116, 102, 78, 73} \<or> c = 45 \<and> take 1 s = [73]"
proof -
  have "\<exists>x y t. w = x # y # t \<and> (x \<in> {110, 116, 102, 78, 73} \<or> x = 45 \<and> y = 73)"
    using assms(1) by (auto simp: json_constants_def lit_def)
  then show ?thesis using assms(2) by (cases s) (auto simp: starts_with_def)
qed

lemma number_not_constant:
  assumes "scan_number fl s = Some (v, r0)"
  shows "scan_constant (s @ r) = None"
proof -
  obtain c cs where c: "s = c # cs" "ascii_digit c \<or> c = 45 \<and> cs \<noteq> [] \<and> ascii_digit (hd cs)"
    using number_head [OF assms] by blast
  have "\<not> starts_with (s @ r) w" if "(w, u) \<in> set json_constants" for w u
    using constant_heads [OF that, of c "cs @ r"] c by (cases cs) (auto simp: ascii_digit_def)
  then have "find (\<lambda>(w, v). starts_with (s @ r) w) json_constants = None" unfolding find_None_iff by auto
  then show ?thesis unfolding scan_constant_def by simp
qed

lemma scan_value_number:
  assumes "scan_number fl s = Some (v, [])" and "stops r"
  shows "scan_value fl (Suc n) (s @ r) = Some (v, r)"
proof -
  obtain c cs where s: "s = c # cs" "ascii_digit c \<or> c = 45" using number_head [OF assms(1)] by blast
  then have "c \<noteq> 34" "c \<noteq> 123" "c \<noteq> 91" by (auto simp: ascii_digit_def)
  moreover have "scan_number fl (c # cs @ r) = Some (v, r)" "scan_constant (c # cs @ r) = None"
    using scan_number_append [OF assms] number_not_constant [OF assms(1), of r] s(1) by simp_all
  ultimately show ?thesis by (simp add: s(1))
qed

lemma scan_value_constant:
  "scan_value fl (Suc n) (lit ''null'' @ r) = Some (JNull, r)" "scan_value fl (Suc n) (lit ''true'' @ r) = Some (JBool True, r)"
  "scan_value fl (Suc n) (lit ''false'' @ r) = Some (JBool False, r)" "scan_value fl (Suc n) (lit ''NaN'' @ r) = Some (JFloat (lit ''NaN''), r)"
  "scan_value fl (Suc n) (lit ''Infinity'' @ r) = Some (JFloat (lit ''Infinity''), r)"
  "scan_value fl (Suc n) (lit ''-Infinity'' @ r) = Some (JFloat (lit ''-Infinity''), r)"
  by (simp_all add: scan_constant_def json_constants_def starts_with_def lit_def)

lemma skip_space_stay: "s \<noteq> [] \<Longrightarrow> \<not> json_space (hd s) \<Longrightarrow> skip_space s = s"
  by (cases s) (auto simp: skip_space_def)

lemma skip_space_Cons: "skip_space (c # s) = (if json_space c then skip_space s else c # s)"
  by (simp add: skip_space_def)

lemma skip_space_append: "list_all json_space w \<Longrightarrow> skip_space (w @ s) = skip_space s"
  by (induction w) (auto simp: skip_space_def)

lemma dput_new: "k \<notin> fst ` set d \<Longrightarrow> dput k v d = d @ [(k, v)]"
  by (induction d) auto

text \<open>A printer puts a comma and white space between items, and a colon and white space after a key.\<close>

locale json_printer =
  fixes isep ksep :: str
  assumes items_apart: "\<exists>w. isep = 44 # w \<and> list_all json_space w"
    and key_apart: "\<exists>w. ksep = 58 # w \<and> list_all json_space w"
begin

lemma printed_head:
  assumes "readable fl v"
  shows "dumps isep ksep v \<noteq> [] \<and> \<not> json_space (hd (dumps isep ksep v)) \<and> hd (dumps isep ksep v) \<notin> {44, 93, 125}"
proof (cases v)
  case (JInt i)
  then show ?thesis using number_head [OF scan_int, of i] assms by (auto simp: ascii_digit_def json_space_def)
next
  case (JFloat r)
  have "\<exists>c cs. r = c # cs \<and> c \<in> {78, 73, 45}" if "lit ''NaN'' = r \<or> lit ''Infinity'' = r \<or> lit ''-Infinity'' = r"
    using that by (auto simp: lit_def)
  moreover have "\<exists>c cs. r = c # cs \<and> (ascii_digit c \<or> c = 45)" if "scan_number fl r = Some (JFloat r, [])"
    using number_head [OF that] by blast
  ultimately show ?thesis using assms JFloat by (auto simp: ascii_digit_def json_space_def)
qed (auto simp: json_space_def lit_def quote_def)

lemma after_item_comma:
  assumes "s \<noteq> []" and "\<not> json_space (hd s)"
  shows "after_item close (isep @ s) = Some (True, s)"
  using items_apart assms by (auto simp: after_item_def skip_space_append skip_space_stay skip_space_Cons json_space_def)

lemma after_item_close: "close \<notin> {44, 32, 9, 10, 13} \<Longrightarrow> after_item close (close # r) = Some (False, r)"
  by (simp add: after_item_def skip_space_def json_space_def)

lemma after_key_colon:
  assumes "s \<noteq> []" and "\<not> json_space (hd s)"
  shows "after_key (ksep @ s) = Some s"
  using key_apart assms by (auto simp: after_key_def skip_space_append skip_space_stay skip_space_Cons json_space_def)

lemma isep_stops: "stops (isep @ r)"
  using items_apart by (auto simp: stops_def ascii_digit_def)

lemma isep_length: "1 \<le> length isep" "1 \<le> length ksep"
  using items_apart key_apart by auto

lemma scan_items_printed:
  assumes "\<And>x n r. x \<in> set xs \<Longrightarrow> stops r \<Longrightarrow> 2 * length (dumps isep ksep x) \<le> n \<Longrightarrow>
      scan_value fl n (dumps isep ksep x @ r) = Some (x, r)"
    and "list_all (readable fl) xs" and "xs \<noteq> []" and "2 * length (join isep (map (dumps isep ksep) xs)) + 1 \<le> n"
  shows "scan_items fl n vs (join isep (map (dumps isep ksep) xs) @ 93 # r) = Some (JArr (vs @ xs), r)"
  using assms
proof (induction xs arbitrary: n vs)
  case (Cons x xs)
  then obtain m where m: "n = Suc m" by (cases n) auto
  show ?case
  proof (cases xs)
    case Nil
    then have "scan_value fl m (dumps isep ksep x @ 93 # r) = Some (x, 93 # r)"
      using Cons.prems(1) [of x "93 # r" m] Cons.prems(4) m by (simp add: stops_def ascii_digit_def)
    then show ?thesis by (simp add: m Nil after_item_close)
  next
    case (Cons y ys)
    let ?t = "join isep (map (dumps isep ksep) xs)"
    have printed: "join isep (map (dumps isep ksep) (x # xs)) = dumps isep ksep x @ isep @ ?t" by (simp add: Cons)
    have "?t \<noteq> [] \<and> \<not> json_space (hd ?t)"
      using printed_head [of fl y] Cons.prems(2) Cons by (cases ys) auto
    then have c: "after_item 93 (isep @ ?t @ 93 # r) = Some (True, ?t @ 93 # r)" by (simp add: after_item_comma)
    have v: "scan_value fl m (dumps isep ksep x @ isep @ ?t @ 93 # r) = Some (x, isep @ ?t @ 93 # r)"
      using Cons.prems(1) [of x "isep @ ?t @ 93 # r" m] Cons.prems(4) m isep_length isep_stops printed by simp
    have "scan_items fl m (vs @ [x]) (?t @ 93 # r) = Some (JArr ((vs @ [x]) @ xs), r)"
      using Cons.prems(1,2,4) m isep_length printed Cons by (intro Cons.IH) auto
    then show ?thesis unfolding printed m by (simp add: v c)
  qed
qed simp

lemma scan_pairs_printed:
  assumes "\<And>k x n r. (k, x) \<in> set xs \<Longrightarrow> stops r \<Longrightarrow> 2 * length (dumps isep ksep x) \<le> n \<Longrightarrow>
      scan_value fl n (dumps isep ksep x @ r) = Some (x, r)"
    and "list_all (\<lambda>(k, v). list_all (\<lambda>c. 0 \<le> c) k \<and> readable fl v) xs" and "distinct (map fst (d @ xs))" and "xs \<noteq> []"
    and "2 * length (join isep (map (\<lambda>(k, v). quote k @ ksep @ dumps isep ksep v) xs)) + 1 \<le> n"
  shows "scan_pairs fl n d (join isep (map (\<lambda>(k, v). quote k @ ksep @ dumps isep ksep v) xs) @ 125 # r) = Some (JObj (d @ xs), r)"
  using assms
proof (induction xs arbitrary: n d)
  case (Cons p xs)
  obtain k x where p: "p = (k, x)" by fastforce
  obtain m where m: "n = Suc m" using Cons.prems(5) by (cases n) auto
  have k: "scan_string (concat (map escape_char k) @ 34 # t) = Some (k, t)" for t
    using Cons.prems(2) p by (simp add: scan_quoted)
  have hx: "dumps isep ksep x \<noteq> []" "\<not> json_space (hd (dumps isep ksep x))"
    using printed_head [of fl x] Cons.prems(2) p by auto
  then have key: "after_key (ksep @ dumps isep ksep x @ t) = Some (dumps isep ksep x @ t)" for t
    by (simp add: after_key_colon)
  have new: "dput k x d = d @ [(k, x)]" using Cons.prems(3) p by (intro dput_new) auto
  show ?case
  proof (cases xs)
    case Nil
    then have "scan_value fl m (dumps isep ksep x @ 125 # r) = Some (x, 125 # r)"
      using Cons.prems(1) [of k x "125 # r" m] Cons.prems(5) m p by (simp add: stops_def ascii_digit_def)
    then show ?thesis by (simp add: m Nil p quote_def k key new after_item_close)
  next
    case (Cons q qs)
    let ?t = "join isep (map (\<lambda>(k, v). quote k @ ksep @ dumps isep ksep v) xs)"
    have printed: "join isep (map (\<lambda>(k, v). quote k @ ksep @ dumps isep ksep v) (p # xs))
        = quote k @ ksep @ dumps isep ksep x @ isep @ ?t" by (simp add: Cons p)
    have "?t \<noteq> [] \<and> \<not> json_space (hd ?t)"
      using Cons by (cases q; cases qs) (auto simp: quote_def json_space_def)
    then have c: "after_item 125 (isep @ ?t @ 125 # r) = Some (True, ?t @ 125 # r)" by (simp add: after_item_comma)
    have v: "scan_value fl m (dumps isep ksep x @ isep @ ?t @ 125 # r) = Some (x, isep @ ?t @ 125 # r)"
      using Cons.prems(1) [of k x "isep @ ?t @ 125 # r" m] Cons.prems(5) m isep_length isep_stops printed p by simp
    have "scan_pairs fl m (d @ [(k, x)]) (?t @ 125 # r) = Some (JObj ((d @ [(k, x)]) @ xs), r)"
    proof (rule Cons.IH)
      show "2 * length ?t + 1 \<le> m" using Cons.prems(5) m isep_length printed by simp
    qed (use Cons.prems(1-3) p Cons in auto)
    moreover have "quote k = 34 # concat (map escape_char k) @ [34]" by (simp add: quote_def)
    ultimately show ?thesis unfolding printed m by (simp add: p k key v c new)
  qed
qed simp

lemma scan_printed:
  "readable fl v \<Longrightarrow> stops r \<Longrightarrow> 2 * length (dumps isep ksep v) \<le> n \<Longrightarrow>
     scan_value fl n (dumps isep ksep v @ r) = Some (v, r)"
proof (induction v arbitrary: n r)
  case (JInt i)
  then have "2 \<le> n" using number_head [OF scan_int, of i] by (cases "str_of_int i") auto
  then show ?case using JInt scan_value_number [OF scan_int] by (cases n) simp_all
next
  case (JFloat t)
  then have "dumps isep ksep (JFloat t) \<noteq> []" using printed_head by blast
  then obtain m where "n = Suc m" using JFloat.prems(3) by (cases n) auto
  then show ?case using JFloat.prems scan_value_number scan_value_constant by auto
next
  case (JStr s)
  then show ?case by (cases n) (simp_all add: quote_def scan_quoted)
next
  case (JArr xs)
  then obtain m where m: "n = Suc m" by (cases n) auto
  let ?t = "join isep (map (dumps isep ksep) xs)"
  show ?case
  proof (cases "xs = []")
    case False
    then have h: "?t \<noteq> []" "\<not> json_space (hd ?t)" "hd ?t \<noteq> 93"
      using printed_head [of fl "hd xs"] JArr.prems(1) by (cases xs; cases "tl xs"; auto)+
    have "scan_items fl m [] (?t @ 93 # r) = Some (JArr ([] @ xs), r)"
      using JArr.IH JArr.prems m False by (intro scan_items_printed) (auto simp: list_all_iff)
    then show ?thesis using h by (cases ?t) (auto simp: m skip_space_stay)
  qed (simp add: m skip_space_def json_space_def)
next
  case (JObj d)
  then obtain m where m: "n = Suc m" by (cases n) auto
  let ?t = "join isep (map (\<lambda>(k, v). quote k @ ksep @ dumps isep ksep v) d)"
  show ?case
  proof (cases "d = []")
    case False
    then have h: "?t \<noteq> []" "hd ?t = 34" by (cases d; cases "tl d"; auto simp: quote_def)+
    have "scan_pairs fl m [] (?t @ 125 # r) = Some (JObj ([] @ d), r)"
    proof (rule scan_pairs_printed)
      show "scan_value fl n (dumps isep ksep x @ t) = Some (x, t)"
        if "(k, x) \<in> set d" "stops t" "2 * length (dumps isep ksep x) \<le> n" for k x n t
        using JObj.IH [of "(k, x)" x t n] JObj.prems(1) that by (fastforce simp: list_all_iff)
    qed (use JObj.prems m False in auto)
    then show ?thesis using h by (cases ?t) (auto simp: m skip_space_stay json_space_def)
  qed (simp add: m skip_space_def json_space_def)
next
  case JNull
  then show ?case by (cases n) (simp_all add: scan_value_constant)
next
  case (JBool b)
  then show ?case by (cases n; cases b) (simp_all add: scan_value_constant)
qed

lemma loads_printed:
  assumes "readable fl v"
  shows "loads fl (dumps isep ksep v) = Some v"
proof -
  have "skip_space (dumps isep ksep v) = dumps isep ksep v" using printed_head [OF assms] by (simp add: skip_space_stay)
  moreover have "scan_value fl (2 * length (dumps isep ksep v) + 1) (dumps isep ksep v) = Some (v, [])"
    using scan_printed [OF assms, of "[]"] by (simp add: stops_def)
  ultimately show ?thesis by (simp add: loads_def skip_space_def)
qed

end

interpretation compact: json_printer "lit '',''" "lit '':''"
  by unfold_locales (auto simp: lit_def)

interpretation spaced: json_printer "lit '', ''" "lit '': ''"
  by unfold_locales (auto simp: lit_def json_space_def)

text \<open>
  What \<open>json.dumps\<close> writes, in either layout the program uses, \<open>json.loads\<close> reads back as the same value.
\<close>

theorem json_roundtrip:
  assumes "readable fl v"
  shows "loads fl (dumps_compact v) = Some v \<and> loads fl (dumps_default v) = Some v"
  using compact.loads_printed [OF assms] spaced.loads_printed [OF assms] by (simp add: dumps_compact_def dumps_default_def)

theorem json_roundtrip_witness:
  "loads id (dumps_compact (JObj [(lit ''a'', JArr [JInt (- 12), JFloat (lit ''1.5e10'')]), (lit ''b'', JStr [34, 7, 20320])]))
     = Some (JObj [(lit ''a'', JArr [JInt (- 12), JFloat (lit ''1.5e10'')]), (lit ''b'', JStr [34, 7, 20320])])"
proof -
  have "scan_number id (lit ''1.5e10'') = Some (JFloat (lit ''1.5e10''), [])" by code_simp
  moreover have "length (str_of_int (- 12)) = 3" by code_simp
  ultimately have "readable id (JObj [(lit ''a'', JArr [JInt (- 12), JFloat (lit ''1.5e10'')]), (lit ''b'', JStr [34, 7, 20320])])"
    by (simp add: max_int_digits_def list_all_iff lit_def)
  then show ?thesis using json_roundtrip by blast
qed

end
