(* ===== verification/ModelGateway.thy ===== *)
theory ModelGateway
  imports JsonText Budgets Schemas
begin

section \<open>The gateway to the model\<close>

text \<open>
  \<open>backend/app/services/agent_runtime/model_gateway.py\<close>: what is asked of a provider, how a reply is
  repaired and read, how often it is asked again, and what every physical request costs. The provider
  is an argument: a function of the number of requests made so far, of the kind of request and of the
  messages. So are pydantic's validation of a decision, the texts of the prompt rules and the schema.
\<close>

subsection \<open>Reading a reply\<close>

text \<open>The object that starts with the brace at the head: \<open>depth\<close>, \<open>in_string\<close>, \<open>escaped\<close>.\<close>

fun balanced_prefix :: "int \<Rightarrow> bool \<Rightarrow> bool \<Rightarrow> str \<Rightarrow> str option" where
  "balanced_prefix depth in_string escaped [] = None"
| "balanced_prefix depth in_string escaped (c # cs) =
     (if in_string then
        map_option ((#) c)
          (if escaped then balanced_prefix depth True False cs
           else if c = 92 then balanced_prefix depth True True cs
           else balanced_prefix depth (c \<noteq> 34) False cs)
      else if c = 34 then map_option ((#) c) (balanced_prefix depth True escaped cs)
      else if c = 123 then map_option ((#) c) (balanced_prefix (depth + 1) False escaped cs)
      else if c = 125 then
        (if depth - 1 = 0 then Some [c] else map_option ((#) c) (balanced_prefix (depth - 1) False escaped cs))
      else map_option ((#) c) (balanced_prefix depth False escaped cs))"

definition extract_first_balanced_json_object :: "str \<Rightarrow> str option" where
  "extract_first_balanced_json_object content =
     (if 123 \<notin> set content then None
      else balanced_prefix 0 False False (dropWhile (\<lambda>c. c \<noteq> 123) content))"

definition fence :: str where
  "fence = lit ''```''"

text \<open>\<open>s[a:-b]\<close>\<close>

definition cut_ends :: "nat \<Rightarrow> nat \<Rightarrow> str \<Rightarrow> str" where
  "cut_ends a b s = drop a (take (length s - b) s)"

definition strip_json_fence :: "str \<Rightarrow> str" where
  "strip_json_fence content =
     (let cleaned = strip content in
      if starts_with cleaned (fence @ lit ''json'') \<and> ends_with cleaned fence then strip (cut_ends 7 3 cleaned)
      else if starts_with cleaned fence \<and> ends_with cleaned fence then strip (cut_ends 3 3 cleaned)
      else case extract_first_balanced_json_object cleaned of Some b \<Rightarrow> b | None \<Rightarrow> cleaned)"

subsection \<open>Repairing it\<close>

definition pop_key :: "str \<Rightarrow> dict \<Rightarrow> dict" where
  "pop_key k d = filter (\<lambda>(k', v). k' \<noteq> k) d"

text \<open>\<open>only_value\<close> of a single-key wrapper.\<close>

definition unwrap_single :: "str list \<Rightarrow> dict \<Rightarrow> dict" where
  "unwrap_single known d =
     (case d of [(k, JObj inner)] \<Rightarrow> if k \<notin> set known then inner else d | _ \<Rightarrow> d)"

definition infer_plan_action :: "str list \<Rightarrow> dict \<Rightarrow> dict" where
  "infer_plan_action known d =
     (if lit ''action'' \<in> set known \<and> \<not> dhas d (lit ''action'')
         \<and> (dhas d (lit ''steps'') \<or> dhas d (lit ''complexity'') \<or> dhas d (lit ''success_criteria''))
      then dput (lit ''action'') (JStr (lit ''plan'')) d else d)"

definition wrong_response_field_names :: "(str \<times> str) list" where
  "wrong_response_field_names = [(lit ''input'', lit ''tool_input''), (lit ''decision'', lit ''action'')]"

definition rename_field :: "str list \<Rightarrow> str \<times> str \<Rightarrow> dict \<Rightarrow> dict" where
  "rename_field known names d =
     (case names of (wrong, correct) \<Rightarrow>
        if dhas d wrong \<and> correct \<in> set known \<and> \<not> dhas d correct
        then dput correct (dget d wrong) (pop_key wrong d) else d)"

text \<open>An explicit source of an artifact input is an edge of the plan.\<close>

definition artifact_source :: "json \<Rightarrow> str option" where
  "artifact_source ref =
     (case ref of
        JObj r \<Rightarrow> (case dget r (lit ''from_step'') of
            JStr s \<Rightarrow> if dget r (lit ''kind'') = JStr (lit ''artifact'') \<and> strip s \<noteq> [] then Some s else None
          | _ \<Rightarrow> None)
      | _ \<Rightarrow> None)"

definition promote :: "json \<Rightarrow> json list \<Rightarrow> json list" where
  "promote ref deps =
     (case artifact_source ref of None \<Rightarrow> deps | Some s \<Rightarrow> if JStr s \<in> set deps then deps else deps @ [JStr s])"

definition repair_dependencies :: "dict \<Rightarrow> dict" where
  "repair_dependencies step =
     (let step1 = (if dhas step (lit ''depends_on'') then step else dput (lit ''depends_on'') (JArr []) step)
      in case dget step1 (lit ''depends_on'') of
           JArr deps \<Rightarrow>
             (case (if dhas step1 (lit ''inputs'') then dget step1 (lit ''inputs'') else JArr []) of
                JArr inputs \<Rightarrow> dput (lit ''depends_on'') (JArr (fold promote inputs deps)) step1
              | _ \<Rightarrow> step1)
         | _ \<Rightarrow> step1)"

definition repair_step :: "nat \<Rightarrow> json \<Rightarrow> json" where
  "repair_step index step =
     (case step of
        JObj s \<Rightarrow> JObj (repair_dependencies
            (if truthy (dget s (lit ''step_id'')) then s
             else dput (lit ''step_id'') (JStr (lit ''step-'' @ str_of_int (int index + 1))) s))
      | j \<Rightarrow> j)"

definition repair_steps :: "str list \<Rightarrow> dict \<Rightarrow> dict" where
  "repair_steps known d =
     (if lit ''steps'' \<in> set known then
        (case dget d (lit ''steps'') of
           JArr steps \<Rightarrow> dput (lit ''steps'') (JArr (map2 repair_step [0..<length steps] steps)) d
         | _ \<Rightarrow> d)
      else d)"

definition coerce_response_fields :: "str list \<Rightarrow> json \<Rightarrow> json" where
  "coerce_response_fields known data =
     (case data of
        JObj d \<Rightarrow> JObj (repair_steps known (fold (rename_field known) wrong_response_field_names
            (infer_plan_action known (unwrap_single known d))))
      | j \<Rightarrow> j)"

text \<open>The fields of a flat schema, or of all branches of one of \<open>oneOf\<close>.\<close>

definition resolve_branch :: "dict \<Rightarrow> dict \<Rightarrow> dict" where
  "resolve_branch definitions branch =
     (case dget branch (lit ''$ref'') of
        JStr reference \<Rightarrow>
          if starts_with reference (lit ''#/$defs/'')
          then (case dget definitions (last (split_on 47 reference)) of JObj d \<Rightarrow> d | _ \<Rightarrow> branch) else branch
      | _ \<Rightarrow> branch)"

definition response_schema_fields :: "dict \<Rightarrow> str list" where
  "response_schema_fields schema =
     (let definitions = the_dict (dget schema (lit ''$defs''));
          branches = (case dget schema (lit ''oneOf'') of JArr xs \<Rightarrow> dicts_of xs | _ \<Rightarrow> [])
      in map fst (fold (\<lambda>b acc. dmerge acc (the_dict (dget (resolve_branch definitions b) (lit ''properties''))))
           branches (the_dict (dget schema (lit ''properties'')))))"

text \<open>\<open>None\<close> is any exception: of the parser or of the validation.\<close>

record 'd response_model =
  rm_schema :: dict
  rm_validate :: "json \<Rightarrow> 'd option"

definition parse_and_validate :: "(str \<Rightarrow> str) \<Rightarrow> 'd response_model \<Rightarrow> str \<Rightarrow> 'd option" where
  "parse_and_validate fl rm content =
     Option.bind (loads fl (strip_json_fence content))
       (\<lambda>data. rm_validate rm (coerce_response_fields (response_schema_fields (rm_schema rm)) data))"

subsection \<open>Messages\<close>

definition role_action_contract :: "agent_role \<Rightarrow> str" where
  "role_action_contract role =
     (case role of
        Planner \<Rightarrow> lit ''The action must be exactly one of: call_tool, plan, need_user. ''
          @ lit ''call_tool needs tool_name; plan needs complexity, success_criteria and steps; ''
          @ lit ''need_user needs user_question.''
      | Executor \<Rightarrow> lit ''The action must be exactly one of: call_tool, complete, need_user. ''
          @ lit ''call_tool needs tool_name; complete needs summary; need_user needs user_question.''
      | Verifier \<Rightarrow> lit ''The action must be exactly one of: call_tool, decide. ''
          @ lit ''call_tool needs tool_name; decide needs verification_decision, which must be ''
          @ lit ''PASS, RETRY_EXECUTOR, REPLAN, NEED_USER or FAIL.'')"

text \<open>What a provider sends: its message, and in the structured call what the client library parsed of it.\<close>

record message =
  ms_content :: "str option"
  ms_usage :: json
  ms_response :: json

datatype 'd parsed = Unparsed | Instance 'd | Plain json

datatype 'd wire = Threw str | Sent "message option" "'d parsed"

record 'd gateway =
  gw_prefer_local :: bool
  gw_catalog_in_system :: bool
  gw_json_mode :: bool
  gw_model_name :: json
  gw_rules :: "agent_role \<Rightarrow> str"
  gw_float :: "str \<Rightarrow> str"
  gw_wraps :: "str option"
  gw_provider :: "nat \<Rightarrow> bool \<Rightarrow> str list \<Rightarrow> 'd wire"

record gateway_state =
  gs_budget :: "model_budget option"
  gs_calls :: nat
  gs_usage :: "dict option"

definition system_text :: "'d gateway \<Rightarrow> agent_role \<Rightarrow> str \<Rightarrow> 'd response_model \<Rightarrow> str" where
  "system_text gw role instruction rm =
     lit ''Role: '' @ role_value role @ lit ''. '' @ instruction @ lit '' ''
     @ lit ''Return exactly one decision matching the requested schema. '' @ role_action_contract role
     @ (if gw_json_mode gw then lit '' Return one JSON object matching the requested schema.''
          @ lit '' The complete JSON Schema is: '' @ dumps_compact (JObj (rm_schema rm)) else [])"

definition decide_messages :: "'d gateway \<Rightarrow> agent_role \<Rightarrow> str \<Rightarrow> dict \<Rightarrow> 'd response_model \<Rightarrow> str list" where
  "decide_messages gw role instruction state rm =
     (let system = system_text gw role instruction rm;
          catalog = dget state (lit ''available_tools'')
      in if gw_catalog_in_system gw
         then [system @ (if catalog = JNull then [] else [10, 10] @ lit ''Available tools (JSON):'' @ [10] @ dumps_compact catalog),
               dumps_compact (JObj (pop_key (lit ''available_tools'') state))]
         else [system, dumps_compact (JObj state)])"

definition fallback_text :: "'d gateway \<Rightarrow> agent_role \<Rightarrow> 'd response_model \<Rightarrow> str" where
  "fallback_text gw role rm =
     lit ''Return only one JSON object matching the requested schema exactly. ''
     @ (if gw_json_mode gw then [] else lit ''The schema is: '' @ dumps_default (JObj (rm_schema rm)) @ lit '' '')
     @ role_action_contract role @ lit '' '' @ gw_rules gw role"

definition corrective_text :: "'d gateway \<Rightarrow> agent_role \<Rightarrow> str" where
  "corrective_text gw role =
     lit ''Your previous response was not one valid JSON object matching the requested schema. Return ''
     @ lit ''ONLY a single JSON object: no prose before or after it, no extra fields, no trailing ''
     @ lit ''punctuation. '' @ gw_rules gw role"

subsection \<open>One physical request\<close>

definition usage_entry :: "json \<Rightarrow> dict \<Rightarrow> string \<Rightarrow> string \<Rightarrow> dict" where
  "usage_entry name u input output = [(lit ''model_name'', name), (lit ''input_tokens'', dget u (lit input)),
     (lit ''output_tokens'', dget u (lit output))]"

definition extract_usage :: "json \<Rightarrow> message option \<Rightarrow> dict option" where
  "extract_usage name m =
     (case m of None \<Rightarrow> None
      | Some x \<Rightarrow>
          (case ms_usage x of
             JObj u \<Rightarrow> Some (usage_entry name u ''input_tokens'' ''output_tokens'')
           | _ \<Rightarrow> (case dget (the_dict (ms_response x)) (lit ''token_usage'') of
               JObj u \<Rightarrow> Some (usage_entry name u ''prompt_tokens'' ''completion_tokens'')
             | _ \<Rightarrow> None)))"

datatype 'd physical = Exhausted | Broke str | Got "message option" "'d parsed"

definition request_estimate :: "agent_role \<Rightarrow> str list \<Rightarrow> int" where
  "request_estimate role messages =
     estimate_input_tokens (lit ''agent_gateway'') [(lit ''messages'', strs messages), (lit ''role'', JStr (role_value role))]"

definition invoke_physical ::
  "'d gateway \<Rightarrow> agent_role \<Rightarrow> bool \<Rightarrow> str list \<Rightarrow> gateway_state \<Rightarrow> 'd physical \<times> gateway_state" where
  "invoke_physical gw role structured messages gs =
     (let gs0 = gs\<lparr>gs_usage := None\<rparr>;
          answer = gw_provider gw (gs_calls gs) structured messages;
          usage = (case answer of Threw _ \<Rightarrow> None | Sent m _ \<Rightarrow> extract_usage (gw_model_name gw) m);
          gs1 = gs\<lparr>gs_usage := usage, gs_calls := Suc (gs_calls gs)\<rparr>
      in case gs_budget gs of
           None \<Rightarrow> (case answer of Threw e \<Rightarrow> Broke e | Sent m p \<Rightarrow> Got m p, gs1)
         | Some b \<Rightarrow>
             (let (ok, b1) = try_reserve (request_estimate role messages) b in
              if \<not> ok then (Exhausted, gs0\<lparr>gs_budget := Some b1\<rparr>)
              else case answer of
                  Threw e \<Rightarrow> (Broke e, gs1\<lparr>gs_budget := Some (model_cancel b1)\<rparr>)
                | Sent m p \<Rightarrow>
                    (let (within, b2) = model_record usage b1
                     in (if within then Got m p else Exhausted, gs1\<lparr>gs_budget := Some b2\<rparr>))))"

subsection \<open>A decision\<close>

definition response_format_unavailable :: "str \<Rightarrow> bool" where
  "response_format_unavailable e \<longleftrightarrow>
     contains (lit ''response_format'') (lower e)
     \<and> (contains (lit ''unavailable'') (lower e) \<or> contains (lit ''not supported'') (lower e))"

definition content_of :: "message option \<Rightarrow> str option" where
  "content_of m = Option.bind m ms_content"

definition decide_with_local_json_validation ::
  "'d gateway \<Rightarrow> agent_role \<Rightarrow> 'd response_model \<Rightarrow> str list \<Rightarrow> gateway_state \<Rightarrow> (str + 'd) \<times> gateway_state" where
  "decide_with_local_json_validation gw role rm messages gs =
     (let (out, gs') = invoke_physical gw role False (messages @ [fallback_text gw role rm]) gs
      in (case out of
            Exhausted \<Rightarrow> Inl (lit ''model_budget_exhausted'')
          | Broke e \<Rightarrow> Inl (lit ''model_request_failed'')
          | Got m p \<Rightarrow>
              (case Option.bind (content_of m) (parse_and_validate (gw_float gw) rm) of
                 None \<Rightarrow> Inl (lit ''invalid_model_response'') | Some d \<Rightarrow> Inr d), gs'))"

text \<open>\<open>for attempt in range(3)\<close>, counting the attempts left.\<close>

fun decide_with_local_json_retry ::
  "'d gateway \<Rightarrow> agent_role \<Rightarrow> 'd response_model \<Rightarrow> nat \<Rightarrow> str list \<Rightarrow> gateway_state \<Rightarrow> (str + 'd) \<times> gateway_state" where
  "decide_with_local_json_retry gw role rm 0 messages gs = (Inl (lit ''invalid_model_response''), gs)"
| "decide_with_local_json_retry gw role rm (Suc n) messages gs =
     (case decide_with_local_json_validation gw role rm messages gs of
        (Inr d, gs') \<Rightarrow> (Inr d, gs')
      | (Inl code, gs') \<Rightarrow>
          if code \<in> {lit ''model_request_failed'', lit ''model_budget_exhausted''} then (Inl code, gs')
          else decide_with_local_json_retry gw role rm n
                 (if 0 < n then messages @ [corrective_text gw role] else messages) gs')"

definition local_attempts :: nat where
  "local_attempts = 3"

definition validate_parsed :: "'d response_model \<Rightarrow> 'd parsed \<Rightarrow> 'd option" where
  "validate_parsed rm p =
     (case p of Unparsed \<Rightarrow> rm_validate rm JNull | Instance d \<Rightarrow> Some d
      | Plain j \<Rightarrow> rm_validate rm (coerce_response_fields (response_schema_fields (rm_schema rm)) j))"

definition decide_structured ::
  "'d gateway \<Rightarrow> agent_role \<Rightarrow> 'd response_model \<Rightarrow> str list \<Rightarrow> gateway_state \<Rightarrow> (str + 'd) \<times> gateway_state" where
  "decide_structured gw role rm messages gs =
     (let (out, gs') = (case gw_wraps gw of Some e \<Rightarrow> (Broke e, gs) | None \<Rightarrow> invoke_physical gw role True messages gs)
      in case out of
           Exhausted \<Rightarrow> (Inl (lit ''model_budget_exhausted''), gs')
         | Broke e \<Rightarrow>
             if response_format_unavailable e then decide_with_local_json_validation gw role rm messages gs'
             else (Inl (lit ''model_request_failed''), gs')
         | Got m p \<Rightarrow>
             (case validate_parsed rm p of
                Some d \<Rightarrow> (Inr d, gs')
              | None \<Rightarrow>
                  (case Option.bind (content_of m) (parse_and_validate (gw_float gw) rm) of
                     Some d \<Rightarrow> (Inr d, gs')
                   | None \<Rightarrow> decide_with_local_json_retry gw role rm local_attempts messages gs')))"

definition gateway_decide ::
  "'d gateway \<Rightarrow> agent_role \<Rightarrow> str \<Rightarrow> dict \<Rightarrow> 'd response_model \<Rightarrow> gateway_state \<Rightarrow> (str + 'd) \<times> gateway_state" where
  "gateway_decide gw role instruction state rm gs =
     (let messages = decide_messages gw role instruction state rm; gs0 = gs\<lparr>gs_usage := None\<rparr>
      in if gw_prefer_local gw then decide_with_local_json_retry gw role rm local_attempts messages gs0
         else decide_structured gw role rm messages gs0)"

subsection \<open>What a decision costs\<close>

text \<open>
  \<open>charged\<close>: the budget afterwards is the one left by a list of provider calls, of which no more than
  \<open>n\<close> were asked for, and no more requests were sent than calls were let through.
\<close>

definition charged :: "nat \<Rightarrow> gateway_state \<Rightarrow> gateway_state \<Rightarrow> bool" where
  "charged n gs gs' \<longleftrightarrow>
     gs_calls gs \<le> gs_calls gs' \<and> gs_calls gs' \<le> gs_calls gs + n
     \<and> (case gs_budget gs of None \<Rightarrow> gs_budget gs' = None
        | Some b \<Rightarrow> \<exists>calls. length calls \<le> n \<and> gs_budget gs' = Some (snd (grants provider_call calls b))
            \<and> gs_calls gs' = gs_calls gs + fst (grants provider_call calls b))"

lemma charged_none [simp]: "charged n gs gs"
  by (auto simp: charged_def split: option.split intro: exI [of _ "[]"])

lemma charged_trans:
  assumes "charged m a b" and "charged n b c"
  shows "charged (m + n) a c"
proof (cases "gs_budget a")
  case None
  then show ?thesis using assms by (auto simp: charged_def)
next
  case (Some x)
  obtain cs where cs: "length cs \<le> m" "gs_budget b = Some (snd (grants provider_call cs x))"
    "gs_calls b = gs_calls a + fst (grants provider_call cs x)"
    using assms(1) Some by (auto simp: charged_def)
  obtain ds where ds: "length ds \<le> n" "gs_budget c = Some (snd (grants provider_call ds (snd (grants provider_call cs x))))"
    "gs_calls c = gs_calls b + fst (grants provider_call ds (snd (grants provider_call cs x)))"
    using assms(2) cs(2) by (auto simp: charged_def)
  have "length (cs @ ds) \<le> m + n \<and> gs_budget c = Some (snd (grants provider_call (cs @ ds) x))
      \<and> gs_calls c = gs_calls a + fst (grants provider_call (cs @ ds) x)"
    using cs ds by (simp add: grants_append)
  moreover have "gs_calls a \<le> gs_calls c" "gs_calls c \<le> gs_calls a + (m + n)" using assms by (auto simp: charged_def)
  ultimately show ?thesis unfolding charged_def Some option.case by blast
qed

lemma charged_mono: "charged m a b \<Longrightarrow> m \<le> n \<Longrightarrow> charged n a b"
  unfolding charged_def by (cases "gs_budget a") (auto intro: le_trans)

lemma charged_usage: "charged n (gs\<lparr>gs_usage := u\<rparr>) gs' \<longleftrightarrow> charged n gs gs'"
  by (cases "gs_budget gs") (simp_all add: charged_def)

lemma invoke_charged: "charged 1 gs (snd (invoke_physical gw role structured messages gs))"
proof (cases "gs_budget gs")
  case None
  then show ?thesis by (simp add: charged_def invoke_physical_def Let_def)
next
  case (Some b)
  define answer where "answer = gw_provider gw (gs_calls gs) structured messages"
  define out where "out = (case answer of Threw _ \<Rightarrow> Raised | Sent m _ \<Rightarrow> Answered (extract_usage (gw_model_name gw) m))"
  define call where "call = (request_estimate role messages, out)"
  have budget: "gs_budget (snd (invoke_physical gw role structured messages gs)) = Some (snd (provider_call call b))"
    by (cases answer) (auto simp: invoke_physical_def Some Let_def split_beta provider_call_def call_def out_def settle_def answer_def)
  have calls: "gs_calls (snd (invoke_physical gw role structured messages gs))
      = gs_calls gs + (if fst (provider_call call b) then 1 else 0)"
    by (cases answer) (auto simp: invoke_physical_def Some Let_def split_beta provider_call_def call_def answer_def)
  have "length [call] \<le> 1" by simp
  then show ?thesis
    unfolding charged_def Some option.case using budget calls
    by (intro conjI exI [of _ "[call]"]) (auto simp: split_beta Let_def)
qed

lemma validation_charged: "charged 1 gs (snd (decide_with_local_json_validation gw role rm messages gs))"
  using invoke_charged by (simp add: decide_with_local_json_validation_def split_beta Let_def)

lemma retry_charged: "charged n gs (snd (decide_with_local_json_retry gw role rm n messages gs))"
proof (induction n arbitrary: messages gs)
  case (Suc n)
  obtain r gs' where v: "decide_with_local_json_validation gw role rm messages gs = (r, gs')" by fastforce
  then have one: "charged 1 gs gs'" using validation_charged [of gs gw role rm messages] by simp
  have "charged (1 + n) gs (snd (decide_with_local_json_retry gw role rm n ms gs'))" for ms
    by (rule charged_trans [OF one Suc.IH])
  moreover have "charged (1 + n) gs gs'" using charged_mono [OF one] by simp
  ultimately show ?case by (auto simp: v split: sum.split)
qed simp

lemma structured_charged: "charged 4 gs (snd (decide_structured gw role rm messages gs))"
proof -
  define call where "call = (case gw_wraps gw of Some e \<Rightarrow> (Broke e, gs) | None \<Rightarrow> invoke_physical gw role True messages gs)"
  have one: "charged 1 gs (snd call)" using invoke_charged by (auto simp: call_def split: option.split)
  have "charged 4 gs (snd call)" using charged_mono [OF one, of 4] by simp
  moreover have "charged 4 gs (snd (decide_with_local_json_validation gw role rm messages (snd call)))"
    using charged_mono [OF charged_trans [OF one validation_charged], of 4] by simp
  moreover have "charged 4 gs (snd (decide_with_local_json_retry gw role rm local_attempts messages (snd call)))"
    using charged_trans [OF one retry_charged [of local_attempts]] by (simp add: local_attempts_def)
  ultimately show ?thesis
    by (auto simp: decide_structured_def split_beta Let_def simp flip: call_def split: physical.split option.split)
qed

lemma decide_charged: "charged 4 gs (snd (gateway_decide gw role instruction state rm gs))"
proof -
  have "charged 4 (gs\<lparr>gs_usage := None\<rparr>) (snd (decide_structured gw role rm messages (gs\<lparr>gs_usage := None\<rparr>)))" for messages
    by (rule structured_charged)
  moreover have "charged 4 (gs\<lparr>gs_usage := None\<rparr>)
      (snd (decide_with_local_json_retry gw role rm local_attempts messages (gs\<lparr>gs_usage := None\<rparr>)))" for messages
    by (rule charged_mono [OF retry_charged]) (simp add: local_attempts_def)
  ultimately show ?thesis by (simp add: gateway_decide_def Let_def charged_usage)
qed

subsection \<open>What may come out\<close>

text \<open>A value that comes out was validated, and a failure has one of three codes.\<close>

definition sound_reply :: "'d response_model \<Rightarrow> 'd set \<Rightarrow> str + 'd \<Rightarrow> bool" where
  "sound_reply rm given out \<longleftrightarrow>
     (case out of
        Inl code \<Rightarrow> code \<in> {lit ''model_budget_exhausted'', lit ''model_request_failed'', lit ''invalid_model_response''}
      | Inr d \<Rightarrow> d \<in> given \<or> (\<exists>j. rm_validate rm j = Some d))"

lemma parse_sound: "parse_and_validate fl rm c = Some d \<Longrightarrow> \<exists>j. rm_validate rm j = Some d"
  by (auto simp: parse_and_validate_def bind_eq_Some_conv)

lemma validation_sound: "sound_reply rm given (fst (decide_with_local_json_validation gw role rm messages gs))"
  by (auto simp: decide_with_local_json_validation_def sound_reply_def split_beta Let_def bind_eq_Some_conv
      dest: parse_sound split: physical.split option.split)

lemma retry_sound: "sound_reply rm given (fst (decide_with_local_json_retry gw role rm n messages gs))"
proof (induction n arbitrary: messages gs)
  case (Suc n)
  obtain r gs' where v: "decide_with_local_json_validation gw role rm messages gs = (r, gs')" by fastforce
  then have "sound_reply rm given r" using validation_sound [of rm given gw role messages gs] by simp
  then show ?case using Suc.IH by (auto simp: v split: sum.split)
qed (simp add: sound_reply_def)

text \<open>The decisions the client library may hand over as instances of the schema's class.\<close>

definition instances :: "'d gateway \<Rightarrow> 'd set" where
  "instances gw = {d. \<exists>n ms m. gw_provider gw n True ms = Sent m (Instance d)}"

lemma invoke_instance:
  assumes "invoke_physical gw role True messages gs = (Got m (Instance d), gs')"
  shows "d \<in> instances gw"
proof -
  have "gw_provider gw (gs_calls gs) True messages = Sent m (Instance d)"
    using assms by (auto simp: invoke_physical_def Let_def split_beta split: option.splits wire.splits if_splits)
  then show ?thesis by (auto simp: instances_def)
qed

lemma decide_sound: "sound_reply rm (instances gw) (fst (gateway_decide gw role instruction state rm gs))"
proof -
  have "sound_reply rm (instances gw) (fst (decide_structured gw role rm messages gs))" for messages gs
  proof -
    define call where "call = (case gw_wraps gw of Some e \<Rightarrow> (Broke e, gs) | None \<Rightarrow> invoke_physical gw role True messages gs)"
    obtain out gs' where c: "call = (out, gs')" by fastforce
    have "d \<in> instances gw \<or> (\<exists>j. rm_validate rm j = Some d)" if "out = Got m p" "validate_parsed rm p = Some d" for m p d
      using that c invoke_instance [of gw role messages gs m d gs']
      by (auto simp: call_def validate_parsed_def split: parsed.splits option.splits)
    note given = this
    have main: "decide_structured gw role rm messages gs = (case out of
        Exhausted \<Rightarrow> (Inl (lit ''model_budget_exhausted''), gs')
      | Broke e \<Rightarrow> if response_format_unavailable e then decide_with_local_json_validation gw role rm messages gs'
          else (Inl (lit ''model_request_failed''), gs')
      | Got m p \<Rightarrow> (case validate_parsed rm p of Some d \<Rightarrow> (Inr d, gs')
          | None \<Rightarrow> (case Option.bind (content_of m) (parse_and_validate (gw_float gw) rm) of Some d \<Rightarrow> (Inr d, gs')
              | None \<Rightarrow> decide_with_local_json_retry gw role rm local_attempts messages gs')))"
      by (simp add: decide_structured_def c flip: call_def)
    show ?thesis
    proof (cases out)
      case (Got m p)
      have "sound_reply rm (instances gw) (Inr d)" if "Option.bind (content_of m) (parse_and_validate (gw_float gw) rm) = Some d" for d
        using that parse_sound by (fastforce simp: sound_reply_def bind_eq_Some_conv)
      moreover have "sound_reply rm (instances gw) (Inr d)" if "validate_parsed rm p = Some d" for d
        using given [OF Got that] by (simp add: sound_reply_def)
      ultimately show ?thesis by (simp add: main Got retry_sound split: option.split)
    qed (simp_all add: main validation_sound, simp_all add: sound_reply_def)
  qed
  then show ?thesis by (simp add: gateway_decide_def Let_def retry_sound)
qed

subsection \<open>Objects in prose\<close>

definition plain_text :: "str \<Rightarrow> bool" where
  "plain_text s \<longleftrightarrow> 34 \<notin> set s \<and> 123 \<notin> set s \<and> 125 \<notin> set s"

lemma map_option_prefix:
  "map_option ((@) []) x = x" "map_option ((#) c) (map_option ((@) s) x) = map_option ((@) (c # s)) x"
  "map_option ((@) s) (map_option ((@) t) x) = map_option ((@) (s @ t)) x"
  "map_option ((#) c) x = map_option ((@) [c]) x"
  by (cases x; simp)+

lemma balanced_plain:
  "plain_text s \<Longrightarrow> balanced_prefix depth False False (s @ r) = map_option ((@) s) (balanced_prefix depth False False r)"
  by (induction s) (auto simp: plain_text_def map_option_prefix(1,2))

lemma balanced_string:
  "34 \<notin> set s \<Longrightarrow> 92 \<notin> set s \<Longrightarrow>
     balanced_prefix depth True False (s @ r) = map_option ((@) s) (balanced_prefix depth True False r)"
  by (induction s) (auto simp: map_option_prefix(1,2))

lemma escape_form:
  assumes "0 \<le> c"
  shows "(\<exists>x s. escape_char c = 92 # x # s \<and> 34 \<notin> set s \<and> 92 \<notin> set s) \<or> escape_char c = [c] \<and> c \<noteq> 34 \<and> c \<noteq> 92"
proof -
  have h: "hex_digit n \<noteq> 34 \<and> hex_digit n \<noteq> 92" if "0 \<le> n" for n using that by (auto simp: hex_digit_def)
  have "0 \<le> c div 16" "0 \<le> c mod 16" using assms by simp_all
  then show ?thesis using h by (auto simp: escape_char_def)
qed

lemma balanced_escaped:
  assumes "0 \<le> c"
  shows "balanced_prefix depth True False (escape_char c @ r) = map_option ((@) (escape_char c)) (balanced_prefix depth True False r)"
  using escape_form [OF assms]
proof (elim disjE exE conjE)
  fix x s assume "escape_char c = 92 # x # s" "34 \<notin> set s" "92 \<notin> set s"
  then show ?thesis using balanced_string [of s depth r] by (simp add: map_option_prefix(2))
next
  assume "escape_char c = [c]" "c \<noteq> 34" "c \<noteq> 92"
  then show ?thesis by (simp add: map_option_prefix(4))
qed

lemma balanced_quoted:
  assumes "list_all (\<lambda>c. 0 \<le> c) k"
  shows "balanced_prefix depth False False (quote k @ r) = map_option ((@) (quote k)) (balanced_prefix depth False False r)"
proof -
  have "balanced_prefix depth True False (concat (map escape_char k) @ 34 # r)
      = map_option ((@) (concat (map escape_char k) @ [34])) (balanced_prefix depth False False r)"
    using assms by (induction k) (simp_all add: balanced_escaped map_option_prefix(3), simp add: map_option_prefix(4))
  then show ?thesis by (simp add: quote_def map_option_prefix(2))
qed

lemma takeWhile_rest: "takeWhile P s @ drop (length (takeWhile P s)) s = s"
  by (induction s) auto

lemma sign_rest: "sign_of signs s @ drop (length (sign_of signs s)) s = s"
  by (cases s) (auto simp: sign_of_def)

lemma parts_rest:
  "int_part s @ drop (length (int_part s)) s = s" "frac_part s @ drop (length (frac_part s)) s = s"
  "exp_part s @ drop (length (exp_part s)) s = s"
proof -
  show "int_part s @ drop (length (int_part s)) s = s"
    by (cases s) (simp_all add: int_part_def takeWhile_rest)
  show "frac_part s @ drop (length (frac_part s)) s = s"
    by (cases s) (simp_all add: frac_part_def takeWhile_rest)
  show "exp_part s @ drop (length (exp_part s)) s = s"
  proof (cases s)
    case (Cons c cs)
    define t where "t = drop (length (sign_of {43, 45} cs)) cs"
    have "sign_of {43, 45} cs @ takeWhile ascii_digit t @ drop (length (takeWhile ascii_digit t)) t = cs"
      using sign_rest [of "{43, 45}" cs] takeWhile_rest [of ascii_digit t] by (simp flip: t_def del: drop_drop)
    moreover have "drop (length (takeWhile ascii_digit t)) t = drop (length (takeWhile ascii_digit t) + length (sign_of {43, 45} cs)) cs"
      by (simp add: t_def)
    ultimately show ?thesis by (simp add: Cons exp_part_def Let_def ac_simps flip: t_def)
  qed (simp add: exp_part_def)
qed

lemma takeWhile_digits: "list_all ascii_digit (takeWhile ascii_digit s)"
  by (induction s) auto

lemma parts_plain: "signs \<subseteq> {43, 45} \<Longrightarrow> plain_text (sign_of signs s)" "plain_text (int_part s)" "plain_text (frac_part s)"
  "plain_text (exp_part s)"
proof -
  have d: "plain_text (takeWhile ascii_digit t)" for t
    using takeWhile_digits [of t] by (auto simp: plain_text_def list_all_iff ascii_digit_def)
  show sg: "plain_text (sign_of signs s)" if "signs \<subseteq> {43, 45}" for signs s
    using that by (cases s) (auto simp: sign_of_def plain_text_def)
  show "plain_text (int_part s)" using d by (cases s) (auto simp: int_part_def plain_text_def ascii_digit_def)
  show "plain_text (frac_part s)" using d by (cases s) (auto simp: frac_part_def plain_text_def)
  have "plain_text (sign_of {43, 45} cs)" for cs by (rule sg) simp
  then show "plain_text (exp_part s)" using d by (cases s) (auto simp: exp_part_def plain_text_def Let_def)
qed

lemma number_plain:
  assumes "scan_number fl s = Some (v, [])"
  shows "plain_text s"
proof -
  define s1 where "s1 = drop (length (sign_of {45} s)) s"
  define s2 where "s2 = drop (length (int_part s1)) s1"
  define s3 where "s3 = drop (length (frac_part s2)) s2"
  have "drop (length (exp_part s3)) s3 = []"
    using assms unfolding scan_number_def Let_def s1_def s2_def s3_def by (simp only: split: if_splits) auto
  then have "s3 = exp_part s3" using parts_rest(3) [of s3] by simp
  then have "s = sign_of {45} s @ int_part s1 @ frac_part s2 @ exp_part s3"
    using sign_rest [of "{45}" s] parts_rest(1) [of s1] parts_rest(2) [of s2] unfolding s1_def s2_def s3_def by metis
  moreover have "plain_text (sign_of {45} s)" by (rule parts_plain) simp
  ultimately show ?thesis using parts_plain(2-4) by (metis Un_iff plain_text_def set_append)
qed

context json_printer
begin

lemma separators_plain: "plain_text isep" "plain_text ksep"
  using items_apart key_apart by (force simp: plain_text_def list_all_iff json_space_def)+

lemma balanced_join:
  assumes "\<And>x r. x \<in> set xs \<Longrightarrow> balanced_prefix depth False False (f x @ r) = map_option ((@) (f x)) (balanced_prefix depth False False r)"
  shows "balanced_prefix depth False False (join isep (map f xs) @ r) = map_option ((@) (join isep (map f xs))) (balanced_prefix depth False False r)"
  using assms
proof (induction xs)
  case (Cons x xs)
  then show ?case
    by (cases xs; cases "balanced_prefix depth False False r") (simp_all add: balanced_plain [OF separators_plain(1)])
qed (simp add: map_option_prefix(1))

text \<open>Inside an object a printed value is passed over whole.\<close>

lemma balanced_printed:
  assumes "readable fl v" and "1 \<le> depth"
  shows "balanced_prefix depth False False (dumps isep ksep v @ r)
    = map_option ((@) (dumps isep ksep v)) (balanced_prefix depth False False r)"
  using assms
proof (induction v arbitrary: depth r)
  case (JInt i)
  then have "plain_text (str_of_int i)" using number_plain [OF scan_int] by simp
  then show ?case by (simp add: balanced_plain)
next
  case (JFloat t)
  then have "plain_text t" using number_plain by (auto simp: plain_text_def lit_def)
  then show ?case by (simp add: balanced_plain)
next
  case (JStr s)
  then show ?case by (simp add: balanced_quoted)
next
  case (JArr xs)
  have "balanced_prefix depth False False (join isep (map (dumps isep ksep) xs) @ 93 # r)
      = map_option ((@) (join isep (map (dumps isep ksep) xs))) (balanced_prefix depth False False (93 # r))"
    using JArr by (intro balanced_join) (auto simp: list_all_iff)
  then show ?case by (cases "balanced_prefix depth False False r") simp_all
next
  case (JObj d)
  let ?f = "\<lambda>(k, v). quote k @ ksep @ dumps isep ksep v"
  have "balanced_prefix (depth + 1) False False (?f p @ r) = map_option ((@) (?f p)) (balanced_prefix (depth + 1) False False r)"
    if "p \<in> set d" for p r
  proof -
    obtain k x where p: "p = (k, x)" by fastforce
    then show ?thesis
      using JObj.IH [of p x "depth + 1" r] JObj.prems that
      by (auto simp: list_all_iff balanced_quoted balanced_plain [OF separators_plain(2)] map_option_prefix(3)
          simp del: option.map_comp)
  qed
  then have "balanced_prefix (depth + 1) False False (join isep (map ?f d) @ 125 # r)
      = map_option ((@) (join isep (map ?f d))) (balanced_prefix (depth + 1) False False (125 # r))"
    by (rule balanced_join)
  then show ?case using JObj.prems(2) by (cases "balanced_prefix depth False False r") simp_all
next
  case JNull
  have "plain_text (lit ''null'')" by (simp add: plain_text_def lit_def)
  then show ?case by (simp add: balanced_plain)
next
  case (JBool b)
  have "plain_text (lit (if b then ''true'' else ''false''))" by (simp add: plain_text_def lit_def)
  then show ?case by (simp add: balanced_plain)
qed

lemma balanced_object:
  assumes "readable fl (JObj d)"
  shows "balanced_prefix 0 False False (dumps isep ksep (JObj d) @ r) = Some (dumps isep ksep (JObj d))"
proof -
  let ?f = "\<lambda>(k, v). quote k @ ksep @ dumps isep ksep v"
  have "balanced_prefix 1 False False (?f p @ r) = map_option ((@) (?f p)) (balanced_prefix 1 False False r)"
    if "p \<in> set d" for p r
  proof -
    obtain k x where p: "p = (k, x)" by fastforce
    then show ?thesis
      using balanced_printed [of fl x 1 r] assms that
      by (auto simp: list_all_iff balanced_quoted balanced_plain [OF separators_plain(2)] map_option_prefix(3)
          simp del: option.map_comp)
  qed
  then have "balanced_prefix 1 False False (join isep (map ?f d) @ 125 # r)
      = map_option ((@) (join isep (map ?f d))) (balanced_prefix 1 False False (125 # r))"
    by (rule balanced_join)
  then show ?thesis by (simp add: map_option_prefix del: option.map_comp)
qed

end

text \<open>The fence and the prose around an object.\<close>

lemma dropWhile_keeps: "t \<noteq> [] \<Longrightarrow> \<not> P (hd t) \<Longrightarrow> dropWhile P (p @ t @ q) = dropWhile P p @ t @ q"
  by (induction p) (cases t; auto)+

lemma strip_around:
  assumes "t \<noteq> []" and "\<not> is_space (hd t)" and "\<not> is_space (last t)"
  shows "strip (p @ t @ q) = dropWhile is_space p @ t @ rev (dropWhile is_space (rev q))"
proof -
  have "dropWhile is_space (p @ t @ q) = dropWhile is_space p @ t @ q" by (rule dropWhile_keeps [where P = is_space]) (use assms in simp_all)
  moreover have "dropWhile is_space (rev q @ rev t @ rev (dropWhile is_space p)) = dropWhile is_space (rev q) @ rev t @ rev (dropWhile is_space p)"
    using assms(1,3) by (intro dropWhile_keeps) (simp_all add: hd_rev)
  ultimately show ?thesis by (simp add: strip_def)
qed

definition object_text :: "str \<Rightarrow> bool" where
  "object_text t \<longleftrightarrow> t \<noteq> [] \<and> hd t = 123 \<and> last t = 125 \<and> (\<forall>r. balanced_prefix 0 False False (t @ r) = Some t)"

lemma prose_around:
  assumes "object_text t" and "123 \<notin> set p" and "96 \<notin> set p"
  shows "strip_json_fence (p @ t @ q) = t"
proof -
  have t: "t \<noteq> []" "hd t = 123" "last t = 125" using assms(1) by (auto simp: object_text_def)
  define p' where "p' = dropWhile is_space p"
  define q' where "q' = rev (dropWhile is_space (rev q))"
  have s: "strip (p @ t @ q) = p' @ t @ q'"
    using strip_around [of t p q] t by (simp add: is_space_def p'_def q'_def)
  have p': "set p' \<subseteq> set p" by (auto simp: p'_def dest: set_dropWhileD)
  have "hd (p' @ t @ q') \<noteq> 96" using t p' assms(3) by (cases p') auto
  then have nofence: "\<not> starts_with (p' @ t @ q') (fence @ x)" for x
    using t by (cases "p' @ t @ q'") (auto simp: starts_with_def fence_def lit_def)
  have "dropWhile (\<lambda>c. c \<noteq> 123) (p' @ t @ q') = t @ q'"
    using dropWhile_keeps [of t "\<lambda>c. c \<noteq> 123" p' q'] t p' assms(2) by (auto simp: dropWhile_eq_Nil_conv)
  moreover have "123 \<in> set (p' @ t @ q')" using t by (cases t) auto
  ultimately have "extract_first_balanced_json_object (p' @ t @ q') = Some t"
    using assms(1) by (simp add: extract_first_balanced_json_object_def object_text_def)
  then show ?thesis using nofence [of "[]"] nofence by (simp add: strip_json_fence_def s)
qed

lemma fence_around:
  assumes "object_text t" and "list_all is_space w1" and "list_all is_space w2"
  shows "strip_json_fence (fence @ lit ''json'' @ w1 @ t @ w2 @ fence) = t"
proof -
  have t: "t \<noteq> []" "hd t = 123" "last t = 125" using assms(1) by (auto simp: object_text_def)
  let ?s = "fence @ lit ''json'' @ w1 @ t @ w2 @ fence"
  have "strip ([] @ ?s @ []) = ?s"
    by (subst strip_around) (simp_all add: fence_def lit_def is_space_def last_append)
  then have s: "strip ?s = ?s" by simp
  have "starts_with ?s (fence @ lit ''json'')" using starts_with_append [of "fence @ lit ''json''"] by simp
  moreover have "ends_with ?s fence" by (simp add: ends_with_def)
  moreover have "cut_ends 7 3 ?s = w1 @ t @ w2" by (simp add: cut_ends_def fence_def)
  moreover have "strip (w1 @ t @ w2) = t"
  proof -
    have e: "dropWhile is_space w1 = []" "dropWhile is_space (rev w2) = []"
      using assms(2,3) by (auto simp: dropWhile_eq_Nil_conv list_all_iff)
    have "strip (w1 @ t @ w2) = dropWhile is_space w1 @ t @ rev (dropWhile is_space (rev w2))"
      by (rule strip_around) (use t in \<open>simp_all add: is_space_def\<close>)
    then show ?thesis unfolding e by simp
  qed
  ultimately show ?thesis by (simp add: strip_json_fence_def s)
qed

text \<open>C33: 
  A reply that holds one object is read as that object: with prose before it that has no brace and no back-quote,
  with anything after it, or inside a fence with white space.
\<close>

theorem reply_read:
  assumes "readable fl (JObj d)" and "t = dumps_compact (JObj d) \<or> t = dumps_default (JObj d)"
    and "123 \<notin> set before" and "96 \<notin> set before" and "list_all is_space w1" and "list_all is_space w2"
  shows "loads fl (strip_json_fence (before @ t @ after)) = Some (JObj d)
    \<and> loads fl (strip_json_fence (fence @ lit ''json'' @ w1 @ t @ w2 @ fence)) = Some (JObj d)"
proof -
  have "object_text t"
    using assms(2) compact.balanced_object [OF assms(1)] spaced.balanced_object [OF assms(1)]
    by (auto simp: object_text_def dumps_compact_def dumps_default_def)
  moreover have "loads fl t = Some (JObj d)" using json_roundtrip [OF assms(1)] assms(2) by auto
  ultimately show ?thesis using prose_around fence_around assms(3-6) by simp
qed

theorem reply_read_witness:
  "loads id (strip_json_fence (lit ''Here it is: '' @ dumps_compact (JObj [(lit ''action'', JStr (lit ''need_}user''))]) @ lit '' Done}''))
     = Some (JObj [(lit ''action'', JStr (lit ''need_}user''))])"
  by (rule reply_read [of id "[(lit ''action'', JStr (lit ''need_}user''))]" _ "lit ''Here it is: ''" "[]" "[]", THEN conjunct1])
    (simp_all add: lit_def)

end
