(* ===== verification/GatewayProperties.thy ===== *)
theory GatewayProperties
  imports ModelGateway PlannerAgent
begin

section \<open>What the gateway promises\<close>

text \<open>
  The properties of \<open>model_gateway.py\<close>: a decision costs at most four physical requests, every one of them
  metered; what comes out was validated or is one of three codes; the repair of a step loses nothing; and the
  Planner's model of a gateway covers this one.
\<close>

subsection \<open>The repair of a plan step\<close>

lemma promote_fold:
  "\<exists>added. fold promote inputs deps = deps @ map JStr added \<and> distinct added
     \<and> JStr ` set added = {JStr s | s. Some s \<in> artifact_source ` set inputs} - set deps"
proof (induction inputs rule: rev_induct)
  case (snoc x xs)
  then obtain added where a: "fold promote xs deps = deps @ map JStr added" "distinct added"
    "JStr ` set added = {JStr s | s. Some s \<in> artifact_source ` set xs} - set deps" by blast
  have grow: "{JStr s | s. Some s \<in> artifact_source ` set (xs @ [x])}
      = {JStr s | s. Some s \<in> artifact_source ` set xs} \<union> (case artifact_source x of None \<Rightarrow> {} | Some s \<Rightarrow> {JStr s})"
    by (auto split: option.split)
  show ?case
  proof (cases "artifact_source x")
    case None
    then have "promote x ds = ds" for ds by (simp add: promote_def)
    moreover have "{JStr s | s. Some s \<in> artifact_source ` set (xs @ [x])} = {JStr s | s. Some s \<in> artifact_source ` set xs}"
      using None unfolding grow by simp
    ultimately show ?thesis using a by (metis (no_types, lifting) fold.simps(1) fold_Cons fold_append comp_apply id_apply)
  next
    case (Some s)
    show ?thesis
    proof (cases "JStr s \<in> set deps \<union> JStr ` set added")
      case True
      then have "fold promote (xs @ [x]) deps = deps @ map JStr added" using Some by (auto simp: a(1)) (auto simp: promote_def)
      moreover have "{JStr s | s. Some s \<in> artifact_source ` set (xs @ [x])} - set deps = JStr ` set added"
        using True a(3) unfolding grow Some by auto
      ultimately show ?thesis using a(2) by metis
    next
      case False
      then have "fold promote (xs @ [x]) deps = deps @ map JStr (added @ [s])" using Some by (auto simp: a(1)) (auto simp: promote_def)
      moreover have "distinct (added @ [s])" using False a(2) by auto
      moreover have "JStr ` set (added @ [s]) = {JStr s | s. Some s \<in> artifact_source ` set (xs @ [x])} - set deps"
        using False a(3) unfolding grow Some by auto
      ultimately show ?thesis by blast
    qed
  qed
qed (auto intro!: exI [of _ "[]"])

text \<open>
  The repair of a step gives it an id, keeps every other field but \<open>depends_on\<close>, and adds to the
  dependencies, after those that are there and once each, the sources of its artifact inputs that are
  not among them.
\<close>

theorem step_repaired:
  assumes "dget s (lit ''depends_on'') = JArr deps \<or> \<not> dhas s (lit ''depends_on'') \<and> deps = []"
    and "dget s (lit ''inputs'') = JArr inputs \<or> \<not> dhas s (lit ''inputs'') \<and> inputs = []"
  shows "\<exists>s' added. repair_step i (JObj s) = JObj s' \<and> truthy (dget s' (lit ''step_id''))
    \<and> (\<forall>k. k \<noteq> lit ''step_id'' \<and> k \<noteq> lit ''depends_on'' \<longrightarrow> dget s' k = dget s k)
    \<and> dget s' (lit ''depends_on'') = JArr (deps @ map JStr added) \<and> distinct added
    \<and> JStr ` set added = {JStr x | x. Some x \<in> artifact_source ` set inputs} - set deps"
proof -
  define s1 where "s1 = (if truthy (dget s (lit ''step_id'')) then s
    else dput (lit ''step_id'') (JStr (lit ''step-'' @ str_of_int (int i + 1))) s)"
  define s2 where "s2 = (if dhas s1 (lit ''depends_on'') then s1 else dput (lit ''depends_on'') (JArr []) s1)"
  have id: "truthy (dget s2 (lit ''step_id''))" by (simp add: s1_def s2_def)
  have same: "dget s2 k = dget s k \<and> dhas s2 k = dhas s k" if "k \<noteq> lit ''step_id''" "k \<noteq> lit ''depends_on''" for k
    using that by (simp add: s1_def s2_def)
  have absent: "\<not> dhas s k \<Longrightarrow> dget s k = JNull" for k by (simp add: dhas_def dget_def)
  have deps: "dget s2 (lit ''depends_on'') = JArr deps"
    using assms(1) absent [of "lit ''depends_on''"] by (cases "dhas s (lit ''depends_on'')") (auto simp: s1_def s2_def)
  have ins: "(if dhas s2 (lit ''inputs'') then dget s2 (lit ''inputs'') else JArr []) = JArr inputs"
    using assms(2) same [of "lit ''inputs''"] absent [of "lit ''inputs''"] by (cases "dhas s (lit ''inputs'')") auto
  obtain added where added: "fold promote inputs deps = deps @ map JStr added" "distinct added"
    "JStr ` set added = {JStr x | x. Some x \<in> artifact_source ` set inputs} - set deps" using promote_fold [of inputs deps] by (elim exE conjE)
  have "repair_step i (JObj s) = JObj (dput (lit ''depends_on'') (JArr (deps @ map JStr added)) s2)"
    by (simp only: repair_step_def repair_dependencies_def Let_def json.case s1_def [symmetric] s2_def [symmetric] deps ins added(1))
  then show ?thesis using id same added(2,3) by (intro exI [of _ "dput (lit ''depends_on'') (JArr (deps @ map JStr added)) s2"] exI [of _ added]) simp
qed

theorem step_repaired_witness:
  "\<exists>s' added. repair_step 1 (JObj [(lit ''inputs'', JArr [JObj [(lit ''kind'', JStr (lit ''artifact'')), (lit ''from_step'', JStr (lit ''a''))]])]) = JObj s'
     \<and> dget s' (lit ''depends_on'') = JArr (map JStr added) \<and> JStr ` set added = {JStr (lit ''a'')}"
proof -
  let ?in = "JObj [(lit ''kind'', JStr (lit ''artifact'')), (lit ''from_step'', JStr (lit ''a''))]"
  have "artifact_source ?in = Some (lit ''a'')" by code_simp
  then show ?thesis
    using step_repaired [of "[(lit ''inputs'', JArr [?in])]" "[]" "[?in]" 1] by (auto simp: dhas_def)
qed

subsection \<open>Requests\<close>

text \<open>C32: 
  A decision sends at most four requests, whatever the provider answers, and no request past the
  budget of the run: the budget is left as a list of at most four provider calls leaves it, and only
  the calls it lets through are sent. What comes out was accepted by the schema or handed over as an
  instance of it; a failure is an exhausted budget, a failed request or an invalid response.
\<close>

theorem gateway_metered:
  "\<exists>calls. length calls \<le> 4
     \<and> gs_budget (snd (gateway_decide gw role instruction state rm \<lparr>gs_budget = Some b, gs_calls = n, gs_usage = u\<rparr>))
         = Some (snd (grants provider_call calls b))
     \<and> gs_calls (snd (gateway_decide gw role instruction state rm \<lparr>gs_budget = Some b, gs_calls = n, gs_usage = u\<rparr>))
         = n + fst (grants provider_call calls b)
     \<and> sound_reply rm (instances gw)
         (fst (gateway_decide gw role instruction state rm \<lparr>gs_budget = Some b, gs_calls = n, gs_usage = u\<rparr>))"
  using decide_charged [of "\<lparr>gs_budget = Some b, gs_calls = n, gs_usage = u\<rparr>" gw role instruction state rm]
    decide_sound [of rm gw role instruction state "\<lparr>gs_budget = Some b, gs_calls = n, gs_usage = u\<rparr>"]
  unfolding charged_def by auto

text \<open>
  The Planner is modelled over a gateway that answers anything at any cost of at most a list of calls. For every
  state of the run this gateway is one of those answers: the Planner's call returns what \<open>decide\<close> returns, with
  its usage, and leaves the budget that \<open>decide\<close> leaves.
\<close>

theorem planner_asks_gateway:
  "\<exists>reply. length (gy_calls reply) \<le> 4 \<and>
     (\<forall>pn pv.
        ask_model (pn\<lparr>pn_manages := True, pn_decide := (\<lambda>_ _. reply)\<rparr>) pv state r =
          (case gateway_decide gw Planner instruction state rm \<lparr>gs_budget = Some (rt_model r), gs_calls = n, gs_usage = None\<rparr> of
             (Inl code, gs) \<Rightarrow> (Inl (GatewayError code), world_step t (r\<lparr>rt_model := the (gs_budget gs)\<rparr>))
           | (Inr d, gs) \<Rightarrow> (Inr (d, gs_usage gs), world_step t (r\<lparr>rt_model := the (gs_budget gs)\<rparr>))))"
proof -
  define gs0 where "gs0 = \<lparr>gs_budget = Some (rt_model r), gs_calls = n, gs_usage = None\<rparr>"
  obtain out gs where g: "gateway_decide gw Planner instruction state rm gs0 = (out, gs)" by fastforce
  obtain calls where calls: "length calls \<le> 4" "gs_budget gs = Some (snd (grants provider_call calls (rt_model r)))"
  proof -
    have "charged 4 gs0 gs" using decide_charged [of gs0 gw Planner instruction state rm] by (simp add: g)
    then show ?thesis using that by (auto simp: charged_def gs0_def)
  qed
  show ?thesis
    using calls
    by (intro exI [of _ "\<lparr>gy_result = out, gy_calls = calls, gy_usage = gs_usage gs, gy_elapsed = t\<rparr>"])
      (auto simp: ask_model_def Let_def world_step_def split: sum.split simp flip: gs0_def simp: g)
qed

end
