(* ===== verification/RunService.thy ===== *)
theory RunService
  imports RunOutcome ProfileStore EventStream
begin

section \<open>The run service and its routes\<close>

text \<open>
  \<open>services/agent_runtime/service.py\<close> and the routes of \<open>api/routes/agent_runtime.py\<close> with the bodies of
  \<open>api/agent_runtime_schemas.py\<close>: who may start, continue and read a run, with which budget, and which
  confirmed facts of the profile it is given. The stream of events has a theory of its own.

  A handler that raises leaves its session uncommitted, so it changes nothing, but for what the run
  committed at its checkpoints: an exception that escapes a run is an argument, the state its last
  checkpoint left. The background tasks of FastAPI are a queue of calls.
\<close>

subsection \<open>Settings and the budget of a request\<close>

record harness_settings =
  hs_enabled :: bool
  hs_turns :: int
  hs_tools :: int
  hs_replans :: int
  hs_wall :: int
  hs_requests :: int
  hs_input :: int
  hs_output :: int

text \<open>The bounds of the fields of \<open>Settings\<close>, in \<open>config.py\<close>.\<close>

definition settings_ok :: "harness_settings \<Rightarrow> bool" where
  "settings_ok c \<longleftrightarrow> 1 \<le> hs_turns c \<and> hs_turns c \<le> 100 \<and> 1 \<le> hs_tools c \<and> hs_tools c \<le> 200
     \<and> 0 \<le> hs_replans c \<and> hs_replans c \<le> 10 \<and> 10 \<le> hs_wall c \<and> hs_wall c \<le> 3600
     \<and> 1 \<le> hs_requests c \<and> hs_requests c \<le> 500 \<and> 1000 \<le> hs_input c \<and> hs_input c \<le> 2000000
     \<and> 1000 \<le> hs_output c \<and> hs_output c \<le> 500000"

text \<open>\<open>max_auto_recoveries\<close> is not passed and keeps its default.\<close>

definition build_adaptive_agent_budget :: "harness_settings \<Rightarrow> str list \<Rightarrow> agent_budget" where
  "build_adaptive_agent_budget c skills =
     \<lparr>ab_turns = min 100 (hs_turns c + 8 * max 0 (int (card (set skills)) - 1)),
      ab_tools = hs_tools c, ab_replans = hs_replans c, ab_wall = hs_wall c,
      ab_recoveries = ab_recoveries default_budget, ab_requests = hs_requests c,
      ab_input = hs_input c, ab_output = hs_output c\<rparr>"

subsection \<open>The confirmed facts a run is given\<close>

definition chosen_version :: "profile_db \<Rightarrow> str \<Rightarrow> version_row option" where
  "chosen_version pdb user =
     (case list_versions pdb user of
        [] \<Rightarrow> None
      | newest # older \<Rightarrow>
          (case Option.bind (get_profile_by_user pdb user) pf_active of
             None \<Rightarrow> Some newest
           | Some active \<Rightarrow>
               if active = [] then Some newest
               else (case find (\<lambda>v. cv_id v = active) (newest # older) of
                       None \<Rightarrow> Some newest | Some v \<Rightarrow> Some v)))"

definition with_confirmed_profile_facts :: "profile_db \<Rightarrow> str \<Rightarrow> task \<Rightarrow> task" where
  "with_confirmed_profile_facts pdb user t =
     (case chosen_version pdb user of
        None \<Rightarrow> t
      | Some v \<Rightarrow> t\<lparr>tk_private := dput (lit ''confirmed_profile_facts'') (JObj (cv_facts v)) (tk_private t)\<rparr>)"

subsection \<open>Starting a run\<close>

datatype service_error =
    HarnessDisabled
  | HarnessUnavailable
  | NoSuchRun
  | NotResumable
  | EmptyResponse
  | InvalidTask
  | RuntimeRaised

text \<open>\<open>AgentTaskRequest(...)\<close> with a budget that is validated too.\<close>

definition checked_task :: "str \<Rightarrow> str list \<Rightarrow> dict \<Rightarrow> agent_budget \<Rightarrow> task option" where
  "checked_task goal skills ctx budget = (if budget_ok budget then make_task goal skills ctx budget else None)"

definition feature_gate :: "harness_settings \<Rightarrow> bool \<Rightarrow> service_error option" where
  "feature_gate c available =
     (if \<not> hs_enabled c then Some HarnessDisabled else if \<not> available then Some HarnessUnavailable else None)"

definition queue_run ::
  "env \<Rightarrow> harness_settings \<Rightarrow> bool \<Rightarrow> str \<Rightarrow> task \<Rightarrow> store \<Rightarrow> (service_error + run_result) \<times> store" where
  "queue_run env c available user t db =
     (case feature_gate c available of
        Some e \<Rightarrow> (Inl e, db)
      | None \<Rightarrow> let (row, db1) = create_queued_run env user t db
                in (Inr (result_of (rr_id row) Queued None None), db1))"

text \<open>\<open>AgentRunService.create_run\<close>, which no route calls.\<close>

definition service_create_run ::
  "env \<Rightarrow> harness_settings \<Rightarrow> bool \<Rightarrow> profile_db \<Rightarrow> str \<Rightarrow> task \<Rightarrow> rt \<Rightarrow> (service_error + run_result) \<times> rt" where
  "service_create_run env c available pdb user t r =
     (case feature_gate c available of
        Some e \<Rightarrow> (Inl e, r)
      | None \<Rightarrow> map_prod Inr id (run_agent env user (with_confirmed_profile_facts pdb user t) None r))"

text \<open>The run of a row: its task is built anew from what the row holds.\<close>

definition stored_task :: "run_row \<Rightarrow> dict \<Rightarrow> task option" where
  "stored_task q ctx = checked_task (rr_goal q) (rr_skills q) ctx (rr_budget q)"

definition fail_queued_run :: "str \<Rightarrow> str \<Rightarrow> rt \<Rightarrow> rt" where
  "fail_queued_run user run r =
     (case get_run_for_owner (rt_db r) run user of
        None \<Rightarrow> r
      | Some q \<Rightarrow> r\<lparr>rt_db := append_event (rr_id q) ''run_failed'' [(lit ''error_code'', JStr (lit ''runtime_error''))]
                    (finish_run (rr_id q) Failed None (Some (lit ''runtime_error'')) (rt_db r))\<rparr>)"

text \<open>
  \<open>crash\<close> is \<open>Some\<close> when an exception escapes the run: the state after the rollback. A row whose task
  cannot be built raises before anything was changed.
\<close>

definition execute_queued_run ::
  "env \<Rightarrow> bool \<Rightarrow> profile_db \<Rightarrow> str \<Rightarrow> str \<Rightarrow> rt option \<Rightarrow> rt \<Rightarrow> rt" where
  "execute_queued_run env available pdb user run crash r =
     (if \<not> available then r
      else case get_run_for_owner (rt_db r) run user of
          None \<Rightarrow> r
        | Some q \<Rightarrow>
            if rr_status q \<noteq> Queued then r
            else (case stored_task q (rr_context q) of
                None \<Rightarrow> r
              | Some t \<Rightarrow>
                  (case crash of
                     Some rc \<Rightarrow> fail_queued_run user run rc
                   | None \<Rightarrow> snd (run_agent env user (with_confirmed_profile_facts pdb user t) (Some (rr_id q)) r))))"

subsection \<open>Continuing a run\<close>

text \<open>What a request sees of a call of the runtime; \<open>crash\<close> as above.\<close>

definition runtime_call ::
  "rt option \<Rightarrow> rt \<Rightarrow> (runtime_error + run_result) \<times> rt \<Rightarrow> (service_error + run_result) \<times> rt" where
  "runtime_call crash r call =
     (case crash of
        Some rc \<Rightarrow> (Inl RuntimeRaised, rc)
      | None \<Rightarrow> (case call of (Inl _, _) \<Rightarrow> (Inl RuntimeRaised, r) | (Inr out, r') \<Rightarrow> (Inr out, r')))"

definition resume_run ::
  "env \<Rightarrow> harness_settings \<Rightarrow> bool \<Rightarrow> profile_db \<Rightarrow> str \<Rightarrow> str \<Rightarrow> str \<Rightarrow> rt option \<Rightarrow> rt
    \<Rightarrow> (service_error + run_result) \<times> rt" where
  "resume_run env c available pdb user run user_response crash r =
     (case feature_gate c available of
        Some e \<Rightarrow> (Inl e, r)
      | None \<Rightarrow>
          (case get_run_for_owner (rt_db r) run user of
             None \<Rightarrow> (Inl NoSuchRun, r)
           | Some q \<Rightarrow>
               if rr_status q \<noteq> WaitingUser then (Inl NotResumable, r)
               else if strip user_response = [] then (Inl EmptyResponse, r)
               else let (context, db1) = append_user_response q (strip user_response) (rt_db r) in
                 (case stored_task q context of
                    None \<Rightarrow> (Inl InvalidTask, r)
                  | Some t \<Rightarrow> runtime_call crash r
                      (resume env user (rr_id q) (with_confirmed_profile_facts pdb user t) (r\<lparr>rt_db := db1\<rparr>)))))"

definition recover_run ::
  "env \<Rightarrow> harness_settings \<Rightarrow> bool \<Rightarrow> profile_db \<Rightarrow> str \<Rightarrow> str \<Rightarrow> rt option \<Rightarrow> rt
    \<Rightarrow> (service_error + run_result) \<times> rt" where
  "recover_run env c available pdb user run crash r =
     (case feature_gate c available of
        Some e \<Rightarrow> (Inl e, r)
      | None \<Rightarrow>
          (case get_run_for_owner (rt_db r) run user of
             None \<Rightarrow> (Inl NoSuchRun, r)
           | Some q \<Rightarrow>
               if rr_status q \<noteq> Running then (Inl NotResumable, r)
               else (case stored_task q (rr_context q) of
                    None \<Rightarrow> (Inl InvalidTask, r)
                  | Some t \<Rightarrow> runtime_call crash r
                      (recover env user (rr_id q) (with_confirmed_profile_facts pdb user t) r))))"

subsection \<open>Reading a run\<close>

definition service_get_run :: "store \<Rightarrow> str \<Rightarrow> str \<Rightarrow> service_error + run_row" where
  "service_get_run db user run =
     (case get_run_for_owner db run user of None \<Rightarrow> Inl NoSuchRun | Some q \<Rightarrow> Inr q)"

definition service_list_plans :: "store \<Rightarrow> str \<Rightarrow> str \<Rightarrow> service_error + plan_row list" where
  "service_list_plans db user run = map_sum id (\<lambda>_. list_plans db run) (service_get_run db user run)"

definition service_list_artifacts :: "store \<Rightarrow> str \<Rightarrow> str \<Rightarrow> service_error + artifact_row list" where
  "service_list_artifacts db user run = map_sum id (\<lambda>_. list_evidence_artifacts db run) (service_get_run db user run)"

subsection \<open>Bodies and responses\<close>

text \<open>A text field of 1 to 8000 characters that is stripped and must not be blank.\<close>

definition body_text :: "str \<Rightarrow> str option" where
  "body_text value =
     (if length value < 1 \<or> 8000 < length value \<or> strip value = [] then None else Some (strip value))"

record created_response =
  cd_id :: str
  cd_status :: run_status
  cd_summary :: "str option"
  cd_error :: "str option"

definition created_of :: "run_result \<Rightarrow> created_response" where
  "created_of out = \<lparr>cd_id = re_run out, cd_status = re_status out, cd_summary = re_summary out, cd_error = re_error out\<rparr>"

text \<open>The rows of the model have no \<open>updated_at\<close>.\<close>

record run_response =
  vr_id :: str
  vr_goal :: str
  vr_status :: run_status
  vr_complexity :: "complexity_level option"
  vr_summary :: "str option"
  vr_error :: "str option"
  vr_created :: int

definition to_run_response :: "run_row \<Rightarrow> run_response" where
  "to_run_response q =
     \<lparr>vr_id = rr_id q, vr_goal = rr_goal q, vr_status = rr_status q, vr_complexity = rr_complexity q,
      vr_summary = rr_summary q, vr_error = rr_error q, vr_created = rr_created q\<rparr>"

record plan_step_response =
  vs_id :: str
  vs_objective :: str
  vs_skills :: "str list"
  vs_criteria :: "str list"
  vs_verify :: bool

record plan_response =
  vp_id :: str
  vp_revision :: int
  vp_complexity :: complexity_level
  vp_criteria :: "str list"
  vp_steps :: "plan_step_response list"

text \<open>\<open>isinstance(v, list) and all(isinstance(x, str) for x in v)\<close>\<close>

definition str_list :: "json \<Rightarrow> str list option" where
  "str_list v = (case v of JArr xs \<Rightarrow> if list_all is_str xs then Some (map the_str xs) else None | _ \<Rightarrow> None)"

definition to_step_response :: "json \<Rightarrow> plan_step_response option" where
  "to_step_response item =
     (case item of
        JObj d \<Rightarrow>
          if \<not> is_str (dget d (lit ''step_id'')) \<or> \<not> is_str (dget d (lit ''objective'')) then None
          else (case (str_list (dget d (lit ''allowed_skills'')),
                  str_list (dget_or d (lit ''success_criteria'') (JArr []))) of
              (Some skills, Some criteria) \<Rightarrow>
                Some \<lparr>vs_id = the_str (dget d (lit ''step_id'')), vs_objective = the_str (dget d (lit ''objective'')),
                  vs_skills = skills, vs_criteria = criteria,
                  vs_verify = truthy (dget_or d (lit ''requires_verification'') (JBool False))\<rparr>
            | _ \<Rightarrow> None)
      | _ \<Rightarrow> None)"

definition to_plan_response :: "plan_row \<Rightarrow> plan_response" where
  "to_plan_response p =
     (let payload = (case pl_json p of JObj d \<Rightarrow> d | _ \<Rightarrow> []) in
      \<lparr>vp_id = pl_id p, vp_revision = pl_revision p, vp_complexity = pl_complexity p,
       vp_criteria = (case str_list (dget_or payload (lit ''success_criteria'') (JArr [])) of None \<Rightarrow> [] | Some cs \<Rightarrow> cs),
       vp_steps = (case dget payload (lit ''steps'') of JArr xs \<Rightarrow> List.map_filter to_step_response xs | _ \<Rightarrow> [])\<rparr>)"

record event_response =
  ve_sequence :: int
  ve_type :: str
  ve_payload :: dict
  ve_created :: int

definition to_event_response :: "event_row \<Rightarrow> event_response" where
  "to_event_response e =
     \<lparr>ve_sequence = ev_seq e, ve_type = ev_type e, ve_payload = ev_payload e, ve_created = ev_created e\<rparr>"

record artifact_response =
  va_id :: str
  va_type :: str
  va_url :: str
  va_hash :: str
  va_content :: dict
  va_created :: int

definition to_artifact_response :: "artifact_row \<Rightarrow> artifact_response" where
  "to_artifact_response a =
     \<lparr>va_id = ar_id a, va_type = ar_type a, va_url = ar_url a, va_hash = ar_hash a, va_content = ar_content a,
      va_created = ar_created a\<rparr>"

subsection \<open>The routes\<close>

datatype run_reply =
    Created created_response
  | Continued created_response
  | Run run_response
  | Runs "run_response list"
  | Events "event_response list"
  | Plans "plan_response list"
  | Artifacts "artifact_response list"
  | Refused nat str

text \<open>The state of the application: the runtime, and the background calls that are due.\<close>

record run_api =
  ra_rt :: rt
  ra_due :: "(str \<times> str) list"

text \<open>The \<open>except\<close> clauses of the routes; what they do not catch is answered 500.\<close>

definition refusal_of :: "string \<Rightarrow> service_error \<Rightarrow> run_reply" where
  "refusal_of conflict e =
     (case e of
        HarnessDisabled \<Rightarrow> Refused 503 (lit ''agent_harness_disabled'')
      | HarnessUnavailable \<Rightarrow> Refused 503 (lit ''agent_harness_unavailable'')
      | NoSuchRun \<Rightarrow> Refused 404 (lit ''not_found'')
      | NotResumable \<Rightarrow> Refused 409 (lit conflict)
      | _ \<Rightarrow> Refused 500 [])"

definition create_agent_run ::
  "env \<Rightarrow> harness_settings \<Rightarrow> bool \<Rightarrow> str \<Rightarrow> str \<Rightarrow> str list \<Rightarrow> dict \<Rightarrow> run_api \<Rightarrow> run_reply \<times> run_api" where
  "create_agent_run env c available user goal skills ctx s =
     (case body_text goal of
        None \<Rightarrow> (Refused 422 [], s)
      | Some g \<Rightarrow>
          if length skills < 1 \<or> 4 < length skills then (Refused 422 [], s)
          else (case checked_task g skills ctx (build_adaptive_agent_budget c skills) of
              None \<Rightarrow> (Refused 500 [], s)
            | Some t \<Rightarrow>
                (case queue_run env c available user t (rt_db (ra_rt s)) of
                   (Inl e, _) \<Rightarrow> (refusal_of [] e, s)
                 | (Inr out, db) \<Rightarrow>
                     (Created (created_of out),
                      s\<lparr>ra_rt := (ra_rt s)\<lparr>rt_db := db\<rparr>, ra_due := ra_due s @ [(user, re_run out)]\<rparr>))))"

definition continued :: "string \<Rightarrow> run_api \<Rightarrow> (service_error + run_result) \<times> rt \<Rightarrow> run_reply \<times> run_api" where
  "continued conflict s out =
     (case out of
        (Inl e, r) \<Rightarrow> (refusal_of conflict e, s\<lparr>ra_rt := r\<rparr>)
      | (Inr res, r) \<Rightarrow> (Continued (created_of res), s\<lparr>ra_rt := r\<rparr>))"

definition resume_agent_run ::
  "env \<Rightarrow> harness_settings \<Rightarrow> bool \<Rightarrow> profile_db \<Rightarrow> str \<Rightarrow> str \<Rightarrow> str \<Rightarrow> rt option \<Rightarrow> run_api \<Rightarrow> run_reply \<times> run_api" where
  "resume_agent_run env c available pdb user run user_response crash s =
     (case body_text user_response of
        None \<Rightarrow> (Refused 422 [], s)
      | Some cleaned \<Rightarrow> continued ''agent_run_not_waiting_user'' s
          (resume_run env c available pdb user run cleaned crash (ra_rt s)))"

definition recover_agent_run ::
  "env \<Rightarrow> harness_settings \<Rightarrow> bool \<Rightarrow> profile_db \<Rightarrow> str \<Rightarrow> str \<Rightarrow> rt option \<Rightarrow> run_api \<Rightarrow> run_reply \<times> run_api" where
  "recover_agent_run env c available pdb user run crash s =
     continued ''agent_run_not_running'' s (recover_run env c available pdb user run crash (ra_rt s))"

definition list_agent_runs :: "store \<Rightarrow> str \<Rightarrow> int \<Rightarrow> run_reply" where
  "list_agent_runs db user limit =
     (if limit < 1 \<or> 100 < limit then Refused 422 []
      else Runs (map to_run_response (list_runs_for_owner db user (nat limit))))"

definition get_agent_run :: "store \<Rightarrow> str \<Rightarrow> str \<Rightarrow> run_reply" where
  "get_agent_run db user run = case_sum (refusal_of []) (\<lambda>q. Run (to_run_response q)) (service_get_run db user run)"

definition list_agent_events :: "store \<Rightarrow> str \<Rightarrow> str \<Rightarrow> run_reply" where
  "list_agent_events db user run =
     (case service_list_events db user run 0 of
        None \<Rightarrow> refusal_of [] NoSuchRun | Some es \<Rightarrow> Events (map to_event_response es))"

definition list_agent_plans :: "store \<Rightarrow> str \<Rightarrow> str \<Rightarrow> run_reply" where
  "list_agent_plans db user run =
     case_sum (refusal_of []) (\<lambda>ps. Plans (map to_plan_response ps)) (service_list_plans db user run)"

definition list_agent_artifacts :: "store \<Rightarrow> str \<Rightarrow> str \<Rightarrow> run_reply" where
  "list_agent_artifacts db user run =
     case_sum (refusal_of []) (\<lambda>as. Artifacts (map to_artifact_response as)) (service_list_artifacts db user run)"

datatype run_request =
    CreateRun str "str list" dict
  | ResumeRun str str "rt option"
  | RecoverRun str "rt option"
  | ListRuns int
  | GetRun str
  | GetEvents str
  | GetPlans str
  | GetArtifacts str

text \<open>One authenticated request; \<open>pdb\<close> are the profile tables at that moment.\<close>

fun serve_run ::
  "env \<Rightarrow> harness_settings \<Rightarrow> bool \<Rightarrow> profile_db \<Rightarrow> str \<Rightarrow> run_request \<Rightarrow> run_api \<Rightarrow> run_reply \<times> run_api" where
  "serve_run env c available pdb user (CreateRun g ks ctx) s = create_agent_run env c available user g ks ctx s"
| "serve_run env c available pdb user (ResumeRun run text crash) s =
     resume_agent_run env c available pdb user run text crash s"
| "serve_run env c available pdb user (RecoverRun run crash) s = recover_agent_run env c available pdb user run crash s"
| "serve_run env c available pdb user (ListRuns n) s = (list_agent_runs (rt_db (ra_rt s)) user n, s)"
| "serve_run env c available pdb user (GetRun run) s = (get_agent_run (rt_db (ra_rt s)) user run, s)"
| "serve_run env c available pdb user (GetEvents run) s = (list_agent_events (rt_db (ra_rt s)) user run, s)"
| "serve_run env c available pdb user (GetPlans run) s = (list_agent_plans (rt_db (ra_rt s)) user run, s)"
| "serve_run env c available pdb user (GetArtifacts run) s = (list_agent_artifacts (rt_db (ra_rt s)) user run, s)"

text \<open>The next background call.\<close>

definition run_due :: "env \<Rightarrow> bool \<Rightarrow> profile_db \<Rightarrow> rt option \<Rightarrow> run_api \<Rightarrow> run_api" where
  "run_due env available pdb crash s =
     (case ra_due s of
        [] \<Rightarrow> s
      | (user, run) # rest \<Rightarrow>
          s\<lparr>ra_rt := execute_queued_run env available pdb user run crash (ra_rt s), ra_due := rest\<rparr>)"

end
