(* ===== verification/RunServiceProperties.thy ===== *)
theory RunServiceProperties
  imports RunService ProfileProperties Scenario
begin

section \<open>What the run service promises\<close>

text \<open>
  The properties of \<open>RunService\<close>: the budget of a request is a valid one, a queued run executes what was asked,
  once; a request reaches only the runs of its user; a run is given the facts its user confirmed, and no other
  user can change them; a stored plan is shown in full.
\<close>

subsection \<open>Tasks\<close>

lemma make_task_again:
  assumes "make_task g ks c b = Some t"
  shows "make_task (tk_goal t) (tk_skills t) (tk_context t) (tk_budget t) = Some t"
    and "tk_context t = c" and "tk_budget t = b"
proof -
  obtain g' ks' where g: "normalize_goal g = Some g'" and ks: "validate_allowed_skills ks = Some ks'"
    and t: "load_typed_replan_state \<lparr>tk_goal = g', tk_skills = ks', tk_context = c, tk_private = [], tk_exec_state = [],
        tk_replan = initial_replan_state, tk_budget = b\<rparr> = Some t"
    using assms by (auto simp: make_task_def split: option.splits)
  have "g' = strip g" "g' \<noteq> []" "length g \<le> 8000" using g by (auto simp: normalize_goal_def Let_def split: if_splits)
  then have g': "normalize_goal g' = Some g'" using strip_length [of g] by (simp add: normalize_goal_def Let_def Suc_le_eq)
  have "ks' = map strip ks" and ok: "ks' \<noteq> []" "length ks' \<le> 16" "[] \<notin> set ks'" "distinct ks'" "\<forall>v \<in> set ks'. skill_name_ok v"
    using ks by (auto simp: validate_allowed_skills_def Let_def split: if_splits)
  then have "map strip ks' = ks'" by simp
  then have ks': "validate_allowed_skills ks' = Some ks'"
    using ok by (cases ks') (auto simp: validate_allowed_skills_def Let_def)
  have fields: "tk_goal t = g'" "tk_skills t = ks'" "tk_context t = c" "tk_budget t = b"
    using t by (auto simp: load_typed_replan_state_def Let_def split: if_splits)
  then show "tk_context t = c" "tk_budget t = b" by simp_all
  show "make_task (tk_goal t) (tk_skills t) (tk_context t) (tk_budget t) = Some t"
    unfolding fields make_task_def g' ks' using t by simp
qed

lemma stored_task_again:
  assumes "checked_task g ks c b = Some t"
  shows "checked_task (tk_goal t) (tk_skills t) (tk_context t) (tk_budget t) = Some t"
proof -
  have "budget_ok b" "make_task g ks c b = Some t" using assms by (auto simp: checked_task_def split: if_splits)
  then show ?thesis using make_task_again [of g ks c b t] by (simp add: checked_task_def)
qed

lemma adaptive_budget_ok: "settings_ok c \<Longrightarrow> budget_ok (build_adaptive_agent_budget c ks)"
  by (simp add: settings_ok_def budget_ok_def build_adaptive_agent_budget_def default_budget_def add_increasing2)

subsection \<open>Rows of an owner\<close>

lemma owned_row:
  assumes "get_run_for_owner db run user = Some q"
  shows "q \<in> set (so_runs db)" and "rr_id q = run" and "rr_user q = user"
  using assms by (auto simp: get_run_for_owner_def dest: find_SomeD)

lemma owned_find:
  assumes "ids_ok db" and "get_run_for_owner db run user = Some q"
  shows "find_run db run = Some q"
proof -
  have d: "distinct (map rr_id (so_runs db))" using assms(1) by (simp add: ids_ok_def)
  obtain p where p: "find_run db run = Some p"
    using owned_row [OF assms(2)] by (metis find_run_exists not_None_eq image_eqI list.set_map)
  then have "p \<in> set (so_runs db)" "rr_id p = run" by (auto simp: find_run_def dest: find_SomeD)
  then have "p = q" using owned_row [OF assms(2)] d by (auto simp: distinct_map inj_on_def)
  then show ?thesis using p by simp
qed

subsection \<open>A queued run is executed once\<close>

lemma not_queued_skips:
  "\<forall>q. get_run_for_owner (rt_db r) run user = Some q \<longrightarrow> rr_status q \<noteq> Queued \<Longrightarrow>
   execute_queued_run env av pdb user run crash r = r"
  by (auto simp: execute_queued_run_def split: option.split)

lemma finished_rows:
  assumes "q \<in> set (so_runs (finish_run run s m e db))" and "rr_id q = run"
  shows "rr_status q = s"
proof -
  have "\<forall>x \<in> set (so_runs (finish_run run s m e db)). rr_id x = run \<longrightarrow> rr_status x = s"
    unfolding finish_run_def update_run_def by (simp, intro ballI) (elim UnE imageE; simp)
  then show ?thesis using assms by blast
qed

lemma failed_not_queued:
  assumes "get_run_for_owner (rt_db (fail_queued_run user run rc)) run user = Some q"
  shows "rr_status q \<noteq> Queued"
proof (cases "get_run_for_owner (rt_db rc) run user")
  case None
  then show ?thesis using assms by (simp add: fail_queued_run_def)
next
  case (Some p)
  have "so_runs (rt_db (fail_queued_run user run rc)) =
      so_runs (finish_run run Failed None (Some (lit ''runtime_error'')) (rt_db rc))"
    by (simp add: fail_queued_run_def Some append_event_def owned_row(2) [OF Some])
  then have "q \<in> set (so_runs (finish_run run Failed None (Some (lit ''runtime_error'')) (rt_db rc)))"
    using owned_row(1) [OF assms] by simp
  from finished_rows [OF this owned_row(2) [OF assms]] show ?thesis by simp
qed

lemma executed_not_queued:
  assumes "ids_ok (rt_db r)"
    and "get_run_for_owner (rt_db (snd (run_agent env user t (Some run) r))) run user = Some q"
  shows "rr_status q \<noteq> Queued"
proof -
  define x where "x = run_agent env user t (Some run) r"
  have x: "store_frame run (rt_db r) (rt_db (snd x))" "ended run (fst x) (rt_db (snd x))"
    using run_agent_frame unfolding x_def by blast+
  have "find_run (rt_db (snd x)) run = Some q"
    using owned_find [OF store_frame_ids [OF x(1) assms(1)]] assms(2) unfolding x_def by blast
  then have "rr_status q = re_status (fst x)" "re_status (fst x) \<in> {WaitingUser, Succeeded, Failed}"
    using x(2) unfolding ended_def by auto
  then show ?thesis by auto
qed

text \<open>C17: 
  However often the background call of a run comes, and whatever happens in it, it is carried out once:
  a second call finds a run that is no longer queued and changes nothing.
\<close>

theorem queued_run_executes_once:
  assumes "ids_ok (rt_db r)"
  shows "execute_queued_run env av pdb' user run crash' (execute_queued_run env av pdb user run crash r)
       = execute_queued_run env av pdb user run crash r"
proof -
  define r1 where "r1 = execute_queued_run env av pdb user run crash r"
  consider (idle) "r1 = r" "execute_queued_run env av pdb' user run crash' r = r"
    | (failed) rc where "r1 = fail_queued_run user run rc" | (ran) t where "r1 = snd (run_agent env user t (Some run) r)"
  proof (cases "\<exists>q t. av \<and> get_run_for_owner (rt_db r) run user = Some q \<and> rr_status q = Queued \<and> stored_task q (rr_context q) = Some t")
    case True
    then obtain q t where "av" and q: "get_run_for_owner (rt_db r) run user = Some q"
      and "rr_status q = Queued" "stored_task q (rr_context q) = Some t" by blast
    then have "r1 = (case crash of Some rc \<Rightarrow> fail_queued_run user run rc
        | None \<Rightarrow> snd (run_agent env user (with_confirmed_profile_facts pdb user t) (Some run) r))"
      using owned_row(2) [OF q] by (cases crash) (simp_all add: r1_def execute_queued_run_def)
    then show ?thesis using failed ran by (cases crash) auto
  next
    case False
    then have "execute_queued_run env av p user run c r = r" for p c
      by (auto simp: execute_queued_run_def split: option.split)
    then show ?thesis using idle unfolding r1_def by blast
  qed
  then show ?thesis
  proof cases
    case (failed rc)
    then show ?thesis using failed_not_queued not_queued_skips unfolding r1_def [symmetric] by metis
  next
    case (ran t)
    then show ?thesis using executed_not_queued [OF assms] not_queued_skips unfolding r1_def [symmetric] by metis
  qed (simp add: r1_def)
qed

subsection \<open>The rows of the others\<close>

text \<open>What a user can read is the same in two stores.\<close>

definition kept_for :: "str \<Rightarrow> store \<Rightarrow> store \<Rightarrow> bool" where
  "kept_for user db d \<longleftrightarrow>
     filter (\<lambda>q. rr_user q = user) (so_runs d) = filter (\<lambda>q. rr_user q = user) (so_runs db)
     \<and> (\<forall>q \<in> set (so_runs db). rr_user q = user \<longrightarrow>
          filter (\<lambda>e. ev_run e = rr_id q) (so_events d) = filter (\<lambda>e. ev_run e = rr_id q) (so_events db)
          \<and> filter (\<lambda>p. pl_run p = rr_id q) (so_plans d) = filter (\<lambda>p. pl_run p = rr_id q) (so_plans db)
          \<and> filter (\<lambda>a. ar_run a = rr_id q) (so_artifacts d) = filter (\<lambda>a. ar_run a = rr_id q) (so_artifacts db))"

lemma kept_for_refl [simp]: "kept_for user db db"
  by (simp add: kept_for_def)

lemma filter_same_member:
  "filter P xs = filter P ys \<Longrightarrow> P x \<Longrightarrow> x \<in> set xs \<longleftrightarrow> x \<in> set ys"
  by (drule arg_cong [where f = "\<lambda>zs. x \<in> set zs"]) simp

lemma kept_for_trans: "kept_for user a b \<Longrightarrow> kept_for user b c \<Longrightarrow> kept_for user a c"
  unfolding kept_for_def using filter_same_member [of "\<lambda>q. rr_user q = user" "so_runs b" "so_runs a"]
  by (elim conjE, intro conjI) simp_all

lemma appended_filter: "appended P xs ys \<Longrightarrow> (\<And>x. P x \<Longrightarrow> \<not> Q x) \<Longrightarrow> filter Q ys = filter Q xs"
  by (auto simp: appended_def)

lemma same_rows:
  assumes "map rr_id ys = map rr_id xs" and "map rr_user ys = map rr_user xs" and "distinct (map rr_id xs)"
    and "\<And>k. k \<noteq> run \<Longrightarrow> find (\<lambda>r. rr_id r = k) ys = find (\<lambda>r. rr_id r = k) xs"
    and "\<And>q. q \<in> set xs \<Longrightarrow> rr_id q = run \<Longrightarrow> rr_user q \<noteq> user"
  shows "filter (\<lambda>q. rr_user q = user) ys = filter (\<lambda>q. rr_user q = user) xs"
  using assms
proof (induction xs arbitrary: ys)
  case (Cons x xs)
  obtain y ys' where ys: "ys = y # ys'" and y: "rr_id y = rr_id x" "rr_user y = rr_user x"
    using Cons.prems(1,2) by (cases ys) auto
  have "find (\<lambda>r. rr_id r = k) ys' = find (\<lambda>r. rr_id r = k) xs" if k: "k \<noteq> run" for k
  proof (cases "k = rr_id x")
    case True
    have "k \<notin> rr_id ` set xs" "k \<notin> rr_id ` set ys'"
      using Cons.prems(1,3) unfolding ys True by (simp_all flip: set_map)
    then show ?thesis by (metis (mono_tags, lifting) find_None_iff image_eqI)
  next
    case False
    then show ?thesis using Cons.prems(4) [OF k] y by (simp add: ys)
  qed
  then have "filter (\<lambda>q. rr_user q = user) ys' = filter (\<lambda>q. rr_user q = user) xs"
    using Cons.prems by (intro Cons.IH) (auto simp: ys)
  moreover have "y = x" if "rr_user x = user"
  proof -
    have "rr_id x \<noteq> run" using Cons.prems(5) [of x] that by auto
    then show ?thesis using Cons.prems(4) [of "rr_id x"] y by (simp add: ys)
  qed
  ultimately show ?case using y by (auto simp: ys)
qed simp

lemma frame_kept:
  assumes "store_frame run db d" and "ids_ok db" and "get_run_for_owner db run user = Some q" and "other \<noteq> user"
  shows "kept_for other db d"
proof -
  have own: "rr_id p \<noteq> run" if "p \<in> set (so_runs db)" "rr_user p = other" for p
    using owned_row [OF assms(3)] that assms(2,4) by (auto simp: ids_ok_def distinct_map inj_on_def)
  have "filter (\<lambda>q. rr_user q = other) (so_runs d) = filter (\<lambda>q. rr_user q = other) (so_runs db)"
    by (rule same_rows [where run = run]) (use assms(1,2) own in \<open>auto simp: store_frame_def find_run_def ids_ok_def\<close>)
  moreover have "appended (\<lambda>p. pl_run p = run) (so_plans db) (so_plans d)"
    "appended (\<lambda>e. ev_run e = run) (so_events db) (so_events d)"
    "appended (\<lambda>a. ar_run a = run) (so_artifacts db) (so_artifacts d)"
    using assms(1) unfolding store_frame_def by blast+
  ultimately show ?thesis
    unfolding kept_for_def by (intro conjI ballI impI) (assumption, (erule appended_filter, metis own)+)
qed

lemma create_kept:
  assumes "other \<noteq> user"
  shows "kept_for other db (snd (create_run user g ks c b v db))"
  using assms by (simp add: kept_for_def create_run_def Let_def)

subsection \<open>What a request moves\<close>

lemma frame_user_response: "store_frame (rr_id q) db (snd (append_user_response q said db))"
proof -
  have "db_moves (rr_id q) s db (snd (append_user_response q said db))" for s
    unfolding append_user_response_def Let_def snd_conv by (rule db_moves_update_run) simp_all
  then have "run_frame (rr_id q) (undefined\<lparr>rt_db := db\<rparr>) (undefined\<lparr>rt_db := snd (append_user_response q said db)\<rparr>)"
    unfolding db_moves_def by (blast intro: run_frame_step)
  then show ?thesis by (simp add: run_frame_def)
qed

lemma frame_finish_run: "store_frame run db (finish_run run s m e db)"
proof -
  have "db_moves run k db (finish_run run s m e db)" for k
    unfolding finish_run_def by (rule db_moves_update_run) simp_all
  then have "run_frame run (undefined\<lparr>rt_db := db\<rparr>) (undefined\<lparr>rt_db := finish_run run s m e db\<rparr>)"
    unfolding db_moves_def by (blast intro: run_frame_step)
  then show ?thesis by (simp add: run_frame_def)
qed

lemma run_agent_store: "store_frame run (rt_db r) (rt_db (snd (run_agent env user t (Some run) r)))"
  using run_agent_frame by blast

lemma run_agent_after:
  "store_frame run (rt_db r) db \<Longrightarrow> store_frame run (rt_db r) (rt_db (snd (run_agent env user t (Some run) (r\<lparr>rt_db := db\<rparr>))))"
  using run_agent_store [of run "r\<lparr>rt_db := db\<rparr>" env user t] store_frame_trans by simp

lemma resume_frame: "store_frame run (rt_db r) (rt_db (snd (resume env user run t r)))"
  using run_agent_after [OF store_frame_trans [OF frame_start_run frame_append_event]]
  by (auto simp: resume_def Let_def split_beta split: option.split dest: owned_row(2))

lemma recover_frame: "store_frame run (rt_db r) (rt_db (snd (recover env user run t r)))"
  using run_agent_after [OF frame_append_event]
  by (auto simp: recover_def Let_def split_beta split: option.split dest: owned_row(2))

text \<open>What an exception leaves is something the run itself committed.\<close>

definition left_by :: "str \<Rightarrow> rt \<Rightarrow> rt option \<Rightarrow> bool" where
  "left_by run r crash \<longleftrightarrow> (\<forall>rc \<in> set_option crash. store_frame run (rt_db r) (rt_db rc))"

text \<open>A step of a user: nothing, a new run, or a change of one run of the user.\<close>

definition moves_own :: "str \<Rightarrow> store \<Rightarrow> store \<Rightarrow> bool" where
  "moves_own user db d \<longleftrightarrow> d = db \<or> (\<exists>g ks c b v. d = snd (create_run user g ks c b v db))
     \<or> (\<exists>run q. get_run_for_owner db run user = Some q \<and> store_frame run db d)"

lemma moves_own_kept: "moves_own user db d \<Longrightarrow> ids_ok db \<Longrightarrow> other \<noteq> user \<Longrightarrow> kept_for other db d"
  unfolding moves_own_def using create_kept frame_kept by fastforce

lemma moves_own_ids: "moves_own user db d \<Longrightarrow> ids_ok db \<Longrightarrow> ids_ok d"
  unfolding moves_own_def using create_run_ids store_frame_ids by blast

lemma runtime_call_frame:
  assumes "left_by run r crash" and "store_frame run (rt_db r) (rt_db (snd call))"
  shows "store_frame run (rt_db r) (rt_db (snd (runtime_call crash r call)))"
  using assms by (cases call; cases "fst call") (auto simp: runtime_call_def left_by_def split: option.split)

lemma resume_run_moves:
  assumes "left_by run r crash"
  shows "moves_own user (rt_db r) (rt_db (snd (resume_run env c av pdb user run said crash r)))"
proof (cases "get_run_for_owner (rt_db r) run user")
  case (Some q)
  have "store_frame run (rt_db r) (rt_db (snd (resume env user run t
      (r\<lparr>rt_db := snd (append_user_response q (strip said) (rt_db r))\<rparr>))))" for t
    using store_frame_trans [OF frame_user_response [where q = q and said = "strip said" and db = "rt_db r"]]
      resume_frame [of run "r\<lparr>rt_db := snd (append_user_response q (strip said) (rt_db r))\<rparr>" env user t]
      owned_row(2) [OF Some] by simp
  then have "store_frame run (rt_db r) (rt_db (snd (runtime_call crash r (resume env user run t
      (r\<lparr>rt_db := snd (append_user_response q (strip said) (rt_db r))\<rparr>)))))" for t
    by (rule runtime_call_frame [OF assms])
  then have "store_frame run (rt_db r) (rt_db (snd (resume_run env c av pdb user run said crash r)))"
    using owned_row(2) [OF Some] by (auto simp: resume_run_def Some split_beta split: option.split)
  then show ?thesis using Some unfolding moves_own_def by blast
qed (simp add: resume_run_def moves_own_def split: option.split)

lemma recover_run_moves:
  assumes "left_by run r crash"
  shows "moves_own user (rt_db r) (rt_db (snd (recover_run env c av pdb user run crash r)))"
proof (cases "get_run_for_owner (rt_db r) run user")
  case (Some q)
  have "store_frame run (rt_db r) (rt_db (snd (runtime_call crash r (recover env user run t r))))" for t
    by (rule runtime_call_frame [OF assms recover_frame])
  then have "store_frame run (rt_db r) (rt_db (snd (recover_run env c av pdb user run crash r)))"
    using owned_row(2) [OF Some] by (auto simp: recover_run_def Some split: option.split)
  then show ?thesis using Some unfolding moves_own_def by blast
qed (simp add: recover_run_def moves_own_def split: option.split)

lemma execute_moves:
  assumes "left_by run r crash"
  shows "moves_own user (rt_db r) (rt_db (execute_queued_run env av pdb user run crash r))"
proof (cases "get_run_for_owner (rt_db r) run user")
  case (Some q)
  have "store_frame run (rt_db rc) (rt_db (fail_queued_run user run rc))" for rc
    using store_frame_trans [OF frame_finish_run frame_append_event]
    by (auto simp: fail_queued_run_def split: option.split dest: owned_row(2))
  then have failed: "store_frame run (rt_db r) (rt_db (fail_queued_run user run rc))" if "crash = Some rc" for rc
    using assms that store_frame_trans unfolding left_by_def by fastforce
  have "store_frame run (rt_db r) (rt_db (execute_queued_run env av pdb user run crash r))"
    using failed run_agent_store owned_row(2) [OF Some]
    by (auto simp: execute_queued_run_def Some split: option.split)
  then show ?thesis using Some unfolding moves_own_def by blast
qed (simp add: execute_queued_run_def moves_own_def)

subsection \<open>Requests\<close>

fun crash_of :: "run_request \<Rightarrow> str \<times> rt option" where
  "crash_of (ResumeRun run _ crash) = (run, crash)"
| "crash_of (RecoverRun run crash) = (run, crash)"
| "crash_of _ = ([], None)"

lemma continued_api [simp]: "snd (continued conflict s out) = s\<lparr>ra_rt := snd out\<rparr>"
  by (auto simp: continued_def split: prod.split sum.split)

lemma serve_run_moves:
  assumes "left_by (fst (crash_of req)) (ra_rt s) (snd (crash_of req))"
  shows "moves_own user (rt_db (ra_rt s)) (rt_db (ra_rt (snd (serve_run env c av pdb user req s))))"
proof (cases req)
  case (CreateRun g ks ctx)
  have "snd (queue_run env c av user t db) = db \<or> (\<exists>g ks cx b v. snd (queue_run env c av user t db) = snd (create_run user g ks cx b v db))" for t db
    by (cases "feature_gate c av") (simp_all add: queue_run_def create_queued_run_def split_beta, blast)
  then show ?thesis
    by (auto simp: CreateRun create_agent_run_def moves_own_def split: option.split prod.split sum.split) (metis snd_conv)+
next
  case (ResumeRun run said crash)
  then show ?thesis
    using assms resume_run_moves by (auto simp: resume_agent_run_def moves_own_def [of _ d d for d] split: option.split)
next
  case (RecoverRun run crash)
  then show ?thesis using assms recover_run_moves by (simp add: recover_agent_run_def)
qed (simp_all add: moves_own_def)

text \<open>What the others do: requests of theirs, and the background calls of theirs that are due.\<close>

inductive others_act :: "env \<Rightarrow> harness_settings \<Rightarrow> bool \<Rightarrow> str \<Rightarrow> run_api \<Rightarrow> run_api \<Rightarrow> bool" for env c av user where
  nothing: "others_act env c av user s s"
| request: "others_act env c av user s s' \<Longrightarrow> other \<noteq> user
    \<Longrightarrow> left_by (fst (crash_of req)) (ra_rt s') (snd (crash_of req))
    \<Longrightarrow> others_act env c av user s (snd (serve_run env c av pdb other req s'))"
| background: "others_act env c av user s s' \<Longrightarrow> ra_due s' = (other, run) # rest \<Longrightarrow> other \<noteq> user
    \<Longrightarrow> left_by run (ra_rt s') crash \<Longrightarrow> others_act env c av user s (run_due env av pdb crash s')"

lemma others_keep:
  "others_act env c av user s s' \<Longrightarrow> ids_ok (rt_db (ra_rt s))
    \<Longrightarrow> ids_ok (rt_db (ra_rt s')) \<and> kept_for user (rt_db (ra_rt s)) (rt_db (ra_rt s'))"
proof (induction rule: others_act.induct)
  case (request s s' other req pdb)
  then show ?case
    using serve_run_moves [OF request.hyps(3)] moves_own_ids moves_own_kept kept_for_trans by metis
next
  case (background s s' other run rest crash pdb)
  have "moves_own other (rt_db (ra_rt s')) (rt_db (ra_rt (run_due env av pdb crash s')))"
    using execute_moves [OF background.hyps(4)] background.hyps(2) by (simp add: run_due_def)
  then show ?case
    using background moves_own_ids moves_own_kept kept_for_trans by metis
qed simp

fun reads :: "run_request \<Rightarrow> bool" where
  "reads (CreateRun _ _ _) = False"
| "reads (ResumeRun _ _ _) = False"
| "reads (RecoverRun _ _) = False"
| "reads _ = True"

lemma find_of_filter: "find (\<lambda>x. P x \<and> Q x) xs = find P (filter Q xs)"
  by (induction xs) auto

lemma find_last: "\<forall>x \<in> set xs. \<not> P x \<Longrightarrow> P q \<Longrightarrow> find P (xs @ [q]) = Some q"
  by (induction xs) auto

lemma kept_reads:
  assumes "kept_for user (rt_db (ra_rt s)) (rt_db (ra_rt s'))" and "reads req"
  shows "fst (serve_run env c av pdb user req s') = fst (serve_run env c av pdb user req s)"
proof -
  let ?db = "rt_db (ra_rt s)" and ?d = "rt_db (ra_rt s')"
  have rows: "filter (\<lambda>q. rr_user q = user) (so_runs ?d) = filter (\<lambda>q. rr_user q = user) (so_runs ?db)"
    using assms(1) by (simp add: kept_for_def)
  have own: "get_run_for_owner ?d run user = get_run_for_owner ?db run user" for run
    by (simp add: get_run_for_owner_def find_of_filter rows)
  have logs: "list_events ?d run n = list_events ?db run n \<and> list_plans ?d run = list_plans ?db run
      \<and> list_evidence_artifacts ?d run = list_evidence_artifacts ?db run"
    if "get_run_for_owner ?db run user = Some q" for run q n
  proof -
    have "events_of ?d run = events_of ?db run" using assms(1) owned_row [OF that] by (auto simp: kept_for_def events_of_def)
    then show ?thesis
      using assms(1) owned_row [OF that] by (auto simp: kept_for_def list_events_def list_plans_def list_evidence_artifacts_def)
  qed
  show ?thesis
    using assms(2) own logs rows
    by (cases req)
      (auto simp: list_agent_runs_def list_runs_for_owner_def get_agent_run_def service_get_run_def list_agent_events_def
        service_list_events_def list_agent_plans_def service_list_plans_def list_agent_artifacts_def
        service_list_artifacts_def split: option.split)
qed

text \<open>C15: 
  Whatever the other users ask for, and whatever their runs do in the background, every reply a user gets
  on reading runs, events, plans and artifacts is the reply the user would have got before.
\<close>

theorem runs_of_others_invisible:
  assumes "others_act env c av user s s'" and "ids_ok (rt_db (ra_rt s))" and "reads req"
  shows "fst (serve_run env c av pdb user req s') = fst (serve_run env c av pdb user req s)"
  using kept_reads others_keep [OF assms(1,2)] assms(3) by blast

subsection \<open>What is asked is executed\<close>

text \<open>C16: 
  An accepted request leaves one queued run of its user and one background call for it; when that call
  comes and nobody touched the row, the runtime runs exactly the task that was asked for, with a valid
  budget, and with the facts its user has confirmed by then.
\<close>

theorem queued_run_executes_request:
  assumes "serve_run env c av pdb user (CreateRun goal skills ctx) s = (Created cd, s')"
    and "ids_ok (rt_db (ra_rt s))"
    and "get_run_for_owner (rt_db r) (cd_id cd) user = get_run_for_owner (rt_db (ra_rt s')) (cd_id cd) user"
  shows "\<exists>t. make_task (strip goal) skills ctx (build_adaptive_agent_budget c skills) = Some t
    \<and> budget_ok (tk_budget t) \<and> cd_status cd = Queued \<and> ra_due s' = ra_due s @ [(user, cd_id cd)]
    \<and> execute_queued_run env av pdb' user (cd_id cd) None r
        = snd (run_agent env user (with_confirmed_profile_facts pdb' user t) (Some (cd_id cd)) r)"
proof -
  obtain g t where g: "body_text goal = Some g"
    and t: "checked_task g skills ctx (build_adaptive_agent_budget c skills) = Some t"
    and gate: "feature_gate c av = None"
    and cd: "cd = created_of (result_of (rr_id (fst (create_queued_run env user t (rt_db (ra_rt s))))) Queued None None)"
    and s': "s' = s\<lparr>ra_rt := (ra_rt s)\<lparr>rt_db := snd (create_queued_run env user t (rt_db (ra_rt s)))\<rparr>,
        ra_due := ra_due s @ [(user, rr_id (fst (create_queued_run env user t (rt_db (ra_rt s)))))]\<rparr>"
    using assms(1)
    by (auto simp: create_agent_run_def queue_run_def split_beta refusal_of_def result_of_def
        split: option.splits if_splits service_error.splits)
  define q where "q = fst (create_queued_run env user t (rt_db (ra_rt s)))"
  have q: "rr_id q = fresh_id (rt_db (ra_rt s))" "rr_user q = user" "rr_status q = Queued" "stored_task q (rr_context q) = Some t"
    using stored_task_again [OF t] by (simp_all add: q_def create_queued_run_def create_run_def Let_def stored_task_def)
  have rows: "so_runs (rt_db (ra_rt s')) = so_runs (rt_db (ra_rt s)) @ [q]"
    by (simp add: s' q_def create_queued_run_def create_run_def Let_def)
  have "rr_id q \<notin> rr_id ` set (so_runs (rt_db (ra_rt s)))"
    using fresh_id_new [OF assms(2)] unfolding q(1) all_ids_def by simp
  then have "find (\<lambda>x. rr_id x = rr_id q \<and> rr_user x = user) (so_runs (rt_db (ra_rt s)) @ [q]) = Some q"
    using q(2) by (intro find_last) (auto intro: rev_image_eqI)
  then have "get_run_for_owner (rt_db r) (cd_id cd) user = Some q"
    using assms(3) by (simp add: get_run_for_owner_def rows) (simp add: cd created_of_def result_of_def flip: q_def)
  moreover have "cd_id cd = rr_id q" "cd_status cd = Queued" by (simp_all add: cd created_of_def result_of_def q_def)
  moreover have "av" using gate by (simp add: feature_gate_def split: if_splits)
  ultimately have "execute_queued_run env av pdb' user (cd_id cd) None r
        = snd (run_agent env user (with_confirmed_profile_facts pdb' user t) (Some (cd_id cd)) r)"
    using q by (simp add: execute_queued_run_def)
  moreover have "g = strip goal" using g by (simp add: body_text_def split: if_splits)
  moreover have "make_task g skills ctx (build_adaptive_agent_budget c skills) = Some t" "budget_ok (build_adaptive_agent_budget c skills)"
    using t by (simp_all add: checked_task_def split: if_splits)
  moreover have "tk_budget t = build_adaptive_agent_budget c skills" using make_task_again(3) calculation(3) by blast
  ultimately show ?thesis
    using \<open>cd_status cd = Queued\<close> \<open>cd_id cd = rr_id q\<close> by (intro exI [of _ t]) (simp add: s' flip: q_def)
qed

subsection \<open>The confirmed facts\<close>

lemma profile_of_rows: "get_profile_by_user db user = (case filter (\<lambda>p. pf_user p = user) (pb_profiles db) of [] \<Rightarrow> None | p # _ \<Rightarrow> Some p)"
proof -
  have "find P xs = (case filter P xs of [] \<Rightarrow> None | p # _ \<Rightarrow> Some p)" for P :: "profile_row \<Rightarrow> bool" and xs
    by (induction xs) auto
  then show ?thesis by (simp add: get_profile_by_user_def)
qed

lemma chosen_version_rows: "user_rows d user = user_rows db user \<Longrightarrow> chosen_version d user = chosen_version db user"
proof -
  assume "user_rows d user = user_rows db user"
  then have same: "get_profile_by_user d user = get_profile_by_user db user" "list_versions d user = list_versions db user"
    unfolding profile_of_rows list_versions_def user_rows_def by simp_all
  show ?thesis unfolding chosen_version_def same ..
qed

lemma chosen_version_member: "chosen_version db user = Some v \<Longrightarrow> v \<in> set (pb_versions db) \<and> owns db user (cv_profile v)"
proof -
  have members: "set (list_versions db user) = {v \<in> set (pb_versions db). owns db user (cv_profile v)}"
    by (auto simp: list_versions_def)
  assume "chosen_version db user = Some v"
  then have "v \<in> set (list_versions db user)"
    by (auto simp: chosen_version_def split: list.splits option.splits if_splits dest: find_SomeD)
  then show ?thesis unfolding members by simp
qed

lemma chosen_active:
  assumes "profiles_ok db" and "v \<in> set (pb_versions db)" and "owns db user (cv_profile v)"
    and "get_profile_by_user db user = Some p" and "pf_active p = Some (cv_id v)"
  shows "chosen_version db user = Some v"
proof -
  have v: "v \<in> set (list_versions db user)" using assms(2,3) by (simp add: list_versions_def)
  have "cv_id v \<noteq> []" using profiles_okD(6) [OF assms(1)] assms(2) by (auto simp: table_ok_def key_ok_def)
  have "find (\<lambda>u. cv_id u = cv_id v) (list_versions db user) \<noteq> None" using v by (auto simp: find_None_iff)
  then obtain u where u: "find (\<lambda>u. cv_id u = cv_id v) (list_versions db user) = Some u" by blast
  then have "u \<in> set (pb_versions db)" "cv_id u = cv_id v"
    by (auto simp: list_versions_def dest!: find_SomeD)
  then have "u = v" using table_ok_unique [OF profiles_okD(6) [OF assms(1)] _ assms(2)] by blast
  then show ?thesis
    using u v \<open>cv_id v \<noteq> []\<close> assms(4,5) by (cases "list_versions db user") (simp_all add: chosen_version_def)
qed


subsection \<open>What a plan looks like from outside\<close>

definition step_view :: "plan_step \<Rightarrow> plan_step_response" where
  "step_view s = \<lparr>vs_id = ps_id s, vs_objective = ps_objective s, vs_skills = ps_skills s, vs_criteria = ps_criteria s,
     vs_verify = ps_verify s\<rparr>"

lemma str_list_strs [simp]: "str_list (strs xs) = Some xs"
  by (simp add: str_list_def strs_def list_all_iff comp_def)

lemma to_step_response_plan [simp]: "to_step_response (plan_step_json s) = Some (step_view s)"
  by (simp add: to_step_response_def plan_step_json_def step_view_def dget_or_def dhas_def)

text \<open>
  Of a plan the runtime stored its owner is shown every step, in order, with its id, objective, skills,
  criteria and whether it is verified, and nothing else of the task or of its context.
\<close>

theorem plan_shown_in_full:
  "to_plan_response (fst (create_plan run n level (plan_json p) db)) =
     \<lparr>vp_id = fresh_id db, vp_revision = n, vp_complexity = level, vp_criteria = ep_criteria p,
      vp_steps = map step_view (ep_steps p)\<rparr>"
proof -
  have steps: "List.map_filter to_step_response (map plan_step_json ss) = map step_view ss" for ss
    by (induction ss) (simp_all add: List.map_filter_simps)
  show ?thesis
    by (simp add: to_plan_response_def create_plan_def Let_def plan_json_def dget_or_def dhas_def steps)
qed

subsection \<open>The budget of a request\<close>

text \<open>
  Whatever skills a request names, its budget is a valid one, gives at least the configured turns, and exactly
  these to a request of one skill.
\<close>

theorem request_budget_valid:
  assumes "settings_ok c"
  shows "budget_ok (build_adaptive_agent_budget c skills)
    \<and> hs_turns c \<le> ab_turns (build_adaptive_agent_budget c skills)
    \<and> (card (set skills) \<le> 1 \<longrightarrow> ab_turns (build_adaptive_agent_budget c skills) = hs_turns c)"
  using adaptive_budget_ok [OF assms] assms by (auto simp: build_adaptive_agent_budget_def settings_ok_def)

end
