(* ===== verification/ServiceScenario.thy ===== *)
theory ServiceScenario
  imports RunServiceProperties ProfileScenario
begin

section \<open>The run service at work\<close>

text \<open>One user who asks for a run and another who looks on, for the properties of the run service.\<close>

definition demo_settings :: harness_settings where
  "demo_settings = \<lparr>hs_enabled = True, hs_turns = 12, hs_tools = 24, hs_replans = 2, hs_wall = 300, hs_requests = 128,
     hs_input = 1000000, hs_output = 200000\<rparr>"

definition demo_api :: run_api where
  "demo_api = \<lparr>ra_rt = demo_rt empty_store, ra_due = []\<rparr>"

definition demo_request :: run_request where
  "demo_request = CreateRun (lit '' find open roles'') [lit ''job-discovery''] []"

lemma api_ids: "ids_ok (rt_db (ra_rt demo_api))"
  by (simp add: demo_api_def demo_rt_def empty_store_def ids_ok_def all_ids_def)

lemma demo_created:
  "\<exists>cd s. serve_run Scenario.demo_env demo_settings True demo_profiles (lit ''u'') demo_request demo_api = (Created cd, s)"
proof -
  have "case fst (serve_run Scenario.demo_env demo_settings True demo_profiles (lit ''u'') demo_request demo_api) of
      Created cd \<Rightarrow> True | _ \<Rightarrow> False"
    by code_simp
  then show ?thesis by (auto simp: split_def prod_eq_iff split: run_reply.splits)
qed

theorem queued_run_executes_request_witness:
  "\<exists>cd s t. serve_run Scenario.demo_env demo_settings True demo_profiles (lit ''u'') demo_request demo_api = (Created cd, s)
     \<and> execute_queued_run Scenario.demo_env True demo_profiles (lit ''u'') (cd_id cd) None (ra_rt s)
       = snd (run_agent Scenario.demo_env (lit ''u'') (with_confirmed_profile_facts demo_profiles (lit ''u'') t) (Some (cd_id cd)) (ra_rt s))"
proof -
  obtain cd s where c: "serve_run Scenario.demo_env demo_settings True demo_profiles (lit ''u'') demo_request demo_api = (Created cd, s)"
    using demo_created by blast
  then show ?thesis
    using queued_run_executes_request [OF c [unfolded demo_request_def] api_ids refl, of demo_profiles] by blast
qed

theorem queued_run_executes_once_witness:
  "\<exists>cd s. serve_run Scenario.demo_env demo_settings True demo_profiles (lit ''u'') demo_request demo_api = (Created cd, s)
     \<and> execute_queued_run Scenario.demo_env True demo_profiles (lit ''u'') (cd_id cd) None
        (execute_queued_run Scenario.demo_env True demo_profiles (lit ''u'') (cd_id cd) None (ra_rt s))
     = execute_queued_run Scenario.demo_env True demo_profiles (lit ''u'') (cd_id cd) None (ra_rt s)"
proof -
  obtain cd s where c: "serve_run Scenario.demo_env demo_settings True demo_profiles (lit ''u'') demo_request demo_api = (Created cd, s)"
    using demo_created by blast
  have "moves_own (lit ''u'') (rt_db (ra_rt demo_api)) (rt_db (ra_rt s))"
    using serve_run_moves [of demo_request demo_api "lit ''u''" Scenario.demo_env demo_settings True demo_profiles] c
    by (simp add: demo_request_def left_by_def)
  from queued_run_executes_once [OF moves_own_ids [OF this api_ids]] show ?thesis using c by blast
qed

theorem runs_of_others_invisible_witness:
  "fst (serve_run Scenario.demo_env demo_settings True demo_profiles (lit ''v'') (ListRuns 10)
     (snd (serve_run Scenario.demo_env demo_settings True demo_profiles (lit ''u'') demo_request demo_api))) = Runs []"
proof -
  have "others_act Scenario.demo_env demo_settings True (lit ''v'') demo_api
      (snd (serve_run Scenario.demo_env demo_settings True demo_profiles (lit ''u'') demo_request demo_api))"
    by (rule others_act.request [OF others_act.nothing]) (simp_all add: left_by_def demo_request_def)
  from runs_of_others_invisible [OF this api_ids, of "ListRuns 10" demo_profiles] show ?thesis
    by (simp add: list_agent_runs_def list_runs_for_owner_def demo_api_def demo_rt_def empty_store_def)
qed


theorem request_budget_valid_witness: "budget_ok (build_adaptive_agent_budget demo_settings [lit ''a'', lit ''b''])"
  using request_budget_valid [of demo_settings "[lit ''a'', lit ''b'']"] by (simp add: demo_settings_def settings_ok_def)

end
