(* ===== verification/SkillTexts.thy ===== *)
theory SkillTexts
  imports Prelude
begin

section \<open>The marker words of the skills\<close>

text \<open>
  The Chinese words of the job skills as code points, and the lists of markers they test a text for. The
  comment above each says in English what it means.
\<close>

text \<open>``thousand''\<close>

definition zh_kilo :: str where
"zh_kilo = [21315]"

text \<open>``ten thousand''\<close>

definition zh_wan :: str where
"zh_wan = [19975]"

text \<open>``to''\<close>

definition zh_to :: str where
"zh_to = [33267]"

text \<open>``month''\<close>

definition zh_month :: str where
"zh_month = [26376]"

text \<open>``year''\<close>

definition zh_year :: str where
"zh_year = [24180]"

text \<open>``monthly pay''\<close>

definition zh_monthly_pay :: str where
"zh_monthly_pay = [26376, 34218]"

text \<open>``yearly pay''\<close>

definition zh_yearly_pay :: str where
"zh_yearly_pay = [24180, 34218]"

text \<open>``application development''\<close>

definition zh_app_dev :: str where
"zh_app_dev = [24212, 29992, 24320, 21457]"

text \<open>``intelligent agent''\<close>

definition zh_agent :: str where
"zh_agent = [26234, 33021, 20307]"

text \<open>``back end''\<close>

definition zh_backend :: str where
"zh_backend = [21518, 31471]"

text \<open>``artificial intelligence''\<close>

definition zh_ai :: str where
"zh_ai = [20154, 24037, 26234, 33021]"

text \<open>``position''\<close>

definition zh_job :: str where
"zh_job = [23703, 20301]"

text \<open>``China Unicom''\<close>

definition zh_unicom :: str where
"zh_unicom = [20013, 22269, 32852, 36890]"

text \<open>``China Mobile''\<close>

definition zh_mobile :: str where
"zh_mobile = [20013, 22269, 31227, 21160]"

text \<open>``Guopin''\<close>

definition zh_guopin :: str where
"zh_guopin = [22269, 32856]"

text \<open>``this job comes from Liepin''\<close>

definition zh_liepin_origin :: str where
"zh_liepin_origin = [35813, 32844, 20301, 26469, 28304, 20110, 29454, 32856]"

text \<open>``day''\<close>

definition zh_day :: str where
"zh_day = [22825]"

text \<open>``deliverable built from public JDs matching the role''\<close>

definition deliverable_summary_msg :: str where
"deliverable_summary_msg = [24050, 22522, 20110, 30446, 26631, 35282, 33394, 21305, 37197,
     30340, 20844, 24320, 32, 74, 68, 32, 29983, 25104, 32844, 19994, 20132, 20184, 29289,
     12290]"

text \<open>``the page was blocked by the site's access control (effective_url=''\<close>

definition blocked_page_head :: str where
"blocked_page_head = [20844, 24320, 39029, 38754, 34987, 31449, 28857, 35775, 38382, 25511,
     21046, 38459, 26029, 65288, 101, 102, 102, 101, 99, 116, 105, 118, 101, 95, 117, 114, 108,
     61]"

text \<open>``). No stateless retry.''\<close>

definition blocked_page_tail :: str where
"blocked_page_tail = [65289, 12290, 19981, 20250, 32487, 32493, 26080, 29366, 24577, 37325,
     35797, 12290]"

text \<open>``the page is offline or does not exist''\<close>

definition dead_page_msg :: str where
"dead_page_msg = [39029, 38754, 24050, 19979, 32447, 25110, 19981, 23384, 22312, 65288, 27515,
     38142, 65289, 65292, 38750, 26377, 25928, 23703, 20301, 35777, 25454, 12290]"

text \<open>``this run has suspended access to ''\<close>

definition domain_blocked_head :: str where
"domain_blocked_head = [24403, 21069, 36816, 34892, 24050, 26242, 20572, 35775, 38382, 32]"

text \<open>``: the domain answered with an anti-bot or access block before''\<close>

definition domain_blocked_tail :: str where
"domain_blocked_tail = [65306, 35813, 22495, 21517, 27492, 21069, 36820, 22238, 20102, 21453,
     29228, 25110, 35775, 38382, 38459, 26029, 12290]"

text \<open>``this article could not be captured; go on with the others''\<close>

definition wechat_failed_msg :: str where
"wechat_failed_msg = [35813, 24494, 20449, 38142, 25509, 25235, 21462, 22833, 36133, 65288,
     38236, 20687, 39564, 35777, 22681, 47, 20184, 36153, 22681, 25110, 26080, 27491, 25991,
     65289, 20165, 20195, 34920, 27492, 32, 85, 82, 76, 32, 26412, 36523, 19981, 21487, 29992,
     65292, 19981, 20195, 34920, 21516, 25209, 20854, 20182, 24494, 20449, 38142, 25509, 20063,
     20250, 22833, 36133, 65307, 21516, 25209, 20854, 20313, 32, 85, 82, 76, 32, 20173, 24212,
     32487, 32493, 36880, 19968, 23581, 35797, 12290]"

text \<open>_JD_SECTION_MARKERS: duties, requirements, description\<close>

definition jd_section_markers :: "str list" where
"jd_section_markers = [[23703, 20301, 32844, 36131], [23703, 20301, 35201, 27714], [32844,
     20301, 25551, 36848], [24037, 20316, 32844, 36131], [20219, 32844, 35201, 27714], [32844,
     36131, 25551, 36848], lit ''responsibilities'']"

text \<open>_classify_page_quality: description, duties, requirements, we hope you are\<close>

definition inline_jd_markers :: "str list" where
"inline_jd_markers = [[32844, 20301, 25551, 36848], [24037, 20316, 32844, 36131], [23703, 20301,
     32844, 36131], [20219, 32844, 35201, 27714], [24076, 26395, 20320, 26159]]"

text \<open>_ACCESS_BLOCK_TEXT_MARKERS: security check, captcha\<close>

definition access_block_markers :: "str list" where
"access_block_markers = [[23433, 20840, 39564, 35777], [39564, 35777, 30721], [35775, 38382,
     39564, 35777], lit ''captcha'', lit ''verify you are human'', lit ''security center'',
     [23433, 20840, 20013, 24515], [20154, 26426, 39564, 35777]]"

text \<open>_SOFT_404_MARKERS: page does not exist, job is offline\<close>

definition soft_404_markers :: "str list" where
"soft_404_markers = [[39029, 38754, 19981, 23384, 22312], [32844, 20301, 24050, 19979, 32447],
     [32844, 20301, 19981, 23384, 22312], [39029, 38754, 24050, 32463, 36807, 26399]]"

text \<open>_classify_page_quality: job list\<close>

definition list_page_markers :: "str list" where
"list_page_markers = [[32844, 20301, 21015, 34920], [23703, 20301, 21015, 34920], [25307, 32856,
     32844, 20301], [26657, 25307, 32844, 20301], lit ''joblist'', lit ''jobcards'']"

text \<open>_COMPANY_TYPE_LABELS: state-owned, private, foreign, public institution\<close>

definition company_type_labels :: "str list" where
"company_type_labels = [[22269, 20225], [27665, 33829], [22806, 20225], [20107, 19994, 21333,
     20301]]"

text \<open>_GOAL_ROLE_TERMS: roles\<close>

definition goal_role_term_list :: "str list" where
"goal_role_term_list = [[20135, 21697, 32463, 29702], [39033, 30446, 32463, 29702], [21518,
     31471, 24320, 21457], [21069, 31471, 24320, 21457], [24212, 29992, 24320, 21457], [31639,
     27861, 24037, 31243, 24072], [24320, 21457, 24037, 31243, 24072], [24037, 31243, 24072],
     [22823, 27169, 22411], lit ''AIGC'', lit ''AI'', lit ''Java'', lit ''Python'']"

text \<open>_GOAL_LOCATION_TERMS: cities\<close>

definition goal_location_terms :: "str list" where
"goal_location_terms = [[21271, 20140], [19978, 28023], [24191, 24030], [28145, 22323], [26477,
     24030], [21335, 20140], [33487, 24030], [25104, 37117], [27494, 27721], [35199, 23433],
     [37325, 24198], [22825, 27941], [38271, 27801], [37073, 24030], [27982, 21335], [38738,
     23707], [21512, 32933], [21414, 38376], [22823, 36830], [19996, 33694], [20315, 23665]]"

text \<open>_INVALID_TITLE_MARKERS: if you apply, reminder, recruiter on the platform, report, safety, see all\<close>

definition invalid_title_markers :: "str list" where
"invalid_title_markers = [[22914, 24744, 24212, 32856], [28201, 39336, 25552, 31034], [24179,
     21488, 20869, 25307, 32856, 26041], [20030, 25253], [23433, 20840, 38450, 33539], [26597,
     30475, 20840, 37096]]"

text \<open>_GRADUATE_MARKERS: graduate, campus, intern\<close>

definition graduate_scope_markers :: "str list" where
"graduate_scope_markers = [[24212, 23626], [26657, 25307], [26657, 22253, 25307, 32856], [27605,
     19994, 29983], [26657, 22253], lit ''campus'', lit ''graduate'', [23454, 20064, 29983],
     [23454, 20064], lit ''intern'', lit ''internship'']"

text \<open>_candidate_meets_goal_constraints: large model application development, LLM application\<close>

definition llm_app_markers :: "str list" where
"llm_app_markers = [[22823, 27169, 22411, 24212, 29992, 24320, 21457], [108, 108, 109, 32,
     24212, 29992], [108, 108, 109, 24212, 29992]]"

text \<open>role terms: ai, application development, agent, intelligent agent\<close>

definition ai_app_terms :: "str list" where
"ai_app_terms = [lit ''ai'', [24212, 29992, 24320, 21457], lit ''agent'', [26234, 33021,
     20307]]"

text \<open>role terms: large model, application development, llm, agent\<close>

definition llm_app_terms :: "str list" where
"llm_app_terms = [[22823, 27169, 22411], [24212, 29992, 24320, 21457], lit ''llm'', lit
     ''agent'']"

text \<open>role terms: front end\<close>

definition frontend_terms :: "str list" where
"frontend_terms = [[21069, 31471], lit ''frontend'']"

text \<open>role terms: java, back end\<close>

definition java_terms :: "str list" where
"java_terms = [lit ''java'', [21518, 31471]]"

text \<open>role terms: product manager, aigc\<close>

definition product_terms :: "str list" where
"product_terms = [[20135, 21697, 32463, 29702], lit ''aigc'']"

text \<open>_role_constraint_satisfied: generative AI\<close>

definition aigc_evidence_markers :: "str list" where
"aigc_evidence_markers = [lit ''aigc'', [29983, 25104, 24335, 97, 105], [29983, 25104, 24335,
     20154, 24037, 26234, 33021], [22823, 27169, 22411], lit ''llm'', lit ''prompt'', lit
     ''rag'', lit ''ai agent'']"

text \<open>_role_constraint_satisfied: AI\<close>

definition ai_evidence_markers :: "str list" where
"ai_evidence_markers = [lit ''ai'', [20154, 24037, 26234, 33021], [22823, 27169, 22411], lit
     ''llm'']"

text \<open>_role_constraint_satisfied: development\<close>

definition app_dev_evidence_markers :: "str list" where
"app_dev_evidence_markers = [[24212, 29992, 24320, 21457], [24212, 29992, 30740, 21457], [24212,
     29992, 24037, 31243, 24072], [24320, 21457, 24037, 31243, 24072], [30740, 21457, 24037,
     31243, 24072], [21518, 31471, 24037, 31243, 24072], [21069, 31471, 24037, 31243, 24072],
     [24320, 21457, 23454, 20064], [30740, 21457, 23454, 20064], lit ''developer'', lit
     ''engineer'']"

text \<open>_requires_graduate_scope: graduate, campus, intern\<close>

definition graduate_goal_markers :: "str list" where
"graduate_goal_markers = [[24212, 23626, 29983], [24212, 23626], [26657, 25307], [23454, 20064,
     29983]]"

text \<open>_source_allowed_for_goal: Guopin, China Mobile, China Unicom, 10086, 10010\<close>

definition channel_markers :: "str list" where
"channel_markers = [[22269, 32856], [20013, 22269, 31227, 21160], [20013, 22269, 32852, 36890],
     lit ''10086'', lit ''10010'']"

text \<open>_RECENT_DAYS_RE: most recent, recent\<close>

definition recent_words :: "str list" where
"recent_words = [[26368, 36817], [36817]]"

text \<open>minimum years: or more\<close>

definition at_least_words :: "str list" where
"at_least_words = [[24180, 21450, 20197, 19978], [24180, 20197, 19978]]"

text \<open>_parse_observed_date: today, just now, just posted\<close>

definition today_words :: "str list" where
"today_words = [[20170, 22825], [21018, 21018], [21018, 21018, 21457, 24067], lit ''today'']"

text \<open>_parse_observed_date: yesterday\<close>

definition yesterday_words :: "str list" where
"yesterday_words = [[26152, 22825], lit ''yesterday'']"

text \<open>goal_role_keywords: product manager\<close>

definition product_keywords :: "str list" where
"product_keywords = [[20135, 21697, 32463, 29702], lit ''AIGC'', lit ''AI'']"

text \<open>goal_role_keywords: AI application\<close>

definition ai_app_keywords :: "str list" where
"ai_app_keywords = [lit ''AI'', [24212, 29992, 24320, 21457], lit ''Agent'', [26234, 33021,
     20307]]"

text \<open>goal_role_keywords: large model application\<close>

definition llm_app_keywords :: "str list" where
"llm_app_keywords = [[22823, 27169, 22411], [24212, 29992, 24320, 21457], lit ''Agent'', lit
     ''AI'']"

text \<open>goal_role_keywords: front end\<close>

definition frontend_keywords :: "str list" where
"frontend_keywords = [[21069, 31471], lit ''Frontend'', lit ''Vue'']"

text \<open>goal_role_keywords: Java back end\<close>

definition java_keywords :: "str list" where
"java_keywords = [lit ''Java'', [21518, 31471]]"

text \<open>tailoring_keywords: markers of a role in a JD\<close>

definition tailoring_markers :: "str list" where
"tailoring_markers = [[20135, 21697, 32463, 29702], [21069, 31471], lit ''Java'', [21518,
     31471], [22823, 27169, 22411], lit ''AIGC'', lit ''AI'', lit ''Agent'', lit ''RAG'']"

text \<open>units of _parse_observed_date: years, months, days, hours, minutes ago; the days of one\<close>

definition ago_units :: "(str \<times> int) list" where
"ago_units = [([24180, 21069], 365), ([20010, 26376, 21069], 30), ([22825, 21069], 1), ([23567,
     26102, 21069], 0), ([20998, 38047, 21069], 0)]"

text \<open>_RANKING_CRITERIA_ALIASES\<close>

definition ranking_criteria_aliases :: "(str \<times> string) list" where
"ranking_criteria_aliases = [(lit ''skills'', ''skills''), (lit ''location'', ''location''),
     (lit ''salary'', ''salary''), (lit ''recency'', ''recency''), (lit ''company_type'',
     ''company_type''), ([25216, 33021], ''skills''), ([25216, 33021, 21305, 37197],
     ''skills''), ([25216, 33021, 21305, 37197, 24230], ''skills''), ([21305, 37197, 24230],
     ''skills''), ([22320, 28857], ''location''), ([20301, 32622], ''location''), ([24037,
     20316, 22320, 28857], ''location''), ([22478, 24066], ''location''), ([34218, 36164],
     ''salary''), ([34218, 37228], ''salary''), ([24037, 36164], ''salary''), ([34218, 27700],
     ''salary''), ([34218, 36164, 24453, 36935], ''salary''), ([26102, 25928], ''recency''),
     ([26102, 25928, 24615], ''recency''), ([21457, 24067, 26102, 38388], ''recency''), ([21457,
     24067, 26085, 26399], ''recency''), ([26032, 36817, 24230], ''recency''), ([20844, 21496,
     31867, 22411], ''company_type''), ([20225, 19994, 31867, 22411], ''company_type''),
     ([21333, 20301, 31867, 22411], ''company_type''), ([20844, 21496, 24615, 36136],
     ''company_type'')]"

end
