(* ===== verification/WebUrl.thy ===== *)
theory WebUrl
  imports Prelude
begin

section \<open>URLs\<close>

text \<open>
  The parts of \<open>urllib.parse\<close> the job skills use: \<open>urlsplit\<close>, \<open>urlparse\<close> and \<open>urljoin\<close>.
  \<open>None\<close> is a \<open>ValueError\<close>. What they ask of a netloc with both brackets, \<open>brackets_ok\<close>, is the
  business of \<open>ipaddress\<close> and differs between patch releases: an argument.
\<close>

subsection \<open>\<open>urlsplit\<close>\<close>

text \<open>Characters that \<open>NFKC\<close> turns into one of \<open>/ ? # @ :\<close>; \<open>urlparse\<close> raises for them.\<close>

definition nfkc_delimiters :: "int set" where
  "nfkc_delimiters = {8263, 8264, 8265, 8448, 8449, 8453, 8454, 10868, 65043, 65046, 65109, 65110,
     65119, 65131, 65283, 65295, 65306, 65311, 65312}"

definition scheme_char :: "int \<Rightarrow> bool" where
  "scheme_char c \<longleftrightarrow> (48 \<le> c \<and> c \<le> 57) \<or> (65 \<le> c \<and> c \<le> 90) \<or> (97 \<le> c \<and> c \<le> 122)
     \<or> c = 43 \<or> c = 45 \<or> c = 46"

definition ascii_letter :: "int \<Rightarrow> bool" where
  "ascii_letter c \<longleftrightarrow> (65 \<le> c \<and> c \<le> 90) \<or> (97 \<le> c \<and> c \<le> 122)"

text \<open>\<open>s.partition(c)\<close>: what is before the first \<open>c\<close>, and what is after it, if there is one.\<close>

definition before :: "int \<Rightarrow> str \<Rightarrow> str" where
  "before c s = takeWhile (\<lambda>x. x \<noteq> c) s"

definition after :: "int \<Rightarrow> str \<Rightarrow> str" where
  "after c s = tl (dropWhile (\<lambda>x. x \<noteq> c) s)"

text \<open>\<open>s.rpartition(c)[2]\<close>\<close>

definition after_last :: "int \<Rightarrow> str \<Rightarrow> str" where
  "after_last c s = rev (takeWhile (\<lambda>x. x \<noteq> c) (rev s))"

definition split_scheme :: "str \<Rightarrow> str \<times> str" where
  "split_scheme url =
     (let name = before 58 url in
      if 58 \<in> set url \<and> name \<noteq> [] \<and> ascii_letter (hd name) \<and> (\<forall>c \<in> set name. scheme_char c)
      then (lower name, after 58 url) else ([], url))"

record url_parts =
  up_scheme :: str
  up_netloc :: str
  up_path :: str
  up_query :: str
  up_fragment :: str

text \<open>\<open>urlsplit(u, scheme)\<close>: the scheme is the default when the URL names none.\<close>

definition url_split :: "(str \<Rightarrow> bool) \<Rightarrow> str \<Rightarrow> str \<Rightarrow> url_parts option" where
  "url_split brackets_ok fallback u =
     (let url0 = filter (\<lambda>c. c \<notin> {9, 10, 13}) (dropWhile (\<lambda>c. 0 \<le> c \<and> c \<le> 32) u);
          (scheme, url) = split_scheme url0;
          has_netloc = starts_with url (lit ''//'');
          netloc = (if has_netloc then takeWhile (\<lambda>c. c \<notin> {47, 63, 35}) (drop 2 url) else []);
          rest = (if has_netloc then dropWhile (\<lambda>c. c \<notin> {47, 63, 35}) (drop 2 url) else url)
      in if (91 \<in> set netloc) \<noteq> (93 \<in> set netloc) then None
         else if 91 \<in> set netloc \<and> \<not> brackets_ok netloc then None
         else if \<exists>c \<in> set netloc. c \<in> nfkc_delimiters then None
         else Some \<lparr>up_scheme = (if scheme = [] then fallback else scheme), up_netloc = netloc,
           up_path = before 63 (before 35 rest), up_query = after 63 (before 35 rest),
           up_fragment = after 35 rest\<rparr>)"

text \<open>\<open>hostname\<close>, with \<open>""\<close> for \<open>None\<close>, and whether there is a user name or a password.\<close>

definition hostname :: "str \<Rightarrow> str" where
  "hostname netloc =
     (let info = after_last 64 netloc;
          host = (if 91 \<in> set info then before 93 (after 91 info) else before 58 info);
          zone = drop (length (before 37 host)) host
      in lower (before 37 host) @ zone)"

definition has_userinfo :: "str \<Rightarrow> bool" where
  "has_userinfo netloc \<longleftrightarrow>
     64 \<in> set netloc
     \<and> (let info = take (length netloc - length (after_last 64 netloc) - 1) netloc
        in before 58 info \<noteq> [] \<or> after 58 info \<noteq> [])"

definition up_host :: "url_parts \<Rightarrow> str" where
  "up_host p = hostname (up_netloc p)"

subsection \<open>\<open>urlparse\<close>\<close>

definition params_schemes :: "string list" where
  "params_schemes = [[], ''ftp'', ''hdl'', ''prospero'', ''http'', ''https'', ''shttp'', ''rtsp'', ''rtsps'',
     ''sip'', ''sips'', ''mms'', ''sftp'', ''tel'']"

definition split_params :: "str \<Rightarrow> str \<Rightarrow> str \<times> str" where
  "split_params scheme path =
     (let tail = after_last 47 path; front = take (length path - length tail) path
      in if 59 \<in> set tail \<and> (\<exists>k \<in> set params_schemes. scheme = lit k)
         then (front @ before 59 tail, after 59 tail) else (path, []))"

text \<open>The host and the path of \<open>urlparse(u)\<close>\<close>

definition parse_url :: "(str \<Rightarrow> bool) \<Rightarrow> str \<Rightarrow> (str \<times> str) option" where
  "parse_url brackets_ok u =
     map_option (\<lambda>p. (up_host p, fst (split_params (up_scheme p) (up_path p)))) (url_split brackets_ok [] u)"

text \<open>\<open>(parsed.hostname or "").lower().rstrip(".")\<close>\<close>

definition rstrip_char :: "int \<Rightarrow> str \<Rightarrow> str" where
  "rstrip_char c s = rev (dropWhile (\<lambda>x. x = c) (rev s))"

definition url_host :: "(str \<Rightarrow> bool) \<Rightarrow> str \<Rightarrow> str option" where
  "url_host brackets_ok u = map_option (\<lambda>(host, path). rstrip_char 46 (lower host)) (parse_url brackets_ok u)"

definition url_path :: "(str \<Rightarrow> bool) \<Rightarrow> str \<Rightarrow> str option" where
  "url_path brackets_ok u = map_option snd (parse_url brackets_ok u)"

text \<open>\<open>host == domain or host.endswith("." + domain)\<close>\<close>

definition on_domain :: "str \<Rightarrow> string \<Rightarrow> bool" where
  "on_domain host domain \<longleftrightarrow> host = lit domain \<or> ends_with host (46 # lit domain)"

subsection \<open>\<open>urljoin\<close>\<close>

definition relative_schemes :: "string list" where
  "relative_schemes = [[], ''ftp'', ''http'', ''gopher'', ''nntp'', ''imap'', ''wais'', ''file'', ''https'', ''shttp'',
     ''mms'', ''prospero'', ''rtsp'', ''rtsps'', ''rtspu'', ''sftp'', ''svn'', ''svn+ssh'', ''ws'', ''wss'']"

definition netloc_schemes :: "string list" where
  "netloc_schemes = [[], ''ftp'', ''http'', ''gopher'', ''nntp'', ''telnet'', ''imap'', ''wais'', ''file'', ''mms'',
     ''https'', ''shttp'', ''snews'', ''prospero'', ''rtsp'', ''rtsps'', ''rtspu'', ''rsync'', ''svn'', ''svn+ssh'',
     ''sftp'', ''nfs'', ''git'', ''git+ssh'', ''ws'', ''wss'', ''itms-services'']"

definition scheme_uses :: "str \<Rightarrow> string list \<Rightarrow> bool" where
  "scheme_uses scheme names \<longleftrightarrow> scheme \<in> lit ` set names"

definition with_params :: "str \<Rightarrow> str \<Rightarrow> str" where
  "with_params path params = (if params = [] then path else path @ lit '';'' @ params)"

definition url_unsplit :: "url_parts \<Rightarrow> str" where
  "url_unsplit p =
     (let path = up_path p;
          url = (if up_netloc p \<noteq> [] then
                   lit ''//'' @ up_netloc p @ (if path \<noteq> [] \<and> hd path \<noteq> 47 then 47 # path else path)
                 else if starts_with path (lit ''//'') then lit ''//'' @ path
                 else if up_scheme p \<noteq> [] \<and> scheme_uses (up_scheme p) netloc_schemes
                         \<and> (path = [] \<or> hd path = 47) then lit ''//'' @ path
                 else path)
      in (if up_scheme p \<noteq> [] then up_scheme p @ 58 # url else url)
         @ (if up_query p \<noteq> [] then 63 # up_query p else [])
         @ (if up_fragment p \<noteq> [] then 35 # up_fragment p else []))"

text \<open>The segments of a path without \<open>.\<close> and with \<open>..\<close> taken back; the result is built in reverse.\<close>

fun resolve_dots :: "str list \<Rightarrow> str list \<Rightarrow> str list" where
  "resolve_dots acc [] = rev acc"
| "resolve_dots acc (seg # segs) =
     (if seg = lit ''..'' then resolve_dots (tl acc) segs
      else if seg = lit ''.'' then resolve_dots acc segs
      else resolve_dots (seg # acc) segs)"

definition joined_segments :: "str \<Rightarrow> str \<Rightarrow> str list" where
  "joined_segments base_path path =
     (let parts = split_on 47 base_path;
          base = (if last parts \<noteq> [] then butlast parts else parts);
          segs = base @ split_on 47 path
      in if starts_with path (lit ''/'') then split_on 47 path
         else if length segs < 2 then segs
         else hd segs # filter (\<lambda>s. s \<noteq> []) (butlast (tl segs)) @ [last segs])"

definition resolved_path :: "str list \<Rightarrow> str" where
  "resolved_path segs =
     (let resolved = resolve_dots [] segs
            @ (if last segs \<in> {lit ''.'', lit ''..''} then [[]] else []);
          path = join (lit ''/'') resolved
      in if path = [] then lit ''/'' else path)"

definition urljoin :: "(str \<Rightarrow> bool) \<Rightarrow> str \<Rightarrow> str \<Rightarrow> str option" where
  "urljoin brackets_ok base url =
     (if base = [] then Some url else if url = [] then Some base
      else case url_split brackets_ok [] base of
          None \<Rightarrow> None
        | Some b \<Rightarrow>
            (case url_split brackets_ok (up_scheme b) url of
               None \<Rightarrow> None
             | Some u \<Rightarrow>
                 let (bpath, bparams) = split_params (up_scheme b) (up_path b);
                     (path, params) = split_params (up_scheme u) (up_path u);
                     netloc = (if scheme_uses (up_scheme u) netloc_schemes then up_netloc b else up_netloc u)
                 in if up_scheme u \<noteq> up_scheme b \<or> \<not> scheme_uses (up_scheme u) relative_schemes then Some url
                    else if scheme_uses (up_scheme u) netloc_schemes \<and> up_netloc u \<noteq> [] then
                      Some (url_unsplit (u\<lparr>up_path := with_params path params\<rparr>))
                    else if path = [] \<and> params = [] then
                      Some (url_unsplit (u\<lparr>up_netloc := netloc, up_path := with_params bpath bparams,
                        up_query := (if up_query u = [] then up_query b else up_query u)\<rparr>))
                    else Some (url_unsplit (u\<lparr>up_netloc := netloc,
                      up_path := with_params (resolved_path (joined_segments bpath path)) params\<rparr>))))"

end
