(* ===== verification/JobText.thy ===== *)
theory JobText
  imports StepInputs SkillTexts WebUrl
begin

section \<open>What the job skills read out of a text\<close>

text \<open>
  The dates of the standard library and the regular expressions that
  \<open>skill/job_matching/runtime/job_matching.py\<close> reads dates and numbers with. \<open>lower\<close> is
  the one of the prelude: it lowers the ASCII letters only. A regular expression is a function from
  the text at a position to what it matches there; none of them can match more by giving back a
  character to an earlier part, so no backtracking is modelled.
\<close>

subsection \<open>Dates\<close>

text \<open>A date is its proleptic ordinal, as \<open>date.toordinal\<close>: January 1 of the year 1 is 1.\<close>

definition leap_year :: "int \<Rightarrow> bool" where
  "leap_year y \<longleftrightarrow> y mod 4 = 0 \<and> (y mod 100 \<noteq> 0 \<or> y mod 400 = 0)"

definition days_in_month :: "int \<Rightarrow> int \<Rightarrow> int" where
  "days_in_month y m =
     (if m = 2 then (if leap_year y then 29 else 28) else if m \<in> {4, 6, 9, 11} then 30 else 31)"

definition days_before_year :: "int \<Rightarrow> int" where
  "days_before_year y = (y - 1) * 365 + (y - 1) div 4 - (y - 1) div 100 + (y - 1) div 400"

definition days_before_month :: "int \<Rightarrow> int \<Rightarrow> int" where
  "days_before_month y m = sum_list (map (days_in_month y) [1..m - 1])"

definition max_ordinal :: int where
  "max_ordinal = 3652059"

text \<open>\<open>date(y, m, d)\<close>; \<open>None\<close>: a \<open>ValueError\<close>.\<close>

definition make_date :: "int \<Rightarrow> int \<Rightarrow> int \<Rightarrow> int option" where
  "make_date y m d =
     (if 1 \<le> y \<and> y \<le> 9999 \<and> 1 \<le> m \<and> m \<le> 12 \<and> 1 \<le> d \<and> d \<le> days_in_month y m
      then Some (days_before_year y + days_before_month y m + d) else None)"

text \<open>
  \<open>datetime.fromtimestamp(seconds, tz=timezone.utc).date()\<close> of whole seconds. A fraction of
  a second is cut to the second below, and not rounded to the microsecond. A value above ten milliards counts
  milliseconds.
\<close>

definition epoch_ordinal :: int where
  "epoch_ordinal = 719163"

definition timestamp_date :: "int \<Rightarrow> int option" where
  "timestamp_date v =
     (let day = epoch_ordinal + (if 10000000000 < v then v div 1000 else v) div 86400
      in if 1 \<le> day \<and> day \<le> max_ordinal then Some day else None)"

text \<open>\<open>float(value)\<close> of an integer raises \<open>OverflowError\<close> from here on, outside the \<open>try\<close>.\<close>

definition float_limit :: int where
  "float_limit = 2 ^ 1024 - 2 ^ 970"

definition has_fraction :: "str \<Rightarrow> bool" where
  "has_fraction r =
     ((case split_on 46 (before 101 r) of [_, f] \<Rightarrow> \<exists>c \<in> set f. c \<noteq> 48 | _ \<Rightarrow> False)
      \<or> contains (lit ''e-'') r)"

definition float_seconds :: "str \<Rightarrow> int" where
  "float_seconds r =
     (let whole = float_int r in
      if \<not> has_fraction r then whole
      else if starts_with r (lit ''-'') then whole - 1
      else if whole = 10000000000 then whole + 1 else whole)"

definition date_of_float :: "str \<Rightarrow> int option" where
  "date_of_float r =
     (if r \<in> {lit ''inf'', lit ''-inf'', lit ''nan''} then None
      else if 101 \<in> set r \<and> \<not> contains (lit ''e-'') r then None
      else timestamp_date (float_seconds r))"

text \<open>\<open>(\d+)\s*(unit)\<close> on the whole text: the days that unit stands for.\<close>

definition relative_days :: "str \<Rightarrow> int option" where
  "relative_days s =
     (let ds = takeWhile is_decimal s; rest = dropWhile is_space (dropWhile is_decimal s)
      in if ds = [] then None else map_option (\<lambda>n. n * decimal_value ds) (map_of ago_units rest))"

text \<open>\<open>(\d{4})[-/.](\d{1,2})[-/.](\d{1,2})\<close> at a position: year, month and day.\<close>

definition date_separator :: "int \<Rightarrow> bool" where
  "date_separator c \<longleftrightarrow> c = 45 \<or> c = 47 \<or> c = 46"

definition digits_upto :: "nat \<Rightarrow> str \<Rightarrow> str" where
  "digits_upto n s = takeWhile is_decimal (take n s)"

definition iso_here :: "str \<Rightarrow> (int \<times> int \<times> int) option" where
  "iso_here s =
     (let y = digits_upto 4 s; s1 = drop 4 s; m = digits_upto 2 (tl s1);
          s2 = drop (length m) (tl s1); d = digits_upto 2 (tl s2)
      in if length y = 4 \<and> s1 \<noteq> [] \<and> date_separator (hd s1) \<and> m \<noteq> []
            \<and> s2 \<noteq> [] \<and> date_separator (hd s2) \<and> d \<noteq> []
         then Some (decimal_value y, decimal_value m, decimal_value d) else None)"

fun iso_search :: "str \<Rightarrow> (int \<times> int \<times> int) option" where
  "iso_search [] = None"
| "iso_search (c # cs) = (case iso_here (c # cs) of None \<Rightarrow> iso_search cs | Some r \<Rightarrow> Some r)"

text \<open>
  \<open>_parse_observed_date\<close>. The outer \<open>None\<close> is an \<open>OverflowError\<close> nobody catches: an
  integer no float holds, or a span of days \<open>timedelta\<close> or \<open>date\<close> cannot represent. The
  inner one is \<open>None\<close>.
\<close>

definition parse_date_text :: "int \<Rightarrow> str \<Rightarrow> int option option" where
  "parse_date_text today cleaned =
     (if cleaned = [] then Some None
      else if cleaned \<in> set today_words then Some (Some today)
      else if cleaned \<in> set yesterday_words then Some (Some (today - 1))
      else case relative_days cleaned of
          Some days \<Rightarrow> if days \<le> 999999999 \<and> 1 \<le> today - days then Some (Some (today - days)) else None
        | None \<Rightarrow>
            (case iso_search cleaned of
               None \<Rightarrow> Some None
             | Some (y, m, d) \<Rightarrow> Some (make_date y m d)))"

fun parse_observed_date :: "int \<Rightarrow> json \<Rightarrow> int option option" where
  "parse_observed_date today (JBool b) = Some (timestamp_date (if b then 1 else 0))"
| "parse_observed_date today (JInt i) =
     (if \<bar>i\<bar> < float_limit then Some (timestamp_date i) else None)"
| "parse_observed_date today (JFloat r) = Some (date_of_float r)"
| "parse_observed_date today (JStr s) = parse_date_text today (strip s)"
| "parse_observed_date today _ = Some None"

subsection \<open>Numbers in a text\<close>

text \<open>\<open>re.findall\<close> of an expression that starts with \<open>(?<!\d)\<close>: \<open>here\<close> gives what it matches at a position and how
  long the match is; the flag tells whether the character before is a digit, the number counts the characters still
  to skip.\<close>

fun scan :: "(str \<Rightarrow> ('a \<times> nat) option) \<Rightarrow> bool \<Rightarrow> nat \<Rightarrow> str \<Rightarrow> 'a list" where
  "scan here digit k [] = []"
| "scan here digit (Suc k) (c # cs) = scan here (is_decimal c) k cs"
| "scan here digit 0 (c # cs) =
     (case (if digit then None else here (c # cs)) of
        None \<Rightarrow> scan here (is_decimal c) 0 cs
      | Some (x, n) \<Rightarrow> x # scan here (is_decimal c) (n - 1) cs)"

text \<open>\<open>(\d+)\s*[-~to]\s*(\d+)\s*year\<close>, the low end of a range of years\<close>

definition range_here :: "str \<Rightarrow> (int \<times> nat) option" where
  "range_here s =
     (let low = takeWhile is_decimal s; s1 = dropWhile is_space (dropWhile is_decimal s);
          s2 = dropWhile is_space (tl s1); high = takeWhile is_decimal s2;
          s3 = dropWhile is_space (dropWhile is_decimal s2)
      in if low \<noteq> [] \<and> s1 \<noteq> [] \<and> hd s1 \<in> {45, 126} \<union> set zh_to \<and> high \<noteq> [] \<and> starts_with s3 zh_year
         then Some (decimal_value low, length s - length s3 + 1) else None)"

text \<open>\<open>(\d+)\s*years or more\<close>\<close>

definition minimum_here :: "str \<Rightarrow> (int \<times> nat) option" where
  "minimum_here s =
     (let low = takeWhile is_decimal s; s1 = dropWhile is_space (dropWhile is_decimal s)
      in if low = [] then None
         else map_option (\<lambda>w. (decimal_value low, length s - length s1 + length w))
           (find (starts_with s1) at_least_words))"

definition minimum_years :: "str \<Rightarrow> int list" where
  "minimum_years s = scan range_here False 0 s @ scan minimum_here False 0 s"

text \<open>\<open>_RECENT_DAYS_RE\<close>\<close>

definition recent_here :: "str \<Rightarrow> int option" where
  "recent_here s =
     first_some (\<lambda>w. if \<not> starts_with s w then None
       else let s1 = dropWhile is_space (drop (length w) s); ds = takeWhile is_decimal s1
            in if ds \<noteq> [] \<and> starts_with (dropWhile is_space (dropWhile is_decimal s1)) zh_day
               then Some (decimal_value ds) else None) recent_words"

fun recent_search :: "str \<Rightarrow> int option" where
  "recent_search [] = None"
| "recent_search (c # cs) = (case recent_here (c # cs) of None \<Rightarrow> recent_search cs | Some n \<Rightarrow> Some n)"

text \<open>\<open>_COMPENSATION_RE\<close> on a lowered text. \<open>amount_rest\<close> is the text after one amount: an optional
  currency sign, digits with an optional fraction, and a unit.\<close>

definition currency_rest :: "str \<Rightarrow> str" where
  "currency_rest s =
     (if s \<noteq> [] \<and> hd s \<in> {165, 65509} then tl s
      else if starts_with (lower s) (lit ''rmb'') then drop 3 s else s)"

definition fraction_rest :: "str \<Rightarrow> str" where
  "fraction_rest s =
     (if starts_with s (lit ''.'') \<and> takeWhile is_decimal (tl s) \<noteq> [] then dropWhile is_decimal (tl s) else s)"

definition amount_rest :: "str \<Rightarrow> str option" where
  "amount_rest s =
     (let s1 = dropWhile is_space (currency_rest s);
          s2 = dropWhile is_space (fraction_rest (dropWhile is_decimal s1))
      in if takeWhile is_decimal s1 \<noteq> [] \<and> s2 \<noteq> [] \<and> hd s2 \<in> {75, 107} \<union> set zh_kilo \<union> set zh_wan
         then Some (tl s2) else None)"

definition upper_rest :: "str \<Rightarrow> str" where
  "upper_rest s =
     (let s1 = dropWhile is_space s in
      if s1 \<noteq> [] \<and> hd s1 \<in> {45, 126} \<union> set zh_to then
        (case amount_rest (dropWhile is_space (tl s1)) of None \<Rightarrow> s | Some r \<Rightarrow> r)
      else s)"

definition period_rest :: "str \<Rightarrow> str" where
  "period_rest s =
     (let s1 = dropWhile is_space s; s2 = dropWhile is_space (tl s1) in
      if starts_with s1 (lit ''/'') \<and> s2 \<noteq> [] \<and> hd s2 \<in> set zh_month \<union> set zh_year then tl s2
      else if starts_with s1 zh_monthly_pay \<or> starts_with s1 zh_yearly_pay then drop 2 s1
      else s)"

definition compensation_here :: "str \<Rightarrow> str option" where
  "compensation_here s =
     map_option (\<lambda>r. let rest = period_rest (upper_rest r) in take (length s - length rest) s) (amount_rest s)"

fun compensation_search :: "str \<Rightarrow> str option" where
  "compensation_search [] = None"
| "compensation_search (c # cs) =
     (case compensation_here (c # cs) of None \<Rightarrow> compensation_search cs | Some t \<Rightarrow> Some t)"

end
