(* ===== verification/JobMatching.thy ===== *)
theory JobMatching
  imports JobText DiscoveryPolicy "HOL-Library.Product_Lexorder"
begin

section \<open>Job matching\<close>

text \<open>
  \<open>skill/job_matching/runtime/job_matching.py\<close>, the tool \<open>match-observed-jobs\<close>: the input it
  makes of what a model passed, the constraints a goal puts on a candidate, the score, and the ranked
  report. \<open>today\<close> is the ordinal of the current UTC date. A function that can raise (a
  \<open>ValueError\<close> of \<open>urlparse\<close>, a \<open>TypeError\<close> of a set test on a list or of
  \<open>" ".join\<close>, an \<open>OverflowError\<close> of a date) gives an option, \<open>None\<close> for the
  exception.
\<close>

subsection \<open>Input\<close>

datatype ranking_criterion = SkillsC | LocationC | SalaryC | RecencyC | CompanyTypeC

definition criterion_value :: "ranking_criterion \<Rightarrow> str" where
  "criterion_value c = lit (case c of SkillsC \<Rightarrow> ''skills'' | LocationC \<Rightarrow> ''location''
     | SalaryC \<Rightarrow> ''salary'' | RecencyC \<Rightarrow> ''recency'' | CompanyTypeC \<Rightarrow> ''company_type'')"

definition criteria :: "ranking_criterion list" where
  "criteria = [SkillsC, LocationC, SalaryC, RecencyC, CompanyTypeC]"

record match_input =
  mi_keywords :: "str list"
  mi_locations :: "str list"
  mi_criteria :: "ranking_criterion list"
  mi_limit :: nat
  mi_warnings :: "str list"

text \<open>The aliases of a field, in the order they are looked up.\<close>

definition input_aliases :: "(string \<times> string list) list" where
  "input_aliases =
     [(''profile_keywords'', [''keywords'', ''profileKeywords'', ''skills'']),
      (''preferred_locations'', [''locations'', ''preferredLocations'', ''cities'']),
      (''ranking_criteria'', [''criteria'', ''rankingCriteria'', ''sort_by''])]"

text \<open>The dictionary and the warnings so far.\<close>

type_synonym shaping = "dict \<times> str list"

definition take_alias :: "string \<times> string list \<Rightarrow> shaping \<Rightarrow> shaping" where
  "take_alias entry acc =
     (let (key, names) = entry; (values, warnings) = acc in
      if dhas values (lit key) then acc
      else case find (\<lambda>name. dhas values (lit name)) names of
          None \<Rightarrow> acc
        | Some name \<Rightarrow> (dput (lit key) (dget values (lit name)) values,
            warnings @ [lit name @ lit '' normalized to '' @ lit key]))"

text \<open>A run of separators is one separator, and empty parts are dropped, so splitting at each of them is the same.\<close>

definition keyword_separator :: "int \<Rightarrow> bool" where
  "keyword_separator c \<longleftrightarrow> c \<in> {65292, 44, 59, 65307, 12289, 10}"

definition split_keywords :: "str \<Rightarrow> str list" where
  "split_keywords s =
     filter (\<lambda>p. p \<noteq> []) (split_on 44 (map (\<lambda>c. if keyword_separator c then 44 else c) s))"

definition split_stripped :: "str \<Rightarrow> str list" where
  "split_stripped s = filter (\<lambda>p. p \<noteq> []) (map strip (split_keywords s))"

definition coerced_text :: "string \<Rightarrow> str list \<Rightarrow> string \<Rightarrow> str" where
  "coerced_text key parts noun =
     lit key @ lit '' coerced from string to '' @ str_of_int (int (length parts)) @ lit noun"

definition take_string :: "string \<Rightarrow> (str \<Rightarrow> str list) \<Rightarrow> string \<Rightarrow> shaping \<Rightarrow> shaping" where
  "take_string key split noun acc =
     (let (values, warnings) = acc in
      case dget values (lit key) of
        JStr s \<Rightarrow> (dput (lit key) (strs (split s)) values, warnings @ [coerced_text key (split s) noun])
      | _ \<Rightarrow> acc)"

definition alias_criterion :: "json \<Rightarrow> str option" where
  "alias_criterion raw =
     (case raw of
        JStr s \<Rightarrow> map_option lit (map_of ranking_criteria_aliases (lower (strip s)))
      | _ \<Rightarrow> None)"

definition normalized_criterion :: "json \<Rightarrow> json" where
  "normalized_criterion raw = (case alias_criterion raw of None \<Rightarrow> raw | Some c \<Rightarrow> JStr c)"

definition criterion_warning :: "json \<Rightarrow> str option" where
  "criterion_warning raw =
     (case alias_criterion raw of
        None \<Rightarrow> None
      | Some c \<Rightarrow> if JStr c = raw then None
          else Some (lit ''ranking_criteria '' @ py_repr raw @ lit '' normalized to '' @ repr_str c))"

definition take_criteria :: "shaping \<Rightarrow> shaping" where
  "take_criteria acc =
     (let (values, warnings) = acc in
      case dget values (lit ''ranking_criteria'') of
        JArr xs \<Rightarrow> (dput (lit ''ranking_criteria'') (JArr (map normalized_criterion xs)) values,
          warnings @ List.map_filter criterion_warning xs)
      | _ \<Rightarrow> acc)"

definition take_limit :: "shaping \<Rightarrow> shaping" where
  "take_limit acc =
     (let (values, warnings) = acc in
      (dput (lit ''limit'') (JInt 100) values,
       if dget values (lit ''limit'') \<in> {JNull, JInt 100, JFloat (lit ''100.0'')} then warnings
       else warnings @ [lit ''limit normalized to fixed business limit 100'']))"

definition take_warnings :: "shaping \<Rightarrow> dict" where
  "take_warnings acc =
     (let (values, warnings) = acc in
      if warnings = [] then values
      else dput (lit ''normalization_warnings'')
        (JArr ((case dget values (lit ''normalization_warnings'') of JArr xs \<Rightarrow> xs | _ \<Rightarrow> [])
          @ map JStr warnings)) values)"

definition tolerate_model_facing_shapes :: "dict \<Rightarrow> dict" where
  "tolerate_model_facing_shapes values =
     (let aliased = fold take_alias input_aliases (values, []);
          worded = take_string ''profile_keywords'' split_keywords '' keyword(s)'' aliased;
          placed = take_string ''preferred_locations'' split_stripped '' location(s)'' worded;
          ranked = take_string ''ranking_criteria'' split_stripped '' criterion/criteria'' placed
      in take_warnings (take_limit (take_criteria ranked)))"

text \<open>A field that is a list of strings, with a default when the key is missing.\<close>

definition parse_strs :: "dict \<Rightarrow> string \<Rightarrow> str list option" where
  "parse_strs d key =
     (if \<not> dhas d (lit key) then Some []
      else case dget d (lit key) of
          JArr xs \<Rightarrow> if \<forall>x \<in> set xs. is_str x then Some (map the_str xs) else None
        | _ \<Rightarrow> None)"

definition parse_criterion :: "json \<Rightarrow> ranking_criterion option" where
  "parse_criterion v = find (\<lambda>c. JStr (criterion_value c) = v) criteria"

definition parse_criteria :: "dict \<Rightarrow> ranking_criterion list option" where
  "parse_criteria d =
     (if \<not> dhas d (lit ''ranking_criteria'') then Some [SkillsC]
      else case dget d (lit ''ranking_criteria'') of
          JArr xs \<Rightarrow> map_option dedup (parse_all parse_criterion xs)
        | _ \<Rightarrow> None)"

definition normalize_keywords :: "str list \<Rightarrow> str list" where
  "normalize_keywords vs = dedup (map (lower \<circ> strip) (filter (\<lambda>v. strip v \<noteq> []) vs))"

definition normalize_locations :: "str list \<Rightarrow> str list" where
  "normalize_locations vs = dedup (map strip (filter (\<lambda>v. strip v \<noteq> []) vs))"

text \<open>\<open>MatchObservedJobsInput.model_validate\<close>; \<open>None\<close> is a \<open>ValidationError\<close>.\<close>

definition validate_match_input :: "dict \<Rightarrow> match_input option" where
  "validate_match_input d =
     (case (parse_strs d ''profile_keywords'', parse_strs d ''preferred_locations'', parse_criteria d,
            parse_strs d ''normalization_warnings'') of
        (Some ks, Some ls, Some cs, Some ws) \<Rightarrow>
          if length ks \<le> 30 \<and> length ls \<le> 20
          then Some \<lparr>mi_keywords = normalize_keywords ks, mi_locations = normalize_locations ls,
            mi_criteria = cs, mi_limit = 100, mi_warnings = ws\<rparr>
          else None
      | _ \<Rightarrow> None)"

definition parse_match_input :: "json \<Rightarrow> match_input option" where
  "parse_match_input v =
     (case v of JObj d \<Rightarrow> validate_match_input (tolerate_model_facing_shapes d) | _ \<Rightarrow> None)"

subsection \<open>What the goal asks of a role\<close>

definition any_in :: "str list \<Rightarrow> str \<Rightarrow> bool" where
  "any_in markers text \<longleftrightarrow> (\<exists>m \<in> set markers. contains m text)"

text \<open>The two spellings of a marker with and without a blank: the AI application and the Java back end.\<close>

definition ai_app_markers :: "str list" where
  "ai_app_markers = [lit ''ai '' @ zh_app_dev, lit ''ai'' @ zh_app_dev]"

definition java_markers :: "str list" where
  "java_markers = [lit ''java '' @ zh_backend, lit ''java'' @ zh_backend]"

definition constraint_role_terms :: "str \<Rightarrow> str list" where
  "constraint_role_terms goal =
     (let g = lower goal in
      if contains zh_pm g \<or> contains (lit ''aigc'') g then
        (if contains zh_pm g then [zh_pm] else [])
        @ (if contains (lit ''aigc'') g then [lit ''aigc''] else [])
      else if any_in ai_app_markers g then ai_app_terms
      else if any_in llm_app_markers g then llm_app_terms
      else if contains zh_frontend_dev g then frontend_terms
      else if any_in java_markers g then java_terms
      else [])"

definition profile_role_terms :: "json \<Rightarrow> str list" where
  "profile_role_terms facts =
     (case facts of
        JObj d \<Rightarrow>
          (let text = lower (join [10] (map (\<lambda>(k, v). py_str v)
                 (filter (\<lambda>(k, v). contains (lit ''name'') (lower k)) d)))
           in if contains (lit ''aigc'') text \<or> contains zh_pm text then product_terms
              else if contains zh_llm text \<or> contains (lit ''llm'') text \<or> contains (lit ''agent'') text
                then llm_app_terms
              else if contains zh_frontend text \<or> contains (lit ''frontend'') text then frontend_terms
              else if contains (lit ''java'') text \<and> contains zh_backend text then java_terms
              else [])
      | _ \<Rightarrow> [])"

definition role_constraint_satisfied :: "str list \<Rightarrow> str \<Rightarrow> str list \<Rightarrow> bool" where
  "role_constraint_satisfied goal_terms searchable profile_terms \<longleftrightarrow>
     (if zh_pm \<in> set goal_terms then
        contains zh_pm searchable
        \<and> (lit ''aigc'' \<in> set goal_terms \<or> lit ''aigc'' \<in> set profile_terms
             \<longrightarrow> any_in aigc_evidence_markers searchable)
      else if lit ''java'' \<in> set goal_terms \<and> zh_backend \<in> set goal_terms then
        contains (lit ''java'') searchable \<and> contains zh_backend searchable
      else if lit ''ai'' \<in> set goal_terms \<and> zh_app_dev \<in> set goal_terms then
        any_in ai_evidence_markers searchable \<and> any_in app_dev_evidence_markers searchable
      else \<exists>t \<in> set goal_terms. contains (lower t) searchable)"

subsection \<open>The constraints on a candidate\<close>

definition str_fields :: "dict \<Rightarrow> string list \<Rightarrow> str list" where
  "str_fields c keys = map the_str (filter is_str (map (\<lambda>k. dget c (lit k)) keys))"

definition str_items :: "json \<Rightarrow> str list" where
  "str_items v = (case v of JArr xs \<Rightarrow> map the_str (filter is_str xs) | _ \<Rightarrow> [])"

definition candidate_searchable_text :: "dict \<Rightarrow> str" where
  "candidate_searchable_text c =
     lower (join [10] (str_fields c [''title'', ''company_name'', ''responsibilities'', ''requirements'',
         ''full_text'', ''deadline_text'']
       @ concat (map (\<lambda>k. str_items (dget c (lit k))) [''locations'', ''recruitment_types'', ''skills''])))"

definition requires_graduate_scope :: "str \<Rightarrow> json \<Rightarrow> bool" where
  "requires_graduate_scope goal facts \<longleftrightarrow>
     any_in graduate_goal_markers
       (case facts of
          JObj d \<Rightarrow> lower goal @ [10] @ join [10] (map (\<lambda>(k, v). lower (py_str v)) d)
        | _ \<Rightarrow> lower goal)"

definition requested_recent_days :: "json \<Rightarrow> int option" where
  "requested_recent_days goal = (case goal of JStr g \<Rightarrow> recent_search g | _ \<Rightarrow> None)"

definition candidate_timestamp :: "dict \<Rightarrow> json" where
  "candidate_timestamp c =
     (case find (\<lambda>v. v \<notin> {JNull, JStr []}) (map (\<lambda>k. dget c (lit k))
         [''updated_at'', ''published_at'', ''posted_at'', ''publish_time'', ''update_time'']) of
        None \<Rightarrow> JNull | Some v \<Rightarrow> v)"

definition candidate_recency_verified :: "int \<Rightarrow> dict \<Rightarrow> json \<Rightarrow> bool option" where
  "candidate_recency_verified today c goal =
     map_option (\<lambda>observed.
       case (observed, requested_recent_days goal) of
         (None, _) \<Rightarrow> False
       | (Some day, None) \<Rightarrow> True
       | (Some day, Some n) \<Rightarrow> 0 \<le> today - day \<and> today - day \<le> n)
     (parse_observed_date today (candidate_timestamp c))"

definition invalid_title :: "dict \<Rightarrow> bool" where
  "invalid_title c \<longleftrightarrow> any_in invalid_title_markers (strip (the_str (dget c (lit ''title''))))"

definition wrong_role :: "str \<Rightarrow> json \<Rightarrow> str \<Rightarrow> bool" where
  "wrong_role goal facts searchable \<longleftrightarrow>
     constraint_role_terms goal \<noteq> []
     \<and> \<not> role_constraint_satisfied (constraint_role_terms goal) searchable (profile_role_terms facts)"

definition wrong_city :: "str \<Rightarrow> str \<Rightarrow> bool" where
  "wrong_city goal searchable \<longleftrightarrow>
     (let asked = filter (\<lambda>t. contains t goal) goal_location_terms
      in asked \<noteq> [] \<and> \<not> any_in (map lower asked) searchable)"

definition not_for_graduates :: "str \<Rightarrow> json \<Rightarrow> dict \<Rightarrow> str \<Rightarrow> bool" where
  "not_for_graduates goal facts c searchable \<longleftrightarrow>
     requires_graduate_scope goal facts
     \<and> \<not> any_in graduate_scope_markers
           (searchable @ [10] @ lower (join (lit '' '') (str_items (dget c (lit ''recruitment_types'')))))"

text \<open>\<open>int(match.group(1))\<close> of the years of experience the goal states\<close>

definition target_years :: "str \<Rightarrow> int option" where
  "target_years goal = map_option decimal_value (experience_years goal)"

definition enough_experience :: "str \<Rightarrow> str \<Rightarrow> bool" where
  "enough_experience goal searchable \<longleftrightarrow>
     (case target_years goal of
        None \<Rightarrow> True
      | Some target \<Rightarrow> \<forall>low \<in> set (minimum_years searchable). low \<le> target)"

definition candidate_meets_goal_constraints :: "int \<Rightarrow> dict \<Rightarrow> json \<Rightarrow> json \<Rightarrow> bool option" where
  "candidate_meets_goal_constraints today c goal facts =
     (if \<not> is_str goal \<or> strip (the_str goal) = [] then Some True
      else
        let g = the_str goal; searchable = candidate_searchable_text c in
        if invalid_title c \<or> wrong_role g facts searchable \<or> wrong_city g searchable
           \<or> not_for_graduates g facts c searchable then Some False
        else if requested_recent_days goal = None then Some (enough_experience g searchable)
        else map_option (\<lambda>recent. recent \<and> enough_experience g searchable)
               (candidate_recency_verified today c goal))"

subsection \<open>The source of a candidate\<close>

definition liepin_source :: "str \<Rightarrow> str \<Rightarrow> str \<Rightarrow> bool" where
  "liepin_source host path evidence \<longleftrightarrow>
     on_domain host ''liepin.com''
     \<or> on_domain host ''linkedin.com'' \<and> starts_with path (lit ''/jobs/view/'')
       \<and> contains zh_liepin_origin evidence"

definition channel_hosts :: "string list" where
  "channel_hosts = [''iguopin.com'', ''10086.cn'', ''10010.com'', ''chinaunicom.com'', ''chinaunicom.cn'']"

definition source_allowed :: "str \<Rightarrow> str \<Rightarrow> str \<Rightarrow> str \<Rightarrow> bool" where
  "source_allowed goal host path evidence \<longleftrightarrow>
     (if contains zh_liepin goal then liepin_source host path evidence
      else any_in channel_markers (lower goal) \<longrightarrow> (\<exists>d \<in> set channel_hosts. on_domain host d))"

definition source_allowed_for_goal :: "(str \<Rightarrow> bool) \<Rightarrow> json \<Rightarrow> json \<Rightarrow> str \<Rightarrow> bool option" where
  "source_allowed_for_goal brackets url goal evidence =
     (if \<not> nonempty_str url then Some False
      else if \<not> is_str goal \<or> strip (the_str goal) = [] then Some True
      else case (url_host brackets (the_str url), url_path brackets (the_str url)) of
          (Some host, Some path) \<Rightarrow> Some (source_allowed (the_str goal) host (lower path) evidence)
        | _ \<Rightarrow> None)"

text \<open>The career page of one company that lists several jobs on one URL\<close>

definition multi_role_hosts :: "string list" where
  "multi_role_hosts = [''baiontcapital.com'', ''www.baiontcapital.com'', ''baiont.ai'', ''www.baiont.ai'']"

definition is_known_official_multi_role_page :: "(str \<Rightarrow> bool) \<Rightarrow> str \<Rightarrow> bool option" where
  "is_known_official_multi_role_page brackets url =
     (case (url_host brackets url, url_path brackets url) of
        (Some host, Some path) \<Rightarrow>
          Some (host \<in> lit ` set multi_role_hosts
            \<and> ends_with (lower (rstrip_char 47 path)) (lit ''/careers.html''))
      | _ \<Rightarrow> None)"

text \<open>\<open>isinstance(page, str) and page.strip()\<close>, and the title is not in it\<close>

definition title_missing :: "json \<Rightarrow> json \<Rightarrow> bool" where
  "title_missing title page \<longleftrightarrow>
     is_str title \<and> is_str page \<and> strip (the_str page) \<noteq> []
     \<and> \<not> contains (lower (strip (the_str title))) (lower (the_str page))"

definition is_primary_detail_candidate :: "(str \<Rightarrow> bool) \<Rightarrow> dict \<Rightarrow> bool option" where
  "is_primary_detail_candidate brackets c =
     (let url = dget c (lit ''source_url''); page = dget c (lit ''page_source_url'');
          title = dget c (lit ''title''); same = is_str url \<and> is_str page \<and> url = page;
          rest = Some (\<not> title_missing title (dget c (lit ''page_title''))
            \<and> \<not> title_missing title (dget c (lit ''page_text_prefix''))
            \<and> \<not> (is_str url \<and> is_str page \<and> url \<noteq> page)
            \<and> ends_with (the_str (dget c (lit ''candidate_id''))) (lit '':candidate:0''))
      in if dget c (lit ''source_quality'') \<noteq> JStr (lit ''jd_complete'')
            \<or> \<not> is_str (dget c (lit ''candidate_id'')) then Some True
         else if same then
           (case is_known_official_multi_role_page brackets (the_str page) of
              None \<Rightarrow> None | Some True \<Rightarrow> Some True | Some False \<Rightarrow> rest)
         else rest)"

subsection \<open>The score of a job\<close>

record job_match =
  jm_artifact :: str
  jm_candidate :: "str option"
  jm_source :: "str option"
  jm_url :: str
  jm_title :: "str option"
  jm_score :: int
  jm_keywords :: "str list"
  jm_locations :: "str list"
  jm_compensation :: "str option"
  jm_company_types :: "str list"
  jm_unverified :: "ranking_criterion list"
  jm_excerpt :: str

definition title_or_empty :: "str option \<Rightarrow> str" where
  "title_or_empty t = (case t of None \<Rightarrow> [] | Some s \<Rightarrow> s)"

text \<open>The parts of a job unit that do not depend on the payload: the arguments of \<open>_score_job\<close>.\<close>

record job_unit =
  ju_artifact :: str
  ju_candidate :: "str option"
  ju_source :: "str option"
  ju_url :: str
  ju_title :: "str option"
  ju_searchable :: str
  ju_excerpt :: str
  ju_recent :: bool

definition goal_role_terms :: "json \<Rightarrow> str list" where
  "goal_role_terms goal =
     (case goal of
        JStr g \<Rightarrow> filter (\<lambda>t. contains (lower t) (lower g)) goal_role_term_list
      | _ \<Rightarrow> [])"

definition unverified_criterion :: "str list \<Rightarrow> str option \<Rightarrow> str list \<Rightarrow> bool \<Rightarrow> ranking_criterion \<Rightarrow> bool" where
  "unverified_criterion locations compensation types recent c =
     (case c of LocationC \<Rightarrow> locations = [] | SalaryC \<Rightarrow> compensation = None | CompanyTypeC \<Rightarrow> types = []
      | RecencyC \<Rightarrow> \<not> recent | SkillsC \<Rightarrow> False)"

definition score_job :: "match_input \<Rightarrow> str list \<Rightarrow> job_unit \<Rightarrow> job_match" where
  "score_job payload wanted u =
     (let text = ju_searchable u;
          matched = filter (\<lambda>k. contains k text) (mi_keywords payload);
          locations = filter (\<lambda>l. contains (lower l) text) (mi_locations payload);
          compensation = map_option strip (compensation_search text);
          types = filter (\<lambda>l. contains l text) company_type_labels;
          hits = length (filter (\<lambda>t. contains (lower t) text) wanted)
      in \<lparr>jm_artifact = ju_artifact u, jm_candidate = ju_candidate u, jm_source = ju_source u,
          jm_url = ju_url u, jm_title = ju_title u,
          jm_score = min 100 (int (length matched) * 34 + int hits * 15),
          jm_keywords = matched, jm_locations = locations, jm_compensation = compensation,
          jm_company_types = types,
          jm_unverified = filter (unverified_criterion locations compensation types (ju_recent u))
            (mi_criteria payload),
          jm_excerpt = take 500 (ju_excerpt u)\<rparr>)"

definition str_option :: "json \<Rightarrow> str option" where
  "str_option v = (case v of JStr s \<Rightarrow> Some s | _ \<Rightarrow> None)"

text \<open>\<open>v in {...}\<close> on a set of strings: a list or a dictionary cannot be looked up.\<close>

definition in_set :: "json \<Rightarrow> string list \<Rightarrow> bool option" where
  "in_set v names = (case v of JArr _ \<Rightarrow> None | JObj _ \<Rightarrow> None | _ \<Rightarrow> Some (json_in v names))"

definition routing_qualities :: "string list" where
  "routing_qualities = [''list_only'', ''js_shell'', ''empty'']"

text \<open>\<open>" ".join(locations)\<close>; an element that is not a string is a \<open>TypeError\<close>.\<close>

definition joined_locations :: "json \<Rightarrow> str option" where
  "joined_locations v =
     (case v of
        JArr xs \<Rightarrow> if \<forall>x \<in> set xs. is_str x then Some (join (lit '' '') (map the_str xs)) else None
      | _ \<Rightarrow> Some [])"

definition section_text :: "dict \<Rightarrow> str" where
  "section_text c = join [10] (filter (\<lambda>s. s \<noteq> []) (str_fields c [''responsibilities'', ''requirements'']))"

text \<open>The unit of a structured candidate, given its locations and whether its date was verified.\<close>

definition candidate_unit :: "dict \<Rightarrow> str \<Rightarrow> bool \<Rightarrow> job_unit" where
  "candidate_unit c places recent =
     (let title = str_option (dget c (lit ''title''));
          searchable = lower (join [10] (filter (\<lambda>s. s \<noteq> [])
            [title_or_empty title, places, the_str (dget c (lit ''company_name'')), section_text c]))
      in \<lparr>ju_artifact = the_str (dget c (lit ''artifact_id'')),
          ju_candidate = str_option (dget c (lit ''candidate_id'')),
          ju_source = str_option (dget c (lit ''source_artifact_id'')),
          ju_url = the_str (dget c (lit ''source_url'')), ju_title = title, ju_searchable = searchable,
          ju_excerpt = (if section_text c \<noteq> [] then section_text c else title_or_empty title),
          ju_recent = recent\<rparr>)"

text \<open>\<open>_match_candidate\<close>: the outer option is the exception, the inner one the candidate that is not scored.\<close>

definition match_candidate :: "int \<Rightarrow> match_input \<Rightarrow> str list \<Rightarrow> dict \<Rightarrow> job_match option option" where
  "match_candidate today payload wanted c =
     (case in_set (dget c (lit ''source_quality'')) routing_qualities of
        None \<Rightarrow> None
      | Some True \<Rightarrow> Some None
      | Some False \<Rightarrow>
          if \<not> nonempty_str (dget c (lit ''artifact_id'')) \<or> \<not> nonempty_str (dget c (lit ''source_url''))
          then Some None
          else case (joined_locations (dget c (lit ''locations'')), candidate_recency_verified today c JNull) of
              (Some places, Some recent) \<Rightarrow>
                Some (Some (score_job payload wanted (candidate_unit c places recent)))
            | _ \<Rightarrow> None)"

subsection \<open>Page evidence\<close>

text \<open>The items of a list of page evidence that are read at all.\<close>

definition evidence_unit :: "dict \<Rightarrow> bool \<Rightarrow> job_unit" where
  "evidence_unit e recent =
     (let title = str_option (dget e (lit ''title'')); text = the_str (dget e (lit ''visible_text''))
      in \<lparr>ju_artifact = the_str (dget e (lit ''artifact_id'')), ju_candidate = None, ju_source = None,
          ju_url = the_str (dget e (lit ''source_url'')), ju_title = title,
          ju_searchable = lower (title_or_empty title @ [10] @ text), ju_excerpt = text, ju_recent = recent\<rparr>)"

definition match_evidence ::
  "(str \<Rightarrow> bool) \<Rightarrow> int \<Rightarrow> json \<Rightarrow> match_input \<Rightarrow> str list \<Rightarrow> dict \<Rightarrow> job_match option option" where
  "match_evidence brackets today goal payload wanted e =
     (case in_set (dget e (lit ''quality'')) routing_qualities of
        None \<Rightarrow> None
      | Some True \<Rightarrow> Some None
      | Some False \<Rightarrow>
          if \<not> (nonempty_str (dget e (lit ''artifact_id'')) \<and> nonempty_str (dget e (lit ''source_url''))
                \<and> nonempty_str (dget e (lit ''visible_text''))) then Some None
          else case source_allowed_for_goal brackets (dget e (lit ''source_url'')) goal
                      (the_str (dget e (lit ''visible_text''))) of
              None \<Rightarrow> None
            | Some False \<Rightarrow> Some None
            | Some True \<Rightarrow> map_option (\<lambda>recent. Some (score_job payload wanted (evidence_unit e recent)))
                (candidate_recency_verified today e goal))"

text \<open>A loop that keeps what its body gives, and ends with the first exception.\<close>

fun keep_matches :: "('a \<Rightarrow> 'b option option) \<Rightarrow> 'a list \<Rightarrow> 'b list option" where
  "keep_matches f [] = Some []"
| "keep_matches f (x # xs) =
     (case f x of
        None \<Rightarrow> None
      | Some None \<Rightarrow> keep_matches f xs
      | Some (Some y) \<Rightarrow> map_option (\<lambda>ys. y # ys) (keep_matches f xs))"

text \<open>The elements of a list that pass a test that can raise\<close>

definition keep_if_true :: "('a \<Rightarrow> bool option) \<Rightarrow> 'a list \<Rightarrow> 'a list option" where
  "keep_if_true p = keep_matches (\<lambda>x. map_option (\<lambda>b. if b then Some x else None) (p x))"

subsection \<open>The report\<close>

record match_context =
  mc_candidates :: json
  mc_evidence :: json
  mc_goal :: json
  mc_facts :: json

definition match_context_of :: "dict \<Rightarrow> match_context" where
  "match_context_of meta =
     \<lparr>mc_candidates = dget meta (lit ''structured_job_candidates''),
      mc_evidence = dget meta (lit ''observed_public_evidence''),
      mc_goal = dget meta (lit ''task_goal''),
      mc_facts = dget meta profile_facts_key\<rparr>"

record match_output =
  mo_matches :: "job_match list"
  mo_unresolved :: "ranking_criterion list"
  mo_count :: nat
  mo_urls :: "str list"
  mo_no_match :: bool

definition candidate_evidence_text :: "dict \<Rightarrow> str" where
  "candidate_evidence_text c = join [10] (str_fields c [''page_text_prefix'', ''full_text''])"

text \<open>One turn of the loop over the structured candidates\<close>

definition judge_candidate ::
  "(str \<Rightarrow> bool) \<Rightarrow> int \<Rightarrow> match_context \<Rightarrow> match_input \<Rightarrow> dict \<Rightarrow> job_match option option" where
  "judge_candidate brackets today ctx payload c =
     (case candidate_meets_goal_constraints today c (mc_goal ctx) (mc_facts ctx) of
        None \<Rightarrow> None
      | Some False \<Rightarrow> Some None
      | Some True \<Rightarrow>
          (case source_allowed_for_goal brackets (dget c (lit ''source_url'')) (mc_goal ctx)
                  (candidate_evidence_text c) of
             None \<Rightarrow> None
           | Some False \<Rightarrow> Some None
           | Some True \<Rightarrow> match_candidate today payload (goal_role_terms (mc_goal ctx)) c))"

definition has_structured_candidates :: "match_context \<Rightarrow> bool" where
  "has_structured_candidates ctx \<longleftrightarrow> (case mc_candidates ctx of JArr xs \<Rightarrow> xs \<noteq> [] | _ \<Rightarrow> False)"

definition list_dicts :: "json \<Rightarrow> dict list" where
  "list_dicts v = (case v of JArr xs \<Rightarrow> dicts_of xs | _ \<Rightarrow> [])"

text \<open>What counts as evaluated among the page evidence\<close>

definition evaluated_evidence :: "dict \<Rightarrow> bool option" where
  "evaluated_evidence e =
     map_option (\<lambda>routing. \<not> routing \<and> nonempty_str (dget e (lit ''source_url''))
       \<and> is_str (dget e (lit ''visible_text'')) \<and> strip (the_str (dget e (lit ''visible_text''))) \<noteq> [])
     (in_set (dget e (lit ''quality'')) routing_qualities)"

text \<open>The matches, and the candidates or pages that were evaluated\<close>

definition gather_matches ::
  "(str \<Rightarrow> bool) \<Rightarrow> int \<Rightarrow> match_context \<Rightarrow> match_input \<Rightarrow> (job_match list \<times> dict list) option" where
  "gather_matches brackets today ctx payload =
     (if has_structured_candidates ctx then
        (case keep_if_true (is_primary_detail_candidate brackets) (list_dicts (mc_candidates ctx)) of
           None \<Rightarrow> None
         | Some evaluated \<Rightarrow>
             map_option (\<lambda>ms. (ms, evaluated)) (keep_matches (judge_candidate brackets today ctx payload) evaluated))
      else
        (case keep_matches (match_evidence brackets today (mc_goal ctx) payload (goal_role_terms (mc_goal ctx)))
                (list_dicts (mc_evidence ctx)) of
           None \<Rightarrow> None
         | Some ms \<Rightarrow> map_option (\<lambda>es. (ms, es)) (keep_if_true evaluated_evidence (list_dicts (mc_evidence ctx)))))"

definition preferred_terms :: "str \<Rightarrow> str list" where
  "preferred_terms g =
     (if contains zh_pm g \<or> contains (lit ''aigc'') g then product_terms
      else if any_in ai_app_markers g then ai_app_terms
      else if any_in llm_app_markers g then llm_app_terms
      else if contains zh_frontend_dev g then frontend_terms
      else if any_in java_markers g then java_terms
      else [])"

definition prefer_goal_role_matches :: "job_match list \<Rightarrow> json \<Rightarrow> job_match list" where
  "prefer_goal_role_matches matches goal =
     (case goal of
        JStr g \<Rightarrow>
          (let terms = preferred_terms (lower g);
               compatible = filter (\<lambda>m. any_in terms
                 (lower (title_or_empty (jm_title m) @ [10] @ jm_excerpt m))) matches
           in if compatible = [] then matches else compatible)
      | _ \<Rightarrow> matches)"

definition rank_key :: "job_match \<Rightarrow> int \<times> str \<times> str" where
  "rank_key m = (- jm_score m, title_or_empty (jm_title m), jm_artifact m)"

definition ranked :: "match_context \<Rightarrow> match_input \<Rightarrow> job_match list \<Rightarrow> job_match list" where
  "ranked ctx payload ms = take (mi_limit payload) (sort_key rank_key (prefer_goal_role_matches ms (mc_goal ctx)))"

definition match_report :: "match_input \<Rightarrow> job_match list \<Rightarrow> dict list \<Rightarrow> match_output" where
  "match_report payload selected evaluated =
     \<lparr>mo_matches = selected,
      mo_unresolved = filter (\<lambda>c. \<exists>m \<in> set selected. c \<in> set (jm_unverified m)) (mi_criteria payload),
      mo_count = length evaluated,
      mo_urls = dedup (map the_str (filter nonempty_str (map (\<lambda>c. dget c (lit ''source_url'')) evaluated))),
      mo_no_match = (evaluated \<noteq> [] \<and> selected = [])\<rparr>"

definition match_observed_jobs ::
  "(str \<Rightarrow> bool) \<Rightarrow> int \<Rightarrow> match_context \<Rightarrow> match_input \<Rightarrow> match_output option" where
  "match_observed_jobs brackets today ctx payload =
     map_option (\<lambda>(ms, evaluated). match_report payload (ranked ctx payload ms) evaluated)
       (gather_matches brackets today ctx payload)"

end
