(* ===== verification/JobMatchingProperties.thy ===== *)
theory JobMatchingProperties
  imports JobMatching
begin

section \<open>What the match report guarantees\<close>

text \<open>
  Every match stands on one observed candidate or page, within the channel and the constraints of the goal;
  the report is bounded, ordered and says when nothing matched; the input is canonical whatever shape it came
  in; and one date out of range makes the whole tool raise.
\<close>

subsection \<open>Loops that can raise\<close>

lemma keep_matches_None: "keep_matches f xs = None \<longleftrightarrow> (\<exists>x \<in> set xs. f x = None)"
  by (induction xs) (auto split: option.splits)

lemma keep_matches_Some:
  "keep_matches f xs = Some ys \<Longrightarrow> y \<in> set ys \<Longrightarrow> \<exists>x \<in> set xs. f x = Some (Some y)"
  by (induction xs arbitrary: ys) (auto split: option.splits)

lemma keep_if_true_Some:
  assumes "keep_if_true p xs = Some ys" and "y \<in> set ys"
  shows "y \<in> set xs \<and> p y = Some True"
  using keep_matches_Some [OF assms(1) [unfolded keep_if_true_def] assms(2)]
  by (auto split: if_splits)

subsection \<open>Where a match comes from\<close>

lemma in_set_False: "in_set v names = Some False \<Longrightarrow> \<not> json_in v names"
  by (cases v) (auto simp: in_set_def)

lemma match_candidate_Some:
  assumes "match_candidate today payload terms c = Some (Some m)"
  obtains places recent where "joined_locations (dget c (lit ''locations'')) = Some places"
    and "candidate_recency_verified today c JNull = Some recent"
    and "m = score_job payload terms (candidate_unit c places recent)"
    and "\<not> json_in (dget c (lit ''source_quality'')) routing_qualities"
    and "nonempty_str (dget c (lit ''artifact_id''))" and "nonempty_str (dget c (lit ''source_url''))"
  using assms unfolding match_candidate_def
  by (auto split: option.splits bool.splits if_splits dest: in_set_False)

lemma match_evidence_Some:
  assumes "match_evidence b today goal payload terms e = Some (Some m)"
  obtains recent where "candidate_recency_verified today e goal = Some recent"
    and "m = score_job payload terms (evidence_unit e recent)"
    and "\<not> json_in (dget e (lit ''quality'')) routing_qualities"
    and "source_allowed_for_goal b (dget e (lit ''source_url'')) goal (the_str (dget e (lit ''visible_text''))) = Some True"
  using assms unfolding match_evidence_def
  by (auto split: option.splits bool.splits if_splits dest: in_set_False)

lemma judge_candidate_Some:
  assumes "judge_candidate b today ctx payload c = Some (Some m)"
  shows "candidate_meets_goal_constraints today c (mc_goal ctx) (mc_facts ctx) = Some True"
    and "source_allowed_for_goal b (dget c (lit ''source_url'')) (mc_goal ctx) (candidate_evidence_text c) = Some True"
    and "match_candidate today payload (goal_role_terms (mc_goal ctx)) c = Some (Some m)"
  using assms unfolding judge_candidate_def by (auto split: option.splits bool.splits)

lemma score_job_fields [simp]:
  "jm_artifact (score_job payload terms u) = ju_artifact u"
  "jm_candidate (score_job payload terms u) = ju_candidate u"
  "jm_source (score_job payload terms u) = ju_source u"
  "jm_url (score_job payload terms u) = ju_url u"
  "jm_title (score_job payload terms u) = ju_title u"
  "jm_excerpt (score_job payload terms u) = take 500 (ju_excerpt u)"
  by (simp_all add: score_job_def Let_def)

lemma unit_fields [simp]:
  "ju_artifact (candidate_unit c places recent) = the_str (dget c (lit ''artifact_id''))"
  "ju_url (candidate_unit c places recent) = the_str (dget c (lit ''source_url''))"
  "ju_artifact (evidence_unit e recent) = the_str (dget e (lit ''artifact_id''))"
  "ju_url (evidence_unit e recent) = the_str (dget e (lit ''source_url''))"
  by (simp_all add: candidate_unit_def evidence_unit_def Let_def)

lemma ranked_subset: "set (ranked ctx payload ms) \<subseteq> set ms"
  unfolding ranked_def prefer_goal_role_matches_def Let_def
  by (auto dest!: in_set_takeD split: json.splits if_splits)

lemma match_observed_jobs_Some:
  assumes "match_observed_jobs b today ctx payload = Some out"
  obtains ms evaluated where "gather_matches b today ctx payload = Some (ms, evaluated)"
    and "out = match_report payload (ranked ctx payload ms) evaluated"
  using assms unfolding match_observed_jobs_def by auto

text \<open>The candidate or page one match of the report was scored from.\<close>

definition scored_candidate :: "(str \<Rightarrow> bool) \<Rightarrow> int \<Rightarrow> match_context \<Rightarrow> job_match \<Rightarrow> dict \<Rightarrow> bool" where
  "scored_candidate b today ctx m c \<longleftrightarrow>
     c \<in> set (list_dicts (mc_candidates ctx))
     \<and> is_primary_detail_candidate b c = Some True
     \<and> candidate_meets_goal_constraints today c (mc_goal ctx) (mc_facts ctx) = Some True
     \<and> source_allowed_for_goal b (dget c (lit ''source_url'')) (mc_goal ctx) (candidate_evidence_text c) = Some True
     \<and> \<not> json_in (dget c (lit ''source_quality'')) routing_qualities
     \<and> dget c (lit ''artifact_id'') = JStr (jm_artifact m) \<and> dget c (lit ''source_url'') = JStr (jm_url m)"

definition scored_page :: "(str \<Rightarrow> bool) \<Rightarrow> match_context \<Rightarrow> job_match \<Rightarrow> dict \<Rightarrow> bool" where
  "scored_page b ctx m e \<longleftrightarrow>
     e \<in> set (list_dicts (mc_evidence ctx))
     \<and> source_allowed_for_goal b (dget e (lit ''source_url'')) (mc_goal ctx) (the_str (dget e (lit ''visible_text''))) = Some True
     \<and> \<not> json_in (dget e (lit ''quality'')) routing_qualities
     \<and> jm_artifact m = the_str (dget e (lit ''artifact_id'')) \<and> jm_url m = the_str (dget e (lit ''source_url''))"

lemma nonempty_the_str: "nonempty_str v \<Longrightarrow> v = JStr (the_str v)"
  by (cases v) auto

lemma judged_scored:
  assumes "judge_candidate b today ctx payload c = Some (Some m)"
    and "c \<in> set (list_dicts (mc_candidates ctx))" and "is_primary_detail_candidate b c = Some True"
  shows "scored_candidate b today ctx m c"
  using judge_candidate_Some(3) [OF assms(1)]
proof (rule match_candidate_Some)
  fix places recent
  assume m: "m = score_job payload (goal_role_terms (mc_goal ctx)) (candidate_unit c places recent)"
    and "\<not> json_in (dget c (lit ''source_quality'')) routing_qualities"
    and a: "nonempty_str (dget c (lit ''artifact_id''))" and u: "nonempty_str (dget c (lit ''source_url''))"
  then show ?thesis
    using assms(2,3) judge_candidate_Some(1,2) [OF assms(1)] nonempty_the_str [OF a] nonempty_the_str [OF u]
    by (simp add: scored_candidate_def)
qed

lemma gathered_from:
  assumes "gather_matches b today ctx payload = Some (ms, evaluated)" and "m \<in> set ms"
  shows "if has_structured_candidates ctx then \<exists>c. scored_candidate b today ctx m c
         else \<exists>e. scored_page b ctx m e"
proof (cases "has_structured_candidates ctx")
  case True
  then have "keep_if_true (is_primary_detail_candidate b) (list_dicts (mc_candidates ctx)) = Some evaluated"
    and "keep_matches (judge_candidate b today ctx payload) evaluated = Some ms"
    using assms(1) by (auto simp: gather_matches_def split: option.splits)
  then show ?thesis
    using keep_matches_Some [OF _ assms(2)] keep_if_true_Some judged_scored True by fastforce
next
  case False
  then have "keep_matches (match_evidence b today (mc_goal ctx) payload (goal_role_terms (mc_goal ctx)))
      (list_dicts (mc_evidence ctx)) = Some ms"
    using assms(1) by (auto simp: gather_matches_def split: option.splits)
  from keep_matches_Some [OF this assms(2)] obtain e where e: "e \<in> set (list_dicts (mc_evidence ctx))"
    and "match_evidence b today (mc_goal ctx) payload (goal_role_terms (mc_goal ctx)) e = Some (Some m)" by blast
  from this(2) have "scored_page b ctx m e"
    by (rule match_evidence_Some) (simp add: scored_page_def e)
  with False show ?thesis by auto
qed

lemma reported_from:
  assumes "match_observed_jobs b today ctx payload = Some out" and "m \<in> set (mo_matches out)"
  shows "if has_structured_candidates ctx then \<exists>c. scored_candidate b today ctx m c
         else \<exists>e. scored_page b ctx m e"
  using assms(1)
proof (rule match_observed_jobs_Some)
  fix ms evaluated
  assume g: "gather_matches b today ctx payload = Some (ms, evaluated)"
    and "out = match_report payload (ranked ctx payload ms) evaluated"
  then have "m \<in> set ms" using assms(2) ranked_subset by (fastforce simp: match_report_def)
  with g show ?thesis by (rule gathered_from)
qed

subsection \<open>A search on one channel\<close>

definition demo_goal :: str where
  "demo_goal = zh_liepin @ [26368, 36817] @ lit ''30'' @ zh_day @ zh_beijing @ zh_pm"

definition demo_candidate :: "string \<Rightarrow> json \<Rightarrow> dict" where
  "demo_candidate url updated =
     [(lit ''candidate_id'', JStr (lit ''p1:candidate:0'')), (lit ''artifact_id'', JStr (lit ''p1'')),
      (lit ''source_url'', JStr (lit url)), (lit ''source_quality'', JStr (lit ''jd_complete'')),
      (lit ''title'', JStr zh_pm), (lit ''requirements'', JStr (lit ''SQL 15-20k'')),
      (lit ''locations'', strs [zh_beijing]), (lit ''updated_at'', updated)]"

definition demo_context :: "string \<Rightarrow> json \<Rightarrow> match_context" where
  "demo_context url updated =
     \<lparr>mc_candidates = JArr [JObj (demo_candidate url updated)], mc_evidence = JNull, mc_goal = JStr demo_goal,
      mc_facts = JNull\<rparr>"

definition demo_input :: match_input where
  "demo_input = \<lparr>mi_keywords = [lit ''sql''], mi_locations = [zh_beijing],
     mi_criteria = criteria, mi_limit = 100, mi_warnings = []\<rparr>"

text \<open>The job of the report for this search\<close>

definition demo_match :: job_match where
  "demo_match = \<lparr>jm_artifact = lit ''p1'', jm_candidate = Some (lit ''p1:candidate:0''), jm_source = None,
     jm_url = lit ''https://www.liepin.com/job/1'', jm_title = Some zh_pm, jm_score = 49,
     jm_keywords = [lit ''sql''], jm_locations = [zh_beijing], jm_compensation = Some (lit ''20k''),
     jm_company_types = [], jm_unverified = [CompanyTypeC], jm_excerpt = lit ''SQL 15-20k''\<rparr>"

definition demo_report :: match_output where
  "demo_report = \<lparr>mo_matches = [demo_match], mo_unresolved = [CompanyTypeC], mo_count = 1,
     mo_urls = [lit ''https://www.liepin.com/job/1''], mo_no_match = False\<rparr>"

lemma demo_search:
  "match_observed_jobs (\<lambda>_. True) 739464
     (demo_context ''https://www.liepin.com/job/1'' (JStr (lit ''2025-07-25''))) demo_input = Some demo_report"
  "demo_match \<in> set (mo_matches demo_report)"
  "has_structured_candidates (demo_context ''https://www.liepin.com/job/1'' (JStr (lit ''2025-07-25'')))"
  "mc_goal (demo_context ''https://www.liepin.com/job/1'' (JStr (lit ''2025-07-25''))) = JStr demo_goal"
  by code_simp+

subsection \<open>The properties\<close>



text \<open>The hosts a goal confines a search to.\<close>

definition channel_ok :: "str \<Rightarrow> str \<Rightarrow> bool" where
  "channel_ok goal host \<longleftrightarrow>
     (if contains zh_liepin goal then on_domain host ''liepin.com'' \<or> on_domain host ''linkedin.com''
      else any_in channel_markers (lower goal) \<longrightarrow> (\<exists>d \<in> set channel_hosts. on_domain host d))"

lemma allowed_channel:
  assumes "source_allowed_for_goal b url (JStr g) evidence = Some True" and "strip g \<noteq> []"
  obtains host where "url_host b (the_str url) = Some host" and "channel_ok g host"
  using assms
  by (auto simp: source_allowed_for_goal_def source_allowed_def liepin_source_def channel_ok_def
      split: if_splits option.splits)



text \<open>What the goal asks of every structured candidate in the report: a date within the days it names, one of the
  cities it names, and no more years of experience than it states.\<close>

definition hard_constraints :: "int \<Rightarrow> str \<Rightarrow> dict \<Rightarrow> bool" where
  "hard_constraints today g c \<longleftrightarrow>
     (\<forall>n. recent_search g = Some n \<longrightarrow>
        (\<exists>day. parse_observed_date today (candidate_timestamp c) = Some (Some day) \<and> today - n \<le> day \<and> day \<le> today))
     \<and> ((\<exists>city \<in> set goal_location_terms. contains city g) \<longrightarrow>
        (\<exists>city \<in> set goal_location_terms. contains city g \<and> contains (lower city) (candidate_searchable_text c)))
     \<and> (\<forall>years. target_years g = Some years \<longrightarrow>
        (\<forall>low \<in> set (minimum_years (candidate_searchable_text c)). low \<le> years))"

lemma constraints_hard:
  assumes "candidate_meets_goal_constraints today c (JStr g) facts = Some True" and "strip g \<noteq> []"
  shows "hard_constraints today g c"
proof -
  have city: "\<not> wrong_city g (candidate_searchable_text c)"
    and years: "enough_experience g (candidate_searchable_text c)"
    and date: "recent_search g \<noteq> None \<Longrightarrow> candidate_recency_verified today c (JStr g) = Some True"
    using assms by (auto simp: candidate_meets_goal_constraints_def Let_def requested_recent_days_def split: if_splits)
  have "\<exists>day. parse_observed_date today (candidate_timestamp c) = Some (Some day) \<and> today - n \<le> day \<and> day \<le> today"
    if "recent_search g = Some n" for n
    using date that
    by (auto simp: candidate_recency_verified_def requested_recent_days_def split: option.splits)
  then show ?thesis
    using city years
    by (auto simp: hard_constraints_def wrong_city_def any_in_def enough_experience_def filter_empty_conv Let_def)
qed

text \<open>A structured candidate in the report has a date within the days the goal asks for, a text with one of the cities
  the goal names, and asks for no more experience than the goal states.\<close>

theorem reported_meets_constraints:
  assumes "match_observed_jobs brackets today ctx payload = Some out" and "m \<in> set (mo_matches out)"
    and "has_structured_candidates ctx" and "mc_goal ctx = JStr g" and "strip g \<noteq> []"
  shows "\<exists>c \<in> set (list_dicts (mc_candidates ctx)). dget c (lit ''artifact_id'') = JStr (jm_artifact m)
           \<and> dget c (lit ''source_url'') = JStr (jm_url m) \<and> hard_constraints today g c"
proof -
  obtain c where "scored_candidate brackets today ctx m c" using reported_from [OF assms(1,2)] assms(3) by auto
  then show ?thesis using constraints_hard assms(4,5) unfolding scored_candidate_def by metis
qed

theorem reported_meets_constraints_witness:
  "\<exists>c \<in> set (list_dicts (mc_candidates (demo_context ''https://www.liepin.com/job/1'' (JStr (lit ''2025-07-25''))))).
     dget c (lit ''artifact_id'') = JStr (jm_artifact demo_match)
     \<and> dget c (lit ''source_url'') = JStr (jm_url demo_match) \<and> hard_constraints 739464 demo_goal c"
  by (rule reported_meets_constraints [OF demo_search]) code_simp

text \<open>Without structured candidates the constraints of the goal are not applied: a page that names another city is
  reported to a goal that asks for this one.\<close>

theorem pages_skip_constraints:
  "\<exists>ctx out m. match_observed_jobs (\<lambda>_. True) 739464 ctx demo_input = Some out \<and> mo_matches out = [m]
     \<and> mc_goal ctx = JStr (zh_beijing @ zh_pm)
     \<and> \<not> contains zh_beijing (jm_excerpt m) \<and> contains (goal_location_terms ! 1) (jm_excerpt m)"
proof -
  define ctx where "ctx = \<lparr>mc_candidates = JNull, mc_evidence = JArr [JObj
      [(lit ''artifact_id'', JStr (lit ''e1'')), (lit ''source_url'', JStr (lit ''https://jobs.example/1'')),
       (lit ''visible_text'', JStr (goal_location_terms ! 1 @ zh_pm))]],
    mc_goal = JStr (zh_beijing @ zh_pm), mc_facts = JNull\<rparr>"
  define m where "m = score_job demo_input (goal_role_terms (mc_goal ctx)) (evidence_unit
      [(lit ''artifact_id'', JStr (lit ''e1'')), (lit ''source_url'', JStr (lit ''https://jobs.example/1'')),
       (lit ''visible_text'', JStr (goal_location_terms ! 1 @ zh_pm))] False)"
  have "map_option mo_matches (match_observed_jobs (\<lambda>_. True) 739464 ctx demo_input) = Some [m]"
    unfolding ctx_def m_def by code_simp
  moreover have "\<not> contains zh_beijing (jm_excerpt m) \<and> contains (goal_location_terms ! 1) (jm_excerpt m)"
    unfolding ctx_def m_def by code_simp
  moreover have "mc_goal ctx = JStr (zh_beijing @ zh_pm)" by (simp add: ctx_def)
  ultimately show ?thesis by (auto simp: map_option_case split: option.splits)
qed

subsection \<open>The shape of the report\<close>

definition match_output_ok :: "match_input \<Rightarrow> match_output \<Rightarrow> bool" where
  "match_output_ok payload out \<longleftrightarrow>
     length (mo_matches out) \<le> mi_limit payload
     \<and> sorted (map rank_key (mo_matches out))
     \<and> (\<forall>m \<in> set (mo_matches out). 0 \<le> jm_score m \<and> jm_score m \<le> 100 \<and> length (jm_excerpt m) \<le> 500
          \<and> set (jm_keywords m) \<subseteq> set (mi_keywords payload)
          \<and> (\<forall>c \<in> set (mi_criteria payload) - set (mo_unresolved out). c \<notin> set (jm_unverified m)))
     \<and> set (mo_unresolved out) \<subseteq> set (mi_criteria payload)
     \<and> (mo_no_match out \<longleftrightarrow> 0 < mo_count out \<and> mo_matches out = [])
     \<and> distinct (mo_urls out)"

lemma score_job_bounds:
  "0 \<le> jm_score (score_job payload terms u)" "jm_score (score_job payload terms u) \<le> 100"
  "set (jm_keywords (score_job payload terms u)) \<subseteq> set (mi_keywords payload)"
  by (auto simp: score_job_def Let_def)

lemma gathered_scored:
  assumes "gather_matches b today ctx payload = Some (ms, evaluated)" and "m \<in> set ms"
  shows "\<exists>terms u. m = score_job payload terms u"
proof -
  obtain c where "judge_candidate b today ctx payload c = Some (Some m)
      \<or> match_evidence b today (mc_goal ctx) payload (goal_role_terms (mc_goal ctx)) c = Some (Some m)"
    using assms by (auto simp: gather_matches_def split: if_splits option.splits dest!: keep_matches_Some)
  then show ?thesis
    using judge_candidate_Some(3) by (meson match_candidate_Some match_evidence_Some)
qed

lemma report_ok:
  assumes "\<And>m. m \<in> set ms \<Longrightarrow> \<exists>terms u. m = score_job payload terms u"
  shows "match_output_ok payload (match_report payload (ranked ctx payload ms) evaluated)"
proof -
  have "sorted (map rank_key (ranked ctx payload ms))"
    unfolding ranked_def take_map [symmetric] by (intro sorted_wrt_take sorted_sort_key)
  moreover have "length (ranked ctx payload ms) \<le> mi_limit payload" by (simp add: ranked_def)
  moreover have "0 \<le> jm_score m \<and> jm_score m \<le> 100 \<and> length (jm_excerpt m) \<le> 500
      \<and> set (jm_keywords m) \<subseteq> set (mi_keywords payload)" if "m \<in> set (ranked ctx payload ms)" for m
    using assms that ranked_subset score_job_bounds by (fastforce simp del: score_job_def)
  ultimately show ?thesis
    by (auto simp: match_output_ok_def match_report_def)
qed



subsection \<open>A date that raises\<close>

lemma keep_matches_complete:
  "keep_matches f xs = Some ys \<Longrightarrow> x \<in> set xs \<Longrightarrow> f x = Some (Some y) \<Longrightarrow> y \<in> set ys"
  by (induction xs arbitrary: ys) (auto split: option.splits)

lemma judge_raises:
  assumes "candidate_meets_goal_constraints today c (mc_goal ctx) (mc_facts ctx) = None"
  shows "judge_candidate b today ctx payload c = None"
  using assms by (simp add: judge_candidate_def)

text \<open>The tool has no answer at all, whatever the other candidates are, when one evaluated candidate that is on topic (its title,
  role, city and recruitment scope fit a goal that asks for recent posts) gives as its date a span no
  date can represent, such as three thousand years ago.\<close>

theorem date_out_of_range_raises:
  assumes "c \<in> set (list_dicts (mc_candidates ctx))" and "is_primary_detail_candidate brackets c = Some True"
    and "mc_goal ctx = JStr g" and "recent_search g \<noteq> None" and "strip g \<noteq> []"
    and "\<not> invalid_title c" and "\<not> wrong_role g (mc_facts ctx) (candidate_searchable_text c)"
    and "\<not> wrong_city g (candidate_searchable_text c)"
    and "\<not> not_for_graduates g (mc_facts ctx) c (candidate_searchable_text c)"
    and "candidate_timestamp c = JStr t" and "relative_days (strip t) = Some n" and "today \<le> n"
    and "strip t \<notin> set today_words \<union> set yesterday_words"
  shows "match_observed_jobs brackets today ctx payload = None"
proof -
  have "strip t \<noteq> []" using assms(11) by (auto simp: relative_days_def)
  then have "parse_observed_date today (candidate_timestamp c) = None"
    using assms(10-13) by (auto simp: parse_date_text_def)
  then have "candidate_meets_goal_constraints today c (mc_goal ctx) (mc_facts ctx) = None"
    using assms(3-9)
    by (auto simp: candidate_meets_goal_constraints_def Let_def requested_recent_days_def candidate_recency_verified_def)
  then have judged: "judge_candidate brackets today ctx payload c = None" by (rule judge_raises)
  have "has_structured_candidates ctx"
    using assms(1) by (auto simp: has_structured_candidates_def list_dicts_def split: json.splits)
  moreover have "keep_matches (judge_candidate brackets today ctx payload) evaluated = None"
    if "keep_if_true (is_primary_detail_candidate brackets) (list_dicts (mc_candidates ctx)) = Some evaluated" for evaluated
  proof -
    have "c \<in> set evaluated"
      using keep_matches_complete [OF that [unfolded keep_if_true_def] assms(1)] assms(2) by simp
    then show ?thesis using judged keep_matches_None by blast
  qed
  ultimately show ?thesis
    by (auto simp: match_observed_jobs_def gather_matches_def split: option.splits)
qed

text \<open>The date of the search above, three thousand years ago\<close>

definition demo_ago :: str where
  "demo_ago = lit ''3000'' @ fst (ago_units ! 0)"

theorem date_out_of_range_raises_witness:
  "match_observed_jobs (\<lambda>_. True) 739464 (demo_context ''https://www.liepin.com/job/1'' (JStr demo_ago)) demo_input = None"
  by (rule date_out_of_range_raises [where g = demo_goal and t = demo_ago and n = 1095000
        and c = "demo_candidate ''https://www.liepin.com/job/1'' (JStr demo_ago)"]) (code_simp+)

subsection \<open>The input\<close>

lemma lower_lower [simp]: "lower (lower s) = lower s"
  by (simp add: lower_def)

lemma lower_eq_Nil [simp]: "lower s = [] \<longleftrightarrow> s = []" "[] = lower s \<longleftrightarrow> s = []"
  by (auto simp: lower_def)

definition match_input_ok :: "match_input \<Rightarrow> bool" where
  "match_input_ok p \<longleftrightarrow>
     length (mi_keywords p) \<le> 30 \<and> distinct (mi_keywords p) \<and> [] \<notin> set (mi_keywords p)
     \<and> (\<forall>k \<in> set (mi_keywords p). lower k = k)
     \<and> length (mi_locations p) \<le> 20 \<and> distinct (mi_locations p) \<and> [] \<notin> set (mi_locations p)
     \<and> (\<forall>l \<in> set (mi_locations p). strip l = l)
     \<and> distinct (mi_criteria p) \<and> mi_limit p = 100"

lemma length_dedup: "length (dedup xs) \<le> length xs"
  by (induction xs rule: dedup.induct) (auto intro: order_trans [OF _ length_filter_le])

lemma normalized_length:
  "length (normalize_keywords vs) \<le> length vs" "length (normalize_locations vs) \<le> length vs"
  unfolding normalize_keywords_def normalize_locations_def
  by (metis (no_types, lifting) length_dedup length_filter_le length_map order_trans)+

lemma validated_ok:
  assumes "validate_match_input d = Some p"
  shows "match_input_ok p"
proof -
  obtain ks ls cs ws where c: "parse_criteria d = Some cs" and "length ks \<le> 30" "length ls \<le> 20"
    and p: "p = \<lparr>mi_keywords = normalize_keywords ks, mi_locations = normalize_locations ls,
      mi_criteria = cs, mi_limit = 100, mi_warnings = ws\<rparr>"
    using assms by (auto simp: validate_match_input_def split: option.splits if_splits)
  moreover have "distinct cs"
    using c by (auto simp: parse_criteria_def split: if_splits json.splits)
  ultimately show ?thesis
    using normalized_length [of ks] normalized_length [of ls]
    by (auto simp: match_input_ok_def normalize_keywords_def normalize_locations_def intro: order_trans)
qed

text \<open>C22: Whatever a model passes, the input the matcher works on has at most 30 distinct nonempty lower-case keywords, at most 20
  distinct stripped locations, distinct criteria and the fixed limit of 100.\<close>

theorem match_input_canonical:
  assumes "parse_match_input v = Some p"
  shows "match_input_ok p"
  using assms by (auto simp: parse_match_input_def intro: validated_ok split: json.splits)

lemma dput_commute: "k \<noteq> k' \<Longrightarrow> dhas d k \<Longrightarrow> dput k' v' (dput k v d) = dput k v (dput k' v' d)"
  by (induction d) (auto simp: dhas_def)

lemma dput_again [simp]: "dput k v (dput k w d) = dput k v d"
  by (induction d) auto

text \<open>A step that reads the key neither as a name nor as an alias does the same for any value under it.\<close>

definition put_in :: "str \<Rightarrow> json \<Rightarrow> shaping \<Rightarrow> shaping" where
  "put_in k v acc = (dput k v (fst acc), snd acc)"

lemma take_alias_put:
  assumes "dhas (fst acc) k" and "k \<notin> lit ` set (snd e)"
  shows "take_alias e (put_in k v acc) = put_in k v (take_alias e acc)"
    and "dhas (fst (take_alias e acc)) k" and "dget (fst (take_alias e acc)) k = dget (fst acc) k"
proof -
  obtain vs ws where acc: "acc = (vs, ws)" by (cases acc)
  obtain key names where e: "e = (key, names)" by (cases e)
  have has: "dhas vs k" and k: "\<And>name. name \<in> set names \<Longrightarrow> k \<noteq> lit name" using assms acc e by auto
  have find: "find (\<lambda>name. k = lit name \<or> dhas vs (lit name)) names = find (\<lambda>name. dhas vs (lit name)) names"
    using k by (induction names) auto
  show commutes: "take_alias e (put_in k v acc) = put_in k v (take_alias e acc)"
  proof (cases "dhas vs (lit key)")
    case True
    then show ?thesis by (simp add: take_alias_def put_in_def acc e)
  next
    case False
    then have "k \<noteq> lit key" using has by auto
    then show ?thesis
    proof (cases "find (\<lambda>name. dhas vs (lit name)) names")
      case None
      then show ?thesis using False \<open>k \<noteq> lit key\<close> by (simp add: take_alias_def put_in_def acc e find)
    next
      case (Some name)
      then have "k \<noteq> lit name" using k find_SomeD by metis
      then show ?thesis
        using Some False \<open>k \<noteq> lit key\<close> has by (simp add: take_alias_def put_in_def acc e find dput_commute)
    qed
  qed
  show "dhas (fst (take_alias e acc)) k"
    using has by (auto simp: take_alias_def acc e split: option.split)
  show "dget (fst (take_alias e acc)) k = dget (fst acc) k"
    using has by (auto simp: take_alias_def acc e split: option.split)
qed

lemma fold_alias_put:
  assumes "dhas (fst acc) k" and "\<forall>e \<in> set es. k \<notin> lit ` set (snd e)"
  shows "fold take_alias es (put_in k v acc) = put_in k v (fold take_alias es acc)
    \<and> dget (fst (fold take_alias es acc)) k = dget (fst acc) k"
  using assms by (induction es arbitrary: acc) (simp_all add: take_alias_put)

text \<open>The warnings are only carried along.\<close>

lemma steps_fst:
  "fst (take_string key split noun acc) = (case dget (fst acc) (lit key) of
     JStr s \<Rightarrow> dput (lit key) (strs (split s)) (fst acc) | _ \<Rightarrow> fst acc)"
  "fst (take_criteria acc) = (case dget (fst acc) (lit ''ranking_criteria'') of
     JArr xs \<Rightarrow> dput (lit ''ranking_criteria'') (JArr (map normalized_criterion xs)) (fst acc) | _ \<Rightarrow> fst acc)"
  "fst (take_limit acc) = dput (lit ''limit'') (JInt 100) (fst acc)"
  by (cases acc; simp add: take_string_def take_criteria_def take_limit_def split: json.split)+

lemma final_reads:
  assumes "key \<notin> {''normalization_warnings''}"
  shows "dget (take_warnings acc) (lit key) = dget (fst acc) (lit key)"
    and "dhas (take_warnings acc) (lit key) = dhas (fst acc) (lit key)"
  using assms by (cases acc; simp add: take_warnings_def Let_def)+

lemma final_warnings:
  assumes "\<not> dhas (fst acc) (lit ''normalization_warnings'')"
  shows "\<exists>ws. parse_strs (take_warnings acc) ''normalization_warnings'' = Some ws"
  using assms by (cases acc) (auto simp: take_warnings_def parse_strs_def Let_def dhas_def dget_def)

text \<open>Two shapings with the same dictionary validate to the same input, but for the warnings.\<close>

lemma validate_same:
  assumes "fst a = fst b" and "\<not> dhas (fst a) (lit ''normalization_warnings'')"
  shows "map_option (mi_warnings_update (\<lambda>_. [])) (validate_match_input (take_warnings a))
       = map_option (mi_warnings_update (\<lambda>_. [])) (validate_match_input (take_warnings b))"
proof -
  obtain wa where wa: "parse_strs (take_warnings a) ''normalization_warnings'' = Some wa"
    using final_warnings [OF assms(2)] by blast
  obtain wb where wb: "parse_strs (take_warnings b) ''normalization_warnings'' = Some wb"
    using final_warnings [of b] assms by auto
  have same: "parse_strs (take_warnings a) key = parse_strs (take_warnings b) key"
    if "key \<noteq> ''normalization_warnings''" for key
    using that assms(1) by (simp add: parse_strs_def final_reads)
  have criteria: "parse_criteria (take_warnings a) = parse_criteria (take_warnings b)"
    using assms(1) by (simp add: parse_criteria_def final_reads)
  show ?thesis
    using same [of "''profile_keywords''"] same [of "''preferred_locations''"]
    by (cases "parse_strs (take_warnings b) ''profile_keywords''";
        cases "parse_strs (take_warnings b) ''preferred_locations''";
        cases "parse_criteria (take_warnings b)") (simp_all add: validate_match_input_def wa wb criteria)
qed

definition shaped :: "shaping \<Rightarrow> shaping" where
  "shaped acc = take_limit (take_criteria
     (take_string ''ranking_criteria'' split_stripped '' criterion/criteria''
       (take_string ''preferred_locations'' split_stripped '' location(s)'' acc)))"

lemma step_cong:
  assumes "fst a = fst b"
  shows "fst (take_string key split noun a) = fst (take_string key split noun b)"
    and "fst (take_criteria a) = fst (take_criteria b)" and "fst (take_limit a) = fst (take_limit b)"
  unfolding steps_fst assms by (rule refl)+

lemma shaped_fst: "fst a = fst b \<Longrightarrow> fst (shaped a) = fst (shaped b)"
  unfolding shaped_def by (intro step_cong)

lemma step_no_warnings:
  assumes "\<not> dhas (fst acc) (lit ''normalization_warnings'')"
  shows "key \<noteq> ''normalization_warnings'' \<Longrightarrow>
      \<not> dhas (fst (take_string key split noun acc)) (lit ''normalization_warnings'')"
    and "\<not> dhas (fst (take_criteria acc)) (lit ''normalization_warnings'')"
    and "\<not> dhas (fst (take_limit acc)) (lit ''normalization_warnings'')"
    and "fst e \<noteq> ''normalization_warnings'' \<Longrightarrow>
      \<not> dhas (fst (take_alias e acc)) (lit ''normalization_warnings'')"
  using assms by (auto simp: steps_fst take_alias_def split: json.split option.split prod.split)

lemma shaped_no_warnings:
  "\<not> dhas (fst acc) (lit ''normalization_warnings'') \<Longrightarrow> \<not> dhas (fst (shaped acc)) (lit ''normalization_warnings'')"
  unfolding shaped_def by (simp add: step_no_warnings)

lemma fold_alias_no_warnings:
  "\<not> dhas (fst acc) (lit ''normalization_warnings'') \<Longrightarrow>
     \<not> dhas (fst (fold take_alias input_aliases acc)) (lit ''normalization_warnings'')"
  by (simp add: input_aliases_def step_no_warnings)

text \<open>Keywords in one string are the list of them: a string of keywords gives the same input, but for the recorded
  conversion, as the list it splits into at the separators.\<close>

theorem keyword_string_as_list:
  assumes "\<not> dhas d (lit ''normalization_warnings'')"
  shows "map_option (mi_warnings_update (\<lambda>_. []))
           (parse_match_input (JObj (dput (lit ''profile_keywords'') (JStr s) d)))
       = map_option (mi_warnings_update (\<lambda>_. []))
           (parse_match_input (JObj (dput (lit ''profile_keywords'') (strs (split_keywords s)) d)))"
proof -
  define k where "k = lit ''profile_keywords''"
  define W where "W = strs (split_keywords s)"
  define acc where "acc = fold take_alias input_aliases (dput k (JStr s) d, [])"
  have fold: "fold take_alias input_aliases (put_in k W (dput k (JStr s) d, [])) = put_in k W acc
      \<and> dget (fst acc) k = JStr s"
    unfolding acc_def using fold_alias_put [of "(dput k (JStr s) d, [])" k input_aliases W]
    by (simp add: k_def input_aliases_def)
  let ?string = "take_string ''profile_keywords'' split_keywords '' keyword(s)''"
  have same: "fst (?string acc) = fst (?string (put_in k W acc))"
    using fold by (simp add: steps_fst put_in_def k_def W_def strs_def)
  have none: "\<not> dhas (fst (?string acc)) (lit ''normalization_warnings'')"
    using fold_alias_no_warnings [of "(dput k (JStr s) d, [])"] assms
    by (intro step_no_warnings) (simp_all add: acc_def k_def)
  have "put_in k W (dput k (JStr s) d, []) = (dput k W d, [])" by (simp add: put_in_def)
  then have "tolerate_model_facing_shapes (dput k W d) = take_warnings (shaped (?string (put_in k W acc)))"
    using fold by (simp add: tolerate_model_facing_shapes_def shaped_def Let_def)
  moreover have "tolerate_model_facing_shapes (dput k (JStr s) d) = take_warnings (shaped (?string acc))"
    by (simp add: tolerate_model_facing_shapes_def shaped_def Let_def acc_def)
  ultimately show ?thesis
    unfolding parse_match_input_def
    by (simp add: k_def [symmetric] W_def [symmetric] validate_same [OF shaped_fst [OF same] shaped_no_warnings [OF none]])
qed

text \<open>The text of two keywords, and the list the input holds for it\<close>

theorem keyword_string_as_list_witness:
  "map_option mi_keywords (parse_match_input (JObj [(lit ''profile_keywords'', JStr (lit ''SQL, Java''))]))
   = Some [lit ''sql'', lit ''java'']"
proof -
  have "map_option (mi_warnings_update (\<lambda>_. []))
      (parse_match_input (JObj (dput (lit ''profile_keywords'') (JStr (lit ''SQL, Java'')) [])))
    = map_option (mi_warnings_update (\<lambda>_. []))
      (parse_match_input (JObj (dput (lit ''profile_keywords'') (strs (split_keywords (lit ''SQL, Java''))) [])))"
    by (rule keyword_string_as_list) (simp add: dhas_def)
  also have "\<dots> = Some \<lparr>mi_keywords = [lit ''sql'', lit ''java''], mi_locations = [], mi_criteria = [SkillsC],
      mi_limit = 100, mi_warnings = []\<rparr>"
    by code_simp
  finally show ?thesis
    by (drule_tac arg_cong [where f = "map_option mi_keywords"]) (simp add: option.map_comp comp_def)
qed

theorem match_input_canonical_witness:
  "match_input_ok \<lparr>mi_keywords = [lit ''sql''], mi_locations = [], mi_criteria = [LocationC, SkillsC], mi_limit = 100,
     mi_warnings = [lit ''limit normalized to fixed business limit 100'']\<rparr>"
  by (rule match_input_canonical [of "JObj [(lit ''profile_keywords'', strs [lit '' SQL'', lit ''sql'']),
      (lit ''ranking_criteria'', strs [lit ''location'', lit ''skills'', lit ''location'']), (lit ''limit'', JInt 5)]"])
    code_simp

end
