(* ===== verification/PageEvidence.thy ===== *)
theory PageEvidence
  imports ResumeParser SkillTexts WebUrl Sha256
begin

section \<open>What counts as evidence of a public page\<close>

text \<open>
  The pure part of the fetching in \<open>skill/job_discovery/runtime/job_discovery.py\<close>: the visible text of a
  document, its quality, access blocks and dead links, and the page that is kept as evidence. The events of a
  document are what \<open>html.parser\<close> calls the handlers with. \<open>casefold\<close> is \<open>lower\<close>: the markers it
  is compared with are ASCII or Chinese.
\<close>

subsection \<open>Failures\<close>

text \<open>\<open>PublicJobFetchError\<close> with what \<open>str(exc)\<close> gives; a \<open>requests.RequestException\<close>; any other exception.\<close>

record public_error =
  pe_code :: str
  pe_text :: str
  pe_url :: "str option"
  pe_chain :: "str list"
  pe_status :: "int option"

datatype fetch_error = Public public_error | Transport str | Raised str

definition public_error_of ::
  "str \<Rightarrow> str \<Rightarrow> str option \<Rightarrow> str list \<Rightarrow> int option \<Rightarrow> public_error" where
  "public_error_of code message url chain status =
     \<lparr>pe_code = code, pe_text = (if message = [] then code else code @ lit '': '' @ message),
      pe_url = url, pe_chain = chain, pe_status = status\<rparr>"

definition fetch_failure :: "string \<Rightarrow> public_error" where
  "fetch_failure code = public_error_of (lit code) [] None [] None"

subsection \<open>Quality\<close>

datatype page_quality = JdComplete | ListOnly | JsShell | EmptyPage

definition quality_value :: "page_quality \<Rightarrow> str" where
  "quality_value q = lit (case q of JdComplete \<Rightarrow> ''jd_complete'' | ListOnly \<Rightarrow> ''list_only''
     | JsShell \<Rightarrow> ''js_shell'' | EmptyPage \<Rightarrow> ''empty'')"

definition min_usable_chars :: nat where "min_usable_chars = 160"
definition min_real_jd_chars :: nat where "min_real_jd_chars = 400"
definition max_visible_chars :: nat where "max_visible_chars = 32000"
definition marker_scan_head :: nat where "marker_scan_head = 2000"

definition marked :: "str list \<Rightarrow> str \<Rightarrow> bool" where
  "marked markers text \<longleftrightarrow> (\<exists>m \<in> set markers. contains m text)"

text \<open>\<open>hay.count(needle)\<close>, for a needle that is not empty: occurrences that do not overlap. The number counts the characters
  of the last occurrence still to skip.\<close>

fun count_from :: "nat \<Rightarrow> str \<Rightarrow> str \<Rightarrow> nat" where
  "count_from k needle [] = 0"
| "count_from (Suc k) needle (c # cs) = count_from k needle cs"
| "count_from 0 needle (c # cs) =
     (if starts_with (c # cs) needle then 1 + count_from (length needle - 1) needle cs
      else count_from 0 needle cs)"

definition count_sub :: "str \<Rightarrow> str \<Rightarrow> nat" where
  "count_sub needle hay = count_from 0 needle hay"

definition jd_head_markers :: "str list" where
  "jd_head_markers = jd_section_markers @ [lit ''requirements'', lit ''qualifications'',
     lit ''jobresponsibilities'', lit ''whatyouwilldo'']"

definition classify_page_quality :: "str \<Rightarrow> page_quality \<times> str" where
  "classify_page_quality text =
     (let n = remove_ws text; head = lower (take marker_scan_head n) in
      if n = [] then (EmptyPage, lit ''no_visible_text'')
      else if length n < min_usable_chars then (JsShell, lit ''visible_chars<160'')
      else if marked jd_head_markers head then (JdComplete, lit ''jd_section_marker'')
      else if min_real_jd_chars \<le> length n \<and> 2 \<le> sum_list (map (\<lambda>m. count_sub m n) inline_jd_markers)
        then (JdComplete, lit ''inline_jd_sections'')
      else if marked list_page_markers head then (ListOnly, lit ''list_marker_without_jd_section'')
      else (ListOnly, lit ''usable_text_without_jd_section''))"

subsection \<open>Pages\<close>

record page =
  pg_artifact :: str
  pg_source :: str
  pg_title :: "str option"
  pg_text :: str
  pg_hash :: str
  pg_effective :: "str option"
  pg_chain :: "str list"
  pg_status :: "int option"
  pg_quality :: page_quality
  pg_signal :: str

definition page_hash :: "str \<Rightarrow> str" where
  "page_hash text = sha256_hex text"

definition observed_page ::
  "str \<Rightarrow> str option \<Rightarrow> str \<Rightarrow> str option \<Rightarrow> str list \<Rightarrow> int option \<Rightarrow> page" where
  "observed_page source title text effective chain status =
     \<lparr>pg_artifact = lit ''observed:'' @ page_hash text, pg_source = source, pg_title = title, pg_text = text,
      pg_hash = page_hash text, pg_effective = effective, pg_chain = chain, pg_status = status,
      pg_quality = fst (classify_page_quality text), pg_signal = snd (classify_page_quality text)\<rparr>"

subsection \<open>Access blocks and dead links\<close>

definition text_or :: "str option \<Rightarrow> str" where
  "text_or t = (case t of None \<Rightarrow> [] | Some s \<Rightarrow> s)"

text \<open>The outer option is the \<open>ValueError\<close> of \<open>urlsplit\<close>.\<close>

definition detect_access_block ::
  "(str \<Rightarrow> bool) \<Rightarrow> str \<Rightarrow> str option \<Rightarrow> str \<Rightarrow> int option \<Rightarrow> str option option" where
  "detect_access_block brackets url title text status =
     map_option (\<lambda>p.
       let host = lower (up_host p); path = lower (up_path p);
           seen = lower (text_or title @ [10] @ take 2000 text)
       in if host = lit ''safe.liepin.com''
             \<and> marked [lit ''captcha'', lit ''security'', lit ''verify''] path then Some (lit ''anti_bot_challenge'')
          else if host = lit ''wow.liepin.com'' \<and> contains (lit ''transit'') path
            then Some (lit ''anti_bot_challenge'')
          else if marked access_block_markers seen then Some (lit ''anti_bot_challenge'')
          else if status = Some 429 then Some (lit ''rate_limited'')
          else if status = Some 401 \<or> status = Some 403 then Some (lit ''access_denied'')
          else None)
     (url_split brackets [] url)"

definition dead_link :: "str \<Rightarrow> str option \<Rightarrow> bool" where
  "dead_link text title \<longleftrightarrow>
     length text < min_real_jd_chars
     \<and> (marked soft_404_markers (take marker_scan_head text)
        \<or> contains (lit ''404'') (text_or title) \<or> marked soft_404_markers (text_or title))"

definition normalize_visible_text :: "str \<Rightarrow> str" where
  "normalize_visible_text text = join [10] (filter (\<lambda>l. l \<noteq> []) (map normalize_ws (splitlines text)))"

definition blocked_text :: "str \<Rightarrow> int option \<Rightarrow> str" where
  "blocked_text url status =
     blocked_page_head @ url @ lit '', status='' @ (case status of None \<Rightarrow> lit ''None'' | Some n \<Rightarrow> str_of_int n)
     @ blocked_page_tail"

text \<open>The page of a text that was read, or why it is no evidence. An empty redirect chain reads as the requested URL.\<close>

definition build_evidence_page ::
  "(str \<Rightarrow> bool) \<Rightarrow> str \<Rightarrow> str \<Rightarrow> str option \<Rightarrow> str \<Rightarrow> int option \<Rightarrow> str list \<Rightarrow> fetch_error + page" where
  "build_evidence_page brackets asked effective title visible status redirects =
     (let text = take max_visible_chars (normalize_visible_text visible);
          chain = (if redirects = [] then [asked] else redirects);
          failed = (\<lambda>code message. Inl (Public (public_error_of code message (Some effective) chain status)))
      in case detect_access_block brackets effective title text status of
          None \<Rightarrow> Inl (Raised (lit ''ValueError''))
        | Some (Some code) \<Rightarrow> failed code (blocked_text effective status)
        | Some None \<Rightarrow>
            if text = [] then failed (lit ''empty_public_page'') []
            else if dead_link text title then failed (lit ''dead_link'') dead_page_msg
            else if length text < min_usable_chars then failed (lit ''public_page_content_insufficient'') []
            else Inr (observed_page asked title text (Some effective) chain status))"

subsection \<open>The events of a document\<close>

datatype html_event =
    StartTag str "(str \<times> str option) list"
  | EndTag str
  | TextData str

text \<open>\<open>dict(attrs).get(key)\<close>: a repeated attribute counts with its last value, one without a value is \<open>None\<close>.\<close>

definition attribute :: "(str \<times> str option) list \<Rightarrow> string \<Rightarrow> str option" where
  "attribute attrs key = (case map_of (rev attrs) (lit key) of None \<Rightarrow> None | Some v \<Rightarrow> v)"

record visible_state =
  vs_depth :: nat
  vs_in_title :: bool
  vs_titles :: "str list"
  vs_texts :: "str list"

definition ignored_tags :: "string list" where
  "ignored_tags = [''script'', ''style'', ''noscript'', ''svg'']"

definition tag_in :: "str \<Rightarrow> string list \<Rightarrow> bool" where
  "tag_in tag names \<longleftrightarrow> tag \<in> lit ` set names"

fun visible_event :: "html_event \<Rightarrow> visible_state \<Rightarrow> visible_state" where
  "visible_event (StartTag tag attrs) v =
     v\<lparr>vs_depth := (if tag_in tag ignored_tags then vs_depth v + 1 else vs_depth v),
       vs_in_title := (tag = lit ''title'' \<or> vs_in_title v)\<rparr>"
| "visible_event (EndTag tag) v =
     v\<lparr>vs_depth := (if tag_in tag ignored_tags then vs_depth v - 1 else vs_depth v),
       vs_in_title := (tag \<noteq> lit ''title'' \<and> vs_in_title v)\<rparr>"
| "visible_event (TextData s) v =
     (let n = normalize_ws s in
      if n = [] \<or> vs_depth v \<noteq> 0 then v
      else v\<lparr>vs_titles := (if vs_in_title v then vs_titles v @ [n] else vs_titles v),
             vs_texts := vs_texts v @ [n]\<rparr>)"

definition visible_document :: "html_event list \<Rightarrow> visible_state" where
  "visible_document events =
     fold visible_event events \<lparr>vs_depth = 0, vs_in_title = False, vs_titles = [], vs_texts = []\<rparr>"

definition document_title :: "visible_state \<Rightarrow> str option" where
  "document_title v = (let t = join (lit '' '') (vs_titles v) in if t = [] then None else Some t)"

definition document_text :: "visible_state \<Rightarrow> str" where
  "document_text v = join [10] (vs_texts v)"

end
