(* ===== verification/PublicFetch.thy ===== *)
theory PublicFetch
  imports PageEvidence DiscoveryPolicy JsonText
begin

section \<open>Fetching public pages\<close>

text \<open>
  The fetching of \<open>skill/job_discovery/runtime/job_discovery.py\<close>. A function that talks to the network is a
  \<^emph>\<open>program\<close>: a tree whose nodes are what it asks of the outside, one branch for each answer, and whose leaves are
  its result or exception. A program ends whatever the answers are, and a property of its tree holds for all
  of them, however the answers change over time and whatever other threads do to the metadata of the run in between.

  Answers: \<open>getaddrinfo\<close>, \<open>requests.get\<close>, the anonymous list of one job board, the killable render process,
  the OCR slice of articles and the company adapters. Arguments: the table of public addresses of \<open>ipaddress\<close>,
  the tokenizer \<open>html.parser\<close>, \<open>parse_qs\<close>.
\<close>

subsection \<open>Programs\<close>

datatype dns_answer = Addresses "str list" | Unresolvable | ResolverRaises str

record response =
  hr_status :: int
  hr_redirect :: bool
  hr_location :: "str option"
  hr_text :: str
  hr_json :: "json option"

datatype http_answer = Response response | TransportFails str | RequestRaises str

text \<open>What \<open>run_wechat_slice\<close> gives: status, reason, hash and text.\<close>

datatype slice_answer = Slice str "str option" "str option" str | SliceRaises str

datatype adapter_answer = AdapterResult json | AdapterFails str

record page_failure =
  pf_url :: str
  pf_code :: str
  pf_effective :: "str option"
  pf_chain :: "str list"
  pf_status :: "int option"
  pf_message :: str

datatype 'a io =
    Done "fetch_error + 'a"
  | Resolve str "dns_answer \<Rightarrow> 'a io"
  | Get str "http_answer \<Rightarrow> 'a io"
  | PostSearch str str "http_answer \<Rightarrow> 'a io"
  | Render str bool "dict option \<Rightarrow> 'a io"
  | ReadSlice str "slice_answer \<Rightarrow> 'a io"
  | RunAdapter str str "adapter_answer \<Rightarrow> 'a io"
  | LoadDomains "json \<Rightarrow> 'a io"
  | StoreDomains "str list" str str "'a io"
  | Report page_failure "'a io"

text \<open>\<open>then_io p f\<close> goes on with what \<open>p\<close> gives or raises, \<open>bind_io\<close> only with what it gives.\<close>

primrec then_io :: "'a io \<Rightarrow> (fetch_error + 'a \<Rightarrow> 'b io) \<Rightarrow> 'b io" where
  "then_io (Done r) f = f r"
| "then_io (Resolve h k) f = Resolve h (\<lambda>a. then_io (k a) f)"
| "then_io (Get u k) f = Get u (\<lambda>a. then_io (k a) f)"
| "then_io (PostSearch u q k) f = PostSearch u q (\<lambda>a. then_io (k a) f)"
| "then_io (Render u l k) f = Render u l (\<lambda>a. then_io (k a) f)"
| "then_io (ReadSlice u k) f = ReadSlice u (\<lambda>a. then_io (k a) f)"
| "then_io (RunAdapter c u k) f = RunAdapter c u (\<lambda>a. then_io (k a) f)"
| "then_io (LoadDomains k) f = LoadDomains (\<lambda>a. then_io (k a) f)"
| "then_io (StoreDomains ds s c p) f = StoreDomains ds s c (then_io p f)"
| "then_io (Report e p) f = Report e (then_io p f)"

definition bind_io :: "'a io \<Rightarrow> ('a \<Rightarrow> 'b io) \<Rightarrow> 'b io" where
  "bind_io p f = then_io p (\<lambda>r. case r of Inl e \<Rightarrow> Done (Inl e) | Inr x \<Rightarrow> f x)"

definition give :: "'a \<Rightarrow> 'a io" where
  "give x = Done (Inr x)"

definition raise_io :: "fetch_error \<Rightarrow> 'a io" where
  "raise_io e = Done (Inl e)"

definition fail_io :: "string \<Rightarrow> 'a io" where
  "fail_io code = raise_io (Public (fetch_failure code))"

definition value_error :: fetch_error where
  "value_error = Raised (lit ''ValueError'')"

text \<open>A value that \<open>urllib.parse\<close> may refuse to give\<close>

definition from_url :: "'b option \<Rightarrow> ('b \<Rightarrow> 'a io) \<Rightarrow> 'a io" where
  "from_url v f = (case v of None \<Rightarrow> raise_io value_error | Some x \<Rightarrow> f x)"

subsection \<open>Configuration\<close>

text \<open>The company adapters: the package's registry of hosts, or, in a package without one, its own lookup.\<close>

datatype adapter_package = Registry "(str \<times> str list) list" | Lookup "str \<Rightarrow> str option"

record fetch_config =
  fc_brackets :: "str \<Rightarrow> bool"
  fc_global :: "str \<Rightarrow> bool"
  fc_html :: "str \<Rightarrow> html_event list"
  fc_query :: "str \<Rightarrow> string \<Rightarrow> str"
  fc_float :: "str \<Rightarrow> str"
  fc_render :: bool
  fc_ocr :: bool
  fc_adapters :: "adapter_package option"

definition split_of :: "fetch_config \<Rightarrow> str \<Rightarrow> url_parts option" where
  "split_of cfg u = url_split (fc_brackets cfg) [] u"

subsection \<open>Public URLs\<close>

definition public_shape :: "url_parts \<Rightarrow> bool" where
  "public_shape p \<longleftrightarrow>
     (up_scheme p = lit ''http'' \<or> up_scheme p = lit ''https'') \<and> up_host p \<noteq> [] \<and> \<not> has_userinfo (up_netloc p)"

definition all_global :: "fetch_config \<Rightarrow> dns_answer \<Rightarrow> bool" where
  "all_global cfg a \<longleftrightarrow> (case a of Addresses xs \<Rightarrow> \<forall>x \<in> set xs. fc_global cfg x | _ \<Rightarrow> False)"

definition is_public_url :: "fetch_config \<Rightarrow> str \<Rightarrow> bool io" where
  "is_public_url cfg u =
     from_url (split_of cfg u) (\<lambda>p.
       if \<not> public_shape p then give False
       else Resolve (up_host p) (\<lambda>a. case a of
           Unresolvable \<Rightarrow> give False
         | ResolverRaises s \<Rightarrow> raise_io (Raised s)
         | Addresses xs \<Rightarrow> give (all_global cfg (Addresses xs))))"

definition assert_public_url :: "fetch_config \<Rightarrow> str \<Rightarrow> unit io" where
  "assert_public_url cfg u =
     from_url (split_of cfg u) (\<lambda>p.
       if \<not> public_shape p then fail_io ''unsafe_public_url''
       else Resolve (up_host p) (\<lambda>a. case a of
           Unresolvable \<Rightarrow> fail_io ''public_host_unresolvable''
         | ResolverRaises s \<Rightarrow> raise_io (Raised s)
         | Addresses xs \<Rightarrow> if all_global cfg (Addresses xs) then give () else fail_io ''unsafe_public_url''))"

subsection \<open>The domain circuit of a run\<close>

definition domain_scope :: "fetch_config \<Rightarrow> str \<Rightarrow> str option" where
  "domain_scope cfg u =
     map_option (\<lambda>p.
       let host = rstrip_char 46 (lower (up_host p))
       in if on_domain host ''liepin.com'' then lit ''liepin.com'' else host)
     (split_of cfg u)"

definition blocked_domains :: "json \<Rightarrow> str list" where
  "blocked_domains raw = (case raw of JArr xs \<Rightarrow> dedup (map the_str (filter nonempty_str xs)) | _ \<Rightarrow> [])"

definition ensure_domain_available :: "fetch_config \<Rightarrow> str \<Rightarrow> unit io" where
  "ensure_domain_available cfg u =
     from_url (domain_scope cfg u) (\<lambda>domain.
       LoadDomains (\<lambda>raw.
         if domain \<in> set (blocked_domains raw) then
           raise_io (Public (public_error_of (lit ''domain_temporarily_blocked'')
             (domain_blocked_head @ domain @ domain_blocked_tail) (Some u) [] None))
         else give ()))"

definition blocking_code :: "str \<Rightarrow> bool" where
  "blocking_code code \<longleftrightarrow> code = lit ''anti_bot_challenge'' \<or> code = lit ''access_denied''"

definition remember_blocked_domain :: "fetch_config \<Rightarrow> str \<Rightarrow> public_error \<Rightarrow> unit io" where
  "remember_blocked_domain cfg u e =
     (if \<not> blocking_code (pe_code e) then give ()
      else LoadDomains (\<lambda>raw.
        from_url (domain_scope cfg u) (\<lambda>domain.
          StoreDomains (sort (dedup (blocked_domains raw @ [domain]))) domain (pe_code e) (give ()))))"

subsection \<open>The redirect walk\<close>

definition max_redirects :: nat where
  "max_redirects = 5"

text \<open>The response, its URL and the URLs on the way.\<close>

type_synonym fetch_result = "response \<times> str \<times> str list"

definition rewrapped :: "public_error \<Rightarrow> str \<Rightarrow> str list \<Rightarrow> int option \<Rightarrow> fetch_error" where
  "rewrapped e url chain status = Public (public_error_of (pe_code e) (pe_text e) (Some url) chain status)"

text \<open>
  The walk with the requests left in this attempt and the attempts left. A transport failure starts again from the first
  URL; the chain and the last status are not reset.
\<close>

function walk :: "fetch_config \<Rightarrow> str \<Rightarrow> nat \<Rightarrow> nat \<Rightarrow> str \<Rightarrow> str list \<Rightarrow> int option \<Rightarrow> fetch_result io" where
  "walk cfg url attempts 0 current chain seen =
     raise_io (Public (public_error_of (lit ''unsafe_public_url'') [] (Some current) chain seen))"
| "walk cfg url attempts (Suc hops) current chain seen =
     Get current (\<lambda>a. case a of
         RequestRaises s \<Rightarrow> raise_io (Raised s)
       | TransportFails s \<Rightarrow>
           if attempts = 0 then raise_io (Transport s)
           else walk cfg url (attempts - 1) (Suc max_redirects) url chain seen
       | Response r \<Rightarrow>
           if \<not> hr_redirect r \<or> \<not> present (hr_location r) then give (r, current, chain)
           else from_url (urljoin (fc_brackets cfg) current (the (hr_location r))) (\<lambda>target.
             then_io (assert_public_url cfg target) (\<lambda>v. case v of
                 Inl (Public e) \<Rightarrow> raise_io (rewrapped e target (chain @ [target]) (Some (hr_status r)))
               | Inl e \<Rightarrow> raise_io e
               | Inr _ \<Rightarrow> walk cfg url attempts hops target (chain @ [target]) (Some (hr_status r)))))"
  by pat_completeness auto
termination
  by (relation "measures [\<lambda>(cfg, url, attempts, hops, current, chain, seen). attempts,
      \<lambda>(cfg, url, attempts, hops, current, chain, seen). hops]") auto

definition fetch_validated :: "fetch_config \<Rightarrow> str \<Rightarrow> fetch_result io" where
  "fetch_validated cfg url = walk cfg url 1 (Suc max_redirects) url [url] None"

subsection \<open>One page without a browser\<close>

text \<open>\<open>response.raise_for_status()\<close>\<close>

definition http_error :: "int \<Rightarrow> bool" where
  "http_error n \<longleftrightarrow> 400 \<le> n \<and> n < 600"

definition page_of_response :: "fetch_config \<Rightarrow> str \<Rightarrow> fetch_result \<Rightarrow> fetch_error + page \<times> str" where
  "page_of_response cfg url f =
     (let (r, effective, chain) = f; status = hr_status r; v = visible_document (fc_html cfg (hr_text r)) in
      if status \<notin> {401, 403, 429} \<and> http_error status then Inl (Public (fetch_failure ''public_fetch_failed''))
      else map_sum id (\<lambda>p. (p, hr_text r))
        (build_evidence_page (fc_brackets cfg) url effective (document_title v) (document_text v) (Some status) chain))"

definition fetch_with_html :: "fetch_config \<Rightarrow> str \<Rightarrow> (page \<times> str) io" where
  "fetch_with_html cfg url =
     then_io (fetch_validated cfg url) (\<lambda>v. case v of
         Inl (Transport s) \<Rightarrow> fail_io ''public_fetch_failed''
       | Inl e \<Rightarrow> raise_io e
       | Inr f \<Rightarrow> Done (page_of_response cfg url f))"

definition fetch_requests :: "fetch_config \<Rightarrow> str \<Rightarrow> page io" where
  "fetch_requests cfg url = bind_io (fetch_with_html cfg url) (\<lambda>(p, html). give p)"

subsection \<open>Articles and company adapters\<close>

definition article_host :: str where
  "article_host = lit ''mp.weixin.qq.com''"

definition article_failed :: fetch_error where
  "article_failed = Public (public_error_of (lit ''wechat_ocr_failed'') wechat_failed_msg None [] None)"

definition article_page :: "str \<Rightarrow> str \<Rightarrow> str \<Rightarrow> page" where
  "article_page url hash text =
     \<lparr>pg_artifact = lit ''observed:'' @ hash, pg_source = url, pg_title = None, pg_text = text, pg_hash = hash,
      pg_effective = None, pg_chain = [], pg_status = None,
      pg_quality = fst (classify_page_quality text), pg_signal = snd (classify_page_quality text)\<rparr>"

definition fetch_article :: "fetch_config \<Rightarrow> str \<Rightarrow> page option io" where
  "fetch_article cfg url =
     from_url (split_of cfg url) (\<lambda>p.
       if lower (up_host p) \<noteq> article_host then give None
       else if \<not> fc_ocr cfg then fail_io ''wechat_ocr_disabled''
       else ReadSlice url (\<lambda>a. case a of
           SliceRaises s \<Rightarrow> raise_io (Raised s)
         | Slice status reason hash text \<Rightarrow>
             if status = lit ''needs_manual_review'' \<and> reason = Some (lit ''ocr_disabled'')
               then fail_io ''wechat_ocr_disabled''
             else if \<not> present hash \<or> text = [] then raise_io article_failed
             else give (Some (article_page url (the hash) text))))"

text \<open>\<open>pattern.lstrip("*.")\<close> and the first company one of whose patterns covers the host.\<close>

definition host_matches :: "str \<Rightarrow> str \<Rightarrow> bool" where
  "host_matches host pattern \<longleftrightarrow>
     host = pattern \<or> ends_with host (46 # dropWhile (\<lambda>c. c = 42 \<or> c = 46) pattern)"

definition nonempty_text :: "str \<Rightarrow> str option" where
  "nonempty_text s = (if s = [] then None else Some s)"

definition host_to_company :: "(str \<times> str list) list \<Rightarrow> str \<Rightarrow> str option" where
  "host_to_company registry host =
     (case find (\<lambda>(company, hosts). \<exists>h \<in> set hosts. host_matches host h) registry of
        None \<Rightarrow> None | Some (company, hosts) \<Rightarrow> nonempty_text company)"

definition adapter_company :: "fetch_config \<Rightarrow> str \<Rightarrow> str option" where
  "adapter_company cfg url =
     (case fc_adapters cfg of
        None \<Rightarrow> None
      | Some (Lookup f) \<Rightarrow> Option.bind (f url) nonempty_text
      | Some (Registry registry) \<Rightarrow>
          (let host = (case split_of cfg url of None \<Rightarrow> [] | Some p \<Rightarrow> lower (up_host p))
           in if host = [] then None else host_to_company registry host))"

text \<open>\<open>json.dumps(v, ensure_ascii=False, indent=2)\<close>\<close>

definition new_line :: "nat \<Rightarrow> str" where
  "new_line level = 10 # replicate (2 * level) 32"

fun dumps_indent :: "nat \<Rightarrow> json \<Rightarrow> str" where
  "dumps_indent level (JArr xs) =
     (if xs = [] then lit ''[]''
      else 91 # new_line (level + 1) @ join (44 # new_line (level + 1)) (map (dumps_indent (level + 1)) xs)
           @ new_line level @ [93])"
| "dumps_indent level (JObj d) =
     (if d = [] then lit ''{}''
      else 123 # new_line (level + 1)
           @ join (44 # new_line (level + 1)) (map (\<lambda>(k, v). quote k @ lit '': '' @ dumps_indent (level + 1) v) d)
           @ new_line level @ [125])"
| "dumps_indent level v = dumps_default v"

definition record_title :: "json list \<Rightarrow> str option" where
  "record_title records =
     (case records of
        JObj d # _ \<Rightarrow> (case dget d (lit ''title'') of JStr s \<Rightarrow> Some s | _ \<Rightarrow> None)
      | _ \<Rightarrow> None)"

definition adapter_records :: "json \<Rightarrow> json list" where
  "adapter_records result =
     (case result of JObj d \<Rightarrow> (case dget d (lit ''records'') of JArr xs \<Rightarrow> xs | _ \<Rightarrow> []) | _ \<Rightarrow> [])"

definition fetch_via_adapter :: "fetch_config \<Rightarrow> str \<Rightarrow> page option io" where
  "fetch_via_adapter cfg url =
     (case adapter_company cfg url of
        None \<Rightarrow> give None
      | Some company \<Rightarrow> RunAdapter company url (\<lambda>a. case a of
            AdapterFails code \<Rightarrow> raise_io (Public (public_error_of (lit ''adapter:'' @ code) [] None [] None))
          | AdapterResult result \<Rightarrow>
              if adapter_records result = [] then fail_io ''adapter:empty_result''
              else give (Some (observed_page url (record_title (adapter_records result))
                (dumps_indent 0 (JArr (adapter_records result))) None [] None))))"

subsection \<open>The links of a document\<close>

definition job_url_tokens :: "string list" where
  "job_url_tokens = [''career'', ''job'', ''jobs'', ''talent'', ''recruit'', ''zhaopin'', ''position'',
     ''campus'', ''greenhouse'', ''lever.co'', ''workday'']"

definition linkedin_detail :: "url_parts \<Rightarrow> url_parts \<Rightarrow> bool" where
  "linkedin_detail origin target \<longleftrightarrow>
     rstrip_char 46 (lower (up_host origin)) = lit ''www.linkedin.com''
     \<and> starts_with (up_path origin) (lit ''/jobs-guest/jobs/api/seeMoreJobPostings/search'')
     \<and> on_domain (rstrip_char 46 (lower (up_host target))) ''linkedin.com''
     \<and> starts_with (up_path target) (lit ''/jobs/view/'')"

definition same_host_or_linkedin :: "url_parts \<Rightarrow> url_parts \<Rightarrow> bool" where
  "same_host_or_linkedin origin target \<longleftrightarrow> up_host target = up_host origin \<or> linkedin_detail origin target"

definition keeps_link :: "url_parts \<Rightarrow> url_parts \<Rightarrow> bool" where
  "keeps_link origin target \<longleftrightarrow>
     same_host_or_linkedin origin target \<and> marked (map lit job_url_tokens) (lower (up_path target))"

definition add_link :: "fetch_config \<Rightarrow> str \<Rightarrow> str \<Rightarrow> str list \<Rightarrow> str list io" where
  "add_link cfg origin href links =
     from_url (urljoin (fc_brackets cfg) origin href) (\<lambda>target.
       if \<not> starts_with target (lit ''http://'') \<and> \<not> starts_with target (lit ''https://'') then give links
       else bind_io (is_public_url cfg target) (\<lambda>public.
         if \<not> public then give links
         else from_url (split_of cfg origin) (\<lambda>o1. from_url (split_of cfg target) (\<lambda>t.
           if keeps_link o1 t \<and> target \<notin> set links then give (links @ [target]) else give links))))"

definition link_candidates :: "(str \<times> str option) list \<Rightarrow> str list" where
  "link_candidates attrs =
     (let data = map the (filter present (map (attribute attrs)
            [''data-href'', ''data-url'', ''data-link'', ''data-detail-url'']))
      in if present (attribute attrs ''href'') then the (attribute attrs ''href'') # data
         else case data of [] \<Rightarrow> [] | d # _ \<Rightarrow> d # data)"

fun add_links :: "fetch_config \<Rightarrow> str \<Rightarrow> str list \<Rightarrow> str list \<Rightarrow> str list io" where
  "add_links cfg origin [] links = give links"
| "add_links cfg origin (h # hs) links =
     bind_io (add_link cfg origin h links) (add_links cfg origin hs)"

definition link_ignored :: "string list" where
  "link_ignored = [''script'', ''style'', ''noscript'']"

fun collect_links :: "fetch_config \<Rightarrow> str \<Rightarrow> html_event list \<Rightarrow> nat \<Rightarrow> str list \<Rightarrow> str list io" where
  "collect_links cfg origin [] depth links = give links"
| "collect_links cfg origin (StartTag tag attrs # es) depth links =
     (let inside = (if tag_in tag link_ignored then depth + 1 else depth) in
      if tag = lit ''a'' \<and> inside = 0 then
        bind_io (add_links cfg origin (link_candidates attrs) links) (collect_links cfg origin es inside)
      else collect_links cfg origin es inside links)"
| "collect_links cfg origin (EndTag tag # es) depth links =
     collect_links cfg origin es (if tag_in tag link_ignored then depth - 1 else depth) links"
| "collect_links cfg origin (TextData s # es) depth links = collect_links cfg origin es depth links"

subsection \<open>The browser\<close>

text \<open>
  \<open>_render_with_playwright_process\<close>: the URL is checked, then a child process renders it. The answer \<open>None\<close> is
  a deadline, a failed exit or an output that is no JSON. The \<open>links\<close> of the answer are the targets in the document;
  the child (\<open>playwright_worker.py\<close>) puts them through \<open>_collect_page_links\<close>, which makes the checks of \<open>add_link\<close>,
  and an exception there is a failed render. The in-process seams of the tests are left out.
\<close>

record rendered =
  rd_body :: str
  rd_title :: "str option"
  rd_links :: "str list"
  rd_url :: str
  rd_status :: "int option"

definition render_error :: "str \<Rightarrow> dict \<Rightarrow> fetch_error" where
  "render_error url d =
     Public (public_error_of (py_str (dget d (lit ''error''))) []
       (Some (case dget d (lit ''effective_url'') of JStr u \<Rightarrow> u | _ \<Rightarrow> url)) []
       (if is_int (dget d (lit ''status_code'')) then Some (the_int (dget d (lit ''status_code''))) else None))"

definition rendered_links :: "dict \<Rightarrow> str list" where
  "rendered_links d = (case dget d (lit ''links'') of JArr xs \<Rightarrow> map the_str (filter is_str xs) | _ \<Rightarrow> [])"

text \<open>What the output of the child becomes, with the links it kept\<close>

definition rendered_of :: "str \<Rightarrow> dict \<Rightarrow> str list \<Rightarrow> rendered io" where
  "rendered_of url d targets =
     (if \<not> is_str (dget d (lit ''body'')) then fail_io ''public_fetch_failed''
      else give \<lparr>rd_body = the_str (dget d (lit ''body'')),
        rd_title = (case dget d (lit ''title'') of JStr t \<Rightarrow> Some t | _ \<Rightarrow> None),
        rd_links = targets,
        rd_url = (case dget d (lit ''effective_url'') of JStr u \<Rightarrow> u | _ \<Rightarrow> url),
        rd_status = Some (if is_int (dget d (lit ''status_code''))
          then the_int (dget d (lit ''status_code'')) else 200)\<rparr>)"

definition render_answer :: "fetch_config \<Rightarrow> str \<Rightarrow> bool \<Rightarrow> dict option \<Rightarrow> rendered io" where
  "render_answer cfg url links a =
     (case a of
        None \<Rightarrow> fail_io ''public_fetch_failed''
      | Some d \<Rightarrow>
          if truthy (dget d (lit ''error'')) then raise_io (render_error url d)
          else then_io (add_links cfg url (if links then rendered_links d else []) []) (\<lambda>v. case v of
              Inl _ \<Rightarrow> raise_io (render_error url [(lit ''error'', JStr (lit ''public_fetch_failed''))])
            | Inr targets \<Rightarrow> rendered_of url d targets))"

definition render_page :: "fetch_config \<Rightarrow> str \<Rightarrow> bool \<Rightarrow> rendered io" where
  "render_page cfg url links =
     bind_io (assert_public_url cfg url) (\<lambda>_. Render url links (render_answer cfg url links))"

subsection \<open>The order of the links\<close>

definition detail_words :: "string list" where
  "detail_words = [''content'', ''detail'', ''position'', ''job'', ''jobs'', ''post'']"

definition id_names :: "string list" where
  "id_names = [''id'', ''jobid'', ''job_id'', ''job-id'', ''positionid'', ''position_id'', ''position-id'',
     ''postid'', ''post_id'', ''post-id'']"

text \<open>A word between two slashes, or between a slash and the end; a name at the start or after an underscore.\<close>

definition detail_route :: "str \<Rightarrow> bool" where
  "detail_route path \<longleftrightarrow> (\<exists>seg \<in> set (tl (split_on 47 path)). seg \<in> lit ` set detail_words)"

definition detail_query :: "str \<Rightarrow> bool" where
  "detail_query q \<longleftrightarrow>
     (\<exists>n \<in> set id_names. starts_with q (lit n @ lit ''='') \<or> contains (lit ''_'' @ lit n @ lit ''='') q)"

definition id_route :: "str \<Rightarrow> bool" where
  "id_route path \<longleftrightarrow>
     (let segs = split_on 47 path in 3 \<le> length segs \<and> last segs \<noteq> []
       \<and> last (butlast segs) \<in> lit ` {''id'', ''position'', ''post''})"

definition link_score :: "url_parts \<Rightarrow> int" where
  "link_score p =
     (let path = lower (rstrip_char 47 (up_path p)) in
      (if detail_route path then 4 else 0) + (if detail_query (lower (up_query p)) then 2 else 0)
      + (if id_route path then 1 else 0)
      - (if after_last 47 path \<in> lit ` {''index'', ''index.html'', ''list'', ''search'', ''careers''} then 3 else 0))"

definition prioritize_detail_links :: "fetch_config \<Rightarrow> str list \<Rightarrow> str list option" where
  "prioritize_detail_links cfg links =
     (if \<exists>u \<in> set links. split_of cfg u = None then None
      else Some (sort_key (\<lambda>u. - link_score (the (split_of cfg u))) links))"

subsection \<open>Lists of two boards\<close>

definition recommend_url :: str where
  "recommend_url = lit ''https://gp-api.iguopin.com/api/jobs/v1/recom-job''"

definition iguopin_denied :: "int \<Rightarrow> fetch_error" where
  "iguopin_denied status = Public (public_error_of (lit ''iguopin_detail_api_denied'') [] None [] (Some status))"

text \<open>\<open>records.get("list") or records.get("records") or records.get("rows")\<close> of the data, or the data itself\<close>

definition iguopin_records :: "json \<Rightarrow> json list" where
  "iguopin_records envelope =
     (let data = (case envelope of JObj d \<Rightarrow> dget d (lit ''data'') | _ \<Rightarrow> JNull);
          records = (case data of
              JObj d \<Rightarrow> (if truthy (dget d (lit ''list'')) then dget d (lit ''list'')
                else if truthy (dget d (lit ''records'')) then dget d (lit ''records'')
                else dget d (lit ''rows''))
            | v \<Rightarrow> v)
      in case records of JArr xs \<Rightarrow> xs | _ \<Rightarrow> [])"

definition iguopin_denial :: "json \<Rightarrow> int option" where
  "iguopin_denial envelope =
     (case envelope of
        JObj d \<Rightarrow> (let code = py_str (dget d (lit ''code''))
          in if code = lit ''401'' then Some 401 else if code = lit ''403'' then Some 403 else None)
      | _ \<Rightarrow> None)"

definition iguopin_job_id :: "dict \<Rightarrow> json" where
  "iguopin_job_id r = (if truthy (dget r (lit ''job_id'')) then dget r (lit ''job_id'') else dget r (lit ''id''))"

definition iguopin_detail_url :: "json \<Rightarrow> str" where
  "iguopin_detail_url job = lit ''https://www.iguopin.com/job/detail?'' @ urlencode [(''id'', py_str job)]"

text \<open>Each derived URL is checked before it is added, unless it is in the list already.\<close>

fun checked_urls :: "fetch_config \<Rightarrow> str list \<Rightarrow> str list \<Rightarrow> str list io" where
  "checked_urls cfg [] urls = give urls"
| "checked_urls cfg (u # us) urls =
     bind_io (assert_public_url cfg u) (\<lambda>_.
       checked_urls cfg us (if u \<in> set urls then urls else urls @ [u]))"

definition iguopin_answer :: "fetch_config \<Rightarrow> http_answer \<Rightarrow> str list io" where
  "iguopin_answer cfg a =
     (case a of
        RequestRaises s \<Rightarrow> raise_io (Raised s)
      | TransportFails s \<Rightarrow> give []
      | Response r \<Rightarrow>
          if hr_status r = 401 \<or> hr_status r = 403 then raise_io (iguopin_denied (hr_status r))
          else (case hr_json r of
              None \<Rightarrow> give []
            | Some envelope \<Rightarrow>
                (case iguopin_denial envelope of
                   Some status \<Rightarrow> raise_io (iguopin_denied status)
                 | None \<Rightarrow> checked_urls cfg (map iguopin_detail_url (filter (\<lambda>j. j \<noteq> JNull)
                     (map iguopin_job_id (dicts_of (iguopin_records envelope))))) [])))"

definition iguopin_list_detail_urls :: "fetch_config \<Rightarrow> str \<Rightarrow> str list io" where
  "iguopin_list_detail_urls cfg url =
     from_url (split_of cfg url) (\<lambda>p.
       let keyword = strip (fc_query cfg (up_query p) ''keyword'') in
       if lower (up_host p) \<notin> lit ` {''iguopin.com'', ''www.iguopin.com''}
          \<or> \<not> starts_with (lower (up_path p)) (lit ''/job'') \<or> keyword = [] then give []
       else bind_io (assert_public_url cfg recommend_url) (\<lambda>_.
         PostSearch recommend_url keyword (iguopin_answer cfg)))"

definition tencent_post_ids :: "json \<Rightarrow> str list" where
  "tencent_post_ids envelope =
     (let data = (case envelope of JObj d \<Rightarrow> dget d (lit ''Data'') | _ \<Rightarrow> JNull);
          posts = (case data of JObj d \<Rightarrow> dget d (lit ''Posts'') | _ \<Rightarrow> JNull);
          ids = map (\<lambda>r. let v = dget r (lit ''PostId'') in if truthy v then py_str v else [])
            (dicts_of (case posts of JArr xs \<Rightarrow> xs | _ \<Rightarrow> []))
      in filter (\<lambda>i. 6 \<le> length i \<and> length i \<le> 32 \<and> (\<forall>c \<in> set i. is_decimal c)) ids)"

definition tencent_detail_url :: "str \<Rightarrow> str" where
  "tencent_detail_url i = lit ''https://careers.tencent.com/jobdesc.html?'' @ urlencode [(''postId'', i)]"

definition tencent_query_detail_urls :: "fetch_config \<Rightarrow> str \<Rightarrow> str \<Rightarrow> str list io" where
  "tencent_query_detail_urls cfg url body =
     from_url (split_of cfg url) (\<lambda>p.
       if lower (up_host p) \<noteq> lit ''careers.tencent.com''
          \<or> lower (up_path p) \<noteq> lit ''/tencentcareer/api/post/query'' then give []
       else case loads (fc_float cfg) body of
           None \<Rightarrow> give []
         | Some envelope \<Rightarrow> checked_urls cfg (map tencent_detail_url (tencent_post_ids envelope)) [])"

subsection \<open>Expanding a list\<close>

definition fallback_code :: "str \<Rightarrow> bool" where
  "fallback_code code \<longleftrightarrow>
     code \<in> lit ` {''public_fetch_failed'', ''empty_public_page'', ''public_page_content_insufficient''}"

definition failure_of :: "str \<Rightarrow> public_error \<Rightarrow> page_failure" where
  "failure_of url e = \<lparr>pf_url = url, pf_code = pe_code e, pf_effective = pe_url e, pf_chain = pe_chain e,
     pf_status = pe_status e, pf_message = pe_text e\<rparr>"

text \<open>A link that failed: its domain is remembered, the failure recorded, and the loop goes on unless the domain blocks.\<close>

definition link_failed :: "fetch_config \<Rightarrow> str \<Rightarrow> public_error \<Rightarrow> page list io \<Rightarrow> page list io" where
  "link_failed cfg link e go_on =
     bind_io (remember_blocked_domain cfg link e) (\<lambda>_.
       Report (failure_of link e) (if blocking_code (pe_code e) then give [] else go_on))"

definition add_page :: "page \<Rightarrow> page list io \<Rightarrow> page list io" where
  "add_page p go_on = bind_io go_on (\<lambda>ps. give (p # ps))"

text \<open>What becomes of a link that was rendered, or not requested: a page, or a failure of the link.\<close>

definition page_or_failed ::
  "fetch_config \<Rightarrow> str \<Rightarrow> fetch_error + page \<Rightarrow> page list io \<Rightarrow> page list io" where
  "page_or_failed cfg link v go_on =
     (case v of
        Inr p \<Rightarrow> add_page p go_on
      | Inl (Public e) \<Rightarrow> link_failed cfg link e go_on
      | Inl e \<Rightarrow> raise_io e)"

definition render_link :: "fetch_config \<Rightarrow> str \<Rightarrow> page list io \<Rightarrow> page list io" where
  "render_link cfg link go_on =
     then_io (render_page cfg link False) (\<lambda>v. case v of
         Inl e \<Rightarrow> page_or_failed cfg link (Inl e) go_on
       | Inr rd \<Rightarrow> page_or_failed cfg link
           (build_evidence_page (fc_brackets cfg) link link (rd_title rd) (rd_body rd) (Some 200) []) go_on)"

definition fetch_link :: "fetch_config \<Rightarrow> str \<Rightarrow> page list io \<Rightarrow> page list io" where
  "fetch_link cfg link go_on =
     then_io (fetch_requests cfg link) (\<lambda>v. case v of
         Inl (Public e) \<Rightarrow>
           if fallback_code (pe_code e) \<and> fc_render cfg then render_link cfg link go_on
           else link_failed cfg link e go_on
       | _ \<Rightarrow> page_or_failed cfg link v go_on)"

fun expand_loop :: "fetch_config \<Rightarrow> str list \<Rightarrow> page list io" where
  "expand_loop cfg [] = give []"
| "expand_loop cfg (link # links) =
     then_io (ensure_domain_available cfg link) (\<lambda>available. case available of
         Inl (Public e) \<Rightarrow> Report (failure_of link e) (give [])
       | Inl e \<Rightarrow> raise_io e
       | Inr _ \<Rightarrow> fetch_link cfg link (expand_loop cfg links))"

definition expand_from_list_links :: "fetch_config \<Rightarrow> str list \<Rightarrow> str \<Rightarrow> nat \<Rightarrow> page list io" where
  "expand_from_list_links cfg links body limit =
     (if length links < 2 \<or> marked (map lower jd_section_markers) (lower (take marker_scan_head body)) then give []
      else from_url (prioritize_detail_links cfg links) (\<lambda>ordered. expand_loop cfg (take limit ordered)))"

definition max_list_expansion :: nat where
  "max_list_expansion = 5"

subsection \<open>The campus portal\<close>

definition campus_host :: str where
  "campus_host = lit ''career.hebut.edu.cn''"

definition campus_index :: "nat \<Rightarrow> str" where
  "campus_index n = lit ''https://career.hebut.edu.cn/correcruit/index.html?p='' @ str_of_int (int n)"

definition add_unseen :: "page list \<Rightarrow> page list \<times> str list \<Rightarrow> page list \<times> str list" where
  "add_unseen ps acc =
     fold (\<lambda>p (pages, seen). if pg_source p \<in> set seen then (pages, seen)
       else (pages @ [p], seen @ [pg_source p])) ps acc"

fun campus_loop :: "fetch_config \<Rightarrow> str list \<Rightarrow> page list \<times> str list \<Rightarrow> page list io" where
  "campus_loop cfg [] acc = give (fst acc)"
| "campus_loop cfg (index # rest) acc =
     then_io (fetch_with_html cfg index) (\<lambda>v. case v of
         Inl (Public e) \<Rightarrow>
           bind_io (remember_blocked_domain cfg index e) (\<lambda>_.
             Report (failure_of index e) (campus_loop cfg rest acc))
       | Inl e \<Rightarrow> raise_io e
       | Inr (p, html) \<Rightarrow>
           bind_io (collect_links cfg index (fc_html cfg html) 0 []) (\<lambda>links.
             bind_io (expand_from_list_links cfg links (pg_text p) 20) (\<lambda>details.
               campus_loop cfg rest (add_unseen details (add_unseen [p] acc)))))"

definition expand_official_campus_detail :: "fetch_config \<Rightarrow> str \<Rightarrow> page \<Rightarrow> page list io" where
  "expand_official_campus_detail cfg url p =
     from_url (split_of cfg url) (\<lambda>parts.
       if pg_quality p \<noteq> JdComplete \<or> lower (up_host parts) \<noteq> campus_host
          \<or> \<not> starts_with (lower (up_path parts)) (lit ''/correcruit/content/'') then give []
       else campus_loop cfg (map campus_index [1, 2]) ([], [url]))"

subsection \<open>One URL of a batch\<close>

definition expand_with :: "fetch_config \<Rightarrow> page \<Rightarrow> str list \<Rightarrow> page list io" where
  "expand_with cfg p links = add_page p (expand_from_list_links cfg links (pg_text p) max_list_expansion)"

text \<open>What follows the first page, whether it was requested or rendered\<close>

definition expand_page :: "fetch_config \<Rightarrow> str \<Rightarrow> page \<Rightarrow> str list \<Rightarrow> page list io" where
  "expand_page cfg url p links =
     then_io (iguopin_list_detail_urls cfg url) (\<lambda>v. case v of
         Inl (Public e) \<Rightarrow> Report (failure_of url e) (give [p])
       | Inl e \<Rightarrow> raise_io e
       | Inr details \<Rightarrow>
           if details \<noteq> [] then expand_with cfg p details
           else bind_io (expand_official_campus_detail cfg url p) (\<lambda>campus.
             if campus \<noteq> [] then give (p # campus) else expand_with cfg p links))"

definition fetch_rendered :: "fetch_config \<Rightarrow> str \<Rightarrow> page list io" where
  "fetch_rendered cfg url =
     bind_io (render_page cfg url True) (\<lambda>rd.
       case build_evidence_page (fc_brackets cfg) url (rd_url rd) (rd_title rd) (rd_body rd) (rd_status rd) [] of
         Inr p \<Rightarrow> expand_page cfg url p (rd_links rd)
       | Inl (Public e) \<Rightarrow> bind_io (remember_blocked_domain cfg url e) (\<lambda>_. raise_io (Public e))
       | Inl e \<Rightarrow> raise_io e)"

definition fetch_listed :: "fetch_config \<Rightarrow> str \<Rightarrow> page list io" where
  "fetch_listed cfg url =
     then_io (fetch_with_html cfg url) (\<lambda>v. case v of
         Inl (Public e) \<Rightarrow>
           bind_io (remember_blocked_domain cfg url e) (\<lambda>_.
             if fallback_code (pe_code e) \<and> fc_render cfg then fetch_rendered cfg url else raise_io (Public e))
       | Inl e \<Rightarrow> raise_io e
       | Inr (p, html) \<Rightarrow>
           bind_io (collect_links cfg url (fc_html cfg html) 0 []) (\<lambda>links.
             bind_io (tencent_query_detail_urls cfg url html) (\<lambda>details.
               if details \<noteq> [] then expand_with cfg p details else expand_page cfg url p links)))"

text \<open>The channels that own their hosts come first; \<open>f\<close> is the generic one.\<close>

definition owned_or :: "fetch_config \<Rightarrow> str \<Rightarrow> (page \<Rightarrow> 'a) \<Rightarrow> 'a io \<Rightarrow> 'a io" where
  "owned_or cfg url single generic =
     bind_io (assert_public_url cfg url) (\<lambda>_.
       bind_io (ensure_domain_available cfg url) (\<lambda>_.
         bind_io (fetch_article cfg url) (\<lambda>article. case article of
             Some p \<Rightarrow> give (single p)
           | None \<Rightarrow> bind_io (fetch_via_adapter cfg url) (\<lambda>adapted. case adapted of
                 Some p \<Rightarrow> give (single p)
               | None \<Rightarrow> generic))))"

definition fetch_one_with_expansion :: "fetch_config \<Rightarrow> str \<Rightarrow> page list io" where
  "fetch_one_with_expansion cfg url = owned_or cfg url (\<lambda>p. [p]) (fetch_listed cfg url)"

subsection \<open>The single-page tool\<close>

definition fetch_public_job_page :: "fetch_config \<Rightarrow> str \<Rightarrow> page io" where
  "fetch_public_job_page cfg url =
     owned_or cfg url (\<lambda>p. p)
       (then_io (fetch_requests cfg url) (\<lambda>v. case v of
           Inl (Public e) \<Rightarrow>
             bind_io (remember_blocked_domain cfg url e) (\<lambda>_.
               if \<not> (fallback_code (pe_code e) \<and> fc_render cfg) then raise_io (Public e)
               else bind_io (render_page cfg url False) (\<lambda>rd.
                 case build_evidence_page (fc_brackets cfg) url (rd_url rd) (rd_title rd) (rd_body rd)
                     (rd_status rd) [] of
                   Inr p \<Rightarrow> give p
                 | Inl (Public e) \<Rightarrow> bind_io (remember_blocked_domain cfg url e) (\<lambda>_. raise_io (Public e))
                 | Inl e \<Rightarrow> raise_io e))
         | Inl e \<Rightarrow> raise_io e
         | Inr p \<Rightarrow> give p))"

subsection \<open>The batch\<close>

text \<open>\<open>FetchPublicJobPagesInput\<close>\<close>

definition fetch_urls :: "str list \<Rightarrow> str list option" where
  "fetch_urls vs =
     (let cleaned = map strip vs in
      if 1 \<le> length vs \<and> length vs \<le> 10 \<and> [] \<notin> set cleaned \<and> distinct cleaned then Some cleaned else None)"

definition batch_failure :: "str \<Rightarrow> fetch_error \<Rightarrow> page_failure" where
  "batch_failure url e =
     (case e of
        Public pe \<Rightarrow> failure_of url pe
      | Transport s \<Rightarrow> failure_of url \<lparr>pe_code = lit ''public_fetch_failed'', pe_text = s, pe_url = None,
          pe_chain = [], pe_status = None\<rparr>
      | Raised s \<Rightarrow> failure_of url \<lparr>pe_code = lit ''public_fetch_failed'', pe_text = s, pe_url = None,
          pe_chain = [], pe_status = None\<rparr>)"

record fetch_output =
  fo_pages :: "page list"
  fo_failures :: "page_failure list"

text \<open>The results of the URLs in the order of the input, after the failures recorded on the way\<close>

definition batch_output :: "page_failure list \<Rightarrow> (str \<times> (fetch_error + page list)) list \<Rightarrow> fetch_output" where
  "batch_output reported results =
     \<lparr>fo_pages = concat (map (\<lambda>(u, r). case r of Inr ps \<Rightarrow> ps | Inl e \<Rightarrow> []) results),
      fo_failures = reported @ List.map_filter (\<lambda>(u, r). case r of Inr ps \<Rightarrow> None | Inl e \<Rightarrow> Some (batch_failure u e))
        results\<rparr>"

end
