(* ===== verification/FetchSafety.thy ===== *)
theory FetchSafety
  imports PublicFetch
begin

section \<open>What a fetch may do\<close>

text \<open>
  A weakest precondition for programs: \<open>wp cfg Q A n p\<close> says that, with the hosts \<open>A\<close> resolved to public
  addresses and \<open>n\<close> requests made, the program \<open>p\<close> sends requests to allowed URLs only, whatever the answers are,
  and that its result satisfies \<open>Q\<close> with the hosts and the count it has then. The rules follow the structure of
  programs, and one lemma per function of the model states what the function needs and gives.
\<close>

definition allowed :: "fetch_config \<Rightarrow> str set \<Rightarrow> str \<Rightarrow> bool" where
  "allowed cfg A u \<longleftrightarrow>
     (\<exists>p. split_of cfg u = Some p \<and> public_shape p \<and> up_host p \<in> A) \<or> u = campus_index 1 \<or> u = campus_index 2"

lemma allowed_mono: "allowed cfg A u \<Longrightarrow> A \<subseteq> B \<Longrightarrow> allowed cfg B u"
  by (auto simp: allowed_def)

text \<open>The public hosts after an answer of the resolver\<close>

definition known :: "fetch_config \<Rightarrow> dns_answer \<Rightarrow> str \<Rightarrow> str set \<Rightarrow> str set" where
  "known cfg a h A = (if all_global cfg a then insert h A else A)"

lemma known_mono: "A \<subseteq> B \<Longrightarrow> known cfg a h A \<subseteq> known cfg a h B"
  and known_extends: "A \<subseteq> known cfg a h A"
  by (auto simp: known_def)

primrec wp :: "fetch_config \<Rightarrow> (str set \<Rightarrow> nat \<Rightarrow> fetch_error + 'a \<Rightarrow> bool) \<Rightarrow> 'a io \<Rightarrow> str set \<Rightarrow> nat \<Rightarrow> bool" where
  "wp cfg Q (Done r) = (\<lambda>A n. Q A n r)"
| "wp cfg Q (Resolve h k) = (\<lambda>A n. \<forall>a. wp cfg Q (k a) (known cfg a h A) n)"
| "wp cfg Q (Get u k) = (\<lambda>A n. allowed cfg A u \<and> (\<forall>a. wp cfg Q (k a) A (Suc n)))"
| "wp cfg Q (PostSearch u q k) = (\<lambda>A n. allowed cfg A u \<and> (\<forall>a. wp cfg Q (k a) A (Suc n)))"
| "wp cfg Q (Render u l k) = (\<lambda>A n. allowed cfg A u \<and> (\<forall>a. wp cfg Q (k a) A (Suc n)))"
| "wp cfg Q (ReadSlice u k) = (\<lambda>A n. \<forall>a. wp cfg Q (k a) A n)"
| "wp cfg Q (RunAdapter c u k) = (\<lambda>A n. \<forall>a. wp cfg Q (k a) A n)"
| "wp cfg Q (LoadDomains k) = (\<lambda>A n. \<forall>a. wp cfg Q (k a) A n)"
| "wp cfg Q (StoreDomains ds s c p) = wp cfg Q p"
| "wp cfg Q (Report e p) = wp cfg Q p"

lemma wp_then: "wp cfg Q (then_io p f) A n = wp cfg (\<lambda>B m r. wp cfg Q (f r) B m) p A n"
  by (induction p arbitrary: A n) simp_all

lemma wp_conseq:
  assumes "wp cfg P p A n" and "\<And>B m r. P B m r \<Longrightarrow> A \<subseteq> B \<Longrightarrow> Q B m r"
  shows "wp cfg Q p A n"
  using assms
proof (induction p arbitrary: A n)
  case (Resolve h k)
  have "wp cfg Q (k a) (known cfg a h A) n" for a
    by (rule Resolve.IH [OF rangeI]) (use Resolve.prems known_extends [of A cfg a h] in auto)
  then show ?case by simp
qed auto

text \<open>With the hosts \<open>A\<close> known to be public, \<open>p\<close> makes at most \<open>c\<close> requests, all allowed, and gives what \<open>P\<close> says.\<close>

definition does :: "fetch_config \<Rightarrow> str set \<Rightarrow> nat \<Rightarrow> 'a io \<Rightarrow> (str set \<Rightarrow> fetch_error + 'a \<Rightarrow> bool) \<Rightarrow> bool" where
  "does cfg A c p P \<longleftrightarrow> (\<forall>n. wp cfg (\<lambda>B m r. m \<le> n + c \<and> A \<subseteq> B \<and> P B r) p A n)"

lemma does_done: "P A r \<Longrightarrow> does cfg A c (Done r) P"
  by (simp add: does_def)

lemma does_then:
  assumes "does cfg A c p P" and "\<And>B r. A \<subseteq> B \<Longrightarrow> P B r \<Longrightarrow> does cfg B d (f r) Q"
  shows "does cfg A (c + d) (then_io p f) Q"
  unfolding does_def
proof
  fix n
  have step: "wp cfg (\<lambda>B m r. m \<le> n + (c + d) \<and> A \<subseteq> B \<and> Q B r) (f r) B m"
    if "m \<le> n + c" and "A \<subseteq> B" and "P B r" for B m r
  proof (rule wp_conseq)
    show "wp cfg (\<lambda>C k r. k \<le> m + d \<and> B \<subseteq> C \<and> Q C r) (f r) B m"
      using assms(2) [OF that(2,3)] by (simp add: does_def)
  qed (use that in auto)
  show "wp cfg (\<lambda>B m r. m \<le> n + (c + d) \<and> A \<subseteq> B \<and> Q B r) (then_io p f) A n"
    unfolding wp_then
    by (rule wp_conseq [where P = "\<lambda>B m r. m \<le> n + c \<and> A \<subseteq> B \<and> P B r"]) (use assms(1) step in \<open>auto simp: does_def\<close>)
qed

lemma does_weaken:
  assumes "does cfg A c p P" and "c \<le> d" and "\<And>B r. A \<subseteq> B \<Longrightarrow> P B r \<Longrightarrow> Q B r"
  shows "does cfg A d p Q"
  unfolding does_def
proof
  fix n
  show "wp cfg (\<lambda>B m r. m \<le> n + d \<and> A \<subseteq> B \<and> Q B r) p A n"
    by (rule wp_conseq [where P = "\<lambda>B m r. m \<le> n + c \<and> A \<subseteq> B \<and> P B r"]) (use assms in \<open>auto simp: does_def\<close>)
qed

lemma does_resolve:
  assumes "\<And>a. does cfg (known cfg a h A) c (k a) P"
  shows "does cfg A c (Resolve h k) P"
proof -
  have "wp cfg (\<lambda>B m r. m \<le> n + c \<and> A \<subseteq> B \<and> P B r) (k a) (known cfg a h A) n" for a n
    by (rule wp_conseq [OF assms [unfolded does_def, rule_format]]) (use known_extends [of A cfg a h] in auto)
  then show ?thesis by (simp add: does_def)
qed

lemma does_request:
  assumes "allowed cfg A u" and "\<And>a. does cfg A c (k a) P"
  shows "does cfg A (Suc c) (Get u k) P"
proof -
  have "wp cfg (\<lambda>B m r. m \<le> Suc (n + c) \<and> A \<subseteq> B \<and> P B r) (k a) A (Suc n)" for a n
    using assms(2) [unfolded does_def, rule_format, of "Suc n" a] by simp
  then show ?thesis using assms(1) by (simp add: does_def)
qed

lemma does_post:
  assumes "allowed cfg A u" and "\<And>a. does cfg A c (k a) P"
  shows "does cfg A (Suc c) (PostSearch u q k) P"
proof -
  have "wp cfg (\<lambda>B m r. m \<le> Suc (n + c) \<and> A \<subseteq> B \<and> P B r) (k a) A (Suc n)" for a n
    using assms(2) [unfolded does_def, rule_format, of "Suc n" a] by simp
  then show ?thesis using assms(1) by (simp add: does_def)
qed

lemma does_render:
  assumes "allowed cfg A u" and "\<And>a. does cfg A c (k a) P"
  shows "does cfg A (Suc c) (Render u l k) P"
proof -
  have "wp cfg (\<lambda>B m r. m \<le> Suc (n + c) \<and> A \<subseteq> B \<and> P B r) (k a) A (Suc n)" for a n
    using assms(2) [unfolded does_def, rule_format, of "Suc n" a] by simp
  then show ?thesis using assms(1) by (simp add: does_def)
qed

lemma does_silent:
  "(\<And>a. does cfg A c (k a) P) \<Longrightarrow> does cfg A c (ReadSlice u k) P"
  "(\<And>a. does cfg A c (k' a) P) \<Longrightarrow> does cfg A c (RunAdapter co u k') P"
  "(\<And>a. does cfg A c (k'' a) P) \<Longrightarrow> does cfg A c (LoadDomains k'') P"
  "does cfg A c p P \<Longrightarrow> does cfg A c (StoreDomains ds s co p) P"
  "does cfg A c p P \<Longrightarrow> does cfg A c (Report e p) P"
  by (simp_all add: does_def)

lemma does_bind:
  assumes "does cfg A c p P" and "\<And>B x. A \<subseteq> B \<Longrightarrow> P B (Inr x) \<Longrightarrow> does cfg B d (f x) Q"
    and "\<And>B e. A \<subseteq> B \<Longrightarrow> P B (Inl e) \<Longrightarrow> Q B (Inl e)"
  shows "does cfg A (c + d) (bind_io p f) Q"
  unfolding bind_io_def
  by (rule does_then [OF assms(1)]) (auto split: sum.split intro: assms(2,3) does_done)

subsection \<open>Programs that give a value or raise\<close>

definition gives :: "fetch_config \<Rightarrow> str set \<Rightarrow> nat \<Rightarrow> 'a io \<Rightarrow> (str set \<Rightarrow> 'a \<Rightarrow> bool) \<Rightarrow> bool" where
  "gives cfg A c p Q \<longleftrightarrow> does cfg A c p (\<lambda>B r. \<forall>x. r = Inr x \<longrightarrow> Q B x)"

lemma gives_leaf [intro, simp]:
  "Q A x \<Longrightarrow> gives cfg A c (give x) Q"
  "gives cfg A c (raise_io e) Q"
  "gives cfg A c (fail_io code) Q"
  by (simp_all add: gives_def give_def raise_io_def fail_io_def does_done)

lemma gives_done: "(\<And>x. r = Inr x \<Longrightarrow> Q A x) \<Longrightarrow> gives cfg A c (Done r) Q"
  by (simp add: gives_def does_done)

lemma gives_from_url: "(\<And>x. v = Some x \<Longrightarrow> gives cfg A c (f x) Q) \<Longrightarrow> gives cfg A c (from_url v f) Q"
  by (cases v) (simp_all add: from_url_def)

lemma gives_then:
  assumes "gives cfg A c p P" and "\<And>B x. A \<subseteq> B \<Longrightarrow> P B x \<Longrightarrow> gives cfg B d (f (Inr x)) Q"
    and "\<And>B e. A \<subseteq> B \<Longrightarrow> gives cfg B d (f (Inl e)) Q" and "c + d \<le> b"
  shows "gives cfg A b (then_io p f) Q"
  unfolding gives_def
proof (rule does_weaken [OF does_then])
  show "does cfg A c p (\<lambda>B r. \<forall>x. r = Inr x \<longrightarrow> P B x)" using assms(1) by (simp add: gives_def)
  show "does cfg B d (f r) (\<lambda>B r. \<forall>x. r = Inr x \<longrightarrow> Q B x)"
    if "A \<subseteq> B" and "\<forall>x. r = Inr x \<longrightarrow> P B x" for B r
    using assms(2,3) that by (cases r) (simp_all add: gives_def)
qed (use assms(4) in auto)

lemma gives_bind:
  assumes "gives cfg A c p P" and "\<And>B x. A \<subseteq> B \<Longrightarrow> P B x \<Longrightarrow> gives cfg B d (f x) Q" and "c + d \<le> b"
  shows "gives cfg A b (bind_io p f) Q"
  unfolding bind_io_def
  by (rule gives_then [OF assms(1) _ _ assms(3)]) (use assms(2) in \<open>auto intro: gives_done\<close>)

lemma gives_weaken:
  assumes "gives cfg A c p P" and "c \<le> d" and "\<And>B x. A \<subseteq> B \<Longrightarrow> P B x \<Longrightarrow> Q B x"
  shows "gives cfg A d p Q"
  using assms unfolding gives_def by (elim does_weaken) auto

lemma gives_nodes:
  "(\<And>a. gives cfg (known cfg a h A) c (k a) Q) \<Longrightarrow> gives cfg A c (Resolve h k) Q"
  "allowed cfg A u \<Longrightarrow> (\<And>a. gives cfg A c (k1 a) Q) \<Longrightarrow> gives cfg A (Suc c) (Get u k1) Q"
  "allowed cfg A u \<Longrightarrow> (\<And>a. gives cfg A c (k1 a) Q) \<Longrightarrow> gives cfg A (Suc c) (PostSearch u q k1) Q"
  "allowed cfg A u \<Longrightarrow> (\<And>a. gives cfg A c (k2 a) Q) \<Longrightarrow> gives cfg A (Suc c) (Render u l k2) Q"
  "(\<And>a. gives cfg A c (k3 a) Q) \<Longrightarrow> gives cfg A c (ReadSlice u k3) Q"
  "(\<And>a. gives cfg A c (k4 a) Q) \<Longrightarrow> gives cfg A c (RunAdapter co u k4) Q"
  "(\<And>a. gives cfg A c (k5 a) Q) \<Longrightarrow> gives cfg A c (LoadDomains k5) Q"
  "gives cfg A c p Q \<Longrightarrow> gives cfg A c (StoreDomains ds s co p) Q"
  "gives cfg A c p Q \<Longrightarrow> gives cfg A c (Report e p) Q"
  unfolding gives_def by (blast intro: does_resolve does_request does_post does_render does_silent)+

lemmas gives_silent = gives_nodes(5-9)

subsection \<open>Checks\<close>

lemma assert_public_gives: "gives cfg A 0 (assert_public_url cfg u) (\<lambda>B _. allowed cfg B u)"
  unfolding assert_public_url_def
proof (rule gives_from_url)
  fix p
  assume "split_of cfg u = Some p"
  then show "gives cfg A 0 (if \<not> public_shape p then fail_io ''unsafe_public_url''
      else Resolve (up_host p) (\<lambda>a. case a of Unresolvable \<Rightarrow> fail_io ''public_host_unresolvable''
        | ResolverRaises s \<Rightarrow> raise_io (Raised s)
        | Addresses xs \<Rightarrow> if all_global cfg (Addresses xs) then give () else fail_io ''unsafe_public_url''))
      (\<lambda>B _. allowed cfg B u)"
    by (auto intro!: gives_nodes(1) split: dns_answer.split simp: allowed_def known_def)
qed

lemma is_public_gives: "gives cfg A 0 (is_public_url cfg u) (\<lambda>B b. b \<longrightarrow> allowed cfg B u)"
  unfolding is_public_url_def
proof (rule gives_from_url)
  fix p
  assume "split_of cfg u = Some p"
  then show "gives cfg A 0 (if \<not> public_shape p then give False
      else Resolve (up_host p) (\<lambda>a. case a of Unresolvable \<Rightarrow> give False
        | ResolverRaises s \<Rightarrow> raise_io (Raised s) | Addresses xs \<Rightarrow> give (all_global cfg (Addresses xs))))
      (\<lambda>B b. b \<longrightarrow> allowed cfg B u)"
    by (auto intro!: gives_nodes(1) split: dns_answer.split simp: allowed_def known_def)
qed

lemma circuit_gives:
  "gives cfg A 0 (ensure_domain_available cfg u) (\<lambda>_ _. True)"
  "gives cfg A 0 (remember_blocked_domain cfg u e) (\<lambda>_ _. True)"
  unfolding ensure_domain_available_def remember_blocked_domain_def
  by (auto intro!: gives_from_url gives_silent)

subsection \<open>The redirect walk\<close>

lemma walk_gives:
  "allowed cfg A url \<Longrightarrow> allowed cfg A current \<Longrightarrow>
     gives cfg A (attempts * Suc max_redirects + hops) (walk cfg url attempts hops current chain seen) (\<lambda>_ _. True)"
proof (induction cfg url attempts hops current chain seen arbitrary: A rule: walk.induct)
  case (1 cfg url attempts current chain seen)
  then show ?case by simp
next
  case (2 cfg url attempts hops current chain seen)
  have again: "gives cfg A (attempts * Suc max_redirects + hops)
      (walk cfg url (attempts - 1) (Suc max_redirects) url chain seen) (\<lambda>_ _. True)" if "attempts \<noteq> 0"
    by (rule gives_weaken [OF 2(2) [OF that 2(3) 2(3)]]) (use that in \<open>cases attempts; simp\<close>)+
  have on: "gives cfg A (attempts * Suc max_redirects + hops)
      (then_io (assert_public_url cfg target) (\<lambda>v. case v of
          Inl (Public e) \<Rightarrow> raise_io (rewrapped e target (chain @ [target]) (Some (hr_status r)))
        | Inl (Transport s) \<Rightarrow> raise_io (Transport s) | Inl (Raised s) \<Rightarrow> raise_io (Raised s)
        | Inr _ \<Rightarrow> walk cfg url attempts hops target (chain @ [target]) (Some (hr_status r)))) (\<lambda>_ _. True)"
    if "\<not> (\<not> hr_redirect r \<or> \<not> present (hr_location r))" for r :: response and target
  proof (rule gives_then [OF assert_public_gives])
    fix B :: "str set" and x :: unit
    assume "A \<subseteq> B" and "allowed cfg B target"
    then show "gives cfg B (attempts * Suc max_redirects + hops)
        (case Inr x of Inl (Public e) \<Rightarrow> raise_io (rewrapped e target (chain @ [target]) (Some (hr_status r)))
         | Inl (Transport s) \<Rightarrow> raise_io (Transport s) | Inl (Raised s) \<Rightarrow> raise_io (Raised s)
         | Inr _ \<Rightarrow> walk cfg url attempts hops target (chain @ [target]) (Some (hr_status r))) (\<lambda>_ _. True)"
      using 2(1) [OF that] allowed_mono [OF 2(3)] by simp
  qed (auto split: fetch_error.split)
  show ?case
    unfolding walk.simps(2) [of cfg url attempts hops current chain seen] add_Suc_right
  proof (rule gives_nodes(2) [OF 2(4)])
    fix a
    show "gives cfg A (attempts * Suc max_redirects + hops) (case a of
        Response r \<Rightarrow> if \<not> hr_redirect r \<or> \<not> present (hr_location r) then give (r, current, chain)
          else from_url (urljoin (fc_brackets cfg) current (the (hr_location r))) (\<lambda>target.
            then_io (assert_public_url cfg target) (\<lambda>v. case v of
                Inl (Public e) \<Rightarrow> raise_io (rewrapped e target (chain @ [target]) (Some (hr_status r)))
              | Inl (Transport s) \<Rightarrow> raise_io (Transport s) | Inl (Raised s) \<Rightarrow> raise_io (Raised s)
              | Inr _ \<Rightarrow> walk cfg url attempts hops target (chain @ [target]) (Some (hr_status r))))
      | TransportFails s \<Rightarrow> if attempts = 0 then raise_io (Transport s)
          else walk cfg url (attempts - 1) (Suc max_redirects) url chain seen
      | RequestRaises s \<Rightarrow> raise_io (Raised s)) (\<lambda>_ _. True)"
    proof (cases a)
      case (Response r)
      then show ?thesis
        using on [of r] by (cases "\<not> hr_redirect r \<or> \<not> present (hr_location r)") (simp_all only: http_answer.case if_True
            if_False simp_thms gives_leaf gives_from_url)
    next
      case (TransportFails s)
      then show ?thesis
        using again by (cases "attempts = 0") (simp_all only: http_answer.case if_True if_False simp_thms gives_leaf)
    next
      case (RequestRaises s)
      then show ?thesis by simp
    qed
  qed
qed

lemma fetch_validated_gives: "allowed cfg A u \<Longrightarrow> gives cfg A 12 (fetch_validated cfg u) (\<lambda>_ _. True)"
  using walk_gives [of cfg A u u 1 "Suc max_redirects"] by (simp add: fetch_validated_def max_redirects_def)

subsection \<open>Evidence\<close>

text \<open>What every page says of itself, and what a page that was read with its address says besides.\<close>

definition evidence_ok :: "fetch_config \<Rightarrow> page \<Rightarrow> bool" where
  "evidence_ok cfg p \<longleftrightarrow>
     pg_artifact p = lit ''observed:'' @ pg_hash p \<and> pg_text p \<noteq> []
     \<and> (pg_quality p, pg_signal p) = classify_page_quality (pg_text p)
     \<and> (\<forall>u. pg_effective p = Some u \<longrightarrow>
          160 \<le> length (pg_text p) \<and> length (pg_text p) \<le> 32000 \<and> pg_hash p = page_hash (pg_text p)
          \<and> detect_access_block (fc_brackets cfg) u (pg_title p) (pg_text p) (pg_status p) = Some None
          \<and> \<not> dead_link (pg_text p) (pg_title p))"

definition evidence_of :: "fetch_config \<Rightarrow> str \<Rightarrow> page \<Rightarrow> bool" where
  "evidence_of cfg u p \<longleftrightarrow> evidence_ok cfg p \<and> pg_source p = u"

lemma built_page_ok:
  assumes "build_evidence_page (fc_brackets cfg) u effective title visible status chain = Inr p"
  shows "evidence_of cfg u p"
  using assms
  by (auto simp: build_evidence_page_def Let_def evidence_of_def evidence_ok_def observed_page_def
      min_usable_chars_def max_visible_chars_def split: option.splits if_splits)

lemma map_sum_Inr: "map_sum f g v = Inr y \<longleftrightarrow> (\<exists>z. v = Inr z \<and> y = g z)"
  by (cases v) auto

lemma page_of_response_ok: "page_of_response cfg u f = Inr (p, html) \<Longrightarrow> evidence_of cfg u p"
  by (cases f) (auto simp: page_of_response_def Let_def map_sum_Inr split: if_splits dest: built_page_ok)

lemma fetch_with_html_gives:
  "allowed cfg A u \<Longrightarrow> gives cfg A 12 (fetch_with_html cfg u) (\<lambda>_ v. evidence_of cfg u (fst v))"
  unfolding fetch_with_html_def
  by (rule gives_then [OF fetch_validated_gives, where d = 0])
    (auto intro!: gives_done dest: page_of_response_ok split: fetch_error.split)

lemma fetch_requests_gives:
  "allowed cfg A u \<Longrightarrow> gives cfg A 12 (fetch_requests cfg u) (\<lambda>_ p. evidence_of cfg u p)"
  unfolding fetch_requests_def
  by (rule gives_bind [OF fetch_with_html_gives, where d = 0]) auto

lemma article_page_ok: "text \<noteq> [] \<Longrightarrow> evidence_of cfg u (article_page u hash text)"
  by (simp add: evidence_of_def evidence_ok_def article_page_def)

lemma fetch_article_gives:
  "gives cfg A 0 (fetch_article cfg u) (\<lambda>_ v. \<forall>p. v = Some p \<longrightarrow> evidence_of cfg u p)"
  unfolding fetch_article_def
  by (auto intro!: gives_from_url gives_silent gives_leaf(1) article_page_ok split: slice_answer.split)

lemma dumps_indent_arr: "dumps_indent n (JArr xs) \<noteq> []"
  by simp

lemma adapter_page_ok:
  "evidence_of cfg u (observed_page u title (dumps_indent 0 (JArr xs)) None [] None)"
  using dumps_indent_arr [of 0 xs]
  by (simp add: evidence_of_def evidence_ok_def observed_page_def del: dumps_indent.simps)

lemma fetch_via_adapter_gives:
  "gives cfg A 0 (fetch_via_adapter cfg u) (\<lambda>_ v. \<forall>p. v = Some p \<longrightarrow> evidence_of cfg u p)"
  unfolding fetch_via_adapter_def
  by (auto intro!: gives_silent gives_leaf(1) adapter_page_ok split: option.split adapter_answer.split simp del: dumps_indent.simps)

subsection \<open>Links\<close>

definition all_allowed :: "fetch_config \<Rightarrow> str set \<Rightarrow> str list \<Rightarrow> bool" where
  "all_allowed cfg A us \<longleftrightarrow> (\<forall>u \<in> set us. allowed cfg A u)"

lemma all_allowed_mono: "all_allowed cfg A us \<Longrightarrow> A \<subseteq> B \<Longrightarrow> all_allowed cfg B us"
  by (auto simp: all_allowed_def intro: allowed_mono)

lemma all_allowed_simps [simp]:
  "all_allowed cfg A []" "all_allowed cfg A (u # us) \<longleftrightarrow> allowed cfg A u \<and> all_allowed cfg A us"
  "all_allowed cfg A (us @ vs) \<longleftrightarrow> all_allowed cfg A us \<and> all_allowed cfg A vs"
  by (auto simp: all_allowed_def)

lemma add_link_gives:
  assumes "all_allowed cfg A links"
  shows "gives cfg A 0 (add_link cfg origin href links) (all_allowed cfg)"
  unfolding add_link_def
proof (rule gives_from_url)
  fix target
  have "gives cfg A 0 (bind_io (is_public_url cfg target) (\<lambda>public.
      if \<not> public then give links
      else from_url (split_of cfg origin) (\<lambda>o1. from_url (split_of cfg target) (\<lambda>t.
        if keeps_link o1 t \<and> target \<notin> set links then give (links @ [target]) else give links)))) (all_allowed cfg)"
    by (rule gives_bind [OF is_public_gives, where d = 0])
      (use assms all_allowed_mono in \<open>auto intro!: gives_from_url\<close>)
  then show "gives cfg A 0 (if \<not> starts_with target (lit ''http://'') \<and> \<not> starts_with target (lit ''https://'')
      then give links
      else bind_io (is_public_url cfg target) (\<lambda>public.
        if \<not> public then give links
        else from_url (split_of cfg origin) (\<lambda>o1. from_url (split_of cfg target) (\<lambda>t.
          if keeps_link o1 t \<and> target \<notin> set links then give (links @ [target]) else give links)))) (all_allowed cfg)"
    using assms by simp
qed

lemma add_links_gives:
  "all_allowed cfg A links \<Longrightarrow> gives cfg A 0 (add_links cfg origin hs links) (all_allowed cfg)"
proof (induction hs arbitrary: A links)
  case (Cons h hs)
  show ?case
    unfolding add_links.simps
    by (rule gives_bind [OF add_link_gives [OF Cons.prems], where d = 0]) (simp_all add: Cons.IH)
qed simp

lemma collect_links_gives:
  "all_allowed cfg A links \<Longrightarrow> gives cfg A 0 (collect_links cfg origin es depth links) (all_allowed cfg)"
proof (induction cfg origin es depth links arbitrary: A rule: collect_links.induct)
  case (2 cfg origin tag attrs es depth links)
  define inside where "inside = (if tag_in tag link_ignored then depth + 1 else depth)"
  show ?case
  proof (cases "tag = lit ''a'' \<and> inside = 0")
    case True
    have "gives cfg A 0 (bind_io (add_links cfg origin (link_candidates attrs) links)
        (collect_links cfg origin es inside)) (all_allowed cfg)"
      by (rule gives_bind [OF add_links_gives [OF 2(3)], where d = 0]) (use 2(1) [OF inside_def True] in simp_all)
    then show ?thesis unfolding collect_links.simps Let_def inside_def [symmetric] if_P [OF True] .
  next
    case False
    then show ?thesis
      using 2(2) [OF inside_def False 2(3)]
      unfolding collect_links.simps Let_def inside_def [symmetric] if_not_P [OF False] by simp
  qed
qed simp_all

lemma checked_urls_gives:
  "all_allowed cfg A urls \<Longrightarrow> gives cfg A 0 (checked_urls cfg us urls) (all_allowed cfg)"
proof (induction us arbitrary: A urls)
  case (Cons u us)
  show ?case
    unfolding checked_urls.simps
    by (rule gives_bind [OF assert_public_gives, where d = 0])
      (use Cons.prems all_allowed_mono in \<open>auto intro!: Cons.IH\<close>)
qed simp

subsection \<open>Lists, renders and expansions\<close>

lemma iguopin_gives: "gives cfg A 1 (iguopin_list_detail_urls cfg u) (all_allowed cfg)"
proof -
  have answer: "gives cfg B 0 (iguopin_answer cfg a) (all_allowed cfg)" for B a
    unfolding iguopin_answer_def by (auto split: http_answer.split option.split intro!: checked_urls_gives)
  have "gives cfg A 1 (bind_io (assert_public_url cfg recommend_url)
      (\<lambda>_. PostSearch recommend_url k (iguopin_answer cfg))) (all_allowed cfg)" for k
    by (rule gives_bind [OF assert_public_gives, where d = "Suc 0"]) (auto intro!: gives_nodes(3) answer)
  then show ?thesis
    unfolding iguopin_list_detail_urls_def Let_def by (auto intro!: gives_from_url)
qed

lemma tencent_gives: "gives cfg A 0 (tencent_query_detail_urls cfg u body) (all_allowed cfg)"
  unfolding tencent_query_detail_urls_def
  by (auto intro!: gives_from_url checked_urls_gives split: option.split)

lemma render_page_gives:
  "gives cfg A 1 (render_page cfg u links) (\<lambda>B rd. all_allowed cfg B (rd_links rd))"
proof -
  have of: "all_allowed cfg B ts \<Longrightarrow> gives cfg B 0 (rendered_of u d ts) (\<lambda>B rd. all_allowed cfg B (rd_links rd))" for B d ts
    unfolding rendered_of_def by auto
  have kept: "gives cfg B 0 (then_io (add_links cfg u hs []) (\<lambda>v. case v of
      Inl _ \<Rightarrow> raise_io e | Inr ts \<Rightarrow> rendered_of u d ts)) (\<lambda>B rd. all_allowed cfg B (rd_links rd))" for B hs e d
    by (rule gives_then [OF add_links_gives, where d = 0]) (simp_all add: of)
  have answer: "gives cfg B 0 (render_answer cfg u links a) (\<lambda>B rd. all_allowed cfg B (rd_links rd))" for B a
    unfolding render_answer_def by (simp add: kept del: add_links.simps split: option.split)
  show ?thesis
    unfolding render_page_def
    by (rule gives_bind [OF assert_public_gives, where d = "Suc 0"]) (auto intro!: gives_nodes(4) answer)
qed

definition pages_ok :: "fetch_config \<Rightarrow> str set \<Rightarrow> page list \<Rightarrow> bool" where
  "pages_ok cfg A ps \<longleftrightarrow> (\<forall>p \<in> set ps. evidence_ok cfg p)"

lemma pages_ok_simps [simp]:
  "pages_ok cfg A []" "pages_ok cfg A (p # ps) \<longleftrightarrow> evidence_ok cfg p \<and> pages_ok cfg A ps"
  by (auto simp: pages_ok_def)

lemma link_failed_gives:
  assumes "\<And>B. A \<subseteq> B \<Longrightarrow> gives cfg B c go_on (pages_ok cfg)"
  shows "gives cfg A c (link_failed cfg link e go_on) (pages_ok cfg)"
  unfolding link_failed_def
  by (rule gives_bind [OF circuit_gives(2), where d = c]) (auto intro!: gives_silent assms)

lemma add_page_gives:
  assumes "evidence_ok cfg p" and "gives cfg A c go_on (pages_ok cfg)"
  shows "gives cfg A c (add_page p go_on) (pages_ok cfg)"
  unfolding add_page_def by (rule gives_bind [OF assms(2), where d = 0]) (use assms(1) in auto)

lemma evidence_of_ok: "evidence_of cfg u p \<Longrightarrow> evidence_ok cfg p"
  by (simp add: evidence_of_def)

lemma page_or_failed_gives:
  assumes "\<And>p. v = Inr p \<Longrightarrow> evidence_ok cfg p" and "\<And>B. A \<subseteq> B \<Longrightarrow> gives cfg B c go_on (pages_ok cfg)"
  shows "gives cfg A c (page_or_failed cfg link v go_on) (pages_ok cfg)"
  unfolding page_or_failed_def
  by (auto split: sum.split fetch_error.split intro!: add_page_gives link_failed_gives assms)

lemma render_link_gives:
  assumes "\<And>B. A \<subseteq> B \<Longrightarrow> gives cfg B c go_on (pages_ok cfg)"
  shows "gives cfg A (Suc c) (render_link cfg link go_on) (pages_ok cfg)"
  unfolding render_link_def
  by (rule gives_then [OF render_page_gives, where d = c])
    (use assms in \<open>auto intro!: page_or_failed_gives dest!: built_page_ok simp: evidence_of_def\<close>)

lemma fetch_link_gives:
  assumes "allowed cfg A link" and "\<And>B. A \<subseteq> B \<Longrightarrow> gives cfg B c go_on (pages_ok cfg)"
  shows "gives cfg A (13 + c) (fetch_link cfg link go_on) (pages_ok cfg)"
proof -
  have on: "gives cfg B (Suc c) (page_or_failed cfg link v go_on) (pages_ok cfg)"
    if "A \<subseteq> B" and "\<And>p. v = Inr p \<Longrightarrow> evidence_ok cfg p" for B v
    by (rule gives_weaken [OF page_or_failed_gives [OF that(2) assms(2)]]) (use that(1) in auto)
  have failed: "gives cfg B (Suc c) (link_failed cfg link e go_on) (pages_ok cfg)" if "A \<subseteq> B" for B e
    by (rule gives_weaken [OF link_failed_gives [OF assms(2)]]) (use that in auto)
  have render: "gives cfg B (Suc c) (render_link cfg link go_on) (pages_ok cfg)" if "A \<subseteq> B" for B
    by (rule render_link_gives [OF assms(2)]) (use that in auto)
  show ?thesis
    unfolding fetch_link_def
    by (rule gives_then [OF fetch_requests_gives [OF assms(1)], where d = "Suc c"])
      (auto split: fetch_error.split intro!: on failed render dest: evidence_of_ok)
qed

lemma expand_loop_gives:
  "all_allowed cfg A links \<Longrightarrow> gives cfg A (13 * length links) (expand_loop cfg links) (pages_ok cfg)"
proof (induction links arbitrary: A)
  case (Cons link links)
  have on: "gives cfg B (13 * length links) (expand_loop cfg links) (pages_ok cfg)" if "A \<subseteq> B" for B
    by (rule Cons.IH) (use Cons.prems all_allowed_mono that in auto)
  have "gives cfg B (13 + 13 * length links) (fetch_link cfg link (expand_loop cfg links)) (pages_ok cfg)"
    if "A \<subseteq> B" for B
    by (rule fetch_link_gives) (use Cons.prems allowed_mono that on in \<open>auto intro: subset_trans\<close>)
  then show ?case
    unfolding expand_loop.simps
    by (intro gives_then [OF circuit_gives(1), where d = "13 + 13 * length links"])
      (auto split: fetch_error.split intro!: gives_silent)
qed simp

lemma prioritized_set: "prioritize_detail_links cfg links = Some ls \<Longrightarrow> set ls = set links"
  by (auto simp: prioritize_detail_links_def split: if_splits)

lemma expand_gives:
  assumes "all_allowed cfg A links"
  shows "gives cfg A (13 * limit) (expand_from_list_links cfg links body limit) (pages_ok cfg)"
proof -
  have "gives cfg A (13 * limit) (expand_loop cfg (take limit ls)) (pages_ok cfg)"
    if "prioritize_detail_links cfg links = Some ls" for ls
  proof (rule gives_weaken [OF expand_loop_gives])
    show "all_allowed cfg A (take limit ls)"
      using assms prioritized_set [OF that] by (auto simp: all_allowed_def dest: in_set_takeD)
  qed auto
  then show ?thesis unfolding expand_from_list_links_def by (auto intro!: gives_from_url)
qed

subsection \<open>The campus portal\<close>

lemma pages_ok_append: "pages_ok cfg A (ps @ qs) \<longleftrightarrow> pages_ok cfg A ps \<and> pages_ok cfg A qs"
  by (auto simp: pages_ok_def)

lemma add_unseen_ok:
  "pages_ok cfg A ps \<Longrightarrow> pages_ok cfg A (fst acc) \<Longrightarrow> pages_ok cfg A (fst (add_unseen ps acc))"
proof (induction ps arbitrary: acc)
  case Nil
  then show ?case by (simp add: add_unseen_def)
next
  case (Cons p ps)
  obtain pages seen where acc: "acc = (pages, seen)" by (cases acc)
  have "add_unseen (p # ps) acc
      = add_unseen ps (if pg_source p \<in> set seen then (pages, seen) else (pages @ [p], seen @ [pg_source p]))"
    by (simp add: add_unseen_def acc)
  moreover have "pages_ok cfg A (fst (if pg_source p \<in> set seen then (pages, seen)
      else (pages @ [p], seen @ [pg_source p])))"
    using Cons.prems by (simp add: acc pages_ok_append)
  ultimately show ?case using Cons.IH Cons.prems(1) by simp
qed

lemma campus_allowed: "allowed cfg A (campus_index 1)" "allowed cfg A (campus_index 2)"
  by (simp_all add: allowed_def)

lemma campus_loop_gives:
  "set is \<subseteq> {campus_index 1, campus_index 2} \<Longrightarrow> pages_ok cfg A (fst acc) \<Longrightarrow>
     gives cfg A (272 * length is) (campus_loop cfg is acc) (pages_ok cfg)"
proof (induction "is" arbitrary: A acc)
  case (Cons index rest)
  have rest: "gives cfg B (272 * length rest) (campus_loop cfg rest acc') (pages_ok cfg)"
    if "pages_ok cfg A (fst acc')" for B acc'
    by (rule Cons.IH) (use Cons.prems that in \<open>auto simp: pages_ok_def\<close>)
  have found: "gives cfg B (260 + 272 * length rest) (bind_io (collect_links cfg index (fc_html cfg html) 0 []) (\<lambda>links.
      bind_io (expand_from_list_links cfg links (pg_text p) 20) (\<lambda>details.
        campus_loop cfg rest (add_unseen details (add_unseen [p] acc))))) (pages_ok cfg)"
    if "evidence_ok cfg p" for B p html
  proof (rule gives_bind [OF collect_links_gives, where d = "260 + 272 * length rest"])
    fix C :: "str set" and links
    assume links: "all_allowed cfg C links"
    show "gives cfg C (260 + 272 * length rest) (bind_io (expand_from_list_links cfg links (pg_text p) 20) (\<lambda>details.
        campus_loop cfg rest (add_unseen details (add_unseen [p] acc)))) (pages_ok cfg)"
    proof (rule gives_bind [OF expand_gives [OF links], where d = "272 * length rest"])
      fix D details
      assume "pages_ok cfg D details"
      then have "pages_ok cfg A (fst (add_unseen details (add_unseen [p] acc)))"
        using that Cons.prems(2) by (intro add_unseen_ok) (auto simp: pages_ok_def)
      then show "gives cfg D (272 * length rest) (campus_loop cfg rest (add_unseen details (add_unseen [p] acc)))
          (pages_ok cfg)" by (rule rest)
    qed simp
  qed simp_all
  have failed: "gives cfg B (260 + 272 * length rest) (bind_io (remember_blocked_domain cfg index e) (\<lambda>_.
      Report (failure_of index e) (campus_loop cfg rest acc))) (pages_ok cfg)" for B e
    by (rule gives_bind [OF circuit_gives(2), where d = "272 * length rest"])
      (use Cons.prems(2) in \<open>auto intro!: gives_silent rest\<close>)
  have "allowed cfg A index" using Cons.prems(1) campus_allowed by auto
  then show ?case
    unfolding campus_loop.simps
    by (intro gives_then [OF fetch_with_html_gives, where d = "260 + 272 * length rest"])
      (auto split: fetch_error.split intro!: found failed dest: evidence_of_ok)
qed simp

lemma campus_gives: "gives cfg A 544 (expand_official_campus_detail cfg u p) (pages_ok cfg)"
proof -
  have "gives cfg A 544 (campus_loop cfg (map campus_index [1, 2]) ([], [u])) (pages_ok cfg)"
    using campus_loop_gives [of "map campus_index [1, 2]" cfg A "([], [u])"] by simp
  then show ?thesis unfolding expand_official_campus_detail_def by (auto intro!: gives_from_url)
qed

subsection \<open>One URL of a batch\<close>

definition listed_ok :: "fetch_config \<Rightarrow> str \<Rightarrow> page list \<Rightarrow> bool" where
  "listed_ok cfg u ps \<longleftrightarrow> ps \<noteq> [] \<and> pg_source (hd ps) = u \<and> (\<forall>p \<in> set ps. evidence_ok cfg p)"

lemma listed_single [simp]: "evidence_of cfg u p \<Longrightarrow> listed_ok cfg u [p]"
  by (simp add: listed_ok_def evidence_of_def)

lemma add_page_lists:
  assumes "evidence_of cfg u p" and "gives cfg A c go_on (pages_ok cfg)"
  shows "gives cfg A c (add_page p go_on) (\<lambda>_. listed_ok cfg u)"
  unfolding add_page_def
  by (rule gives_bind [OF assms(2), where d = 0])
    (use assms(1) in \<open>auto intro!: gives_leaf(1) simp: listed_ok_def evidence_of_def pages_ok_def\<close>)

lemma expand_with_gives:
  assumes "evidence_of cfg u p" and "all_allowed cfg A links"
  shows "gives cfg A 65 (expand_with cfg p links) (\<lambda>_. listed_ok cfg u)"
  unfolding expand_with_def
  by (rule add_page_lists [OF assms(1)])
    (use expand_gives [OF assms(2), of 5 "pg_text p"] in \<open>simp add: max_list_expansion_def\<close>)

lemma expand_page_gives:
  assumes p: "evidence_of cfg u p" and links: "all_allowed cfg A links"
  shows "gives cfg A 610 (expand_page cfg u p links) (\<lambda>_. listed_ok cfg u)"
proof -
  have derived: "gives cfg B 609 (expand_with cfg p details) (\<lambda>_. listed_ok cfg u)" if "all_allowed cfg B details" for B details
    by (rule gives_weaken [OF expand_with_gives [OF p that]]) simp_all
  have campus: "gives cfg B 609 (bind_io (expand_official_campus_detail cfg u p) (\<lambda>campus.
      if campus \<noteq> [] then give (p # campus) else expand_with cfg p links)) (\<lambda>_. listed_ok cfg u)" if "A \<subseteq> B" for B
  proof (rule gives_bind [OF campus_gives, where d = 65])
    fix C campus
    assume "B \<subseteq> C" and ok: "pages_ok cfg C campus"
    then have "all_allowed cfg C links" using links all_allowed_mono that by blast
    then show "gives cfg C 65 (if campus \<noteq> [] then give (p # campus) else expand_with cfg p links) (\<lambda>_. listed_ok cfg u)"
      using ok p expand_with_gives [OF p] by (auto intro!: gives_leaf(1) simp: listed_ok_def evidence_of_def pages_ok_def)
  qed simp
  show ?thesis
    unfolding expand_page_def
    by (rule gives_then [OF iguopin_gives, where d = 609])
      (use p in \<open>auto split: fetch_error.split intro!: derived campus gives_silent gives_leaf(1)\<close>)
qed

lemma fetch_rendered_gives: "gives cfg A 611 (fetch_rendered cfg u) (\<lambda>_. listed_ok cfg u)"
proof -
  have failed: "gives cfg B 610 (bind_io (remember_blocked_domain cfg u e) (\<lambda>_. raise_io (Public e)))
      (\<lambda>_. listed_ok cfg u)" for B e
    by (rule gives_bind [OF circuit_gives(2), where d = 610]) auto
  show ?thesis
    unfolding fetch_rendered_def
    by (rule gives_bind [OF render_page_gives, where d = 610])
      (auto split: sum.split fetch_error.split intro!: failed expand_page_gives built_page_ok)
qed

lemma fetch_listed_gives:
  assumes "allowed cfg A u"
  shows "gives cfg A 623 (fetch_listed cfg u) (\<lambda>_. listed_ok cfg u)"
proof -
  have failed: "gives cfg B 611 (bind_io (remember_blocked_domain cfg u e) (\<lambda>_.
      if fallback_code (pe_code e) \<and> fc_render cfg then fetch_rendered cfg u else raise_io (Public e)))
      (\<lambda>_. listed_ok cfg u)" for B e
    by (rule gives_bind [OF circuit_gives(2), where d = 611]) (auto intro: fetch_rendered_gives)
  have found: "gives cfg B 611 (bind_io (collect_links cfg u (fc_html cfg html) 0 []) (\<lambda>links.
      bind_io (tencent_query_detail_urls cfg u html) (\<lambda>details.
        if details \<noteq> [] then expand_with cfg p details else expand_page cfg u p links))) (\<lambda>_. listed_ok cfg u)"
    if p: "evidence_of cfg u p" for B p html
  proof (rule gives_bind [OF collect_links_gives, where d = 611])
    fix C :: "str set" and links
    assume links: "all_allowed cfg C links"
    have on: "gives cfg D 611 (if details \<noteq> [] then expand_with cfg p details else expand_page cfg u p links)
        (\<lambda>_. listed_ok cfg u)" if "C \<subseteq> D" and "all_allowed cfg D details" for D details
      using gives_weaken [OF expand_with_gives [OF p that(2)], of 611]
        gives_weaken [OF expand_page_gives [OF p all_allowed_mono [OF links that(1)]], of 611] by auto
    show "gives cfg C 611 (bind_io (tencent_query_detail_urls cfg u html) (\<lambda>details.
        if details \<noteq> [] then expand_with cfg p details else expand_page cfg u p links)) (\<lambda>_. listed_ok cfg u)"
      by (rule gives_bind [OF tencent_gives on]) simp_all
  qed simp_all
  show ?thesis
    unfolding fetch_listed_def
    by (rule gives_then [OF fetch_with_html_gives [OF assms], where d = 611])
      (auto split: fetch_error.split split del: if_split intro!: failed found)
qed

lemma owned_gives:
  assumes "\<And>B p. evidence_of cfg u p \<Longrightarrow> Q B (single p)"
    and "\<And>B. allowed cfg B u \<Longrightarrow> gives cfg B c generic Q"
  shows "gives cfg A c (owned_or cfg u single generic) Q"
proof -
  have adapted: "gives cfg B c (bind_io (fetch_via_adapter cfg u) (\<lambda>adapted. case adapted of
      Some p \<Rightarrow> give (single p) | None \<Rightarrow> generic)) Q" if "allowed cfg B u" for B
    by (rule gives_bind [OF fetch_via_adapter_gives, where d = c])
      (use that allowed_mono in \<open>auto split: option.split intro!: gives_leaf(1) assms\<close>)
  have article: "gives cfg B c (bind_io (fetch_article cfg u) (\<lambda>article. case article of Some p \<Rightarrow> give (single p)
      | None \<Rightarrow> bind_io (fetch_via_adapter cfg u) (\<lambda>adapted. case adapted of
          Some p \<Rightarrow> give (single p) | None \<Rightarrow> generic))) Q" if "allowed cfg B u" for B
    by (rule gives_bind [OF fetch_article_gives, where d = c])
      (use that allowed_mono in \<open>auto split: option.split intro!: gives_leaf(1) assms(1) adapted\<close>)
  have available: "gives cfg B c (bind_io (ensure_domain_available cfg u) (\<lambda>_. bind_io (fetch_article cfg u)
      (\<lambda>article. case article of Some p \<Rightarrow> give (single p)
        | None \<Rightarrow> bind_io (fetch_via_adapter cfg u) (\<lambda>adapted. case adapted of
            Some p \<Rightarrow> give (single p) | None \<Rightarrow> generic)))) Q" if "allowed cfg B u" for B
    by (rule gives_bind [OF circuit_gives(1), where d = c]) (use that allowed_mono in \<open>auto intro!: article\<close>)
  show ?thesis
    unfolding owned_or_def
    by (rule gives_bind [OF assert_public_gives available]) simp_all
qed

lemma fetch_one_gives: "gives cfg A 623 (fetch_one_with_expansion cfg u) (\<lambda>_. listed_ok cfg u)"
  unfolding fetch_one_with_expansion_def by (rule owned_gives) (simp_all add: fetch_listed_gives)

end
