(* ===== verification/FetchPool.thy ===== *)
theory FetchPool
  imports FetchSafety
begin

section \<open>A batch of pages on several threads\<close>

text \<open>
  \<open>fetch_public_job_pages\<close> with \<open>run_parallel_with_progress\<close> of
  \<open>services/job_discovery/tools/batch_progress.py\<close>: one thread per URL, all of them over the same metadata of the run
  and the same list of failures. A step of the pool is one step of one thread, with any answer of the outside; the metadata
  answer with what they hold. The bound of four workers only removes interleavings.
\<close>

subsection \<open>The pool\<close>

record shared =
  sd_blocked :: json
  sd_reasons :: dict
  sd_failures :: "page_failure list"

datatype answer = DnsA dns_answer | HttpA http_answer | RenderA "dict option" | SliceA slice_answer
  | AdapterA adapter_answer | TurnA

datatype event = Asked str dns_answer | Sent str | Quiet

fun answer_io :: "'a io \<Rightarrow> answer \<Rightarrow> shared \<Rightarrow> ('a io \<times> shared \<times> event) option" where
  "answer_io (Resolve h k) (DnsA a) s = Some (k a, s, Asked h a)"
| "answer_io (Get u k) (HttpA a) s = Some (k a, s, Sent u)"
| "answer_io (PostSearch u q k) (HttpA a) s = Some (k a, s, Sent u)"
| "answer_io (Render u l k) (RenderA a) s = Some (k a, s, Sent u)"
| "answer_io (ReadSlice u k) (SliceA a) s = Some (k a, s, Quiet)"
| "answer_io (RunAdapter c u k) (AdapterA a) s = Some (k a, s, Quiet)"
| "answer_io (LoadDomains k) TurnA s = Some (k (sd_blocked s), s, Quiet)"
| "answer_io (StoreDomains ds d c p) TurnA s =
     Some (p, s\<lparr>sd_blocked := strs ds, sd_reasons := dput d (JStr c) (sd_reasons s)\<rparr>, Quiet)"
| "answer_io (Report e p) TurnA s = Some (p, s\<lparr>sd_failures := sd_failures s @ [e]\<rparr>, Quiet)"
| "answer_io _ _ _ = None"

type_synonym 'a pool = "'a io list \<times> shared \<times> (nat \<times> event) list"

inductive pool_step :: "'a pool \<Rightarrow> 'a pool \<Rightarrow> bool" where
  turn: "i < length ps \<Longrightarrow> answer_io (ps ! i) a s = Some (p, s', e) \<Longrightarrow>
    pool_step (ps, s, t) (ps[i := p], s', t @ [(i, e)])"

inductive_cases pool_stepE: "pool_step x y"

definition start_batch :: "fetch_config \<Rightarrow> str list \<Rightarrow> shared \<Rightarrow> page list pool" where
  "start_batch cfg urls s = (map (fetch_one_with_expansion cfg) urls, s, [])"

text \<open>The results of the threads that are done, and the output of a batch all of whose threads are.\<close>

definition thread_result :: "'a io \<Rightarrow> (fetch_error + 'a) option" where
  "thread_result p = (case p of Done r \<Rightarrow> Some r | _ \<Rightarrow> None)"

definition fetch_public_job_pages :: "str list \<Rightarrow> page list pool \<Rightarrow> fetch_output option" where
  "fetch_public_job_pages urls final =
     (let (ps, s, t) = final; results = map thread_result ps in
      if None \<in> set results then None
      else Some (batch_output (sd_failures s) (zip urls (map the results))))"

text \<open>A schedule says which thread goes on with which answer.\<close>

fun run_schedule :: "(nat \<times> answer) list \<Rightarrow> 'a pool \<Rightarrow> 'a pool option" where
  "run_schedule [] pool = Some pool"
| "run_schedule ((i, a) # rest) (ps, s, t) =
     (if i < length ps then
        (case answer_io (ps ! i) a s of
           None \<Rightarrow> None
         | Some (p, s', e) \<Rightarrow> run_schedule rest (ps[i := p], s', t @ [(i, e)]))
      else None)"

lemma run_schedule_steps: "run_schedule sched pool = Some pool' \<Longrightarrow> pool_step\<^sup>*\<^sup>* pool pool'"
proof (induction sched pool rule: run_schedule.induct)
  case (2 i a rest ps s t)
  then show ?case
    by (auto split: if_splits option.splits intro: converse_rtranclp_into_rtranclp turn)
qed simp

subsection \<open>The requests of a batch\<close>

text \<open>The hosts a thread resolved to public addresses, and how many requests it sent.\<close>

definition hosts :: "fetch_config \<Rightarrow> nat \<Rightarrow> (nat \<times> event) list \<Rightarrow> str set" where
  "hosts cfg i t = {h. \<exists>a. (i, Asked h a) \<in> set t \<and> all_global cfg a}"

fun is_sent :: "event \<Rightarrow> bool" where
  "is_sent (Sent u) = True"
| "is_sent _ = False"

definition sent :: "nat \<Rightarrow> (nat \<times> event) list \<Rightarrow> nat" where
  "sent i t = length (filter (\<lambda>(j, e). j = i \<and> is_sent e) t)"

text \<open>Every request went to a URL whose host the same thread had resolved to public addresses before.\<close>

definition lawful :: "fetch_config \<Rightarrow> (nat \<times> event) list \<Rightarrow> bool" where
  "lawful cfg t \<longleftrightarrow> (\<forall>t1 i u t2. t = t1 @ (i, Sent u) # t2 \<longrightarrow> allowed cfg (hosts cfg i t1) u)"

lemma hosts_snoc:
  "hosts cfg i (t @ [(j, e)]) =
     (if j = i then (case e of Asked h a \<Rightarrow> known cfg a h (hosts cfg i t) | _ \<Rightarrow> hosts cfg i t) else hosts cfg i t)"
  by (auto simp: hosts_def known_def split: event.split)

lemma sent_snoc: "sent i (t @ [(j, e)]) = (if j = i \<and> is_sent e then Suc (sent i t) else sent i t)"
  by (simp add: sent_def)

lemma lawful_snoc:
  assumes "lawful cfg t" and "\<And>u. e = Sent u \<Longrightarrow> allowed cfg (hosts cfg i t) u"
  shows "lawful cfg (t @ [(i, e)])"
  unfolding lawful_def
proof (intro allI impI)
  fix t1 j u t2
  assume "t @ [(i, e)] = t1 @ (j, Sent u) # t2"
  then have "(\<exists>t3. t = t1 @ (j, Sent u) # t3) \<or> t1 = t \<and> i = j \<and> e = Sent u"
    by (cases t2 rule: rev_cases) auto
  then show "allowed cfg (hosts cfg j t1) u" using assms by (auto simp: lawful_def)
qed

lemma wp_answer:
  assumes "answer_io p a s = Some (p', s', e)" and "wp cfg Q p A n"
  shows "wp cfg Q p' (case e of Asked h d \<Rightarrow> known cfg d h A | _ \<Rightarrow> A) (if is_sent e then Suc n else n)"
    and "e = Sent u \<Longrightarrow> allowed cfg A u"
  using assms by (cases "(p, a, s)" rule: answer_io.cases; auto)+

lemma wp_count: "wp cfg (\<lambda>B m r. m \<le> c \<and> P B r) p A n \<Longrightarrow> n \<le> c"
proof (induction p arbitrary: A n)
  case (Resolve h k)
  then show ?case by (meson rangeI wp.simps(2))
next
  case (Get u k)
  then have "Suc n \<le> c" by (meson rangeI wp.simps(3))
  then show ?case by simp
next
  case (PostSearch u q k)
  then have "Suc n \<le> c" by (meson rangeI wp.simps(4))
  then show ?case by simp
next
  case (Render u l k)
  then have "Suc n \<le> c" by (meson rangeI wp.simps(5))
  then show ?case by simp
next
  case (ReadSlice u k)
  then show ?case by (meson rangeI wp.simps(6))
next
  case (RunAdapter c u k)
  then show ?case by (meson rangeI wp.simps(7))
next
  case (LoadDomains k)
  then show ?case by (meson rangeI wp.simps(8))
qed auto

definition pool_inv ::
  "fetch_config \<Rightarrow> (nat \<Rightarrow> str set \<Rightarrow> nat \<Rightarrow> fetch_error + 'a \<Rightarrow> bool) \<Rightarrow> 'a pool \<Rightarrow> bool" where
  "pool_inv cfg Q pool \<longleftrightarrow> (case pool of (ps, s, t) \<Rightarrow>
     lawful cfg t \<and> (\<forall>i < length ps. wp cfg (Q i) (ps ! i) (hosts cfg i t) (sent i t)))"

lemma pool_inv_step:
  assumes "pool_step x y" and "pool_inv cfg Q x"
  shows "pool_inv cfg Q y"
  using assms
proof (induction rule: pool_step.induct)
  case (turn i ps a s p s' e t)
  then have wp: "wp cfg (Q j) (ps ! j) (hosts cfg j t) (sent j t)" if "j < length ps" for j
    using that by (simp add: pool_inv_def)
  have "lawful cfg (t @ [(i, e)])"
    using turn wp_answer(2) [OF turn(2) wp [OF turn(1)]] by (auto simp: pool_inv_def intro: lawful_snoc)
  moreover have "wp cfg (Q j) (ps[i := p] ! j) (hosts cfg j (t @ [(i, e)])) (sent j (t @ [(i, e)]))"
    if "j < length ps" for j
    using wp_answer(1) [OF turn(2) wp [OF turn(1)]] wp [OF that] that
    by (cases "j = i") (auto simp: hosts_snoc sent_snoc split: event.split)
  ultimately show ?case by (simp add: pool_inv_def)
qed

lemma pool_inv_steps: "pool_step\<^sup>*\<^sup>* x y \<Longrightarrow> pool_inv cfg Q x \<Longrightarrow> pool_inv cfg Q y"
  by (induction rule: rtranclp_induct) (auto intro: pool_inv_step)

lemma pool_length: "pool_step\<^sup>*\<^sup>* x y \<Longrightarrow> length (fst y) = length (fst x)"
  by (induction rule: rtranclp_induct) (auto elim: pool_step.cases)

subsection \<open>The end of a batch\<close>

definition io_steps :: "('a io \<times> 'a io) set" where
  "io_steps = {(q, p). \<exists>a s s' e. answer_io p a s = Some (q, s', e)}"

lemma io_stepsD: "(q, p) \<in> io_steps \<Longrightarrow> \<exists>a s s' e. answer_io p a s = Some (q, s', e)"
  by (simp add: io_steps_def)

lemma io_steps_end: "p \<in> Wellfounded.acc io_steps"
proof (induction p)
  case (Done r)
  show ?case by (rule Wellfounded.accI) (auto dest!: io_stepsD)
next
  case (Resolve h k)
  show ?case by (rule Wellfounded.accI) (auto dest!: io_stepsD intro: Resolve elim!: answer_io.elims)
next
  case (Get u k)
  show ?case by (rule Wellfounded.accI) (auto dest!: io_stepsD intro: Get elim!: answer_io.elims)
next
  case (PostSearch u q k)
  show ?case by (rule Wellfounded.accI) (auto dest!: io_stepsD intro: PostSearch elim!: answer_io.elims)
next
  case (Render u l k)
  show ?case by (rule Wellfounded.accI) (auto dest!: io_stepsD intro: Render elim!: answer_io.elims)
next
  case (ReadSlice u k)
  show ?case by (rule Wellfounded.accI) (auto dest!: io_stepsD intro: ReadSlice elim!: answer_io.elims)
next
  case (RunAdapter c u k)
  show ?case by (rule Wellfounded.accI) (auto dest!: io_stepsD intro: RunAdapter elim!: answer_io.elims)
next
  case (LoadDomains k)
  show ?case by (rule Wellfounded.accI) (auto dest!: io_stepsD intro: LoadDomains elim!: answer_io.elims)
next
  case (StoreDomains ds d c p)
  show ?case by (rule Wellfounded.accI) (auto dest!: io_stepsD intro: StoreDomains elim!: answer_io.elims)
next
  case (Report e p)
  show ?case by (rule Wellfounded.accI) (auto dest!: io_stepsD intro: Report elim!: answer_io.elims)
qed

lemma pool_step_listrel: "pool_step x y \<Longrightarrow> (fst y, fst x) \<in> listrel1 io_steps"
proof (induction rule: pool_step.induct)
  case (turn i ps a s p s' e t)
  have "(p, ps ! i) \<in> io_steps" using turn(2) unfolding io_steps_def by blast
  moreover have "ps = take i ps @ ps ! i # drop (Suc i) ps" using turn(1) by (rule id_take_nth_drop)
  moreover have "ps[i := p] = take i ps @ p # drop (Suc i) ps" using turn(1) by (rule upd_conv_take_nth_drop)
  ultimately show ?case unfolding fst_conv by (metis listrel1I)
qed

lemma pools_end: "ps \<in> Wellfounded.acc (listrel1 io_steps)"
  by (rule lists_accD) (auto intro: io_steps_end simp: lists_eq_set)

lemma pool_runs_end: "\<not> (\<exists>f :: nat \<Rightarrow> 'a pool. \<forall>n. pool_step (f n) (f (Suc n)))"
proof
  assume "\<exists>f :: nat \<Rightarrow> 'a pool. \<forall>n. pool_step (f n) (f (Suc n))"
  then obtain f :: "nat \<Rightarrow> 'a pool" where f: "\<forall>n. pool_step (f n) (f (Suc n))" ..
  have "ps \<in> Wellfounded.acc (listrel1 io_steps) \<Longrightarrow> ps \<noteq> fst (f n)" for ps n
  proof (induction ps arbitrary: n rule: acc_induct_rule)
    case (1 ps)
    show ?case
    proof
      assume "ps = fst (f n)"
      then show False using 1 pool_step_listrel [OF spec [OF f, of n]] by metis
    qed
  qed
  then show False using pools_end by blast
qed

subsection \<open>The properties of a batch\<close>

lemma batch_inv:
  assumes "pool_step\<^sup>*\<^sup>* (start_batch cfg urls s) (ps, s', t)"
  shows "pool_inv cfg (\<lambda>i B m r. m \<le> 623 \<and> (\<forall>x. r = Inr x \<longrightarrow> listed_ok cfg (urls ! i) x)) (ps, s', t)"
proof (rule pool_inv_steps [OF assms])
  have "wp cfg (\<lambda>B m r. m \<le> 623 \<and> (\<forall>x. r = Inr x \<longrightarrow> listed_ok cfg u x)) (fetch_one_with_expansion cfg u) {} 0" for u
    using fetch_one_gives [of cfg "{}" u, unfolded gives_def does_def, rule_format, of 0]
    by (rule wp_conseq) auto
  then show "pool_inv cfg (\<lambda>i B m r. m \<le> 623 \<and> (\<forall>x. r = Inr x \<longrightarrow> listed_ok cfg (urls ! i) x)) (start_batch cfg urls s)"
    by (simp add: pool_inv_def start_batch_def lawful_def hosts_def sent_def)
qed

text \<open>C23: However the threads of a batch are interleaved and whatever they are answered, every request (a page, a redirect target, a link,
  a rendered page, a list of a board) goes to an http or https URL without user info whose host the same thread had
  resolved to public addresses before; but for the two fixed index pages of the campus portal.\<close>

theorem batch_requests_public:
  assumes "pool_step\<^sup>*\<^sup>* (start_batch cfg urls s) (ps, s', t)" and "t = t1 @ (i, Sent u) # t2"
  shows "(\<exists>p a. split_of cfg u = Some p \<and> public_shape p \<and> (i, Asked (up_host p) a) \<in> set t1 \<and> all_global cfg a)
     \<or> u \<in> {campus_index 1, campus_index 2}"
  using batch_inv [OF assms(1)] assms(2) by (auto simp: pool_inv_def lawful_def allowed_def hosts_def)

text \<open>C24: A batch ends however it is scheduled and answered, and no URL of it sends more than 623 requests.\<close>

theorem batch_ends_bounded:
  "\<not> (\<exists>f. f 0 = start_batch cfg urls s \<and> (\<forall>n. pool_step (f n) (f (Suc n))))
   \<and> (\<forall>ps s' t i. pool_step\<^sup>*\<^sup>* (start_batch cfg urls s) (ps, s', t) \<and> i < length urls \<longrightarrow> sent i t \<le> 623)"
proof -
  have "sent i t \<le> 623" if "pool_step\<^sup>*\<^sup>* (start_batch cfg urls s) (ps, s', t)" and "i < length urls" for ps s' t i
  proof -
    have "i < length ps" using pool_length [OF that(1)] that(2) by (simp add: start_batch_def)
    with batch_inv [OF that(1)] show ?thesis by (auto simp: pool_inv_def dest: wp_count)
  qed
  then show ?thesis using pool_runs_end by blast
qed


end
