(* ===== verification/FetchScenario.thy ===== *)
theory FetchScenario
  imports FetchPool
begin

section \<open>Concrete batches\<close>

text \<open>Schedules of batches that show the hypotheses of their properties can hold, and what threads and errors do.\<close>

definition plain_fetch :: fetch_config where
  "plain_fetch = \<lparr>fc_brackets = \<lambda>s. True, fc_global = \<lambda>a. a = lit ''8.8.8.8'', fc_html = \<lambda>s. [],
     fc_query = \<lambda>q n. [], fc_float = id, fc_render = False, fc_ocr = False, fc_adapters = None\<rparr>"

definition fresh_run :: shared where
  "fresh_run = \<lparr>sd_blocked = JArr [], sd_reasons = [], sd_failures = []\<rparr>"

definition public_dns :: answer where
  "public_dns = DnsA (Addresses [lit ''8.8.8.8''])"

definition http_status :: "int \<Rightarrow> answer" where
  "http_status n = HttpA (Response \<lparr>hr_status = n, hr_redirect = False, hr_location = None, hr_text = [], hr_json = None\<rparr>)"

definition two_sites :: "str list" where
  "two_sites = [lit ''http://a.example/job'', lit ''http://b.example/job'']"

text \<open>Both sites answer 403. Each thread reads the blocked domains before the other has stored its own.\<close>

definition both_denied :: "(nat \<times> answer) list" where
  "both_denied = [(0, public_dns), (1, public_dns), (0, TurnA), (1, TurnA), (0, http_status 403), (1, http_status 403),
     (0, TurnA), (1, TurnA), (0, TurnA), (1, TurnA)]"


definition summary :: "page list pool \<Rightarrow> bool \<times> str list \<times> str list \<times> str list" where
  "summary pool = (case pool of (ps, s, t) \<Rightarrow>
     (list_all (\<lambda>p. thread_result p \<noteq> None) ps, blocked_domains (sd_blocked s), map fst (sd_reasons s),
      List.map_filter (\<lambda>(i, e). case e of Sent u \<Rightarrow> Some u | _ \<Rightarrow> None) t))"

definition denied_trace :: "(nat \<times> event) list" where
  "denied_trace =
     [(0, Asked (lit ''a.example'') (Addresses [lit ''8.8.8.8''])), (1, Asked (lit ''b.example'') (Addresses [lit ''8.8.8.8''])),
      (0, Quiet), (1, Quiet), (0, Sent (lit ''http://a.example/job'')), (1, Sent (lit ''http://b.example/job'')),
      (0, Quiet), (1, Quiet), (0, Quiet), (1, Quiet)]"

text \<open>The run remembers why it blocks both sites, but it blocks only the second one: the first update was lost.\<close>

lemma lost_domain_update:
  "map_option (\<lambda>(ps, s, t). (list_all (\<lambda>p. thread_result p \<noteq> None) ps, blocked_domains (sd_blocked s), map fst (sd_reasons s), t))
     (run_schedule both_denied (start_batch plain_fetch two_sites fresh_run))
   = Some (True, [lit ''b.example''], [lit ''a.example'', lit ''b.example''], denied_trace)"
  unfolding denied_trace_def by code_simp

lemma denied_batch:
  obtains ps s where "pool_step\<^sup>*\<^sup>* (start_batch plain_fetch two_sites fresh_run) (ps, s, denied_trace)"
    and "\<forall>p \<in> set ps. thread_result p \<noteq> None"
proof -
  from lost_domain_update obtain ps s t
    where run: "run_schedule both_denied (start_batch plain_fetch two_sites fresh_run) = Some (ps, s, t)"
      and "list_all (\<lambda>p. thread_result p \<noteq> None) ps" "t = denied_trace" by auto
  with that [of ps s] run_schedule_steps [OF run] show ?thesis by (simp add: list_all_iff)
qed

lemma batch_requests_public_witness:
  "\<exists>ps s t1 t2. pool_step\<^sup>*\<^sup>* (start_batch plain_fetch two_sites fresh_run) (ps, s, denied_trace)
     \<and> denied_trace = t1 @ (0, Sent (lit ''http://a.example/job'')) # t2
     \<and> ((\<exists>p a. split_of plain_fetch (lit ''http://a.example/job'') = Some p \<and> public_shape p
            \<and> (0, Asked (up_host p) a) \<in> set t1 \<and> all_global plain_fetch a)
          \<or> lit ''http://a.example/job'' \<in> {campus_index 1, campus_index 2})"
proof -
  obtain ps s where run: "pool_step\<^sup>*\<^sup>* (start_batch plain_fetch two_sites fresh_run) (ps, s, denied_trace)"
    by (rule denied_batch)
  have split: "denied_trace = take 4 denied_trace @ (0, Sent (lit ''http://a.example/job'')) # drop 5 denied_trace"
    by (simp add: denied_trace_def)
  from batch_requests_public [OF run split] run split show ?thesis by blast
qed

lemma batch_ends_bounded_witness:
  "\<exists>ps s. pool_step\<^sup>*\<^sup>* (start_batch plain_fetch two_sites fresh_run) (ps, s, denied_trace)
     \<and> 0 < length two_sites \<and> sent 0 denied_trace \<le> 623"
proof -
  obtain ps s where run: "pool_step\<^sup>*\<^sup>* (start_batch plain_fetch two_sites fresh_run) (ps, s, denied_trace)"
    by (rule denied_batch)
  moreover have "0 < length two_sites" by (simp add: two_sites_def)
  ultimately show ?thesis
    using batch_ends_bounded [of plain_fetch two_sites fresh_run] by blast
qed


subsection \<open>Errors of the code\<close>

text \<open>A link that \<open>urljoin\<close> refuses ends the collection with its exception: a page read before is lost.\<close>

lemma malformed_link_raises:
  "collect_links plain_fetch (lit ''http://a.example/job'')
     (StartTag (lit ''a'') [(lit ''href'', Some (lit ''http://[''))] # events) 0 links = raise_io value_error"
proof -
  have "urljoin (fc_brackets plain_fetch) (lit ''http://a.example/job'') (lit ''http://['') = None" by code_simp
  moreover have "link_candidates [(lit ''href'', Some (lit ''http://[''))] = [lit ''http://['']" by code_simp
  moreover have "tag_in (lit ''a'') link_ignored = False" by code_simp
  ultimately show ?thesis
    by (simp add: add_link_def from_url_def bind_io_def raise_io_def Let_def)
qed

text \<open>
  The loop over the campus portal requests its index pages without resolving their host, and the second one although the
  first was denied.
\<close>

lemma campus_goes_on_after_block:
  "map_option (\<lambda>(ps, s, t). (blocked_domains (sd_blocked s), filter (\<lambda>(i, e). e \<noteq> Quiet) t))
     (run_schedule [(0, http_status 403), (0, TurnA), (0, TurnA), (0, TurnA), (0, http_status 403)]
       ([campus_loop plain_fetch [campus_index 1, campus_index 2] ([], [])], fresh_run, []))
   = Some ([campus_host], [(0, Sent (campus_index 1)), (0, Sent (campus_index 2))])"
  by code_simp

end
