(* ===== verification/Accounts.thy ===== *)
theory Accounts
  imports Sha256
begin

section \<open>Accounts, sign-in and its rate limit\<close>

text \<open>
  \<open>services/auth.py\<close>, \<open>services/rate_limit.py\<close>, \<open>repositories/users.py\<close>, \<open>routes/auth.py\<close> and the user of a request in
  \<open>api/dependencies.py\<close>. Arguments, in \<open>auth_libs\<close>: the case tables of Unicode, the password hash of \<open>pwdlib\<close> (with the salt it
  draws), the encoding and checking of tokens by \<open>jwt\<close> under the secret, issuer and audience of the settings, and the address
  parser of \<open>ipaddress\<close>. What Redis answers is part of a request. Times are seconds.
\<close>

subsection \<open>Rows, settings and libraries\<close>

datatype user_role = Student | Admin

definition user_role_value :: "user_role \<Rightarrow> str" where
  "user_role_value r = lit (case r of Student \<Rightarrow> ''student'' | Admin \<Rightarrow> ''admin'')"

record user =
  us_id :: str
  us_account :: str
  us_nickname :: str
  us_password :: str
  us_role :: user_role
  us_active :: bool
  us_created :: int
  us_last_login :: "int option"

record auth_settings =
  se_test :: bool
  se_issuer :: str
  se_audience :: str
  se_ttl :: int
  se_proxies :: str
  se_limit_secret :: "str option"

text \<open>What \<open>jwt.decode\<close> gives: the claims, one of its errors, or an \<open>OverflowError\<close>.\<close>

datatype decoded = Claims dict | TokenRefused | TokenOverflows

record auth_libs =
  al_lower :: "str \<Rightarrow> str"
  al_casefold :: "str \<Rightarrow> str"
  al_hash :: "nat \<Rightarrow> str \<Rightarrow> str"
  al_verify :: "str \<Rightarrow> str \<Rightarrow> bool option"
  al_encode :: "dict \<Rightarrow> str"
  al_decode :: "int \<Rightarrow> str \<Rightarrow> decoded"
  al_address :: "str \<Rightarrow> str option"
  al_in_network :: "str \<Rightarrow> str \<Rightarrow> bool option"

subsection \<open>The users' repository and the service\<close>

definition normalize_account :: "auth_libs \<Rightarrow> str \<Rightarrow> str" where
  "normalize_account al account = al_lower al (strip account)"

definition get_by_account :: "auth_libs \<Rightarrow> user list \<Rightarrow> str \<Rightarrow> user option" where
  "get_by_account al users account = find (\<lambda>u. us_account u = normalize_account al account) users"

definition get_by_id :: "user list \<Rightarrow> str \<Rightarrow> user option" where
  "get_by_id users i = find (\<lambda>u. us_id u = i) users"

text \<open>The insertion, which the unique columns may refuse\<close>

datatype insertion = Inserted "user list" | AccountTaken | OtherViolation

definition insert_user :: "user \<Rightarrow> user list \<Rightarrow> insertion" where
  "insert_user u users =
     (if us_account u \<in> us_account ` set users then AccountTaken
      else if us_id u \<in> us_id ` set users then OtherViolation
      else Inserted (users @ [u]))"

datatype registration = Created user "user list" | AccountExists | RegistrationFails

text \<open>\<open>seen\<close> is the table at the lookup, which other requests may have changed before the insertion.\<close>

definition register ::
  "auth_libs \<Rightarrow> str \<Rightarrow> str \<Rightarrow> str \<Rightarrow> int \<Rightarrow> nat \<Rightarrow> str \<Rightarrow> user list \<Rightarrow> user list \<Rightarrow> registration" where
  "register al account nickname password now salt new_id seen users =
     (if get_by_account al seen (normalize_account al account) \<noteq> None then AccountExists
      else
        let u = \<lparr>us_id = new_id, us_account = normalize_account al account, us_nickname = strip nickname,
              us_password = al_hash al salt password, us_role = Student, us_active = True, us_created = now,
              us_last_login = Some now\<rparr>
        in case insert_user u users of
             Inserted users' \<Rightarrow> Created u users'
           | AccountTaken \<Rightarrow> AccountExists
           | OtherViolation \<Rightarrow> RegistrationFails)"

definition sign_in :: "int \<Rightarrow> user \<Rightarrow> user" where
  "sign_in now u = u\<lparr>us_last_login := Some now\<rparr>"

datatype authentication = Authenticated user "user list" | Rejected | VerifierRaises

definition authenticate :: "auth_libs \<Rightarrow> str \<Rightarrow> str \<Rightarrow> int \<Rightarrow> user list \<Rightarrow> authentication" where
  "authenticate al account password now users =
     (case get_by_account al users account of
        None \<Rightarrow> Rejected
      | Some u \<Rightarrow>
          if \<not> us_active u then Rejected
          else (case al_verify al password (us_password u) of
              None \<Rightarrow> VerifierRaises
            | Some False \<Rightarrow> Rejected
            | Some True \<Rightarrow> Authenticated (sign_in now u)
                (map (\<lambda>v. if us_id v = us_id u then sign_in now v else v) users)))"

subsection \<open>Tokens\<close>

definition user_claims :: "auth_settings \<Rightarrow> user \<Rightarrow> str \<Rightarrow> int \<Rightarrow> dict" where
  "user_claims se u jti now =
     [(lit ''iss'', JStr (se_issuer se)), (lit ''aud'', JStr (se_audience se)), (lit ''sub'', JStr (us_id u)),
      (lit ''role'', JStr (user_role_value (us_role u))), (lit ''jti'', JStr jti), (lit ''iat'', JInt now),
      (lit ''exp'', JInt (now + se_ttl se))]"

definition issue_user_token :: "auth_settings \<Rightarrow> auth_libs \<Rightarrow> user \<Rightarrow> str \<Rightarrow> int \<Rightarrow> str" where
  "issue_user_token se al u jti now = al_encode al (user_claims se u jti now)"

text \<open>The claims are checked once more: a finite number, two texts that are not blank, and a role.\<close>

definition finite_number :: "json \<Rightarrow> bool" where
  "finite_number v = (case v of JInt i \<Rightarrow> True | JFloat r \<Rightarrow> r \<notin> lit ` {''nan'', ''inf'', ''-inf''} | _ \<Rightarrow> False)"

definition text_claim :: "json \<Rightarrow> bool" where
  "text_claim v = (case v of JStr s \<Rightarrow> strip s \<noteq> [] | _ \<Rightarrow> False)"

definition role_claim :: "json \<Rightarrow> bool" where
  "role_claim v = (case v of JStr s \<Rightarrow> s \<in> user_role_value ` {Student, Admin} | _ \<Rightarrow> False)"

datatype token_error = InvalidToken | MissingClaim str

fun check_claims :: "(string \<times> (json \<Rightarrow> bool)) list \<Rightarrow> dict \<Rightarrow> token_error + dict" where
  "check_claims [] d = Inr d"
| "check_claims ((name, ok) # rest) d =
     (if \<not> dhas d (lit name) then Inl (MissingClaim (lit name))
      else if \<not> ok (dget d (lit name)) then Inl InvalidToken
      else check_claims rest d)"

definition decode_user_token :: "auth_libs \<Rightarrow> int \<Rightarrow> str \<Rightarrow> token_error + dict" where
  "decode_user_token al now token =
     (case al_decode al now token of
        Claims d \<Rightarrow> check_claims
          [(''exp'', finite_number), (''sub'', text_claim), (''jti'', text_claim), (''role'', role_claim)] d
      | TokenRefused \<Rightarrow> Inl InvalidToken
      | TokenOverflows \<Rightarrow> Inl InvalidToken)"

text \<open>\<open>get_current_user\<close>: the active user a bearer token names, or 401 whatever is wrong with it.\<close>

definition get_current_user :: "auth_libs \<Rightarrow> int \<Rightarrow> str option \<Rightarrow> user list \<Rightarrow> user option" where
  "get_current_user al now credentials users =
     (case credentials of
        None \<Rightarrow> None
      | Some token \<Rightarrow>
          (case decode_user_token al now token of
             Inl e \<Rightarrow> None
           | Inr d \<Rightarrow>
               (case dget d (lit ''sub'') of
                  JStr i \<Rightarrow>
                    (case get_by_id users i of
                       Some u \<Rightarrow> if i \<noteq> [] \<and> us_active u then Some u else None
                     | None \<Rightarrow> None)
                | _ \<Rightarrow> None)))"

definition require_admin :: "user \<Rightarrow> bool" where
  "require_admin u \<longleftrightarrow> us_role u = Admin"

subsection \<open>The rate limit\<close>

text \<open>\<open>hmac.new(key, message, "sha256").hexdigest()\<close>\<close>

definition hex_number :: "int \<Rightarrow> int" where
  "hex_number c = (if c < 58 then c - 48 else c - 87)"

definition bytes_of_hex :: "str \<Rightarrow> int list" where
  "bytes_of_hex s = map (\<lambda>p. 16 * hex_number (p ! 0) + hex_number (p ! 1)) (chunks 2 s)"

definition hmac_key :: "int list \<Rightarrow> int list" where
  "hmac_key key = (let k = (if 64 < length key then bytes_of_hex (sha256_bytes key) else key) in k @ replicate (64 - length k) 0)"

definition xor_bytes :: "int \<Rightarrow> int list \<Rightarrow> int list" where
  "xor_bytes pad bs = map (\<lambda>b. uint ((of_int b :: 8 word) XOR of_int pad)) bs"

definition hmac_hex :: "str \<Rightarrow> str \<Rightarrow> str" where
  "hmac_hex key message =
     (let k = hmac_key (utf8 key) in
      sha256_bytes (xor_bytes 92 k @ bytes_of_hex (sha256_bytes (xor_bytes 54 k @ utf8 message))))"

text \<open>What Redis answers to the increment of a key; a failure of any kind\<close>

datatype count_answer = Counted int | RedisFails

datatype limit_result = Passed | Exceeded | Unavailable

definition limit_key :: "auth_settings \<Rightarrow> string \<Rightarrow> str \<Rightarrow> str" where
  "limit_key se action identity =
     lit ''auth-rate:'' @ lit action @ lit '':''
     @ (if present (se_limit_secret se) then hmac_hex (the (se_limit_secret se)) identity else sha256_hex identity)"

definition check_limit :: "(str \<Rightarrow> count_answer) \<Rightarrow> str \<Rightarrow> int \<Rightarrow> limit_result" where
  "check_limit redis key limit =
     (case redis key of RedisFails \<Rightarrow> Unavailable | Counted n \<Rightarrow> if limit < n then Exceeded else Passed)"

text \<open>The client's address: the forwarded one when the peer is a trusted proxy and it parses, else the peer.\<close>

definition trusted_peer :: "auth_libs \<Rightarrow> str \<Rightarrow> str \<Rightarrow> bool" where
  "trusted_peer al peer cidrs \<longleftrightarrow>
     (\<exists>c \<in> set (map strip (split_on 44 cidrs)). c \<noteq> [] \<and> al_in_network al c peer = Some True)"

definition resolve_client_ip :: "auth_libs \<Rightarrow> str \<Rightarrow> str option \<Rightarrow> str \<Rightarrow> str" where
  "resolve_client_ip al peer forwarded cidrs =
     (if al_address al peer = None \<or> \<not> trusted_peer al peer cidrs \<or> \<not> present forwarded then peer
      else (case al_address al (strip (the forwarded)) of None \<Rightarrow> peer | Some a \<Rightarrow> a))"

record request_meta =
  rm_peer :: "str option"
  rm_forwarded :: "str option"
  rm_redis :: "str \<Rightarrow> count_answer"
  rm_now :: int

definition client_identity :: "auth_settings \<Rightarrow> auth_libs \<Rightarrow> request_meta \<Rightarrow> str" where
  "client_identity se al rm =
     resolve_client_ip al (case rm_peer rm of None \<Rightarrow> lit ''unknown'' | Some p \<Rightarrow> p) (rm_forwarded rm) (se_proxies se)"

definition account_key :: "auth_settings \<Rightarrow> auth_libs \<Rightarrow> str \<Rightarrow> str" where
  "account_key se al account = limit_key se ''login-account'' (al_casefold al (strip account))"

definition register_limit :: "auth_settings \<Rightarrow> auth_libs \<Rightarrow> request_meta \<Rightarrow> limit_result" where
  "register_limit se al rm =
     (if se_test se then Passed
      else check_limit (rm_redis rm) (limit_key se ''register-ip'' (client_identity se al rm)) 20)"

definition login_limit :: "auth_settings \<Rightarrow> auth_libs \<Rightarrow> request_meta \<Rightarrow> str \<Rightarrow> limit_result" where
  "login_limit se al rm account =
     (if se_test se then Passed
      else case check_limit (rm_redis rm) (limit_key se ''login-ip'' (client_identity se al rm)) 120 of
          Passed \<Rightarrow> check_limit (rm_redis rm) (account_key se al account) 8
        | refused \<Rightarrow> refused)"

definition limit_status :: "limit_result \<Rightarrow> nat" where
  "limit_status r = (case r of Passed \<Rightarrow> 200 | Exceeded \<Rightarrow> 429 | Unavailable \<Rightarrow> 503)"

subsection \<open>The routes\<close>

record account_profile =
  ap_account :: str
  ap_nickname :: str
  ap_role :: str
  ap_created :: int
  ap_last_login :: "int option"

definition serialize_profile :: "user \<Rightarrow> account_profile" where
  "serialize_profile u =
     \<lparr>ap_account = us_account u, ap_nickname = us_nickname u, ap_role = user_role_value (us_role u),
      ap_created = us_created u, ap_last_login = us_last_login u\<rparr>"

datatype auth_reply = Granted str account_profile | Denied nat

definition text_between :: "nat \<Rightarrow> nat \<Rightarrow> str \<Rightarrow> bool" where
  "text_between lo hi s \<longleftrightarrow> lo \<le> length s \<and> length s \<le> hi"

definition credentials_ok :: "str \<Rightarrow> str \<Rightarrow> bool" where
  "credentials_ok account password \<longleftrightarrow> text_between 3 120 (strip account) \<and> text_between 6 1024 password"

definition register_route ::
  "auth_settings \<Rightarrow> auth_libs \<Rightarrow> str \<Rightarrow> str \<Rightarrow> str \<Rightarrow> request_meta \<Rightarrow> nat \<Rightarrow> str \<Rightarrow> str \<Rightarrow> user list \<Rightarrow> user list
    \<Rightarrow> auth_reply \<times> user list" where
  "register_route se al account nickname password rm salt new_id jti seen users =
     (if \<not> credentials_ok account password \<or> \<not> text_between 1 120 (strip nickname) then (Denied 422, users)
      else if register_limit se al rm \<noteq> Passed then (Denied (limit_status (register_limit se al rm)), users)
      else case register al (strip account) (strip nickname) password (rm_now rm) salt new_id seen users of
          AccountExists \<Rightarrow> (Denied 409, users)
        | RegistrationFails \<Rightarrow> (Denied 500, users)
        | Created u users' \<Rightarrow> (Granted (issue_user_token se al u jti (rm_now rm)) (serialize_profile u), users'))"

definition login_route ::
  "auth_settings \<Rightarrow> auth_libs \<Rightarrow> str \<Rightarrow> str \<Rightarrow> request_meta \<Rightarrow> str \<Rightarrow> user list \<Rightarrow> auth_reply \<times> user list" where
  "login_route se al account password rm jti users =
     (if \<not> credentials_ok account password then (Denied 422, users)
      else if login_limit se al rm (strip account) \<noteq> Passed
        then (Denied (limit_status (login_limit se al rm (strip account))), users)
      else case authenticate al (strip account) password (rm_now rm) users of
          Rejected \<Rightarrow> (Denied 401, users)
        | VerifierRaises \<Rightarrow> (Denied 500, users)
        | Authenticated u users' \<Rightarrow> (Granted (issue_user_token se al u jti (rm_now rm)) (serialize_profile u), users'))"

definition me_route :: "auth_libs \<Rightarrow> int \<Rightarrow> str option \<Rightarrow> user list \<Rightarrow> account_profile option" where
  "me_route al now credentials users = map_option serialize_profile (get_current_user al now credentials users)"

end
