(* ===== verification/AccountProperties.thy ===== *)
theory AccountProperties
  imports Accounts
begin

section \<open>Who is signed in\<close>

text \<open>
  The runs of the sign-in routes: requests in any order, rows whose role, state and dates are changed from outside, and
  questions who a token belongs to. Nothing is assumed of the tokens that are presented; the laws of the token library
  are hypotheses of the properties that need them.
\<close>

subsection \<open>Runs\<close>

datatype auth_event =
    SignUp str str request_meta auth_reply
  | LogIn str str request_meta auth_reply
  | Ask str int "user option"
  | Maintain

definition us_fixed :: "user \<Rightarrow> str \<times> str \<times> str" where
  "us_fixed u = (us_id u, us_account u, us_password u)"

inductive auth_run :: "auth_settings \<Rightarrow> auth_libs \<Rightarrow> user list \<Rightarrow> user list \<Rightarrow> auth_event list \<Rightarrow> bool"
  for se al us0 where
  start: "auth_run se al us0 us0 []"
| sign_up: "auth_run se al us0 us es \<Longrightarrow>
    register_route se al account nickname password rm salt new_id jti seen us = (reply, us') \<Longrightarrow>
    auth_run se al us0 us' (es @ [SignUp account password rm reply])"
| log_in: "auth_run se al us0 us es \<Longrightarrow> login_route se al account password rm jti us = (reply, us') \<Longrightarrow>
    auth_run se al us0 us' (es @ [LogIn account password rm reply])"
| ask: "auth_run se al us0 us es \<Longrightarrow>
    auth_run se al us0 us (es @ [Ask token now (get_current_user al now (Some token) us)])"
| maintain: "auth_run se al us0 us es \<Longrightarrow> map us_fixed us' = map us_fixed us \<Longrightarrow>
    auth_run se al us0 us' (es @ [Maintain])"

text \<open>The tokens a run has issued\<close>

definition issued :: "auth_event list \<Rightarrow> str set" where
  "issued es = {t. \<exists>a p rm pr. SignUp a p rm (Granted t pr) \<in> set es \<or> LogIn a p rm (Granted t pr) \<in> set es}"

subsection \<open>The rows\<close>

definition unique_rows :: "user list \<Rightarrow> bool" where
  "unique_rows users \<longleftrightarrow> distinct (map us_id users) \<and> distinct (map us_account users)"

lemma unique_rows_fixed: "map us_fixed vs = map us_fixed us \<Longrightarrow> unique_rows vs = unique_rows us"
proof -
  assume eq: "map us_fixed vs = map us_fixed us"
  have "map us_id us = map fst (map us_fixed us)" "map us_account us = map (fst \<circ> snd) (map us_fixed us)" for us
    by (simp_all add: us_fixed_def)
  with eq show ?thesis unfolding unique_rows_def by metis
qed

lemma unique_row: "unique_rows us \<Longrightarrow> u \<in> set us \<Longrightarrow> v \<in> set us \<Longrightarrow> us_id u = us_id v \<Longrightarrow> u = v"
  by (auto simp: unique_rows_def distinct_map inj_on_def)

lemma unique_account: "unique_rows us \<Longrightarrow> u \<in> set us \<Longrightarrow> v \<in> set us \<Longrightarrow> us_account u = us_account v \<Longrightarrow> u = v"
  by (auto simp: unique_rows_def distinct_map inj_on_def)

lemma sign_in_fixed [simp]: "us_fixed (sign_in now u) = us_fixed u"
  by (simp add: us_fixed_def sign_in_def)

lemma sign_in_fields [simp]:
  "us_id (sign_in now u) = us_id u" "us_account (sign_in now u) = us_account u" "us_active (sign_in now u) = us_active u"
  by (simp_all add: sign_in_def)

lemma registered:
  assumes "register al account nickname password now salt new_id seen us = Created u us'"
  shows "us' = us @ [u] \<and> us_account u = normalize_account al account \<and> us_password u = al_hash al salt password
    \<and> us_id u = new_id \<and> us_account u \<notin> us_account ` set us \<and> us_id u \<notin> us_id ` set us"
  using assms by (auto simp: register_def insert_user_def Let_def split: if_splits)

lemma authenticated:
  assumes "authenticate al account password now us = Authenticated u us'"
  shows "\<exists>v \<in> set us. u = sign_in now v \<and> us_account v = normalize_account al account \<and> us_active v
    \<and> al_verify al password (us_password v) = Some True
    \<and> us' = map (\<lambda>w. if us_id w = us_id v then sign_in now w else w) us"
  using assms
  by (auto simp: authenticate_def get_by_account_def split: option.splits if_splits bool.splits dest!: find_SomeD)

text \<open>What a granted request leaves\<close>

lemma register_granted:
  assumes "register_route se al account nickname password rm salt new_id jti seen us = (Granted t pr, us')"
  shows "\<exists>u. register al (strip account) (strip nickname) password (rm_now rm) salt new_id seen us = Created u us'
    \<and> t = issue_user_token se al u jti (rm_now rm)"
  using assms by (auto simp: register_route_def split: if_splits registration.splits)

lemma register_refused:
  "register_route se al account nickname password rm salt new_id jti seen us = (Denied n, us') \<Longrightarrow> us' = us"
  by (auto simp: register_route_def split: if_splits registration.splits)

lemma login_granted:
  assumes "login_route se al account password rm jti us = (Granted t pr, us')"
  shows "\<exists>u. authenticate al (strip account) password (rm_now rm) us = Authenticated u us'
    \<and> t = issue_user_token se al u jti (rm_now rm)"
  using assms by (auto simp: login_route_def split: if_splits authentication.splits)

lemma login_refused: "login_route se al account password rm jti us = (Denied n, us') \<Longrightarrow> us' = us"
  by (auto simp: login_route_def split: if_splits authentication.splits)

lemma register_rows:
  assumes "register_route se al account nickname password rm salt new_id jti seen us = (reply, us')" and "unique_rows us"
  shows "unique_rows us' \<and> us_fixed ` set us \<subseteq> us_fixed ` set us'"
proof (cases reply)
  case (Granted t pr)
  then obtain u where "register al (strip account) (strip nickname) password (rm_now rm) salt new_id seen us = Created u us'"
    using register_granted assms(1) by blast
  from registered [OF this] assms(2) show ?thesis by (auto simp: unique_rows_def)
next
  case (Denied n)
  then show ?thesis using register_refused assms by blast
qed

lemma login_rows:
  assumes "login_route se al account password rm jti us = (reply, us')"
  shows "map us_fixed us' = map us_fixed us"
proof (cases reply)
  case (Granted t pr)
  then obtain u where "authenticate al (strip account) password (rm_now rm) us = Authenticated u us'"
    using login_granted assms by blast
  from authenticated [OF this] show ?thesis by auto
next
  case (Denied n)
  then show ?thesis using login_refused assms by blast
qed

lemma fixed_set: "map us_fixed us' = map us_fixed us \<Longrightarrow> us_fixed ` set us' = us_fixed ` set us"
  by (metis list.set_map)

lemma run_unique: "auth_run se al us0 us es \<Longrightarrow> unique_rows us0 \<Longrightarrow> unique_rows us"
  by (induction rule: auth_run.induct) (auto dest: register_rows login_rows unique_rows_fixed)

subsection \<open>The grants of a run\<close>

text \<open>What a granted request of the past says of the rows of today\<close>

fun grant_ok :: "auth_settings \<Rightarrow> auth_libs \<Rightarrow> user list \<Rightarrow> auth_event \<Rightarrow> bool" where
  "grant_ok se al us (SignUp a p rm (Granted t pr)) =
     (\<exists>v jti salt. t = issue_user_token se al v jti (rm_now rm) \<and> us_fixed v \<in> us_fixed ` set us
        \<and> us_account v = normalize_account al (strip a) \<and> us_password v = al_hash al salt p)"
| "grant_ok se al us (LogIn a p rm (Granted t pr)) =
     (\<exists>v jti. t = issue_user_token se al v jti (rm_now rm) \<and> us_fixed v \<in> us_fixed ` set us
        \<and> us_account v = normalize_account al (strip a) \<and> al_verify al p (us_password v) = Some True)"
| "grant_ok se al us _ = True"

lemma grant_ok_mono: "grant_ok se al us e \<Longrightarrow> us_fixed ` set us \<subseteq> us_fixed ` set us' \<Longrightarrow> grant_ok se al us' e"
  by (induction se al us e rule: grant_ok.induct) (auto; blast)+

lemma register_grant:
  assumes "register_route se al account nickname password rm salt new_id jti seen us = (reply, us')"
  shows "grant_ok se al us' (SignUp account password rm reply)"
proof (cases reply)
  case (Granted t pr)
  then obtain u where u: "register al (strip account) (strip nickname) password (rm_now rm) salt new_id seen us = Created u us'"
    and t: "t = issue_user_token se al u jti (rm_now rm)"
    using register_granted assms by blast
  from registered [OF u] have "us_fixed u \<in> us_fixed ` set us'" by simp
  with registered [OF u] t show ?thesis unfolding Granted grant_ok.simps by blast
qed simp

lemma login_grant:
  assumes "login_route se al account password rm jti us = (reply, us')"
  shows "grant_ok se al us' (LogIn account password rm reply)"
proof (cases reply)
  case (Granted t pr)
  then obtain u where u: "authenticate al (strip account) password (rm_now rm) us = Authenticated u us'"
    and t: "t = issue_user_token se al u jti (rm_now rm)"
    using login_granted assms by blast
  from authenticated [OF u] obtain v where v: "v \<in> set us" "u = sign_in (rm_now rm) v"
      "us_account v = normalize_account al (strip account)" "al_verify al password (us_password v) = Some True" by blast
  have "us_fixed u \<in> us_fixed ` set us'" using v(1,2) fixed_set [OF login_rows [OF assms]] by simp
  moreover have "us_account u = normalize_account al (strip account)" "al_verify al password (us_password u) = Some True"
    using v by (simp_all add: sign_in_def)
  ultimately show ?thesis using t unfolding Granted grant_ok.simps by blast
qed simp

lemma run_grants:
  assumes "auth_run se al us0 us es" and "unique_rows us0"
  shows "\<forall>e \<in> set es. grant_ok se al us e"
  using assms
proof (induction rule: auth_run.induct)
  case (sign_up us es account nickname password rm salt new_id jti seen reply us')
  have "us_fixed ` set us \<subseteq> us_fixed ` set us'"
    using register_rows [OF sign_up.hyps(2)] run_unique [OF sign_up.hyps(1) sign_up.prems] by blast
  then show ?case using sign_up register_grant [OF sign_up.hyps(2)] grant_ok_mono by auto
next
  case (log_in us es account password rm jti reply us')
  have "us_fixed ` set us \<subseteq> us_fixed ` set us'" using fixed_set [OF login_rows [OF log_in.hyps(2)]] by simp
  then show ?case using log_in login_grant [OF log_in.hyps(2)] grant_ok_mono by auto
next
  case (maintain us es us')
  then show ?case using fixed_set [OF maintain.hyps(2)] grant_ok_mono by auto
qed auto

text \<open>A question is answered by the rows of its moment.\<close>

lemma asked_rows:
  assumes "auth_run se al us0 us es" and "es = es1 @ Ask token now r # es2"
  shows "\<exists>us1. auth_run se al us0 us1 es1 \<and> r = get_current_user al now (Some token) us1"
  using assms
proof (induction arbitrary: es2 rule: auth_run.induct)
  case (sign_up us es account nickname password rm salt new_id jti seen reply us')
  from sign_up.prems obtain es3 where "es = es1 @ Ask token now r # es3"
    by (cases es2 rule: rev_cases) auto
  then show ?case by (rule sign_up.IH)
next
  case (log_in us es account password rm jti reply us')
  from log_in.prems obtain es3 where "es = es1 @ Ask token now r # es3"
    by (cases es2 rule: rev_cases) auto
  then show ?case by (rule log_in.IH)
next
  case (ask us es token' now')
  then show ?case by (cases es2 rule: rev_cases) auto
next
  case (maintain us es us')
  from maintain.prems obtain es3 where "es = es1 @ Ask token now r # es3"
    by (cases es2 rule: rev_cases) auto
  then show ?case by (rule maintain.IH)
qed simp

subsection \<open>Laws of the libraries\<close>

text \<open>
  \<open>jwt\<close>: what is decoded is what was encoded, and its time is not over; a token in time is decoded. \<open>pwdlib\<close>: a hash
  verifies the password it was made of.
\<close>

definition sound_tokens :: "auth_libs \<Rightarrow> bool" where
  "sound_tokens al \<longleftrightarrow> (\<forall>now c d. al_decode al now (al_encode al c) = Claims d \<longrightarrow>
     d = c \<and> (\<forall>e. dget c (lit ''exp'') = JInt e \<longrightarrow> now < e))"

definition decodes :: "auth_libs \<Rightarrow> dict \<Rightarrow> bool" where
  "decodes al c \<longleftrightarrow> (\<forall>now e. dget c (lit ''exp'') = JInt e \<longrightarrow> now < e \<longrightarrow> al_decode al now (al_encode al c) = Claims c)"

definition verifies :: "auth_libs \<Rightarrow> bool" where
  "verifies al \<longleftrightarrow> (\<forall>salt p. al_verify al p (al_hash al salt p) = Some True)"

lemma dget_claims [simp]:
  "dget (user_claims se u jti now) (lit ''exp'') = JInt (now + se_ttl se)"
  "dget (user_claims se u jti now) (lit ''sub'') = JStr (us_id u)"
  "dget (user_claims se u jti now) (lit ''jti'') = JStr jti"
  "dget (user_claims se u jti now) (lit ''role'') = JStr (user_role_value (us_role u))"
  by (simp_all add: user_claims_def)

lemma dhas_claims [simp]:
  "dhas (user_claims se u jti now) (lit ''exp'')" "dhas (user_claims se u jti now) (lit ''sub'')"
  "dhas (user_claims se u jti now) (lit ''jti'')" "dhas (user_claims se u jti now) (lit ''role'')"
  by (simp_all add: user_claims_def dhas_def)

lemma checked_claims: "check_claims checks d = Inr c \<Longrightarrow> c = d"
  by (induction checks d rule: check_claims.induct) (auto split: if_splits)

lemma current_user:
  assumes "get_current_user al now (Some token) us = Some u"
  shows "\<exists>d. al_decode al now token = Claims d \<and> dget d (lit ''sub'') = JStr (us_id u) \<and> u \<in> set us \<and> us_active u"
  using assms
  by (auto simp: get_current_user_def decode_user_token_def get_by_id_def
    split: sum.splits decoded.splits json.splits option.splits if_splits dest!: find_SomeD checked_claims)

lemma own_token_decoded:
  assumes "decodes al (user_claims se u jti t)" and "strip (us_id u) \<noteq> []" and "strip jti \<noteq> []" and "now < t + se_ttl se"
  shows "decode_user_token al now (issue_user_token se al u jti t) = Inr (user_claims se u jti t)"
proof -
  have "al_decode al now (al_encode al (user_claims se u jti t)) = Claims (user_claims se u jti t)"
    using assms(1,4) by (simp add: decodes_def)
  moreover have "user_role_value r = user_role_value Student \<or> user_role_value r = user_role_value Admin" for r by (cases r) auto
  ultimately show ?thesis
    using assms(2,3) by (simp add: decode_user_token_def issue_user_token_def finite_number_def text_claim_def role_claim_def)
qed

subsection \<open>The properties\<close>

text \<open>C26: Who a token is said to belong to is active, and someone signed up or in as that user and was given this token,
  with the password of that user's row and no longer ago than a token lasts. Nothing is assumed of the token itself but
  that the library only accepts what the routes have issued.\<close>

theorem token_names_who_signed_in:
  assumes "auth_run se al us0 us es" and "unique_rows us0" and "es = es1 @ Ask token now (Some u) # es2"
    and "sound_tokens al" and "al_decode al now token \<noteq> TokenRefused \<longrightarrow> token \<in> issued es1"
  shows "us_active u \<and> (\<exists>account password rm pr. now < rm_now rm + se_ttl se
      \<and> us_account u = normalize_account al (strip account)
      \<and> (SignUp account password rm (Granted token pr) \<in> set es1
           \<and> (\<exists>salt. us_password u = al_hash al salt password)
         \<or> LogIn account password rm (Granted token pr) \<in> set es1
           \<and> al_verify al password (us_password u) = Some True))"
proof -
  obtain us1 where run: "auth_run se al us0 us1 es1" and u: "get_current_user al now (Some token) us1 = Some u"
    using asked_rows [OF assms(1,3)] by auto
  obtain d where d: "al_decode al now token = Claims d" "dget d (lit ''sub'') = JStr (us_id u)"
    and mem: "u \<in> set us1" and active: "us_active u"
    using current_user [OF u] by blast
  have owner: "now < t + se_ttl se \<and> us_account u = us_account v \<and> us_password u = us_password v"
    if v: "token = issue_user_token se al v jti t" "us_fixed v \<in> us_fixed ` set us1" for v jti t
  proof -
    have "d = user_claims se v jti t" and "now < t + se_ttl se"
      using assms(4) d(1) v(1) by (auto simp: sound_tokens_def issue_user_token_def)
    with d(2) have "us_id v = us_id u" by simp
    moreover obtain w where "w \<in> set us1" "us_fixed v = us_fixed w" using v(2) by blast
    ultimately show ?thesis
      using unique_row [OF run_unique [OF run assms(2)] mem, of w] \<open>now < t + se_ttl se\<close> by (auto simp: us_fixed_def)
  qed
  have "token \<in> issued es1" using assms(5) d(1) by simp
  then consider (up) a p rm pr where "SignUp a p rm (Granted token pr) \<in> set es1"
    | (log) a p rm pr where "LogIn a p rm (Granted token pr) \<in> set es1"
    by (auto simp: issued_def)
  then show ?thesis
  proof cases
    case up
    from run_grants [OF run assms(2), rule_format, OF up] obtain v jti salt
      where "token = issue_user_token se al v jti (rm_now rm)" "us_fixed v \<in> us_fixed ` set us1"
        "us_account v = normalize_account al (strip a)" "us_password v = al_hash al salt p" by auto
    with owner active up show ?thesis by metis
  next
    case log
    from run_grants [OF run assms(2), rule_format, OF log] obtain v jti
      where "token = issue_user_token se al v jti (rm_now rm)" "us_fixed v \<in> us_fixed ` set us1"
        "us_account v = normalize_account al (strip a)" "al_verify al p (us_password v) = Some True" by auto
    with owner active log show ?thesis by metis
  qed
qed

text \<open>C27: A password accepted at registration signs its account in later, whatever happened in between and however the account is
  written, as long as the row is active and the limits let the request pass; the token names that row until it is over.\<close>

theorem registered_user_signs_in:
  assumes "auth_run se al us0 us es" and "unique_rows us0"
    and "SignUp account password rm (Granted token pr) \<in> set es"
    and "normalize_account al (strip account') = normalize_account al (strip account)"
    and "\<forall>u \<in> set us. us_account u = normalize_account al (strip account) \<longrightarrow> us_active u \<and> strip (us_id u) \<noteq> []"
    and "credentials_ok account' password" and "login_limit se al rm' (strip account') = Passed"
    and "verifies al" and "\<forall>u. decodes al (user_claims se u jti (rm_now rm'))" and "strip jti \<noteq> []"
    and "now < rm_now rm' + se_ttl se"
  shows "\<exists>token' pr' us' u. login_route se al account' password rm' jti us = (Granted token' pr', us')
    \<and> get_current_user al now (Some token') us' = Some u \<and> us_account u = normalize_account al (strip account)"
proof -
  have unique: "unique_rows us" by (rule run_unique [OF assms(1,2)])
  from run_grants [OF assms(1,2), rule_format, OF assms(3)] obtain u salt
    where u: "u \<in> set us" "us_account u = normalize_account al (strip account)" "us_password u = al_hash al salt password"
    by (auto simp: us_fixed_def)
  have active: "us_active u" and id: "strip (us_id u) \<noteq> []" using assms(5) u(1,2) by auto
  have find: "find (\<lambda>v. us_account v = normalize_account al (strip account')) us = Some u"
  proof (cases "find (\<lambda>v. us_account v = normalize_account al (strip account')) us")
    case None
    then show ?thesis using u(1,2) assms(4) by (auto simp: find_None_iff)
  next
    case (Some w)
    then have "w = u" using find_SomeD [OF Some] unique_account [OF unique _ u(1)] u(2) assms(4) by auto
    with Some show ?thesis by simp
  qed
  define us' where "us' = map (\<lambda>v. if us_id v = us_id u then sign_in (rm_now rm') v else v) us"
  define token' where "token' = issue_user_token se al (sign_in (rm_now rm') u) jti (rm_now rm')"
  have "al_verify al password (us_password u) = Some True" using assms(8) u(3) by (simp add: verifies_def)
  then have "authenticate al (strip account') password (rm_now rm') us = Authenticated (sign_in (rm_now rm') u) us'"
    using find active by (simp add: authenticate_def get_by_account_def us'_def)
  then have login: "login_route se al account' password rm' jti us
      = (Granted token' (serialize_profile (sign_in (rm_now rm') u)), us')"
    using assms(6,7) by (simp add: login_route_def token'_def)
  have "decode_user_token al now token' = Inr (user_claims se (sign_in (rm_now rm') u) jti (rm_now rm'))"
    unfolding token'_def by (rule own_token_decoded) (use assms(9,10,11) id in auto)
  moreover have "get_by_id us' (us_id u) = Some (sign_in (rm_now rm') u)"
  proof -
    have "get_by_id us' (us_id u) \<noteq> None" using u(1) by (auto simp: get_by_id_def us'_def find_None_iff)
    then obtain w where w: "get_by_id us' (us_id u) = Some w" by blast
    then obtain v where "v \<in> set us" "us_id v = us_id u" "w = sign_in (rm_now rm') v"
      using find_SomeD [of _ us' w] by (auto simp: get_by_id_def us'_def split: if_splits)
    with unique_row [OF unique _ u(1)] w show ?thesis by auto
  qed
  ultimately have "get_current_user al now (Some token') us' = Some (sign_in (rm_now rm') u)"
    using active id by (auto simp: get_current_user_def strip_def)
  with login u(2) show ?thesis by (metis sign_in_fields(2))
qed

text \<open>The requests to sign in to one account that are answered about their password\<close>

definition asks_limit :: "auth_settings \<Rightarrow> auth_libs \<Rightarrow> str \<Rightarrow> auth_event \<Rightarrow> bool" where
  "asks_limit se al key e \<longleftrightarrow> (case e of
     LogIn a p rm reply \<Rightarrow> account_key se al (strip a) = key \<and> credentials_ok a p
       \<and> check_limit (rm_redis rm) (limit_key se ''login-ip'' (client_identity se al rm)) 120 = Passed
   | _ \<Rightarrow> False)"

definition counted :: "str \<Rightarrow> auth_event \<Rightarrow> count_answer" where
  "counted key e = (case e of LogIn a p rm reply \<Rightarrow> rm_redis rm key | _ \<Rightarrow> RedisFails)"

definition tries_password :: "auth_settings \<Rightarrow> auth_libs \<Rightarrow> str \<Rightarrow> auth_event \<Rightarrow> bool" where
  "tries_password se al key e \<longleftrightarrow> (case e of
     LogIn a p rm reply \<Rightarrow> account_key se al (strip a) = key \<and> reply \<notin> {Denied 422, Denied 429, Denied 503}
   | _ \<Rightarrow> False)"

lemma run_logins:
  assumes "auth_run se al us0 us es" and "LogIn a p rm reply \<in> set es"
  shows "\<exists>us1 us2 jti. login_route se al a p rm jti us1 = (reply, us2)"
  using assms by (induction rule: auth_run.induct) auto

lemma password_tried:
  assumes "auth_run se al us0 us es" and "e \<in> set es" and "tries_password se al key e" and "\<not> se_test se"
  shows "asks_limit se al key e \<and> (\<exists>n \<le> 8. counted key e = Counted n)"
proof -
  obtain a p rm reply where e: "e = LogIn a p rm reply" and key: "account_key se al (strip a) = key"
    and reply: "reply \<notin> {Denied 422, Denied 429, Denied 503}"
    using assms(3) by (auto simp: tries_password_def split: auth_event.splits)
  obtain us1 us2 jti where route: "login_route se al a p rm jti us1 = (reply, us2)"
    using run_logins [OF assms(1) assms(2) [unfolded e]] by blast
  then have ok: "credentials_ok a p" and passed: "login_limit se al rm (strip a) = Passed"
    using reply by (auto simp: login_route_def limit_status_def split: if_splits limit_result.splits)
  from passed assms(4) have ip: "check_limit (rm_redis rm) (limit_key se ''login-ip'' (client_identity se al rm)) 120 = Passed"
    and "check_limit (rm_redis rm) key 8 = Passed"
    by (auto simp: login_limit_def key split: limit_result.splits)
  then have "\<exists>n \<le> 8. rm_redis rm key = Counted n"
    by (auto simp: check_limit_def split: count_answer.splits if_splits)
  with ok ip key show ?thesis by (simp add: e asks_limit_def counted_def)
qed


end
