(* ===== verification/AccountScenario.thy ===== *)
theory AccountScenario
  imports AccountProperties
begin

section \<open>Concrete accounts\<close>

text \<open>Libraries that obey their laws, a registration, and requests that show the hypotheses of the properties can hold.\<close>

definition plain_settings :: auth_settings where
  "plain_settings = \<lparr>se_test = True, se_issuer = lit ''api'', se_audience = lit ''web'', se_ttl = 3600, se_proxies = [],
     se_limit_secret = None\<rparr>"

definition anna :: "str \<Rightarrow> user_role \<Rightarrow> user" where
  "anna i r = \<lparr>us_id = i, us_account = lit ''anna'', us_nickname = lit ''A'', us_password = lit ''secret'', us_role = r,
     us_active = True, us_created = 100, us_last_login = Some 100\<rparr>"

definition claims_of :: "str \<Rightarrow> user_role \<Rightarrow> dict" where
  "claims_of i r = user_claims plain_settings (anna i r) (lit ''j'') 100"

definition plain_token :: "dict \<Rightarrow> str" where
  "plain_token d =
     (let i = the_str (dget d (lit ''sub'')) in
      if d = claims_of i Student then 0 # i else if d = claims_of i Admin then 1 # i else [])"

definition plain_decode :: "int \<Rightarrow> str \<Rightarrow> decoded" where
  "plain_decode now t =
     (case t of r # i \<Rightarrow> if now < 3700 then Claims (claims_of i (if r = 0 then Student else Admin)) else TokenRefused
      | [] \<Rightarrow> TokenRefused)"

definition plain_auth :: auth_libs where
  "plain_auth = \<lparr>al_lower = id, al_casefold = id, al_hash = \<lambda>salt p. p, al_verify = \<lambda>p h. Some (p = h),
     al_encode = plain_token, al_decode = plain_decode, al_address = \<lambda>a. None, al_in_network = \<lambda>c a. None\<rparr>"

definition counting :: "int \<Rightarrow> request_meta" where
  "counting n = \<lparr>rm_peer = None, rm_forwarded = None, rm_redis = \<lambda>k. Counted n, rm_now = 100\<rparr>"

lemma plain_decoded: "plain_decode now (plain_token c) = Claims d \<Longrightarrow> d = c \<and> now < 3700"
proof -
  obtain i where i: "the_str (dget c (lit ''sub'')) = i" by blast
  have "plain_token c = (if c = claims_of i Student then 0 # i else if c = claims_of i Admin then 1 # i else [])"
    by (simp only: plain_token_def i Let_def)
  then show "plain_decode now (plain_token c) = Claims d \<Longrightarrow> d = c \<and> now < 3700"
    by (auto simp: plain_decode_def split: if_splits)
qed

lemma plain_sound: "sound_tokens plain_auth"
proof -
  have "e = 3700" if "plain_decode now (plain_token c) = Claims d" "dget c (lit ''exp'') = JInt e" for now c d e
  proof -
    have "dget (claims_of i r) (lit ''exp'') = JInt 3700" for i r by (simp add: claims_of_def plain_settings_def)
    moreover have "\<exists>i r. d = claims_of i r" using that(1) by (auto simp: plain_decode_def split: list.splits if_splits)
    ultimately show ?thesis using plain_decoded [OF that(1)] that(2) by auto
  qed
  then show ?thesis using plain_decoded by (simp add: sound_tokens_def plain_auth_def) blast
qed

lemma plain_decodes: "decodes plain_auth (user_claims plain_settings u (lit ''j'') 100)"
proof -
  have "user_claims plain_settings u (lit ''j'') 100 = claims_of (us_id u) (us_role u)"
    by (simp add: claims_of_def user_claims_def anna_def)
  then show ?thesis
    by (cases "us_role u") (auto simp: decodes_def plain_auth_def plain_token_def plain_decode_def Let_def claims_of_def
      user_claims_def plain_settings_def anna_def user_role_value_def)
qed

definition anna_signs_up :: auth_event where
  "anna_signs_up = SignUp (lit '' anna'') (lit ''secret'') (counting 1)
     (Granted (0 # lit ''1'') (serialize_profile (anna (lit ''1'') Student)))"

lemma anna_route:
  "register_route plain_settings plain_auth (lit '' anna'') (lit ''A'') (lit ''secret'') (counting 1) 0 (lit ''1'') (lit ''j'') [] []
   = (Granted (0 # lit ''1'') (serialize_profile (anna (lit ''1'') Student)), [anna (lit ''1'') Student])"
  by code_simp

lemma anna_run: "auth_run plain_settings plain_auth [] [anna (lit ''1'') Student] [anna_signs_up]"
  using auth_run.sign_up [OF auth_run.start anna_route] by (simp add: anna_signs_up_def)

lemma anna_asked: "get_current_user plain_auth 200 (Some (0 # lit ''1'')) [anna (lit ''1'') Student] = Some (anna (lit ''1'') Student)"
  by code_simp

lemma token_names_who_signed_in_witness:
  "auth_run plain_settings plain_auth [] [anna (lit ''1'') Student]
     ([anna_signs_up] @ Ask (0 # lit ''1'') 200 (Some (anna (lit ''1'') Student)) # [])
   \<and> us_active (anna (lit ''1'') Student)
   \<and> (\<exists>account password rm pr. 200 < rm_now rm + se_ttl plain_settings
        \<and> us_account (anna (lit ''1'') Student) = normalize_account plain_auth (strip account)
        \<and> (SignUp account password rm (Granted (0 # lit ''1'') pr) \<in> set [anna_signs_up]
             \<and> (\<exists>salt. us_password (anna (lit ''1'') Student) = al_hash plain_auth salt password)
           \<or> LogIn account password rm (Granted (0 # lit ''1'') pr) \<in> set [anna_signs_up]
             \<and> al_verify plain_auth password (us_password (anna (lit ''1'') Student)) = Some True))"
proof -
  have run: "auth_run plain_settings plain_auth [] [anna (lit ''1'') Student]
      ([anna_signs_up] @ Ask (0 # lit ''1'') 200 (Some (anna (lit ''1'') Student)) # [])"
    using auth_run.ask [OF anna_run, of "0 # lit ''1''" 200] anna_asked by simp
  have "unique_rows []" by (simp add: unique_rows_def)
  moreover have "0 # lit ''1'' \<in> issued [anna_signs_up]" by (simp add: issued_def anna_signs_up_def)
  ultimately show ?thesis
    using run token_names_who_signed_in [OF run _ refl plain_sound] by blast
qed

lemma registered_user_signs_in_witness:
  "\<exists>token' pr' us' u. login_route plain_settings plain_auth (lit ''anna '') (lit ''secret'') (counting 1) (lit ''j'')
        [anna (lit ''1'') Student] = (Granted token' pr', us')
    \<and> get_current_user plain_auth 200 (Some token') us' = Some u
    \<and> us_account u = normalize_account plain_auth (strip (lit '' anna''))"
proof (rule registered_user_signs_in [OF anna_run])
  show "SignUp (lit '' anna'') (lit ''secret'') (counting 1) (Granted (0 # lit ''1'') (serialize_profile (anna (lit ''1'') Student)))
      \<in> set [anna_signs_up]"
    by (simp add: anna_signs_up_def)
  show "normalize_account plain_auth (strip (lit ''anna '')) = normalize_account plain_auth (strip (lit '' anna''))"
    by code_simp
  show "\<forall>u \<in> set [anna (lit ''1'') Student]. us_account u = normalize_account plain_auth (strip (lit '' anna''))
      \<longrightarrow> us_active u \<and> strip (us_id u) \<noteq> []"
    by code_simp
  show "credentials_ok (lit ''anna '') (lit ''secret'')" by code_simp
  show "login_limit plain_settings plain_auth (counting 1) (strip (lit ''anna '')) = Passed"
    by (simp add: login_limit_def plain_settings_def)
  show "\<forall>u. decodes plain_auth (user_claims plain_settings u (lit ''j'') (rm_now (counting 1)))"
    using plain_decodes by (simp add: counting_def)
qed (simp_all add: unique_rows_def verifies_def plain_auth_def plain_settings_def counting_def strip_def lit_def is_space_def)


end
