(* ===== verification/Spec2Isabelle.thy ===== *)
theory Spec2Isabelle
  imports RunProperties AgentScenario ProfileScenario GatewayProperties ServiceScenario
    JobMatchingProperties FetchScenario AccountScenario
begin

text \<open>
  The agent runtime of the career assistant.

  \<^bold>\<open>The program.\<close> A user's goal becomes a \<^emph>\<open>run\<close>. The runtime asks a Planner for a plan of typed
  steps, checks it, stores it, and takes the steps one after the other: an Executor calls tools and
  reports observations; what the tools observed is stored as evidence; a deterministic gate over the
  completion contracts of the step's skills, and sometimes a Verifier, decide whether the step is
  done, tried again, replanned, handed to the user or failed. Everything a run does is appended to
  its event log, budgets bound what it may spend, and a run that paused for a reason the harness may
  repair is started again with a larger budget.

  \<^bold>\<open>The theories\<close>, in the order of their imports, and the code they model:
  \<^item> \<open>Prelude\<close>: Python's values: \<open>str\<close> as a list of code points, \<open>dict\<close> as an ordered association
    list, JSON, truth values, slices, and the lemmas the components share.
  \<^item> \<open>Lifecycle\<close>: \<open>domain/agent_runtime.py\<close>, the statuses and the transition table.
  \<^item> \<open>Budgets\<close>: \<open>turn_budget.py\<close>, \<open>tool_budget.py\<close>, \<open>model_budget.py\<close>.
  \<^item> \<open>Schemas\<close>: \<open>schemas.py\<close>, the validated values the roles exchange and the authority of a plan.
  \<^item> \<open>ErrorPolicy\<close>: \<open>error_policy.py\<close>, terminal contracts and error classification.
  \<^item> \<open>Messages\<close>: the Chinese texts of the source.
  \<^item> \<open>SkillContracts\<close>: \<open>skill_definition.py\<close>, skills, ports and completion contracts.
  \<^item> \<open>CompletionGate\<close>: \<open>completion_gate.py\<close> and the gate helpers of \<open>runtime.py\<close>.
  \<^item> \<open>RunStore\<close>: \<open>repositories/agent_runtime.py\<close> over the tables of \<open>db/models.py\<close>.
  \<^item> \<open>CareerManifest\<close>: \<open>career_skills/manifest.py\<close>, the contracts of the three career skills.
  \<^item> \<open>Sha256\<close>: the standard library's hash, written out over 32-bit words.
  \<^item> \<open>StepInputs\<close>, \<open>PlanIdentity\<close>, \<open>Evidence\<close>, \<open>RecoveryPrograms\<close>, \<open>RunStep\<close>, \<open>RunLoop\<close>:
    \<open>agent_runtime/runtime.py\<close>: what a step reads, when two plans are the same, what becomes
    evidence, what a skill's recovery may do, one step, and the run around the steps.
  \<^item> \<open>DiscoveryPolicy\<close>: \<open>skill/job_discovery/runtime/discovery_policy.py\<close>.
  \<^item> \<open>StepSafety\<close>, \<open>RunSafety\<close>, \<open>RunOutcome\<close>: lemmas over steps, passes and runs;
    \<open>Scenario\<close>: one concrete run for the witnesses; \<open>RunProperties\<close>: the properties of runs.
  \<^item> \<open>EventStream\<close>: the event stream of \<open>routes/agent_runtime.py\<close>, and a client that reconnects.
  \<^item> \<open>ToolRegistry\<close>, \<open>ObservationProjection\<close>: \<open>tool_registry.py\<close>, \<open>observation_projection.py\<close>.
  \<^item> \<open>PlanRepair\<close>, \<open>PlannerAgent\<close>: \<open>planner_agent.py\<close> with \<open>context_manifest.py\<close> and
    \<open>tracing.py\<close>: the plans and repairs no model decides, and the Planner's loop around the model.
  \<^item> \<open>AgentScenario\<close>: concrete inputs for the witnesses of the last four.
  \<^item> \<open>ResumeParser\<close>: \<open>services/profile_parser.py\<close> with \<open>domain/profiles.py\<close>: what is read from a resume.
  \<^item> \<open>ProfileStore\<close>, \<open>ProfileService\<close>: \<open>repositories/profiles.py\<close>, \<open>services/storage.py\<close>,
    \<open>services/profiles.py\<close> and \<open>routes/profiles.py\<close>: documents, imports, decisions and confirmed versions.
  \<^item> \<open>ProfileSafety\<close>, \<open>ProfileIsolation\<close>, \<open>ProfileProperties\<close>: the invariant of the tables, what a user's
    requests leave of the others' rows, and the properties; \<open>ProfileScenario\<close>: their witnesses.
  \<^item> \<open>JsonText\<close>: the standard library's JSON reader, and that it reads back what is printed.
  \<^item> \<open>ModelGateway\<close>, \<open>GatewayProperties\<close>: \<open>model_gateway.py\<close>: what is sent to a provider, how its replies
    are read, repaired and validated, and what a decision may cost.
  \<^item> \<open>RunService\<close>, \<open>RunServiceProperties\<close>, \<open>ServiceScenario\<close>: \<open>service.py\<close> and the routes of
    \<open>routes/agent_runtime.py\<close>: starting, queueing, continuing and reading runs.
  \<^item> \<open>SkillTexts\<close>, \<open>JobText\<close>, \<open>JobMatching\<close>, \<open>JobMatchingProperties\<close>:
    \<open>skill/job_matching/runtime/job_matching.py\<close>: its marker words, the URLs, dates and numbers it reads,
    the constraints, scores and ranking of a match report, and what the report guarantees.

  \<^item> \<open>WebUrl\<close>, \<open>PageEvidence\<close>, \<open>PublicFetch\<close>: the fetch tools of \<open>skill/job_discovery/runtime/job_discovery.py\<close>: URLs,
    what a page is evidence of, and the fetch of a URL as a program, a tree of what it asks of the outside.
  \<^item> \<open>FetchSafety\<close>: a weakest precondition for programs and what each function of the fetch may do; \<open>FetchPool\<close>: the
    threads of a batch (\<open>tools/batch_progress.py\<close>) as a step relation, and the properties; \<open>FetchScenario\<close>: concrete batches.
  \<^item> \<open>Accounts\<close>, \<open>AccountProperties\<close>, \<open>AccountScenario\<close>: \<open>services/auth.py\<close>, \<open>services/rate_limit.py\<close>,
    \<open>routes/auth.py\<close> and the user of a request in \<open>api/dependencies.py\<close>, with the runs of the sign-in routes.

  \<^bold>\<open>State.\<close> The store is a record of the six tables of a run, as lists of rows in insertion order;
  \<open>rt\<close> adds the budgets, the clock and the position in the answers of the outside world. A Python
  exception that the code raises or catches is a value of a sum or an option. What is outside the
  repository or is a language model (the gateway's answers, the Executor, whose loop is not in the
  repository, the tools) is an argument of the model: a function of the request and of the position,
  so that every behaviour over time is covered. No law is assumed of it, but for the token and password libraries
  in the properties of accounts, which name theirs, and the counts of the rate limiter. The run is modelled over any
  Planner; that the Planner of \<open>PlannerAgent\<close> is one of them is a theorem.

  \<^bold>\<open>Loops.\<close> The one fuel is that of the JSON reader, twice the length of the text, and is
  proved to be enough. The attempts of a step, the rounds of a pass and the passes
  of a run are \<open>function\<close>s with a measure built from the replan budget and the recoveries left, so
  that a run always ends is part of their definition; how often they turn is stated separately.

  \<^bold>\<open>What the lemmas show.\<close> Validators accept exactly what their specification describes; ledgers
  never pass their limits and leak nothing; event logs stay numbered without gaps; evidence refs are
  backed by tools that were called; a step with a contract only succeeds on evidence that met it; a
  step closes its row and a run its row with the status it reports; the number of attempts, plans and
  passes is bounded by the budgets; a run touches no other run's rows; the Planner returns only valid
  plans, whatever the model answers; a client of the event stream gets every event once;
  a decision of the gateway sends at
  most four requests, all metered; the profile tables stay consistent under every request, users are isolated, of two writes expecting the
  same version one wins, and a confirmed version holds the last decision on each field; a request
  for a run is executed once, as it was asked, with the facts its user confirmed, and nobody sees what
  the others' requests and runs do; a match report holds only observed jobs that meet the constraints and the
  channel of the goal; a batch of fetches ends whatever is answered and however its threads are interleaved, requests only
  URLs whose host was found public (but for two fixed index pages), and accounts for every URL; a token names a user who signed in with the password
  of the account.

  \<^bold>\<open>Not modelled.\<close> Prompt texts and the answers of models (they are arguments); the
  wiring of the application; live browser, network, OCR and spreadsheet adapters (the fetch takes their answers as
  arguments); the HTML tokenizer and the address tables of the standard library; the search for pages and the
  extraction of details from them; the text generation of resume tailoring and career planning; the skill's batch scripts and its text heuristics
  for job descriptions; the packages and subprocesses of skills; the settings of providers; migrations. Concurrency of two workers on one run is
  excluded by the row locks of the repository and is not modelled; a flush or commit that fails is
  not either.
\<close>

end
